(* ===== verification/Prelude.thy ===== *)
theory Prelude
  imports Complex_Main "HOL-Library.AList" "HOL-Library.Multiset" "HOL-Library.Word"
begin

text \<open>
  Shared vocabulary of the development: the Go values that every component of
  torpedo passes around.

  \<^item> machine integers: \<open>u64\<close> is Go's \<open>uint64\<close>, \<open>i64\<close> is \<open>int64\<close> (read with \<open>sint\<close>);
  \<^item> a Go map is an association list with distinct keys (\<open>gm_ok\<close>). The position of an
    entry in the list is its place in one \<open>range\<close> iteration; Go leaves that order
    unspecified, and every theorem quantifies over all lists, hence over all orders;
  \<^item> reading a missing key yields the zero value of the element type (\<open>gm_index\<close>);
  \<^item> a fallible call returns \<open>Inl error\<close> or \<open>Inr value\<close>.
\<close>

named_theorems gomap_simps \<open>laws of the Go map operations\<close>
named_theorems registry_defs \<open>definitions of the registries\<close>

type_synonym u64 = "64 word"
type_synonym i64 = "64 word"
type_synonym ('k, 'v) gomap = "('k \<times> 'v) list"

section \<open>Go maps\<close>

definition gm_ok :: "('k, 'v) gomap \<Rightarrow> bool" where
  "gm_ok m \<longleftrightarrow> distinct (map fst m)"

definition gm_has :: "('k, 'v) gomap \<Rightarrow> 'k \<Rightarrow> bool" where
  "gm_has m k \<longleftrightarrow> map_of m k \<noteq> None"

definition gm_index :: "'v \<Rightarrow> ('k, 'v) gomap \<Rightarrow> 'k \<Rightarrow> 'v" where
  "gm_index z m k = (case map_of m k of None \<Rightarrow> z | Some v \<Rightarrow> v)"

definition gm_put :: "'k \<Rightarrow> 'v \<Rightarrow> ('k, 'v) gomap \<Rightarrow> ('k, 'v) gomap" where
  "gm_put k v m = AList.update k v m"

definition gm_del :: "'k \<Rightarrow> ('k, 'v) gomap \<Rightarrow> ('k, 'v) gomap" where
  "gm_del k m = AList.delete k m"

definition gm_values :: "('k, 'v) gomap \<Rightarrow> 'v list" where
  "gm_values m = map snd m"

lemma gm_ok_Nil [simp]: "gm_ok []"
  by (simp add: gm_ok_def)

lemma gm_ok_map_of: "gm_ok m \<Longrightarrow> map_of m k = Some v \<longleftrightarrow> (k, v) \<in> set m"
  by (simp add: gm_ok_def)

lemma gm_ok_put [simp, intro]: "gm_ok m \<Longrightarrow> gm_ok (gm_put k v m)"
  by (simp add: gm_ok_def gm_put_def distinct_update)

lemma gm_ok_del [simp, intro]: "gm_ok m \<Longrightarrow> gm_ok (gm_del k m)"
  by (simp add: gm_ok_def gm_del_def distinct_delete)

lemma map_of_put [simp, gomap_simps]: "map_of (gm_put k v m) = (map_of m)(k \<mapsto> v)"
  by (simp add: gm_put_def update_conv')

lemma list_all_put: "list_all P m \<Longrightarrow> P (k, v) \<Longrightarrow> list_all P (gm_put k v m)"
  unfolding gm_put_def by (induction m) auto

lemma map_of_del [simp, gomap_simps]: "map_of (gm_del k m) = (map_of m)(k := None)"
  by (simp add: gm_del_def delete_conv')

lemma gm_values_Nil [simp]: "gm_values [] = []"
  by (simp add: gm_values_def)

lemma set_gm_values: "gm_ok m \<Longrightarrow> set (gm_values m) = ran (map_of m)"
  by (simp add: gm_ok_def gm_values_def ran_distinct)

lemma gm_index_put [simp, gomap_simps]:
  "gm_index z (gm_put k v m) k' = (if k' = k then v else gm_index z m k')"
  by (simp add: gm_index_def)

text \<open>Two association lists that represent the same map are permutations of each other:
  what a \<open>range\<close> loop collects does not depend on the iteration order, up to order.\<close>

lemma mset_of_same_map:
  assumes "gm_ok m" "gm_ok m'" "map_of m = map_of m'"
  shows "mset m = mset m'"
proof -
  have "set m = set m'"
    using assms by (metis gm_ok_def map_of_inject_set)
  with assms show ?thesis
    by (simp add: gm_ok_def distinct_map set_eq_iff_mset_eq_distinct)
qed

lemma mset_values_of_same_map:
  assumes "gm_ok m" "gm_ok m'" "map_of m = map_of m'"
  shows "mset (gm_values m) = mset (gm_values m')"
  using mset_of_same_map [OF assms] by (simp add: gm_values_def mset_map)

end
