(* ===== verification/GoStrings.thy ===== *)
theory GoStrings
  imports Prelude "HOL-Library.Sublist"
begin

text \<open>
  The functions of Go's \<open>strings\<close>, \<open>strconv\<close>, \<open>bufio\<close> and \<open>fmt\<close> packages that the
  components use, on strings as lists of bytes. White space and letter case are those of
  ASCII, the only characters in the command outputs and object names that torpedo handles.
\<close>

section \<open>Package strings\<close>

definition HasPrefix :: "string \<Rightarrow> string \<Rightarrow> bool" where
  "HasPrefix s p \<longleftrightarrow> take (length p) s = p"

fun Contains_str :: "string \<Rightarrow> string \<Rightarrow> bool" where
  "Contains_str [] sub \<longleftrightarrow> sub = []"
| "Contains_str (c # cs) sub \<longleftrightarrow> HasPrefix (c # cs) sub \<or> Contains_str cs sub"

definition TrimLeft :: "string \<Rightarrow> string \<Rightarrow> string" where
  "TrimLeft s cutset = dropWhile (\<lambda>c. c \<in> set cutset) s"

definition TrimRight :: "string \<Rightarrow> string \<Rightarrow> string" where
  "TrimRight s cutset = rev (dropWhile (\<lambda>c. c \<in> set cutset) (rev s))"

definition Trim :: "string \<Rightarrow> string \<Rightarrow> string" where
  "Trim s cutset = TrimRight (TrimLeft s cutset) cutset"

definition TrimPrefix :: "string \<Rightarrow> string \<Rightarrow> string" where
  "TrimPrefix s p = (if HasPrefix s p then drop (length p) s else s)"

text \<open>\<open>strings.Replace(s, c, "", -1)\<close> for a one-byte \<open>c\<close>.\<close>

definition RemoveChar :: "string \<Rightarrow> char \<Rightarrow> string" where
  "RemoveChar s c = filter (\<lambda>x. x \<noteq> c) s"

text \<open>\<open>strings.ReplaceAll\<close> for a pattern that is not empty.\<close>

function ReplaceAll :: "string \<Rightarrow> string \<Rightarrow> string \<Rightarrow> string" where
  "ReplaceAll s old new =
     (if old = [] then s
      else (case s of
        [] \<Rightarrow> []
      | c # cs \<Rightarrow>
          if HasPrefix s old then new @ ReplaceAll (drop (length old) s) old new
          else c # ReplaceAll cs old new))"
  by pat_completeness auto
termination
  by (relation "measure (\<lambda>(s, old, new). length s)") (auto simp: neq_Nil_conv)

declare ReplaceAll.simps [simp del]

text \<open>\<open>strconv.ParseBool\<close>; the callers ignore the error, and read the value \<open>false\<close>.\<close>

definition ParseBool :: "string \<Rightarrow> bool option" where
  "ParseBool s =
     (if s \<in> {''1'', ''t'', ''T'', ''TRUE'', ''true'', ''True''} then Some True
      else if s \<in> {''0'', ''f'', ''F'', ''FALSE'', ''false'', ''False''} then Some False
      else None)"

definition ParseBool_value :: "string \<Rightarrow> bool" where
  "ParseBool_value s = (ParseBool s = Some True)"

text \<open>Line feed, tab, vertical tab, form feed, carriage return and space.\<close>

definition go_tab :: char where "go_tab = CHR 0x09"
definition go_nl :: char where "go_nl = CHR 0x0A"
definition go_cr :: char where "go_cr = CHR 0x0D"

definition go_space :: string where
  "go_space = [CHR 0x09, CHR 0x0A, CHR 0x0B, CHR 0x0C, CHR 0x0D, CHR '' '']"

definition isSpace :: "char \<Rightarrow> bool" where
  "isSpace c \<longleftrightarrow> c \<in> set go_space"

definition TrimSpace :: "string \<Rightarrow> string" where
  "TrimSpace s = Trim s go_space"

text \<open>\<open>strings.Split\<close> with a one-byte separator.\<close>

fun Split :: "string \<Rightarrow> char \<Rightarrow> string list" where
  "Split [] c = [[]]"
| "Split (x # xs) c =
     (if x = c then [] # Split xs c
      else (case Split xs c of [] \<Rightarrow> [[x]] | w # ws \<Rightarrow> (x # w) # ws))"

text \<open>\<open>strings.Fields\<close>: the maximal runs of characters that are not white space.\<close>

fun fields_aux :: "string \<Rightarrow> string \<Rightarrow> string list" where
  "fields_aux w [] = (if w = [] then [] else [rev w])"
| "fields_aux w (c # cs) =
     (if isSpace c then (if w = [] then fields_aux [] cs else rev w # fields_aux [] cs)
      else fields_aux (c # w) cs)"

definition Fields :: "string \<Rightarrow> string list" where
  "Fields s = fields_aux [] s"

definition lower_char :: "char \<Rightarrow> char" where
  "lower_char c = (let k = of_char c :: nat in
     if 65 \<le> k \<and> k \<le> 90 then char_of (k + 32) else c)"

definition ToLower :: "string \<Rightarrow> string" where
  "ToLower s = map lower_char s"

fun Join :: "string list \<Rightarrow> string \<Rightarrow> string" where
  "Join [] sep = []"
| "Join [w] sep = w"
| "Join (w # v # ws) sep = w @ sep @ Join (v # ws) sep"

section \<open>Package bufio: the lines a Scanner yields\<close>

text \<open>
  \<open>ScanLines\<close> ends a line at every line feed, drops one carriage return before it, and
  yields the rest of the input as a last line when it is not empty. The limit of 64 KiB
  per line, after which \<open>Scan\<close> gives up, is not modelled.
\<close>

definition dropCR :: "string \<Rightarrow> string" where
  "dropCR s = (if s \<noteq> [] \<and> last s = go_cr then butlast s else s)"

definition ScanLines :: "string \<Rightarrow> string list" where
  "ScanLines s = (let ls = Split s go_nl in
     map dropCR (if last ls = [] then butlast ls else ls))"

section \<open>Packages strconv and fmt: decimal numbers\<close>

definition digit_char :: "nat \<Rightarrow> char" where
  "digit_char d = char_of (48 + d)"

definition digit_val :: "char \<Rightarrow> nat option" where
  "digit_val c = (let k = of_char c :: nat in
     if 48 \<le> k \<and> k \<le> 57 then Some (k - 48) else None)"

fun show_nat :: "nat \<Rightarrow> string" where
  "show_nat n = (if n < 10 then [digit_char n] else show_nat (n div 10) @ [digit_char (n mod 10)])"

declare show_nat.simps [simp del]

definition show_int :: "int \<Rightarrow> string" where
  "show_int i = (if i < 0 then CHR ''-'' # show_nat (nat (- i)) else show_nat (nat i))"

definition show_u64 :: "u64 \<Rightarrow> string" where
  "show_u64 w = show_nat (unat w)"

fun digits_val :: "nat \<Rightarrow> string \<Rightarrow> nat option" where
  "digits_val acc [] = Some acc"
| "digits_val acc (c # cs) =
     (case digit_val c of None \<Rightarrow> None | Some d \<Rightarrow> digits_val (10 * acc + d) cs)"

text \<open>\<open>strconv.Quote\<close> and the verb \<open>%q\<close>, on text of characters that they write unchanged.\<close>

definition Quote :: "string \<Rightarrow> string" where
  "Quote s = [CHR 0x22] @ s @ [CHR 0x22]"

text \<open>\<open>strconv.ParseUint(s, 10, 64)\<close>: a syntax error and a range error are both \<open>None\<close>.\<close>

definition ParseUint :: "string \<Rightarrow> u64 option" where
  "ParseUint s = (if s = [] then None else
     (case digits_val 0 s of None \<Rightarrow> None
      | Some n \<Rightarrow> if n < 2 ^ 64 then Some (of_nat n) else None))"

section \<open>Laws\<close>

lemma HasPrefix_iff_prefix: "HasPrefix s p \<longleftrightarrow> prefix p s"
  by (auto simp: HasPrefix_def prefix_def) (metis append_take_drop_id)

lemma Contains_str_iff: "Contains_str s sub \<longleftrightarrow> (\<exists>u v. s = u @ sub @ v)"
proof (induction s)
  case Nil
  then show ?case by simp
next
  case (Cons c cs)
  have "(\<exists>u v. c # cs = u @ sub @ v) \<longleftrightarrow>
      (\<exists>v. c # cs = sub @ v) \<or> (\<exists>u v. cs = u @ sub @ v)"
    (is "?L \<longleftrightarrow> ?R")
  proof
    assume ?L
    then obtain u v where "c # cs = u @ sub @ v" by blast
    then show ?R by (cases u) auto
  next
    assume ?R
    then show ?L by (metis append_Cons append_Nil)
  qed
  with Cons show ?case
    by (simp add: HasPrefix_iff_prefix prefix_def)
qed

lemma Contains_str_self [simp]: "Contains_str (u @ s @ v) s"
  by (auto simp: Contains_str_iff)

lemma ReplaceAll_absent: "\<not> Contains_str s old \<Longrightarrow> ReplaceAll s old new = s"
proof (induction s)
  case Nil
  then show ?case by (subst ReplaceAll.simps) simp
next
  case (Cons c s)
  then show ?case by (subst ReplaceAll.simps) (simp add: HasPrefix_def)
qed

lemma Split_neq_Nil [simp]: "Split s c \<noteq> []"
  by (induction s) (auto split: list.splits)

lemma Split_no_sep: "w \<in> set (Split s c) \<Longrightarrow> c \<notin> set w"
  by (induction s arbitrary: w) (auto split: list.splits if_splits)

lemma Split_word: "c \<notin> set w \<Longrightarrow> Split w c = [w]"
  by (induction w) auto

lemma Split_word_sep: "c \<notin> set w \<Longrightarrow> Split (w @ c # s) c = w # Split s c"
  by (induction w) auto

lemma Split_Join: "ls \<noteq> [] \<Longrightarrow> \<forall>l\<in>set ls. c \<notin> set l \<Longrightarrow> Split (Join ls [c]) c = ls"
  by (induction ls "[c]" rule: Join.induct) (auto simp: Split_word Split_word_sep)

lemma Trim_id: "s = [] \<or> hd s \<notin> set cs \<and> last s \<notin> set cs \<Longrightarrow> Trim s cs = s"
proof (cases "s = []")
  case False
  assume "s = [] \<or> hd s \<notin> set cs \<and> last s \<notin> set cs"
  then have "dropWhile (\<lambda>c. c \<in> set cs) s = s" "dropWhile (\<lambda>c. c \<in> set cs) (rev s) = rev s"
    using False by (simp_all add: dropWhile_eq_self_iff hd_rev)
  then show ?thesis by (simp add: Trim_def TrimLeft_def TrimRight_def)
qed (simp add: Trim_def TrimLeft_def TrimRight_def)

lemma Trim_pad: "set l \<subseteq> set cs \<Longrightarrow> Trim (l @ s) cs = Trim s cs"
  by (auto simp: Trim_def TrimLeft_def dropWhile_append3 subset_iff)

lemma Join_Split: "Join (Split s c) [c] = s"
proof (induction s)
  case Nil
  then show ?case by simp
next
  case (Cons x xs)
  obtain w ws where "Split xs c = w # ws"
    by (cases "Split xs c") auto
  with Cons show ?case
    by (cases ws) auto
qed

lemma fields_aux_props:
  "\<forall>c\<in>set w. \<not> isSpace c \<Longrightarrow>
     \<forall>f\<in>set (fields_aux w s). f \<noteq> [] \<and> (\<forall>c\<in>set f. \<not> isSpace c)"
proof (induction s arbitrary: w)
  case (Cons c s)
  have "\<forall>f\<in>set (fields_aux [] s). f \<noteq> [] \<and> (\<forall>c\<in>set f. \<not> isSpace c)"
    by (rule Cons.IH) simp
  moreover have "\<not> isSpace c \<Longrightarrow>
      \<forall>f\<in>set (fields_aux (c # w) s). f \<noteq> [] \<and> (\<forall>c\<in>set f. \<not> isSpace c)"
    by (rule Cons.IH) (use Cons.prems in simp)
  ultimately show ?case
    using Cons.prems by simp
qed simp

lemma Fields_no_space: "f \<in> set (Fields s) \<Longrightarrow> f \<noteq> [] \<and> (\<forall>c\<in>set f. \<not> isSpace c)"
  using fields_aux_props [of "[]" s] by (simp add: Fields_def)

lemma Fields_Nil [simp]: "Fields [] = []"
  by (simp add: Fields_def)

lemma fields_aux_word:
  "\<forall>c\<in>set x. \<not> isSpace c \<Longrightarrow> fields_aux w (x @ s) = fields_aux (rev x @ w) s"
  by (induction x arbitrary: w) auto

lemma Fields_word_sep:
  assumes "x \<noteq> []" "\<forall>c\<in>set x. \<not> isSpace c" "isSpace b"
  shows "Fields (x @ b # s) = x # Fields s"
  using assms by (simp add: Fields_def fields_aux_word)

lemma Fields_word: "x \<noteq> [] \<Longrightarrow> \<forall>c\<in>set x. \<not> isSpace c \<Longrightarrow> Fields x = [x]"
  using fields_aux_word [of x "[]" "[]"] by (simp add: Fields_def)

lemma Fields_space: "isSpace b \<Longrightarrow> Fields (b # s) = Fields s"
  by (simp add: Fields_def)

lemma digit_val_char [simp]: "d < 10 \<Longrightarrow> digit_val (digit_char d) = Some d"
  by (simp add: digit_val_def digit_char_def Let_def)

lemma digits_val_append:
  "digits_val acc (s @ t) = (case digits_val acc s of None \<Rightarrow> None | Some a \<Rightarrow> digits_val a t)"
  by (induction s arbitrary: acc) (auto split: option.splits)

lemma digits_val_show_nat: "digits_val 0 (show_nat n) = Some n"
proof (induction n rule: show_nat.induct)
  case (1 n)
  show ?case
  proof (cases "n < 10")
    case True
    then show ?thesis by (simp add: show_nat.simps [of n])
  next
    case False
    with "1.IH" show ?thesis
      by (simp add: show_nat.simps [of n] digits_val_append)
  qed
qed

lemma show_nat_neq_Nil [simp]: "show_nat n \<noteq> []"
  by (subst show_nat.simps) simp

lemma ParseUint_show_u64 [simp]: "ParseUint (show_u64 w) = Some w"
  using unsigned_less [of w] by (simp add: ParseUint_def show_u64_def digits_val_show_nat)

lemma show_nat_inject [simp]: "show_nat m = show_nat n \<longleftrightarrow> m = n"
  by (metis digits_val_show_nat option.inject)

lemma show_u64_inject [simp]: "show_u64 v = show_u64 w \<longleftrightarrow> v = w"
  by (simp add: show_u64_def word_unat_eq_iff)

end
