(* ===== verification/NodeTypes.thy ===== *)
theory NodeTypes
  imports GoStrings
begin

text \<open>
  The node data of \<open>drivers/node/node.go\<close> with the parts of the OpenStorage messages it
  embeds, and the error values that the drivers return.

  A Go \<open>Node\<close> embeds the pointer \<open>*api.StorageNode\<close>; the field \<open>StorageNode\<close> is \<open>None\<close> for a
  nil pointer, and reading a promoted field (\<open>n.Pools\<close>, \<open>n.Id\<close>) through it is a panic.
  The records of the OpenStorage messages hold the fields that torpedo reads.
\<close>

section \<open>OpenStorage messages\<close>

datatype Status =
    STATUS_NONE | STATUS_INIT | STATUS_OK | STATUS_OFFLINE | STATUS_ERROR
  | STATUS_NOT_IN_QUORUM | STATUS_DECOMMISSION | STATUS_MAINTENANCE | STATUS_STORAGE_DOWN
  | STATUS_STORAGE_DEGRADED | STATUS_NEEDS_REBOOT | STATUS_STORAGE_REBALANCE
  | STATUS_STORAGE_DRIVE_REPLACE | STATUS_NOT_IN_QUORUM_NO_STORAGE | STATUS_POOLMAINTENANCE
  | STATUS_MAX

datatype StorageMedium =
    STORAGE_MEDIUM_MAGNETIC | STORAGE_MEDIUM_SSD | STORAGE_MEDIUM_NVME

record StorageResource =
  res_Path :: string
  res_Medium :: StorageMedium
  res_Size :: u64

record api_StoragePool =
  pool_Uuid :: string
  pool_Medium :: StorageMedium
  pool_TotalSize :: u64
  pool_Labels :: "(string, string) gomap"

record api_StorageNode =
  sn_Id :: string
  sn_Hostname :: string
  sn_DataIp :: string
  sn_MgmtIp :: string
  sn_SchedulerNodeName :: string
  sn_Status :: Status
  sn_Disks :: "(string, StorageResource) gomap"
  sn_Pools :: "api_StoragePool list"

section \<open>Package node: data\<close>

definition TypeMaster :: string where "TypeMaster = ''Master''"
definition TypeWorker :: string where "TypeWorker = ''Worker''"

datatype ProxyProtocol = PROXY_INVALID | PROXY_NFS | PROXY_S3 | PROXY_PXD | PURE_BLOCK | PURE_FILE

record StoragePool =
  sp_StoragePool :: api_StoragePool
  sp_StoragePoolAtInit :: api_StoragePool
  sp_WorkloadSize :: u64

record Node =
  StorageNode :: "api_StorageNode option"
  uuid :: string
  VolDriverNodeID :: string
  node_Name :: string
  Addresses :: "string list"
  UsableAddr :: string
  node_Type :: string
  Zone :: string
  Region :: string
  TopologyZone :: string
  TopologyRegion :: string
  IsStorageDriverInstalled :: bool
  IsMetadataNode :: bool
  StoragePools :: "StoragePool list"
  PxPodRestartCount :: "32 word"

text \<open>The zero value \<open>Node{}\<close>.\<close>

definition zero_Node :: Node where
  "zero_Node = \<lparr> StorageNode = None, uuid = [], VolDriverNodeID = [], node_Name = [],
     Addresses = [], UsableAddr = [], node_Type = [], Zone = [], Region = [],
     TopologyZone = [], TopologyRegion = [], IsStorageDriverInstalled = False,
     IsMetadataNode = False, StoragePools = [], PxPodRestartCount = 0 \<rparr>"

section \<open>Errors\<close>

text \<open>Package \<open>drivers/node\<close>, file \<open>errors.go\<close>.\<close>

datatype node_error =
    ErrFailedToTestConnection Node string
  | ErrFailedToRebootNode Node string
  | ErrFailedToSetNetworkErrorOnNode Node string
  | ErrFailedToCrashNode Node string
  | ErrFailedToShutdownNode Node string
  | ErrFailedToFindFileOnNode Node string
  | ErrFailedToRunSystemctlOnNode Node string
  | ErrFailedToRunCommand string Node string
  | ErrFailedToYankDrive Node string
  | ErrFailedToRecoverDrive Node string
  | ErrFailedToSystemCheck Node string
  | ErrFailedToDeleteNode Node string

definition failed_on :: "string \<Rightarrow> string \<Rightarrow> string \<Rightarrow> string \<Rightarrow> string" where
  "failed_on what name sep cause = what @ name @ sep @ cause"

definition sep_Cause :: string where "sep_Cause = ''. Cause: ''"
definition sep_due :: string where "sep_due = '' due to err: ''"

fun node_Error :: "node_error \<Rightarrow> string" where
  "node_Error (ErrFailedToTestConnection n c) =
     failed_on ''Failed to test connnection to '' (node_Name n) sep_Cause c"
| "node_Error (ErrFailedToRebootNode n c) =
     failed_on ''Failed to reboot node: '' (node_Name n) sep_Cause c"
| "node_Error (ErrFailedToSetNetworkErrorOnNode n c) =
     failed_on ''Failed to set packet loss on node: '' (node_Name n) sep_Cause c"
| "node_Error (ErrFailedToCrashNode n c) =
     failed_on ''Failed to reboot node after node crash test: '' (node_Name n) sep_Cause c"
| "node_Error (ErrFailedToShutdownNode n c) =
     failed_on ''Failed to shutdown node: '' (node_Name n) sep_Cause c"
| "node_Error (ErrFailedToFindFileOnNode n c) =
     failed_on ''Failed to find file on: '' (node_Name n) sep_Cause c"
| "node_Error (ErrFailedToRunSystemctlOnNode n c) =
     failed_on ''Failed to run systemctl command on: '' (node_Name n) sep_Cause c"
| "node_Error (ErrFailedToRunCommand a n c) =
     failed_on ''Failed to run command on: '' a sep_Cause c"
| "node_Error (ErrFailedToYankDrive n c) =
     failed_on ''Failed to yank a drive on: '' (node_Name n) sep_Cause c"
| "node_Error (ErrFailedToRecoverDrive n c) =
     failed_on ''Failed to recover a drive on: '' (node_Name n) sep_Cause c"
| "node_Error (ErrFailedToSystemCheck n c) =
     failed_on ''System check failed on: '' (node_Name n) sep_Cause c"
| "node_Error (ErrFailedToDeleteNode n c) =
     failed_on ''Failed to delete node: '' (node_Name n) sep_Cause c"

text \<open>Package \<open>drivers/volume/portworx\<close>, file \<open>errors.go\<close>.\<close>

datatype px_error =
    ErrFailedToInspectVolume string string
  | ErrFailedToValidateAttachment string string
  | ErrFailedToDeleteVolume string string
  | ErrFailedToWaitForPx Node string
  | ErrFailedToUpgradeVolumeDriver string string
  | ErrFailedToRecoverDriver Node string
  | ErrFailedToEnterMaintenence Node string
  | ErrFailedToSetReplicationFactor string string
  | ErrFailedToGetReplicationFactor string string
  | ErrFailedToGetAggregationLevel string string
  | ErrFailedToDecommissionNode string string
  | ErrFailedToGetNodeStatus string string
  | ErrFailedToRejoinNode string string
  | ErrFailedToGetVolumeProxySpec string string

fun px_Error :: "px_error \<Rightarrow> string" where
  "px_Error (ErrFailedToInspectVolume i c) =
     failed_on ''Failed to inspect volume: '' i sep_due c"
| "px_Error (ErrFailedToValidateAttachment i c) =
     failed_on ''Failed to validate volume: '' (i @ '' attachment'') sep_due c"
| "px_Error (ErrFailedToDeleteVolume i c) =
     failed_on ''Failed to delete volume: '' i sep_due c"
| "px_Error (ErrFailedToWaitForPx n c) =
     failed_on ''Failed to wait for px status on: '' (node_Name n) sep_due c"
| "px_Error (ErrFailedToUpgradeVolumeDriver v c) =
     failed_on ''Failed to upgrade volume driver to version: '' v sep_due c"
| "px_Error (ErrFailedToRecoverDriver n c) =
     failed_on ''Failed to wait for px to be up on: '' (node_Name n) sep_due c"
| "px_Error (ErrFailedToEnterMaintenence n c) =
     failed_on ''Failed to enter maintenence mode non node: '' (node_Name n) sep_due c"
| "px_Error (ErrFailedToSetReplicationFactor i c) =
     failed_on ''Failed to set replication factor of the volume: '' i sep_due c"
| "px_Error (ErrFailedToGetReplicationFactor i c) =
     failed_on ''Failed to get replication factor of the volume: '' i sep_due c"
| "px_Error (ErrFailedToGetAggregationLevel i c) =
     failed_on ''Failed to get aggregation level of the volume: '' i sep_due c"
| "px_Error (ErrFailedToDecommissionNode n c) =
     failed_on ''Failed to decommission node: '' n sep_due c"
| "px_Error (ErrFailedToGetNodeStatus n c) =
     failed_on ''Failed to get status for node: '' n sep_due c"
| "px_Error (ErrFailedToRejoinNode n c) =
     failed_on ''Failed to rejoin node: '' n sep_due c"
| "px_Error (ErrFailedToGetVolumeProxySpec i c) =
     failed_on ''Failed to get proxy spec for a volume: '' i sep_due c"

text \<open>
  Package \<open>drivers/scheduler\<close>, file \<open>errors.go\<close>. The field \<open>App\<close> is the key of the application; a node
  or an application that \<open>fmt\<close> prints as a struct is the printed text. The errors with the fields
  \<open>App\<close> and \<open>Cause\<close> are the values of \<open>sched_app\<close>, those whose field \<open>Cause\<close> is an \<open>error\<close> the
  values of \<open>sched_wrap\<close>.
\<close>

datatype (plugins only: code size) sched_app =
    ErrFailedToScheduleApp
  | ErrFailedToDestroyApp
  | ErrFailedToDestroyStorage
  | ErrFailedToValidateStorage
  | ErrFailedToGetStorage
  | ErrFailedToResizeStorage
  | ErrFailedToValidateApp
  | ErrFailedToSchedulePod
  | ErrFailedToValidatePod
  | ErrFailedToDestroyPod
  | ErrFailedToGetPodStatus
  | ErrFailedToValidatePodDestroy
  | ErrFailedToGetAppStatus
  | ErrFailedToValidateAppDestroy
  | ErrFailedToGetNodesForApp
  | ErrFailedToDeleteTasks
  | ErrFailedToGetVolumeParameters
  | ErrFailedToGetSnapShotData
  | ErrFailedToGetSnapShot
  | ErrFailedToGetSnapShotDataName
  | ErrFailedToGetStorageStatus
  | ErrFailedToDeleteVolumeDirForPod
  | ErrFailedToUpdateApp
  | ErrFailedToGetSecret
  | ErrFailedToCreateCsiSnapshots
  | ErrFailedToValidateCsiSnapshots
  | ErrFailedToValidatePvcAfterRestore
  | ErrFailedToRestore

fun app_what :: "sched_app \<Rightarrow> string" where
  "app_what ErrFailedToScheduleApp = ''Failed to schedule app: ''"
| "app_what ErrFailedToDestroyApp = ''Failed to destroy app: ''"
| "app_what ErrFailedToDestroyStorage = ''Failed to destroy storage for app: ''"
| "app_what ErrFailedToValidateStorage = ''Failed to validate storage for app: ''"
| "app_what ErrFailedToGetStorage = ''Failed to get storage for app: ''"
| "app_what ErrFailedToResizeStorage = ''Failed to resize storage for app: ''"
| "app_what ErrFailedToValidateApp = ''Failed to validate app: ''"
| "app_what ErrFailedToSchedulePod = ''Failed to schedule app: ''"
| "app_what ErrFailedToValidatePod = ''Failed to validate pod: ''"
| "app_what ErrFailedToDestroyPod = ''Failed to validate destroy of pod: ''"
| "app_what ErrFailedToGetPodStatus = ''Failed to get status of pod: ''"
| "app_what ErrFailedToValidatePodDestroy = ''Failed to validate destroy of pod: ''"
| "app_what ErrFailedToGetAppStatus = ''Failed to get status of app: ''"
| "app_what ErrFailedToValidateAppDestroy = ''Failed to validate destroy of app: ''"
| "app_what ErrFailedToGetNodesForApp = ''Failed to get nodes of app: ''"
| "app_what ErrFailedToDeleteTasks = ''Failed to delete tasks of app: ''"
| "app_what ErrFailedToGetVolumeParameters = ''Failed to get volume parameters for app: ''"
| "app_what ErrFailedToGetSnapShotData = ''Failed to get snapshot data for app: ''"
| "app_what ErrFailedToGetSnapShot = ''Failed to get snapshot for app: ''"
| "app_what ErrFailedToGetSnapShotDataName = ''Failed to get snapshot data name for app: ''"
| "app_what ErrFailedToGetStorageStatus = ''Failed to get storage status for: ''"
| "app_what ErrFailedToDeleteVolumeDirForPod = ''Failed to delete volume directory for app: ''"
| "app_what ErrFailedToUpdateApp = ''Failed to update app: ''"
| "app_what ErrFailedToGetSecret = ''Failed to get Secret : ''"
| "app_what ErrFailedToCreateCsiSnapshots = ''Failed to create snapshot for App: ''"
| "app_what ErrFailedToValidateCsiSnapshots = ''Failed to validate Csi snapshot for App: ''"
| "app_what ErrFailedToValidatePvcAfterRestore = ''Failed to validate PVC for App: ''"
| "app_what ErrFailedToRestore = ''Failed to validate PVC for App: ''"

datatype (plugins only: code size) sched_error =
    AppErr sched_app string string
  | ErrNodeNotReady Node string
  | ErrFailedToStopSchedOnNode string string string
  | ErrFailedToStartSchedOnNode string string string
  | ErrFailedToValidateCustomSpec string string string
  | sched_ErrFailedToDecommissionNode string string
  | ErrFailedToGetConfigMap string string
  | ErrFailedToAddLabelOnNode string string string string
  | ErrFailedToRemoveLabelOnNode string string string
  | ErrFailedToGetCustomSpec string string
  | ErrFailedToGetEvents string string string
  | sched_ErrFailedToDeleteNode Node string
  | ErrFailedToGetNode string
  | ErrFailedToUpdateNodeList string string
  | ErrTopologyLabelMismatch string string

fun sched_Error :: "sched_error \<Rightarrow> string" where
  "sched_Error (AppErr t k c) = app_what t @ k @ sep_due @ c"
| "sched_Error (ErrNodeNotReady n c) = ''Node: '' @ node_Name n @ '' is not ready due to err: '' @ c"
| "sched_Error (ErrFailedToStopSchedOnNode n s c) = ''Failed to stop scheduler service '' @ s @ '' on node: '' @ n @ sep_due @ c"
| "sched_Error (ErrFailedToStartSchedOnNode n s c) = ''Failed to start scheduler service '' @ s @ '' on node: '' @ n @ sep_due @ c"
| "sched_Error (ErrFailedToValidateCustomSpec m c t) = ''Failed to validate custom spec : '' @ m @ '' of type '' @ t @ sep_due @ c"
| "sched_Error (sched_ErrFailedToDecommissionNode n c) = ''Failed to decommission node: '' @ n @ sep_due @ c"
| "sched_Error (ErrFailedToGetConfigMap m c) = ''Failed to get config map: '' @ m @ sep_due @ c"
| "sched_Error (ErrFailedToAddLabelOnNode l v n c) = ''Failed to add label: '' @ l @ ''='' @ v @ '' on node '' @ n @ sep_due @ c"
| "sched_Error (ErrFailedToRemoveLabelOnNode l n c) = ''Failed to remove label: '' @ l @ '' on node: '' @ n @ sep_due @ c"
| "sched_Error (ErrFailedToGetCustomSpec m c) = ''Failed to get custom spec: '' @ m @ sep_due @ c"
| "sched_Error (ErrFailedToGetEvents t m c) = ''Failed to get Events for: ['' @ t @ '']'' @ m @ sep_due @ c"
| "sched_Error (sched_ErrFailedToDeleteNode n c) = ''Failed to Delete a Node : ['' @ node_Name n @ ''] due to err: '' @ c"
| "sched_Error (ErrFailedToGetNode c) = ''Failed to Get a Node due to err: '' @ c"
| "sched_Error (ErrFailedToUpdateNodeList n c) = ''Failed to Update a Node : ['' @ n @ ''] due to err: '' @ c"
| "sched_Error (ErrTopologyLabelMismatch m c) = ''Failed to match topology label for pod: '' @ m @ sep_due @ c"

datatype sched_wrap =
    ErrFailedToBringUpNode
  | ErrFailedToValidateTopologyLabel
  | ErrFailedToCreateSnapshot
  | ErrFailedToCreateSnapshotClass
  | ErrFailedToGetSnapshotList
  | ErrFailedToValidateSnapshot
  | ErrFailedToValidatePvc
  | ErrFailedToDeleteSnapshot

fun wrap_Error :: "sched_wrap \<Rightarrow> string \<Rightarrow> string \<Rightarrow> string" where
  "wrap_Error ErrFailedToBringUpNode m c = ''Failed to bring up a Node : ['' @ m @ ''] due to err: '' @ c"
| "wrap_Error ErrFailedToValidateTopologyLabel m c = ''Failed to validate topology label in namespace: '' @ m @ sep_due @ c"
| "wrap_Error ErrFailedToCreateSnapshot m c = ''Failed to create snapshot for volume: '' @ m @ sep_due @ c"
| "wrap_Error ErrFailedToCreateSnapshotClass m c = ''Failed to create snapshot for volume: '' @ m @ sep_due @ c"
| "wrap_Error ErrFailedToGetSnapshotList m c = ''Failed to list snapshot in namespace: '' @ m @ sep_due @ c"
| "wrap_Error ErrFailedToValidateSnapshot m c = ''Failed to validate snapshot for volume: '' @ m @ sep_due @ c"
| "wrap_Error ErrFailedToValidatePvc m c = ''Failed to validate PVC: '' @ m @ sep_due @ c"
| "wrap_Error ErrFailedToDeleteSnapshot m c = ''Failed to delete snapshot in namespace: '' @ m @ sep_due @ c"

text \<open>
  The error values of the development: those of \<open>pkg/errors\<close>, the formatted errors of
  \<open>fmt.Errorf\<close>, the timeout of the retry loop and of a Go context, the families above, and the errors
  that wrap another.
\<close>

datatype go_error =
    ErrNotFound string string
  | ErrValidateVol string string
  | ErrNotSupported string string
  | ErrOperationNotPerformed string string
  | Errorf string
  | ErrTimedOut string
  | DeadlineExceeded
  | NodeErr node_error
  | PxErr px_error
  | ErrCsiTopologyMismatch string go_error
  | SchedErr sched_error
  | SchedWrap sched_wrap string go_error

fun Error_str :: "go_error \<Rightarrow> string" where
  "Error_str (ErrNotFound i t) = t @ '' with UID/Name: '' @ i @ '' not found''"
| "Error_str (ErrValidateVol i c) = ''Failed to validate volumes for spec: '' @ i @ '' Err: '' @ c"
| "Error_str (ErrNotSupported t opn) = t @ '' '' @ opn @ '' is not supported''"
| "Error_str (ErrOperationNotPerformed opn r) = opn @ '' was not performed due to: '' @ r"
| "Error_str (Errorf s) = s"
| "Error_str (ErrTimedOut r) =
     (if length r > 0 then ''timed out performing task.'' @ '', Error was: '' @ r
      else ''timed out performing task.'')"
| "Error_str DeadlineExceeded = ''context deadline exceeded''"
| "Error_str (NodeErr e) = node_Error e"
| "Error_str (PxErr e) = px_Error e"
| "Error_str (ErrCsiTopologyMismatch v c) =
     ''CSI Topology not matching for volume: '' @ v @ ''. Err: '' @ Error_str c"
| "Error_str (SchedErr e) = sched_Error e"
| "Error_str (SchedWrap t m c) = wrap_Error t m (Error_str c)"

type_synonym 'a result = "go_error + 'a"

end
