(* ===== verification/DriverRegistry.thy ===== *)
theory DriverRegistry
  imports NodeTypes
begin

text \<open>
  The driver registries: package variables that map a name to a driver, filled by the
  \<open>init\<close> functions of the driver packages and read by the tests. The packages \<open>node\<close>,
  \<open>scheduler\<close>, \<open>monitor\<close>, \<open>backup\<close>, \<open>pds\<close>, \<open>schedops\<close> and \<open>objectstore\<close> each have a
  \<open>Register\<close> and a \<open>Get\<close>; the package \<open>volume\<close> keeps the list of provisioners beside its
  map. A driver is a value of an interface type, a type variable here.

  The locale \<open>driver_registry\<close> is the contract all of them implement; its lemmas say what a
  sequence of registrations leaves behind. The application factory of
  \<open>drivers/scheduler/spec\<close> has another contract: a later registration replaces the earlier.
\<close>

section \<open>Register and Get of each package\<close>

definition node_Register :: "string \<Rightarrow> 'd \<Rightarrow> (string, 'd) gomap \<Rightarrow> go_error option \<times> (string, 'd) gomap" where
  "node_Register name d nodeDrivers =
     (if \<not> gm_has nodeDrivers name then (None, gm_put name d nodeDrivers)
      else (Some (Errorf (''node driver: '' @ name @ '' is already registered'')), nodeDrivers))"

definition node_Get :: "string \<Rightarrow> (string, 'd) gomap \<Rightarrow> 'd result" where
  "node_Get name nodeDrivers = (case map_of nodeDrivers name of
     Some d \<Rightarrow> Inr d | None \<Rightarrow> Inl (ErrNotFound name ''Node Driver''))"

definition scheduler_Register :: "string \<Rightarrow> 'd \<Rightarrow> (string, 'd) gomap \<Rightarrow> go_error option \<times> (string, 'd) gomap" where
  "scheduler_Register name d schedulers =
     (if \<not> gm_has schedulers name then (None, gm_put name d schedulers)
      else (Some (Errorf (''scheduler driver: '' @ name @ '' is already registered'')), schedulers))"

definition scheduler_Get :: "string \<Rightarrow> (string, 'd) gomap \<Rightarrow> 'd result" where
  "scheduler_Get name schedulers = (case map_of schedulers name of
     Some d \<Rightarrow> Inr d | None \<Rightarrow> Inl (ErrNotFound name ''Scheduler''))"

definition monitor_Register :: "string \<Rightarrow> 'd \<Rightarrow> (string, 'd) gomap \<Rightarrow> go_error option \<times> (string, 'd) gomap" where
  "monitor_Register name m monitor =
     (if \<not> gm_has monitor name then (None, gm_put name m monitor)
      else (Some (Errorf (''monitor driver: '' @ name @ '' is already registered'')), monitor))"

definition monitor_Get :: "string \<Rightarrow> (string, 'd) gomap \<Rightarrow> 'd result" where
  "monitor_Get name monitor = (case map_of monitor name of
     Some m \<Rightarrow> Inr m | None \<Rightarrow> Inl (ErrNotFound name ''Monitor''))"

definition backup_Register :: "string \<Rightarrow> 'd \<Rightarrow> (string, 'd) gomap \<Rightarrow> go_error option \<times> (string, 'd) gomap" where
  "backup_Register name d backupDrivers =
     (if \<not> gm_has backupDrivers name then (None, gm_put name d backupDrivers)
      else (Some (Errorf (''backup driver: '' @ name @ '' is already registered'')), backupDrivers))"

definition backup_Get :: "string \<Rightarrow> (string, 'd) gomap \<Rightarrow> 'd result" where
  "backup_Get name backupDrivers = (case map_of backupDrivers name of
     Some d \<Rightarrow> Inr d | None \<Rightarrow> Inl (ErrNotFound name ''BackupDriver''))"

definition pds_Register :: "string \<Rightarrow> 'd \<Rightarrow> (string, 'd) gomap \<Rightarrow> go_error option \<times> (string, 'd) gomap" where
  "pds_Register name d pdsschedulers =
     (if \<not> gm_has pdsschedulers name then (None, gm_put name d pdsschedulers)
      else (Some (Errorf (''pds driver: '' @ name @ '' is already registered'')), pdsschedulers))"

definition pds_Get :: "string \<Rightarrow> (string, 'd) gomap \<Rightarrow> 'd result" where
  "pds_Get name pdsschedulers = (case map_of pdsschedulers name of
     Some d \<Rightarrow> Inr d | None \<Rightarrow> Inl (ErrNotFound name ''PdsDriver''))"

definition schedops_Register :: "string \<Rightarrow> 'd \<Rightarrow> (string, 'd) gomap \<Rightarrow> go_error option \<times> (string, 'd) gomap" where
  "schedops_Register name d schedOpsRegistry =
     (if \<not> gm_has schedOpsRegistry name then (None, gm_put name d schedOpsRegistry)
      else (Some (Errorf (''portworx scheduler ops driver: '' @ name @ '' is already registered'')),
            schedOpsRegistry))"

definition schedops_Get :: "string \<Rightarrow> (string, 'd) gomap \<Rightarrow> 'd result" where
  "schedops_Get name schedOpsRegistry = (case map_of schedOpsRegistry name of
     Some d \<Rightarrow> Inr d | None \<Rightarrow> Inl (ErrNotFound name ''Portworx Scheduler Operator''))"

definition objectstore_driverName :: string where
  "objectstore_driverName = ''objectstore''"

definition objectstore_Register :: "string \<Rightarrow> 'd \<Rightarrow> (string, 'd) gomap \<Rightarrow> go_error option \<times> (string, 'd) gomap" where
  "objectstore_Register name d objectstoredriver =
     (if \<not> gm_has objectstoredriver name then (None, gm_put name d objectstoredriver)
      else (Some (Errorf (''objecstore driver: '' @ name @ '' is already registered'')),
            objectstoredriver))"

definition objectstore_Get :: "(string, 'd) gomap \<Rightarrow> 'd result" where
  "objectstore_Get objectstoredriver = (case map_of objectstoredriver objectstore_driverName of
     Some d \<Rightarrow> Inr d | None \<Rightarrow> Inl (ErrNotFound objectstore_driverName ''ObjectstoreDriver''))"

section \<open>Package volume\<close>

record 'd vol_globals =
  volDrivers :: "(string, 'd) gomap"
  provisioners :: "string list"
  StorageDriver :: string
  StorageProvisioner :: string

definition DefaultStorageProvisioner :: string where
  "DefaultStorageProvisioner = ''portworx''"

definition CSIStorageProvisioner :: string where
  "CSIStorageProvisioner = ''csi''"

definition volume_Register ::
  "string \<Rightarrow> (string, string) gomap \<Rightarrow> 'd \<Rightarrow> 'd vol_globals \<Rightarrow> go_error option \<times> 'd vol_globals" where
  "volume_Register name driverProvisioners d g =
     (let g = g\<lparr>provisioners := provisioners g @ map fst driverProvisioners\<rparr> in
      if \<not> gm_has (volDrivers g) name then (None, g\<lparr>volDrivers := gm_put name d (volDrivers g)\<rparr>)
      else (Some (Errorf (''volume driver: '' @ name @ '' is already registered'')), g))"

definition volume_Get :: "string \<Rightarrow> 'd vol_globals \<Rightarrow> 'd result" where
  "volume_Get name g = (case map_of (volDrivers g) name of
     Some d \<Rightarrow> Inr d | None \<Rightarrow> Inl (ErrNotFound name ''VolumeDriver''))"

definition GetStorageProvisioner :: "'d vol_globals \<Rightarrow> string" where
  "GetStorageProvisioner g = StorageProvisioner g"

definition GetStorageDriver :: "'d vol_globals \<Rightarrow> string" where
  "GetStorageDriver g = StorageDriver g"

definition GetVolumeDrivers :: "'d vol_globals \<Rightarrow> string list" where
  "GetVolumeDrivers g = map fst (volDrivers g)"

definition GetVolumeProvisioners :: "'d vol_globals \<Rightarrow> string list" where
  "GetVolumeProvisioners g = map (\<lambda>v. v) (provisioners g)"

section \<open>The application factory of the scheduler\<close>

record 'spec AppSpec =
  app_Key :: string
  SpecList :: "'spec list"
  Enabled :: bool
  IsCSI :: bool
  NameSpace :: string

definition AppSpec_GetID :: "'spec AppSpec \<Rightarrow> string \<Rightarrow> string" where
  "AppSpec_GetID a instanceID = app_Key a @ ''-'' @ instanceID"

definition AppSpec_DeepCopy :: "'spec AppSpec \<Rightarrow> 'spec AppSpec" where
  "AppSpec_DeepCopy a = \<lparr>app_Key = app_Key a, SpecList = SpecList a, Enabled = Enabled a,
     IsCSI = False, NameSpace = []\<rparr>"

definition factory_register ::
  "string \<Rightarrow> 'spec AppSpec \<Rightarrow> (string, 'spec AppSpec) gomap \<Rightarrow> (string, 'spec AppSpec) gomap" where
  "factory_register i app appSpecFactory = gm_put i app appSpecFactory"

definition factory_Get :: "string \<Rightarrow> (string, 'spec AppSpec) gomap \<Rightarrow> ('spec AppSpec) result" where
  "factory_Get i appSpecFactory = (case map_of appSpecFactory i of
     Some d \<Rightarrow> if Enabled d then Inr (AppSpec_DeepCopy d) else Inl (ErrNotFound i ''AppSpec'')
   | None \<Rightarrow> Inl (ErrNotFound i ''AppSpec''))"

definition factory_GetAll :: "(string, 'spec AppSpec) gomap \<Rightarrow> 'spec AppSpec list" where
  "factory_GetAll appSpecFactory =
     map AppSpec_DeepCopy (filter Enabled (gm_values appSpecFactory))"

text \<open>\<open>NewFactory\<close> reads the directory (its entries, each a name and whether it is a directory)
  and parses every subdirectory with the parser of the scheduler driver; both are arguments.\<close>

fun register_dirs ::
  "(string \<Rightarrow> go_error + 'spec list) \<Rightarrow> (string \<times> bool) list \<Rightarrow> (string, 'spec AppSpec) gomap
     \<Rightarrow> go_error option \<times> (string, 'spec AppSpec) gomap" where
  "register_dirs parse [] m = (None, m)"
| "register_dirs parse ((specID, isDir) # files) m =
     (if isDir then
        (case parse specID of
           Inl err \<Rightarrow> (Some err, m)
         | Inr specs \<Rightarrow>
             if specs = [] then register_dirs parse files m
             else register_dirs parse files
               (factory_register specID \<lparr>app_Key = specID, SpecList = specs, Enabled = True,
                  IsCSI = False, NameSpace = []\<rparr> m))
      else register_dirs parse files m)"

definition NewFactory ::
  "string \<Rightarrow> go_error + (string \<times> bool) list \<Rightarrow> (string \<Rightarrow> go_error + 'spec list)
     \<Rightarrow> (string, 'spec AppSpec) gomap \<Rightarrow> go_error option \<times> (string, 'spec AppSpec) gomap" where
  "NewFactory specDir readDir parse m = (case readDir of
     Inl err \<Rightarrow> (Some err, m)
   | Inr appDirList \<Rightarrow>
       (case register_dirs parse appDirList m of
          (Some err, m') \<Rightarrow> (Some err, m')
        | (None, m') \<Rightarrow>
            if factory_GetAll m' = []
            then (Some (Errorf (''found 0 supported applications in given specDir: '' @ specDir)), m')
            else (None, m')))"

section \<open>The contract of a driver registry\<close>

fun register_seq :: "(string \<Rightarrow> 'd \<Rightarrow> 's \<Rightarrow> go_error option \<times> 's) \<Rightarrow> (string \<times> 'd) list \<Rightarrow> 's \<Rightarrow> 's" where
  "register_seq reg [] s = s"
| "register_seq reg ((n, d) # rs) s = register_seq reg rs (snd (reg n d s))"

locale driver_registry =
  fixes register :: "string \<Rightarrow> 'd \<Rightarrow> 's \<Rightarrow> go_error option \<times> 's"
    and lookup :: "string \<Rightarrow> 's \<Rightarrow> 'd result"
    and drivers :: "'s \<Rightarrow> (string, 'd) gomap"
    and already :: "string \<Rightarrow> string"
    and kind :: string
  assumes register_new: "\<not> gm_has (drivers s) n \<Longrightarrow>
      fst (register n d s) = None \<and> drivers (snd (register n d s)) = gm_put n d (drivers s)"
    and register_dup: "gm_has (drivers s) n \<Longrightarrow>
      fst (register n d s) = Some (Errorf (already n)) \<and> drivers (snd (register n d s)) = drivers s"
    and lookup_spec: "lookup n s =
      (case map_of (drivers s) n of Some d \<Rightarrow> Inr d | None \<Rightarrow> Inl (ErrNotFound n kind))"
begin

lemma register_map_of:
  "map_of (drivers (snd (register n d s))) =
     (if gm_has (drivers s) n then map_of (drivers s) else (map_of (drivers s))(n \<mapsto> d))"
  using register_new [of s n d] register_dup [of s n d] by auto

lemma register_seq_map_of:
  "map_of (drivers (register_seq register rs s)) k =
     (case map_of (drivers s) k of Some d \<Rightarrow> Some d | None \<Rightarrow> map_of rs k)"
proof (induction rs arbitrary: s)
  case Nil
  then show ?case by (simp split: option.splits)
next
  case (Cons a rs)
  then show ?case
    by (cases a) (auto simp: register_map_of gm_has_def split: option.splits)
qed

text \<open>The first registration under a name wins; a name never registered is not found.\<close>

lemma lookup_register_seq:
  assumes "drivers s = []"
  shows "lookup n (register_seq register rs s) =
    (case map_of rs n of Some d \<Rightarrow> Inr d | None \<Rightarrow> Inl (ErrNotFound n kind))"
  using assms by (simp add: lookup_spec register_seq_map_of)

lemma register_error_iff:
  assumes "drivers s = []"
  shows "fst (register n d (register_seq register rs s)) =
    (if n \<in> fst ` set rs then Some (Errorf (already n)) else None)"
proof -
  have "gm_has (drivers (register_seq register rs s)) n \<longleftrightarrow> n \<in> fst ` set rs"
    using assms by (simp add: gm_has_def register_seq_map_of map_of_eq_None_iff)
  then show ?thesis
    using register_new register_dup by auto
qed

end

interpretation node_reg: driver_registry node_Register node_Get "\<lambda>s. s"
  "\<lambda>n. ''node driver: '' @ n @ '' is already registered''" "''Node Driver''"
  by unfold_locales (auto simp: node_Register_def node_Get_def)

interpretation scheduler_reg: driver_registry scheduler_Register scheduler_Get "\<lambda>s. s"
  "\<lambda>n. ''scheduler driver: '' @ n @ '' is already registered''" "''Scheduler''"
  by unfold_locales (auto simp: scheduler_Register_def scheduler_Get_def)

interpretation monitor_reg: driver_registry monitor_Register monitor_Get "\<lambda>s. s"
  "\<lambda>n. ''monitor driver: '' @ n @ '' is already registered''" "''Monitor''"
  by unfold_locales (auto simp: monitor_Register_def monitor_Get_def)

interpretation backup_reg: driver_registry backup_Register backup_Get "\<lambda>s. s"
  "\<lambda>n. ''backup driver: '' @ n @ '' is already registered''" "''BackupDriver''"
  by unfold_locales (auto simp: backup_Register_def backup_Get_def)

interpretation pds_reg: driver_registry pds_Register pds_Get "\<lambda>s. s"
  "\<lambda>n. ''pds driver: '' @ n @ '' is already registered''" "''PdsDriver''"
  by unfold_locales (auto simp: pds_Register_def pds_Get_def)

interpretation schedops_reg: driver_registry schedops_Register schedops_Get "\<lambda>s. s"
  "\<lambda>n. ''portworx scheduler ops driver: '' @ n @ '' is already registered''"
  "''Portworx Scheduler Operator''"
  by unfold_locales (auto simp: schedops_Register_def schedops_Get_def)

interpretation volume_reg: driver_registry "\<lambda>n. volume_Register n ps" volume_Get volDrivers
  "\<lambda>n. ''volume driver: '' @ n @ '' is already registered''" "''VolumeDriver''"
  by unfold_locales (auto simp: volume_Register_def volume_Get_def Let_def)

section \<open>Properties\<close>

text \<open>In each of the six packages that register drivers by name, whatever the sequence of
  registrations, \<open>Get\<close> returns the driver that was registered first under the name and an
  \<open>ErrNotFound\<close> for a name that was never registered.\<close>

theorem first_registration_wins:
  "node_Get n (register_seq node_Register rs []) =
     (case map_of rs n of Some d \<Rightarrow> Inr d | None \<Rightarrow> Inl (ErrNotFound n ''Node Driver'')) \<and>
   scheduler_Get n (register_seq scheduler_Register rs []) =
     (case map_of rs n of Some d \<Rightarrow> Inr d | None \<Rightarrow> Inl (ErrNotFound n ''Scheduler'')) \<and>
   monitor_Get n (register_seq monitor_Register rs []) =
     (case map_of rs n of Some d \<Rightarrow> Inr d | None \<Rightarrow> Inl (ErrNotFound n ''Monitor'')) \<and>
   backup_Get n (register_seq backup_Register rs []) =
     (case map_of rs n of Some d \<Rightarrow> Inr d | None \<Rightarrow> Inl (ErrNotFound n ''BackupDriver'')) \<and>
   pds_Get n (register_seq pds_Register rs []) =
     (case map_of rs n of Some d \<Rightarrow> Inr d | None \<Rightarrow> Inl (ErrNotFound n ''PdsDriver'')) \<and>
   schedops_Get n (register_seq schedops_Register rs []) =
     (case map_of rs n of Some d \<Rightarrow> Inr d
      | None \<Rightarrow> Inl (ErrNotFound n ''Portworx Scheduler Operator''))"
  by (simp add: node_reg.lookup_register_seq scheduler_reg.lookup_register_seq
      monitor_reg.lookup_register_seq backup_reg.lookup_register_seq
      pds_reg.lookup_register_seq schedops_reg.lookup_register_seq)

text \<open>A \<open>volume.Register\<close> that fails because the name is taken leaves the drivers alone but
  still appends its provisioners: the list of supported provisioners then names provisioners of a
  driver that is not registered, and repeats those that were registered before.\<close>

theorem failed_volume_register_adds_provisioners:
  assumes "map_of (volDrivers g) name = Some d0"
  shows "fst (volume_Register name ps d g) =
      Some (Errorf (''volume driver: '' @ name @ '' is already registered'')) \<and>
    volume_Get name (snd (volume_Register name ps d g)) = Inr d0 \<and>
    GetVolumeDrivers (snd (volume_Register name ps d g)) = GetVolumeDrivers g \<and>
    GetVolumeProvisioners (snd (volume_Register name ps d g)) =
      GetVolumeProvisioners g @ map fst ps"
  using assms
  by (simp add: volume_Register_def volume_Get_def GetVolumeDrivers_def GetVolumeProvisioners_def
      gm_has_def Let_def)

theorem failed_volume_register_adds_provisioners_witness:
  "GetVolumeProvisioners (snd (volume_Register ''pxd'' [(''csi'', ''pxd.portworx.com'')] (1::nat)
     \<lparr>volDrivers = [(''pxd'', 0)], provisioners = [''csi''], StorageDriver = [],
      StorageProvisioner = []\<rparr>)) = [''csi'', ''csi'']"
  using failed_volume_register_adds_provisioners
    [of "\<lparr>volDrivers = [(''pxd'', 0::nat)], provisioners = [''csi''], StorageDriver = [],
      StorageProvisioner = []\<rparr>" "''pxd''" 0 "[(''csi'', ''pxd.portworx.com'')]" 1]
  by (simp add: GetVolumeProvisioners_def)

text \<open>The application factory replaces on a rescan and hides disabled applications: after
  \<open>register\<close> the factory returns a copy of the application just registered when it is enabled
  and \<open>ErrNotFound\<close> when it is not, and it answers as before for every other id. The copy keeps
  key, specs and the enabled flag, and loses the CSI flag and the namespace.\<close>

theorem factory_register_get:
  "factory_Get j (factory_register i app m) =
     (if j = i then (if Enabled app
        then Inr (app\<lparr>IsCSI := False, NameSpace := []\<rparr>) else Inl (ErrNotFound i ''AppSpec''))
      else factory_Get j m)"
  by (simp add: factory_Get_def factory_register_def AppSpec_DeepCopy_def)

end
