(* ===== verification/NotSupported.thy ===== *)
theory NotSupported
  imports DriverRegistry
begin

text \<open>
  The driver interfaces and their defaults: \<open>volume.Driver\<close> (\<open>drivers/volume/volume.go\<close>) with
  \<open>DefaultDriver\<close> (\<open>drivers/volume/common.go\<close>), and \<open>node.Driver\<close> with
  \<open>notSupportedDriver\<close> (both in \<open>drivers/node/node.go\<close>). A concrete driver embeds the default
  and overrides the methods it supports.

  A default method ignores its arguments and returns constants, so a method is a row of a table:
  its name, the values it returns and its error. The tables follow the order of the source, one
  definition for each stretch of it. \<open>RandomizeVolumeName\<close>, the one default with a computation,
  and \<open>Init\<close>, which changes a package variable, are functions of their own.
\<close>

section \<open>Values and methods\<close>

text \<open>The constants the methods return: \<open>VZeroPtr\<close> is a pointer to a zero struct and
  \<open>VZeroStruct\<close> a zero struct.\<close>

datatype go_value =
    VStr string | VInt int | VBool bool | VNil | VEmptyList | VEmptyMap | VZeroPtr | VZeroStruct

type_synonym go_method = "string \<times> go_value list \<times> go_error option"

abbreviation ns :: "string \<Rightarrow> go_error option" where
  "ns operation \<equiv> Some (ErrNotSupported ''Function'' operation)"

section \<open>The interfaces\<close>

definition volume_Driver_1 :: "string list" where
  "volume_Driver_1 =
     [
      ''Init'', ''String'', ''GetVolumeDriverNamespace'', ''ListAllVolumes'',
      ''CreateVolume'', ''CreateVolumeUsingPxctlCmd'', ''ResizeVolume'',
      ''CreateVolumeUsingRequest'', ''CloneVolume'', ''AttachVolume'', ''DetachVolume'',
      ''DeleteVolume'', ''InspectVolume'', ''CleanupVolume'', ''CreateSnapshot'',
      ''ValidateCreateVolume'', ''ValidateCreateSnapshot'',
      ''ValidateCreateSnapshotUsingPxctl'', ''GetCloudsnaps'', ''DeleteAllCloudsnaps'',
      ''GetCloudsnapsOfGivenVolume'', ''ValidateCreateCloudsnap'',
      ''ValidateCreateCloudsnapUsingPxctl'', ''ValidateCreateGroupSnapshotUsingPxctl'',
      ''ValidateGetByteUsedForVolume'', ''ValidatePureVolumesNoReplicaSets'',
      ''InitializePureLocalVolumePaths'', ''ValidatePureLocalVolumePaths'',
      ''ValidateVolumeInPxctlList'', ''ValidateUpdateVolume'', ''SetIoBandwidth'',
      ''UpdateVolumeSpec'', ''ValidateDeleteVolume'', ''ValidateVolumeCleanup'',
      ''ValidateVolumeSetup'', ''StopDriver'', ''KillPXDaemon'', ''StartDriver'',
      ''RestartDriver'', ''WaitDriverUpOnNode'', ''WaitDriverDownOnNode'',
      ''GetNodeForVolume'', ''GetNodeForBackup'', ''ExtractVolumeInfo'', ''UpgradeDriver'']"

definition volume_Driver_2 :: "string list" where
  "volume_Driver_2 =
     [
      ''UpgradeStork'', ''RandomizeVolumeName'', ''InspectCurrentCluster'',
      ''RecoverDriver'', ''EnterMaintenance'', ''ExitMaintenance'',
      ''UpdatePoolIOPriority'', ''RecoverPool'', ''EnterPoolMaintenance'',
      ''ExitPoolMaintenance'', ''GetNodePoolsStatus'', ''GetNodePools'', ''DeletePool'',
      ''GetDriverVersion'', ''GetDriverNode'', ''GetDriverNodes'',
      ''GetDriverVersionOnNode'', ''RefreshDriverEndpoints'', ''GetStorageDevices'',
      ''GetDriveSet'', ''IsDriverInstalled'', ''GetReplicationFactor'',
      ''SetReplicationFactor'', ''WaitForReplicationToComplete'',
      ''GetMaxReplicationFactor'', ''GetMinReplicationFactor'', ''GetAggregationLevel'',
      ''GetClusterPairingInfo'', ''DecommissionNode'', ''RecoverNode'', ''RejoinNode'',
      ''GetNodeStatus'', ''GetReplicaSets'', ''ValidateVolumeSnapshotRestore'',
      ''CollectDiags'', ''ValidateDiagsOnS3'', ''ValidateStoragePools'',
      ''ValidateRebalanceJobs'', ''ResizeStoragePoolByPercentage'',
      ''IsStorageExpansionEnabled'', ''IsPureVolume'', ''IsPureFileVolume'',
      ''GetProxySpecForAVolume'', ''EstimatePoolExpandSize'', ''EstimateVolumeExpand'',
      ''GetLicenseSummary'', ''SetClusterOpts'', ''GetClusterOpts'']"

definition volume_Driver_3 :: "string list" where
  "volume_Driver_3 =
     [
      ''SetClusterOptsWithConfirmation'', ''SetClusterRunTimeOpts'', ''ToggleCallHome'',
      ''UpdateIOPriority'', ''UpdateStickyFlag'', ''ValidatePureFaFbMountOptions'',
      ''ValidatePureFaCreateOptions'', ''UpdateSharedv4FailoverStrategyUsingPxctl'',
      ''RunSecretsLogin'', ''GetDriver'', ''IsOperatorBasedInstall'', ''ValidateDriver'',
      ''ExpandPool'', ''ExpandPoolUsingPxctlCmd'', ''ListStoragePools'', ''GetStorageSpec'',
      ''GetStoragelessNodes'', ''Contains'', ''UpdateNodeWithStorageInfo'',
      ''WaitForNodeIDToBePickedByAnotherNode'', ''ValidateNodeAfterPickingUpNodeID'',
      ''WaitForPxPodsToBeUp'', ''GetAutoFsTrimStatus'', ''GetAutoFsTrimUsage'',
      ''GetPxctlCmdOutputConnectionOpts'', ''GetPxctlCmdOutput'', ''GetNodeStats'',
      ''GetTrashCanVolumeIds'', ''GetKvdbMembers'', ''GetNodePureVolumeAttachedCountMap'',
      ''AddBlockDrives'', ''GetPoolDrives'', ''AddCloudDrive'', ''GetPoolsUsedSize'',
      ''IsIOsInProgressForTheVolume'', ''GetRebalanceJobs'', ''GetRebalanceJobStatus'',
      ''UpdatePoolLabels'', ''GetPoolLabelValue'', ''IsNodeInMaintenance'',
      ''IsNodeOutOfMaintenance'', ''GetAlertsUsingResourceTypeByTime'',
      ''GetAlertsUsingResourceTypeBySeverity'', ''GetJournalDevicePath'',
      ''IsVolumeAttachedOnNode'', ''IsPxReadyOnNode'', ''GetPxctlStatus'',
      ''DeleteSnapshotsForVolumes'', ''EnableSkinnySnap'']"

definition volume_Driver_4 :: "string list" where
  "volume_Driver_4 =
     [
      ''UpdateSkinnySnapReplNum'', ''UpdateFBDANFSEndpoint'',
      ''ValidatePureFBDAMountSource'', ''CreateDefragSchedule'', ''GetDefragNodeStatus'',
      ''GetDefragClusterStatus'', ''CleanUpDefragSchedules'', ''DeleteDefragSchedule'',
      ''GetAllDefragSchedules'', ''InspectDefragSchedules'', ''ValidateDefragScheduleInfo'',
      ''ValidateDefragScheduleIdDeleted'', ''ValidatesDefragSchedulesTrigger'',
      ''ValidateLastDefragScheduleStatus'']"

definition node_Driver_1 :: "string list" where
  "node_Driver_1 =
     [
      ''Init'', ''String'', ''RebootNode'', ''RebootNodeAndWait'', ''CrashNode'',
      ''IsUsingSSH'', ''RunCommand'', ''RunCommandWithNoRetry'', ''ShutdownNode'',
      ''FindFiles'', ''Systemctl'', ''TestConnection'', ''YankDrive'', ''RecoverDrive'',
      ''SystemCheck'', ''SetASGClusterSize'', ''GetASGClusterSize'', ''SetClusterVersion'',
      ''GetClusterVersion'', ''GetZones'', ''PowerOnVM'', ''PowerOffVM'', ''DestroyVM'',
      ''MoveDisks'', ''RemoveNonRootDisks'', ''SystemctlUnitExist'', ''AddMachine'',
      ''DetachDrivesFromVM'', ''GetCompatibleDatastores'', ''GetDatastoresFromDatacenter'',
      ''PowerOnVMByName'', ''IsNodeRebootedInGivenTimeRange'', ''InjectNetworkError'',
      ''InjectNetworkErrorWithRebootFallback'', ''GetDeviceMapperCount'',
      ''GetBlockDrives'', ''RebalanceWorkerPool'', ''GetNodeState'',
      ''GetSupportedDriveTypes'', ''StorageVmotion'', ''GetUUIDFromVMDKPath'',
      ''FindVMByName'', ''FindDatastoreByName'']"

definition volume_Driver :: "string list" where
  "volume_Driver = volume_Driver_1 @ volume_Driver_2 @ volume_Driver_3 @ volume_Driver_4"

definition node_Driver :: "string list" where
  "node_Driver = node_Driver_1"

section \<open>The default volume driver\<close>

definition volume_default_1 :: "go_method list" where
  "volume_default_1 =
     [
      (''String'', [VStr []], None),
      (''GetVolumeDriverNamespace'', [VStr []], ns ''GetVolumeDriverNamespace()''),
      (''RefreshDriverEndpoints'', [], ns ''RefreshDriverEndpoints()''),
      (''ListAllVolumes'', [VNil], ns ''ListAllVolumes()''),
      (''CreateVolume'', [VStr []], ns ''CreateVolume()''),
      (''CreateVolumeUsingPxctlCmd'', [], ns ''CreateVolumeUsingPxctlCmd()''),
      (''ResizeVolume'', [], ns ''ResizeVolume()''),
      (''CreateVolumeUsingRequest'', [VStr []], ns ''CreateVolumeUsingRequest()''),
      (''CloneVolume'', [VStr []], ns ''CloneVolume()''),
      (''AttachVolume'', [VStr []], ns ''CreateVolume()''),
      (''DetachVolume'', [], ns ''DetachVolume()''),
      (''DeleteVolume'', [], ns ''DeleteVolume()''),
      (''CleanupVolume'', [], ns ''CleanupVolume()''),
      (''InspectVolume'', [VNil], ns ''InspectVolume()''),
      (''CreateSnapshot'', [VNil], ns ''CreateSnapshot()''),
      (''GetStorageDevices'', [VEmptyList], ns ''GetStorageDevices()'')]"

definition volume_default_2 :: "go_method list" where
  "volume_default_2 =
     [
      (''IsDriverInstalled'', [VBool False], ns ''IsDriverInstalled()''),
      (''RecoverDriver'', [], ns ''RecoverDriver()''),
      (''EnterMaintenance'', [], ns ''EnterMaintenance()''),
      (''ExitMaintenance'', [], ns ''ExitMaintenance()''),
      (''UpdatePoolIOPriority'', [], ns ''UpdatePoolIOPriority()''),
      (''RecoverPool'', [], ns ''RecoverPool()''),
      (''EnterPoolMaintenance'', [], ns ''EnterPoolMaintenance()''),
      (''ExitPoolMaintenance'', [], ns ''ExitPoolMaintenance()''),
      (''DeletePool'', [], ns ''DeletePool()''),
      (''GetNodePoolsStatus'', [VNil], ns ''GetNodePoolsStatus()''),
      (''GetNodePools'', [VNil], ns ''GetNodePools()''),
      (''GetDriverVersion'', [VStr []], ns ''GetDriverVersion()''),
      (''ValidateCreateVolume'', [], ns ''ValidateCreateVolume()''),
      (''ValidateCreateSnapshot'', [VStr []], ns ''ValidateCreateSnapshot()''),
      (''ValidateCreateSnapshotUsingPxctl'', [VStr []], ns ''ValidateCreateSnapshotUsingPxctl()''),
      (''GetCloudsnaps'', [VNil], ns ''Getloudsnaps()''),
      (''GetCloudsnapsOfGivenVolume'', [VNil], ns ''GetCloudsnapsOfGivenVolume()'')]"

definition volume_default_3 :: "go_method list" where
  "volume_default_3 =
     [
      (''DeleteAllCloudsnaps'', [], ns ''DeleteAllCloudsnaps()''),
      (''ValidateCreateCloudsnap'', [], ns ''ValidateCreateCloudsnap()''),
      (''ValidateCreateCloudsnapUsingPxctl'', [], ns ''ValidateCreateCloudsnapUsingPxctl()''),
      (''ValidateCreateGroupSnapshotUsingPxctl'', [], ns ''ValidateCreateGroupSnapshotUsingPxctl()''),
      (''ValidateVolumeInPxctlList'', [], ns ''ValidateVolumeInPxctlList()''),
      (''ValidateGetByteUsedForVolume'', [VInt 0], ns ''ValidateGetByteUsedForVolume()''),
      (''ValidatePureVolumesNoReplicaSets'', [], ns ''ValidatePureVolumesNoReplicaSets()''),
      (''InitializePureLocalVolumePaths'', [], ns ''InitializePureLocalVolumePaths()''),
      (''ValidatePureLocalVolumePaths'', [], ns ''ValidatePureLocalVolumePaths()''),
      (''ValidateUpdateVolume'', [], ns ''ValidateUpdateVolume()''),
      (''SetIoBandwidth'', [], ns ''SetIoBandwidth()''),
      (''UpdateVolumeSpec'', [], ns ''UpdateVolumeSpec()''),
      (''ValidateDeleteVolume'', [], ns ''ValidateDeleteVolume()''),
      (''ValidateVolumeCleanup'', [], ns ''ValidateVolumeCleanup()''),
      (''ValidateVolumeSetup'', [], ns ''ValidateVolumeSetup()''),
      (''StopDriver'', [], ns ''StopDriver()''),
      (''KillPXDaemon'', [], ns ''KillPXDaemon()'')]"

definition volume_default_4 :: "go_method list" where
  "volume_default_4 =
     [
      (''GetNodeForVolume'', [VNil], ns ''GetNodeForVolume()''),
      (''GetNodeForBackup'', [VZeroStruct], ns ''GetNodeForBackup()''),
      (''ExtractVolumeInfo'', [VStr [], VNil], ns ''ExtractVolumeInfo()''),
      (''WaitDriverUpOnNode'', [], ns ''WaitDriverUpOnNode()''),
      (''GetDriverNodes'', [VNil], ns ''GetDriverNodes()''),
      (''GetDriveSet'', [VZeroPtr], ns ''GetDriveSet()''),
      (''GetDriverNode'', [VZeroPtr], ns ''GetDriverNode()''),
      (''WaitDriverDownOnNode'', [], ns ''WaitDriverDownOnNode()''),
      (''GetReplicationFactor'', [VInt 1], ns ''GetReplicationFactor()''),
      (''SetReplicationFactor'', [], ns ''SetReplicationFactor()''),
      (''WaitForReplicationToComplete'', [], ns ''WaitForReplicationToComplete()''),
      (''GetMaxReplicationFactor'', [VInt 3], None),
      (''GetMinReplicationFactor'', [VInt 1], None),
      (''GetAggregationLevel'', [VInt 1], ns ''GetAggregationLevel()''),
      (''StartDriver'', [], ns ''StartDriver()''),
      (''UpgradeDriver'', [], ns ''UpgradeDriver()''),
      (''ValidateDriver'', [], ns ''ValidateDriver()'')]"

definition volume_default_5 :: "go_method list" where
  "volume_default_5 =
     [
      (''UpgradeStork'', [], ns ''UpgradeDriver()''),
      (''GetClusterPairingInfo'', [VEmptyMap], ns ''GetClusterPairingInfo()''),
      (''DecommissionNode'', [], ns ''DecommissionNode()''),
      (''RecoverNode'', [], ns ''RecoverNode()''),
      (''GetNodeStatus'', [VNil], ns ''GetNodeStatus()''),
      (''GetReplicaSets'', [VNil], ns ''GetReplicaSets()''),
      (''ValidateVolumeSnapshotRestore'', [], ns ''ValidateVolumeSnapshotRestore()''),
      (''CollectDiags'', [], ns ''CollectDiags()''),
      (''ValidateDiagsOnS3'', [], ns ''ValidateDiagsOnS3()''),
      (''ValidateStoragePools'', [], ns ''ValidateStoragePools()''),
      (''ExpandPool'', [], ns ''ExpandPool()''),
      (''ExpandPoolUsingPxctlCmd'', [], ns ''ExpandPoolUsingPxctlCmd()''),
      (''GetAutoFsTrimStatus'', [VNil], ns ''GetAutoFsTrimStatus()''),
      (''GetAutoFsTrimUsage'', [VNil], ns ''GetAutoFsTrimUsage()''),
      (''ListStoragePools'', [VNil], ns ''ListStoragePools()''),
      (''GetStorageSpec'', [VNil], ns ''ListStoragePools()''),
      (''ValidateRebalanceJobs'', [], ns ''ValidateRebalanceJobs()'')]"

definition volume_default_6 :: "go_method list" where
  "volume_default_6 =
     [
      (''ResizeStoragePoolByPercentage'', [], ns ''ResizeStoragePoolByPercentage()''),
      (''CreateAutopilotRules'', [], ns ''CreateAutopilotRules()''),
      (''IsStorageExpansionEnabled'', [VBool True], ns ''IsStorageExpansionEnabled()''),
      (''CalculateAutopilotObjectSize'', [VInt 0], None),
      (''EstimatePoolExpandSize'', [VInt 0], ns ''EstimatePoolExpandSize()''),
      (''EstimateVolumeExpand'', [VInt 0, VInt 0], ns ''EstimateVolumeExpand()''),
      (''GetLicenseSummary'', [VZeroStruct], None),
      (''RestartDriver'', [], ns ''RestartDriver()''),
      (''SetClusterOpts'', [], ns ''SetClusterOpts()''),
      (''GetClusterOpts'', [VNil], ns ''GetClusterOpts()''),
      (''SetClusterOptsWithConfirmation'', [], ns ''SetClusterOpts()''),
      (''SetClusterRunTimeOpts'', [], ns ''SetClusterRunTimeOpts()''),
      (''ToggleCallHome'', [], ns ''ToggleCallHome()''),
      (''UpdateSharedv4FailoverStrategyUsingPxctl'', [], ns ''UpdateSharedv4FailoverStrategyUsingPxctl''),
      (''UpdateIOPriority'', [], ns ''UpdateIOPriority''),
      (''UpdateStickyFlag'', [], ns ''UpdateStickyFlag''),
      (''ValidatePureFaFbMountOptions'', [], ns ''ValidateMountOptions''),
      (''ValidatePureFaCreateOptions'', [], ns ''ValidateCreateOptions''),
      (''Contains'', [VBool False], None)]"

definition volume_default_7 :: "go_method list" where
  "volume_default_7 =
     [
      (''GetStoragelessNodes'', [VEmptyList], ns ''GetStoragelessNodes()''),
      (''UpdateNodeWithStorageInfo'', [], ns ''UpdateNodeWithStorageInfo()''),
      (''WaitForNodeIDToBePickedByAnotherNode'', [VZeroPtr], ns ''WaitForNodeIdToBePickedByAnotherNode()''),
      (''ValidateNodeAfterPickingUpNodeID'', [], ns ''ValidateNodeAfterPickingUpNodeId()''),
      (''WaitForPxPodsToBeUp'', [], ns ''WaitForPxPodsToBeUp()''),
      (''IsOperatorBasedInstall'', [VBool False], ns ''IsOperatorBasedInstall()''),
      (''RunSecretsLogin'', [], ns ''RunSecretsLogin()''),
      (''GetDriver'', [VNil], ns ''GetDriver()''),
      (''GetDriverVersionOnNode'', [VStr []], ns ''GetPxVersionOnNode()''),
      (''GetPxctlCmdOutputConnectionOpts'', [VStr []], ns ''GetPxctlCmdOutputConnectionOpts()''),
      (''GetPxctlCmdOutput'', [VStr []], ns ''GetPxctlCmdOutput()''),
      (''IsPureVolume'', [VBool False], ns ''IsPureVolume()''),
      (''GetNodeStats'', [VNil], ns ''GetNodeStats()''),
      (''GetTrashCanVolumeIds'', [VNil], ns ''GetTrashCanVolumeIds()''),
      (''IsPureFileVolume'', [VBool False], ns ''IsPureFileVolume()''),
      (''GetKvdbMembers'', [VNil], ns ''GetKvdbMembers()''),
      (''GetNodePureVolumeAttachedCountMap'', [VNil], ns ''GetNodePureVolumeAttachedCountMap()'')]"

definition volume_default_8 :: "go_method list" where
  "volume_default_8 =
     [
      (''RejoinNode'', [], ns ''RejoinNode()''),
      (''AddBlockDrives'', [], ns ''AddBlockDrives()''),
      (''GetPoolDrives'', [VNil], ns ''GetPoolDrives()''),
      (''AddCloudDrive'', [], ns ''AddCloudDrive()''),
      (''GetPoolsUsedSize'', [VNil], ns ''GetPoolsUsedSize()''),
      (''IsIOsInProgressForTheVolume'', [VBool False], ns ''IsIOsInProgressForTheVolume()''),
      (''GetRebalanceJobs'', [VNil], ns ''GetRebalanceJobs()''),
      (''GetRebalanceJobStatus'', [VNil], ns ''GetRebalanceJobStatus()''),
      (''UpdatePoolLabels'', [], ns ''UpdatePoolLabels()''),
      (''GetPoolLabelValue'', [VStr []], ns ''GetPoolLabelValue()''),
      (''IsNodeInMaintenance'', [VBool False], ns ''IsNodeInMaintenance()''),
      (''IsNodeOutOfMaintenance'', [VBool True], ns ''IsNodeOutOfMaintenance()''),
      (''GetAlertsUsingResourceTypeByTime'', [VNil], ns ''GetAlertsUsingResourceTypeByTime()''),
      (''GetAlertsUsingResourceTypeBySeverity'', [VNil], ns ''GetAlertsUsingResourceTypeBySeverity()''),
      (''GetJournalDevicePath'', [VStr []], ns ''GetJournalDevicePath()''),
      (''IsVolumeAttachedOnNode'', [VBool True], ns ''IsVolumeAttachedOnNode()''),
      (''GetPxctlStatus'', [VStr []], ns ''GetPxctlStatus()''),
      (''IsPxReadyOnNode'', [VBool False], None)]"

definition volume_default_9 :: "go_method list" where
  "volume_default_9 =
     [
      (''EnableSkinnySnap'', [], ns ''EnableSkinnySnap()''),
      (''UpdateSkinnySnapReplNum'', [], ns ''UpdateSkinnySnapReplNum()''),
      (''CreateDefragSchedule'', [VNil], ns ''CreateDefragSchedule()''),
      (''GetDefragNodeStatus'', [VNil], ns ''GetDefragNodeStatus()''),
      (''GetDefragClusterStatus'', [VNil], ns ''GetDefragClusterStatus()''),
      (''CleanUpDefragSchedules'', [], ns ''CleanUpDefragSchedules()''),
      (''DeleteDefragSchedule'', [], ns ''DeleteDefragSchedule()''),
      (''GetAllDefragSchedules'', [VNil], ns ''GetAllDefragSchedules()''),
      (''InspectDefragSchedules'', [VNil], ns ''InspectDefragSchedules()''),
      (''ValidateDefragScheduleInfo'', [], ns ''ValidateDefragScheduleInfo()''),
      (''ValidateDefragScheduleIdDeleted'', [], ns ''ValidateDefragScheduleIdDeleted()''),
      (''ValidatesDefragSchedulesTrigger'', [], ns ''ValidatesDefragSchedulesTrigger()''),
      (''ValidateLastDefragScheduleStatus'', [VNil], ns ''ValidateLastDefragScheduleStatus()'')]"

definition volume_default :: "go_method list" where
  "volume_default =
     volume_default_1 @ volume_default_2 @ volume_default_3 @ volume_default_4 @ volume_default_5 @ volume_default_6 @ volume_default_7 @ volume_default_8 @ volume_default_9"

definition DefaultDriver_Init :: "'d vol_globals \<Rightarrow> go_error option \<times> 'd vol_globals" where
  "DefaultDriver_Init g = (None, g\<lparr>StorageProvisioner := DefaultStorageProvisioner\<rparr>)"

text \<open>\<open>RandomizeVolumeName\<close> replaces every match of \<open>(name=)([0-9A-Za-z_-]+)(,)?\<close>, from left to
  right and longest first, by the same text with an underscore and a new uuid after the name. The
  comma is written back as it was read, so it stays part of the rest.\<close>

definition name_char :: "char \<Rightarrow> bool" where
  "name_char c = (c \<in> set ''0123456789ABCDEFGHIJKLMNOPQRSTUVWXYZabcdefghijklmnopqrstuvwxyz_-'')"

definition name_key :: string where
  "name_key = ''name=''"

lemma length_dropWhile_drop_lt:
  "s \<noteq> [] \<Longrightarrow> 0 < n \<Longrightarrow> length (dropWhile P (drop n s)) < length s"
  using length_dropWhile_le [of P "drop n s"] by (cases s) (auto simp: less_Suc_eq_le)

function RandomizeVolumeName :: "string \<Rightarrow> string \<Rightarrow> string" where
  "RandomizeVolumeName u params =
     (if params = [] then []
      else if HasPrefix params name_key \<and> takeWhile name_char (drop 5 params) \<noteq> []
      then name_key @ takeWhile name_char (drop 5 params) @ ''_'' @ u @
           RandomizeVolumeName u (dropWhile name_char (drop 5 params))
      else hd params # RandomizeVolumeName u (tl params))"
  by pat_completeness auto

termination
  by (relation "measure (\<lambda>(u, s). length s)") (auto simp: length_dropWhile_drop_lt)

declare RandomizeVolumeName.simps [simp del]

section \<open>The node driver that supports nothing\<close>

definition node_not_supported_1 :: "go_method list" where
  "node_not_supported_1 =
     [
      (''Init'', [], ns ''Init()''),
      (''String'', [VStr ''Operation String() is not supported''], None),
      (''RebootNode'', [], ns ''RebootNode()''),
      (''DetachDrivesFromVM'', [], ns ''DetachDrivesFromVM()''),
      (''GetDatastoresFromDatacenter'', [VNil], ns ''GetDatastoresFromDatacenter()''),
      (''GetCompatibleDatastores'', [VNil], ns ''GetDatastoresFromDatacenter()''),
      (''RebootNodeAndWait'', [], ns ''RebootNodeAndWait()''),
      (''CrashNode'', [], ns ''CrashNode()''),
      (''RunCommand'', [VStr []], ns ''RunCommand()''),
      (''RunCommandWithNoRetry'', [VStr []], ns ''RunCommandWithNoRetry()''),
      (''ShutdownNode'', [], ns ''ShutdownNode()''),
      (''FindFiles'', [VStr []], ns ''FindFiles()''),
      (''Systemctl'', [], ns ''Systemctl()''),
      (''GetBlockDrives'', [VNil], ns ''GetBlockDrives()''),
      (''YankDrive'', [VStr []], ns ''YankDrive()''),
      (''RecoverDrive'', [], ns ''RecoverDrive()''),
      (''TestConnection'', [], ns ''TestConnection()''),
      (''SystemCheck'', [VStr []], ns ''SystemCheck()''),
      (''SetASGClusterSize'', [], ns ''SetASGClusterSize()''),
      (''GetASGClusterSize'', [VInt 0], ns ''GetASGClusterSize()''),
      (''DeleteNode'', [], ns ''DeleteNode()'')]"

definition node_not_supported_2 :: "go_method list" where
  "node_not_supported_2 =
     [
      (''SetClusterVersion'', [], ns ''SetClusterVersion()''),
      (''GetClusterVersion'', [VStr [], VEmptyList], ns ''GetClusterVersion()''),
      (''GetZones'', [VEmptyList], ns ''GetZones()''),
      (''PowerOnVM'', [], ns ''PowerOnVM()''),
      (''PowerOffVM'', [], ns ''PowerOffVM()''),
      (''DestroyVM'', [], ns ''DestroyVM()''),
      (''RebootVM'', [], ns ''RebootVM()''),
      (''SystemctlUnitExist'', [VBool False], ns ''SystemctlUnitExist()''),
      (''AddMachine'', [], ns ''AddMachine()''),
      (''PowerOnVMByName'', [], ns ''PowerOnVmByName()''),
      (''IsUsingSSH'', [VBool False], None),
      (''IsNodeRebootedInGivenTimeRange'', [VBool False], ns ''IsNodeRebootedInGivenTimeRange()''),
      (''GetDeviceMapperCount'', [VInt (-1)], ns ''GetDeviceMapperCount()''),
      (''InjectNetworkError'', [], ns ''InjectNetworkError()''),
      (''InjectNetworkErrorWithRebootFallback'', [], ns ''InjectNetworkErrorWithRebootFallback()''),
      (''RebalanceWorkerPool'', [], ns ''RebalanceWorkerPool()''),
      (''GetNodeState'', [VStr []], ns ''GetNodeState()''),
      (''GetSupportedDriveTypes'', [VEmptyList], ns ''GetSupportedDriveTypes()''),
      (''MoveDisks'', [], ns ''MoveDisks()''),
      (''RemoveNonRootDisks'', [], ns ''RemoveNonRootDisks()'')]"

definition node_not_supported_3 :: "go_method list" where
  "node_not_supported_3 =
     [
      (''StorageVmotion'', [VNil], ns ''StorageVmotion()''),
      (''GetUUIDFromVMDKPath'', [VStr []], ns ''GetUUIDFromVMDKPath()''),
      (''FindVMByName'', [VNil], ns ''FindVMByName()''),
      (''FindDatastoreByName'', [VNil], ns ''FindDatastoreByName()'')]"

definition node_not_supported :: "go_method list" where
  "node_not_supported = node_not_supported_1 @ node_not_supported_2 @ node_not_supported_3"

section \<open>Calls through embedding\<close>

text \<open>A call of a method on a driver that embeds another reaches the outer method when there is one
  and the promoted method of the embedded driver otherwise.\<close>

definition call_method :: "go_method list \<Rightarrow> go_method list \<Rightarrow> string \<Rightarrow> (go_value list \<times> go_error option) option" where
  "call_method own embedded name = (case map_of own name of
     Some r \<Rightarrow> Some r | None \<Rightarrow> map_of embedded name)"

section \<open>The names under which the defaults report themselves\<close>

text \<open>A default should name itself; these name another operation.\<close>

definition volume_mislabelled :: "(string \<times> string) list" where
  "volume_mislabelled =
     [(''AttachVolume'', ''CreateVolume()''), (''GetCloudsnaps'', ''Getloudsnaps()''),
      (''UpgradeStork'', ''UpgradeDriver()''), (''GetStorageSpec'', ''ListStoragePools()''),
      (''SetClusterOptsWithConfirmation'', ''SetClusterOpts()''),
      (''UpdateSharedv4FailoverStrategyUsingPxctl'', ''UpdateSharedv4FailoverStrategyUsingPxctl''),
      (''UpdateIOPriority'', ''UpdateIOPriority''), (''UpdateStickyFlag'', ''UpdateStickyFlag''),
      (''ValidatePureFaFbMountOptions'', ''ValidateMountOptions''),
      (''ValidatePureFaCreateOptions'', ''ValidateCreateOptions''),
      (''WaitForNodeIDToBePickedByAnotherNode'', ''WaitForNodeIdToBePickedByAnotherNode()''),
      (''ValidateNodeAfterPickingUpNodeID'', ''ValidateNodeAfterPickingUpNodeId()''),
      (''GetDriverVersionOnNode'', ''GetPxVersionOnNode()'')]"

definition node_mislabelled :: "(string \<times> string) list" where
  "node_mislabelled = [(''GetCompatibleDatastores'', ''GetDatastoresFromDatacenter()''),
     (''PowerOnVMByName'', ''PowerOnVmByName()'')]"

definition volume_answering :: "string list" where
  "volume_answering = [''String'', ''GetMaxReplicationFactor'', ''GetMinReplicationFactor'',
     ''CalculateAutopilotObjectSize'', ''GetLicenseSummary'', ''Contains'', ''IsPxReadyOnNode'']"

definition node_answering :: "string list" where
  "node_answering = [''String'', ''IsUsingSSH'']"

definition reports_itself :: "string list \<Rightarrow> (string \<times> string) list \<Rightarrow> go_method \<Rightarrow> bool" where
  "reports_itself answering mislabelled r = (case r of (name, vals, err) \<Rightarrow>
     err = (if name \<in> set answering then None
            else Some (ErrNotSupported ''Function''
              (case map_of mislabelled name of Some l \<Rightarrow> l | None \<Rightarrow> name @ ''()''))))"

lemma volume_default_reports:
  "list_all (reports_itself volume_answering volume_mislabelled) volume_default"
  by code_simp

lemma node_not_supported_reports:
  "list_all (reports_itself node_answering node_mislabelled) node_not_supported"
  by code_simp

lemma default_error:
  assumes "list_all (reports_itself answering mislabelled) tbl"
    and "map_of tbl name = Some (vals, err)"
  shows "err = (if name \<in> set answering then None
    else ns (case map_of mislabelled name of Some l \<Rightarrow> l | None \<Rightarrow> name @ ''()''))"
  using assms(1) map_of_SomeD [OF assms(2)] by (auto simp: list_all_iff reports_itself_def)

section \<open>Which methods of an interface a table lacks\<close>

definition no_default :: "string list" where
  "no_default = [''InspectCurrentCluster'', ''GetProxySpecForAVolume'', ''DeleteSnapshotsForVolumes'',
     ''UpdateFBDANFSEndpoint'', ''ValidatePureFBDAMountSource'']"

lemmas volume_tables = volume_default_1_def volume_default_2_def volume_default_3_def
  volume_default_4_def volume_default_5_def volume_default_6_def volume_default_7_def
  volume_default_8_def volume_default_9_def

lemmas volume_interface = volume_Driver_1_def volume_Driver_2_def volume_Driver_3_def
  volume_Driver_4_def

lemmas node_tables = node_not_supported_1_def node_not_supported_2_def node_not_supported_3_def

text \<open>Membership of a literal in a list that has it needs no comparison of unequal literals.\<close>

lemmas literal_member = append.simps list.set list.map fst_conv insert_subset empty_subsetI
  insert_iff simp_thms

lemma volume_Driver_subset:
  "set volume_Driver \<subseteq> set (no_default @ [''Init'', ''RandomizeVolumeName''] @ map fst volume_default)"
  unfolding volume_Driver_def volume_interface volume_default_def volume_tables no_default_def
  by (simp only: literal_member)

lemma no_default_required:
  "set (no_default @ [''Init'', ''RandomizeVolumeName'']) \<subseteq> set volume_Driver"
  unfolding volume_Driver_def volume_interface no_default_def
  by (simp only: literal_member)

lemma no_default_names:
  "list_all (\<lambda>x. x \<notin> set (map fst volume_default)) (no_default @ [''Init'', ''RandomizeVolumeName''])"
  by code_simp

lemma node_Driver_subset: "set node_Driver \<subseteq> set (map fst node_not_supported)"
  unfolding node_Driver_def node_Driver_1_def node_not_supported_def node_tables
  by (simp only: literal_member)

lemma volume_default_complete:
  assumes "name \<in> set volume_Driver" and "name \<notin> set (no_default @ [''Init'', ''RandomizeVolumeName''])"
  shows "\<exists>r. map_of volume_default name = Some r"
proof -
  have "name \<in> set (map fst volume_default)"
    using subsetD [OF volume_Driver_subset assms(1)] assms(2) by auto
  then show ?thesis
    by (metis list.set_map map_of_eq_None_iff not_None_eq)
qed

section \<open>The randomised volume name\<close>

lemma randomize_no_key:
  "\<not> Contains_str s name_key \<Longrightarrow> RandomizeVolumeName u s = s"
proof (induction s)
  case Nil
  then show ?case by (simp add: RandomizeVolumeName.simps)
next
  case (Cons c s)
  then show ?case by (subst RandomizeVolumeName.simps) auto
qed

text \<open>The key has no border, so no match of it straddles the start of another.\<close>

lemma take_eq_prefix:
  "length k \<le> length p \<Longrightarrow> p @ r = k @ v \<Longrightarrow> \<exists>z. p = k @ z"
  by (auto simp: append_eq_append_conv2)

lemma name_key_unbordered:
  assumes "HasPrefix (pre @ name_key @ t) name_key"
  shows "pre = [] \<or> HasPrefix pre name_key"
proof (rule ccontr)
  assume "\<not> ?thesis"
  moreover obtain v where v: "pre @ name_key @ t = name_key @ v"
    using assms by (auto simp: HasPrefix_iff_prefix prefix_def)
  ultimately have "pre \<noteq> []" "\<not> length name_key \<le> length pre"
    using take_eq_prefix [of name_key pre "name_key @ t" v] by (auto simp: HasPrefix_iff_prefix prefix_def)
  then have "0 < length pre" "length pre < 5" by (simp_all add: name_key_def)
  then have "length pre \<in> {1, 2, 3, 4}" by (simp, linarith)
  moreover have "(pre @ name_key @ t) ! length pre = CHR ''n''"
    by (simp add: name_key_def)
  ultimately show False
    unfolding v by (auto simp: name_key_def)
qed

lemma randomize_skip:
  assumes "\<not> Contains_str pre name_key"
  shows "RandomizeVolumeName u (pre @ name_key @ t) = pre @ RandomizeVolumeName u (name_key @ t)"
  using assms
proof (induction pre)
  case Nil
  then show ?case by simp
next
  case (Cons c pre)
  have "\<not> HasPrefix ((c # pre) @ name_key @ t) name_key"
    using name_key_unbordered [of "c # pre" t] Cons.prems by auto
  then show ?case
    using Cons by (subst RandomizeVolumeName.simps) simp
qed

lemma takeWhile_name:
  assumes "\<forall>c\<in>set vol. P c" and "rest = [] \<or> \<not> P (hd rest)"
  shows "takeWhile P (vol @ rest) = vol" "dropWhile P (vol @ rest) = rest"
  using assms by (cases rest; simp)+

section \<open>Properties\<close>

text \<open>Every method of the default volume driver and of the node driver that supports nothing
  returns \<open>ErrNotSupported\<close>, apart from the few that return a constant without an error. The error
  names the method that was called, apart from thirteen volume methods and two node methods, which
  name another operation.\<close>

theorem defaults_report_themselves:
  "list_all (\<lambda>(name, vals, err).
      if name \<in> set volume_answering then err = None
      else (\<exists>label. err = Some (ErrNotSupported ''Function'' label) \<and>
             label = (case map_of volume_mislabelled name of Some l \<Rightarrow> l | None \<Rightarrow> name @ ''()'')))
     volume_default \<and>
   list_all (\<lambda>(name, vals, err).
      if name \<in> set node_answering then err = None
      else (\<exists>label. err = Some (ErrNotSupported ''Function'' label) \<and>
             label = (case map_of node_mislabelled name of Some l \<Rightarrow> l | None \<Rightarrow> name @ ''()'')))
     node_not_supported \<and>
   list_all (\<lambda>(name, label). label \<noteq> name @ ''()'') (volume_mislabelled @ node_mislabelled)"
proof (intro conjI)
  show "list_all (\<lambda>(name, label). label \<noteq> name @ ''()'') (volume_mislabelled @ node_mislabelled)"
    by code_simp
qed (use volume_default_reports node_not_supported_reports in
      \<open>auto simp: reports_itself_def elim!: list.pred_mono_strong\<close>)

text \<open>The node driver that supports nothing implements the whole interface. The default volume
  driver implements it all but five methods, which every driver that embeds it has to bring.\<close>

theorem defaults_cover_interfaces:
  "{name \<in> set node_Driver. map_of node_not_supported name = None} = {} \<and>
   {name \<in> set volume_Driver. map_of volume_default name = None} =
     {''InspectCurrentCluster'', ''GetProxySpecForAVolume'', ''DeleteSnapshotsForVolumes'',
      ''UpdateFBDANFSEndpoint'', ''ValidatePureFBDAMountSource'', ''Init'', ''RandomizeVolumeName''}"
proof
  show "{name \<in> set node_Driver. map_of node_not_supported name = None} = {}"
    using node_Driver_subset by (auto simp: map_of_eq_None_iff)
  have "{name \<in> set volume_Driver. map_of volume_default name = None} =
      set (no_default @ [''Init'', ''RandomizeVolumeName''])"
    using volume_Driver_subset no_default_required no_default_names
    unfolding map_of_eq_None_iff list_all_iff set_append set_map by blast
  then show "{name \<in> set volume_Driver. map_of volume_default name = None} =
     {''InspectCurrentCluster'', ''GetProxySpecForAVolume'', ''DeleteSnapshotsForVolumes'',
      ''UpdateFBDANFSEndpoint'', ''ValidatePureFBDAMountSource'', ''Init'', ''RandomizeVolumeName''}"
    by (simp only: no_default_def append.simps list.set)
qed

text \<open>\<open>RandomizeVolumeName\<close> appends an underscore and the new uuid to the volume name and
  leaves the text before the name key and everything after the name to the same treatment: for
  parameters without a further name key, only the name changes.\<close>

theorem randomize_volume_name:
  assumes "\<not> Contains_str pre ''name=''" and "vol \<noteq> []" and "\<forall>c\<in>set vol. name_char c"
    and "rest = [] \<or> \<not> name_char (hd rest)" and "\<not> Contains_str rest ''name=''"
  shows "RandomizeVolumeName u (pre @ ''name='' @ vol @ rest) =
    pre @ ''name='' @ vol @ ''_'' @ u @ rest"
proof -
  have "RandomizeVolumeName u (name_key @ vol @ rest) = name_key @ vol @ ''_'' @ u @ rest"
    using assms(2) takeWhile_name [OF assms(3,4)] randomize_no_key [of rest u] assms(5)
    by (subst RandomizeVolumeName.simps)
       (simp add: name_key_def HasPrefix_iff_prefix del: takeWhile_append dropWhile_append)
  then show ?thesis
    using randomize_skip [of pre u "vol @ rest"] assms(1) by (simp add: name_key_def)
qed

theorem randomize_volume_name_witness:
  "RandomizeVolumeName ''u1'' ''size=5,name=vol-1,repl=3'' = ''size=5,name=vol-1_u1,repl=3''"
  using randomize_volume_name [of "''size=5,''" "''vol-1''" "'',repl=3''" "''u1''"]
  by (simp add: name_char_def HasPrefix_iff_prefix)

end
