(* ===== verification/RetryTask.thy ===== *)
theory RetryTask
  imports NodeTypes
begin

text \<open>
  The retry loop that every waiting operation of torpedo runs, \<open>task.DoRetryWithTimeout\<close> of the
  vendored package \<open>sched-ops/task\<close>, and \<open>PerformTask\<close> of \<open>drivers/api/api.go\<close>, which runs a
  task once its trigger condition holds.

  The world the task reads and changes is a type variable. A call of the task returns its three
  results, the time it took (in nanoseconds) and the world after it; \<open>now\<close> is the time since the
  loop started. The deadline is looked at between two calls only, as in the code, where the
  goroutine selects on \<open>ctx.Done()\<close> at the head of the loop. The loop is a
  \<open>partial_function\<close>: a loop that never ends is \<open>None\<close>.
\<close>

section \<open>The retry loop\<close>

type_synonym ('w, 'a) task_fn = "'w \<Rightarrow> ('a \<times> bool \<times> go_error option) \<times> nat \<times> 'w"

type_synonym ('w, 'a) loop_out = "(go_error + 'a) \<times> string list \<times> 'w"

partial_function (option) retry_loop ::
  "('w, 'a) task_fn \<Rightarrow> int \<Rightarrow> int \<Rightarrow> nat \<Rightarrow> string list \<Rightarrow> 'w \<Rightarrow> ('w, 'a) loop_out option" where
  "retry_loop t timeout timeBeforeRetry now errInRetires w =
     (if timeout \<le> int now then Some (Inl DeadlineExceeded, errInRetires, w)
      else (case t w of ((out, retry, err), elapsed, w') \<Rightarrow>
        (case err of
           Some e \<Rightarrow>
             if retry
             then retry_loop t timeout timeBeforeRetry (now + elapsed + nat timeBeforeRetry)
                    (errInRetires @ [Error_str e]) w'
             else Some (Inl e, errInRetires, w')
         | None \<Rightarrow> Some (Inr out, errInRetires, w'))))"

definition timeout_reason :: "string list \<Rightarrow> string" where
  "timeout_reason errInRetires =
     ''DoRetryWithTimeout timed out. Errors generated in retries: {'' @
     Join errInRetires (''}'' @ [go_nl] @ ''{'') @ ''}''"

definition DoRetryWithTimeout ::
  "('w, 'a) task_fn \<Rightarrow> int \<Rightarrow> int \<Rightarrow> 'w \<Rightarrow> ((go_error + 'a) \<times> 'w) option" where
  "DoRetryWithTimeout t timeout timeBeforeRetry w =
     (case retry_loop t timeout timeBeforeRetry 0 [] w of
        None \<Rightarrow> None
      | Some (Inr result, _, w') \<Rightarrow> Some (Inr result, w')
      | Some (Inl err, errInRetires, w') \<Rightarrow>
          if err = DeadlineExceeded
          then Some (Inl (ErrTimedOut (timeout_reason errInRetires)), w')
          else Some (Inl err, w'))"

section \<open>PerformTask\<close>

record TriggerOptions =
  TriggerCheckInterval :: int
  TriggerCheckTimeout :: int
  BlockForTrigger :: bool

definition second_ns :: int where
  "second_ns = 1000000000"

definition defaultTriggerCheckInterval :: int where
  "defaultTriggerCheckInterval = 5 * second_ns"

definition defaultTriggerCheckTimeout :: int where
  "defaultTriggerCheckTimeout = 5 * 60 * second_ns"

definition set_trigger_defaults :: "TriggerOptions \<Rightarrow> TriggerOptions" where
  "set_trigger_defaults opts =
     (let opts = (if TriggerCheckTimeout opts = 0
                  then opts\<lparr>TriggerCheckTimeout := defaultTriggerCheckTimeout\<rparr> else opts) in
      if TriggerCheckInterval opts = 0
      then opts\<lparr>TriggerCheckInterval := defaultTriggerCheckInterval\<rparr> else opts)"

text \<open>The callback and the user task are the functions the caller passes.\<close>

definition userTaskWithTriggerChecks ::
  "('w \<Rightarrow> (bool \<times> go_error option) \<times> nat \<times> 'w) \<Rightarrow> ('w \<Rightarrow> go_error option \<times> nat \<times> 'w)
     \<Rightarrow> ('w, bool) task_fn" where
  "userTaskWithTriggerChecks TriggerCb userTask w =
     (case TriggerCb w of ((triggered, err), d, w1) \<Rightarrow>
        (case err of
           Some e \<Rightarrow> ((False, False, Some e), d, w1)
         | None \<Rightarrow>
             if triggered
             then (case userTask w1 of (e, d', w2) \<Rightarrow> ((triggered, False, e), d + d', w2))
             else ((False, True, Some (Errorf ''PerformTask: trigger check has not been met yet'')),
                   d, w1)))"

definition perform_sync ::
  "('w \<Rightarrow> (bool \<times> go_error option) \<times> nat \<times> 'w) \<Rightarrow> ('w \<Rightarrow> go_error option \<times> nat \<times> 'w)
     \<Rightarrow> TriggerOptions \<Rightarrow> 'w \<Rightarrow> (go_error option \<times> TriggerOptions \<times> 'w) option" where
  "perform_sync TriggerCb userTask opts w =
     (let opts = set_trigger_defaults opts in
      case DoRetryWithTimeout (userTaskWithTriggerChecks TriggerCb userTask)
             (TriggerCheckTimeout opts) (TriggerCheckInterval opts) w of
        None \<Rightarrow> None
      | Some (Inr triggered, w') \<Rightarrow> Some (None, opts, w')
      | Some (Inl err, w') \<Rightarrow>
          (case err of
             ErrTimedOut _ \<Rightarrow>
               Some (Some (ErrOperationNotPerformed ''Task''
                       ''PerformTask: Trigger checks did not pass''), opts, w')
           | _ \<Rightarrow>
               Some (Some (ErrOperationNotPerformed ''Task''
                       (''PerformTask:Trigger checks could not be performed: '' @ Error_str err)),
                     opts, w')))"

text \<open>\<open>schedule\<close> is \<open>sched.Instance().Schedule\<close> of the OpenStorage package \<open>sched\<close>: it takes
  the closure and returns an error or nil.\<close>

definition PerformTask ::
  "((TriggerOptions \<Rightarrow> 'w \<Rightarrow> (go_error option \<times> TriggerOptions \<times> 'w) option)
      \<Rightarrow> TriggerOptions \<Rightarrow> 'w \<Rightarrow> (go_error option \<times> TriggerOptions \<times> 'w) option)
   \<Rightarrow> ('w \<Rightarrow> (bool \<times> go_error option) \<times> nat \<times> 'w) \<Rightarrow> ('w \<Rightarrow> go_error option \<times> nat \<times> 'w)
   \<Rightarrow> TriggerOptions option \<Rightarrow> 'w \<Rightarrow> (go_error option \<times> TriggerOptions option \<times> 'w) option" where
  "PerformTask schedule TriggerCb userTask opts w = (case opts of
     None \<Rightarrow> (case userTask w of (e, d, w') \<Rightarrow> Some (e, None, w'))
   | Some os \<Rightarrow>
       map_option (\<lambda>(e, os', w'). (e, Some os', w'))
         (if BlockForTrigger os then perform_sync TriggerCb userTask os w
          else schedule (perform_sync TriggerCb userTask) os w))"

section \<open>The calls of the task, one after another\<close>

text \<open>\<open>world_at t k w\<close> is the world before call number \<open>k\<close>, \<open>outcome\<close> what that call returns and
  \<open>start_at\<close> when it starts, if all the calls before it asked for a retry.\<close>

fun world_at :: "('w, 'a) task_fn \<Rightarrow> nat \<Rightarrow> 'w \<Rightarrow> 'w" where
  "world_at t 0 w = w"
| "world_at t (Suc k) w = world_at t k (snd (snd (t w)))"

definition outcome :: "('w, 'a) task_fn \<Rightarrow> nat \<Rightarrow> 'w \<Rightarrow> 'a \<times> bool \<times> go_error option" where
  "outcome t k w = fst (t (world_at t k w))"

fun start_at :: "('w, 'a) task_fn \<Rightarrow> int \<Rightarrow> nat \<Rightarrow> 'w \<Rightarrow> nat" where
  "start_at t gap 0 w = 0"
| "start_at t gap (Suc k) w = fst (snd (t w)) + nat gap + start_at t gap k (snd (snd (t w)))"

definition asks_retry :: "'a \<times> bool \<times> go_error option \<Rightarrow> bool" where
  "asks_retry o1 = (case o1 of (_, retry, err) \<Rightarrow> retry \<and> err \<noteq> None)"

definition outcome_error :: "'a \<times> bool \<times> go_error option \<Rightarrow> string" where
  "outcome_error o1 = (case o1 of (_, _, Some e) \<Rightarrow> Error_str e | _ \<Rightarrow> [])"

definition final_result :: "'a \<times> bool \<times> go_error option \<Rightarrow> go_error + 'a" where
  "final_result o1 = (case o1 of (out, _, None) \<Rightarrow> Inr out | (_, _, Some e) \<Rightarrow> Inl e)"

lemma outcome_0 [simp]: "outcome t 0 w = fst (t w)"
  by (simp add: outcome_def)

lemma outcome_Suc: "outcome t (Suc k) w = outcome t k (snd (snd (t w)))"
  by (simp add: outcome_def)

lemma start_at_ge: "k * nat gap \<le> start_at t gap k w"
  by (induction k arbitrary: w) (auto simp: add_le_mono trans_le_add2)

lemma loop_retry_step:
  assumes "int now < timeout" and "asks_retry (fst (t w))"
  shows "retry_loop t timeout gap now errs w =
    retry_loop t timeout gap (now + fst (snd (t w)) + nat gap)
      (errs @ [outcome_error (fst (t w))]) (snd (snd (t w)))"
  using assms
  by (subst retry_loop.simps)
     (auto simp: asks_retry_def outcome_error_def split: prod.splits option.splits)

lemma loop_final_step:
  assumes "int now < timeout" and "\<not> asks_retry (fst (t w))"
  shows "retry_loop t timeout gap now errs w =
    Some (final_result (fst (t w)), errs, snd (snd (t w)))"
  using assms
  by (subst retry_loop.simps)
     (auto simp: asks_retry_def final_result_def split: prod.splits option.splits)

lemma loop_deadline:
  assumes "timeout \<le> int now"
  shows "retry_loop t timeout gap now errs w = Some (Inl DeadlineExceeded, errs, w)"
  using assms by (subst retry_loop.simps) simp

text \<open>After \<open>k\<close> calls that asked for a retry and started in time, the loop is where it would be
  had it started there.\<close>

lemma loop_retries:
  assumes "\<forall>i<k. asks_retry (outcome t i w) \<and> int (now + start_at t gap i w) < timeout"
  shows "retry_loop t timeout gap now errs w =
    retry_loop t timeout gap (now + start_at t gap k w)
      (errs @ map (\<lambda>i. outcome_error (outcome t i w)) [0..<k]) (world_at t k w)"
  using assms
proof (induction k arbitrary: now errs w)
  case 0
  then show ?case by simp
next
  case (Suc k)
  let ?w = "snd (snd (t w))" and ?now = "now + fst (snd (t w)) + nat gap"
  have 0: "asks_retry (fst (t w))" "int now < timeout"
    using Suc.prems by (auto dest: spec [of _ 0])
  have "asks_retry (outcome t i ?w) \<and> int (?now + start_at t gap i ?w) < timeout" if "i < k" for i
    using Suc.prems [rule_format, of "Suc i"] that by (simp add: outcome_Suc algebra_simps)
  then have "retry_loop t timeout gap ?now (errs @ [outcome_error (fst (t w))]) ?w =
      retry_loop t timeout gap (?now + start_at t gap k ?w)
        ((errs @ [outcome_error (fst (t w))]) @
          map (\<lambda>i. outcome_error (outcome t i ?w)) [0..<k]) (world_at t k ?w)"
    by (intro Suc.IH) simp
  then show ?case
    by (simp add: loop_retry_step [where t = t and w = w, OF 0(2,1)] map_upt_Suc outcome_Suc algebra_simps
        del: upt_Suc)
qed

text \<open>Every run is one of two: some call is the last, or the deadline passes before a call.\<close>

lemma loop_cases:
  assumes "0 < gap"
  obtains (final) k where "\<forall>i<k. asks_retry (outcome t i w) \<and> int (start_at t gap i w) < timeout"
      "\<not> asks_retry (outcome t k w)" "int (start_at t gap k w) < timeout"
      "int k * gap < timeout"
  | (deadline) k where
      "\<forall>i<k. asks_retry (outcome t i w) \<and> int (start_at t gap i w) < timeout"
      "timeout \<le> int (start_at t gap k w)"
proof -
  let ?stop = "\<lambda>k. \<not> asks_retry (outcome t k w) \<or> timeout \<le> int (start_at t gap k w)"
  have bound: "int k * gap \<le> int (start_at t gap k w)" for k
    using start_at_ge [of k gap t w] assms by (metis int_nat_eq less_le of_nat_le_iff of_nat_mult)
  have "timeout \<le> int (nat timeout) * gap"
    using assms by (cases "0 < timeout") (auto simp: mult_le_cancel_left1)
  then have ex: "\<exists>k. ?stop k"
    using bound [of "nat timeout"] by (meson order_trans)
  define k where "k = (LEAST k. ?stop k)"
  have least: "\<forall>i<k. asks_retry (outcome t i w) \<and> int (start_at t gap i w) < timeout"
    using not_less_Least [of _ ?stop] unfolding k_def by (metis not_le)
  have "?stop k"
    unfolding k_def using LeastI_ex [OF ex] .
  then show thesis
    using final [OF least] deadline [OF least] bound [of k] by (meson le_less_trans not_le)
qed

text \<open>The two ways the loop returns.\<close>

lemma world_at_Suc: "world_at t (Suc k) w = snd (snd (t (world_at t k w)))"
  by (induction k arbitrary: w) auto

lemma retry_final:
  assumes "\<forall>i<k. asks_retry (outcome t i w) \<and> int (start_at t gap i w) < timeout"
    and "\<not> asks_retry (outcome t k w)" and "int (start_at t gap k w) < timeout"
  shows "DoRetryWithTimeout t timeout gap w =
    Some (if final_result (outcome t k w) = Inl DeadlineExceeded
          then Inl (ErrTimedOut (timeout_reason (map (\<lambda>i. outcome_error (outcome t i w)) [0..<k])))
          else final_result (outcome t k w), world_at t (Suc k) w)"
proof -
  have "retry_loop t timeout gap 0 [] w =
      Some (final_result (outcome t k w), map (\<lambda>i. outcome_error (outcome t i w)) [0..<k],
            world_at t (Suc k) w)"
    using assms loop_retries [of k t w 0 gap timeout "[]"]
    by (simp add: loop_final_step outcome_def world_at_Suc del: world_at.simps)
  then show ?thesis
    by (auto simp: DoRetryWithTimeout_def split: sum.splits)
qed

lemma retry_deadline:
  assumes "\<forall>i<k. asks_retry (outcome t i w) \<and> int (start_at t gap i w) < timeout"
    and "timeout \<le> int (start_at t gap k w)"
  shows "DoRetryWithTimeout t timeout gap w =
    Some (Inl (ErrTimedOut (timeout_reason (map (\<lambda>i. outcome_error (outcome t i w)) [0..<k]))),
          world_at t k w)"
  using assms loop_retries [of k t w 0 gap timeout "[]"]
  by (simp add: DoRetryWithTimeout_def loop_deadline)

lemma retry_total:
  assumes "0 < gap"
  shows "\<exists>r w'. DoRetryWithTimeout t timeout gap w = Some (r, w')"
  by (rule loop_cases [OF assms, of t w timeout]) (auto simp: retry_final retry_deadline)

lemma retry_value:
  assumes "0 < gap" and "DoRetryWithTimeout t timeout gap w = Some (Inr out, w')"
  shows "\<exists>k. int (start_at t gap k w) < timeout \<and> final_result (outcome t k w) = Inr out \<and>
    w' = world_at t (Suc k) w"
proof (cases rule: loop_cases [OF assms(1), of t w timeout, case_names final deadline])
  case (final k)
  then show ?thesis
    using assms(2) retry_final [OF final(1-3)]
    by (intro exI [of _ k]) (auto split: if_splits simp del: world_at.simps)
next
  case (deadline k)
  then show ?thesis using assms(2) by (simp add: retry_deadline)
qed

lemma retry_error:
  assumes "0 < gap" and "DoRetryWithTimeout t timeout gap w = Some (Inl err, w')"
  shows "(\<exists>why. err = ErrTimedOut why) \<or>
    (\<exists>k. final_result (outcome t k w) = Inl err \<and> \<not> asks_retry (outcome t k w))"
proof (cases rule: loop_cases [OF assms(1), of t w timeout, case_names final deadline])
  case (final k)
  have "(\<exists>why. err = ErrTimedOut why) \<or> final_result (outcome t k w) = Inl err"
    using assms(2) retry_final [OF final(1-3)] by (auto split: if_splits)
  with final(2) show ?thesis by blast
next
  case (deadline k)
  then show ?thesis using assms(2) retry_deadline [OF deadline] by auto
qed

text \<open>What every call keeps, the loop keeps.\<close>

lemma world_at_inv:
  assumes "\<And>w. I w \<Longrightarrow> I (snd (snd (t w)))" "I w"
  shows "I (world_at t k w)"
proof (induction k)
  case (Suc k)
  then show ?case unfolding world_at_Suc by (rule assms(1))
qed (simp add: assms(2))

lemma retry_world:
  assumes "0 < gap" "DoRetryWithTimeout t timeout gap w = Some (r, w')"
  shows "\<exists>k. w' = world_at t k w"
  by (cases rule: loop_cases [OF assms(1), of t w timeout, case_names final deadline])
     (use assms(2) in \<open>auto simp: retry_final retry_deadline simp del: world_at.simps\<close>)

lemma retry_inv:
  assumes "\<And>w. I w \<Longrightarrow> I (snd (snd (t w)))" "0 < gap" "I w" "DoRetryWithTimeout t timeout gap w = Some (r, w')"
  shows "I w'"
  using retry_world [OF assms(2,4)] world_at_inv [of I t, OF assms(1,3)] by blast

section \<open>The contract of a polling task\<close>

text \<open>Most waits of the drivers poll: the task asks for a retry until a condition on the world
  holds. For such a task the loop is a test whether the condition holds at a poll in time.\<close>

lemma start_at_mono: "j \<le> k \<Longrightarrow> start_at t gap j w \<le> start_at t gap k w"
proof (induction j arbitrary: k w)
  case 0
  then show ?case by simp
next
  case (Suc j)
  then show ?case by (cases k) auto
qed

text \<open>
  A task that stops on an answer or on an error: the loop around it succeeds exactly when an attempt
  before the deadline has the answer and no earlier attempt stopped on an error.
\<close>

locale answer_task =
  fixes t :: "('w, 'a) task_fn" and gap :: int and answer :: "'w \<Rightarrow> bool" and stops :: "'w \<Rightarrow> bool"
  assumes answer_gap: "0 < gap"
    and answer_retry: "asks_retry (fst (t w)) \<longleftrightarrow> \<not> answer w \<and> \<not> stops w"
    and answer_result: "(\<exists>out. final_result (fst (t w)) = Inr out) \<longleftrightarrow> answer w"
begin

lemma answer_returns:
  "\<exists>r w'. DoRetryWithTimeout t timeout gap w = Some (r, w') \<and>
     ((\<exists>out. r = Inr out) \<longleftrightarrow>
        (\<exists>k. int (start_at t gap k w) < timeout \<and> answer (world_at t k w) \<and>
             (\<forall>j<k. \<not> stops (world_at t j w))))"
proof (cases rule: loop_cases [OF answer_gap, of t w timeout, case_names final deadline])
  case (final k)
  have early: "\<not> answer (world_at t j w) \<and> \<not> stops (world_at t j w)" if "j < k" for j
    using final(1) that answer_retry by (auto simp: outcome_def)
  have stop: "answer (world_at t k w) \<or> stops (world_at t k w)"
    using final(2) answer_retry by (auto simp: outcome_def)
  have val: "(\<exists>out. final_result (outcome t k w) = Inr out) \<longleftrightarrow> answer (world_at t k w)"
    using answer_result by (simp add: outcome_def)
  have "(\<exists>i. int (start_at t gap i w) < timeout \<and> answer (world_at t i w) \<and>
             (\<forall>j<i. \<not> stops (world_at t j w))) \<longleftrightarrow> answer (world_at t k w)"
    using early stop final(3) by (metis linorder_neqE_nat)
  then show ?thesis
    using retry_final [OF final(1-3)] val by auto
next
  case (deadline k)
  have "\<not> answer (world_at t j w)" if "int (start_at t gap j w) < timeout" for j
  proof (cases "j < k")
    case True
    then show ?thesis using deadline(1) answer_retry by (auto simp: outcome_def)
  next
    case False
    then show ?thesis
      using that deadline(2) start_at_mono [of k j t gap w] by linarith
  qed
  then show ?thesis
    using retry_deadline [OF deadline] by auto
qed

end

locale poll_task =
  fixes t :: "('w, 'a) task_fn" and gap :: int and ok :: "'w \<Rightarrow> bool"
  assumes gap_pos: "0 < gap"
    and retry_iff: "asks_retry (fst (t w)) \<longleftrightarrow> \<not> ok w"
    and ok_result: "ok w \<Longrightarrow> \<exists>out. final_result (fst (t w)) = Inr out"
begin

lemma poll_cases:
  obtains (found) k out where "int (start_at t gap k w) < timeout" "ok (world_at t k w)"
      "final_result (outcome t k w) = Inr out"
      "DoRetryWithTimeout t timeout gap w = Some (Inr out, world_at t (Suc k) w)"
  | (never) s w' where "\<And>k. int (start_at t gap k w) < timeout \<Longrightarrow> \<not> ok (world_at t k w)"
      "DoRetryWithTimeout t timeout gap w = Some (Inl (ErrTimedOut s), w')"
proof (cases rule: loop_cases [OF gap_pos, of t w timeout, case_names final deadline])
  case (final k)
  then have ok: "ok (world_at t k w)"
    by (simp add: outcome_def retry_iff)
  then obtain out where "final_result (outcome t k w) = Inr out"
    using ok_result by (auto simp: outcome_def)
  then show thesis
    using found [of k out] ok final(3) retry_final [OF final(1-3)] by simp
next
  case (deadline k)
  have "\<not> ok (world_at t j w)" if "int (start_at t gap j w) < timeout" for j
  proof (cases "j < k")
    case True
    then show ?thesis using deadline(1) by (simp add: outcome_def retry_iff)
  next
    case False
    then show ?thesis
      using that deadline(2) start_at_mono [of k j t gap w] by linarith
  qed
  then show thesis
    using never retry_deadline [OF deadline] by blast
qed

lemma poll_returns:
  "\<exists>r w'. DoRetryWithTimeout t timeout gap w = Some (r, w') \<and>
     ((\<exists>out. r = Inr out) \<longleftrightarrow> (\<exists>k. int (start_at t gap k w) < timeout \<and> ok (world_at t k w)))"
  by (cases rule: poll_cases [of w timeout]) auto

lemma poll_error:
  "DoRetryWithTimeout t timeout gap w = Some (Inl e, w') \<Longrightarrow>
     (\<exists>s. e = ErrTimedOut s) \<and> (\<forall>k. int (start_at t gap k w) < timeout \<longrightarrow> \<not> ok (world_at t k w))"
  by (cases rule: poll_cases [of w timeout]) auto

lemma poll_value:
  "DoRetryWithTimeout t timeout gap w = Some (Inr out, w') \<Longrightarrow>
     \<exists>k. int (start_at t gap k w) < timeout \<and> ok (world_at t k w) \<and>
       final_result (outcome t k w) = Inr out \<and> w' = world_at t (Suc k) w"
  by (cases rule: poll_cases [of w timeout]) auto

end

section \<open>The trigger checks as the task of the loop\<close>

lemma trigger_retry_iff:
  "asks_retry (fst (userTaskWithTriggerChecks cb ut w)) \<longleftrightarrow> fst (cb w) = (False, None)"
  by (auto simp: userTaskWithTriggerChecks_def asks_retry_def split: prod.splits option.splits)

lemma trigger_fires:
  assumes "fst (cb w) = (True, None)"
  shows "final_result (fst (userTaskWithTriggerChecks cb ut w)) =
      (case fst (ut (snd (snd (cb w)))) of None \<Rightarrow> Inr True | Some e \<Rightarrow> Inl e)"
    and "snd (snd (userTaskWithTriggerChecks cb ut w)) = snd (snd (ut (snd (snd (cb w)))))"
  using assms
  by (auto simp: userTaskWithTriggerChecks_def final_result_def split: prod.splits option.splits)

lemma trigger_never_world:
  assumes "\<forall>x. fst (cb x) = (False, None)"
  shows "world_at (userTaskWithTriggerChecks cb ut) k w = ((\<lambda>x. snd (snd (cb x))) ^^ k) w"
proof -
  have "snd (snd (userTaskWithTriggerChecks cb ut x)) = snd (snd (cb x))" for x
    using assms [rule_format, of x]
    by (auto simp: userTaskWithTriggerChecks_def split: prod.splits)
  then show ?thesis
    by (induction k arbitrary: w) (simp_all add: funpow_Suc_right del: funpow.simps(2))
qed

lemma set_trigger_defaults_gap:
  "0 \<le> TriggerCheckInterval os \<Longrightarrow> 0 < TriggerCheckInterval (set_trigger_defaults os)"
  by (simp add: set_trigger_defaults_def defaultTriggerCheckInterval_def second_ns_def Let_def)

section \<open>Properties\<close>

text \<open>C1: The retry loop always returns when the interval between two tries is positive. It returns
  what the first call that does not ask for a retry returned, if that call starts before the
  deadline; otherwise it returns a timeout that lists the errors of all the calls made, in their
  order. No call starts at or after the deadline, a call that starts before it is never cut, and
  the number of calls is bounded by the timeout over the interval.\<close>

theorem retry_returns:
  assumes "0 < timeBeforeRetry"
  shows "\<exists>k. (\<forall>i<k. asks_retry (outcome t i w) \<and> int (start_at t timeBeforeRetry i w) < timeout) \<and>
    (if int (start_at t timeBeforeRetry k w) < timeout
     then \<not> asks_retry (outcome t k w) \<and> int k * timeBeforeRetry < timeout \<and>
       DoRetryWithTimeout t timeout timeBeforeRetry w =
         Some (if final_result (outcome t k w) = Inl DeadlineExceeded
               then Inl (ErrTimedOut (timeout_reason
                      (map (\<lambda>i. outcome_error (outcome t i w)) [0..<k])))
               else final_result (outcome t k w), world_at t (Suc k) w)
     else DoRetryWithTimeout t timeout timeBeforeRetry w =
       Some (Inl (ErrTimedOut (timeout_reason
               (map (\<lambda>i. outcome_error (outcome t i w)) [0..<k]))), world_at t k w))"
proof (cases rule: loop_cases [OF assms, of t w timeout, case_names final deadline])
  case (final k)
  then show ?thesis
    by (intro exI [of _ k]) (simp add: retry_final del: world_at.simps)
next
  case (deadline k)
  then show ?thesis
    by (intro exI [of _ k]) (simp add: retry_deadline)
qed

definition busy_task :: "(nat, unit) task_fn" where
  "busy_task w = (((), True, Some (Errorf ''busy'')), 0, Suc w)"

lemma busy_task_runs:
  "world_at busy_task k w = w + k" "start_at busy_task 1 k w = k"
  "outcome busy_task k w = ((), True, Some (Errorf ''busy''))"
proof -
  show w: "world_at busy_task k w = w + k" for w
    by (induction k arbitrary: w) (auto simp: busy_task_def)
  show "start_at busy_task 1 k w = k"
    by (induction k arbitrary: w) (auto simp: busy_task_def)
  show "outcome busy_task k w = ((), True, Some (Errorf ''busy''))"
    by (simp add: outcome_def busy_task_def)
qed

theorem retry_returns_witness:
  "DoRetryWithTimeout busy_task 2 1 0 =
     Some (Inl (ErrTimedOut (timeout_reason [''busy'', ''busy''])), 2)"
proof -
  obtain k where k: "\<forall>i<k. int i < 2" "\<not> int k < 2"
    and r: "DoRetryWithTimeout busy_task 2 1 0 =
      Some (Inl (ErrTimedOut (timeout_reason
              (map (\<lambda>i. outcome_error (outcome busy_task i 0)) [0..<k]))), k)"
    using retry_returns [of 1 busy_task 0 2]
    by (auto simp: busy_task_runs asks_retry_def split: if_splits)
  have "k = 2"
    using k(2) k(1) [rule_format, of 2] by (cases "2 < k") auto
  then show ?thesis
    using r by (simp add: busy_task_runs outcome_error_def upt_rec)
qed

text \<open>A blocking \<open>PerformTask\<close> runs the user task exactly once, at the first check whose
  trigger fires in time, and reports success when the task succeeds. An error of the user task is
  never returned as such: it is wrapped as an operation that was not performed because the trigger
  checks could not be performed, or, when it is itself a timeout, did not pass.\<close>

theorem perform_task_fires:
  fixes cb :: "'w \<Rightarrow> (bool \<times> go_error option) \<times> nat \<times> 'w"
    and userTask :: "'w \<Rightarrow> go_error option \<times> nat \<times> 'w"
    and schedule and os :: TriggerOptions and w :: 'w and k :: nat
  defines "T \<equiv> userTaskWithTriggerChecks cb userTask" and "os' \<equiv> set_trigger_defaults os"
  assumes "BlockForTrigger os"
    and "\<forall>i<k. fst (cb (world_at T i w)) = (False, None) \<and>
      int (start_at T (TriggerCheckInterval os') i w) < TriggerCheckTimeout os'"
    and "fst (cb (world_at T k w)) = (True, None)"
    and "int (start_at T (TriggerCheckInterval os') k w) < TriggerCheckTimeout os'"
  shows "PerformTask schedule cb userTask (Some os) w =
    (case userTask (snd (snd (cb (world_at T k w)))) of (e, d, w2) \<Rightarrow>
       Some (case e of
           None \<Rightarrow> None
         | Some DeadlineExceeded \<Rightarrow>
             Some (ErrOperationNotPerformed ''Task'' ''PerformTask: Trigger checks did not pass'')
         | Some (ErrTimedOut r) \<Rightarrow>
             Some (ErrOperationNotPerformed ''Task'' ''PerformTask: Trigger checks did not pass'')
         | Some err \<Rightarrow>
             Some (ErrOperationNotPerformed ''Task''
               (''PerformTask:Trigger checks could not be performed: '' @ Error_str err)),
         Some os', w2))"
proof -
  have "\<forall>i<k. asks_retry (outcome T i w) \<and>
      int (start_at T (TriggerCheckInterval os') i w) < TriggerCheckTimeout os'"
    and "\<not> asks_retry (outcome T k w)"
    using assms by (simp_all add: outcome_def T_def trigger_retry_iff)
  note run = retry_final [OF this assms(6)]
  have fin: "final_result (outcome T k w) =
      (case fst (userTask (snd (snd (cb (world_at T k w))))) of None \<Rightarrow> Inr True | Some e \<Rightarrow> Inl e)"
    "world_at T (Suc k) w = snd (snd (userTask (snd (snd (cb (world_at T k w))))))"
    using trigger_fires [where cb = cb and w = "world_at T k w" and ut = userTask, OF assms(5)]
    by (simp_all add: outcome_def world_at_Suc T_def del: world_at.simps)
  show ?thesis
    using assms(3) run unfolding fin
    by (auto simp: PerformTask_def perform_sync_def Let_def T_def [symmetric] os'_def [symmetric]
        split: prod.splits option.splits go_error.splits)
qed


definition fires_at_2 :: "nat \<Rightarrow> (bool \<times> go_error option) \<times> nat \<times> nat" where
  "fires_at_2 w = ((2 \<le> w, None), 0, Suc w)"

definition failing_task :: "nat \<Rightarrow> go_error option \<times> nat \<times> nat" where
  "failing_task w = (Some (Errorf ''disk full''), 0, w + 100)"

theorem perform_task_fires_witness:
  "PerformTask (\<lambda>f. f) fires_at_2 failing_task
     (Some \<lparr>TriggerCheckInterval = 0, TriggerCheckTimeout = 0, BlockForTrigger = True\<rparr>) 1 =
   Some (Some (ErrOperationNotPerformed ''Task''
     ''PerformTask:Trigger checks could not be performed: disk full''),
     Some \<lparr>TriggerCheckInterval = 5000000000, TriggerCheckTimeout = 300000000000,
           BlockForTrigger = True\<rparr>, 103)"
  using perform_task_fires
    [of "\<lparr>TriggerCheckInterval = 0, TriggerCheckTimeout = 0, BlockForTrigger = True\<rparr>" 1
        fires_at_2 failing_task 1 "\<lambda>f. f"]
  by (simp add: set_trigger_defaults_def defaultTriggerCheckInterval_def second_ns_def Let_def
      defaultTriggerCheckTimeout_def userTaskWithTriggerChecks_def fires_at_2_def failing_task_def)

text \<open>A blocking \<open>PerformTask\<close> whose check interval is not negative always returns, and the
  only error it returns is an operation that was not performed. When no trigger check fires before
  the deadline the user task is never run and the error says that the checks did not pass.\<close>

theorem perform_task_total:
  assumes "BlockForTrigger os" and "0 \<le> TriggerCheckInterval os"
  shows "\<exists>e w'. PerformTask schedule cb userTask (Some os) w =
      Some (e, Some (set_trigger_defaults os), w') \<and>
    (e = None \<or> (\<exists>r. e = Some (ErrOperationNotPerformed ''Task'' r))) \<and>
    ((\<forall>x. fst (cb x) = (False, None)) \<longrightarrow>
      e = Some (ErrOperationNotPerformed ''Task'' ''PerformTask: Trigger checks did not pass'') \<and>
      (\<exists>k. w' = ((\<lambda>x. snd (snd (cb x))) ^^ k) w))"
proof -
  let ?T = "userTaskWithTriggerChecks cb userTask" and ?o = "set_trigger_defaults os"
  have gap: "0 < TriggerCheckInterval ?o"
    using assms(2) by (rule set_trigger_defaults_gap)
  obtain r w' where rw: "DoRetryWithTimeout ?T (TriggerCheckTimeout ?o) (TriggerCheckInterval ?o) w =
      Some (r, w')"
    using retry_total [OF gap, of ?T] by blast
  have never: "(\<exists>s. r = Inl (ErrTimedOut s)) \<and> (\<exists>k. w' = ((\<lambda>x. snd (snd (cb x))) ^^ k) w)"
    if no: "\<forall>x. fst (cb x) = (False, None)"
  proof (cases rule: loop_cases [OF gap, of ?T w "TriggerCheckTimeout ?o", case_names final deadline])
    case (final k)
    then show ?thesis using no by (simp add: outcome_def trigger_retry_iff)
  next
    case (deadline k)
    then have "(\<exists>s. r = Inl (ErrTimedOut s)) \<and> w' = world_at ?T k w"
      using rw by (auto simp: retry_deadline)
    then show ?thesis using trigger_never_world [OF no] by blast
  qed
  show ?thesis
    using assms(1) rw never
    by (cases r) (auto simp: PerformTask_def perform_sync_def Let_def split: go_error.splits)
qed

theorem perform_task_total_witness:
  "\<exists>w'. PerformTask (\<lambda>f. f) (\<lambda>w::nat. ((False, None), 7, Suc w)) failing_task
     (Some \<lparr>TriggerCheckInterval = 0, TriggerCheckTimeout = 0, BlockForTrigger = True\<rparr>) 1 =
   Some (Some (ErrOperationNotPerformed ''Task'' ''PerformTask: Trigger checks did not pass''),
     Some \<lparr>TriggerCheckInterval = 5000000000, TriggerCheckTimeout = 300000000000,
           BlockForTrigger = True\<rparr>, w')"
  using perform_task_total
    [of "\<lparr>TriggerCheckInterval = 0, TriggerCheckTimeout = 0, BlockForTrigger = True\<rparr>"
        "\<lambda>f. f" "\<lambda>w. ((False, None), 7, Suc w)" failing_task 1]
  by (auto simp: set_trigger_defaults_def defaultTriggerCheckInterval_def second_ns_def Let_def
      defaultTriggerCheckTimeout_def)

end
