(* ===== verification/VolumeDrivers.thy ===== *)
theory VolumeDrivers
  imports NotSupported RetryTask
begin

text \<open>
  The volume drivers of \<open>drivers/volume\<close> that embed \<open>DefaultDriver\<close>: aws, azure, gce, ibm,
  linstor, ocp, pso and the generic CSI driver. For each: its provisioners, its \<open>Init\<close> over the
  package variables of \<open>volume\<close>, the methods it overrides with constants, and as functions the
  methods that do more: the snapshot clean-up of ibm, the label operations and the wait of linstor,
  and the version lookup of pso. \<open>volume_registrations\<close> is what the \<open>init\<close> functions of all the
  driver packages register.

  The locale \<open>strict_provisioner\<close> is the contract of \<open>Init\<close> in the drivers that refuse an unknown
  provisioner. Services outside the repository (the IBM VPC client, the LINSTOR client, the
  Kubernetes API) are arguments.
\<close>

section \<open>Provisioners and Init\<close>

definition aws_provisioners :: "(string, string) gomap" where
  "aws_provisioners = [(''aws'', ''kubernetes.io/aws-ebs'')]"

definition aws_Init :: "string \<Rightarrow> 'd vol_globals \<Rightarrow> go_error option \<times> 'd vol_globals" where
  "aws_Init storageProvisioner g =
     (let g = g\<lparr>StorageDriver := ''aws''\<rparr> in
      if storageProvisioner \<noteq> [] then
        (case map_of aws_provisioners storageProvisioner of
           Some p \<Rightarrow> (None, g\<lparr>StorageProvisioner := p\<rparr>)
         | None \<Rightarrow> (None, g\<lparr>StorageProvisioner :=
             gm_index [] aws_provisioners DefaultStorageProvisioner\<rparr>))
      else (Some (Errorf ''Provisioner is empty for volume driver: aws''), g))"

definition azure_provisioners :: "(string, string) gomap" where
  "azure_provisioners = [(''azure'', ''disk.csi.azure.com''), (''azurefile'', ''file.csi.azure.com'')]"

definition azure_Init :: "string \<Rightarrow> 'd vol_globals \<Rightarrow> go_error option \<times> 'd vol_globals" where
  "azure_Init storageProvisioner g =
     (let g = g\<lparr>StorageDriver := ''azure''\<rparr> in
      if storageProvisioner \<noteq> [] then
        (case map_of azure_provisioners storageProvisioner of
           Some p \<Rightarrow> (None, g\<lparr>StorageProvisioner := p\<rparr>)
         | None \<Rightarrow> (Some (Errorf (''driver azure, does not support provisioner '' @
             storageProvisioner)), g))
      else (None, g\<lparr>StorageProvisioner :=
             gm_index [] azure_provisioners DefaultStorageProvisioner\<rparr>))"

definition gce_provisioners :: "(string, string) gomap" where
  "gce_provisioners = [(''gce-pd'', ''kubernetes.io/gce-pd''),
     (''pd-csi-storage-gke'', ''pd.csi.storage.gke.io'')]"

definition gce_Init :: "string \<Rightarrow> 'd vol_globals \<Rightarrow> go_error option \<times> 'd vol_globals" where
  "gce_Init storageProvisioner g =
     (let g = g\<lparr>StorageDriver := ''gce''\<rparr> in
      if storageProvisioner \<noteq> [] then
        (case map_of gce_provisioners storageProvisioner of
           Some p \<Rightarrow> (None, g\<lparr>StorageProvisioner := p\<rparr>)
         | None \<Rightarrow> (Some (Errorf (''driver gce, does not support provisioner '' @
             storageProvisioner)), g))
      else (Some (Errorf ''Provisioner is empty for volume driver: gce''), g))"

text \<open>ibm, ocp and pso put the name of the Portworx driver, pxd, into their messages.\<close>

definition portworx_DriverName :: string where
  "portworx_DriverName = ''pxd''"

definition provisionersForIKS :: "(string, string) gomap" where
  "provisionersForIKS = [(''ibm'', ''vpc.block.csi.ibm.io'')]"

definition ibm_Init :: "string \<Rightarrow> 'd vol_globals \<Rightarrow> go_error option \<times> 'd vol_globals" where
  "ibm_Init storageProvisioner g =
     (let g = g\<lparr>StorageDriver := ''ibm''\<rparr> in
      if storageProvisioner \<noteq> [] then
        (case map_of provisionersForIKS storageProvisioner of
           Some p \<Rightarrow> (None, g\<lparr>StorageProvisioner := p\<rparr>)
         | None \<Rightarrow> (Some (Errorf (''driver '' @ portworx_DriverName @
             '', does not support provisioner '' @ storageProvisioner)), g))
      else (Some (Errorf (''Provisioner is empty for volume driver: '' @ portworx_DriverName)), g))"

definition provisionersForOcp :: "(string, string) gomap" where
  "provisionersForOcp = [(''rbd-csi'', ''openshift-storage.rbd.csi.ceph.com''),
     (''cephfs-csi'', ''openshift-storage.cephfs.csi.ceph.com''),
     (''rgw-csi'', ''openshift-storage.ceph.rook.io/bucket'')]"

definition ocp_Init :: "string \<Rightarrow> 'd vol_globals \<Rightarrow> go_error option \<times> 'd vol_globals" where
  "ocp_Init storageProvisioner g =
     (let g = g\<lparr>StorageDriver := ''ocp''\<rparr> in
      if storageProvisioner \<noteq> [] then
        (case map_of provisionersForOcp storageProvisioner of
           Some p \<Rightarrow> (None, g\<lparr>StorageProvisioner := p\<rparr>)
         | None \<Rightarrow> (Some (Errorf (''driver '' @ portworx_DriverName @
             '', does not support provisioner '' @ storageProvisioner)), g))
      else (Some (Errorf (''Provisioner is empty for volume driver: '' @ portworx_DriverName)), g))"

definition provisionersForPure :: "(string, string) gomap" where
  "provisionersForPure = [(''pso'', ''pure-csi''), (''pso-file'', ''pure-csi'')]"

definition pso_Init :: "string \<Rightarrow> 'd vol_globals \<Rightarrow> go_error option \<times> 'd vol_globals" where
  "pso_Init storageProvisioner g =
     (let g = g\<lparr>StorageDriver := ''pso''\<rparr> in
      if storageProvisioner \<noteq> [] then
        (case map_of provisionersForPure storageProvisioner of
           Some p \<Rightarrow> (None, g\<lparr>StorageProvisioner := p\<rparr>)
         | None \<Rightarrow> (Some (Errorf (''driver '' @ portworx_DriverName @
             '', does not support provisioner '' @ storageProvisioner)), g))
      else (Some (Errorf (''Provisioner is empty for volume driver: '' @ portworx_DriverName)), g))"

text \<open>\<open>NewClient\<close> is the constructor of the LINSTOR client: nil or an error.\<close>

definition linstor_provisioners :: "(string, string) gomap" where
  "linstor_provisioners = [(''linstor'', ''linstor.csi.linbit.com'')]"

definition linstor_Init ::
  "go_error option \<Rightarrow> string \<Rightarrow> 'd vol_globals \<Rightarrow> go_error option \<times> 'd vol_globals" where
  "linstor_Init NewClient storageProvisioner g = (case NewClient of
     Some err \<Rightarrow> (Some (Errorf (''error creating linstor client: '' @ Error_str err)), g)
   | None \<Rightarrow>
       if storageProvisioner \<noteq> [] then
         (case map_of linstor_provisioners storageProvisioner of
            Some p \<Rightarrow> (None, g\<lparr>StorageProvisioner := p\<rparr>)
          | None \<Rightarrow> (Some (Errorf (''driver linstor, does not support provisioner '' @
              storageProvisioner)), g))
       else (Some (Errorf ''Provisioner is empty for volume driver: linstor''), g))"

text \<open>\<open>GetConfigMap\<close> is the Kubernetes lookup of a config map, which returns its data.\<close>

definition genericCsi_provisioners :: "(string, string) gomap" where
  "genericCsi_provisioners = [(''generic_csi'', ''csi'')]"

definition genericCsi_Init ::
  "(string \<Rightarrow> string \<Rightarrow> go_error + (string, string) gomap) \<Rightarrow> string \<Rightarrow> string \<Rightarrow> 'd vol_globals
     \<Rightarrow> go_error option \<times> 'd vol_globals" where
  "genericCsi_Init GetConfigMap storageProvisioner csiGenericDriverConfigMap g =
     (let g = g\<lparr>StorageDriver := ''csi''\<rparr> in
      if storageProvisioner = ''generic_csi'' then
        (case GetConfigMap csiGenericDriverConfigMap ''default'' of
           Inl err \<Rightarrow> (Some (Errorf (''Failed to get config map for volume driver: csi, provisioner: '' @
             storageProvisioner)), g)
         | Inr data \<Rightarrow>
             (case map_of data ''csi_storageclass_key'' of
                Some p \<Rightarrow> (None, g\<lparr>StorageProvisioner := p\<rparr>)
              | None \<Rightarrow> (None, g)))
      else (Some (Errorf (''Invalid provisioner '' @ storageProvisioner @
             '' for volume driver: csi'')), g))"

section \<open>The overridden methods that return constants\<close>

definition aws_methods :: "go_method list" where
  "aws_methods =
     [(''String'', [VStr ''aws''], None),
      (''ValidateVolumeCleanup'', [], None),
      (''RefreshDriverEndpoints'', [], None),
      (''GetProxySpecForAVolume'', [VNil], None),
      (''InspectCurrentCluster'', [VNil], None),
      (''DeleteSnapshotsForVolumes'', [], None),
      (''UpdateFBDANFSEndpoint'', [], ns ''UpdateFBDANFSEndpoint()''),
      (''ValidatePureFBDAMountSource'', [], ns ''ValidatePureFBDAMountSource()'')]"

definition azure_methods :: "go_method list" where
  "azure_methods =
     [(''String'', [VStr ''azure''], None),
      (''ValidateVolumeCleanup'', [], None),
      (''RefreshDriverEndpoints'', [], None),
      (''GetProxySpecForAVolume'', [VNil], None),
      (''InspectCurrentCluster'', [VNil], None),
      (''GetDriverVersion'', [VStr []], None),
      (''ValidateCreateVolume'', [], None),
      (''ValidateVolumeSetup'', [], None),
      (''ValidateDeleteVolume'', [], None),
      (''InspectVolume'', [VNil], ns ''InspectVolume()''),
      (''DeleteSnapshotsForVolumes'', [], None),
      (''UpdateFBDANFSEndpoint'', [], ns ''UpdateFBDANFSEndpoint()''),
      (''ValidatePureFBDAMountSource'', [], ns ''ValidatePureFBDAMountSource()'')]"

definition gce_methods :: "go_method list" where
  "gce_methods =
     [(''String'', [VStr ''gce''], None),
      (''GetProxySpecForAVolume'', [VNil], None),
      (''InspectCurrentCluster'', [VNil], None),
      (''ValidateCreateVolume'', [], None),
      (''ValidateVolumeSetup'', [], None),
      (''ValidateDeleteVolume'', [], None),
      (''GetDriverVersion'', [VStr []], None),
      (''RefreshDriverEndpoints'', [], None),
      (''InspectVolume'', [VNil], ns ''InspectVolume()''),
      (''DeleteSnapshotsForVolumes'', [], None),
      (''UpdateFBDANFSEndpoint'', [], ns ''UpdateFBDANFSEndpoint()''),
      (''ValidatePureFBDAMountSource'', [], ns ''ValidatePureFBDAMountSource()'')]"

definition ibm_methods :: "go_method list" where
  "ibm_methods =
     [(''String'', [VStr ''ibm''], None),
      (''ValidateCreateVolume'', [], None),
      (''ValidateVolumeSetup'', [], None),
      (''ValidateDeleteVolume'', [], None),
      (''GetDriverVersion'', [VStr []], None),
      (''RefreshDriverEndpoints'', [], None),
      (''GetProxySpecForAVolume'', [VNil], None),
      (''InspectCurrentCluster'', [VNil], None),
      (''InspectVolume'', [VNil], ns ''InspectVolume()''),
      (''UpdateFBDANFSEndpoint'', [], ns ''UpdateFBDANFSEndpoint()''),
      (''ValidatePureFBDAMountSource'', [], ns ''ValidatePureFBDAMountSource()'')]"

definition linstor_methods :: "go_method list" where
  "linstor_methods =
     [(''String'', [VStr ''linstor''], None),
      (''GetProxySpecForAVolume'', [VNil], None),
      (''InspectCurrentCluster'', [VNil], None),
      (''KillPXDaemon'', [], None),
      (''DeleteSnapshotsForVolumes'', [], None),
      (''UpdateFBDANFSEndpoint'', [], ns ''UpdateFBDANFSEndpoint()''),
      (''ValidatePureFBDAMountSource'', [], ns ''ValidatePureFBDAMountSource()'')]"

definition ocp_methods :: "go_method list" where
  "ocp_methods =
     [(''String'', [VStr ''ocp''], None),
      (''ValidateCreateVolume'', [], None),
      (''ValidateVolumeSetup'', [], None),
      (''ValidateDeleteVolume'', [], None),
      (''GetDriverVersion'', [VStr []], None),
      (''RefreshDriverEndpoints'', [], None),
      (''GetProxySpecForAVolume'', [VNil], None),
      (''InspectCurrentCluster'', [VNil], None),
      (''InspectVolume'', [VNil], ns ''InspectVolume()''),
      (''WaitDriverUpOnNode'', [], None),
      (''UpdateFBDANFSEndpoint'', [], ns ''UpdateFBDANFSEndpoint()''),
      (''ValidatePureFBDAMountSource'', [], ns ''ValidatePureFBDAMountSource()''),
      (''DeleteSnapshotsForVolumes'', [], None)]"

definition pso_methods :: "go_method list" where
  "pso_methods =
     [(''String'', [VStr ''pso''], None),
      (''ValidateCreateVolume'', [], None),
      (''ValidateVolumeSetup'', [], None),
      (''ValidateDeleteVolume'', [], None),
      (''RefreshDriverEndpoints'', [], None),
      (''GetProxySpecForAVolume'', [VNil], None),
      (''InspectCurrentCluster'', [VNil], None),
      (''DeleteSnapshotsForVolumes'', [], None),
      (''UpdateFBDANFSEndpoint'', [], ns ''UpdateFBDANFSEndpoint()''),
      (''ValidatePureFBDAMountSource'', [], ns ''ValidatePureFBDAMountSource()'')]"

definition genericCsi_methods :: "go_method list" where
  "genericCsi_methods =
     [(''String'', [VStr ''generic_csi''], None),
      (''ValidateVolumeCleanup'', [], None),
      (''RefreshDriverEndpoints'', [], None),
      (''GetProxySpecForAVolume'', [VNil], None),
      (''InspectCurrentCluster'', [VNil], None),
      (''DeleteSnapshotsForVolumes'', [], None),
      (''UpdateFBDANFSEndpoint'', [], ns ''UpdateFBDANFSEndpoint()''),
      (''ValidatePureFBDAMountSource'', [], ns ''ValidatePureFBDAMountSource()'')]"

section \<open>The overridden methods that do more\<close>

subsection \<open>ibm: deleting the snapshots of volumes\<close>

text \<open>The VPC service: \<open>ListVolumes\<close> returns the ids of the volumes of a name, \<open>ListSnapshots\<close>
  the snapshots and \<open>DeleteSnapshot\<close> removes one.\<close>

record vpc_snapshot =
  snap_ID :: string
  snap_Name :: string
  snap_SourceVolumeID :: string

fun delete_volume_snapshots ::
  "(string \<Rightarrow> 'w \<Rightarrow> go_error option \<times> 'w) \<Rightarrow> string \<Rightarrow> vpc_snapshot list \<Rightarrow> 'w
     \<Rightarrow> go_error option \<times> 'w" where
  "delete_volume_snapshots DeleteSnapshot volumeID [] w = (None, w)"
| "delete_volume_snapshots DeleteSnapshot volumeID (snapshot # snapshots) w =
     (if snap_SourceVolumeID snapshot = volumeID then
        (case DeleteSnapshot (snap_ID snapshot) w of
           (Some err, w') \<Rightarrow> (Some (Errorf (''error deleting snapshot '' @ [CHR 0x27] @
              snap_Name snapshot @ [CHR 0x27] @ '': '' @ Error_str err)), w')
         | (None, w') \<Rightarrow> delete_volume_snapshots DeleteSnapshot volumeID snapshots w')
      else delete_volume_snapshots DeleteSnapshot volumeID snapshots w)"

fun delete_for_volumes ::
  "(string \<Rightarrow> 'w \<Rightarrow> go_error + string list) \<Rightarrow> ('w \<Rightarrow> go_error + vpc_snapshot list)
     \<Rightarrow> (string \<Rightarrow> 'w \<Rightarrow> go_error option \<times> 'w) \<Rightarrow> string list \<Rightarrow> 'w \<Rightarrow> go_error option \<times> 'w" where
  "delete_for_volumes ListVolumes ListSnapshots DeleteSnapshot [] w = (None, w)"
| "delete_for_volumes ListVolumes ListSnapshots DeleteSnapshot (volumeName # volumeNames) w =
     (case ListVolumes volumeName w of
        Inl err \<Rightarrow> (Some (Errorf (''error finding volume '' @ [CHR 0x27] @ volumeName @ [CHR 0x27] @
          '': '' @ Error_str err)), w)
      | Inr [] \<Rightarrow> delete_for_volumes ListVolumes ListSnapshots DeleteSnapshot volumeNames w
      | Inr (volumeID # _) \<Rightarrow>
          (case ListSnapshots w of
             Inl err \<Rightarrow> (Some (Errorf (''error listing snapshots: '' @ Error_str err)), w)
           | Inr snapshots \<Rightarrow>
               (case delete_volume_snapshots DeleteSnapshot volumeID snapshots w of
                  (Some err, w') \<Rightarrow> (Some err, w')
                | (None, w') \<Rightarrow>
                    delete_for_volumes ListVolumes ListSnapshots DeleteSnapshot volumeNames w')))"

definition ibm_DeleteSnapshotsForVolumes ::
  "go_error option \<Rightarrow> (string \<Rightarrow> 'w \<Rightarrow> go_error + string list) \<Rightarrow> ('w \<Rightarrow> go_error + vpc_snapshot list)
     \<Rightarrow> (string \<Rightarrow> 'w \<Rightarrow> go_error option \<times> 'w) \<Rightarrow> string list \<Rightarrow> 'w \<Rightarrow> go_error option \<times> 'w" where
  "ibm_DeleteSnapshotsForVolumes NewVpcV1 ListVolumes ListSnapshots DeleteSnapshot volumeNames w =
     (case NewVpcV1 of
        Some err \<Rightarrow> (Some (Errorf (''error creating VPC service client: '' @ Error_str err)), w)
      | None \<Rightarrow> delete_for_volumes ListVolumes ListSnapshots DeleteSnapshot volumeNames w)"

subsection \<open>linstor: the label of a node and the wait for it\<close>

definition linstor_label :: string where
  "linstor_label = ''linstor.linbit.com/linstor-node''"

definition waitVolDriverToCrash :: nat where
  "waitVolDriverToCrash = 60000000000"

fun linstor_stopFn ::
  "(string \<Rightarrow> string \<Rightarrow> 'w \<Rightarrow> go_error option \<times> nat \<times> 'w) \<Rightarrow> Node list \<Rightarrow> 'w
     \<Rightarrow> go_error option \<times> nat \<times> 'w" where
  "linstor_stopFn RemoveLabelOnNode [] w = (None, 0, w)"
| "linstor_stopFn RemoveLabelOnNode (n # nodes) w =
     (case RemoveLabelOnNode (node_Name n) linstor_label w of
        (Some err, d, w') \<Rightarrow>
          (Some (Errorf (''Failed to set label on node '' @ Quote (node_Name n) @ '': '' @
             Error_str err)), d, w')
      | (None, d, w') \<Rightarrow>
          (case linstor_stopFn RemoveLabelOnNode nodes w' of
             (e, d', w'') \<Rightarrow> (e, d + waitVolDriverToCrash + d', w'')))"

definition linstor_StopDriver where
  "linstor_StopDriver schedule TriggerCb RemoveLabelOnNode nodes triggerOpts w =
     PerformTask schedule TriggerCb (linstor_stopFn RemoveLabelOnNode nodes) triggerOpts w"

definition linstor_StartDriver ::
  "(string \<Rightarrow> string \<Rightarrow> string \<Rightarrow> 'w \<Rightarrow> go_error option \<times> 'w) \<Rightarrow> Node \<Rightarrow> 'w \<Rightarrow> go_error option \<times> 'w" where
  "linstor_StartDriver AddLabelOnNode n w =
     (case AddLabelOnNode (node_Name n) linstor_label ''true'' w of
        (Some err, w') \<Rightarrow> (Some (Errorf (''Failed to set label on node '' @ Quote (node_Name n) @
          '': '' @ Error_str err)), w')
      | (None, w') \<Rightarrow> (None, w'))"

definition linstor_retry_interval :: int where
  "linstor_retry_interval = 10 * second_ns"

definition linstor_node_up ::
  "(string \<Rightarrow> 'w \<Rightarrow> (go_error + string) \<times> nat \<times> 'w) \<Rightarrow> Node \<Rightarrow> ('w, string) task_fn" where
  "linstor_node_up Get n w = (case Get (node_Name n) w of
     (Inl err, d, w') \<Rightarrow>
       (([], True, Some (Errorf (''failed to get info about LINSTOR node '' @ [CHR 0x27] @
          node_Name n @ [CHR 0x27] @ '': '' @ Error_str err))), d, w')
   | (Inr ConnectionStatus, d, w') \<Rightarrow>
       if ConnectionStatus = ''ONLINE'' then (([], False, None), d, w')
       else (([], True, Some (Errorf (''LINSTOR node '' @ [CHR 0x27] @ node_Name n @ [CHR 0x27] @
          '' is not online. status: '' @ ConnectionStatus))), d, w'))"

definition linstor_WaitDriverUpOnNode ::
  "(string \<Rightarrow> 'w \<Rightarrow> (go_error + string) \<times> nat \<times> 'w) \<Rightarrow> Node \<Rightarrow> int \<Rightarrow> 'w
     \<Rightarrow> (go_error option \<times> 'w) option" where
  "linstor_WaitDriverUpOnNode Get n timeout w =
     (case DoRetryWithTimeout (linstor_node_up Get n) timeout linstor_retry_interval w of
        None \<Rightarrow> None
      | Some (Inl err, w') \<Rightarrow> Some (Some err, w')
      | Some (Inr _, w') \<Rightarrow> Some (None, w'))"

subsection \<open>pso: namespace and version\<close>

fun find_service :: "string \<Rightarrow> (string \<times> string) list \<Rightarrow> string option" where
  "find_service svcName [] = None"
| "find_service svcName ((name, namespace) # svcs) =
     (if name = svcName then Some namespace else find_service svcName svcs)"

definition GetPsoNamespace :: "go_error + (string \<times> string) list \<Rightarrow> string result" where
  "GetPsoNamespace ListServices = (case ListServices of
     Inl err \<Rightarrow> Inl (Errorf (''failed to get list of services. Err: '' @ Error_str err))
   | Inr items \<Rightarrow>
       (case find_service ''pso-csi-controller'' items of
          Some namespace \<Rightarrow> Inr namespace
        | None \<Rightarrow> Inl (Errorf ''can't find PSO service [pso-csi-controller] from list of services'')))"

text \<open>A pod is the list of the images of its containers. The indexing of the code panics (\<open>None\<close>)
  when there is no pod, no second container, or no colon in the image.\<close>

definition pso_GetDriverVersion ::
  "go_error + (string \<times> string) list \<Rightarrow> (string \<Rightarrow> go_error + string list list)
     \<Rightarrow> string result option" where
  "pso_GetDriverVersion ListServices GetPods = (case GetPsoNamespace ListServices of
     Inl err \<Rightarrow> Some (Inl err)
   | Inr namespace \<Rightarrow>
       (case GetPods namespace of
          Inl err \<Rightarrow> Some (Inl err)
        | Inr pods \<Rightarrow>
            (case pods of
               (_ # podImage # _) # _ \<Rightarrow>
                 (case Split podImage CHR '':'' of
                    _ # psoVersion # _ \<Rightarrow> Some (Inr psoVersion)
                  | _ \<Rightarrow> None)
             | _ \<Rightarrow> None)))"

section \<open>The registrations of all the driver packages\<close>

datatype vol_driver =
    drv_portworx | drv_pure | drv_aws | drv_azure | drv_gce | drv_ibm | drv_linstor | drv_ocp
  | drv_pso | drv_genericCsi

definition portworx_provisioners :: "(string, string) gomap" where
  "portworx_provisioners = [(''portworx'', ''kubernetes.io/portworx-volume''),
     (''csi'', ''pxd.portworx.com''), (''strict'', ''strict'')]"

definition csiProvisionerOnly :: "(string, string) gomap" where
  "csiProvisionerOnly = [(''csi'', ''pxd.portworx.com'')]"

definition volume_registrations :: "(string \<times> (string, string) gomap \<times> vol_driver) list" where
  "volume_registrations =
     [(''pxd'', portworx_provisioners, drv_portworx), (''pure'', csiProvisionerOnly, drv_pure),
      (''aws'', aws_provisioners, drv_aws), (''azure'', azure_provisioners, drv_azure),
      (''gce'', gce_provisioners, drv_gce), (''ibm'', provisionersForIKS, drv_ibm),
      (''linstor'', linstor_provisioners, drv_linstor), (''ocp'', provisionersForOcp, drv_ocp),
      (''pso'', provisionersForPure, drv_pso), (''pso-file'', provisionersForPure, drv_pso),
      (''csi'', genericCsi_provisioners, drv_genericCsi)]"

fun run_volume_inits ::
  "(string \<times> (string, string) gomap \<times> 'd) list \<Rightarrow> 'd vol_globals \<Rightarrow> go_error option list \<times> 'd vol_globals" where
  "run_volume_inits [] g = ([], g)"
| "run_volume_inits ((name, ps, d) # rs) g =
     (case volume_Register name ps d g of (e, g') \<Rightarrow>
        (case run_volume_inits rs g' of (es, g'') \<Rightarrow> (e # es, g'')))"

definition volume_start :: "'d vol_globals" where
  "volume_start = \<lparr>volDrivers = [], provisioners = [], StorageDriver = [], StorageProvisioner = []\<rparr>"

section \<open>Init of the drivers that refuse an unknown provisioner\<close>

locale strict_provisioner =
  fixes init :: "string \<Rightarrow> 'd vol_globals \<Rightarrow> go_error option \<times> 'd vol_globals"
    and table :: "(string, string) gomap"
  assumes init_known: "map_of table p = Some q \<Longrightarrow>
      fst (init p g) = None \<and> StorageProvisioner (snd (init p g)) = q"
    and init_unknown: "map_of table p = None \<Longrightarrow>
      fst (init p g) \<noteq> None \<and> StorageProvisioner (snd (init p g)) = StorageProvisioner g"
    and init_frame: "volDrivers (snd (init p g)) = volDrivers g \<and>
      provisioners (snd (init p g)) = provisioners g"
begin

lemma init_ok_iff: "fst (init p g) = None \<longleftrightarrow> p \<in> dom (map_of table)"
  using init_known [of p _ g] init_unknown [of p g] by (cases "map_of table p") auto

lemma init_provisioner:
  "GetStorageProvisioner (snd (init p g)) =
     (case map_of table p of Some q \<Rightarrow> q | None \<Rightarrow> GetStorageProvisioner g)"
  using init_known [of p _ g] init_unknown [of p g]
  by (cases "map_of table p") (auto simp: GetStorageProvisioner_def)

lemma init_twice:
  "fst (init p g) = None \<Longrightarrow> GetStorageProvisioner (snd (init p' (snd (init p g)))) =
     (if fst (init p' g) = None then GetStorageProvisioner (snd (init p' g))
      else GetStorageProvisioner (snd (init p g)))"
  by (auto simp: init_provisioner init_ok_iff dom_def split: option.splits)

end

interpretation gce: strict_provisioner gce_Init gce_provisioners
  by unfold_locales (auto simp: gce_Init_def gce_provisioners_def Let_def split: if_splits)

interpretation ibm: strict_provisioner ibm_Init provisionersForIKS
  by unfold_locales (auto simp: ibm_Init_def provisionersForIKS_def Let_def split: if_splits)

interpretation ocp: strict_provisioner ocp_Init provisionersForOcp
  by unfold_locales (auto simp: ocp_Init_def provisionersForOcp_def Let_def split: if_splits)

interpretation pso: strict_provisioner pso_Init provisionersForPure
  by unfold_locales (auto simp: pso_Init_def provisionersForPure_def Let_def split: if_splits)

interpretation linstor: strict_provisioner "linstor_Init None" linstor_provisioners
  by unfold_locales (auto simp: linstor_Init_def linstor_provisioners_def split: if_splits)

section \<open>Registration in any order\<close>

lemma run_volume_inits_distinct:
  assumes "distinct (map fst rs)" and "\<forall>n\<in>fst ` set rs. map_of (volDrivers g) n = None"
  shows "fst (run_volume_inits rs g) = replicate (length rs) None \<and>
    provisioners (snd (run_volume_inits rs g)) =
      provisioners g @ concat (map (\<lambda>(n, ps, d). map fst ps) rs) \<and>
    map_of (volDrivers (snd (run_volume_inits rs g))) =
      map_of (volDrivers g) ++ map_of (map (\<lambda>(n, ps, d). (n, d)) rs)"
  using assms
proof (induction rs arbitrary: g)
  case Nil
  then show ?case by simp
next
  case (Cons a rs)
  obtain n ps d where a: "a = (n, ps, d)" by (cases a)
  obtain g' where reg: "volume_Register n ps d g = (None, g')"
    "provisioners g' = provisioners g @ map fst ps"
    "map_of (volDrivers g') = (map_of (volDrivers g))(n \<mapsto> d)"
    using Cons.prems(2) by (auto simp: a volume_Register_def gm_has_def Let_def)
  have "dom (map_of (map (\<lambda>(n, ps, d). (n, d)) rs)) = set (map fst rs)"
    by (force simp: dom_map_of_conv_image_fst)
  then have fresh: "n \<notin> dom (map_of (map (\<lambda>(n, ps, d). (n, d)) rs))"
    using Cons.prems(1) by (simp add: a)
  have "\<forall>n\<in>fst ` set rs. map_of (volDrivers g') n = None"
    using Cons.prems by (auto simp: a reg)
  moreover have "(map_of (volDrivers g))(n \<mapsto> d) ++ map_of (map (\<lambda>(n, ps, d). (n, d)) rs) =
      map_of (volDrivers g) ++ map_of (map (\<lambda>(n, ps, d). (n, d)) (a # rs))"
    using fresh by (simp add: a map_add_upd_left)
  ultimately show ?case
    using Cons.IH [of g'] Cons.prems(1)
    by (cases "run_volume_inits rs g'") (simp add: a reg fun_upd_def del: map_add_upd)
qed

lemma volume_registrations_distinct: "distinct (map fst volume_registrations)"
  by code_simp

lemma mset_concat_map_cong: "mset xs = mset ys \<Longrightarrow> mset (concat (map f xs)) = mset (concat (map f ys))"
  by (metis mset_concat mset_map sum_mset_sum_list)

lemma registered_provisioners:
  "concat (map (\<lambda>(n, ps, d). map fst ps) volume_registrations) =
     [''portworx'', ''csi'', ''strict'', ''csi'', ''aws'', ''azure'', ''azurefile'',
      ''gce-pd'', ''pd-csi-storage-gke'', ''ibm'', ''linstor'', ''rbd-csi'', ''cephfs-csi'',
      ''rgw-csi'', ''pso'', ''pso-file'', ''pso'', ''pso-file'', ''generic_csi'']"
  by (simp add: volume_registrations_def portworx_provisioners_def
      csiProvisionerOnly_def aws_provisioners_def azure_provisioners_def gce_provisioners_def
      provisionersForIKS_def linstor_provisioners_def provisionersForOcp_def
      provisionersForPure_def genericCsi_provisioners_def)

section \<open>Deleting snapshots\<close>

lemma delete_volume_snapshots_effect:
  assumes "\<And>i w. fst (DeleteSnapshot i w) = None"
    and "\<And>i w. snaps (snd (DeleteSnapshot i w)) = filter (\<lambda>s. snap_ID s \<noteq> i) (snaps w)"
  shows "fst (delete_volume_snapshots DeleteSnapshot v L w) = None \<and>
    snaps (snd (delete_volume_snapshots DeleteSnapshot v L w)) =
      filter (\<lambda>s. snap_ID s \<notin> snap_ID ` {x \<in> set L. snap_SourceVolumeID x = v}) (snaps w)"
proof (induction L arbitrary: w)
  case Nil
  then show ?case by simp
next
  case (Cons x L)
  obtain w' where w': "DeleteSnapshot (snap_ID x) w = (None, w')"
    using assms(1) [of "snap_ID x" w] by (cases "DeleteSnapshot (snap_ID x) w") auto
  then have "snaps w' = filter (\<lambda>s. snap_ID s \<noteq> snap_ID x) (snaps w)"
    using assms(2) [of "snap_ID x" w] by simp
  then show ?case
    using Cons.IH [of w] Cons.IH [of w'] w'
    by (auto simp: intro!: filter_cong)
qed

lemma delete_by_id_is_by_source:
  assumes "distinct (map snap_ID L)"
  shows "filter (\<lambda>s. snap_ID s \<notin> snap_ID ` {x \<in> set L. snap_SourceVolumeID x = v}) L =
    filter (\<lambda>s. snap_SourceVolumeID s \<noteq> v) L"
  using assms by (intro filter_cong) (auto simp: distinct_map inj_on_def)

section \<open>Waiting for a LINSTOR node\<close>

interpretation linstor_poll: poll_task "linstor_node_up Get n" linstor_retry_interval
  "\<lambda>w. fst (Get (node_Name n) w) = Inr ''ONLINE''" for Get n
  by unfold_locales
     (auto simp: linstor_retry_interval_def second_ns_def linstor_node_up_def asks_retry_def
       final_result_def split: prod.splits sum.splits)

section \<open>The drivers that embed the default\<close>

text \<open>Each driver is its table of constants and the methods that are functions of their own.\<close>

definition embedding_drivers :: "(go_method list \<times> string list) list" where
  "embedding_drivers =
     [(aws_methods, []), (azure_methods, []), (gce_methods, []),
      (ibm_methods, [''DeleteSnapshotsForVolumes'']),
      (linstor_methods, [''StopDriver'', ''StartDriver'', ''WaitDriverUpOnNode'']),
      (ocp_methods, []), (pso_methods, [''GetDriverVersion'']), (genericCsi_methods, [])]"

lemma embedding_drivers_complete:
  "list_all (\<lambda>(own, computed). set no_default \<subseteq> fst ` set own \<union> set computed) embedding_drivers"
  unfolding embedding_drivers_def no_default_def aws_methods_def azure_methods_def gce_methods_def
    ibm_methods_def linstor_methods_def ocp_methods_def pso_methods_def genericCsi_methods_def
  by simp

section \<open>Properties\<close>

text \<open>\<open>Init\<close> of the gce, ibm, ocp, pso and linstor drivers succeeds exactly for the
  provisioners of the driver, selects the provisioner the table gives, and otherwise returns an
  error and keeps the provisioner selected before.\<close>

theorem strict_init:
  "(fst (gce_Init p g) = None \<longleftrightarrow> p \<in> dom (map_of gce_provisioners)) \<and>
   (fst (ibm_Init p g) = None \<longleftrightarrow> p \<in> dom (map_of provisionersForIKS)) \<and>
   (fst (ocp_Init p g) = None \<longleftrightarrow> p \<in> dom (map_of provisionersForOcp)) \<and>
   (fst (pso_Init p g) = None \<longleftrightarrow> p \<in> dom (map_of provisionersForPure)) \<and>
   (fst (linstor_Init None p g) = None \<longleftrightarrow> p \<in> dom (map_of linstor_provisioners)) \<and>
   GetStorageProvisioner (snd (gce_Init p g)) =
     (case map_of gce_provisioners p of Some q \<Rightarrow> q | None \<Rightarrow> GetStorageProvisioner g) \<and>
   GetStorageProvisioner (snd (ibm_Init p g)) =
     (case map_of provisionersForIKS p of Some q \<Rightarrow> q | None \<Rightarrow> GetStorageProvisioner g) \<and>
   GetStorageProvisioner (snd (ocp_Init p g)) =
     (case map_of provisionersForOcp p of Some q \<Rightarrow> q | None \<Rightarrow> GetStorageProvisioner g) \<and>
   GetStorageProvisioner (snd (pso_Init p g)) =
     (case map_of provisionersForPure p of Some q \<Rightarrow> q | None \<Rightarrow> GetStorageProvisioner g) \<and>
   GetStorageProvisioner (snd (linstor_Init None p g)) =
     (case map_of linstor_provisioners p of Some q \<Rightarrow> q | None \<Rightarrow> GetStorageProvisioner g)"
  by (intro conjI gce.init_ok_iff ibm.init_ok_iff ocp.init_ok_iff pso.init_ok_iff
      linstor.init_ok_iff gce.init_provisioner ibm.init_provisioner ocp.init_provisioner
      pso.init_provisioner linstor.init_provisioner)

text \<open>The aws driver accepts every provisioner that is not empty, and the azure driver accepts
  the empty one; both then select the default of Portworx in a table that has no entry for it, so
  \<open>Init\<close> reports success with an empty storage provisioner.\<close>

theorem silent_empty_provisioner:
  assumes "p \<noteq> []" and "p \<noteq> ''aws''"
  shows "fst (aws_Init p g) = None \<and> GetStorageProvisioner (snd (aws_Init p g)) = [] \<and>
    fst (azure_Init [] g) = None \<and> GetStorageProvisioner (snd (azure_Init [] g)) = []"
  using assms
  by (simp add: aws_Init_def azure_Init_def aws_provisioners_def azure_provisioners_def Let_def
      GetStorageProvisioner_def gm_index_def DefaultStorageProvisioner_def)

theorem silent_empty_provisioner_witness:
  "GetStorageProvisioner (snd (aws_Init ''gp3'' (volume_start :: nat vol_globals))) = []"
  using silent_empty_provisioner [of "''gp3''" "volume_start :: nat vol_globals"] by simp


text \<open>The \<open>init\<close> functions of the driver packages may run in any order: every registration
  succeeds, every driver is found under its name, and no other name is. The list of supported
  provisioners has \<open>csi\<close>, \<open>pso\<close> and \<open>pso-file\<close> twice.\<close>

theorem volume_registration_complete:
  assumes "mset rs = mset volume_registrations"
  defines "g \<equiv> snd (run_volume_inits rs volume_start)"
  shows "list_all (\<lambda>e. e = None) (fst (run_volume_inits rs volume_start)) \<and>
    volume_Get name g = (case map_of volume_registrations name of
      Some (ps, d) \<Rightarrow> Inr d | None \<Rightarrow> Inl (ErrNotFound name ''VolumeDriver'')) \<and>
    mset (GetVolumeProvisioners g) =
      mset [''portworx'', ''csi'', ''strict'', ''csi'', ''aws'', ''azure'', ''azurefile'',
        ''gce-pd'', ''pd-csi-storage-gke'', ''ibm'', ''linstor'', ''rbd-csi'', ''cephfs-csi'',
        ''rgw-csi'', ''pso'', ''pso-file'', ''pso'', ''pso-file'', ''generic_csi'']"
proof -
  have dist: "distinct (map fst rs)"
    using volume_registrations_distinct assms(1) by (metis mset_eq_imp_distinct_iff mset_map)
  have run: "fst (run_volume_inits rs volume_start) = replicate (length rs) None"
    "provisioners g = concat (map (\<lambda>(n, ps, d). map fst ps) rs)"
    "map_of (volDrivers g) = map_of (map (\<lambda>(n, ps, d). (n, d)) rs)"
    using run_volume_inits_distinct [OF dist, of volume_start] by (simp_all add: g_def volume_start_def)
  have same: "map_of rs = map_of volume_registrations"
    using dist volume_registrations_distinct assms(1)
    by (intro map_of_inject_set [THEN iffD2]) (auto dest: mset_eq_setD)
  have "map_of (map (\<lambda>(n, ps, d). (n, d)) rs) name = map_option snd (map_of rs name)"
    by (induction rs) auto
  then have get: "volume_Get name g = (case map_of volume_registrations name of
      Some (ps, d) \<Rightarrow> Inr d | None \<Rightarrow> Inl (ErrNotFound name ''VolumeDriver''))"
    by (simp add: volume_Get_def run same split: option.splits prod.splits)
  have "mset (GetVolumeProvisioners g) =
      mset (concat (map (\<lambda>(n, ps, d). map fst ps) volume_registrations))"
    using assms(1) by (auto simp: GetVolumeProvisioners_def run intro: mset_concat_map_cong)
  then show ?thesis
    using run(1) get registered_provisioners by (simp add: list_all_iff)
qed

theorem volume_registration_complete_witness:
  "volume_Get ''pso-file'' (snd (run_volume_inits (rev volume_registrations) volume_start)) = Inr drv_pso"
  using volume_registration_complete [OF mset_rev, of "''pso-file''", THEN conjunct2, THEN conjunct1]
  by (simp add: volume_registrations_def)

text \<open>Deleting the snapshots of volumes on the VPC service, when the service lists the volumes
  and snapshots it has and deletes the snapshot it is asked to, removes exactly the snapshots whose
  source is the first volume of one of the names, and keeps every other snapshot in its order.\<close>

theorem ibm_deletes_snapshots:
  assumes "\<And>n w. ListVolumes n w = Inr (vols n)"
    and "\<And>w. ListSnapshots w = Inr (snaps w)"
    and "\<And>i w. fst (DeleteSnapshot i w) = None"
    and "\<And>i w. snaps (snd (DeleteSnapshot i w)) = filter (\<lambda>s. snap_ID s \<noteq> i) (snaps w)"
    and "distinct (map snap_ID (snaps w))"
  shows "fst (ibm_DeleteSnapshotsForVolumes None ListVolumes ListSnapshots DeleteSnapshot names w) = None \<and>
    snaps (snd (ibm_DeleteSnapshotsForVolumes None ListVolumes ListSnapshots DeleteSnapshot names w)) =
      filter (\<lambda>s. \<not> (\<exists>n\<in>set names. vols n \<noteq> [] \<and> snap_SourceVolumeID s = hd (vols n))) (snaps w)"
proof -
  have "distinct (map snap_ID (snaps w)) \<Longrightarrow>
    fst (delete_for_volumes ListVolumes ListSnapshots DeleteSnapshot names w) = None \<and>
    snaps (snd (delete_for_volumes ListVolumes ListSnapshots DeleteSnapshot names w)) =
      filter (\<lambda>s. \<not> (\<exists>n\<in>set names. vols n \<noteq> [] \<and> snap_SourceVolumeID s = hd (vols n))) (snaps w)"
  proof (induction names arbitrary: w)
    case Nil
    then show ?case by simp
  next
    case (Cons n names)
    show ?case
    proof (cases "vols n")
      case Nil
      then show ?thesis using Cons by (simp add: assms(1))
    next
      case (Cons v vs)
      let ?r = "delete_volume_snapshots DeleteSnapshot v (snaps w) w"
      have r: "fst ?r = None" "snaps (snd ?r) = filter (\<lambda>s. snap_SourceVolumeID s \<noteq> v) (snaps w)"
        using delete_volume_snapshots_effect [of DeleteSnapshot snaps v "snaps w" w] assms(3,4)
          delete_by_id_is_by_source [OF Cons.prems, of v] by simp_all
      moreover have "distinct (map snap_ID (snaps (snd ?r)))"
        using Cons.prems by (simp add: r distinct_map_filter)
      ultimately show ?thesis
        using Cons.IH [of "snd ?r"]
        by (cases ?r) (auto simp: assms(1,2) \<open>vols n = v # vs\<close> intro!: filter_cong)
    qed
  qed
  then show ?thesis
    using assms(5) by (simp add: ibm_DeleteSnapshotsForVolumes_def)
qed

theorem ibm_deletes_snapshots_witness:
  "snd (ibm_DeleteSnapshotsForVolumes None (\<lambda>n w. Inr (if n = ''v'' then [''id1''] else [])) Inr
     (\<lambda>i w. (None, filter (\<lambda>s. snap_ID s \<noteq> i) w)) [''v'', ''gone'']
     [\<lparr>snap_ID = ''a'', snap_Name = ''s'', snap_SourceVolumeID = ''id1''\<rparr>,
      \<lparr>snap_ID = ''b'', snap_Name = ''s'', snap_SourceVolumeID = ''id2''\<rparr>]) =
   [\<lparr>snap_ID = ''b'', snap_Name = ''s'', snap_SourceVolumeID = ''id2''\<rparr>]"
  using ibm_deletes_snapshots [of "\<lambda>n w. Inr (if n = ''v'' then [''id1''] else [])"
      "\<lambda>n. if n = ''v'' then [''id1''] else []" Inr "\<lambda>w. w"
      "\<lambda>i w. (None, filter (\<lambda>s. snap_ID s \<noteq> i) w)"
      "[\<lparr>snap_ID = ''a'', snap_Name = ''s'', snap_SourceVolumeID = ''id1''\<rparr>,
        \<lparr>snap_ID = ''b'', snap_Name = ''s'', snap_SourceVolumeID = ''id2''\<rparr>]" "[''v'', ''gone'']"]
  by simp

text \<open>The wait for a LINSTOR node always returns, and it succeeds exactly when some poll that
  starts before the timeout finds the node online.\<close>

theorem linstor_wait_correct:
  fixes Get :: "string \<Rightarrow> 'w \<Rightarrow> (go_error + string) \<times> nat \<times> 'w" and n :: Node
  defines "T \<equiv> linstor_node_up Get n"
  shows "\<exists>e w'. linstor_WaitDriverUpOnNode Get n timeout w = Some (e, w') \<and>
    (e = None \<longleftrightarrow> (\<exists>k. int (start_at T linstor_retry_interval k w) < timeout \<and>
      fst (Get (node_Name n) (world_at T k w)) = Inr ''ONLINE''))"
  using linstor_poll.poll_returns [of Get n timeout w]
  by (auto simp: linstor_WaitDriverUpOnNode_def T_def split: sum.splits)

text \<open>In each of the eight drivers that embed \<open>DefaultDriver\<close> every method of the interface
  has an answer: the driver's own, or the default, which is \<open>ErrNotSupported\<close> for every method but
  the seven that answer with a constant.\<close>

theorem embedded_calls_answer:
  assumes "(own, computed) \<in> set embedding_drivers" and "name \<in> set volume_Driver"
    and "name \<notin> {''Init'', ''RandomizeVolumeName''}"
  shows "name \<in> set computed \<or>
    (\<exists>vals err. call_method own volume_default name = Some (vals, err) \<and>
      (name \<notin> fst ` set own \<longrightarrow>
        err = (if name \<in> set volume_answering then None
               else ns (case map_of volume_mislabelled name of Some l \<Rightarrow> l | None \<Rightarrow> name @ ''()''))))"
proof (cases "map_of own name")
  case None
  have "set no_default \<subseteq> fst ` set own \<union> set computed"
    using assms(1) embedding_drivers_complete by (auto simp: list_all_iff)
  then consider "name \<in> set computed" | "name \<notin> set no_default"
    using None by (auto simp: map_of_eq_None_iff)
  then show ?thesis
  proof cases
    case 2
    then obtain vals err where d: "map_of volume_default name = Some (vals, err)"
      using volume_default_complete [of name] assms(2,3) by auto
    then show ?thesis
      using default_error [OF volume_default_reports d] None by (simp add: call_method_def)
  qed simp
next
  case (Some r)
  then show ?thesis
    by (cases r) (auto simp: call_method_def dest!: map_of_SomeD intro: rev_image_eqI)
qed

theorem embedded_calls_answer_witness:
  "\<exists>vals. call_method aws_methods volume_default ''ListAllVolumes'' =
     Some (vals, Some (ErrNotSupported ''Function'' ''ListAllVolumes()''))"
proof -
  have "''ListAllVolumes'' \<in> set volume_Driver"
    unfolding volume_Driver_def volume_interface by (simp only: literal_member)
  then show ?thesis
    using embedded_calls_answer [of aws_methods "[]" "''ListAllVolumes''"]
    by (auto simp: embedding_drivers_def aws_methods_def volume_answering_def volume_mislabelled_def)
qed

end
