(* ===== verification/NodeRegistry.thy ===== *)
theory NodeRegistry
  imports NodeTypes
begin

text \<open>
  The node registry of \<open>drivers/node/node_registry.go\<close>: the package variable
  \<open>nodeRegistry\<close>, a map from a generated uuid to a node, and the functions over it.

  The registry is passed explicitly. \<open>AddNode\<close> takes the uuid that \<open>uuid.New()\<close> of the
  package \<open>pborman/uuid\<close> returns as an argument; what the code relies on (the uuid is new
  and not empty) is the hypothesis \<open>fresh_uuid\<close>. A function that reads a field promoted
  through the embedded pointer \<open>*api.StorageNode\<close> returns \<open>None\<close> where the code panics.

  The queries share one contract, the locale \<open>node_query\<close>: what a query returns, that it
  does not depend on the iteration order of the map, and how it changes under \<open>AddNode\<close>,
  \<open>UpdateNode\<close> and \<open>DeleteNode\<close>. \<open>registry_step\<close> is the step relation of the registry and
  \<open>registry_inv\<close> its invariant.
\<close>

type_synonym registry = "(string, Node) gomap"

section \<open>Operations that change the registry\<close>

definition GetNodeRegistry :: "registry \<Rightarrow> registry" where
  "GetNodeRegistry nodeRegistry = nodeRegistry"

definition AddNode :: "string \<Rightarrow> Node \<Rightarrow> registry \<Rightarrow> go_error option \<times> registry" where
  "AddNode new_uuid n r =
     (if uuid n \<noteq> [] then (Some (Errorf ''UUID should not be set to add new node''), r)
      else (let n' = n\<lparr>uuid := new_uuid\<rparr> in (None, gm_put (uuid n') n' r)))"

definition UpdateNode :: "Node \<Rightarrow> registry \<Rightarrow> go_error option \<times> registry" where
  "UpdateNode n r =
     (if \<not> gm_has r (uuid n) then (Some (Errorf ''node to be updated does not exist''), r)
      else (None, gm_put (uuid n) n r))"

definition DeleteNode :: "Node \<Rightarrow> registry \<Rightarrow> go_error option \<times> registry" where
  "DeleteNode n r =
     (if uuid n = [] then (Some (Errorf ''UUID should be set to delete existing node''), r)
      else (None, gm_del (uuid n) r))"

definition CleanupRegistry :: "registry \<Rightarrow> registry" where
  "CleanupRegistry r = []"

section \<open>Queries\<close>

fun collect :: "(Node \<Rightarrow> bool) \<Rightarrow> registry \<Rightarrow> Node list \<Rightarrow> Node list" where
  "collect p [] nodeList = nodeList"
| "collect p ((_, n) # r) nodeList = collect p r (if p n then nodeList @ [n] else nodeList)"

definition GetNodes :: "registry \<Rightarrow> Node list" where
  "GetNodes r = collect (\<lambda>_. True) r []"

definition GetWorkerNodes :: "registry \<Rightarrow> Node list" where
  "GetWorkerNodes r = collect (\<lambda>n. node_Type n = TypeWorker) r []"

definition GetMasterNodes :: "registry \<Rightarrow> Node list" where
  "GetMasterNodes r = collect (\<lambda>n. node_Type n = TypeMaster) r []"

fun some_uuid :: "string \<Rightarrow> Node list \<Rightarrow> bool" where
  "some_uuid u [] = False"
| "some_uuid u (each # ns) = (if uuid each = u then True else some_uuid u ns)"

definition IsMasterNode :: "Node \<Rightarrow> registry \<Rightarrow> bool" where
  "IsMasterNode n r = some_uuid (uuid n) (GetMasterNodes r)"

definition GetStorageDriverNodes :: "registry \<Rightarrow> Node list" where
  "GetStorageDriverNodes r = collect IsStorageDriverInstalled r []"

definition IsStorageNode :: "Node \<Rightarrow> bool option" where
  "IsStorageNode n = (case StorageNode n of None \<Rightarrow> None
     | Some sn \<Rightarrow> Some (length (sn_Pools sn) > 0))"

fun split_storage :: "bool \<Rightarrow> Node list \<Rightarrow> Node list \<Rightarrow> Node list option" where
  "split_storage want [] nodeList = Some nodeList"
| "split_storage want (n # ns) nodeList =
     (case IsStorageNode n of None \<Rightarrow> None
      | Some b \<Rightarrow> split_storage want ns (if b = want then nodeList @ [n] else nodeList))"

definition GetStorageNodes :: "registry \<Rightarrow> Node list option" where
  "GetStorageNodes r = split_storage True (GetStorageDriverNodes r) []"

definition GetStorageLessNodes :: "registry \<Rightarrow> Node list option" where
  "GetStorageLessNodes r = split_storage False (GetStorageDriverNodes r) []"

definition GetNodesByTopologyZoneLabel :: "string \<Rightarrow> registry \<Rightarrow> Node list" where
  "GetNodesByTopologyZoneLabel zone r = collect (\<lambda>n. TopologyZone n = zone) r []"

definition GetNodesByTopologyRegionLabel :: "string \<Rightarrow> registry \<Rightarrow> Node list" where
  "GetNodesByTopologyRegionLabel region r = collect (\<lambda>n. TopologyRegion n = region) r []"

definition GetMetadataNodes :: "registry \<Rightarrow> Node list" where
  "GetMetadataNodes r = collect IsMetadataNode r []"

fun key_nodes :: "(Node \<Rightarrow> string) \<Rightarrow> registry \<Rightarrow> (string, Node) gomap \<Rightarrow> (string, Node) gomap" where
  "key_nodes f [] nodeMap = nodeMap"
| "key_nodes f ((_, n) # r) nodeMap = key_nodes f r (gm_put (f n) n nodeMap)"

definition GetNodesByName :: "registry \<Rightarrow> (string, Node) gomap" where
  "GetNodesByName r = key_nodes node_Name r []"

definition GetNodesByVoDriverNodeID :: "registry \<Rightarrow> (string, Node) gomap" where
  "GetNodesByVoDriverNodeID r = key_nodes VolDriverNodeID r []"

fun Contains :: "Node list \<Rightarrow> Node \<Rightarrow> bool" where
  "Contains [] n = False"
| "Contains (v # nodes) n = (if node_Name v = node_Name n then True else Contains nodes n)"

fun GetNodeByName :: "string \<Rightarrow> registry \<Rightarrow> Node result" where
  "GetNodeByName nodeName [] =
     Inl (Errorf (''failed: Node ['' @ nodeName @ ''] not found in node registry''))"
| "GetNodeByName nodeName ((_, n) # r) =
     (if node_Name n = nodeName then Inr n else GetNodeByName nodeName r)"

fun GetNodeByIP :: "string \<Rightarrow> registry \<Rightarrow> Node result" where
  "GetNodeByIP nodeIP [] =
     Inl (Errorf (''failed: Node with ['' @ nodeIP @ ''] not found in node registry''))"
| "GetNodeByIP nodeIP ((_, n) # r) =
     (if list_ex (\<lambda>addr. addr = nodeIP) (Addresses n) then Inr n else GetNodeByIP nodeIP r)"

fun find_node_id :: "string \<Rightarrow> Node list \<Rightarrow> Node result option" where
  "find_node_id nodeID [] =
     Some (Inl (Errorf (''failed to get Node Details by Node ID ['' @ nodeID @ ''] '')))"
| "find_node_id nodeID (each # ns) =
     (case StorageNode each of None \<Rightarrow> None
      | Some sn \<Rightarrow> if sn_Id sn = nodeID then Some (Inr each) else find_node_id nodeID ns)"

definition GetNodeDetailsByNodeID :: "string \<Rightarrow> registry \<Rightarrow> Node result option" where
  "GetNodeDetailsByNodeID nodeID r =
     (case GetStorageNodes r of None \<Rightarrow> None | Some ns \<Rightarrow> find_node_id nodeID ns)"

definition GetPXDisabledNodes :: "registry \<Rightarrow> Node list" where
  "GetPXDisabledNodes r = collect (\<lambda>n. \<not> IsStorageDriverInstalled n \<and> \<not> IsMasterNode n r) r []"

section \<open>The invariant of the registry\<close>

text \<open>Every node is stored under its own uuid, and no uuid is empty.\<close>

definition registry_inv :: "registry \<Rightarrow> bool" where
  "registry_inv r \<longleftrightarrow> gm_ok r \<and> (\<forall>(k, n)\<in>set r. uuid n = k \<and> k \<noteq> [])"

text \<open>Where the storage driver is installed, the OpenStorage node is known.\<close>

definition storage_inv :: "registry \<Rightarrow> bool" where
  "storage_inv r \<longleftrightarrow> (\<forall>(k, n)\<in>set r. IsStorageDriverInstalled n \<longrightarrow> StorageNode n \<noteq> None)"

definition fresh_uuid :: "string \<Rightarrow> registry \<Rightarrow> bool" where
  "fresh_uuid u r \<longleftrightarrow> u \<noteq> [] \<and> \<not> gm_has r u"

inductive registry_step :: "registry \<Rightarrow> registry \<Rightarrow> bool" where
  add: "fresh_uuid u r \<Longrightarrow> AddNode u n r = (e, r') \<Longrightarrow> registry_step r r'"
| update: "UpdateNode n r = (e, r') \<Longrightarrow> registry_step r r'"
| delete: "DeleteNode n r = (e, r') \<Longrightarrow> registry_step r r'"
| cleanup: "registry_step r (CleanupRegistry r)"

inductive registry_reachable :: "registry \<Rightarrow> bool" where
  start: "registry_reachable []"
| step: "registry_reachable r \<Longrightarrow> registry_step r r' \<Longrightarrow> registry_reachable r'"

lemmas [registry_defs] = AddNode_def UpdateNode_def DeleteNode_def CleanupRegistry_def

lemma registry_inv_alt:
  "registry_inv r \<longleftrightarrow> gm_ok r \<and> (\<forall>k n. map_of r k = Some n \<longrightarrow> uuid n = k \<and> k \<noteq> [])"
  by (cases "gm_ok r") (simp_all add: registry_inv_def gm_ok_map_of Ball_def split_paired_all)

lemma registry_inv_ok: "registry_inv r \<Longrightarrow> gm_ok r"
  by (simp add: registry_inv_def)

lemma registry_inv_Nil [simp]: "registry_inv []"
  by (simp add: registry_inv_def)

lemma registry_inv_put:
  "registry_inv r \<Longrightarrow> uuid n \<noteq> [] \<Longrightarrow> registry_inv (gm_put (uuid n) n r)"
  by (simp add: registry_inv_alt)

lemma registry_inv_del: "registry_inv r \<Longrightarrow> registry_inv (gm_del k r)"
  by (simp add: registry_inv_alt)

lemma registry_inv_uuid: "registry_inv r \<Longrightarrow> map_of r k = Some n \<Longrightarrow> uuid n = k \<and> k \<noteq> []"
  by (simp add: registry_inv_alt)

lemma registry_step_inv: "registry_step r r' \<Longrightarrow> registry_inv r \<Longrightarrow> registry_inv r'"
proof (induction rule: registry_step.induct)
  case (add u r n e r')
  then show ?case
    using registry_inv_put [of r "n\<lparr>uuid := u\<rparr>"]
    by (auto simp: AddNode_def fresh_uuid_def Let_def split: if_splits)
next
  case (update n r e r')
  show ?case
  proof (cases "map_of r (uuid n)")
    case None
    with update show ?thesis by (simp add: UpdateNode_def gm_has_def)
  next
    case (Some m)
    with update have "uuid n \<noteq> []" using registry_inv_uuid by blast
    with Some update show ?thesis by (auto simp: UpdateNode_def gm_has_def registry_inv_put)
  qed
next
  case (delete n r e r')
  then show ?case
    by (auto simp: DeleteNode_def registry_inv_del split: if_splits)
next
  case (cleanup r)
  then show ?case by (simp add: CleanupRegistry_def)
qed

lemma reachable_inv: "registry_reachable r \<Longrightarrow> registry_inv r"
  by (induction rule: registry_reachable.induct) (auto intro: registry_step_inv)

section \<open>What the queries return\<close>

lemma collect_eq: "collect p r acc = acc @ filter p (gm_values r)"
  by (induction p r acc rule: collect.induct) (auto simp: gm_values_def)

lemma mset_values_put_fresh:
  "\<not> gm_has r k \<Longrightarrow> mset (gm_values (gm_put k v r)) = add_mset v (mset (gm_values r))"
proof (induction r)
  case Nil
  then show ?case by (simp add: gm_put_def gm_values_def)
next
  case (Cons a r)
  then show ?case
    by (cases a) (auto simp: gm_put_def gm_values_def gm_has_def split: if_splits)
qed

lemma mset_values_del:
  assumes "gm_ok r" "map_of r k = Some v"
  shows "mset (gm_values r) = add_mset v (mset (gm_values (gm_del k r)))"
  using assms
proof (induction r)
  case Nil
  then show ?case by simp
next
  case (Cons a r)
  obtain k' v' where a: "a = (k', v')" by (cases a)
  show ?case
  proof (cases "k' = k")
    case True
    with Cons.prems a have "k \<notin> fst ` set r" by (simp add: gm_ok_def)
    then have "AList.delete k r = r" by (simp add: delete_id)
    with True Cons.prems a show ?thesis by (simp add: gm_del_def gm_values_def)
  next
    case False
    with Cons a show ?thesis by (simp add: gm_del_def gm_values_def gm_ok_def)
  qed
qed

locale node_query =
  fixes query :: "registry \<Rightarrow> Node list"
    and wanted :: "Node \<Rightarrow> bool"
  assumes query_filter: "query r = filter wanted (gm_values r)"
begin

lemma set_query: "gm_ok r \<Longrightarrow> n \<in> set (query r) \<longleftrightarrow> (\<exists>k. map_of r k = Some n) \<and> wanted n"
  by (auto simp: query_filter set_gm_values ran_def)

lemma query_order:
  "gm_ok r \<Longrightarrow> gm_ok r' \<Longrightarrow> map_of r = map_of r' \<Longrightarrow> mset (query r) = mset (query r')"
  using mset_values_of_same_map [of r r'] by (simp add: query_filter)

lemma query_add:
  assumes "fresh_uuid u r" "uuid n = []"
  shows "fst (AddNode u n r) = None \<and>
    mset (query (snd (AddNode u n r))) =
      (if wanted (n\<lparr>uuid := u\<rparr>) then {#n\<lparr>uuid := u\<rparr>#} else {#}) + mset (query r)"
  using assms
  by (simp add: AddNode_def fresh_uuid_def Let_def query_filter mset_values_put_fresh)

lemma query_delete:
  assumes "gm_ok r" "map_of r (uuid n) = Some m" "uuid n \<noteq> []"
  shows "mset (query r) =
    (if wanted m then {#m#} else {#}) + mset (query (snd (DeleteNode n r)))"
  using assms mset_values_del [of r "uuid n" m]
  by (simp add: DeleteNode_def query_filter)

lemma query_update:
  assumes "gm_ok r" "map_of r (uuid n) = Some m"
  shows "n' \<in> set (query (snd (UpdateNode n r))) \<longleftrightarrow>
    (n' = n \<and> wanted n) \<or> (\<exists>k. k \<noteq> uuid n \<and> map_of r k = Some n' \<and> wanted n')"
  using assms by (auto simp: UpdateNode_def gm_has_def set_query split: if_splits)

end

interpretation all_nodes: node_query GetNodes "\<lambda>_. True"
  by unfold_locales (simp add: GetNodes_def collect_eq)

interpretation workers: node_query GetWorkerNodes "\<lambda>n. node_Type n = TypeWorker"
  by unfold_locales (simp add: GetWorkerNodes_def collect_eq)

interpretation masters: node_query GetMasterNodes "\<lambda>n. node_Type n = TypeMaster"
  by unfold_locales (simp add: GetMasterNodes_def collect_eq)

interpretation storage_driver: node_query GetStorageDriverNodes IsStorageDriverInstalled
  by unfold_locales (simp add: GetStorageDriverNodes_def collect_eq)

interpretation in_zone: node_query "GetNodesByTopologyZoneLabel zone" "\<lambda>n. TopologyZone n = zone"
  by unfold_locales (simp add: GetNodesByTopologyZoneLabel_def collect_eq)

interpretation in_region: node_query "GetNodesByTopologyRegionLabel region"
  "\<lambda>n. TopologyRegion n = region"
  by unfold_locales (simp add: GetNodesByTopologyRegionLabel_def collect_eq)

interpretation metadata: node_query GetMetadataNodes IsMetadataNode
  by unfold_locales (simp add: GetMetadataNodes_def collect_eq)

section \<open>Helper lemmas on the queries\<close>

lemma some_uuid_iff: "some_uuid u ns \<longleftrightarrow> (\<exists>n\<in>set ns. uuid n = u)"
  by (induction u ns rule: some_uuid.induct) auto

lemma IsMasterNode_iff:
  assumes "registry_inv r" "map_of r k = Some n"
  shows "IsMasterNode n r \<longleftrightarrow> node_Type n = TypeMaster"
proof
  assume "IsMasterNode n r"
  then obtain m k' where "map_of r k' = Some m" "node_Type m = TypeMaster" "uuid m = uuid n"
    using masters.set_query [OF registry_inv_ok [OF assms(1)]]
    by (auto simp: IsMasterNode_def some_uuid_iff)
  moreover from this assms have "k' = k"
    by (metis registry_inv_uuid)
  ultimately show "node_Type n = TypeMaster"
    using assms(2) by simp
next
  assume "node_Type n = TypeMaster"
  with assms show "IsMasterNode n r"
    using masters.set_query [OF registry_inv_ok [OF assms(1)]]
    by (auto simp: IsMasterNode_def some_uuid_iff)
qed

lemma split_storage_None_iff:
  "split_storage want ns acc = None \<longleftrightarrow> (\<exists>n\<in>set ns. StorageNode n = None)"
  by (induction want ns acc rule: split_storage.induct)
     (auto simp: IsStorageNode_def split: option.splits)

lemma split_storage_Some:
  "\<forall>n\<in>set ns. StorageNode n \<noteq> None \<Longrightarrow>
   split_storage want ns acc = Some (acc @ filter (\<lambda>n. IsStorageNode n = Some want) ns)"
  by (induction want ns acc rule: split_storage.induct) (auto simp: IsStorageNode_def)

lemma storage_inv_driver_nodes:
  "storage_inv r \<Longrightarrow> \<forall>n\<in>set (GetStorageDriverNodes r). StorageNode n \<noteq> None"
  by (auto simp: storage_inv_def storage_driver.query_filter gm_values_def)

lemma mset_split_storage:
  "\<forall>n\<in>set ns. StorageNode n \<noteq> None \<Longrightarrow>
   mset (filter (\<lambda>n. IsStorageNode n = Some True) ns) +
   mset (filter (\<lambda>n. IsStorageNode n = Some False) ns) = mset ns"
  by (induction ns) (auto simp: IsStorageNode_def)

lemma GetNodeByName_cases:
  "(\<exists>n\<in>set (gm_values r). node_Name n = nm \<and> GetNodeByName nm r = Inr n) \<or>
   ((\<forall>n\<in>set (gm_values r). node_Name n \<noteq> nm) \<and> (\<exists>e. GetNodeByName nm r = Inl e))"
  by (induction nm r rule: GetNodeByName.induct) (auto simp: gm_values_def)

lemma GetNodeByIP_cases:
  "(\<exists>n\<in>set (gm_values r). ip \<in> set (Addresses n) \<and> GetNodeByIP ip r = Inr n) \<or>
   ((\<forall>n\<in>set (gm_values r). ip \<notin> set (Addresses n)) \<and> (\<exists>e. GetNodeByIP ip r = Inl e))"
  by (induction ip r rule: GetNodeByIP.induct) (auto simp: gm_values_def list_ex_iff)

lemma find_node_id_cases:
  "\<forall>n\<in>set ns. StorageNode n \<noteq> None \<Longrightarrow>
   (\<exists>n\<in>set ns. \<exists>sn. StorageNode n = Some sn \<and> sn_Id sn = i \<and> find_node_id i ns = Some (Inr n)) \<or>
   ((\<forall>n\<in>set ns. \<forall>sn. StorageNode n = Some sn \<longrightarrow> sn_Id sn \<noteq> i) \<and>
    (\<exists>e. find_node_id i ns = Some (Inl e)))"
  by (induction i ns rule: find_node_id.induct) (auto split: option.splits)

lemma key_nodes_ok: "gm_ok m \<Longrightarrow> gm_ok (key_nodes f r m)"
  by (induction f r m rule: key_nodes.induct) auto

lemma map_of_key_nodes:
  "map_of (key_nodes f r m) k =
     (case find (\<lambda>n. f n = k) (rev (gm_values r)) of None \<Rightarrow> map_of m k | Some n \<Rightarrow> Some n)"
proof (induction r arbitrary: m)
  case Nil
  then show ?case by simp
next
  case (Cons a r)
  have "find P (xs @ [x]) = (case find P xs of None \<Rightarrow> if P x then Some x else None | Some y \<Rightarrow> Some y)"
    for P :: "Node \<Rightarrow> bool" and xs x
    by (induction xs) auto
  with Cons show ?case
    by (cases a) (auto simp: gm_values_def split: option.splits)
qed

lemma key_nodes_sound: "map_of (key_nodes f r []) k = Some n \<Longrightarrow> n \<in> set (gm_values r) \<and> f n = k"
  by (auto simp: map_of_key_nodes find_Some_iff split: option.splits)
     (metis length_rev nth_mem set_rev)

lemma key_nodes_complete: "n \<in> set (gm_values r) \<Longrightarrow> map_of (key_nodes f r []) (f n) \<noteq> None"
  by (auto simp: map_of_key_nodes find_None_iff split: option.splits)

lemma gm_values_distinct_uuid: "registry_inv r \<Longrightarrow> distinct (map uuid (gm_values r))"
proof -
  assume inv: "registry_inv r"
  then have "map uuid (gm_values r) = map fst r"
    by (auto simp: registry_inv_def gm_values_def)
  with inv show ?thesis by (simp add: registry_inv_def gm_ok_def)
qed

section \<open>Properties\<close>

text \<open>C39: Every state the registry can reach from empty by \<open>AddNode\<close>, \<open>UpdateNode\<close>,
  \<open>DeleteNode\<close> and \<open>CleanupRegistry\<close> stores each node under its own non-empty uuid, so that
  no two of the nodes that \<open>GetNodes\<close> returns share a uuid.\<close>

theorem registry_reachable_inv:
  assumes "registry_reachable r"
  shows "registry_inv r \<and> distinct (map uuid (GetNodes r)) \<and> (\<forall>n\<in>set (GetNodes r). uuid n \<noteq> [])"
proof -
  from assms have inv: "registry_inv r" by (rule reachable_inv)
  then have "\<forall>n\<in>set (GetNodes r). uuid n \<noteq> []"
    by (auto simp: all_nodes.query_filter gm_values_def registry_inv_def)
  with inv show ?thesis
    by (simp add: all_nodes.query_filter gm_values_distinct_uuid)
qed

theorem registry_reachable_inv_witness:
  "registry_reachable (snd (AddNode ''u1'' zero_Node [])) \<and>
   registry_inv (snd (AddNode ''u1'' zero_Node []))"
proof -
  have "registry_reachable (snd (AddNode ''u1'' zero_Node []))"
    by (rule registry_reachable.step [OF registry_reachable.start])
       (rule registry_step.add [of "''u1''" _ zero_Node None], simp_all add: fresh_uuid_def gm_has_def
         AddNode_def zero_Node_def)
  then show ?thesis using registry_reachable_inv by blast
qed

text \<open>\<open>GetStorageNodes\<close> panics exactly when a node with the storage driver installed has no
  OpenStorage node. Otherwise \<open>GetStorageNodes\<close> and \<open>GetStorageLessNodes\<close> split
  \<open>GetStorageDriverNodes\<close> into two parts, those with and those without a storage pool.\<close>

theorem storage_nodes_partition:
  "(GetStorageNodes r = None \<longleftrightarrow> (\<exists>n\<in>set (GetStorageDriverNodes r). StorageNode n = None)) \<and>
   (storage_inv r \<longrightarrow> (\<exists>s l. GetStorageNodes r = Some s \<and> GetStorageLessNodes r = Some l \<and>
      mset s + mset l = mset (GetStorageDriverNodes r) \<and>
      (\<forall>n\<in>set s. IsStorageNode n = Some True) \<and> (\<forall>n\<in>set l. IsStorageNode n = Some False)))"
proof (intro conjI impI)
  show "GetStorageNodes r = None \<longleftrightarrow> (\<exists>n\<in>set (GetStorageDriverNodes r). StorageNode n = None)"
    by (simp add: GetStorageNodes_def split_storage_None_iff)
next
  assume "storage_inv r"
  then have ok: "\<forall>n\<in>set (GetStorageDriverNodes r). StorageNode n \<noteq> None"
    by (rule storage_inv_driver_nodes)
  then show "\<exists>s l. GetStorageNodes r = Some s \<and> GetStorageLessNodes r = Some l \<and>
      mset s + mset l = mset (GetStorageDriverNodes r) \<and>
      (\<forall>n\<in>set s. IsStorageNode n = Some True) \<and> (\<forall>n\<in>set l. IsStorageNode n = Some False)"
    using mset_split_storage [OF ok]
    by (simp add: GetStorageNodes_def GetStorageLessNodes_def split_storage_Some)
qed

theorem storage_nodes_partition_witness:
  "storage_inv [(''u1'', zero_Node\<lparr>uuid := ''u1''\<rparr>)] \<and>
   GetStorageNodes [(''u1'', zero_Node\<lparr>uuid := ''u1''\<rparr>)] \<noteq> None"
proof -
  have inv: "storage_inv [(''u1'', zero_Node\<lparr>uuid := ''u1''\<rparr>)]"
    by (simp add: storage_inv_def zero_Node_def)
  with storage_nodes_partition [of "[(''u1'', zero_Node\<lparr>uuid := ''u1''\<rparr>)]"]
  show ?thesis by auto
qed

text \<open>\<open>GetPXDisabledNodes\<close>, which looks every node up among the masters by uuid, returns
  exactly the registered nodes without the storage driver that are not of type master.\<close>

theorem px_disabled_nodes:
  assumes "registry_inv r"
  shows "GetPXDisabledNodes r =
    filter (\<lambda>n. \<not> IsStorageDriverInstalled n \<and> node_Type n \<noteq> TypeMaster) (GetNodes r)"
proof -
  have "IsMasterNode n r \<longleftrightarrow> node_Type n = TypeMaster" if "n \<in> set (gm_values r)" for n
  proof -
    from that assms have "\<exists>k. map_of r k = Some n"
      by (auto simp: set_gm_values registry_inv_ok ran_def)
    then show ?thesis using IsMasterNode_iff [OF assms] by blast
  qed
  then show ?thesis
    by (auto simp: GetPXDisabledNodes_def collect_eq all_nodes.query_filter intro: filter_cong)
qed

theorem px_disabled_nodes_witness:
  "GetPXDisabledNodes [(''u1'', zero_Node\<lparr>uuid := ''u1''\<rparr>),
     (''u2'', zero_Node\<lparr>uuid := ''u2'', node_Type := TypeMaster\<rparr>)] = [zero_Node\<lparr>uuid := ''u1''\<rparr>]"
proof -
  have "registry_inv [(''u1'', zero_Node\<lparr>uuid := ''u1''\<rparr>),
     (''u2'', zero_Node\<lparr>uuid := ''u2'', node_Type := TypeMaster\<rparr>)]"
    by (simp add: registry_inv_def gm_ok_def)
  from px_disabled_nodes [OF this] show ?thesis
    by (simp add: GetNodes_def zero_Node_def TypeMaster_def)
qed

text \<open>The three lookups answer correctly on every registry whose storage nodes are known:
  a node they return is registered and has the name, the address or the OpenStorage id asked
  for, and they fail only when no candidate has it. For the id the candidates are the nodes
  with a storage pool: a storageless node is never found by its id.\<close>

theorem node_lookups:
  assumes "storage_inv r"
  shows "(case GetNodeByName nm r of
      Inr n \<Rightarrow> n \<in> set (GetNodes r) \<and> node_Name n = nm
    | Inl _ \<Rightarrow> (\<forall>n\<in>set (GetNodes r). node_Name n \<noteq> nm)) \<and>
   (case GetNodeByIP ip r of
      Inr n \<Rightarrow> n \<in> set (GetNodes r) \<and> ip \<in> set (Addresses n)
    | Inl _ \<Rightarrow> (\<forall>n\<in>set (GetNodes r). ip \<notin> set (Addresses n))) \<and>
   (\<exists>res s. GetNodeDetailsByNodeID i r = Some res \<and> GetStorageNodes r = Some s \<and>
     (case res of
      Inr n \<Rightarrow> n \<in> set s \<and> (\<exists>sn. StorageNode n = Some sn \<and> sn_Id sn = i)
    | Inl _ \<Rightarrow> (\<forall>n\<in>set s. \<forall>sn. StorageNode n = Some sn \<longrightarrow> sn_Id sn \<noteq> i)))"
proof (intro conjI)
  show "case GetNodeByName nm r of
      Inr n \<Rightarrow> n \<in> set (GetNodes r) \<and> node_Name n = nm
    | Inl _ \<Rightarrow> (\<forall>n\<in>set (GetNodes r). node_Name n \<noteq> nm)"
    using GetNodeByName_cases [of r nm] by (auto simp: all_nodes.query_filter)
  show "case GetNodeByIP ip r of
      Inr n \<Rightarrow> n \<in> set (GetNodes r) \<and> ip \<in> set (Addresses n)
    | Inl _ \<Rightarrow> (\<forall>n\<in>set (GetNodes r). ip \<notin> set (Addresses n))"
    using GetNodeByIP_cases [of r ip] by (auto simp: all_nodes.query_filter)
  let ?s = "filter (\<lambda>n. IsStorageNode n = Some True) (GetStorageDriverNodes r)"
  have ok: "\<forall>n\<in>set (GetStorageDriverNodes r). StorageNode n \<noteq> None"
    by (rule storage_inv_driver_nodes [OF assms])
  then have s: "GetStorageNodes r = Some ?s"
    by (simp add: GetStorageNodes_def split_storage_Some)
  from ok have "\<forall>n\<in>set ?s. StorageNode n \<noteq> None" by simp
  from find_node_id_cases [OF this, of i] s
  show "\<exists>res s. GetNodeDetailsByNodeID i r = Some res \<and> GetStorageNodes r = Some s \<and>
     (case res of
      Inr n \<Rightarrow> n \<in> set s \<and> (\<exists>sn. StorageNode n = Some sn \<and> sn_Id sn = i)
    | Inl _ \<Rightarrow> (\<forall>n\<in>set s. \<forall>sn. StorageNode n = Some sn \<longrightarrow> sn_Id sn \<noteq> i))"
    by (auto simp: GetNodeDetailsByNodeID_def)
qed

definition sample_node :: Node where
  "sample_node = zero_Node\<lparr>uuid := ''u1'', node_Name := ''n1'', Addresses := [''10.0.0.1'', ''10.0.0.2''],
     IsStorageDriverInstalled := True, StorageNode := Some \<lparr>sn_Id = ''id1'', sn_Hostname = ''n1'',
       sn_DataIp = ''10.0.0.1'', sn_MgmtIp = ''10.0.0.1'', sn_SchedulerNodeName = ''n1'',
       sn_Status = STATUS_OK, sn_Disks = [], sn_Pools = []\<rparr>\<rparr>"

theorem node_lookups_witness:
  "storage_inv [(''u1'', sample_node)] \<and>
   (\<exists>n. GetNodeByName ''n1'' [(''u1'', sample_node)] = Inr n \<and> n \<in> set (GetNodes [(''u1'', sample_node)])) \<and>
   (\<exists>e. GetNodeDetailsByNodeID ''id1'' [(''u1'', sample_node)] = Some (Inl e))"
proof -
  have inv: "storage_inv [(''u1'', sample_node)]"
    by (simp add: storage_inv_def sample_node_def)
  have "GetNodeByName ''n1'' [(''u1'', sample_node)] = Inr sample_node"
    "\<exists>e. GetNodeDetailsByNodeID ''id1'' [(''u1'', sample_node)] = Some (Inl e)"
    by (simp_all add: sample_node_def GetNodeDetailsByNodeID_def GetStorageNodes_def
        GetStorageDriverNodes_def IsStorageNode_def)
  with inv node_lookups [OF inv, of "''n1''" "''x''" "''id1''"] show ?thesis by auto
qed

text \<open>Adding a node and deleting it again leaves the registry as it was, as a map; in
  between, each of the seven queries has gained the new node exactly when the node qualifies.\<close>

theorem add_delete_roundtrip:
  assumes "fresh_uuid u r" "uuid n = []" "gm_ok r"
  shows "map_of (snd (DeleteNode (n\<lparr>uuid := u\<rparr>) (snd (AddNode u n r)))) = map_of r \<and>
    mset (GetNodes (snd (AddNode u n r))) = add_mset (n\<lparr>uuid := u\<rparr>) (mset (GetNodes r)) \<and>
    mset (GetWorkerNodes (snd (AddNode u n r))) =
      (if node_Type n = TypeWorker then {#n\<lparr>uuid := u\<rparr>#} else {#}) + mset (GetWorkerNodes r) \<and>
    mset (GetMasterNodes (snd (AddNode u n r))) =
      (if node_Type n = TypeMaster then {#n\<lparr>uuid := u\<rparr>#} else {#}) + mset (GetMasterNodes r) \<and>
    mset (GetStorageDriverNodes (snd (AddNode u n r))) =
      (if IsStorageDriverInstalled n then {#n\<lparr>uuid := u\<rparr>#} else {#}) + mset (GetStorageDriverNodes r) \<and>
    mset (GetNodesByTopologyZoneLabel z (snd (AddNode u n r))) =
      (if TopologyZone n = z then {#n\<lparr>uuid := u\<rparr>#} else {#}) + mset (GetNodesByTopologyZoneLabel z r) \<and>
    mset (GetNodesByTopologyRegionLabel g (snd (AddNode u n r))) =
      (if TopologyRegion n = g then {#n\<lparr>uuid := u\<rparr>#} else {#}) + mset (GetNodesByTopologyRegionLabel g r) \<and>
    mset (GetMetadataNodes (snd (AddNode u n r))) =
      (if IsMetadataNode n then {#n\<lparr>uuid := u\<rparr>#} else {#}) + mset (GetMetadataNodes r)"
proof -
  from assms have "map_of r u = None" "u \<noteq> []"
    by (simp_all add: fresh_uuid_def gm_has_def)
  then have "map_of (snd (DeleteNode (n\<lparr>uuid := u\<rparr>) (snd (AddNode u n r)))) = map_of r"
    using assms by (simp add: AddNode_def DeleteNode_def Let_def fun_upd_idem)
  then show ?thesis
    using all_nodes.query_add [OF assms(1,2)] workers.query_add [OF assms(1,2)]
      masters.query_add [OF assms(1,2)] storage_driver.query_add [OF assms(1,2)]
      in_zone.query_add [OF assms(1,2), of z] in_region.query_add [OF assms(1,2), of g]
      metadata.query_add [OF assms(1,2)]
    by simp
qed

theorem add_delete_roundtrip_witness:
  "map_of (snd (DeleteNode (zero_Node\<lparr>uuid := ''u2''\<rparr>)
     (snd (AddNode ''u2'' zero_Node [(''u1'', sample_node)])))) = map_of [(''u1'', sample_node)]"
  by (rule add_delete_roundtrip [of "''u2''" _ _ "''z''" "''g''", THEN conjunct1])
     (simp_all add: fresh_uuid_def gm_has_def zero_Node_def gm_ok_def)

text \<open>The queries do not depend on the iteration order of the Go map: on two association
  lists that represent the same map they return the same nodes with the same multiplicity.\<close>

theorem query_order_irrelevant:
  assumes "gm_ok r" "gm_ok r'" "map_of r = map_of r'"
  shows "mset (GetNodes r) = mset (GetNodes r') \<and>
    mset (GetWorkerNodes r) = mset (GetWorkerNodes r') \<and>
    mset (GetMasterNodes r) = mset (GetMasterNodes r') \<and>
    mset (GetStorageDriverNodes r) = mset (GetStorageDriverNodes r') \<and>
    mset (GetNodesByTopologyZoneLabel z r) = mset (GetNodesByTopologyZoneLabel z r') \<and>
    mset (GetNodesByTopologyRegionLabel g r) = mset (GetNodesByTopologyRegionLabel g r') \<and>
    mset (GetMetadataNodes r) = mset (GetMetadataNodes r') \<and>
    mset (GetPXDisabledNodes r) = mset (GetPXDisabledNodes r')"
proof -
  have "set (GetMasterNodes r) = set (GetMasterNodes r')"
    using masters.query_order [OF assms] by (rule mset_eq_setD)
  then have master: "IsMasterNode n r = IsMasterNode n r'" for n
    by (simp add: IsMasterNode_def some_uuid_iff)
  have "mset (GetPXDisabledNodes r) = mset (GetPXDisabledNodes r')"
    using mset_values_of_same_map [OF assms]
    by (simp add: GetPXDisabledNodes_def collect_eq master)
  then show ?thesis
    using all_nodes.query_order [OF assms] workers.query_order [OF assms]
      masters.query_order [OF assms] storage_driver.query_order [OF assms]
      in_zone.query_order [OF assms, of z] in_region.query_order [OF assms, of g]
      metadata.query_order [OF assms]
    by simp
qed

theorem query_order_irrelevant_witness:
  "mset (GetNodes [(''u1'', sample_node), (''u2'', zero_Node)]) =
   mset (GetNodes [(''u2'', zero_Node), (''u1'', sample_node)])"
  by (rule query_order_irrelevant [of _ _ "''z''" "''g''", THEN conjunct1])
     (auto simp: gm_ok_def)

text \<open>The maps that \<open>GetNodesByName\<close> and \<open>GetNodesByVoDriverNodeID\<close> build are keyed
  correctly and complete: a key maps to a registered node with that name (volume driver id),
  every such value of a registered node is a key, and where the values are distinct each node
  is found under its own.\<close>

theorem keyed_nodes:
  shows "(\<forall>k n. map_of (GetNodesByName r) k = Some n \<longrightarrow> n \<in> set (GetNodes r) \<and> node_Name n = k) \<and>
    (\<forall>k n. map_of (GetNodesByVoDriverNodeID r) k = Some n \<longrightarrow>
       n \<in> set (GetNodes r) \<and> VolDriverNodeID n = k) \<and>
    dom (map_of (GetNodesByName r)) = node_Name ` set (GetNodes r) \<and>
    dom (map_of (GetNodesByVoDriverNodeID r)) = VolDriverNodeID ` set (GetNodes r) \<and>
    (\<forall>n\<in>set (GetNodes r). inj_on node_Name (set (GetNodes r)) \<longrightarrow>
       map_of (GetNodesByName r) (node_Name n) = Some n)"
proof -
  have dom: "dom (map_of (key_nodes f r [])) = f ` set (gm_values r)" for f
    using key_nodes_sound [of f r] key_nodes_complete [of _ r f] by (auto simp: dom_def)
  have found: "map_of (key_nodes node_Name r []) (node_Name n) = Some n"
    if n: "n \<in> set (gm_values r)" and inj: "inj_on node_Name (set (gm_values r))" for n
  proof -
    from key_nodes_complete [OF n, of node_Name] obtain m
      where m: "map_of (key_nodes node_Name r []) (node_Name n) = Some m" by auto
    with key_nodes_sound [OF m] n inj have "m = n" by (auto dest: inj_onD)
    with m show ?thesis by simp
  qed
  show ?thesis
    by (auto simp: GetNodesByName_def GetNodesByVoDriverNodeID_def all_nodes.query_filter dom found
        dest!: key_nodes_sound)
qed

theorem keyed_nodes_witness:
  "map_of (GetNodesByName [(''u1'', sample_node)]) ''n1'' = Some sample_node"
  using keyed_nodes [of "[(''u1'', sample_node)]"]
  by (auto simp: GetNodes_def sample_node_def)

end
