(* ===== verification/PxNodes.thy ===== *)
theory PxNodes
  imports NodeRegistry RetryTask
begin

text \<open>
  How the Portworx volume driver (\<open>drivers/volume/portworx/portworx.go\<close>) keeps the node registry
  in step with the nodes of the Portworx cluster: \<open>updateNode\<close>, \<open>updateNodes\<close>,
  \<open>UpdateNodeWithStorageInfo\<close>, the check for metadata nodes, and the checks after a node id moved
  to another node.

  The cluster SDK, the key-value store members and \<open>IsPXEnabled\<close> are arguments. The cluster nodes
  are a list, in the order the SDK enumerates them; \<open>fmt_nodes\<close> is how \<open>%v\<close> prints it.
\<close>

section \<open>Metadata nodes\<close>

text \<open>The match of \<open>http:\/\/(?P<address>[\d\.]+):(?P<port>\d+)\<close>, leftmost first: the group
  \<open>address\<close>. The class excludes the colon, so the longest run is the only candidate.\<close>

definition addr_char :: "char \<Rightarrow> bool" where
  "addr_char c = (c \<in> set ''0123456789.'')"

fun starts_port :: "string \<Rightarrow> bool" where
  "starts_port (a # b # _) = (a = CHR '':'' \<and> b \<in> set ''0123456789'')"
| "starts_port _ = False"

fun match_address :: "string \<Rightarrow> string option" where
  "match_address [] = None"
| "match_address (c # cs) =
     (let rest = drop 7 (c # cs); a = takeWhile addr_char rest in
      if HasPrefix (c # cs) ''http://'' \<and> a \<noteq> [] \<and> starts_port (dropWhile addr_char rest)
      then Some a else match_address cs)"

fun some_client_url :: "string \<Rightarrow> string list \<Rightarrow> bool" where
  "some_client_url address [] = False"
| "some_client_url address (url # urls) =
     (case match_address url of
        Some val \<Rightarrow> if address = Trim val ''[]'' then True else some_client_url address urls
      | None \<Rightarrow> some_client_url address urls)"

text \<open>\<open>members\<close> is the result of \<open>GetKvdbMembers\<close>: an error or the client URLs of each member.\<close>

definition isMetadataNode :: "go_error + (string, string list) gomap \<Rightarrow> string \<Rightarrow> bool \<times> go_error option" where
  "isMetadataNode members address = (case members of
     Inl err \<Rightarrow> (False, Some (Errorf (''failed to get metadata nodes, Err: '' @ Error_str err)))
   | Inr ms \<Rightarrow> (list_ex (some_client_url address) (gm_values ms), None))"

section \<open>Updating the registry\<close>

fun match_px :: "Node \<Rightarrow> string \<Rightarrow> api_StorageNode list \<Rightarrow> api_StorageNode option" where
  "match_px n address [] = None"
| "match_px n address (pxNode # pxNodes) =
     (if address = sn_DataIp pxNode \<or> address = sn_MgmtIp pxNode \<or>
         node_Name n = sn_SchedulerNodeName pxNode
      then Some pxNode else match_px n address pxNodes)"

fun find_px :: "Node \<Rightarrow> string list \<Rightarrow> api_StorageNode list \<Rightarrow> (string \<times> api_StorageNode) option" where
  "find_px n [] pxNodes = None"
| "find_px n (address # addresses) pxNodes = (case match_px n address pxNodes of
     Some pxNode \<Rightarrow> Some (address, pxNode)
   | None \<Rightarrow> find_px n addresses pxNodes)"

definition new_storage_pool :: "api_StoragePool \<Rightarrow> StoragePool" where
  "new_storage_pool p = \<lparr>sp_StoragePool = p, sp_StoragePoolAtInit = p, sp_WorkloadSize = 0\<rparr>"

definition with_px :: "bool \<Rightarrow> api_StorageNode \<Rightarrow> Node \<Rightarrow> Node" where
  "with_px metadata pxNode n =
     (let n = n\<lparr>StorageNode := Some pxNode, VolDriverNodeID := sn_Id pxNode,
                IsStorageDriverInstalled := True, IsMetadataNode := metadata\<rparr> in
      if length (sn_Pools pxNode) > 0
      then n\<lparr>StoragePools := map new_storage_pool (sn_Pools pxNode)\<rparr> else n)"

definition updateNode ::
  "(Node \<Rightarrow> go_error + bool) \<Rightarrow> (Node \<Rightarrow> go_error + (string, string list) gomap)
     \<Rightarrow> (api_StorageNode list \<Rightarrow> string) \<Rightarrow> Node \<Rightarrow> api_StorageNode list \<Rightarrow> registry
     \<Rightarrow> go_error option \<times> registry" where
  "updateNode IsPXEnabled GetKvdbMembers fmt_nodes n pxNodes r = (case IsPXEnabled n of
     Inl err \<Rightarrow> (Some err, r)
   | Inr isPX \<Rightarrow>
       if \<not> isPX then (None, r)
       else (case find_px n (Addresses n) pxNodes of
          None \<Rightarrow> (Some (Errorf (''failed to find PX node for node ['' @ node_Name n @
            ''] in PX node list: '' @ fmt_nodes pxNodes)), r)
        | Some (address, pxNode) \<Rightarrow>
            if length (sn_Id pxNode) > 0 then
              (let n1 = n\<lparr>StorageNode := Some pxNode, VolDriverNodeID := sn_Id pxNode,
                          IsStorageDriverInstalled := isPX\<rparr> in
               case UpdateNode (with_px (fst (isMetadataNode (GetKvdbMembers n1) address)) pxNode n) r of
                 (Some err, r') \<Rightarrow> (Some (Errorf (''failed to update node ['' @ node_Name n @
                   ''], Err: '' @ Error_str err)), r')
               | (None, r') \<Rightarrow> (None, r'))
            else (Some (Errorf (''StorageNodeId is empty for node ['' @ sn_Hostname pxNode @ '']'')), r)))"

fun update_each ::
  "(Node \<Rightarrow> go_error + bool) \<Rightarrow> (Node \<Rightarrow> go_error + (string, string list) gomap)
     \<Rightarrow> (api_StorageNode list \<Rightarrow> string) \<Rightarrow> Node list \<Rightarrow> api_StorageNode list \<Rightarrow> registry
     \<Rightarrow> go_error option \<times> registry" where
  "update_each px kv fmt [] pxNodes r = (None, r)"
| "update_each px kv fmt (n # ns) pxNodes r = (case updateNode px kv fmt n pxNodes r of
     (Some err, r') \<Rightarrow> (Some err, r')
   | (None, r') \<Rightarrow> update_each px kv fmt ns pxNodes r')"

definition updateNodes where
  "updateNodes px kv fmt pxNodes r = update_each px kv fmt (GetNodes r) pxNodes r"

definition GetStoragelessNodes :: "api_StorageNode list \<times> go_error option \<Rightarrow>
    api_StorageNode list \<times> go_error option" where
  "GetStoragelessNodes getPxNodes = (case getPxNodes of
     (_, Some err) \<Rightarrow> ([], Some err)
   | (pxnodes, None) \<Rightarrow> (filter (\<lambda>pxnode. length (sn_Pools pxnode) = 0) pxnodes, None))"

text \<open>The index of the node to skip, and the slice expression
  \<open>append(storageNodes[:skipIdx], storageNodes[skipIdx:]...)\<close>.\<close>

fun skip_index :: "string \<Rightarrow> nat \<Rightarrow> api_StorageNode list \<Rightarrow> nat option" where
  "skip_index skipNodeName idx [] = None"
| "skip_index skipNodeName idx (sn # sns) =
     (if length skipNodeName > 0 \<and> sn_Hostname sn = skipNodeName then Some idx
      else skip_index skipNodeName (Suc idx) sns)"

definition UpdateNodeWithStorageInfo where
  "UpdateNodeWithStorageInfo px kv fmt getPxNodes n skipNodeName r = (case getPxNodes of
     (_, Some err) \<Rightarrow> (Some err, r)
   | (storageNodes, None) \<Rightarrow>
       (let storageNodes = (case skip_index skipNodeName 0 storageNodes of
              Some skipIdx \<Rightarrow> take skipIdx storageNodes @ drop skipIdx storageNodes
            | None \<Rightarrow> storageNodes)
        in updateNode px kv fmt n storageNodes r))"

section \<open>A node id that moved to another node\<close>

fun px_Contains :: "api_StorageNode list \<Rightarrow> api_StorageNode \<Rightarrow> bool" where
  "px_Contains [] n = False"
| "px_Contains (value # nodes) n = (if sn_Hostname value = sn_Hostname n then True else px_Contains nodes n)"

fun same_pool_ids :: "api_StoragePool list \<Rightarrow> api_StoragePool list \<Rightarrow> bool" where
  "same_pool_ids (p # ps) (q # qs) = (if pool_Uuid p \<noteq> pool_Uuid q then False else same_pool_ids ps qs)"
| "same_pool_ids _ _ = True"

definition comparePoolsAndDisks :: "api_StorageNode \<Rightarrow> api_StorageNode \<Rightarrow> bool" where
  "comparePoolsAndDisks srcNode dstNode =
     (if length (sn_Pools srcNode) \<noteq> length (sn_Pools dstNode) then False
      else if \<not> same_pool_ids (sn_Pools srcNode) (sn_Pools dstNode) then False
      else if length (sn_Disks srcNode) \<noteq> length (sn_Disks dstNode) then False
      else True)"

definition validateNodeIDMigration :: "api_StorageNode \<Rightarrow> api_StorageNode \<Rightarrow> api_StorageNode list \<Rightarrow> bool" where
  "validateNodeIDMigration delNode newNode storagelessNodes =
     (if length storagelessNodes \<noteq> 0 \<and> \<not> px_Contains storagelessNodes newNode then False
      else if \<not> comparePoolsAndDisks delNode newNode then False
      else True)"

definition ValidateNodeAfterPickingUpNodeID ::
  "api_StorageNode \<Rightarrow> api_StorageNode \<Rightarrow> api_StorageNode list \<Rightarrow> go_error option" where
  "ValidateNodeAfterPickingUpNodeID delNode newNode storagelessNodes =
     (if \<not> validateNodeIDMigration delNode newNode storagelessNodes
      then Some (Errorf (''validation failed: NodeId: ['' @ sn_Id delNode @
        ''] pick-up failed by new Node: ['' @ sn_Hostname newNode @ '']''))
      else None)"

text \<open>\<open>Inspect\<close> is the node manager's inspection of a node id; it takes time and sees a world that
  changes.\<close>

definition getPxNodeByID ::
  "(string \<Rightarrow> 'w \<Rightarrow> (go_error + api_StorageNode) \<times> nat \<times> 'w) \<Rightarrow> string \<Rightarrow> 'w
     \<Rightarrow> (go_error + api_StorageNode) \<times> nat \<times> 'w" where
  "getPxNodeByID Inspect nodeID w = (case Inspect nodeID w of
     (Inl err, d, w') \<Rightarrow> (Inl err, d, w')
   | (Inr nd, d, w') \<Rightarrow>
       if sn_MgmtIp nd = []
       then (Inl (Errorf ''got an empty MgmtIp from SdkNodeInspectRequest''), d, w')
       else (Inr nd, d, w'))"

definition picked_by_another ::
  "(string \<Rightarrow> 'w \<Rightarrow> (go_error + api_StorageNode) \<times> nat \<times> 'w) \<Rightarrow> api_StorageNode
     \<Rightarrow> ('w, api_StorageNode option) task_fn" where
  "picked_by_another Inspect delNode w = (case getPxNodeByID Inspect (sn_Id delNode) w of
     (Inl err, d, w') \<Rightarrow> ((None, True, Some err), d, w')
   | (Inr nNode, d, w') \<Rightarrow>
       if sn_Hostname nNode = sn_Hostname delNode
       then ((None, True, Some (Errorf (''waiting for NodeId ['' @ sn_Id delNode @
              ''] to be picked by another node''))), d, w')
       else if length (sn_Pools nNode) = 0
       then ((None, True, Some (Errorf (''waiting for storage to be up in node ['' @
              sn_Hostname nNode @ '']''))), d, w')
       else ((Some nNode, False, None), d, w'))"

definition validateStoragePoolSizeTimeout :: int where
  "validateStoragePoolSizeTimeout = 3 * 3600 * second_ns"

definition validateStoragePoolSizeInterval :: int where
  "validateStoragePoolSizeInterval = 30 * second_ns"

definition WaitForNodeIDToBePickedByAnotherNode ::
  "(string \<Rightarrow> 'w \<Rightarrow> (go_error + api_StorageNode) \<times> nat \<times> 'w) \<Rightarrow> api_StorageNode \<Rightarrow> 'w
     \<Rightarrow> ((go_error + api_StorageNode) \<times> 'w) option" where
  "WaitForNodeIDToBePickedByAnotherNode Inspect delNode w =
     (case DoRetryWithTimeout (picked_by_another Inspect delNode)
             validateStoragePoolSizeTimeout validateStoragePoolSizeInterval w of
        None \<Rightarrow> None
      | Some (Inl err, w') \<Rightarrow> Some (Inl err, w')
      | Some (Inr None, w') \<Rightarrow> Some (Inl (Errorf (''failed to pick NodeId ['' @ sn_Id delNode @
          ''] by PX nodes in a cluster'')), w')
      | Some (Inr (Some nNode), w') \<Rightarrow> Some (Inr nNode, w'))"

section \<open>What an update does\<close>

lemma match_px_Some:
  "match_px n a ps = Some p \<Longrightarrow>
     p \<in> set ps \<and> (a = sn_DataIp p \<or> a = sn_MgmtIp p \<or> node_Name n = sn_SchedulerNodeName p)"
  by (induction ps) (auto split: if_splits)

lemma match_px_None:
  "match_px n a ps = None \<longleftrightarrow>
     (\<forall>p\<in>set ps. a \<noteq> sn_DataIp p \<and> a \<noteq> sn_MgmtIp p \<and> node_Name n \<noteq> sn_SchedulerNodeName p)"
  by (induction ps) auto

lemma find_px_Some:
  "find_px n as ps = Some (a, p) \<Longrightarrow> a \<in> set as \<and> p \<in> set ps \<and>
     (a = sn_DataIp p \<or> a = sn_MgmtIp p \<or> node_Name n = sn_SchedulerNodeName p)"
  by (induction as) (auto split: option.splits dest: match_px_Some)

lemma find_px_None:
  "find_px n as ps = None \<longleftrightarrow> (\<forall>a\<in>set as. \<forall>p\<in>set ps.
     a \<noteq> sn_DataIp p \<and> a \<noteq> sn_MgmtIp p \<and> node_Name n \<noteq> sn_SchedulerNodeName p)"
  by (induction as) (auto split: option.splits simp: match_px_None dest: match_px_Some)

text \<open>The node that a successful update leaves in the registry.\<close>

definition px_node ::
  "(Node \<Rightarrow> go_error + bool) \<Rightarrow> (Node \<Rightarrow> go_error + (string, string list) gomap)
     \<Rightarrow> api_StorageNode list \<Rightarrow> Node \<Rightarrow> Node" where
  "px_node IsPXEnabled GetKvdbMembers pxNodes n = (case IsPXEnabled n of
     Inr True \<Rightarrow> (case find_px n (Addresses n) pxNodes of
        Some (a, p) \<Rightarrow> with_px (fst (isMetadataNode (GetKvdbMembers
          (n\<lparr>StorageNode := Some p, VolDriverNodeID := sn_Id p, IsStorageDriverInstalled := True\<rparr>)) a)) p n
      | None \<Rightarrow> n)
   | _ \<Rightarrow> n)"

lemma with_px_fields [simp]:
  "uuid (with_px b p n) = uuid n" "StorageNode (with_px b p n) = Some p"
  "IsStorageDriverInstalled (with_px b p n)" "VolDriverNodeID (with_px b p n) = sn_Id p"
  "IsMetadataNode (with_px b p n) = b" "node_Name (with_px b p n) = node_Name n"
  by (simp_all add: with_px_def Let_def)

lemma px_node_uuid [simp]: "uuid (px_node px kv ps n) = uuid n"
  by (auto simp: px_node_def split: sum.splits bool.splits option.splits prod.splits)

lemma updateNode_ok:
  assumes "updateNode px kv fmt n ps r = (None, r')" and "map_of r (uuid n) = Some n"
  shows "map_of r' = (map_of r)(uuid n \<mapsto> px_node px kv ps n)" and "gm_ok r \<Longrightarrow> gm_ok r'"
    and "px n = Inr False \<or> (px n = Inr True \<and> (\<exists>a p. find_px n (Addresses n) ps = Some (a, p) \<and> sn_Id p \<noteq> []))"
  using assms
  by (auto simp: updateNode_def px_node_def UpdateNode_def Let_def gm_has_def
      split: sum.splits if_splits option.splits prod.splits)

lemma update_each_ok:
  assumes "update_each px kv fmt ns ps r = (None, r')" and "distinct (map uuid ns)" and "gm_ok r"
    and "\<forall>n\<in>set ns. map_of r (uuid n) = Some n"
  shows "gm_ok r' \<and>
    (\<forall>k. map_of r' k = (if k \<in> uuid ` set ns then map_option (px_node px kv ps) (map_of r k) else map_of r k)) \<and>
    (\<forall>n\<in>set ns. px n = Inr False \<or> (px n = Inr True \<and>
       (\<exists>a p. find_px n (Addresses n) ps = Some (a, p) \<and> sn_Id p \<noteq> [])))"
  using assms
proof (induction ns arbitrary: r)
  case Nil
  then show ?case by simp
next
  case (Cons n ns)
  obtain r1 where r1: "updateNode px kv fmt n ps r = (None, r1)"
    "update_each px kv fmt ns ps r1 = (None, r')"
    using Cons.prems(1) by (auto split: prod.splits option.splits)
  have "map_of r (uuid n) = Some n" using Cons.prems(4) by simp
  note upd = updateNode_ok [OF r1(1) this]
  have "map_of r1 (uuid m) = Some m" if "m \<in> set ns" for m
  proof -
    have "uuid m \<noteq> uuid n" using Cons.prems(2) that by (auto simp: image_iff)
    then show ?thesis using Cons.prems(4) that by (simp add: upd(1))
  qed
  then have IH: "gm_ok r'"
    "map_of r' k = (if k \<in> uuid ` set ns then map_option (px_node px kv ps) (map_of r1 k) else map_of r1 k)"
    "\<forall>n\<in>set ns. px n = Inr False \<or> (px n = Inr True \<and>
       (\<exists>a p. find_px n (Addresses n) ps = Some (a, p) \<and> sn_Id p \<noteq> []))" for k
    using Cons.IH [OF r1(2)] Cons.prems(2,3) upd(2) by simp_all
  have "uuid n \<notin> uuid ` set ns" using Cons.prems(2) by simp
  then show ?case
    using IH(1,3) upd(3) Cons.prems(4) by (auto simp: IH(2) upd(1))
qed

lemma storage_inv_alt:
  "gm_ok r \<Longrightarrow> storage_inv r \<longleftrightarrow>
     (\<forall>k n. map_of r k = Some n \<longrightarrow> IsStorageDriverInstalled n \<longrightarrow> StorageNode n \<noteq> None)"
  by (simp add: storage_inv_def gm_ok_map_of Ball_def split_paired_all)

lemma GetNodes_values: "GetNodes r = gm_values r"
  by (simp add: GetNodes_def collect_eq)

lemma registry_inv_values:
  "registry_inv r \<Longrightarrow> \<forall>n\<in>set (GetNodes r). map_of r (uuid n) = Some n"
  "registry_inv r \<Longrightarrow> k \<in> uuid ` set (GetNodes r) \<longleftrightarrow> map_of r k \<noteq> None"
  by (force simp: GetNodes_values set_gm_values registry_inv_alt ran_def)+

lemma map_option_eq_None_rule:
  "(if v \<noteq> None then map_option f v else v) = map_option f v"
  by simp

text \<open>What a successful update of all the nodes leaves: every node as \<open>px_node\<close> makes it.\<close>

lemma updateNodes_ok:
  assumes "registry_inv r" and "updateNodes px kv fmt pxNodes r = (None, r')"
  shows "gm_ok r'" and "map_of r' k = map_option (px_node px kv pxNodes) (map_of r k)"
    and "\<forall>n\<in>set (GetNodes r). px n = Inr False \<or> (px n = Inr True \<and>
       (\<exists>a p. find_px n (Addresses n) pxNodes = Some (a, p) \<and> sn_Id p \<noteq> []))"
  using update_each_ok [OF assms(2) [unfolded updateNodes_def]] registry_inv_values [OF assms(1)]
    gm_values_distinct_uuid [OF assms(1)] registry_inv_ok [OF assms(1)]
  by (simp_all add: GetNodes_values map_option_eq_None_rule)

section \<open>Metadata addresses\<close>

lemma takeWhile_addr: "c \<in> set (takeWhile addr_char s) \<Longrightarrow> addr_char c"
  by (rule set_takeWhileD [THEN conjunct2])

lemma match_address_chars: "match_address url = Some a \<Longrightarrow> a \<noteq> [] \<and> (\<forall>c\<in>set a. addr_char c)"
  by (induction url) (auto simp: Let_def takeWhile_addr split: if_splits)

lemma match_address_url:
  assumes "a \<noteq> []" and "\<forall>c\<in>set a. addr_char c" and "d \<in> set ''0123456789''"
  shows "match_address (''http://'' @ a @ '':'' @ d # rest) = Some a"
proof -
  have "\<not> addr_char CHR '':''" by (simp add: addr_char_def)
  then show ?thesis
    using assms by (simp add: Let_def HasPrefix_iff_prefix takeWhile_append dropWhile_append)
qed

lemma addr_char_no_bracket: "addr_char c \<Longrightarrow> c \<notin> set ''[]''"
  by (auto simp: addr_char_def)

lemma Trim_addr: "\<forall>c\<in>set a. addr_char c \<Longrightarrow> Trim a ''[]'' = a"
  using hd_in_set last_in_set by (intro Trim_id) (blast dest: addr_char_no_bracket)

lemma some_client_url_iff: "some_client_url address urls \<longleftrightarrow> (\<exists>url\<in>set urls. match_address url = Some address)"
proof (induction urls)
  case (Cons url urls)
  have "Trim a ''[]'' = a" if "match_address url = Some a" for a
    using match_address_chars [OF that] by (intro Trim_addr) blast
  then show ?case
    using Cons by (auto split: option.splits)
qed simp

section \<open>The wait for a node id\<close>

definition id_moved :: "(string \<Rightarrow> 'w \<Rightarrow> (go_error + api_StorageNode) \<times> nat \<times> 'w) \<Rightarrow> api_StorageNode \<Rightarrow> 'w \<Rightarrow> bool" where
  "id_moved Inspect delNode w = (case fst (Inspect (sn_Id delNode) w) of
     Inl _ \<Rightarrow> False
   | Inr nd \<Rightarrow> sn_MgmtIp nd \<noteq> [] \<and> sn_Hostname nd \<noteq> sn_Hostname delNode \<and> sn_Pools nd \<noteq> [])"

interpretation picked_poll: poll_task "picked_by_another Inspect delNode"
  validateStoragePoolSizeInterval "id_moved Inspect delNode" for Inspect delNode
  by unfold_locales
     (auto simp: validateStoragePoolSizeInterval_def second_ns_def picked_by_another_def
       getPxNodeByID_def id_moved_def asks_retry_def final_result_def
       split: prod.splits sum.splits if_splits)

lemma picked_result:
  "id_moved Inspect delNode w \<Longrightarrow> \<exists>nd. fst (Inspect (sn_Id delNode) w) = Inr nd \<and>
     final_result (fst (picked_by_another Inspect delNode w)) = Inr (Some nd)"
  by (auto simp: picked_by_another_def getPxNodeByID_def id_moved_def final_result_def
      split: prod.splits sum.splits)

lemma px_Contains_iff: "px_Contains ns n \<longleftrightarrow> sn_Hostname n \<in> sn_Hostname ` set ns"
  by (induction ns) (auto simp: image_iff)

lemma same_pool_ids_iff:
  "length ps = length qs \<Longrightarrow> same_pool_ids ps qs \<longleftrightarrow> map pool_Uuid ps = map pool_Uuid qs"
  by (induction ps qs rule: list_induct2) auto

section \<open>Properties\<close>

text \<open>C20: When \<open>updateNodes\<close> succeeds, every node of the registry on which Portworx is enabled has
  been matched to a node of the cluster with an id, by one of its addresses or by its name, and has
  the storage driver installed with that node as its storage node. Every other node and the set of
  nodes are unchanged, and the invariants of the registry are kept.\<close>

theorem update_nodes_complete:
  assumes "registry_inv r" and "updateNodes px kv fmt pxNodes r = (None, r')"
  shows "registry_inv r' \<and> (storage_inv r \<longrightarrow> storage_inv r') \<and>
    (\<forall>k. case map_of r k of
        None \<Rightarrow> map_of r' k = None
      | Some n \<Rightarrow>
          (px n = Inr False \<and> map_of r' k = Some n) \<or>
          (px n = Inr True \<and> (\<exists>p\<in>set pxNodes. \<exists>a\<in>set (Addresses n). \<exists>meta.
             sn_Id p \<noteq> [] \<and> map_of r' k = Some (with_px meta p n) \<and>
             (a = sn_DataIp p \<or> a = sn_MgmtIp p \<or> node_Name n = sn_SchedulerNodeName p))))"
proof -
  note each = updateNodes_ok(1,2) [OF assms] and px = updateNodes_ok(3) [OF assms]
  have node: "px n = Inr False \<and> px_node px kv pxNodes n = n \<or>
      px n = Inr True \<and> (\<exists>p\<in>set pxNodes. \<exists>a\<in>set (Addresses n). \<exists>meta.
        sn_Id p \<noteq> [] \<and> px_node px kv pxNodes n = with_px meta p n \<and>
        (a = sn_DataIp p \<or> a = sn_MgmtIp p \<or> node_Name n = sn_SchedulerNodeName p))"
    if "map_of r k = Some n" for k n
  proof -
    have "n \<in> set (GetNodes r)"
      using that assms(1) by (auto simp: GetNodes_values set_gm_values registry_inv_ok ran_def)
    then consider "px n = Inr False"
      | a p where "px n = Inr True" "find_px n (Addresses n) pxNodes = Some (a, p)" "sn_Id p \<noteq> []"
      using px by blast
    then show ?thesis
    proof cases
      case 2
      then show ?thesis using find_px_Some [OF 2(2)] by (auto simp: px_node_def)
    qed (simp add: px_node_def)
  qed
  have "registry_inv r'"
    using each assms(1) by (auto simp: registry_inv_alt)
  moreover have "storage_inv r'" if "storage_inv r"
    using each that registry_inv_ok [OF assms(1)]
    by (auto simp: storage_inv_alt) (metis node with_px_fields(2) option.distinct(1))
  ultimately show ?thesis
    using each node by (auto split: option.splits)
qed

text \<open>The witness has one cluster node and one registered node with its address.\<close>

definition px_sample :: api_StorageNode where
  "px_sample = \<lparr>sn_Id = ''id1'', sn_Hostname = ''h1'', sn_DataIp = ''10.0.0.1'', sn_MgmtIp = ''10.1.0.1'',
     sn_SchedulerNodeName = ''n1'', sn_Status = STATUS_OK, sn_Disks = [],
     sn_Pools = [\<lparr>pool_Uuid = ''p1'', pool_Medium = STORAGE_MEDIUM_SSD, pool_TotalSize = 10, pool_Labels = []\<rparr>]\<rparr>"

definition node_sample :: Node where
  "node_sample = zero_Node\<lparr>uuid := ''u1'', node_Name := ''n1'', Addresses := [''10.1.0.1'']\<rparr>"

theorem update_nodes_complete_witness:
  "\<exists>r'. updateNodes (\<lambda>_. Inr True) (\<lambda>_. Inr []) (\<lambda>_. []) [px_sample] [(''u1'', node_sample)] = (None, r') \<and>
     storage_inv r' \<and> (\<exists>meta. map_of r' ''u1'' = Some (with_px meta px_sample node_sample))"
proof -
  have inv: "registry_inv [(''u1'', node_sample)]" "storage_inv [(''u1'', node_sample)]"
    by (simp_all add: registry_inv_def gm_ok_def storage_inv_def node_sample_def zero_Node_def)
  obtain r' where r': "updateNodes (\<lambda>_. Inr True) (\<lambda>_. Inr []) (\<lambda>_. []) [px_sample]
      [(''u1'', node_sample)] = (None, r')"
    by (simp add: updateNodes_def GetNodes_def updateNode_def node_sample_def px_sample_def
        UpdateNode_def gm_has_def with_px_def Let_def)
  then show ?thesis
    using update_nodes_complete [OF inv(1) r'] inv(2) by (auto dest!: spec [of _ "''u1''"])
qed

text \<open>The name of the node to skip has no effect on \<open>UpdateNodeWithStorageInfo\<close>: the slice
  expression that should drop the deleted node puts the two halves of the list back together.\<close>

theorem skip_node_has_no_effect:
  "UpdateNodeWithStorageInfo px kv fmt getPxNodes n skipNodeName r =
   UpdateNodeWithStorageInfo px kv fmt getPxNodes n [] r"
proof -
  have "skip_index [] i ps = None" for i ps
    by (induction ps arbitrary: i) auto
  then show ?thesis
    by (simp add: UpdateNodeWithStorageInfo_def Let_def split: option.splits prod.splits)
qed

text \<open>The metadata check finds the address of an IPv4 client URL \<open>http://address:port\<close> of a
  member, and it finds nothing else: an address with any character that is not a digit or a dot,
  such as every IPv6 address, never is a metadata node.\<close>

theorem metadata_nodes_ipv4_only:
  "((\<forall>c\<in>set address. addr_char c) \<and> address \<noteq> [] \<and> port \<in> set ''0123456789'' \<and>
     urls \<in> set (gm_values ms) \<and> (''http://'' @ address @ '':'' @ port # rest) \<in> set urls \<longrightarrow>
       isMetadataNode (Inr ms) address = (True, None)) \<and>
   ((\<exists>c\<in>set address. \<not> addr_char c) \<longrightarrow> \<not> fst (isMetadataNode members address))"
proof (intro conjI impI)
  show "isMetadataNode (Inr ms) address = (True, None)"
    if "(\<forall>c\<in>set address. addr_char c) \<and> address \<noteq> [] \<and> port \<in> set ''0123456789'' \<and>
      urls \<in> set (gm_values ms) \<and> (''http://'' @ address @ '':'' @ port # rest) \<in> set urls"
    using that match_address_url [of address port rest]
    by (auto simp: isMetadataNode_def list_ex_iff some_client_url_iff simp del: match_address.simps)
  show "\<not> fst (isMetadataNode members address)" if "\<exists>c\<in>set address. \<not> addr_char c"
    using that by (auto simp: isMetadataNode_def list_ex_iff some_client_url_iff
        dest!: match_address_chars split: sum.splits)
qed

theorem metadata_nodes_ipv4_only_witness:
  "isMetadataNode (Inr [(''m'', [''http://10.0.0.1:9019''])]) ''10.0.0.1'' = (True, None) \<and>
   \<not> fst (isMetadataNode (Inr [(''m'', [''http://[fd00::1]:9019''])]) ''fd00::1'')"
  using metadata_nodes_ipv4_only [of "''10.0.0.1''" "CHR ''9''" "[''http://10.0.0.1:9019'']"
      "[(''m'', [''http://10.0.0.1:9019''])]" "''019''"]
    metadata_nodes_ipv4_only [of "''fd00::1''" _ _ _ _ "Inr [(''m'', [''http://[fd00::1]:9019''])]"]
  by (simp add: addr_char_def gm_values_def)

text \<open>A node that picked up the id of a deleted node passes the validation exactly when it was one
  of the storageless nodes (if there were any), has the pools of the deleted node in the same order,
  and has as many disks; which disks is not compared.\<close>

theorem migration_validation_iff:
  "ValidateNodeAfterPickingUpNodeID delNode newNode storagelessNodes = None \<longleftrightarrow>
     (storagelessNodes = [] \<or> sn_Hostname newNode \<in> sn_Hostname ` set storagelessNodes) \<and>
     map pool_Uuid (sn_Pools delNode) = map pool_Uuid (sn_Pools newNode) \<and>
     length (sn_Disks delNode) = length (sn_Disks newNode)"
proof -
  have "map pool_Uuid ps = map pool_Uuid qs \<longleftrightarrow> length ps = length qs \<and> same_pool_ids ps qs" for ps qs
    using same_pool_ids_iff [of ps qs] map_eq_imp_length_eq [of pool_Uuid ps pool_Uuid qs] by auto
  then show ?thesis
    by (auto simp: ValidateNodeAfterPickingUpNodeID_def validateNodeIDMigration_def
        comparePoolsAndDisks_def px_Contains_iff)
qed

text \<open>The wait for a node id to move always returns. It returns a node exactly when a poll in time
  finds the id on another host with pools, and then returns the node of such a poll; otherwise the
  error is a timeout.\<close>

theorem wait_node_id_moved:
  fixes Inspect :: "string \<Rightarrow> 'w \<Rightarrow> (go_error + api_StorageNode) \<times> nat \<times> 'w" and delNode :: api_StorageNode
  defines "T \<equiv> picked_by_another Inspect delNode"
  shows "\<exists>res w'. WaitForNodeIDToBePickedByAnotherNode Inspect delNode w = Some (res, w') \<and>
    (case res of
       Inr nd \<Rightarrow> sn_Hostname nd \<noteq> sn_Hostname delNode \<and> sn_Pools nd \<noteq> [] \<and> sn_MgmtIp nd \<noteq> [] \<and>
         (\<exists>k. int (start_at T validateStoragePoolSizeInterval k w) < validateStoragePoolSizeTimeout \<and>
           fst (Inspect (sn_Id delNode) (world_at T k w)) = Inr nd)
     | Inl e \<Rightarrow> (\<exists>s. e = ErrTimedOut s) \<and>
         \<not> (\<exists>k. int (start_at T validateStoragePoolSizeInterval k w) < validateStoragePoolSizeTimeout \<and>
           id_moved Inspect delNode (world_at T k w)))"
proof (cases rule: picked_poll.poll_cases [of Inspect delNode w validateStoragePoolSizeTimeout,
      case_names found never])
  case (found k out)
  then obtain nd where "fst (Inspect (sn_Id delNode) (world_at T k w)) = Inr nd" "out = Some nd"
    using picked_result [OF found(2)] by (auto simp: outcome_def T_def)
  then show ?thesis
    using found by (auto simp: WaitForNodeIDToBePickedByAnotherNode_def T_def id_moved_def)
next
  case (never s w')
  then show ?thesis
    by (auto simp: WaitForNodeIDToBePickedByAnotherNode_def T_def)
qed

end
