(* ===== verification/PxMaintenance.thy ===== *)
theory PxMaintenance
  imports PxNodes
begin

text \<open>
  Operations of the Portworx driver (\<open>drivers/volume/portworx/portworx.go\<close>) that change the state
  of a node and wait for it: maintenance mode of a node and of its pools, the waits for Portworx to
  come up and to go down on a node, and the parsers of the pool listing of \<open>pxctl\<close>.

  The REST call, the node manager, the command runner and the scheduler are arguments over a world
  that changes; \<open>sleep\<close> lets time pass.
\<close>

section \<open>Statuses and times\<close>

fun Status_String :: "Status \<Rightarrow> string" where
  "Status_String STATUS_NONE = ''STATUS_NONE''"
| "Status_String STATUS_INIT = ''STATUS_INIT''"
| "Status_String STATUS_OK = ''STATUS_OK''"
| "Status_String STATUS_OFFLINE = ''STATUS_OFFLINE''"
| "Status_String STATUS_ERROR = ''STATUS_ERROR''"
| "Status_String STATUS_NOT_IN_QUORUM = ''STATUS_NOT_IN_QUORUM''"
| "Status_String STATUS_DECOMMISSION = ''STATUS_DECOMMISSION''"
| "Status_String STATUS_MAINTENANCE = ''STATUS_MAINTENANCE''"
| "Status_String STATUS_STORAGE_DOWN = ''STATUS_STORAGE_DOWN''"
| "Status_String STATUS_STORAGE_DEGRADED = ''STATUS_STORAGE_DEGRADED''"
| "Status_String STATUS_NEEDS_REBOOT = ''STATUS_NEEDS_REBOOT''"
| "Status_String STATUS_STORAGE_REBALANCE = ''STATUS_STORAGE_REBALANCE''"
| "Status_String STATUS_STORAGE_DRIVE_REPLACE = ''STATUS_STORAGE_DRIVE_REPLACE''"
| "Status_String STATUS_NOT_IN_QUORUM_NO_STORAGE = ''STATUS_NOT_IN_QUORUM_NO_STORAGE''"
| "Status_String STATUS_POOLMAINTENANCE = ''STATUS_POOLMAINTENANCE''"
| "Status_String STATUS_MAX = ''STATUS_MAX''"

definition minute_ns :: int where "minute_ns = 60 * second_ns"
definition defaultRetryInterval :: int where "defaultRetryInterval = 10 * second_ns"
definition podUpRetryInterval :: int where "podUpRetryInterval = 30 * second_ns"
definition maintenanceOpTimeout :: int where "maintenanceOpTimeout = 1 * minute_ns"
definition maintenanceWaitTimeout :: int where "maintenanceWaitTimeout = 10 * minute_ns"
definition validatePxPodsUpTimeout :: int where "validatePxPodsUpTimeout = 30 * minute_ns"
definition validateNodeStopTimeout :: int where "validateNodeStopTimeout = 5 * minute_ns"
definition waitDriverDownOnNodeRetryInterval :: int where
  "waitDriverDownOnNodeRetryInterval = 2 * second_ns"

lemmas wait_times = minute_ns_def second_ns_def defaultRetryInterval_def podUpRetryInterval_def
  maintenanceOpTimeout_def maintenanceWaitTimeout_def validatePxPodsUpTimeout_def
  validateNodeStopTimeout_def waitDriverDownOnNodeRetryInterval_def

section \<open>Maintenance of a node\<close>

type_synonym 'w rest_op = "Node \<Rightarrow> string \<Rightarrow> 'w \<Rightarrow> go_error option \<times> nat \<times> 'w"

type_synonym 'w driver_node = "Node \<Rightarrow> 'w \<Rightarrow> (go_error + api_StorageNode) \<times> nat \<times> 'w"

definition maintenance_task :: "'w rest_op \<Rightarrow> Node \<Rightarrow> string \<Rightarrow> ('w, unit) task_fn" where
  "maintenance_task maintenanceOp n path w = (case maintenanceOp n path w of
     (Some err, d, w') \<Rightarrow> (((), True, Some err), d, w')
   | (None, d, w') \<Rightarrow> (((), False, None), d, w'))"

definition status_task :: "'w driver_node \<Rightarrow> Node \<Rightarrow> Status \<Rightarrow> (Status \<Rightarrow> string) \<Rightarrow> ('w, unit) task_fn" where
  "status_task GetDriverNode n expected message w = (case GetDriverNode n w of
     (Inl err, d, w') \<Rightarrow> (((), True, Some err), d, w')
   | (Inr apiNode, d, w') \<Rightarrow>
       if sn_Status apiNode = expected then (((), False, None), d, w')
       else (((), True, Some (Errorf (message (sn_Status apiNode)))), d, w'))"

definition enter_message :: "Node \<Rightarrow> Status \<Rightarrow> string" where
  "enter_message n st = ''node ['' @ node_Name n @ ''], Current status: '' @ Status_String st @
     '', Expected: '' @ Status_String STATUS_MAINTENANCE"

definition exit_message :: "Node \<Rightarrow> Status \<Rightarrow> string" where
  "exit_message n st = ''Node ['' @ node_Name n @ ''] is not up after exiting Maintenance mode''"

definition EnterMaintenance ::
  "'w rest_op \<Rightarrow> 'w driver_node \<Rightarrow> (int \<Rightarrow> 'w \<Rightarrow> 'w) \<Rightarrow> Node \<Rightarrow> 'w \<Rightarrow> (go_error option \<times> 'w) option" where
  "EnterMaintenance maintenanceOp GetDriverNode sleep n w =
     (case DoRetryWithTimeout (maintenance_task maintenanceOp n ''/entermaintenance'')
             maintenanceOpTimeout defaultRetryInterval w of
        None \<Rightarrow> None
      | Some (Inl err, w1) \<Rightarrow> Some (Some err, w1)
      | Some (Inr _, w1) \<Rightarrow>
          (case DoRetryWithTimeout
                  (status_task GetDriverNode n STATUS_MAINTENANCE (enter_message n))
                  maintenanceWaitTimeout defaultRetryInterval (sleep (3 * minute_ns) w1) of
             None \<Rightarrow> None
           | Some (Inl err, w2) \<Rightarrow> Some (Some (PxErr (ErrFailedToEnterMaintenence n (Error_str err))), w2)
           | Some (Inr _, w2) \<Rightarrow> Some (None, w2)))"

definition ExitMaintenance ::
  "'w rest_op \<Rightarrow> 'w driver_node \<Rightarrow> Node \<Rightarrow> 'w \<Rightarrow> (go_error option \<times> 'w) option" where
  "ExitMaintenance maintenanceOp GetDriverNode n w =
     (case DoRetryWithTimeout (maintenance_task maintenanceOp n ''/exitmaintenance'')
             maintenanceOpTimeout defaultRetryInterval w of
        None \<Rightarrow> None
      | Some (Inl err, w1) \<Rightarrow> Some (Some err, w1)
      | Some (Inr _, w1) \<Rightarrow>
          (case DoRetryWithTimeout
                  (status_task GetDriverNode n STATUS_OK (exit_message n))
                  maintenanceWaitTimeout defaultRetryInterval w1 of
             None \<Rightarrow> None
           | Some (Inl err, w2) \<Rightarrow> Some (Some err, w2)
           | Some (Inr _, w2) \<Rightarrow> Some (None, w2)))"

definition IsNodeInMaintenance :: "'w driver_node \<Rightarrow> Node \<Rightarrow> 'w \<Rightarrow> (bool \<times> go_error option) \<times> 'w" where
  "IsNodeInMaintenance GetDriverNode n w = (case GetDriverNode n w of
     (Inl err, d, w') \<Rightarrow> ((False, Some err), w')
   | (Inr stNode, d, w') \<Rightarrow> ((sn_Status stNode = STATUS_MAINTENANCE, None), w'))"

definition IsNodeOutOfMaintenance :: "'w driver_node \<Rightarrow> Node \<Rightarrow> 'w \<Rightarrow> (bool \<times> go_error option) \<times> 'w" where
  "IsNodeOutOfMaintenance GetDriverNode n w = (case GetDriverNode n w of
     (Inl err, d, w') \<Rightarrow> ((False, Some err), w')
   | (Inr stNode, d, w') \<Rightarrow> ((sn_Status stNode = STATUS_OK, None), w'))"

section \<open>Maintenance of the pools\<close>

type_synonym 'w runner = "Node \<Rightarrow> string \<Rightarrow> 'w \<Rightarrow> (go_error + string) \<times> 'w"

definition EnterPoolMaintenance ::
  "'w runner \<Rightarrow> (int \<Rightarrow> 'w \<Rightarrow> 'w) \<Rightarrow> Node \<Rightarrow> 'w \<Rightarrow> go_error option \<times> 'w" where
  "EnterPoolMaintenance RunCommand sleep n w = (case RunCommand n ''pxctl sv pool maintenance -e -y'' w of
     (Inl err, w') \<Rightarrow> (Some (Errorf (''error when entering pool maintenance on node ['' @ node_Name n @
       ''], Err: '' @ Error_str err)), w')
   | (Inr out, w') \<Rightarrow> (None, sleep (3 * minute_ns) w'))"

definition ExitPoolMaintenance ::
  "'w runner \<Rightarrow> (Node \<Rightarrow> 'w \<Rightarrow> (go_error + string) \<times> 'w) \<Rightarrow> (int \<Rightarrow> 'w \<Rightarrow> 'w) \<Rightarrow> Node \<Rightarrow> 'w
     \<Rightarrow> go_error option \<times> 'w" where
  "ExitPoolMaintenance RunCommand GetPxctlStatus sleep n w = (case GetPxctlStatus n w of (st, w1) \<Rightarrow>
     if st = Inr (Status_String STATUS_OK) then (None, w1)
     else (case RunCommand n ''pxctl sv pool maintenance -x -y'' w1 of
         (Inl err, w') \<Rightarrow> (Some (Errorf (''error when exiting pool maintenance on node ['' @ node_Name n @
           ''], Err: '' @ Error_str err)), w')
       | (Inr out, w') \<Rightarrow> (None, sleep (3 * minute_ns) w')))"

definition RecoverPool where
  "RecoverPool RunCommand GetPxctlStatus sleep n w = (case EnterPoolMaintenance RunCommand sleep n w of
     (Some err, w1) \<Rightarrow> (Some err, w1)
   | (None, w1) \<Rightarrow>
       (case ExitPoolMaintenance RunCommand GetPxctlStatus sleep n (sleep (1 * minute_ns) w1) of
          (Some err, w2) \<Rightarrow> (Some err, w2)
        | (None, w2) \<Rightarrow> (None, w2)))"

section \<open>Waiting for Portworx on a node\<close>

definition px_ready_task ::
  "(Node \<Rightarrow> 'w \<Rightarrow> bool \<times> nat \<times> 'w) \<Rightarrow> Node \<Rightarrow> string \<Rightarrow> ('w, unit) task_fn" where
  "px_ready_task IsPXReadyOnNode n cause w = (case IsPXReadyOnNode n w of (ready, d, w') \<Rightarrow>
     if \<not> ready then (((), True, Some (PxErr (ErrFailedToWaitForPx n cause))), d, w')
     else (((), False, None), d, w'))"

definition WaitForPxPodsToBeUp ::
  "(Node \<Rightarrow> 'w \<Rightarrow> bool \<times> nat \<times> 'w) \<Rightarrow> Node \<Rightarrow> 'w \<Rightarrow> (go_error option \<times> 'w) option" where
  "WaitForPxPodsToBeUp IsPXReadyOnNode n w =
     (case DoRetryWithTimeout (px_ready_task IsPXReadyOnNode n
             (''px pod is not ready on node: '' @ node_Name n @ '' after 5m0s''))
             validatePxPodsUpTimeout podUpRetryInterval w of
        None \<Rightarrow> None
      | Some (Inl err, w') \<Rightarrow> Some (Some (Errorf (''PX pod failed to come up on node : ['' @ node_Name n @
          '']. Error: ['' @ Error_str err @ '']'')), w')
      | Some (Inr _, w') \<Rightarrow> Some (None, w'))"

text \<open>\<open>still_up\<close> is the test of one address: Portworx is down there when the connection is refused
  or times out.\<close>

definition still_up :: "go_error option \<Rightarrow> bool" where
  "still_up err =
     ((err = None \<or> \<not> Contains_str (Error_str (the err)) ''connect: connection refused'') \<and>
      (err = None \<or> \<not> Contains_str (Error_str (the err)) ''i/o timeout''))"

fun probe_addresses ::
  "(string \<Rightarrow> 'w \<Rightarrow> go_error option \<times> nat \<times> 'w) \<Rightarrow> Node \<Rightarrow> string list \<Rightarrow> 'w
     \<Rightarrow> (unit \<times> bool \<times> go_error option) \<times> nat \<times> 'w" where
  "probe_addresses probe n [] w = (((), False, None), 0, w)"
| "probe_addresses probe n (addr # addrs) w = (case probe addr w of (err, d, w') \<Rightarrow>
     if still_up err
     then (((), True, Some (PxErr (ErrFailedToWaitForPx n ''px is not yet down on node''))), d, w')
     else (case probe_addresses probe n addrs w' of (r, d', w'') \<Rightarrow> (r, d + d', w'')))"

definition WaitDriverDownOnNode ::
  "(string \<Rightarrow> 'w \<Rightarrow> go_error option \<times> nat \<times> 'w) \<Rightarrow> Node \<Rightarrow> 'w \<Rightarrow> (go_error option \<times> 'w) option" where
  "WaitDriverDownOnNode probe n w =
     (case DoRetryWithTimeout (probe_addresses probe n (Addresses n))
             validateNodeStopTimeout waitDriverDownOnNodeRetryInterval w of
        None \<Rightarrow> None
      | Some (Inl err, w') \<Rightarrow> Some (Some (Errorf (''failed to stop PX on node ['' @ node_Name n @
          ''], Err: '' @ Error_str err)), w')
      | Some (Inr _, w') \<Rightarrow> Some (None, w'))"

text \<open>The node is part of the state of the wait: an offline storageless node may get a new id.
  \<open>node_label\<close> is how the messages name it.\<close>

definition node_label :: "Node \<Rightarrow> string" where
  "node_label n = ''['' @ node_Name n @ ''/'' @ VolDriverNodeID n @ '']''"

definition not_ok_cause :: "string \<Rightarrow> Node \<Rightarrow> string \<Rightarrow> string \<Rightarrow> string" where
  "not_ok_cause before n between actual = before @ node_label n @ between @ '' Expected: '' @
     Status_String STATUS_OK @ '' Actual: '' @ actual"

definition px_up_task ::
  "(string \<Rightarrow> 'w \<Rightarrow> (go_error + api_StorageNode) \<times> nat \<times> 'w) \<Rightarrow> (Node \<Rightarrow> 'w \<Rightarrow> (go_error + string) \<times> nat \<times> 'w)
     \<Rightarrow> (Node \<Rightarrow> 'w \<Rightarrow> (Node \<times> go_error option) \<times> nat \<times> 'w) \<Rightarrow> (Node \<times> 'w, unit) task_fn" where
  "px_up_task Inspect GetPxctlStatus updateNodeID = (\<lambda>(n, w).
     (case Inspect (VolDriverNodeID n) w of
        (Inl err, d, w1) \<Rightarrow> (((), True, Some (PxErr (ErrFailedToWaitForPx n
          (''failed to get node info '' @ node_label n @ '', Err: '' @ Error_str err)))), d, (n, w1))
      | (Inr pxNode, d, w1) \<Rightarrow>
          (case sn_Status pxNode of
             STATUS_DECOMMISSION \<Rightarrow> (((), False, None), d, (n, w1))
           | STATUS_OK \<Rightarrow>
               (case GetPxctlStatus n w1 of
                  (Inl err, d2, w2) \<Rightarrow> (((), True, Some (PxErr (ErrFailedToWaitForPx n
                    (''failed to get pxctl status on node '' @ node_label n @ '', Err: '' @ Error_str err)))),
                    d + d2, (n, w2))
                | (Inr pxStatus, d2, w2) \<Rightarrow>
                    if pxStatus \<noteq> Status_String STATUS_OK
                    then (((), True, Some (PxErr (ErrFailedToWaitForPx n
                      (not_ok_cause ''node '' n '' status is up but PX cluster is not ok.'' pxStatus)))),
                      d + d2, (n, w2))
                    else (((), False, None), d + d2, (n, w2)))
           | STATUS_OFFLINE \<Rightarrow>
               (case (if length (sn_Pools pxNode) = 0 then updateNodeID n w1 else ((n, None), 0, w1)) of
                  ((n', Some err), d2, w2) \<Rightarrow> (((), True, Some (PxErr (ErrFailedToWaitForPx n'
                    (''failed to update node id '' @ node_label n' @ '', Err: '' @ Error_str err)))),
                    d + d2, (n', w2))
                | ((n', None), d2, w2) \<Rightarrow> (((), True, Some (PxErr (ErrFailedToWaitForPx n'
                    (not_ok_cause ''node '' n' '' status is up but PX cluster is not ok.''
                       (Status_String (sn_Status pxNode)))))), d + d2, (n', w2)))
           | st \<Rightarrow> (((), True, Some (PxErr (ErrFailedToWaitForPx n
               (not_ok_cause ''PX cluster is usable but node '' n '' status is not ok.''
                  (Status_String st))))), d, (n, w1)))))"

definition not_ready_cause :: "Node \<Rightarrow> string \<Rightarrow> string" where
  "not_ready_cause n fmt_timeout = ''PX pod is not ready on node '' @ node_label n @ '' after '' @ fmt_timeout"

definition WaitDriverUpOnNode where
  "WaitDriverUpOnNode Inspect GetPxctlStatus updateNodeID IsPXReadyOnNode n timeout fmt_timeout w =
     (case DoRetryWithTimeout (px_up_task Inspect GetPxctlStatus updateNodeID) timeout
             defaultRetryInterval (n, w) of
        None \<Rightarrow> None
      | Some (Inl err, (n', w1)) \<Rightarrow> Some (Some (Errorf (''PX failed to come up on node '' @ node_label n' @
          '', Err: '' @ Error_str err)), n', w1)
      | Some (Inr _, (n', w1)) \<Rightarrow>
          (case DoRetryWithTimeout (px_ready_task IsPXReadyOnNode n' (not_ready_cause n' fmt_timeout))
                  timeout defaultRetryInterval w1 of
             None \<Rightarrow> None
           | Some (Inl err, w2) \<Rightarrow> Some (Some (Errorf (''PX pod failed to come up on node '' @
               node_label n' @ '', Err: '' @ Error_str err)), n', w2)
           | Some (Inr _, w2) \<Rightarrow> Some (None, n', w2)))"

section \<open>The pool listings of pxctl\<close>

text \<open>The second field of a line at the colon, trimmed; \<open>None\<close> is the panic of the index.\<close>

definition second_field :: "string \<Rightarrow> string option" where
  "second_field line = (case Split line CHR '':'' of
     _ # x # _ \<Rightarrow> Some (Trim x '' '') | _ \<Rightarrow> None)"

fun parse_pools_status :: "string list \<Rightarrow> string \<Rightarrow> (string, string) gomap \<Rightarrow> (string, string) gomap option" where
  "parse_pools_status [] poolId poolsData = Some poolsData"
| "parse_pools_status (l # outLines) poolId poolsData =
     (let line = Trim l '' '' in
      case (if Contains_str line ''UUID'' then second_field line else Some poolId) of
        None \<Rightarrow> None
      | Some poolId \<Rightarrow>
          (case (if Contains_str line ''Status'' then second_field line else Some []) of
             None \<Rightarrow> None
           | Some status \<Rightarrow>
               if poolId \<noteq> [] \<and> status \<noteq> []
               then parse_pools_status outLines []
                      (if \<not> gm_has poolsData poolId then gm_put poolId status poolsData else poolsData)
               else parse_pools_status outLines poolId poolsData))"

text \<open>\<open>run\<close> is the result of running the \<open>pxctl\<close> command of the function on the node.\<close>

definition GetNodePoolsStatus :: "go_error + string \<Rightarrow> Node \<Rightarrow> (string, string) gomap result option" where
  "GetNodePoolsStatus run n = (case run of
     Inl err \<Rightarrow> Some (Inl (Errorf (''error getting pool status on node ['' @ node_Name n @ ''], Err: '' @
       Error_str err)))
   | Inr out \<Rightarrow> map_option Inr (parse_pools_status (Split out go_nl) [] []))"

fun parse_node_pools :: "string list \<Rightarrow> string \<Rightarrow> (string, string) gomap \<Rightarrow> (string, string) gomap option" where
  "parse_node_pools [] poolUUID poolsData = Some poolsData"
| "parse_node_pools (l # outLines) poolUUID poolsData =
     (let line = Trim l '' '' in
      case (if Contains_str line ''UUID'' then second_field line else Some poolUUID) of
        None \<Rightarrow> None
      | Some poolUUID \<Rightarrow>
          (case (if Contains_str line ''Pool'' then second_field line else Some []) of
             None \<Rightarrow> None
           | Some poolId \<Rightarrow>
               if poolId \<noteq> [] \<and> poolUUID \<noteq> []
               then parse_node_pools outLines []
                      (if \<not> gm_has poolsData poolUUID then gm_put poolUUID poolId poolsData else poolsData)
               else parse_node_pools outLines poolUUID poolsData))"

definition GetNodePools :: "go_error + string \<Rightarrow> Node \<Rightarrow> (string, string) gomap result option" where
  "GetNodePools run n = (case run of
     Inl err \<Rightarrow> Some (Inl (Errorf (''error getting pool info on node ['' @ node_Name n @ ''], Err: '' @
       Error_str err)))
   | Inr out \<Rightarrow> map_option Inr (parse_node_pools (Split out go_nl) [] []))"

section \<open>The waits as polls\<close>

interpretation maintenance_poll: poll_task "maintenance_task op n path" defaultRetryInterval
  "\<lambda>w. fst (op n path w) = None" for op n path
  by unfold_locales
     (auto simp: wait_times maintenance_task_def asks_retry_def final_result_def
       split: prod.splits option.splits)

interpretation status_poll: poll_task "status_task gdn n expected message" defaultRetryInterval
  "\<lambda>w. \<exists>nd. fst (gdn n w) = Inr nd \<and> sn_Status nd = expected" for gdn n expected message
  by unfold_locales
     (auto simp: wait_times status_task_def asks_retry_def final_result_def
       split: prod.splits sum.splits)

interpretation ready_poll: poll_task "px_ready_task ready n cause" defaultRetryInterval
  "\<lambda>w. fst (ready n w)" for ready n cause
  by unfold_locales
     (auto simp: wait_times px_ready_task_def asks_retry_def final_result_def split: prod.splits)

interpretation pods_poll: poll_task "px_ready_task ready n cause" podUpRetryInterval
  "\<lambda>w. fst (ready n w)" for ready n cause
  by unfold_locales
     (auto simp: wait_times px_ready_task_def asks_retry_def final_result_def split: prod.splits)

text \<open>When Portworx counts as up: the node is decommissioned, or both the node and \<open>pxctl\<close> say ok.\<close>

definition px_up where
  "px_up Inspect GetPxctlStatus = (\<lambda>(n, w). (case Inspect (VolDriverNodeID n) w of
     (Inl _, _, _) \<Rightarrow> False
   | (Inr nd, d, w1) \<Rightarrow> sn_Status nd = STATUS_DECOMMISSION \<or>
       sn_Status nd = STATUS_OK \<and> fst (GetPxctlStatus n w1) = Inr ''STATUS_OK''))"

interpretation up_poll: poll_task "px_up_task Inspect GetPxctlStatus updateNodeID" defaultRetryInterval
  "px_up Inspect GetPxctlStatus" for Inspect GetPxctlStatus updateNodeID
  by unfold_locales
     (auto simp: wait_times px_up_task_def px_up_def asks_retry_def final_result_def
       split: prod.splits sum.splits Status.splits option.splits if_splits)

fun all_down :: "(string \<Rightarrow> 'w \<Rightarrow> go_error option \<times> nat \<times> 'w) \<Rightarrow> string list \<Rightarrow> 'w \<Rightarrow> bool" where
  "all_down probe [] w = True"
| "all_down probe (a # as) w = (\<not> still_up (fst (probe a w)) \<and> all_down probe as (snd (snd (probe a w))))"

lemma probe_addresses_eq:
  "fst (probe_addresses probe n as w) =
     (if all_down probe as w then ((), False, None)
      else ((), True, Some (PxErr (ErrFailedToWaitForPx n ''px is not yet down on node''))))"
proof (induction as arbitrary: w)
  case (Cons a as)
  obtain e d w' where "probe a w = (e, d, w')" by (cases "probe a w")
  then show ?case
    using Cons.IH [of w'] by (cases "probe_addresses probe n as w'") simp
qed simp

interpretation down_poll: poll_task "probe_addresses probe n as" waitDriverDownOnNodeRetryInterval
  "all_down probe as" for probe n as
  by unfold_locales
     (auto simp: wait_times probe_addresses_eq asks_retry_def final_result_def)

section \<open>The listings as key and value lines\<close>

text \<open>Both parsers are one function of the word that marks the value.\<close>

fun parse_pairs :: "string \<Rightarrow> string list \<Rightarrow> string \<Rightarrow> (string, string) gomap \<Rightarrow> (string, string) gomap option" where
  "parse_pairs tag [] key m = Some m"
| "parse_pairs tag (l # ls) key m =
     (let line = Trim l '' '' in
      case (if Contains_str line ''UUID'' then second_field line else Some key) of
        None \<Rightarrow> None
      | Some key \<Rightarrow>
          (case (if Contains_str line tag then second_field line else Some []) of
             None \<Rightarrow> None
           | Some v \<Rightarrow>
               if key \<noteq> [] \<and> v \<noteq> []
               then parse_pairs tag ls [] (if \<not> gm_has m key then gm_put key v m else m)
               else parse_pairs tag ls key m))"

lemma parse_pools_status_pairs: "parse_pools_status ls key m = parse_pairs ''Status'' ls key m"
  by (induction ls arbitrary: key m) (auto simp: Let_def split: option.splits)

lemma parse_node_pools_pairs: "parse_node_pools ls key m = parse_pairs ''Pool'' ls key m"
  by (induction ls arbitrary: key m) (auto simp: Let_def conj_commute split: option.splits)

declare parse_pairs.simps(2) [simp del]

lemma Contains_skip: "x \<notin> set a \<Longrightarrow> Contains_str (a @ b) (x # xs) \<longleftrightarrow> Contains_str b (x # xs)"
  by (induction a) (auto simp: HasPrefix_iff_prefix)

text \<open>A line of a listing: a name, a colon, a space and the value.\<close>

definition pxctl_line :: "string \<Rightarrow> string \<Rightarrow> string" where
  "pxctl_line name v = name @ '': '' @ v"

definition field_ok :: "string \<Rightarrow> bool" where
  "field_ok v \<longleftrightarrow> v \<noteq> [] \<and> hd v \<noteq> CHR '' '' \<and> last v \<noteq> CHR '' '' \<and> CHR '':'' \<notin> set v \<and> go_nl \<notin> set v"

lemma second_field_line:
  assumes "field_ok v" and "CHR '':'' \<notin> set name" and "hd name \<noteq> CHR '' ''" and "name \<noteq> []"
  shows "Trim (name @ '': '' @ v) '' '' = name @ '': '' @ v"
    and "second_field (name @ '': '' @ v) = Some v"
proof -
  show "Trim (name @ '': '' @ v) '' '' = name @ '': '' @ v"
    using assms by (intro Trim_id) (auto simp: field_ok_def)
  have "Trim (CHR '' '' # v) '' '' = v"
    using Trim_pad [of "'' ''" "'' ''" v] Trim_id [of v "'' ''"] assms(1) by (simp add: field_ok_def)
  then show "second_field (name @ '': '' @ v) = Some v"
    using assms(1,2) by (simp add: second_field_def Split_word_sep Split_word field_ok_def)
qed

lemma parse_uuid_line:
  assumes "field_ok u" and "\<not> Contains_str u (t # ts)" and "t \<notin> set ''UUID: ''"
  shows "parse_pairs (t # ts) (pxctl_line ''UUID'' u # ls) key m = parse_pairs (t # ts) ls u m"
proof -
  have "\<not> Contains_str (''UUID: '' @ u) (t # ts)"
    using assms(2,3) Contains_skip by blast
  moreover have "Contains_str (''UUID: '' @ u) ''UUID''"
    by (simp add: HasPrefix_iff_prefix)
  ultimately show ?thesis
    using second_field_line [OF assms(1), of "''UUID''"] by (simp add: pxctl_line_def parse_pairs.simps(2) Let_def del: Contains_str.simps)
qed

lemma parse_value_line:
  assumes "field_ok v" and "\<not> Contains_str v ''UUID''" and "CHR ''U'' \<notin> set name"
    and "CHR '':'' \<notin> set name" and "hd name \<noteq> CHR '' ''" and "name \<noteq> []" and "Contains_str name tag"
  shows "parse_pairs tag (pxctl_line name v # ls) key m =
    (if key \<noteq> [] then parse_pairs tag ls [] (if \<not> gm_has m key then gm_put key v m else m)
     else parse_pairs tag ls [] m)"
proof -
  have "\<not> Contains_str (name @ '': '' @ v) ''UUID''"
    using assms(2,3) Contains_skip [of "CHR ''U''" "name @ '': ''" v "''UID''"] by simp
  moreover have "Contains_str (name @ '': '' @ v) tag"
    using assms(7) by (metis Contains_str_iff append.assoc)
  moreover have "v \<noteq> []" using assms(1) by (simp add: field_ok_def)
  ultimately show ?thesis
    using second_field_line [OF assms(1,4,5,6)] by (simp add: pxctl_line_def parse_pairs.simps(2) Let_def del: Contains_str.simps)
qed

lemma status_blocks:
  assumes "\<forall>(u, st, extra)\<in>set pools. field_ok u \<and> \<not> Contains_str u ''Status'' \<and>
      (\<forall>v\<in>set (st # extra). field_ok v \<and> \<not> Contains_str v ''UUID'')"
    and "distinct (map fst pools)" and "\<forall>u\<in>fst ` set pools. \<not> gm_has m u"
  shows "\<exists>m'. parse_pairs ''Status''
      (concat (map (\<lambda>(u, st, extra). pxctl_line ''UUID'' u # map (pxctl_line ''Status'') (st # extra)) pools)) [] m =
      Some m' \<and> map_of m' = map_of m ++ map_of (map (\<lambda>(u, st, extra). (u, st)) pools)"
  using assms
proof (induction pools arbitrary: m)
  case Nil
  then show ?case by simp
next
  case (Cons a pools)
  obtain u st extra where a: "a = (u, st, extra)" by (cases a)
  have ok: "field_ok u" "\<not> Contains_str u ''Status''" "\<forall>v\<in>set (st # extra). field_ok v \<and> \<not> Contains_str v ''UUID''"
    using Cons.prems(1) by (auto simp: a)
  have vline: "parse_pairs ''Status'' (pxctl_line ''Status'' v # ls) key m =
      (if key \<noteq> [] then parse_pairs ''Status'' ls [] (if \<not> gm_has m key then gm_put key v m else m)
       else parse_pairs ''Status'' ls [] m)" if "v \<in> set (st # extra)" for v ls key m
    using parse_value_line [of v "''Status''" "''Status''" ls key m] ok(3) that
    by (auto simp: HasPrefix_iff_prefix)
  have skip: "parse_pairs ''Status'' (map (pxctl_line ''Status'') ex @ ls) [] m = parse_pairs ''Status'' ls [] m"
    if "set ex \<subseteq> set (st # extra)" for ex ls m
    using that by (induction ex) (simp_all add: vline)
  have head: "parse_pairs ''Status'' (pxctl_line ''UUID'' u # map (pxctl_line ''Status'') (st # extra) @ ls) [] m =
      parse_pairs ''Status'' ls [] (gm_put u st m)" for ls
    using parse_uuid_line [OF ok(1,2)] ok(1) Cons.prems(3)
    by (simp add: vline skip a field_ok_def subset_insertI)
  have "\<forall>v\<in>fst ` set pools. \<not> gm_has (gm_put u st m) v" "distinct (map fst pools)"
    using Cons.prems(2,3) by (auto simp: a gm_has_def)
  moreover have "\<forall>(u, st, extra)\<in>set pools. field_ok u \<and> \<not> Contains_str u ''Status'' \<and>
      (\<forall>v\<in>set (st # extra). field_ok v \<and> \<not> Contains_str v ''UUID'')"
    using Cons.prems(1) by simp
  ultimately obtain m' where m': "parse_pairs ''Status'' (concat (map (\<lambda>(u, st, extra).
        pxctl_line ''UUID'' u # map (pxctl_line ''Status'') (st # extra)) pools)) [] (gm_put u st m) = Some m'"
    "map_of m' = map_of (gm_put u st m) ++ map_of (map (\<lambda>(u, st, extra). (u, st)) pools)"
    using Cons.IH by blast
  have "dom (map_of (map (\<lambda>(u, st, extra). (u, st)) pools)) = set (map fst pools)"
    by (force simp: dom_map_of_conv_image_fst)
  then have "u \<notin> dom (map_of (map (\<lambda>(u, st, extra). (u, st)) pools))"
    using Cons.prems(2) by (simp add: a)
  then have "map_of m' = map_of m ++ map_of (map (\<lambda>(u, st, extra). (u, st)) (a # pools))"
    unfolding m'(2) by (auto simp: a map_add_def fun_eq_iff dom_def split: option.splits)
  moreover have "parse_pairs ''Status'' (concat (map (\<lambda>(u, st, extra).
        pxctl_line ''UUID'' u # map (pxctl_line ''Status'') (st # extra)) (a # pools))) [] m = Some m'"
    using m'(1) head by (simp add: a)
  ultimately show ?case by blast
qed

lemma shifted_blocks:
  assumes "\<forall>(i, u)\<in>set pools. field_ok u \<and> \<not> Contains_str u ''Pool'' \<and> field_ok i \<and> \<not> Contains_str i ''UUID''"
    and "distinct (map snd pools)" and "key = [] \<or> \<not> gm_has m key \<and> key \<notin> set (map snd pools)"
    and "\<forall>u\<in>snd ` set pools. \<not> gm_has m u"
  shows "\<exists>m'. parse_pairs ''Pool''
      (concat (map (\<lambda>(i, u). [pxctl_line ''Pool ID'' i, pxctl_line ''UUID'' u]) pools)) key m = Some m' \<and>
    map_of m' = map_of m ++ map_of ((if key = [] then [] else zip [key] (map fst pools)) @
                                    zip (map snd pools) (map fst (tl pools)))"
  using assms
proof (induction pools arbitrary: key m)
  case Nil
  then show ?case by simp
next
  case (Cons a pools)
  obtain i u where a: "a = (i, u)" by (cases a)
  have ok: "field_ok u" "\<not> Contains_str u ''Pool''" "field_ok i" "\<not> Contains_str i ''UUID''"
    using Cons.prems(1) by (auto simp: a)
  define m1 where "m1 = (if key \<noteq> [] then gm_put key i m else m)"
  have head: "parse_pairs ''Pool'' (pxctl_line ''Pool ID'' i # pxctl_line ''UUID'' u # ls) key m =
      parse_pairs ''Pool'' ls u m1" for ls
    using parse_value_line [OF ok(3,4), of "''Pool ID''" "''Pool''" "pxctl_line ''UUID'' u # ls" key m]
      parse_uuid_line [OF ok(1,2)] Cons.prems(3)
    by (auto simp: HasPrefix_iff_prefix m1_def)
  have "u \<noteq> []" using ok(1) by (simp add: field_ok_def)
  have fresh: "\<not> gm_has m1 u" "u \<notin> set (map snd pools)" "\<forall>v\<in>snd ` set pools. \<not> gm_has m1 v"
    using Cons.prems(2-4) by (auto simp: a m1_def gm_has_def)
  obtain m' where "parse_pairs ''Pool''
      (concat (map (\<lambda>(i, u). [pxctl_line ''Pool ID'' i, pxctl_line ''UUID'' u]) pools)) u m1 = Some m'"
    "map_of m' = map_of m1 ++ map_of (zip [u] (map fst pools) @ zip (map snd pools) (map fst (tl pools)))"
    using Cons.IH [of u m1] Cons.prems(1,2) fresh \<open>u \<noteq> []\<close> by auto
  moreover have "zip [u] (map fst pools) @ zip (map snd pools) (map fst (tl pools)) =
      zip (map snd (a # pools)) (map fst pools)"
    by (cases pools) (simp_all add: a)
  moreover have "map_of m1 ++ map_of (zip (map snd (a # pools)) (map fst pools)) =
      map_of m ++ map_of ((if key = [] then [] else [(key, i)]) @ zip (map snd (a # pools)) (map fst pools))"
  proof -
    have "key \<notin> dom (map_of (zip (map snd (a # pools)) (map fst pools)))" if "key \<noteq> []"
      using Cons.prems(3) that by (auto simp: dom_map_of_conv_image_fst dest!: set_zip_leftD)
    then show ?thesis
      by (auto simp: m1_def map_add_upd_left)
  qed
  ultimately show ?case
    by (auto simp: a head)
qed

section \<open>Properties\<close>

text \<open>C37: \<open>GetNodePoolsStatus\<close> reads back the status of every pool from a listing that has, for each
  pool, the UUID line followed by its status line and any number of further status lines: the first
  status counts, and the result is exactly the map from UUID to status.\<close>

theorem pools_status_roundtrip:
  assumes "pools \<noteq> []" and "distinct (map fst pools)"
    and "\<forall>(u, st, extra)\<in>set pools. field_ok u \<and> \<not> Contains_str u ''Status'' \<and>
      (\<forall>v\<in>set (st # extra). field_ok v \<and> \<not> Contains_str v ''UUID'')"
  shows "\<exists>m. GetNodePoolsStatus (Inr (Join (concat (map (\<lambda>(u, st, extra).
        (''UUID: '' @ u) # map (\<lambda>v. ''Status: '' @ v) (st # extra)) pools)) [go_nl])) n = Some (Inr m) \<and>
    map_of m = map_of (map (\<lambda>(u, st, extra). (u, st)) pools)"
proof -
  let ?ls = "concat (map (\<lambda>(u, st, extra). pxctl_line ''UUID'' u # map (pxctl_line ''Status'') (st # extra)) pools)"
  have "?ls \<noteq> []" using assms(1) by (cases pools) auto
  moreover have "\<forall>l\<in>set ?ls. go_nl \<notin> set l"
    using assms(3) by (auto simp: pxctl_line_def field_ok_def go_nl_def)
  ultimately have split: "Split (Join ?ls [go_nl]) go_nl = ?ls"
    by (rule Split_Join)
  have lines: "concat (map (\<lambda>(u, st, extra). (''UUID: '' @ u) # map (\<lambda>v. ''Status: '' @ v) (st # extra)) pools) = ?ls"
    by (simp add: pxctl_line_def [abs_def])
  obtain m where "parse_pairs ''Status'' ?ls [] [] = Some m"
    "map_of m = map_of (map (\<lambda>(u, st, extra). (u, st)) pools)"
    using status_blocks [OF assms(3,2), of "[]"] by (auto simp: gm_has_def)
  then show ?thesis
    unfolding lines GetNodePoolsStatus_def sum.case split by (simp add: parse_pools_status_pairs)
qed

theorem pools_status_roundtrip_witness:
  "\<exists>m. GetNodePoolsStatus (Inr (''UUID: ab-1'' @ [go_nl] @ ''Status: Online'' @ [go_nl] @ ''Status: done'')) zero_Node =
     Some (Inr m) \<and> map_of m = [''ab-1'' \<mapsto> ''Online'']"
  using pools_status_roundtrip [of "[(''ab-1'', ''Online'', [''done''])]" zero_Node]
  by (simp add: field_ok_def go_nl_def HasPrefix_iff_prefix)

text \<open>\<open>GetNodePools\<close> pairs each UUID with the pool id on the next line that has one. On a listing
  that prints the id of a pool before its UUID every UUID therefore gets the id of the pool after it,
  and the last pool is missing from the result.\<close>

theorem node_pools_shifted:
  assumes "pools \<noteq> []" and "distinct (map snd pools)"
    and "\<forall>(i, u)\<in>set pools. field_ok u \<and> \<not> Contains_str u ''Pool'' \<and> field_ok i \<and> \<not> Contains_str i ''UUID''"
  shows "\<exists>m. GetNodePools (Inr (Join (concat (map (\<lambda>(i, u).
        [''Pool ID: '' @ i, ''UUID: '' @ u]) pools)) [go_nl])) n = Some (Inr m) \<and>
    map_of m = map_of (zip (map snd pools) (map fst (tl pools)))"
proof -
  let ?ls = "concat (map (\<lambda>(i, u). [pxctl_line ''Pool ID'' i, pxctl_line ''UUID'' u]) pools)"
  have "?ls \<noteq> []" using assms(1) by (cases pools) auto
  moreover have "\<forall>l\<in>set ?ls. go_nl \<notin> set l"
    using assms(3) by (auto simp: pxctl_line_def field_ok_def go_nl_def)
  ultimately have split: "Split (Join ?ls [go_nl]) go_nl = ?ls"
    by (rule Split_Join)
  have lines: "concat (map (\<lambda>(i, u). [''Pool ID: '' @ i, ''UUID: '' @ u]) pools) = ?ls"
    by (simp add: pxctl_line_def [abs_def])
  obtain m where "parse_pairs ''Pool'' ?ls [] [] = Some m"
    "map_of m = map_of (zip (map snd pools) (map fst (tl pools)))"
    using shifted_blocks [OF assms(3,2), of "[]" "[]"] by (auto simp: gm_has_def)
  then show ?thesis
    unfolding lines GetNodePools_def sum.case split by (simp add: parse_node_pools_pairs)
qed

theorem node_pools_shifted_witness:
  "\<exists>m. GetNodePools (Inr (''Pool ID: 0'' @ [go_nl] @ ''UUID: a'' @ [go_nl] @ ''Pool ID: 1'' @ [go_nl] @
     ''UUID: b'')) zero_Node = Some (Inr m) \<and> map_of m = [''a'' \<mapsto> ''1'']"
  using node_pools_shifted [of "[(''0'', ''a''), (''1'', ''b'')]" zero_Node]
  by (simp add: field_ok_def go_nl_def HasPrefix_iff_prefix)


text \<open>The waits for Portworx always return. The wait for it to go down succeeds exactly when, at a
  poll in time, the connection to every address of the node is refused or times out. The wait for it
  to come up fails unless a poll in time finds it up, which includes a decommissioned node, and then a
  poll in time finds its pod ready; the node may have got a new id in between.\<close>

theorem wait_driver_correct:
  fixes Inspect :: "string \<Rightarrow> 'w \<Rightarrow> (go_error + api_StorageNode) \<times> nat \<times> 'w"
    and pxctl :: "Node \<Rightarrow> 'w \<Rightarrow> (go_error + string) \<times> nat \<times> 'w"
    and updateID :: "Node \<Rightarrow> 'w \<Rightarrow> (Node \<times> go_error option) \<times> nat \<times> 'w"
    and ready :: "Node \<Rightarrow> 'w \<Rightarrow> bool \<times> nat \<times> 'w" and probe :: "string \<Rightarrow> 'w \<Rightarrow> go_error option \<times> nat \<times> 'w"
    and n :: Node and w :: 'w and fmt :: string
  defines "T \<equiv> px_up_task Inspect pxctl updateID" and "D \<equiv> probe_addresses probe n (Addresses n)"
    and "R \<equiv> \<lambda>m. px_ready_task ready m (not_ready_cause m fmt)"
  shows "(\<exists>e w'. WaitDriverDownOnNode probe n w = Some (e, w') \<and>
      (e = None \<longleftrightarrow> (\<exists>k. int (start_at D waitDriverDownOnNodeRetryInterval k w) < validateNodeStopTimeout \<and>
        all_down probe (Addresses n) (world_at D k w)))) \<and>
    (\<exists>e n' w'. WaitDriverUpOnNode Inspect pxctl updateID ready n timeout fmt w = Some (e, n', w') \<and>
      (case e of Some err \<Rightarrow> \<exists>msg. err = Errorf msg | None \<Rightarrow> (\<exists>k. int (start_at T defaultRetryInterval k (n, w)) < timeout \<and>
        px_up Inspect pxctl (world_at T k (n, w)) \<and> n' = fst (world_at T (Suc k) (n, w)) \<and>
        (\<exists>j. int (start_at (R n') defaultRetryInterval j (snd (world_at T (Suc k) (n, w)))) < timeout \<and>
           fst (ready n' (world_at (R n') j (snd (world_at T (Suc k) (n, w)))))))))"
proof
  show "\<exists>e w'. WaitDriverDownOnNode probe n w = Some (e, w') \<and>
      (e = None \<longleftrightarrow> (\<exists>k. int (start_at D waitDriverDownOnNodeRetryInterval k w) < validateNodeStopTimeout \<and>
        all_down probe (Addresses n) (world_at D k w)))"
    using down_poll.poll_returns [of probe n "Addresses n" validateNodeStopTimeout w]
    by (auto simp: WaitDriverDownOnNode_def D_def split: sum.splits)
next
  show "\<exists>e n' w'. WaitDriverUpOnNode Inspect pxctl updateID ready n timeout fmt w = Some (e, n', w') \<and>
      (case e of Some err \<Rightarrow> \<exists>msg. err = Errorf msg | None \<Rightarrow> (\<exists>k. int (start_at T defaultRetryInterval k (n, w)) < timeout \<and>
        px_up Inspect pxctl (world_at T k (n, w)) \<and> n' = fst (world_at T (Suc k) (n, w)) \<and>
        (\<exists>j. int (start_at (R n') defaultRetryInterval j (snd (world_at T (Suc k) (n, w)))) < timeout \<and>
           fst (ready n' (world_at (R n') j (snd (world_at T (Suc k) (n, w))))))))"
  proof (cases rule: up_poll.poll_cases [of Inspect pxctl updateID "(n, w)" timeout, folded T_def,
        case_names found never])
    case (never s w')
    then show ?thesis
      by (cases w') (simp add: WaitDriverUpOnNode_def T_def [symmetric])
  next
    case (found k out)
    obtain n' w1 where nw: "world_at T (Suc k) (n, w) = (n', w1)" by fastforce
    show ?thesis
    proof (cases rule: ready_poll.poll_cases [of ready n' "not_ready_cause n' fmt" w1 timeout,
          case_names pod no_pod])
      case (pod j out2)
      then have "WaitDriverUpOnNode Inspect pxctl updateID ready n timeout fmt w =
          Some (None, n', world_at (R n') (Suc j) w1)"
        using found(4) by (simp add: WaitDriverUpOnNode_def T_def [symmetric] R_def nw del: world_at.simps)
      moreover have "fst (world_at T (Suc k) (n, w)) = n'" "snd (world_at T (Suc k) (n, w)) = w1"
        by (simp_all only: nw fst_conv snd_conv)
      ultimately show ?thesis
        using found(1,2) pod(1,2) unfolding R_def
        by (intro exI [of _ None] exI [of _ n'] exI conjI) (assumption | simp only: option.case, blast)+
    next
      case (no_pod s w')
      then show ?thesis
        using found(4) by (simp add: WaitDriverUpOnNode_def T_def [symmetric] nw del: world_at.simps)
    qed
  qed
qed

end
