(* ===== verification/PxReplication.thy ===== *)
theory PxReplication
  imports PxMaintenance
begin

text \<open>
  The replication factor of a volume in the Portworx driver
  (\<open>drivers/volume/portworx/portworx.go\<close>): reading it, setting it and waiting for the replica sets
  to have their final size, and the aggregation level.

  The volume service is two arguments over a changing world: \<open>Inspect\<close> returns the volume or an
  error, \<open>Update\<close> requests a change. Whether a gRPC error has the code \<open>NotFound\<close> is the argument
  \<open>status_not_found\<close>.
\<close>

section \<open>Volumes\<close>

record api_Volume =
  vol_Id :: string
  vol_HaLevel :: int
  vol_AggregationLevel :: "32 word"
  vol_ReplicaSets :: "string list list"
  vol_RuntimeState :: "(string, string) gomap list"

fun isClean_states :: "(string, string) gomap list \<Rightarrow> bool" where
  "isClean_states [] = True"
| "isClean_states (v # vs) = (if gm_index [] v ''RuntimeState'' \<noteq> ''clean'' then False else isClean_states vs)"

definition isClean :: "api_Volume \<Rightarrow> bool" where
  "isClean vol = isClean_states (vol_RuntimeState vol)"

fun repl_sets_final :: "string list list \<Rightarrow> int \<Rightarrow> bool" where
  "repl_sets_final [] replFactor = True"
| "repl_sets_final (rs # rss) replFactor =
     (if int (length rs) \<noteq> replFactor then False else repl_sets_final rss replFactor)"

definition areRepSetsFinal :: "api_Volume \<Rightarrow> int \<Rightarrow> bool" where
  "areRepSetsFinal vol replFactor = repl_sets_final (vol_ReplicaSets vol) replFactor"

definition errIsNotFound :: "(go_error \<Rightarrow> bool) \<Rightarrow> go_error \<Rightarrow> bool" where
  "errIsNotFound status_not_found err =
     (status_not_found err \<or> Contains_str (Error_str err) ''code = NotFound'')"

type_synonym 'w inspect = "string \<Rightarrow> 'w \<Rightarrow> (go_error + api_Volume) \<times> nat \<times> 'w"

section \<open>Waiting for the replica sets\<close>

definition validateReplicationUpdateTimeout :: int where
  "validateReplicationUpdateTimeout = 60 * minute_ns"

text \<open>\<open>now\<close> is the time since the timer was started. The loop ends with the volume it saw last, or
  with the error of an inspection.\<close>

function repl_loop ::
  "'w inspect \<Rightarrow> string \<Rightarrow> int \<Rightarrow> int \<Rightarrow> nat \<Rightarrow> api_Volume \<Rightarrow> 'w \<Rightarrow> (go_error + api_Volume) \<times> nat \<times> 'w" where
  "repl_loop Inspect volumeName replFactor timeout now vol w =
     (if areRepSetsFinal vol replFactor \<and> isClean vol then (Inr vol, now, w)
      else if timeout \<le> int now then (Inr vol, now, w)
      else (case Inspect volumeName w of
              (Inl err, d, w') \<Rightarrow> (Inl err, now + d, w')
            | (Inr vol', d, w') \<Rightarrow>
                repl_loop Inspect volumeName replFactor timeout (now + d + nat defaultRetryInterval) vol' w'))"
  by pat_completeness auto

termination
  by (relation "measure (\<lambda>(i, v, f, timeout, now, vol, w). nat (timeout - int now))")
     (auto simp: wait_times)

declare repl_loop.simps [simp del]

definition WaitForReplicationToComplete ::
  "'w inspect \<Rightarrow> string \<Rightarrow> int \<Rightarrow> int \<Rightarrow> 'w \<Rightarrow> go_error option \<times> nat \<times> 'w" where
  "WaitForReplicationToComplete Inspect volumeName replFactor timeout w =
     (case Inspect volumeName w of
        (Inl err, d, w1) \<Rightarrow> (Some err, d, w1)
      | (Inr vol, d, w1) \<Rightarrow>
          (case repl_loop Inspect volumeName replFactor timeout 0 vol w1 of
             (Inl err, d', w2) \<Rightarrow> (Some err, d + d', w2)
           | (Inr vol', d', w2) \<Rightarrow>
               if \<not> (areRepSetsFinal vol' replFactor \<and> isClean vol')
               then (Some (Errorf (''volume didn't successfully change to replication factor of '' @
                      show_int replFactor)), d + d', w2)
               else (None, d + d', w2)))"

section \<open>Setting and getting the factor\<close>

record repl_update =
  upd_VolumeId :: string
  upd_HaLevel :: int
  upd_SnapshotInterval :: "32 word"
  upd_Nodes :: "string list"
  upd_PoolUuids :: "string list"

type_synonym 'w update = "repl_update \<Rightarrow> 'w \<Rightarrow> go_error option \<times> nat \<times> 'w"

definition set_repl_task ::
  "'w inspect \<Rightarrow> 'w update \<Rightarrow> (go_error \<Rightarrow> bool) \<Rightarrow> string \<Rightarrow> int \<Rightarrow> string list
     \<Rightarrow> string list \<Rightarrow> bool \<Rightarrow> int \<Rightarrow> ('w, unit) task_fn" where
  "set_repl_task Inspect Update snf volumeName replFactor nodesToBeUpdated poolsToBeUpdated
       waitForUpdateToFinish timeout w =
     (case Inspect volumeName w of
        (Inl err, d, w1) \<Rightarrow> if errIsNotFound snf err then (((), False, Some err), d, w1)
                            else (((), True, Some err), d, w1)
      | (Inr vol, d, w1) \<Rightarrow>
          (case Update \<lparr>upd_VolumeId = vol_Id vol, upd_HaLevel = replFactor, upd_SnapshotInterval = 4294967295,
                  upd_Nodes = nodesToBeUpdated, upd_PoolUuids = poolsToBeUpdated\<rparr> w1 of
             (Some err, d1, w2) \<Rightarrow> (((), False, Some err), d + d1, w2)
           | (None, d1, w2) \<Rightarrow>
               if \<not> waitForUpdateToFinish then (((), False, None), d + d1, w2)
               else (case WaitForReplicationToComplete Inspect volumeName replFactor timeout w2 of
                   (Some err, d2, w3) \<Rightarrow>
                     if errIsNotFound snf err then (((), False, Some err), d + d1 + d2, w3)
                     else (((), True, Some err), d + d1 + d2, w3)
                 | (None, d2, w3) \<Rightarrow> (((), False, None), d + d1 + d2, w3))))"

definition SetReplicationFactor where
  "SetReplicationFactor Inspect Update snf volumeName replFactor nodesToBeUpdated
       poolsToBeUpdated waitForUpdateToFinish opts w =
     (let timeout = (if opts \<noteq> [] then hd opts else validateReplicationUpdateTimeout) in
      case DoRetryWithTimeout (set_repl_task Inspect Update snf volumeName replFactor
             nodesToBeUpdated poolsToBeUpdated waitForUpdateToFinish timeout)
             timeout defaultRetryInterval w of
        None \<Rightarrow> None
      | Some (Inl err, w') \<Rightarrow>
          Some (Some (PxErr (ErrFailedToSetReplicationFactor volumeName (Error_str err))), w')
      | Some (Inr _, w') \<Rightarrow> Some (None, w'))"

definition inspect_task :: "'w inspect \<Rightarrow> (go_error \<Rightarrow> bool) \<Rightarrow> string \<Rightarrow> (api_Volume \<Rightarrow> 'a) \<Rightarrow> 'a \<Rightarrow> ('w, 'a) task_fn" where
  "inspect_task Inspect snf volumeName field zero w = (case Inspect volumeName w of
     (Inl err, d, w') \<Rightarrow> if errIsNotFound snf err then ((zero, False, Some err), d, w')
                         else ((zero, True, Some err), d, w')
   | (Inr vol, d, w') \<Rightarrow> ((field vol, False, None), d, w'))"

definition GetReplicationFactor ::
  "'w inspect \<Rightarrow> (go_error \<Rightarrow> bool) \<Rightarrow> string \<Rightarrow> 'w \<Rightarrow> ((go_error + int) \<times> 'w) option" where
  "GetReplicationFactor Inspect snf name w =
     (case DoRetryWithTimeout (inspect_task Inspect snf name vol_HaLevel 0)
             validateReplicationUpdateTimeout defaultRetryInterval w of
        None \<Rightarrow> None
      | Some (Inl err, w') \<Rightarrow> Some (Inl (PxErr (ErrFailedToGetReplicationFactor name (Error_str err))), w')
      | Some (Inr replFactor, w') \<Rightarrow> Some (Inr replFactor, w'))"

definition inspectVolumeTimeout :: int where "inspectVolumeTimeout = 2 * minute_ns"
definition inspectVolumeRetryInterval :: int where "inspectVolumeRetryInterval = 3 * second_ns"

definition GetAggregationLevel ::
  "'w inspect \<Rightarrow> (go_error \<Rightarrow> bool) \<Rightarrow> string \<Rightarrow> 'w \<Rightarrow> ((go_error + int) \<times> 'w) option" where
  "GetAggregationLevel Inspect snf name w =
     (case DoRetryWithTimeout (inspect_task Inspect snf name vol_AggregationLevel 0)
             inspectVolumeTimeout inspectVolumeRetryInterval w of
        None \<Rightarrow> None
      | Some (Inl err, w') \<Rightarrow> Some (Inl (PxErr (ErrFailedToGetAggregationLevel name (Error_str err))), w')
      | Some (Inr aggrLevel, w') \<Rightarrow> Some (Inr (uint aggrLevel), w'))"

section \<open>Lemmas\<close>

lemma isClean_iff: "isClean vol \<longleftrightarrow> (\<forall>v\<in>set (vol_RuntimeState vol). gm_index [] v ''RuntimeState'' = ''clean'')"
proof -
  have "isClean_states vs \<longleftrightarrow> (\<forall>v\<in>set vs. gm_index [] v ''RuntimeState'' = ''clean'')" for vs
    by (induction vs) auto
  then show ?thesis by (simp add: isClean_def)
qed

lemma areRepSetsFinal_iff:
  "areRepSetsFinal vol f \<longleftrightarrow> (\<forall>rs\<in>set (vol_ReplicaSets vol). int (length rs) = f)"
proof -
  have "repl_sets_final rss f \<longleftrightarrow> (\<forall>rs\<in>set rss. int (length rs) = f)" for rss
    by (induction rss) auto
  then show ?thesis by (simp add: areRepSetsFinal_def)
qed

definition repl_done :: "int \<Rightarrow> api_Volume \<Rightarrow> bool" where
  "repl_done f vol \<longleftrightarrow> areRepSetsFinal vol f \<and> isClean vol"

text \<open>The inspections of the loop, one after another: the world before the \<open>k\<close>th and the time it
  starts at.\<close>

fun inspect_at :: "'w inspect \<Rightarrow> string \<Rightarrow> nat \<Rightarrow> nat \<Rightarrow> 'w \<Rightarrow> nat \<times> 'w" where
  "inspect_at Inspect v 0 now w = (now, w)"
| "inspect_at Inspect v (Suc k) now w =
     (case Inspect v w of (_, d, w') \<Rightarrow> inspect_at Inspect v k (now + d + nat defaultRetryInterval) w')"

definition seen_at :: "'w inspect \<Rightarrow> string \<Rightarrow> nat \<Rightarrow> 'w \<Rightarrow> go_error + api_Volume" where
  "seen_at Inspect v k w = fst (Inspect v (snd (inspect_at Inspect v k 0 w)))"

lemma inspect_at_shift: "snd (inspect_at Inspect v k now w) = snd (inspect_at Inspect v k now' w)"
  by (induction k arbitrary: now now' w) (auto split: prod.splits)

lemma repl_loop_result:
  "case fst (repl_loop Inspect v f timeout now vol w) of
     Inr vol' \<Rightarrow> repl_done f vol' \<and> (vol' = vol \<or> (\<exists>k. seen_at Inspect v k w = Inr vol')) \<or>
       (\<not> repl_done f vol' \<and> timeout \<le> int (fst (snd (repl_loop Inspect v f timeout now vol w))))
   | Inl e \<Rightarrow> \<exists>k. seen_at Inspect v k w = Inl e"
proof (induction Inspect v f timeout now vol w rule: repl_loop.induct)
  case (1 Inspect v f timeout now vol w)
  show ?case
  proof (cases "repl_done f vol \<or> timeout \<le> int now")
    case True
    then show ?thesis
      by (subst (1 2) repl_loop.simps) (auto simp: repl_done_def)
  next
    case False
    then have stop: "\<not> (areRepSetsFinal vol f \<and> isClean vol)" "\<not> timeout \<le> int now"
      by (simp_all add: repl_done_def)
    obtain r d w' where i: "Inspect v w = (r, d, w')" by (cases "Inspect v w")
    have later: "seen_at Inspect v (Suc k) w = seen_at Inspect v k w'" for k
      using inspect_at_shift [of Inspect v k 0 w'] by (simp add: seen_at_def i) metis
    have now: "seen_at Inspect v 0 w = r" by (simp add: seen_at_def i)
    show ?thesis
    proof (cases r)
      case (Inl e)
      then show ?thesis using stop i now by (subst repl_loop.simps) auto
    next
      case (Inr vol')
      have "repl_loop Inspect v f timeout now vol w =
          repl_loop Inspect v f timeout (now + d + nat defaultRetryInterval) vol' w'"
        using stop i Inr by (subst repl_loop.simps) auto
      then show ?thesis
        using "1" [OF stop i [symmetric] Inr refl] later now Inr
        by (auto split: sum.splits) metis+
    qed
  qed
qed

lemma seen_at_Suc: "Inspect v w = (r, d, w') \<Longrightarrow> seen_at Inspect v (Suc k) w = seen_at Inspect v k w'"
  using inspect_at_shift [of Inspect v k 0 w'] by (simp add: seen_at_def) metis

lemma wait_replication_result:
  "case fst (WaitForReplicationToComplete Inspect v f timeout w) of
     None \<Rightarrow> \<exists>k vol. seen_at Inspect v k w = Inr vol \<and> repl_done f vol
   | Some e \<Rightarrow> (\<exists>k. seen_at Inspect v k w = Inl e) \<or>
       (e = Errorf (''volume didn't successfully change to replication factor of '' @ show_int f) \<and>
        timeout \<le> int (fst (snd (WaitForReplicationToComplete Inspect v f timeout w))))"
proof -
  obtain r d w1 where i: "Inspect v w = (r, d, w1)" by (cases "Inspect v w")
  have now: "seen_at Inspect v 0 w = r" by (simp add: seen_at_def i)
  note later = seen_at_Suc [where Inspect = Inspect and v = v and w = w, OF i, symmetric]
  show ?thesis
  proof (cases r)
    case (Inl e)
    then show ?thesis using now by (auto simp: WaitForReplicationToComplete_def i)
  next
    case (Inr vol)
    obtain r' d' w2 where l: "repl_loop Inspect v f timeout 0 vol w1 = (r', d', w2)"
      by (cases "repl_loop Inspect v f timeout 0 vol w1")
    show ?thesis
    proof (cases r')
      case (Inl e)
      then show ?thesis
        using repl_loop_result [where Inspect = Inspect and v = v and f = f and timeout = timeout and
            now = 0 and vol = vol and w = w1] Inr
        by (auto simp: WaitForReplicationToComplete_def i l later)
    next
      case (Inr vol')
      then show ?thesis
        using repl_loop_result [where Inspect = Inspect and v = v and f = f and timeout = timeout and
            now = 0 and vol = vol and w = w1] \<open>r = Inr vol\<close> now
        by (auto simp: WaitForReplicationToComplete_def i l later repl_done_def)
    qed
  qed
qed

lemma set_repl_success:
  assumes "final_result (fst (set_repl_task Inspect Update snf v f ns ps True timeout w)) = Inr ()"
  shows "\<exists>vol d w1 d1 x. Inspect v w = (Inr vol, d, w1) \<and>
    Update \<lparr>upd_VolumeId = vol_Id vol, upd_HaLevel = f, upd_SnapshotInterval = 4294967295, upd_Nodes = ns, upd_PoolUuids = ps\<rparr> w1 = (None, d1, x) \<and>
    fst (WaitForReplicationToComplete Inspect v f timeout x) = None"
  using assms
  by (auto simp: set_repl_task_def final_result_def split: prod.splits sum.splits option.splits if_splits)

section \<open>Properties\<close>

text \<open>C38: The wait for the replication always ends. Without an error an inspection saw every replica set
  with as many nodes as the factor and a clean runtime state; otherwise the error is that of an
  inspection, or the volume did not change and the timeout has passed.\<close>

theorem wait_replication_correct:
  "case fst (WaitForReplicationToComplete Inspect volumeName replFactor timeout w) of
     None \<Rightarrow> (\<exists>k vol. seen_at Inspect volumeName k w = Inr vol \<and>
       list_all (\<lambda>rs. int (length rs) = replFactor) (vol_ReplicaSets vol) \<and>
       list_all (\<lambda>st. gm_index [] st ''RuntimeState'' = ''clean'') (vol_RuntimeState vol))
   | Some e \<Rightarrow> (\<exists>k. seen_at Inspect volumeName k w = Inl e) \<or>
       (e = Errorf (''volume didn't successfully change to replication factor of '' @ show_int replFactor) \<and>
        timeout \<le> int (fst (snd (WaitForReplicationToComplete Inspect volumeName replFactor timeout w))))"
  using wait_replication_result [where Inspect = Inspect and v = volumeName and f = replFactor and
      timeout = timeout and w = w]
  by (auto split: option.splits simp: repl_done_def isClean_iff areRepSetsFinal_iff list_all_iff)

text \<open>\<open>SetReplicationFactor\<close> always returns. When it waits and returns no error, a try that started
  in time had its update accepted, and afterwards an inspection saw every replica set at the new size
  and a clean runtime state. Every error it returns is the failure to set the factor of this volume.\<close>

theorem set_replication_correct:
  fixes Inspect :: "'w inspect" and Update :: "'w update" and opts :: "int list" and snf replFactor ns ps
    and volumeName :: string and w :: 'w
  defines "timeout \<equiv> if opts \<noteq> [] then hd opts else validateReplicationUpdateTimeout"
  defines "T \<equiv> set_repl_task Inspect Update snf volumeName replFactor ns ps True timeout"
  shows "\<exists>e w'. SetReplicationFactor Inspect Update snf volumeName replFactor ns ps True opts w = Some (e, w') \<and>
    (case e of
       Some err \<Rightarrow> (\<exists>cause. err = PxErr (ErrFailedToSetReplicationFactor volumeName cause))
     | None \<Rightarrow> (\<exists>k vol0 d w1 d1 x j vol. int (start_at T defaultRetryInterval k w) < timeout \<and>
         Inspect volumeName (world_at T k w) = (Inr vol0, d, w1) \<and>
         Update \<lparr>upd_VolumeId = vol_Id vol0, upd_HaLevel = replFactor, upd_SnapshotInterval = 4294967295, upd_Nodes = ns,
           upd_PoolUuids = ps\<rparr> w1 = (None, d1, x) \<and>
         seen_at Inspect volumeName j x = Inr vol \<and>
         list_all (\<lambda>rs. int (length rs) = replFactor) (vol_ReplicaSets vol) \<and>
         list_all (\<lambda>st. gm_index [] st ''RuntimeState'' = ''clean'') (vol_RuntimeState vol)))"
proof -
  have gap: "0 < defaultRetryInterval" by (simp add: wait_times)
  obtain r w' where run: "DoRetryWithTimeout T timeout defaultRetryInterval w = Some (r, w')"
    using retry_total [OF gap, of T] by blast
  note set_def = SetReplicationFactor_def Let_def timeout_def [symmetric] T_def [symmetric] run
  show ?thesis
  proof (cases r)
    case (Inl e)
    then show ?thesis by (simp add: set_def)
  next
    case (Inr out)
    obtain k where k: "int (start_at T defaultRetryInterval k w) < timeout"
      "final_result (outcome T k w) = Inr out"
      using retry_value [OF gap run [unfolded Inr]] by blast
    obtain vol0 d w1 d1 x where x: "Inspect volumeName (world_at T k w) = (Inr vol0, d, w1)"
      "Update \<lparr>upd_VolumeId = vol_Id vol0, upd_HaLevel = replFactor, upd_SnapshotInterval = 4294967295, upd_Nodes = ns, upd_PoolUuids = ps\<rparr> w1 = (None, d1, x)"
      "fst (WaitForReplicationToComplete Inspect volumeName replFactor timeout x) = None"
      using set_repl_success [of Inspect Update snf volumeName replFactor ns ps timeout "world_at T k w"] k(2)
      by (auto simp: outcome_def T_def)
    obtain j vol where seen: "seen_at Inspect volumeName j x = Inr vol" and fin: "repl_done replFactor vol"
      using wait_replication_result [where Inspect = Inspect and v = volumeName and f = replFactor and
          timeout = timeout and w = x] x(3) by auto
    have "list_all (\<lambda>rs. int (length rs) = replFactor) (vol_ReplicaSets vol)"
      "list_all (\<lambda>st. gm_index [] st ''RuntimeState'' = ''clean'') (vol_RuntimeState vol)"
      using fin by (auto simp: repl_done_def isClean_iff areRepSetsFinal_iff list_all_iff)
    then have "\<exists>k vol0 d w1 d1 x j vol. int (start_at T defaultRetryInterval k w) < timeout \<and>
         Inspect volumeName (world_at T k w) = (Inr vol0, d, w1) \<and>
         Update \<lparr>upd_VolumeId = vol_Id vol0, upd_HaLevel = replFactor, upd_SnapshotInterval = 4294967295, upd_Nodes = ns,
           upd_PoolUuids = ps\<rparr> w1 = (None, d1, x) \<and>
         seen_at Inspect volumeName j x = Inr vol \<and>
         list_all (\<lambda>rs. int (length rs) = replFactor) (vol_ReplicaSets vol) \<and>
         list_all (\<lambda>st. gm_index [] st ''RuntimeState'' = ''clean'') (vol_RuntimeState vol)"
      using k(1) x(1,2) seen by blast
    then show ?thesis
      by (simp add: set_def Inr)
  qed
qed

end
