(* ===== verification/AutopilotRules.thy ===== *)
theory AutopilotRules
  imports PxMaintenance
begin

text \<open>
  The autopilot rules of \<open>pkg/aututils/aututils.go\<close>: the builders of pool and volume rules and the
  two waits for what autopilot does with them. A rule has the fields of
  \<open>apapi.AutopilotRule\<close> that torpedo sets or reads. Events and approvals come from the Kubernetes
  API, an argument of the waits.
\<close>

section \<open>Rules\<close>

record LabelSelectorRequirement =
  ex_Key :: string
  ex_KeyAlias :: string
  ex_Operator :: string
  ex_Values :: "string list"

record RuleAction =
  act_Name :: string
  act_Params :: "(string, string) gomap"

record AutopilotRule =
  rule_Name :: string
  rule_MatchLabels :: "(string, string) gomap"
  rule_Enforcement :: string
  rule_Expressions :: "LabelSelectorRequirement list"
  rule_Actions :: "RuleAction list"

definition RuleScaleTypeAddDisk :: string where "RuleScaleTypeAddDisk = ''add-disk''"
definition RuleScaleTypeResizeDisk :: string where "RuleScaleTypeResizeDisk = ''resize-disk''"
definition RuleMaxSize :: string where "RuleMaxSize = ''maxsize''"
definition PxPoolAvailableCapacityMetric :: string where
  "PxPoolAvailableCapacityMetric = ''100 * ( px_pool_stats_available_bytes/ px_pool_stats_total_bytes)''"
definition PxPoolTotalCapacityMetric :: string where
  "PxPoolTotalCapacityMetric = ''px_pool_stats_total_bytes/(1024*1024*1024)''"
definition PxVolumeUsagePercentMetric :: string where
  "PxVolumeUsagePercentMetric = ''100 * (px_volume_usage_bytes / px_volume_capacity_bytes)''"
definition PxVolumeTotalCapacityMetric :: string where
  "PxVolumeTotalCapacityMetric = ''px_volume_capacity_bytes / 1000000000''"
definition PXPoolProvisionedSpaceMetric :: string where
  "PXPoolProvisionedSpaceMetric = ''100 * (px_pool_stats_provisioned_bytes/ on (pool) px_pool_stats_total_bytes)''"
definition PXPoolUsedSpaceMetric :: string where
  "PXPoolUsedSpaceMetric = ''100 * (px_pool_stats_used_bytes/ on (pool) px_pool_stats_total_bytes)''"
definition RuleActionsScalePercentage :: string where "RuleActionsScalePercentage = ''scalepercentage''"
definition RuleActionsScaleSize :: string where "RuleActionsScaleSize = ''scalesize''"
definition RuleScaleType :: string where "RuleScaleType = ''scaletype''"
definition RulePoolProvDeviationPercKeyAlias :: string where
  "RulePoolProvDeviationPercKeyAlias = ''PoolProvDeviationPerc''"
definition RulePoolUsageDeviationPercKeyAlias :: string where
  "RulePoolUsageDeviationPercKeyAlias = ''PoolUsageDeviationPerc''"
definition VolumeSpecAction :: string where "VolumeSpecAction = ''openstorage.io.action.volume/resize''"
definition StorageSpecAction :: string where "StorageSpecAction = ''openstorage.io.action.storagepool/expand''"
definition RebalanceSpecAction :: string where
  "RebalanceSpecAction = ''openstorage.io.action.storagepool/rebalance''"

text \<open>Operators and the enforcement type of the autopilot API.\<close>

definition LabelSelectorOpLt :: string where "LabelSelectorOpLt = ''Lt''"
definition LabelSelectorOpGt :: string where "LabelSelectorOpGt = ''Gt''"
definition LabelSelectorOpNotInRange :: string where "LabelSelectorOpNotInRange = ''NotInRange''"
definition ApprovalRequired :: string where "ApprovalRequired = ''approvalRequired''"

lemmas rule_constants = RuleScaleTypeAddDisk_def RuleScaleTypeResizeDisk_def RuleMaxSize_def
  PxPoolAvailableCapacityMetric_def PxPoolTotalCapacityMetric_def PxVolumeUsagePercentMetric_def
  PxVolumeTotalCapacityMetric_def PXPoolProvisionedSpaceMetric_def PXPoolUsedSpaceMetric_def
  RuleActionsScalePercentage_def RuleActionsScaleSize_def RuleScaleType_def VolumeSpecAction_def
  StorageSpecAction_def RebalanceSpecAction_def LabelSelectorOpLt_def LabelSelectorOpGt_def

section \<open>Builders\<close>

definition PoolRuleByTotalSize :: "u64 \<Rightarrow> u64 \<Rightarrow> string \<Rightarrow> (string, string) gomap \<Rightarrow> AutopilotRule" where
  "PoolRuleByTotalSize total_GiB scalePercentage expandType labelSelector =
     \<lparr>rule_Name = ''pool-'' @ expandType @ ''-total-'' @ show_u64 total_GiB,
      rule_MatchLabels = labelSelector, rule_Enforcement = [],
      rule_Expressions = [\<lparr>ex_Key = PxPoolTotalCapacityMetric, ex_KeyAlias = [],
        ex_Operator = LabelSelectorOpLt, ex_Values = [show_u64 total_GiB]\<rparr>],
      rule_Actions = [\<lparr>act_Name = StorageSpecAction,
        act_Params = [(RuleActionsScalePercentage, show_u64 scalePercentage), (RuleScaleType, expandType)]\<rparr>]\<rparr>"

definition PoolRuleFixedScaleSizeByTotalSize ::
  "u64 \<Rightarrow> string \<Rightarrow> string \<Rightarrow> (string, string) gomap \<Rightarrow> AutopilotRule" where
  "PoolRuleFixedScaleSizeByTotalSize total_GiB scaleSize expandType labelSelector =
     \<lparr>rule_Name = ''pool-'' @ expandType @ ''-fixedsize-'' @ ToLower scaleSize @ ''-total-'' @ show_u64 total_GiB,
      rule_MatchLabels = labelSelector, rule_Enforcement = [],
      rule_Expressions = [\<lparr>ex_Key = PxPoolTotalCapacityMetric, ex_KeyAlias = [],
        ex_Operator = LabelSelectorOpLt, ex_Values = [show_u64 total_GiB]\<rparr>],
      rule_Actions = [\<lparr>act_Name = StorageSpecAction,
        act_Params = [(RuleActionsScaleSize, scaleSize), (RuleScaleType, expandType)]\<rparr>]\<rparr>"

definition PoolRuleByAvailableCapacity :: "u64 \<Rightarrow> u64 \<Rightarrow> string \<Rightarrow> AutopilotRule" where
  "PoolRuleByAvailableCapacity usage scalePercentage expandType =
     \<lparr>rule_Name = ''pool-'' @ expandType @ ''-available-'' @ show_u64 usage,
      rule_MatchLabels = [], rule_Enforcement = [],
      rule_Expressions = [\<lparr>ex_Key = PxPoolAvailableCapacityMetric, ex_KeyAlias = [],
        ex_Operator = LabelSelectorOpLt, ex_Values = [show_u64 usage]\<rparr>],
      rule_Actions = [\<lparr>act_Name = StorageSpecAction,
        act_Params = [(RuleActionsScalePercentage, show_u64 scalePercentage), (RuleScaleType, expandType)]\<rparr>]\<rparr>"

definition PoolRuleFixedScaleSizeByAvailableCapacity :: "int \<Rightarrow> string \<Rightarrow> string \<Rightarrow> AutopilotRule" where
  "PoolRuleFixedScaleSizeByAvailableCapacity usage scaleSize expandType =
     \<lparr>rule_Name = ''pool-'' @ expandType @ ''-fixedsize-'' @ ToLower scaleSize @ ''-available-'' @ show_int usage,
      rule_MatchLabels = [], rule_Enforcement = [],
      rule_Expressions = [\<lparr>ex_Key = PxPoolAvailableCapacityMetric, ex_KeyAlias = [],
        ex_Operator = LabelSelectorOpLt, ex_Values = [show_int usage]\<rparr>],
      rule_Actions = [\<lparr>act_Name = StorageSpecAction,
        act_Params = [(RuleActionsScaleSize, scaleSize), (RuleScaleType, expandType)]\<rparr>]\<rparr>"

definition require_approval :: "bool \<Rightarrow> AutopilotRule \<Rightarrow> AutopilotRule" where
  "require_approval approvalRequired r =
     (if approvalRequired then r\<lparr>rule_Enforcement := ApprovalRequired\<rparr> else r)"

definition PoolRuleRebalanceByProvisionedMean :: "string list \<Rightarrow> bool \<Rightarrow> AutopilotRule" where
  "PoolRuleRebalanceByProvisionedMean vals approvalRequired = require_approval approvalRequired
     \<lparr>rule_Name = ''pvc-rebalance-provisioned-mean-'' @ Join vals ''-'',
      rule_MatchLabels = [], rule_Enforcement = [],
      rule_Expressions = [\<lparr>ex_Key = [], ex_KeyAlias = RulePoolProvDeviationPercKeyAlias,
        ex_Operator = LabelSelectorOpNotInRange, ex_Values = vals\<rparr>],
      rule_Actions = [\<lparr>act_Name = RebalanceSpecAction, act_Params = []\<rparr>]\<rparr>"

definition PoolRuleRebalanceByUsageMean :: "string list \<Rightarrow> bool \<Rightarrow> AutopilotRule" where
  "PoolRuleRebalanceByUsageMean vals approvalRequired = require_approval approvalRequired
     \<lparr>rule_Name = ''pvc-rebalance-usage-mean-'' @ Join vals ''-'',
      rule_MatchLabels = [], rule_Enforcement = [],
      rule_Expressions = [\<lparr>ex_Key = [], ex_KeyAlias = RulePoolUsageDeviationPercKeyAlias,
        ex_Operator = LabelSelectorOpNotInRange, ex_Values = vals\<rparr>],
      rule_Actions = [\<lparr>act_Name = RebalanceSpecAction, act_Params = []\<rparr>]\<rparr>"

definition PoolRuleRebalanceAbsolute :: "int \<Rightarrow> int \<Rightarrow> bool \<Rightarrow> AutopilotRule" where
  "PoolRuleRebalanceAbsolute provisionedValLimit usedValLimit approvalRequired =
     require_approval approvalRequired
     \<lparr>rule_Name = ''pool-rebalance-absolute-prov-'' @ show_int provisionedValLimit @ ''-used-'' @
        show_int usedValLimit,
      rule_MatchLabels = [], rule_Enforcement = [],
      rule_Expressions =
        [\<lparr>ex_Key = PXPoolProvisionedSpaceMetric, ex_KeyAlias = [],
          ex_Operator = LabelSelectorOpGt, ex_Values = [show_int provisionedValLimit]\<rparr>,
         \<lparr>ex_Key = PXPoolUsedSpaceMetric, ex_KeyAlias = [],
          ex_Operator = LabelSelectorOpGt, ex_Values = [show_int usedValLimit]\<rparr>],
      rule_Actions = [\<lparr>act_Name = RebalanceSpecAction, act_Params = []\<rparr>]\<rparr>"

definition with_max_size :: "string \<Rightarrow> AutopilotRule \<Rightarrow> AutopilotRule" where
  "with_max_size maxSize r =
     (if maxSize \<noteq> []
      then r\<lparr>rule_Name := rule_Name r @ ''-maxsize-'' @ ToLower maxSize,
             rule_Actions := map (\<lambda>a. a\<lparr>act_Params := gm_put RuleMaxSize maxSize (act_Params a)\<rparr>) (rule_Actions r)\<rparr>
      else r)"

definition PVCRuleByTotalSize :: "int \<Rightarrow> int \<Rightarrow> string \<Rightarrow> AutopilotRule" where
  "PVCRuleByTotalSize capacity scalePercentage maxSize = with_max_size maxSize
     \<lparr>rule_Name = ''pvc-total-'' @ show_int capacity @ ''-scale-'' @ show_int scalePercentage,
      rule_MatchLabels = [], rule_Enforcement = [],
      rule_Expressions = [\<lparr>ex_Key = PxVolumeTotalCapacityMetric, ex_KeyAlias = [],
        ex_Operator = LabelSelectorOpLt, ex_Values = [show_int capacity]\<rparr>],
      rule_Actions = [\<lparr>act_Name = VolumeSpecAction,
        act_Params = [(RuleActionsScalePercentage, show_int scalePercentage)]\<rparr>]\<rparr>"

definition PVCRuleByUsageCapacity :: "int \<Rightarrow> int \<Rightarrow> string \<Rightarrow> AutopilotRule" where
  "PVCRuleByUsageCapacity usagePercentage scalePercentage maxSize = with_max_size maxSize
     \<lparr>rule_Name = ''pvc-usage-'' @ show_int usagePercentage @ ''-scale-'' @ show_int scalePercentage,
      rule_MatchLabels = [], rule_Enforcement = [],
      rule_Expressions = [\<lparr>ex_Key = PxVolumeUsagePercentMetric, ex_KeyAlias = [],
        ex_Operator = LabelSelectorOpGt, ex_Values = [show_int usagePercentage]\<rparr>],
      rule_Actions = [\<lparr>act_Name = VolumeSpecAction,
        act_Params = [(RuleActionsScalePercentage, show_int scalePercentage)]\<rparr>]\<rparr>"

section \<open>Waiting for autopilot\<close>

definition eventCheckInterval :: int where "eventCheckInterval = 2 * second_ns"
definition eventCheckTimeout :: int where "eventCheckTimeout = 30 * minute_ns"
definition actionApprovalObjectCheckInterval :: int where "actionApprovalObjectCheckInterval = 1 * second_ns"
definition actionApprovalObjectTimeout :: int where "actionApprovalObjectTimeout = 30 * second_ns"

lemmas autopilot_times = eventCheckInterval_def eventCheckTimeout_def
  actionApprovalObjectCheckInterval_def actionApprovalObjectTimeout_def second_ns_def minute_ns_def

text \<open>The fields of a Kubernetes event that are read; the time stamp is in seconds.\<close>

record rule_event =
  ev_Reason :: string
  ev_Message :: string
  ev_LastTimestamp :: int

fun messages_found :: "string \<Rightarrow> string list \<Rightarrow> bool \<Rightarrow> bool" where
  "messages_found txt [] found = found"
| "messages_found txt (m # ms) found = (if \<not> Contains_str txt m then False else messages_found txt ms True)"

definition event_matches :: "string \<Rightarrow> string list \<Rightarrow> rule_event \<Rightarrow> bool" where
  "event_matches reason messages ev \<longleftrightarrow>
     (if reason \<noteq> [] then Contains_str (ev_Reason ev) reason else True) \<and>
     messages_found (ev_Message ev) messages False"

fun find_event :: "int \<Rightarrow> string \<Rightarrow> string list \<Rightarrow> rule_event list \<Rightarrow> bool" where
  "find_event now reason messages [] = False"
| "find_event now reason messages (ev # evs) =
     (if ev_LastTimestamp ev < now - 20 then find_event now reason messages evs
      else if event_matches reason messages ev then True
      else find_event now reason messages evs)"

definition event_selector :: "AutopilotRule \<Rightarrow> string" where
  "event_selector r = ''involvedObject.kind=AutopilotRule,involvedObject.name='' @ rule_Name r"

definition event_task ::
  "(string \<Rightarrow> 'w \<Rightarrow> rule_event list result \<times> nat \<times> 'w) \<Rightarrow> ('w \<Rightarrow> int) \<Rightarrow> AutopilotRule \<Rightarrow> string \<Rightarrow>
   string list \<Rightarrow> ('w, unit) task_fn" where
  "event_task ListEvents now apRule reason messages w = (case ListEvents (event_selector apRule) w of
     (Inl e, d, w1) \<Rightarrow> (((), False, Some e), d, w1)
   | (Inr evs, d, w1) \<Rightarrow>
       (if find_event (now w1) reason messages evs then (((), False, None), d, w1)
        else (((), True, Some (Errorf (''autopilot rule has no event with '' @ reason @ '' reason and ['' @
               Join messages '' '' @ ''] message''))), d, w1)))"

definition WaitForAutopilotEvent where
  "WaitForAutopilotEvent ListEvents now apRule reason messages w =
     (case DoRetryWithTimeout (event_task ListEvents now apRule reason messages)
             eventCheckTimeout eventCheckInterval w of
        None \<Rightarrow> None
      | Some (Inl e, w') \<Rightarrow> Some (Some e, w')
      | Some (Inr _, w') \<Rightarrow> Some (None, w'))"

text \<open>The names of the approval objects, in list order.\<close>

fun find_approval :: "string \<Rightarrow> string list \<Rightarrow> bool" where
  "find_approval name [] = False"
| "find_approval name (a # as) = (if Contains_str name a then True else find_approval name as)"

definition approvals_task ::
  "(string \<Rightarrow> 'w \<Rightarrow> string list result \<times> nat \<times> 'w) \<Rightarrow> string \<Rightarrow> string \<Rightarrow> ('w, unit) task_fn" where
  "approvals_task ListActionApprovals namespace name w = (case ListActionApprovals namespace w of
     (Inl e, d, w1) \<Rightarrow> (((), False, Some e), d, w1)
   | (Inr items, d, w1) \<Rightarrow>
       (if items = [] then (((), True, Some (Errorf ''action approval object is empty'')), d, w1)
        else if name \<noteq> [] then
          (if find_approval name items then (((), False, None), d, w1)
           else (((), True, Some (Errorf (''no action approval objects with '' @ name @ '' name found''))), d, w1))
        else (((), False, None), d, w1)))"

definition WaitForActionApprovalsObjects where
  "WaitForActionApprovalsObjects ListActionApprovals namespace name w =
     (case DoRetryWithTimeout (approvals_task ListActionApprovals namespace name)
             actionApprovalObjectTimeout actionApprovalObjectCheckInterval w of
        None \<Rightarrow> None
      | Some (Inl e, w') \<Rightarrow> Some (Some e, w')
      | Some (Inr _, w') \<Rightarrow> Some (None, w'))"

section \<open>Laws of the waits\<close>

lemma messages_found_True: "messages_found txt ms True \<longleftrightarrow> list_all (Contains_str txt) ms"
  by (induction ms) simp_all

lemma messages_found_iff:
  "messages_found txt ms found \<longleftrightarrow> (if ms = [] then found else list_all (Contains_str txt) ms)"
  by (cases ms) (simp_all add: messages_found_True)

lemma find_event_iff:
  "find_event now reason ms evs \<longleftrightarrow>
     list_ex (\<lambda>ev. now - 20 \<le> ev_LastTimestamp ev \<and> event_matches reason ms ev) evs"
  by (induction evs) auto

lemma find_approval_iff: "find_approval name as \<longleftrightarrow> list_ex (Contains_str name) as"
  by (induction as) auto

lemma Contains_str_Nil [simp]: "Contains_str s []"
  unfolding Contains_str_iff by (rule exI [of _ "[]"]) simp

definition event_seen where
  "event_seen ListEvents now apRule reason messages w = (case ListEvents (event_selector apRule) w of
     (Inl _, _) \<Rightarrow> False
   | (Inr evs, _, w1) \<Rightarrow> list_ex (\<lambda>ev. now w1 - 20 \<le> ev_LastTimestamp ev \<and>
       Contains_str (ev_Reason ev) reason \<and> messages \<noteq> [] \<and> list_all (Contains_str (ev_Message ev)) messages) evs)"

definition approval_seen where
  "approval_seen ListActionApprovals namespace name w = (case fst (ListActionApprovals namespace w) of
     Inl _ \<Rightarrow> False
   | Inr items \<Rightarrow> (if name = [] then items \<noteq> [] else list_ex (Contains_str name) items))"

lemma event_matches_iff:
  "event_matches reason messages ev \<longleftrightarrow>
     Contains_str (ev_Reason ev) reason \<and> messages \<noteq> [] \<and> list_all (Contains_str (ev_Message ev)) messages"
  by (simp add: event_matches_def messages_found_iff)

lemma event_task_outcome:
  "asks_retry (fst (event_task ListEvents now apRule reason messages w)) \<longleftrightarrow>
     \<not> event_seen ListEvents now apRule reason messages w \<and>
     \<not> (\<exists>e. fst (ListEvents (event_selector apRule) w) = Inl e)" (is ?A)
  "(\<exists>out. final_result (fst (event_task ListEvents now apRule reason messages w)) = Inr out) \<longleftrightarrow>
     event_seen ListEvents now apRule reason messages w" (is ?B)
proof -
  obtain lst d w1 where "ListEvents (event_selector apRule) w = (lst, d, w1)"
    by (rule prod_cases3)
  then have "?A \<and> ?B"
    by (cases lst; simp add: event_task_def event_seen_def asks_retry_def final_result_def
          find_event_iff event_matches_iff)
  then show ?A ?B by simp_all
qed

interpretation event_wait: answer_task "event_task ListEvents now apRule reason messages" eventCheckInterval
  "event_seen ListEvents now apRule reason messages"
  "\<lambda>w. \<exists>e. fst (ListEvents (event_selector apRule) w) = Inl e"
  for ListEvents now apRule reason messages
  by unfold_locales (simp add: autopilot_times, rule event_task_outcome, rule event_task_outcome)

lemma approvals_task_eq:
  "fst (approvals_task ListActionApprovals namespace name w) =
     (case fst (ListActionApprovals namespace w) of
        Inl e \<Rightarrow> ((), False, Some e)
      | Inr items \<Rightarrow>
          if approval_seen ListActionApprovals namespace name w then ((), False, None)
          else ((), True, Some (Errorf (if items = [] then ''action approval object is empty''
            else ''no action approval objects with '' @ name @ '' name found''))))"
proof -
  obtain lst d w1 where lst: "ListActionApprovals namespace w = (lst, d, w1)"
    by (rule prod_cases3)
  show ?thesis
  proof (cases lst)
    case (Inr items)
    with lst show ?thesis
      by (cases items) (simp_all add: approvals_task_def approval_seen_def find_approval_iff)
  qed (simp add: lst approvals_task_def)
qed

lemma approvals_task_retry:
  "asks_retry (fst (approvals_task ListActionApprovals namespace name w)) \<longleftrightarrow>
     \<not> approval_seen ListActionApprovals namespace name w \<and>
     \<not> (\<exists>e. fst (ListActionApprovals namespace w) = Inl e)"
  by (cases "fst (ListActionApprovals namespace w)") (simp_all add: approvals_task_eq asks_retry_def)

lemma approvals_task_result:
  "(\<exists>out. final_result (fst (approvals_task ListActionApprovals namespace name w)) = Inr out) \<longleftrightarrow>
     approval_seen ListActionApprovals namespace name w"
  by (cases "fst (ListActionApprovals namespace w)"; cases "approval_seen ListActionApprovals namespace name w")
     (simp_all add: approvals_task_eq final_result_def, simp add: approval_seen_def)

interpretation approval_wait: answer_task "approvals_task ListActionApprovals namespace name"
  actionApprovalObjectCheckInterval "approval_seen ListActionApprovals namespace name"
  "\<lambda>w. \<exists>e. fst (ListActionApprovals namespace w) = Inl e"
  for ListActionApprovals namespace name
  by unfold_locales (simp add: autopilot_times, rule approvals_task_retry, rule approvals_task_result)

lemma not_Inl_iff: "(\<nexists>e. x = Inl e) \<longleftrightarrow> (\<exists>v. x = Inr v)"
  by (cases x) simp_all

lemma stop_iff:
  "(\<forall>j<k. \<nexists>e. f j = Inl e) \<longleftrightarrow> list_all (\<lambda>j. \<exists>v. f j = Inr v) [0..<k]"
  by (simp only: not_Inl_iff) (simp add: list_all_iff Ball_def)

lemma no_error_iff:
  "(case (case r of Inl e \<Rightarrow> Some e | Inr _ \<Rightarrow> None) of None \<Rightarrow> True | Some _ \<Rightarrow> False) \<longleftrightarrow>
     (\<exists>out. r = Inr out)"
  by (cases r) simp_all

section \<open>Properties of the waits\<close>

text \<open>\<open>WaitForAutopilotEvent\<close> always returns, and reports success exactly when, at an attempt before
  the half-hour limit, the API lists an event of the rule no older than twenty seconds whose reason
  contains the wanted one and whose message contains all of the (at least one) wanted messages, and
  no earlier attempt failed to list the events.
\<close>

theorem autopilot_event_wait_correct:
  "let t = event_task ListEvents now apRule reason messages in
   case WaitForAutopilotEvent ListEvents now apRule reason messages w of
     None \<Rightarrow> False
   | Some (e, w') \<Rightarrow>
       (case e of None \<Rightarrow> True | Some _ \<Rightarrow> False) \<longleftrightarrow>
       (\<exists>k. int (start_at t eventCheckInterval k w) < eventCheckTimeout \<and>
            event_seen ListEvents now apRule reason messages (world_at t k w) \<and>
            list_all (\<lambda>j. \<exists>evs. fst (ListEvents (event_selector apRule) (world_at t j w)) = Inr evs) [0..<k])"
proof -
  let ?t = "event_task ListEvents now apRule reason messages"
  obtain r w' where r: "DoRetryWithTimeout ?t eventCheckTimeout eventCheckInterval w = Some (r, w')"
      "(\<exists>out. r = Inr out) \<longleftrightarrow>
        (\<exists>k. int (start_at ?t eventCheckInterval k w) < eventCheckTimeout \<and>
             event_seen ListEvents now apRule reason messages (world_at ?t k w) \<and>
             (\<forall>j<k. \<nexists>e. fst (ListEvents (event_selector apRule) (world_at ?t j w)) = Inl e))"
    using event_wait.answer_returns [of ListEvents now apRule reason messages eventCheckTimeout w]
    by (elim exE conjE) (rule that)
  from r(1) have wait: "WaitForAutopilotEvent ListEvents now apRule reason messages w = Some (case r of Inl e \<Rightarrow> Some e | Inr _ \<Rightarrow> None, w')"
    by (cases r) (simp_all add: WaitForAutopilotEvent_def)
  show ?thesis
    unfolding Let_def wait option.case prod.case no_error_iff by (rule r(2) [unfolded stop_iff])
qed

text \<open>\<open>WaitForActionApprovalsObjects\<close> always returns, and succeeds exactly when, at an attempt before
  the thirty-second limit, the API lists an approval object (one whose name is contained in the wanted
  name, if a name is given) and no earlier attempt failed to list them.
\<close>

theorem action_approvals_wait_correct:
  "let t = approvals_task ListActionApprovals namespace name in
   case WaitForActionApprovalsObjects ListActionApprovals namespace name w of
     None \<Rightarrow> False
   | Some (e, w') \<Rightarrow>
       (case e of None \<Rightarrow> True | Some _ \<Rightarrow> False) \<longleftrightarrow>
       (\<exists>k. int (start_at t actionApprovalObjectCheckInterval k w) < actionApprovalObjectTimeout \<and>
            approval_seen ListActionApprovals namespace name (world_at t k w) \<and>
            list_all (\<lambda>j. \<exists>items. fst (ListActionApprovals namespace (world_at t j w)) = Inr items) [0..<k])"
proof -
  let ?t = "approvals_task ListActionApprovals namespace name"
  obtain r w' where r:
      "DoRetryWithTimeout ?t actionApprovalObjectTimeout actionApprovalObjectCheckInterval w = Some (r, w')"
      "(\<exists>out. r = Inr out) \<longleftrightarrow>
        (\<exists>k. int (start_at ?t actionApprovalObjectCheckInterval k w) < actionApprovalObjectTimeout \<and>
             approval_seen ListActionApprovals namespace name (world_at ?t k w) \<and>
             (\<forall>j<k. \<nexists>e. fst (ListActionApprovals namespace (world_at ?t j w)) = Inl e))"
    using approval_wait.answer_returns [of ListActionApprovals namespace name actionApprovalObjectTimeout w]
    by (elim exE conjE) (rule that)
  from r(1) have wait: "WaitForActionApprovalsObjects ListActionApprovals namespace name w = Some (case r of Inl e \<Rightarrow> Some e | Inr _ \<Rightarrow> None, w')"
    by (cases r) (simp_all add: WaitForActionApprovalsObjects_def)
  show ?thesis
    unfolding Let_def wait option.case prod.case no_error_iff by (rule r(2) [unfolded stop_iff])
qed

end
