(* ===== verification/GoFloat.thy ===== *)
theory GoFloat
  imports GoStrings "HOL-Library.Log_Nat"
begin

text \<open>
  Go's \<open>float64\<close> as far as the size estimates use it: an IEEE 754 double is a rational number that
  fits the format, an infinity or a NaN, and every operation rounds the exact result to nearest, ties
  to even. The sign of zero is not kept: the estimates never divide by a negative zero.
\<close>

section \<open>Rounding\<close>

definition scale :: "rat \<Rightarrow> int \<Rightarrow> rat" where
  "scale x k = (if 0 \<le> k then x * 2 ^ nat k else x / 2 ^ nat (- k))"

text \<open>The exponent of a number other than zero: \<open>2 ^ e \<le> \<bar>x\<bar> < 2 ^ (e + 1)\<close>.\<close>

definition exponent :: "rat \<Rightarrow> int" where
  "exponent x = (let (p, q) = quotient_of \<bar>x\<bar>; e = bitlen p - bitlen q in
     if scale 1 e \<le> \<bar>x\<bar> then e else e - 1)"

definition round_even :: "rat \<Rightarrow> int" where
  "round_even x = (let f = \<lfloor>x\<rfloor>; d = x - of_int f in
     if d < 1 / 2 then f else if 1 / 2 < d then f + 1 else if even f then f else f + 1)"

definition fl64 :: "rat \<Rightarrow> rat" where
  "fl64 x = (if x = 0 then 0 else
     let g = max (exponent x) (- 1022) - 52 in scale (of_int (round_even (scale x (- g)))) g)"

datatype f64 = Fin rat | PosInf | NegInf | NaN

definition f64_of :: "rat \<Rightarrow> f64" where
  "f64_of x = (let r = fl64 x in
     if 2 ^ 1024 \<le> r then PosInf else if r \<le> - (2 ^ 1024) then NegInf else Fin r)"

fun f64_less :: "f64 \<Rightarrow> f64 \<Rightarrow> bool" where
  "f64_less (Fin a) (Fin b) \<longleftrightarrow> a < b"
| "f64_less (Fin a) PosInf \<longleftrightarrow> True"
| "f64_less NegInf (Fin a) \<longleftrightarrow> True"
| "f64_less NegInf PosInf \<longleftrightarrow> True"
| "f64_less _ _ \<longleftrightarrow> False"

text \<open>The quotient of two finite numbers.\<close>

definition f64_div :: "rat \<Rightarrow> rat \<Rightarrow> f64" where
  "f64_div a b = (if b = 0 then (if a = 0 then NaN else if 0 < a then PosInf else NegInf)
     else f64_of (a / b))"

section \<open>Conversions\<close>

definition float_of_u64 :: "u64 \<Rightarrow> rat" where
  "float_of_u64 w = fl64 (of_nat (unat w))"

definition float_of_i64 :: "i64 \<Rightarrow> rat" where
  "float_of_i64 w = fl64 (of_int (sint w))"

text \<open>The conversion to \<open>uint64\<close> drops the fraction. Go leaves it to the implementation what a number
  out of range becomes: the argument \<open>oor\<close>.\<close>

definition u64_of_float :: "(rat \<Rightarrow> u64) \<Rightarrow> rat \<Rightarrow> u64" where
  "u64_of_float oor x = (if 0 \<le> x \<and> x < 2 ^ 64 then of_int \<lfloor>x\<rfloor> else oor x)"

text \<open>\<open>strconv.ParseFloat\<close> on numbers in decimal notation; what the other notations (exponents,
  hexadecimal, \<open>inf\<close>) and wrong syntax give is the argument \<open>other\<close>.\<close>

definition decimal_val :: "string \<Rightarrow> rat option" where
  "decimal_val s =
     (let (sg, body) = (case s of
            [] \<Rightarrow> (1, [])
          | c # r \<Rightarrow> if c = CHR ''-'' then (- 1, r) else if c = CHR ''+'' then (1, r) else (1, c # r));
          ip = takeWhile (\<lambda>c. c \<noteq> CHR ''.'') body;
          fp = tl (dropWhile (\<lambda>c. c \<noteq> CHR ''.'') body) in
      if ip @ fp = [] then None
      else map_option (\<lambda>n. sg * of_nat n / 10 ^ length fp) (digits_val 0 (ip @ fp)))"

definition ParseFloat :: "(string \<Rightarrow> f64) \<Rightarrow> string \<Rightarrow> f64" where
  "ParseFloat other s = (case decimal_val s of Some q \<Rightarrow> f64_of q | None \<Rightarrow> other s)"

section \<open>Laws of rounding\<close>

lemma scale_eq: "scale x k = x * 2 powi k"
  by (cases "0 \<le> k") (simp_all add: scale_def power_int_def field_simps)

lemma bitlen_powi:
  assumes "0 < n"
  shows "(2 :: rat) powi (bitlen n - 1) \<le> of_int n" and "of_int n < (2 :: rat) powi bitlen n"
proof -
  have pos: "0 < bitlen n"
    using assms bitlen_nonneg [of n] bitlen_eq_zero_iff [of n] by linarith
  have lo: "2 ^ nat (bitlen n - 1) \<le> n" and hi: "n < 2 ^ nat (bitlen n)"
    using bitlen_bounds [OF assms] by auto
  have "(of_int (2 ^ nat (bitlen n - 1)) :: rat) \<le> of_int n" "(of_int n :: rat) < of_int (2 ^ nat (bitlen n))"
    using lo hi by (simp_all only: of_int_le_iff of_int_less_iff)
  then show "(2 :: rat) powi (bitlen n - 1) \<le> of_int n" and "of_int n < (2 :: rat) powi bitlen n"
    using pos by (simp_all add: power_int_def)
qed

lemma exponent_bounds:
  assumes "x \<noteq> 0"
  shows "2 powi exponent x \<le> \<bar>x\<bar>" and "\<bar>x\<bar> < 2 powi (exponent x + 1)"
proof -
  obtain p q where pq: "quotient_of \<bar>x\<bar> = (p, q)"
    by (cases "quotient_of \<bar>x\<bar>")
  have q: "0 < q" and x: "\<bar>x\<bar> = of_int p / of_int q"
    using quotient_of_denom_pos [OF pq] quotient_of_div [OF pq] by simp_all
  have p: "0 < p"
  proof (rule ccontr)
    assume "\<not> 0 < p"
    then have "(of_int p :: rat) / of_int q \<le> 0"
      using q by (simp add: divide_le_0_iff)
    then show False using assms x by simp
  qed
  let ?e = "bitlen p - bitlen q"
  have "\<bar>x\<bar> < 2 powi bitlen p / 2 powi (bitlen q - 1)"
    using bitlen_powi [OF p] bitlen_powi [OF q] q p
    unfolding x by (intro frac_less) simp_all
  also have "\<dots> = 2 powi (bitlen p - (bitlen q - 1))"
    by (rule power_int_diff [symmetric]) simp
  also have "bitlen p - (bitlen q - 1) = ?e + 1"
    by simp
  finally have hi: "\<bar>x\<bar> < 2 powi (?e + 1)" .
  have "2 powi (bitlen p - 1) / 2 powi bitlen q \<le> \<bar>x\<bar>"
    using bitlen_powi [OF p] bitlen_powi [OF q] q p
    unfolding x by (intro frac_le) simp_all
  also have "(2 :: rat) powi (bitlen p - 1) / 2 powi bitlen q = 2 powi (bitlen p - 1 - bitlen q)"
    by (rule power_int_diff [symmetric]) simp
  also have "bitlen p - 1 - bitlen q = ?e - 1"
    by simp
  finally have lo: "2 powi (?e - 1) \<le> \<bar>x\<bar>" .
  show "2 powi exponent x \<le> \<bar>x\<bar>" and "\<bar>x\<bar> < 2 powi (exponent x + 1)"
    using lo hi by (auto simp: exponent_def pq scale_eq Let_def)
qed

lemma round_even_ge:
  assumes "of_int n \<le> x"
  shows "n \<le> round_even x"
proof -
  have "n \<le> \<lfloor>x\<rfloor>"
    using assms by (simp add: le_floor_iff)
  then show ?thesis
    by (simp add: round_even_def Let_def)
qed

lemma round_even_le:
  assumes "x \<le> of_int n"
  shows "round_even x \<le> n"
proof (cases "\<lfloor>x\<rfloor> < n")
  case True
  then show ?thesis
    by (simp add: round_even_def Let_def)
next
  case False
  then have "x = of_int n"
    using assms by linarith
  then show ?thesis
    by (simp add: round_even_def)
qed

text \<open>A positive number of the format; rounding never crosses one.\<close>

definition representable :: "rat \<Rightarrow> bool" where
  "representable y \<longleftrightarrow> (\<exists>m e. 0 < m \<and> m < 2 ^ 53 \<and> - 1074 \<le> e \<and> y = of_int m * 2 powi e)"

lemma representable_pos: "representable y \<Longrightarrow> 0 < y"
  by (auto simp: representable_def)

lemma representableI: "0 < m \<Longrightarrow> m < 2 ^ 53 \<Longrightarrow> - 1074 \<le> e \<Longrightarrow> representable (of_int m * 2 powi e)"
  by (auto simp: representable_def)

lemma representable_nat: "0 < n \<Longrightarrow> n < 2 ^ 53 \<Longrightarrow> representable (of_nat n)"
  using representableI [of "int n" 0] by simp

lemma fl64_grid:
  assumes "0 < x"
  obtains g where "- 1074 \<le> g" "fl64 x = of_int (round_even (x / 2 powi g)) * 2 powi g"
    "- 1074 < g \<Longrightarrow> 2 ^ 52 * 2 powi g \<le> x"
proof -
  let ?g = "max (exponent x) (- 1022) - 52"
  have eq: "fl64 x = of_int (round_even (x / 2 powi ?g)) * 2 powi ?g"
    using assms by (simp add: fl64_def scale_eq Let_def power_int_minus divide_inverse)
  have "2 ^ 52 * 2 powi ?g \<le> x" if "- 1074 < ?g"
  proof -
    have g: "?g = exponent x - 52"
      using that by simp
    have "(2 :: rat) ^ 52 * 2 powi (exponent x - 52) = 2 powi exponent x"
      by (simp add: power_int_diff)
    then show ?thesis
      using exponent_bounds(1) [of x] assms unfolding g by simp
  qed
  with eq show thesis
    by (intro that [of ?g]) simp_all
qed

text \<open>A number of the format is a whole number of steps of the grid, or below the grid of \<open>x\<close>.\<close>

lemma representable_grid:
  assumes "representable y" and "- 1074 \<le> g"
  shows "(\<exists>n. y = of_int n * 2 powi g) \<or> - 1074 < g \<and> y < 2 ^ 52 * 2 powi g"
proof -
  obtain m e where m: "0 < m" "m < 2 ^ 53" "- 1074 \<le> e" "y = of_int m * 2 powi e"
    using assms(1) by (auto simp: representable_def)
  show ?thesis
  proof (cases "g \<le> e")
    case True
    then have "(2 :: rat) powi e = 2 ^ nat (e - g) * 2 powi g"
      by (simp add: power_int_def [of _ "e - g", symmetric] power_int_add [symmetric] flip: power_int_of_nat)
    then have "y = of_int (m * 2 ^ nat (e - g)) * 2 powi g"
      using m(4) by simp
    then show ?thesis by blast
  next
    case False
    have "y < 2 ^ 53 * 2 powi e"
      using m by (simp add: of_int_less_iff [of m "2 ^ 53", symmetric, where 'a = rat])
    also have "\<dots> = 2 ^ 52 * 2 powi (e + 1)"
      by (simp add: power_int_add)
    also have "\<dots> \<le> 2 ^ 52 * 2 powi g"
      using False by (intro mult_left_mono power_int_increasing) simp_all
    finally show ?thesis
      using False m(3) by simp
  qed
qed

lemma fl64_ge:
  assumes y: "representable y" and le: "y \<le> x"
  shows "y \<le> fl64 x"
proof -
  have "0 < x" using representable_pos [OF y] le by simp
  then obtain g where g: "- 1074 \<le> g" "fl64 x = of_int (round_even (x / 2 powi g)) * 2 powi g"
      "- 1074 < g \<Longrightarrow> 2 ^ 52 * 2 powi g \<le> x"
    using fl64_grid by blast
  have step: "of_int n * 2 powi g \<le> fl64 x" if "of_int n * 2 powi g \<le> x" for n
  proof -
    have "n \<le> round_even (x / 2 powi g)"
      using that by (intro round_even_ge) (simp add: field_simps)
    then show ?thesis
      unfolding g(2) by simp
  qed
  show ?thesis
    using representable_grid [OF y g(1)]
  proof
    assume "\<exists>n. y = of_int n * 2 powi g"
    then show ?thesis using step le by auto
  next
    assume "- 1074 < g \<and> y < 2 ^ 52 * 2 powi g"
    then show ?thesis using step [of "2 ^ 52"] g(3) by simp
  qed
qed

lemma fl64_le:
  assumes y: "representable y" and "0 < x" and le: "x \<le> y"
  shows "fl64 x \<le> y"
proof -
  obtain g where g: "- 1074 \<le> g" "fl64 x = of_int (round_even (x / 2 powi g)) * 2 powi g"
      "- 1074 < g \<Longrightarrow> 2 ^ 52 * 2 powi g \<le> x"
    using fl64_grid [OF assms(2)] by blast
  then obtain n where n: "y = of_int n * 2 powi g"
    using representable_grid [OF y g(1)] le by auto
  have "round_even (x / 2 powi g) \<le> n"
    using le n by (intro round_even_le) (simp add: field_simps)
  then show ?thesis
    unfolding g(2) n by simp
qed

lemma fl64_representable: "representable y \<Longrightarrow> fl64 y = y"
  by (simp add: antisym fl64_ge fl64_le representable_pos)

lemma fl64_zero [simp]: "fl64 0 = 0"
  by (simp add: fl64_def)

lemma fl64_nat: "n < 2 ^ 53 \<Longrightarrow> fl64 (of_nat n) = of_nat n"
  by (cases "n = 0") (simp_all add: fl64_representable representable_nat)

section \<open>Reading numbers\<close>

lemma digits_val_chars: "digits_val acc s = Some n \<Longrightarrow> c \<in> set s \<Longrightarrow> digit_val c \<noteq> None"
  by (induction s arbitrary: acc) (auto split: option.splits)

lemma not_digits [simp]: "digit_val CHR ''.'' = None" "digit_val CHR ''-'' = None" "digit_val CHR ''+'' = None"
  by (simp_all add: digit_val_def)

lemma show_nat_digits: "c \<in> set (show_nat n) \<Longrightarrow> c \<noteq> CHR ''.'' \<and> c \<noteq> CHR ''-'' \<and> c \<noteq> CHR ''+''"
  using digits_val_chars [OF digits_val_show_nat] by fastforce

lemma decimal_val_show_nat: "decimal_val (show_nat n) = Some (of_nat n)"
proof -
  have tw: "takeWhile (\<lambda>c. c \<noteq> CHR ''.'') (show_nat n) = show_nat n"
    and dw: "dropWhile (\<lambda>c. c \<noteq> CHR ''.'') (show_nat n) = []"
    using show_nat_digits by (simp_all add: takeWhile_eq_all_conv dropWhile_eq_Nil_conv)
  obtain c r where cr: "show_nat n = c # r"
    using show_nat_neq_Nil by (cases "show_nat n") blast+
  have "c \<noteq> CHR ''-''" "c \<noteq> CHR ''+''"
    using show_nat_digits [of c n] cr by simp_all
  then show ?thesis
    using tw dw digits_val_show_nat [of n] unfolding decimal_val_def cr by simp
qed

lemma f64_of_small:
  assumes "0 \<le> x" and "x \<le> 2 ^ 64"
  shows "f64_of x = Fin (fl64 x)" and "0 \<le> fl64 x" and "fl64 x \<le> 2 ^ 64"
proof -
  have rep: "representable (2 ^ 64)"
    using representableI [of 1 64] by (simp add: power_int_def)
  show le: "fl64 x \<le> 2 ^ 64"
    using fl64_le [OF rep] assms by (cases "x = 0") simp_all
  show ge: "0 \<le> fl64 x"
  proof (cases "x = 0")
    case False
    with assms obtain g where g: "fl64 x = of_int (round_even (x / 2 powi g)) * 2 powi g"
      using fl64_grid [of x] by (metis order_le_less)
    have "0 \<le> round_even (x / 2 powi g)"
      using assms by (intro round_even_ge) simp
    then show ?thesis
      unfolding g by simp
  qed simp
  have "(2 :: rat) ^ 64 < 2 ^ 1024"
    by (rule power_strict_increasing) simp_all
  then have "fl64 x < 2 ^ 1024" and "- (2 ^ 1024) < fl64 x"
    using le ge by linarith+
  then show "f64_of x = Fin (fl64 x)"
    by (simp add: f64_of_def Let_def not_le [symmetric])
qed

lemma ParseFloat_show_u64:
  assumes n: "unat w = n" and lt: "n < 2 ^ 53"
  shows "ParseFloat other (show_u64 w) = Fin (of_nat n)"
proof -
  have "(of_nat n :: rat) \<le> of_nat (2 ^ 64)"
    using lt by (intro of_nat_mono) simp
  then have "f64_of (of_nat n) = Fin (of_nat n)"
    using lt by (simp add: f64_of_small fl64_nat)
  then show ?thesis
    unfolding ParseFloat_def show_u64_def n decimal_val_show_nat by simp
qed

lemma float_of_u64_exact: "unat w = n \<Longrightarrow> n < 2 ^ 53 \<Longrightarrow> float_of_u64 w = of_nat n"
  unfolding float_of_u64_def by (simp only: fl64_nat)

lemma u64_of_float_nat: "n < 2 ^ 64 \<Longrightarrow> u64_of_float oor (of_nat n) = of_nat n"
  using of_nat_less_iff [of n "2 ^ 64", where 'a = rat] by (simp add: u64_of_float_def)

end
