(* ===== verification/GoIO.thy ===== *)
theory GoIO
  imports RetryTask
begin

text \<open>
  Functions that call services, may return an error and may panic: a state and error monad over the
  world. \<open>None\<close> is a panic; an error keeps the world in which it occurred.
\<close>

text \<open>The error of \<open>strconv.ParseUint\<close>.\<close>

definition ParseUint_error :: "string \<Rightarrow> go_error" where
  "ParseUint_error s = Errorf (''strconv.ParseUint: parsing '' @ Quote s @ '': '' @
     (if s \<noteq> [] \<and> digits_val 0 s \<noteq> None then ''value out of range'' else ''invalid syntax''))"

named_theorems io_Inr \<open>when a call of the monad succeeds\<close>

type_synonym ('w, 'a) io = "'w \<Rightarrow> ((go_error + 'a) \<times> 'w) option"

definition io_return :: "'a \<Rightarrow> ('w, 'a) io" where
  "io_return x w = Some (Inr x, w)"

definition io_error :: "go_error \<Rightarrow> ('w, 'a) io" where
  "io_error e w = Some (Inl e, w)"

definition io_panic :: "('w, 'a) io" where
  "io_panic w = None"

definition io_bind :: "('w, 'a) io \<Rightarrow> ('a \<Rightarrow> ('w, 'b) io) \<Rightarrow> ('w, 'b) io" where
  "io_bind m f w = (case m w of
     None \<Rightarrow> None
   | Some (Inl e, w') \<Rightarrow> Some (Inl e, w')
   | Some (Inr x, w') \<Rightarrow> f x w')"

text \<open>The error path \<open>if err != nil { ... }\<close>.\<close>

definition io_catch :: "('w, 'a) io \<Rightarrow> (go_error \<Rightarrow> ('w, 'a) io) \<Rightarrow> ('w, 'a) io" where
  "io_catch m h w = (case m w of
     Some (Inl err, w') \<Rightarrow> h err w'
   | r \<Rightarrow> r)"

text \<open>A pure step that may fail or panic.\<close>

definition io_lift :: "(go_error + 'a) option \<Rightarrow> ('w, 'a) io" where
  "io_lift r w = map_option (\<lambda>x. (x, w)) r"

text \<open>A call of a service: it returns and may change the world.\<close>

definition io_call :: "('w \<Rightarrow> (go_error + 'a) \<times> 'w) \<Rightarrow> ('w, 'a) io" where
  "io_call f w = Some (f w)"

text \<open>Reading and writing the state, and a call whose error the caller looks at.\<close>

definition io_gets :: "('w \<Rightarrow> 'a) \<Rightarrow> ('w, 'a) io" where
  "io_gets f w = Some (Inr (f w), w)"

definition io_modify :: "('w \<Rightarrow> 'w) \<Rightarrow> ('w, unit) io" where
  "io_modify f w = Some (Inr (), f w)"

definition io_try :: "('w, 'a) io \<Rightarrow> ('w, 'a result) io" where
  "io_try m w = map_option (\<lambda>(r, w'). (Inr r, w')) (m w)"

fun io_each :: "('a \<Rightarrow> ('w, 'b) io) \<Rightarrow> 'a list \<Rightarrow> ('w, 'b list) io" where
  "io_each f [] = io_return []"
| "io_each f (x # xs) = io_bind (f x) (\<lambda>y. io_bind (io_each f xs) (\<lambda>ys. io_return (y # ys)))"

text \<open>
  A closure that \<open>DoRetryWithTimeout\<close> runs, asking for a retry on every error. A panic in it ends the
  program: the task stops the loop with the value \<open>None\<close>, and \<open>io_poll\<close> panics.
\<close>

definition io_task :: "('w \<Rightarrow> nat) \<Rightarrow> ('w, 'a) io \<Rightarrow> ('w, 'a option) task_fn" where
  "io_task clk m w = (case m w of
     None \<Rightarrow> ((None, False, None), 0, w)
   | Some (Inl err, w') \<Rightarrow> ((None, True, Some err), clk w' - clk w, w')
   | Some (Inr x, w') \<Rightarrow> ((Some x, False, None), clk w' - clk w, w'))"

definition io_poll :: "('w \<Rightarrow> nat) \<Rightarrow> ('w, 'a) io \<Rightarrow> int \<Rightarrow> int \<Rightarrow> ('w, 'a) io" where
  "io_poll clk m timeout gap w = (case DoRetryWithTimeout (io_task clk m) timeout gap w of
     None \<Rightarrow> None
   | Some (Inl err, w') \<Rightarrow> Some (Inl err, w')
   | Some (Inr None, w') \<Rightarrow> None
   | Some (Inr (Some x), w') \<Rightarrow> Some (Inr x, w'))"

section \<open>Laws\<close>

lemma io_bind_return [simp]: "io_bind (io_return x) f = f x"
  by (simp add: io_bind_def io_return_def fun_eq_iff)

lemma io_bind_error [simp]: "io_bind (io_error e) f = io_error e"
  by (simp add: io_bind_def io_error_def fun_eq_iff)

lemma io_bind_panic [simp]: "io_bind io_panic f = io_panic"
  by (simp add: io_bind_def io_panic_def fun_eq_iff)

lemma io_return_right [simp]: "io_bind m io_return = m"
  by (auto simp: io_bind_def io_return_def fun_eq_iff split: option.splits prod.splits sum.splits)

lemma io_bind_assoc: "io_bind (io_bind m f) g = io_bind m (\<lambda>x. io_bind (f x) g)"
  by (auto simp: io_bind_def fun_eq_iff split: option.splits prod.splits sum.splits)

lemma io_bind_Inr [io_Inr]:
  "io_bind m f w = Some (Inr y, w') \<longleftrightarrow> (\<exists>x w1. m w = Some (Inr x, w1) \<and> f x w1 = Some (Inr y, w'))"
  by (auto simp: io_bind_def split: option.splits prod.splits sum.splits)

lemma io_bind_total:
  assumes "m w \<noteq> None" and "\<And>x w1. m w = Some (Inr x, w1) \<Longrightarrow> f x w1 \<noteq> None"
  shows "io_bind m f w \<noteq> None"
  using assms by (auto simp: io_bind_def split: option.splits prod.splits sum.splits)

lemma io_catch_Inr [io_Inr]:
  "io_catch m h w = Some (Inr y, w') \<longleftrightarrow>
     m w = Some (Inr y, w') \<or> (\<exists>err w1. m w = Some (Inl err, w1) \<and> h err w1 = Some (Inr y, w'))"
  by (auto simp: io_catch_def split: option.splits prod.splits sum.splits)

lemma io_return_Inr [simp]: "io_return x w = Some (Inr y, w') \<longleftrightarrow> y = x \<and> w' = w"
  by (auto simp: io_return_def)

lemma io_error_Inr [simp]: "io_error e w \<noteq> Some (Inr y, w')"
  by (simp add: io_error_def)

lemma io_panic_Inr [simp]: "io_panic w \<noteq> Some (Inr y, w')"
  by (simp add: io_panic_def)

lemma io_lift_Inr [simp]: "io_lift r w = Some (Inr y, w') \<longleftrightarrow> r = Some (Inr y) \<and> w' = w"
  by (cases r) (auto simp: io_lift_def)

lemma io_call_Inr [simp]: "io_call f w = Some (Inr y, w') \<longleftrightarrow> f w = (Inr y, w')"
  by (simp add: io_call_def)

lemma io_gets_Inr [simp]: "io_gets f w = Some (Inr y, w') \<longleftrightarrow> y = f w \<and> w' = w"
  by (auto simp: io_gets_def)

lemma io_modify_Inr [simp]: "io_modify f w = Some (Inr y, w') \<longleftrightarrow> w' = f w"
  by (auto simp: io_modify_def)

lemma io_try_Inr [simp]: "io_try m w = Some (Inr r, w') \<longleftrightarrow> m w = Some (r, w')"
  by (cases "m w") (auto simp: io_try_def)

lemma io_each_Inr:
  "io_each f xs w = Some (Inr ys, w') \<Longrightarrow>
     length ys = length xs \<and> (\<forall>i<length xs. \<exists>w1 w2. f (xs ! i) w1 = Some (Inr (ys ! i), w2))"
proof (induction xs arbitrary: ys w)
  case (Cons x xs)
  then obtain y w1 ys' where "f x w = Some (Inr y, w1)" "io_each f xs w1 = Some (Inr ys', w')" "ys = y # ys'"
    by (auto simp: io_bind_Inr)
  with Cons.IH [of w1 ys'] show ?case
    by (auto simp: nth_Cons split: nat.splits)
qed simp

section \<open>Polling\<close>

definition io_fails :: "('w, 'a) io \<Rightarrow> 'w \<Rightarrow> bool" where
  "io_fails m w \<longleftrightarrow> (\<exists>err w'. m w = Some (Inl err, w'))"

lemma io_poll_task:
  assumes "0 < gap"
  shows "poll_task (io_task clk m) gap (\<lambda>w. \<not> io_fails m w)"
proof
  fix w
  consider "m w = None" | err w' where "m w = Some (Inl err, w')" | x w' where "m w = Some (Inr x, w')"
    by (metis option.exhaust surj_pair sum.exhaust)
  note cases = this
  show "asks_retry (fst (io_task clk m w)) \<longleftrightarrow> \<not> \<not> io_fails m w"
    by (rule cases) (simp_all add: io_task_def asks_retry_def io_fails_def)
  show "\<exists>out. final_result (fst (io_task clk m w)) = Inr out" if "\<not> io_fails m w"
    by (rule cases) (use that in \<open>simp_all add: io_task_def final_result_def io_fails_def\<close>)
qed (rule assms)

lemma io_task_value:
  assumes "final_result (fst (io_task clk m w)) = Inr out"
  shows "(out = None \<and> m w = None) \<or> (\<exists>x. out = Some x \<and> m w = Some (Inr x, snd (snd (io_task clk m w))))"
  using assms by (auto simp: io_task_def final_result_def split: option.splits prod.splits sum.splits)

text \<open>A poll that succeeds has run its body to success, and one in which no attempt in time panics
  succeeds or times out.\<close>

lemma io_poll_Inr_at:
  assumes "0 < gap" "io_poll clk m timeout gap w = Some (Inr x, w')"
  shows "\<exists>k. m (world_at (io_task clk m) k w) = Some (Inr x, w')"
proof -
  have "DoRetryWithTimeout (io_task clk m) timeout gap w = Some (Inr (Some x), w')"
    using assms(2) by (auto simp: io_poll_def split: option.splits prod.splits sum.splits)
  from poll_task.poll_value [OF io_poll_task [OF assms(1)] this]
  obtain k where k: "final_result (outcome (io_task clk m) k w) = Inr (Some x)"
      "w' = world_at (io_task clk m) (Suc k) w"
    by auto
  then have "m (world_at (io_task clk m) k w) = Some (Inr x, w')"
    using io_task_value [of clk m "world_at (io_task clk m) k w" "Some x"]
    by (auto simp: outcome_def world_at_Suc simp del: world_at.simps)
  then show ?thesis ..
qed

lemma io_poll_Inr:
  assumes "0 < gap" "io_poll clk m timeout gap w = Some (Inr x, w')"
  shows "\<exists>w0. m w0 = Some (Inr x, w')"
  using io_poll_Inr_at [OF assms] by blast

lemma io_poll_returns:
  assumes "0 < gap"
  shows "io_poll clk m timeout gap w = None \<or>
     (case io_poll clk m timeout gap w of
        Some (Inr x, w') \<Rightarrow> \<exists>k. int (start_at (io_task clk m) gap k w) < timeout \<and>
          m (world_at (io_task clk m) k w) = Some (Inr x, w')
      | Some (Inl err, w') \<Rightarrow> (\<exists>s. err = ErrTimedOut s) \<and>
          (\<forall>k. int (start_at (io_task clk m) gap k w) < timeout \<longrightarrow> io_fails m (world_at (io_task clk m) k w))
      | None \<Rightarrow> False)"
proof (cases rule: poll_task.poll_cases [OF io_poll_task [OF assms], of clk m w timeout, case_names found never])
  case (found k out)
  from io_task_value [OF found(3) [unfolded outcome_def]] show ?thesis
    unfolding io_poll_def found(4) using found(1)
    by (auto simp: world_at_Suc simp del: world_at.simps)
next
  case (never s w')
  then show ?thesis by (simp add: io_poll_def)
qed

lemma io_poll_first:
  assumes "m w = Some (Inr x, w')" "0 < timeout"
  shows "io_poll clk m timeout gap w = Some (Inr x, w')"
proof -
  have "retry_loop (io_task clk m) timeout gap 0 [] w = Some (Inr (Some x), [], w')"
    using assms by (subst retry_loop.simps) (simp add: io_task_def)
  then show ?thesis
    by (simp add: io_poll_def DoRetryWithTimeout_def)
qed

lemma io_poll_total:
  assumes "0 < gap" "\<And>w. m w \<noteq> None"
  shows "io_poll clk m timeout gap w \<noteq> None"
proof (cases rule: poll_task.poll_cases [OF io_poll_task [OF assms(1)], of clk m w timeout, case_names found never])
  case (found k out)
  from io_task_value [OF found(3) [unfolded outcome_def]] assms(2) show ?thesis
    unfolding io_poll_def found(4) by auto
next
  case (never s w')
  then show ?thesis by (simp add: io_poll_def)
qed

section \<open>Invariants\<close>

text \<open>An invariant of the world that a call keeps, whether it succeeds or fails.\<close>

definition keeps :: "('w \<Rightarrow> bool) \<Rightarrow> ('w, 'a) io \<Rightarrow> bool" where
  "keeps I m \<longleftrightarrow> (\<forall>w r w'. m w = Some (r, w') \<longrightarrow> I w \<longrightarrow> I w')"

named_theorems keeps_intros \<open>calls that keep an invariant\<close>

lemma keepsI: "(\<And>w r w'. m w = Some (r, w') \<Longrightarrow> I w \<Longrightarrow> I w') \<Longrightarrow> keeps I m"
  by (auto simp: keeps_def)

lemma keepsD: "keeps I m \<Longrightarrow> m w = Some (r, w') \<Longrightarrow> I w \<Longrightarrow> I w'"
  by (simp only: keeps_def)

lemma keeps_bind [keeps_intros]:
  assumes "keeps I m" "\<And>x. keeps I (f x)"
  shows "keeps I (io_bind m f)"
proof (rule keepsI)
  fix w r w'
  assume b: "io_bind m f w = Some (r, w')" and w: "I w"
  consider e where "m w = Some (Inl e, w')" | x w1 where "m w = Some (Inr x, w1)" "f x w1 = Some (r, w')"
    using b by (auto simp: io_bind_def split: option.splits prod.splits sum.splits)
  then show "I w'"
    using assms w by cases (blast dest: keepsD)+
qed

lemma keeps_catch [keeps_intros]:
  assumes "keeps I m" "\<And>e. keeps I (h e)"
  shows "keeps I (io_catch m h)"
proof (rule keepsI)
  fix w r w'
  assume b: "io_catch m h w = Some (r, w')" and w: "I w"
  consider x where "m w = Some (Inr x, w')" | e w1 where "m w = Some (Inl e, w1)" "h e w1 = Some (r, w')"
    using b by (auto simp: io_catch_def split: option.splits prod.splits sum.splits)
  then show "I w'"
    using assms w by cases (blast dest: keepsD)+
qed

lemma keeps_simple [keeps_intros]:
  "keeps I (io_return x)" "keeps I (io_error e)" "keeps I io_panic" "keeps I (io_gets f)"
  by (auto simp: keeps_def io_return_def io_error_def io_panic_def io_gets_def)

lemma keeps_try [keeps_intros]: "keeps I m \<Longrightarrow> keeps I (io_try m)"
  by (auto simp: keeps_def io_try_def)

lemma keeps_modify: "(\<And>w. I w \<Longrightarrow> I (f w)) \<Longrightarrow> keeps I (io_modify f)"
  by (auto simp: keeps_def io_modify_def)

lemma keeps_step: "keeps I m \<Longrightarrow> I w \<Longrightarrow> I (snd (snd (io_task clk m w)))"
  by (auto simp: io_task_def keeps_def split: option.splits prod.splits sum.splits)

lemma keeps_poll [keeps_intros]:
  assumes "keeps I m" "0 < gap"
  shows "keeps I (io_poll clk m timeout gap)"
proof (rule keepsI)
  fix w r w'
  assume "io_poll clk m timeout gap w = Some (r, w')" and w: "I w"
  then obtain r' where "DoRetryWithTimeout (io_task clk m) timeout gap w = Some (r', w')"
    by (auto simp: io_poll_def split: option.splits prod.splits sum.splits)
  then show "I w'"
    using retry_inv [of I "io_task clk m"] keeps_step [OF assms(1)] assms(2) w by blast
qed

lemma io_poll_Inr_inv:
  assumes "0 < gap" "keeps I m" "I w" "io_poll clk m timeout gap w = Some (Inr x, w')"
  shows "\<exists>w0. I w0 \<and> m w0 = Some (Inr x, w')"
  using io_poll_Inr_at [OF assms(1,4)] world_at_inv [of I "io_task clk m", OF keeps_step [OF assms(2)] assms(3)] by blast

text \<open>A handler that reads the state and fails.\<close>

lemma io_catch_failing [simp]:
  "io_catch m (\<lambda>e. io_bind (io_gets f) (\<lambda>n. io_error (g e n))) w = Some (Inr y, w') \<longleftrightarrow> m w = Some (Inr y, w')"
  by (auto simp: io_catch_Inr io_bind_Inr)

lemma keeps_cases:
  "(c \<Longrightarrow> keeps I m) \<Longrightarrow> (\<not> c \<Longrightarrow> keeps I m') \<Longrightarrow> keeps I (if c then m else m')"
  "(\<And>x. r = Inl x \<Longrightarrow> keeps I (f x)) \<Longrightarrow> (\<And>y. r = Inr y \<Longrightarrow> keeps I (g y)) \<Longrightarrow>
     keeps I (case r of Inl x \<Rightarrow> f x | Inr y \<Rightarrow> g y)"
  "(q = None \<Longrightarrow> keeps I m) \<Longrightarrow> (\<And>z. q = Some z \<Longrightarrow> keeps I (h z)) \<Longrightarrow>
     keeps I (case q of None \<Rightarrow> m | Some z \<Rightarrow> h z)"
  by (simp, simp split: sum.splits, simp split: option.splits)

section \<open>Calls that always return\<close>

definition returns :: "('w, 'a) io \<Rightarrow> bool" where
  "returns m \<longleftrightarrow> (\<forall>w. m w \<noteq> None)"

named_theorems returns_intros \<open>calls that return from every world\<close>

lemma returnsI: "(\<And>w. m w \<noteq> None) \<Longrightarrow> returns m"
  by (auto simp: returns_def)

lemma returnsD: "returns m \<Longrightarrow> \<exists>r w'. m w = Some (r, w')"
  by (auto simp: returns_def)

lemma returns_simple [returns_intros]:
  "returns (io_return x)" "returns (io_error e)" "returns (io_gets f)" "returns (io_modify g)" "returns (io_call h)"
  by (simp_all add: returns_def io_return_def io_error_def io_gets_def io_modify_def io_call_def)

lemma returns_bind [returns_intros]: "returns m \<Longrightarrow> (\<And>x. returns (f x)) \<Longrightarrow> returns (io_bind m f)"
  by (rule returnsI, rule io_bind_total) (simp_all add: returns_def)

lemma returns_catch [returns_intros]: "returns m \<Longrightarrow> (\<And>e. returns (h e)) \<Longrightarrow> returns (io_catch m h)"
  by (auto simp: returns_def io_catch_def split: option.splits prod.splits sum.splits)

lemma returns_try [returns_intros]: "returns m \<Longrightarrow> returns (io_try m)"
  by (simp add: returns_def io_try_def)

lemma returns_poll [returns_intros]: "returns m \<Longrightarrow> 0 < gap \<Longrightarrow> returns (io_poll clk m timeout gap)"
  by (rule returnsI, rule io_poll_total) (simp_all add: returns_def)

lemma returns_each [returns_intros]: "(\<And>x. returns (f x)) \<Longrightarrow> returns (io_each f xs)"
  by (induction xs) (simp_all add: returns_intros)

lemma returns_cases:
  "(c \<Longrightarrow> returns m) \<Longrightarrow> (\<not> c \<Longrightarrow> returns m') \<Longrightarrow> returns (if c then m else m')"
  "(\<And>x. r = Inl x \<Longrightarrow> returns (f x)) \<Longrightarrow> (\<And>y. r = Inr y \<Longrightarrow> returns (g y)) \<Longrightarrow>
     returns (case r of Inl x \<Rightarrow> f x | Inr y \<Rightarrow> g y)"
  "(q = None \<Longrightarrow> returns n) \<Longrightarrow> (\<And>z. q = Some z \<Longrightarrow> returns (h z)) \<Longrightarrow>
     returns (case q of None \<Rightarrow> n | Some z \<Rightarrow> h z)"
  by (simp, simp split: sum.splits, simp split: option.splits)

end
