(* ===== verification/AutopilotEstimate.thy ===== *)
theory AutopilotEstimate
  imports AutopilotRules GoFloat GoIO
begin

text \<open>
  The sizes that the Portworx driver expects autopilot to reach
  (\<open>drivers/volume/portworx/portworx.go\<close>): \<open>EstimatePoolExpandSize\<close> and \<open>EstimateVolumeExpand\<close> apply
  the actions of a rule for as long as its conditions hold. Sizes are 64 bit words and wrap; metrics
  are doubles. The loops are unbounded in the code: \<open>None\<close> is a run that never returns.

  Parameters: \<open>resource.ParseQuantity\<close> (the bytes of a Kubernetes quantity, or a syntax error), the
  numbers that \<open>ParseFloat\<close> reads in notations other than decimal, and the conversion of a float out
  of range.
\<close>

section \<open>Shared helpers\<close>

record estimate_env =
  ParseQuantity :: "string \<Rightarrow> u64 option"
  parse_float_other :: "string \<Rightarrow> f64"
  out_of_range :: "rat \<Rightarrow> u64"

datatype 'a ending = Panics | Returns "go_error + 'a"

definition GiB :: u64 where "GiB = 2 ^ 30"

definition doesConditionMatch :: "estimate_env \<Rightarrow> f64 \<Rightarrow> LabelSelectorRequirement \<Rightarrow> bool option" where
  "doesConditionMatch env expectedMetricValue ex = (case ex_Values ex of
     [] \<Rightarrow> None
   | v # _ \<Rightarrow> (let condExprValue = ParseFloat (parse_float_other env) v in
       Some (f64_less expectedMetricValue condExprValue \<and> ex_Operator ex = LabelSelectorOpLt \<or>
             f64_less condExprValue expectedMetricValue \<and> ex_Operator ex = LabelSelectorOpGt)))"

text \<open>The second component tells whether both parses failed; then the size is 0.\<close>

definition parseMaxSize :: "estimate_env \<Rightarrow> string \<Rightarrow> u64 \<times> bool" where
  "parseMaxSize env maxSize = (case ParseUint maxSize of
     Some mSize \<Rightarrow> (mSize, False)
   | None \<Rightarrow> (case ParseQuantity env maxSize of None \<Rightarrow> (0, True) | Some a \<Rightarrow> (a, False)))"

section \<open>Pools\<close>

fun check_pool_actions :: "RuleAction list \<Rightarrow> string \<Rightarrow> go_error + string" where
  "check_pool_actions [] actionScaleType = Inr actionScaleType"
| "check_pool_actions (a # as) actionScaleType =
     (if act_Name a \<noteq> StorageSpecAction
      then Inl (ErrNotSupported (act_Name a) ''EstimatePoolExpandSize for action'')
      else if act_Params a = [] then Inl (ErrNotSupported ''without params'' ''Pool expand action'')
      else if gm_index [] (act_Params a) RuleScaleType = []
      then Inl (ErrNotSupported ''without param for scale type'' ''Pool expand action'')
      else check_pool_actions as (gm_index [] (act_Params a) RuleScaleType))"

definition pool_base_usage :: "estimate_env \<Rightarrow> u64 \<Rightarrow> u64" where
  "pool_base_usage env initialSize =
     (if initialSize < 32 * GiB then 3 * GiB
      else u64_of_float (out_of_range env) (fl64 (float_of_u64 initialSize / 10)))"

fun base_disk_size :: "StorageMedium \<Rightarrow> StorageResource list \<Rightarrow> u64 \<Rightarrow> u64" where
  "base_disk_size medium [] base = base"
| "base_disk_size medium (d # ds) base =
     base_disk_size medium ds (if res_Medium d = medium then res_Size d else base)"

definition pool_metric :: "string \<Rightarrow> u64 \<Rightarrow> u64 \<Rightarrow> f64 option" where
  "pool_metric key totalSize workloadSize =
     (if key = PxPoolAvailableCapacityMetric then
        (let availableSize = totalSize - workloadSize in
         Some (f64_div (float_of_i64 (availableSize * 100)) (float_of_u64 totalSize)))
      else if key = PxPoolTotalCapacityMetric then Some (f64_div (float_of_u64 totalSize) (2 ^ 30))
      else None)"

definition pool_scale_size :: "estimate_env \<Rightarrow> RuleAction \<Rightarrow> u64 \<Rightarrow> go_error + rat" where
  "pool_scale_size env a totalSize = (case map_of (act_Params a) RuleActionsScalePercentage of
     Some v \<Rightarrow> (case ParseUint v of
         None \<Rightarrow> Inl (ParseUint_error v)
       | Some actionScalePercentage \<Rightarrow> Inr (float_of_u64 (totalSize * actionScalePercentage div 100)))
   | None \<Rightarrow> (case map_of (act_Params a) RuleActionsScaleSize of
         Some v \<Rightarrow> (case ParseUint v of
             Some actionScaleSize \<Rightarrow> Inr (float_of_u64 actionScaleSize)
           | None \<Rightarrow> (case ParseQuantity env v of
                 None \<Rightarrow> Inl (ParseUint_error v)
               | Some q \<Rightarrow> Inr (float_of_u64 q)))
       | None \<Rightarrow> Inr 0))"

definition pool_grow :: "estimate_env \<Rightarrow> string \<Rightarrow> u64 \<Rightarrow> nat \<Rightarrow> rat \<Rightarrow> u64 \<Rightarrow> u64" where
  "pool_grow env actionScaleType baseDiskSize disks requiredScaleSize totalSize =
     (if actionScaleType = RuleScaleTypeAddDisk then
        (let requiredNewDisks = u64_of_float (out_of_range env)
               (of_int \<lceil>fl64 (requiredScaleSize / float_of_u64 baseDiskSize)\<rceil>) in
         totalSize + requiredNewDisks * baseDiskSize)
      else totalSize + u64_of_float (out_of_range env) requiredScaleSize * of_nat disks)"

fun pool_actions :: "estimate_env \<Rightarrow> string \<Rightarrow> u64 \<Rightarrow> nat \<Rightarrow> RuleAction list \<Rightarrow> u64 \<Rightarrow> go_error + u64" where
  "pool_actions env scaleType base disks [] totalSize = Inr totalSize"
| "pool_actions env scaleType base disks (a # as) totalSize =
     (case pool_scale_size env a totalSize of
        Inl e \<Rightarrow> Inl e
      | Inr req \<Rightarrow> pool_actions env scaleType base disks as (pool_grow env scaleType base disks req totalSize))"

text \<open>One pass over the conditions: \<open>Inl\<close> ends the estimate, \<open>Inr\<close> is the size of the next pass.\<close>

fun pool_pass :: "estimate_env \<Rightarrow> string \<Rightarrow> u64 \<Rightarrow> nat \<Rightarrow> u64 \<Rightarrow> RuleAction list \<Rightarrow>
    LabelSelectorRequirement list \<Rightarrow> u64 \<Rightarrow> u64 ending + u64" where
  "pool_pass env scaleType base disks workloadSize as [] totalSize = Inr totalSize"
| "pool_pass env scaleType base disks workloadSize as (ex # exs) totalSize =
     (case pool_metric (ex_Key ex) totalSize workloadSize of
        None \<Rightarrow> Inl (Returns (Inl (ErrNotSupported (ex_Key ex) ''Pool Condition Expression Key'')))
      | Some metricValue \<Rightarrow> (case doesConditionMatch env metricValue ex of
            None \<Rightarrow> Inl Panics
          | Some True \<Rightarrow> (case pool_actions env scaleType base disks as totalSize of
                Inl e \<Rightarrow> Inl (Returns (Inl e))
              | Inr totalSize' \<Rightarrow> pool_pass env scaleType base disks workloadSize as exs totalSize')
          | Some False \<Rightarrow> Inl (Returns (Inr (totalSize - totalSize mod GiB)))))"

partial_function (option) pass_loop :: "('s \<Rightarrow> 'r + 's) \<Rightarrow> 's \<Rightarrow> 'r option" where
  "pass_loop pass s = (case pass s of Inl r \<Rightarrow> Some r | Inr s' \<Rightarrow> pass_loop pass s')"

definition EstimatePoolExpandSize ::
  "estimate_env \<Rightarrow> AutopilotRule \<Rightarrow> StoragePool \<Rightarrow> Node \<Rightarrow> u64 ending option" where
  "EstimatePoolExpandSize env apRule pool n = (case check_pool_actions (rule_Actions apRule) [] of
     Inl e \<Rightarrow> Some (Returns (Inl e))
   | Inr actionScaleType \<Rightarrow>
      (let initialSize = pool_TotalSize (sp_StoragePoolAtInit pool);
           workloadSize = sp_WorkloadSize pool + pool_base_usage env initialSize in
       case StorageNode n of
         None \<Rightarrow> Some Panics
       | Some sn \<Rightarrow>
          (let baseDiskSize = base_disk_size (pool_Medium (sp_StoragePoolAtInit pool)) (gm_values (sn_Disks sn)) 0 in
           if baseDiskSize = 0
           then Some (Returns (Inl (Errorf (''failed to detect base disk size for pool: '' @
                  pool_Uuid (sp_StoragePool pool)))))
           else pass_loop (pool_pass env actionScaleType baseDiskSize (length (sn_Disks sn)) workloadSize
                  (rule_Actions apRule) (rule_Expressions apRule)) initialSize)))"

section \<open>Volumes\<close>

fun check_volume_actions :: "RuleAction list \<Rightarrow> go_error option" where
  "check_volume_actions [] = None"
| "check_volume_actions (a # as) =
     (if act_Name a \<noteq> VolumeSpecAction
      then Some (ErrNotSupported (act_Name a) ''EstimateVolumeExpand for action'')
      else check_volume_actions as)"

definition volume_metric :: "string \<Rightarrow> u64 \<Rightarrow> u64 \<Rightarrow> f64 option" where
  "volume_metric key totalSize workloadSize =
     (if key = PxVolumeUsagePercentMetric then
        Some (f64_div (fl64 (float_of_i64 workloadSize * 100)) (float_of_u64 totalSize))
      else if key = PxVolumeTotalCapacityMetric then Some (f64_div (float_of_u64 totalSize) (10 ^ 9))
      else None)"

text \<open>The state of the loop is the size and the number of resizes; a call returns a size and a count.\<close>

fun volume_actions :: "estimate_env \<Rightarrow> u64 \<Rightarrow> RuleAction list \<Rightarrow> u64 \<times> nat \<Rightarrow>
    (go_error + u64 \<times> nat) + u64 \<times> nat" where
  "volume_actions env initialSize [] (totalSize, resizeCount) = Inr (totalSize, resizeCount)"
| "volume_actions env initialSize (a # as) (totalSize, resizeCount) =
     (let limit = map_option (fst \<circ> parseMaxSize env) (map_of (act_Params a) RuleMaxSize) in
      if (case limit of None \<Rightarrow> False | Some maxSize \<Rightarrow> maxSize \<le> totalSize)
      then Inl (Inr (totalSize, 0))
      else (let v = gm_index [] (act_Params a) RuleActionsScalePercentage in
        case ParseUint v of
          None \<Rightarrow> Inl (Inl (ParseUint_error v))
        | Some actionScalePercentage \<Rightarrow>
            (let requiredScaleSize = float_of_u64 (totalSize * actionScalePercentage div 100);
                 totalSize' = totalSize + u64_of_float (out_of_range env) requiredScaleSize;
                 resizeCount' = (if totalSize' \<noteq> initialSize then Suc resizeCount else resizeCount) in
             case limit of
               Some maxSize \<Rightarrow>
                 if maxSize \<noteq> 0 \<and> maxSize \<le> totalSize' then Inl (Inr (maxSize, resizeCount'))
                 else volume_actions env initialSize as (totalSize', resizeCount')
             | None \<Rightarrow> volume_actions env initialSize as (totalSize', resizeCount'))))"

fun volume_pass :: "estimate_env \<Rightarrow> u64 \<Rightarrow> u64 \<Rightarrow> RuleAction list \<Rightarrow> LabelSelectorRequirement list \<Rightarrow>
    u64 \<times> nat \<Rightarrow> (u64 \<times> nat) ending + u64 \<times> nat" where
  "volume_pass env initialSize workloadSize as [] s = Inr s"
| "volume_pass env initialSize workloadSize as (ex # exs) s =
     (case volume_metric (ex_Key ex) (fst s) workloadSize of
        None \<Rightarrow> Inl (Returns (Inl (ErrNotSupported (ex_Key ex) ''Volume Condition Expression Key'')))
      | Some expectedMetricValue \<Rightarrow> (case doesConditionMatch env expectedMetricValue ex of
            None \<Rightarrow> Inl Panics
          | Some True \<Rightarrow> (case volume_actions env initialSize as s of
                Inl r \<Rightarrow> Inl (Returns r)
              | Inr s' \<Rightarrow> volume_pass env initialSize workloadSize as exs s')
          | Some False \<Rightarrow> Inl (Returns (Inr s))))"

definition EstimateVolumeExpand ::
  "estimate_env \<Rightarrow> AutopilotRule \<Rightarrow> u64 \<Rightarrow> u64 \<Rightarrow> (u64 \<times> nat) ending option" where
  "EstimateVolumeExpand env apRule initialSize workloadSize =
     (case check_volume_actions (rule_Actions apRule) of
        Some e \<Rightarrow> Some (Returns (Inl e))
      | None \<Rightarrow> pass_loop (volume_pass env initialSize workloadSize (rule_Actions apRule)
                  (rule_Expressions apRule)) (initialSize, 0))"

section \<open>Laws of the loop\<close>

lemma pass_loop_Inl [simp]: "pass s = Inl r \<Longrightarrow> pass_loop pass s = Some r"
  by (simp add: pass_loop.simps [of pass s])

lemma pass_loop_Inr: "pass s = Inr s' \<Longrightarrow> pass_loop pass s = pass_loop pass s'"
  by (simp add: pass_loop.simps [of pass s])

lemma pass_loop_result:
  "pass_loop pass s = Some r \<Longrightarrow>
     (\<forall>s s'. I s \<longrightarrow> pass s = Inr s' \<longrightarrow> I s') \<longrightarrow> I s \<longrightarrow> (\<exists>s'. I s' \<and> pass s' = Inl r)"
proof (erule pass_loop.raw_induct [rotated])
  fix loop pass s r
  assume IH: "\<And>pass s r. loop pass s = Some r \<Longrightarrow>
      (\<forall>s s'. I s \<longrightarrow> pass s = Inr s' \<longrightarrow> I s') \<longrightarrow> I s \<longrightarrow> (\<exists>s'. I s' \<and> pass s' = Inl r)"
    and eq: "(case pass s of Inl r \<Rightarrow> Some r | Inr s' \<Rightarrow> loop pass s') = Some r"
  show "(\<forall>s s'. I s \<longrightarrow> pass s = Inr s' \<longrightarrow> I s') \<longrightarrow> I s \<longrightarrow> (\<exists>s'. I s' \<and> pass s' = Inl r)"
  proof (cases "pass s")
    case (Inl r')
    with eq show ?thesis by auto
  next
    case (Inr s')
    with eq IH [of pass s' r] show ?thesis by simp
  qed
qed

text \<open>The contract of a pass: what it keeps while it goes on, and a bound on how often it does.\<close>

locale invariant_pass =
  fixes pass :: "'s \<Rightarrow> 'r + 's" and I :: "'s \<Rightarrow> bool"
  assumes keeps: "I s \<Longrightarrow> pass s = Inr s' \<Longrightarrow> I s'"
begin

lemma loop_result:
  assumes "pass_loop pass s = Some r" and "I s"
  shows "\<exists>s'. I s' \<and> pass s' = Inl r"
  using assms pass_loop_result [of pass s r I] keeps by blast

lemma loop_forever:
  assumes "\<And>s. I s \<Longrightarrow> \<exists>s'. pass s = Inr s'" and "I s"
  shows "pass_loop pass s = None"
  using assms loop_result [of s] by (cases "pass_loop pass s") fastforce+

lemma loop_returns:
  assumes less: "\<And>s s'. I s \<Longrightarrow> pass s = Inr s' \<Longrightarrow> (m s' :: nat) < m s" and "I s"
  shows "\<exists>s' r. pass_loop pass s = Some r \<and> I s' \<and> pass s' = Inl r"
  using assms(2)
proof (induction "m s" arbitrary: s rule: less_induct)
  case less
  show ?case
  proof (cases "pass s")
    case (Inl r)
    then show ?thesis using less.prems by auto
  next
    case (Inr s')
    then show ?thesis
      using less.hyps [of s'] less.prems assms(1) keeps by (auto simp: pass_loop_Inr)
  qed
qed

end

section \<open>Volumes under a maximal size\<close>

definition volume_condition :: "LabelSelectorRequirement \<Rightarrow> bool" where
  "volume_condition ex \<longleftrightarrow>
     (ex_Key ex = PxVolumeUsagePercentMetric \<or> ex_Key ex = PxVolumeTotalCapacityMetric) \<and> ex_Values ex \<noteq> []"

text \<open>An action that grows a volume by \<open>p\<close> percent up to \<open>m\<close> bytes, where no product leaves the
  integers that a double holds exactly.\<close>

definition capped_action :: "estimate_env \<Rightarrow> u64 \<Rightarrow> u64 \<Rightarrow> RuleAction \<Rightarrow> bool" where
  "capped_action env m p a \<longleftrightarrow>
     map_option (fst \<circ> parseMaxSize env) (map_of (act_Params a) RuleMaxSize) = Some m \<and>
     ParseUint (gm_index [] (act_Params a) RuleActionsScalePercentage) = Some p \<and>
     1 \<le> p \<and> unat m * unat p < 2 ^ 53"

lemma volume_condition_cases:
  assumes "volume_condition ex"
  shows "\<exists>v b. volume_metric (ex_Key ex) t w = Some v \<and> doesConditionMatch env v ex = Some b"
  using assms by (auto simp: volume_condition_def volume_metric_def doesConditionMatch_def Let_def split: list.splits)

lemma percent_growth:
  fixes t m p :: u64 and oor :: "rat \<Rightarrow> u64"
  assumes "100 \<le> t" "t < m" "1 \<le> p" "unat m * unat p < 2 ^ 53"
  defines "t' \<equiv> t + u64_of_float oor (float_of_u64 (t * p div 100))"
  shows "t < t'"
proof -
  have le: "unat t * unat p \<le> unat m * unat p"
    using assms(2) by (simp add: word_less_nat_alt)
  then have lt: "unat t * unat p < 2 ^ 53"
    using assms(4) by (rule le_less_trans)
  then have "unat t * unat p < 2 ^ 64"
    by (rule less_le_trans) simp
  then have prod: "unat (t * p) = unat t * unat p"
    by (simp add: unat_word_ariths)
  then have quot: "unat (t * p div 100) = unat t * unat p div 100"
    by (simp add: unat_div)
  let ?n = "unat t * unat p div 100"
  have small: "?n < 2 ^ 53"
    using div_le_dividend lt by (rule le_less_trans)
  have "100 * 1 \<le> unat t * unat p"
    using assms(1,3) by (intro mult_le_mono) (simp_all add: word_le_nat_alt)
  then have pos: "1 \<le> ?n" by simp
  have t: "unat t < 2 ^ 53"
  proof -
    have "unat t * 1 \<le> unat t * unat p"
      using assms(3) by (intro mult_le_mono2) (simp add: word_le_nat_alt)
    then have "unat t \<le> unat t * unat p" by (simp only: mult_1_right)
    then show ?thesis using lt by (rule le_less_trans)
  qed
  have "t' = t + of_nat ?n"
    unfolding t'_def float_of_u64_exact [OF quot small] using small by (simp add: u64_of_float_nat)
  then have "unat t' = unat t + ?n"
    using small t by (simp add: unat_word_ariths unat_of_nat)
  then show ?thesis
    using pos by (simp add: word_less_nat_alt)
qed

lemma volume_actions_capped:
  assumes cap: "capped_action env m p a" and s: "100 \<le> fst s" "fst s < m"
  shows "(\<exists>c. volume_actions env i [a] s = Inl (Inr (m, c))) \<or>
         (\<exists>s'. volume_actions env i [a] s = Inr s' \<and> fst s < fst s' \<and> fst s' < m)"
proof -
  obtain t c where tc: "s = (t, c)" by (cases s)
  let ?t = "t + u64_of_float (out_of_range env) (float_of_u64 (t * p div 100))"
  have grow: "t < ?t"
    using cap s by (intro percent_growth [of t m p]) (simp_all add: capped_action_def tc)
  have lim: "map_option (fst \<circ> parseMaxSize env) (map_of (act_Params a) RuleMaxSize) = Some m"
    and pct: "ParseUint (gm_index [] (act_Params a) RuleActionsScalePercentage) = Some p"
    using cap by (simp_all only: capped_action_def)
  have "\<not> m \<le> t" "m \<noteq> 0"
    using s(2) unfolding tc by auto
  then have "\<exists>c'. volume_actions env i [a] s =
      (if m \<le> ?t then Inl (Inr (m, c')) else Inr (?t, c'))"
    unfolding tc volume_actions.simps lim Let_def pct by simp
  with grow show ?thesis
    unfolding tc by (cases "m \<le> ?t") auto
qed

lemma volume_pass_capped:
  assumes "capped_action env m p a" "list_all volume_condition exs" "100 \<le> fst s" "fst s < m"
  shows "(\<exists>t c. volume_pass env i w [a] exs s = Inl (Returns (Inr (t, c))) \<and> fst s \<le> t \<and> t \<le> m) \<or>
         (\<exists>s'. volume_pass env i w [a] exs s = Inr s' \<and> fst s \<le> fst s' \<and> fst s' < m \<and>
              (exs \<noteq> [] \<longrightarrow> fst s < fst s'))"
  using assms(2-)
proof (induction exs arbitrary: s)
  case Nil
  then show ?case by simp
next
  case (Cons ex exs)
  obtain v b where vb: "volume_metric (ex_Key ex) (fst s) w = Some v" "doesConditionMatch env v ex = Some b"
    using volume_condition_cases Cons.prems(1) by fastforce
  show ?case
  proof (cases b)
    case False
    with vb Cons.prems show ?thesis by (cases s) simp
  next
    case True
    show ?thesis
      using volume_actions_capped [OF assms(1) Cons.prems(2,3), of i]
    proof (elim disjE exE conjE)
      fix c assume "volume_actions env i [a] s = Inl (Inr (m, c))"
      with True vb Cons.prems show ?thesis by simp
    next
      fix s' assume s': "volume_actions env i [a] s = Inr s'" "fst s < fst s'" "fst s' < m"
      with Cons.prems have "list_all volume_condition exs" "100 \<le> fst s'" by auto
      from Cons.IH [OF this s'(3)] True vb s' show ?thesis
        by (auto intro: less_imp_le order_trans less_le_trans)
    qed
  qed
qed

text \<open>The states of the estimate from \<open>initialSize\<close> bytes under a capped action.\<close>

definition capped_state :: "estimate_env \<Rightarrow> u64 \<Rightarrow> u64 \<Rightarrow> u64 \<Rightarrow> RuleAction \<Rightarrow>
    LabelSelectorRequirement list \<Rightarrow> u64 \<times> nat \<Rightarrow> bool" where
  "capped_state env initialSize m p a exs s \<longleftrightarrow> capped_action env m p a \<and> list_all volume_condition exs \<and>
     100 \<le> initialSize \<and> initialSize \<le> fst s \<and> fst s < m"

interpretation capped_volume: invariant_pass "volume_pass env initialSize w [a] exs"
  "capped_state env initialSize m p a exs" for env initialSize w a exs m p
proof
  fix s s'
  assume "capped_state env initialSize m p a exs s" "volume_pass env initialSize w [a] exs s = Inr s'"
  then show "capped_state env initialSize m p a exs s'"
    using volume_pass_capped [of env m p a exs s initialSize w]
    by (auto simp: capped_state_def dest: order_trans)
qed

lemma capped_volume_returns:
  assumes "capped_state env initialSize m p a exs (initialSize, 0)" and "exs \<noteq> []"
  shows "\<exists>size count. pass_loop (volume_pass env initialSize w [a] exs) (initialSize, 0) =
           Some (Returns (Inr (size, count))) \<and> initialSize \<le> size \<and> size \<le> m"
proof -
  have cap: "capped_action env m p a" "list_all volume_condition exs" "100 \<le> initialSize"
    using assms(1) by (auto simp: capped_state_def)
  have "unat m - unat (fst s') < unat m - unat (fst s)"
    if "capped_state env initialSize m p a exs s" "volume_pass env initialSize w [a] exs s = Inr s'" for s s'
  proof -
    have "100 \<le> fst s" "fst s < m"
      using that(1) by (auto simp: capped_state_def dest: order_trans)
    then have "fst s < fst s'"
      using volume_pass_capped [OF cap(1,2), of s initialSize w] assms(2) that(2) by auto
    then show ?thesis
      using \<open>fst s < m\<close> by (simp add: word_less_nat_alt)
  qed
  from capped_volume.loop_returns [of env initialSize m p a exs w "\<lambda>s. unat m - unat (fst s)", OF this assms(1)]
  obtain s r where s: "pass_loop (volume_pass env initialSize w [a] exs) (initialSize, 0) = Some r"
      "capped_state env initialSize m p a exs s" "volume_pass env initialSize w [a] exs s = Inl r"
    by blast
  moreover have "100 \<le> fst s" "fst s < m" "initialSize \<le> fst s"
    using s(2) by (auto simp: capped_state_def dest: order_trans)
  ultimately show ?thesis
    using volume_pass_capped [OF cap(1,2), of s initialSize w] by (auto dest: order_trans)
qed

text \<open>The rules of package \<open>aututils\<close> for volumes.\<close>

datatype volume_rule = ByTotalSize int | ByUsageCapacity int

fun build_volume_rule :: "volume_rule \<Rightarrow> int \<Rightarrow> string \<Rightarrow> AutopilotRule" where
  "build_volume_rule (ByTotalSize capacity) scalePercentage maxSize = PVCRuleByTotalSize capacity scalePercentage maxSize"
| "build_volume_rule (ByUsageCapacity usage) scalePercentage maxSize = PVCRuleByUsageCapacity usage scalePercentage maxSize"

definition volume_params :: "int \<Rightarrow> string \<Rightarrow> (string, string) gomap" where
  "volume_params p maxSize = (if maxSize = [] then [(RuleActionsScalePercentage, show_int p)]
     else gm_put RuleMaxSize maxSize [(RuleActionsScalePercentage, show_int p)])"

lemma build_volume_rule_actions:
  "rule_Actions (build_volume_rule r p maxSize) =
     [\<lparr>act_Name = VolumeSpecAction, act_Params = volume_params p maxSize\<rparr>]"
  by (cases r) (simp_all add: PVCRuleByTotalSize_def PVCRuleByUsageCapacity_def with_max_size_def volume_params_def)

lemma build_volume_rule_conditions:
  "list_all volume_condition (rule_Expressions (build_volume_rule r p maxSize))"
  "rule_Expressions (build_volume_rule r p maxSize) \<noteq> []"
  by (cases r; simp add: PVCRuleByTotalSize_def PVCRuleByUsageCapacity_def with_max_size_def volume_condition_def)+

lemma volume_params_index:
  "gm_index [] (volume_params p maxSize) RuleActionsScalePercentage = show_int p"
  "map_of (volume_params p maxSize) RuleMaxSize = (if maxSize = [] then None else Some maxSize)"
  by (simp_all add: volume_params_def gm_index_def rule_constants)

lemma ParseUint_show_int: "0 \<le> i \<Longrightarrow> i < 2 ^ 64 \<Longrightarrow> ParseUint (show_int i) = Some (word_of_int i)"
  using ParseUint_show_u64 [of "word_of_int i"]
  by (simp add: show_int_def show_u64_def unat_eq_nat_uint uint_word_of_int del: ParseUint_show_u64)

lemma EstimateVolumeExpand_rule:
  "EstimateVolumeExpand env (build_volume_rule r p maxSize) initialSize w =
     pass_loop (volume_pass env initialSize w
       [\<lparr>act_Name = VolumeSpecAction, act_Params = volume_params p maxSize\<rparr>]
       (rule_Expressions (build_volume_rule r p maxSize))) (initialSize, 0)"
  by (simp add: EstimateVolumeExpand_def build_volume_rule_actions)

text \<open>C23: For a volume rule of package \<open>aututils\<close> with a maximal size \<open>m\<close> that parses, the estimate
  always returns, with a size between the initial and the maximal size. The rule scales by at least
  one percent from at least 100 bytes, and no product of a size below \<open>m\<close> and the percentage leaves
  the integers that a double holds exactly.\<close>

theorem volume_estimate_bounded:
  assumes "maxSize \<noteq> []" and "parseMaxSize env maxSize = (m, False)"
    and "1 \<le> p" and "unat m * nat p < 2 ^ 53" and "100 \<le> initialSize" and "initialSize < m"
  shows "\<exists>size count. EstimateVolumeExpand env (build_volume_rule r p maxSize) initialSize workloadSize =
           Some (Returns (Inr (size, count))) \<and> initialSize \<le> size \<and> size \<le> m"
proof -
  have "unat m \<noteq> 0"
    using assms(6) by (simp add: unat_eq_0) auto
  then have "1 * nat p \<le> unat m * nat p"
    by (intro mult_le_mono1) simp
  then have lt: "nat p < 2 ^ 53"
    using assms(4) by (simp only: mult_1)
  have p: "unat (word_of_int p :: u64) = nat p"
    using assms(3) lt by (simp add: unat_eq_nat_uint uint_word_of_int)
  have "capped_action env m (word_of_int p) \<lparr>act_Name = VolumeSpecAction, act_Params = volume_params p maxSize\<rparr>"
    using assms(1-4) lt p ParseUint_show_int [of p]
    by (simp add: capped_action_def volume_params_index word_le_nat_alt)
  then show ?thesis
    unfolding EstimateVolumeExpand_rule
    using assms(5,6) build_volume_rule_conditions
    by (intro capped_volume_returns [where p = "word_of_int p"]) (simp_all add: capped_state_def)
qed

definition decimal_env :: estimate_env where
  "decimal_env = \<lparr>ParseQuantity = (\<lambda>_. None), parse_float_other = (\<lambda>_. Fin 0), out_of_range = (\<lambda>_. 0)\<rparr>"

theorem volume_estimate_bounded_witness:
  "\<exists>size count. EstimateVolumeExpand decimal_env (build_volume_rule (ByTotalSize 5) 50 ''1000'') 200 0 =
     Some (Returns (Inr (size, count))) \<and> 200 \<le> size \<and> size \<le> 1000"
  by (rule volume_estimate_bounded)
     (simp_all add: parseMaxSize_def ParseUint_def digit_val_def Let_def)

text \<open>When the maximal size of a volume rule does not parse, \<open>parseMaxSize\<close> yields 0, every size has
  reached it, and the estimate is the initial size with no resize, whatever the rule and the load.\<close>

theorem unparsable_max_size_stops_growth:
  assumes "maxSize \<noteq> []" and "snd (parseMaxSize env maxSize)"
  shows "EstimateVolumeExpand env (build_volume_rule r p maxSize) initialSize workloadSize =
    Some (Returns (Inr (initialSize, 0)))"
proof -
  let ?a = "\<lparr>act_Name = VolumeSpecAction, act_Params = volume_params p maxSize\<rparr>"
  have zero: "fst (parseMaxSize env maxSize) = 0"
    using assms(2) by (auto simp: parseMaxSize_def split: option.splits)
  have act: "volume_actions env initialSize [?a] (initialSize, 0) = Inl (Inr (initialSize, 0))"
    using assms(1) zero by (simp add: volume_params_index)
  obtain ex exs where exs: "rule_Expressions (build_volume_rule r p maxSize) = ex # exs"
    using build_volume_rule_conditions(2) by (cases "rule_Expressions (build_volume_rule r p maxSize)") blast+
  obtain v b where "volume_metric (ex_Key ex) initialSize workloadSize = Some v" "doesConditionMatch env v ex = Some b"
    using volume_condition_cases build_volume_rule_conditions(1) [of r p maxSize] exs by fastforce
  then have "volume_pass env initialSize workloadSize [?a] (ex # exs) (initialSize, 0) =
      Inl (Returns (Inr (initialSize, 0)))"
    using act by (cases b) simp_all
  then show ?thesis
    unfolding EstimateVolumeExpand_rule exs by (rule pass_loop_Inl)
qed

theorem unparsable_max_size_stops_growth_witness:
  "EstimateVolumeExpand decimal_env (build_volume_rule (ByUsageCapacity 70) 50 ''400 GB'') 1000 900 =
     Some (Returns (Inr (1000, 0)))"
  by (rule unparsable_max_size_stops_growth)
     (simp_all add: parseMaxSize_def ParseUint_def digit_val_def decimal_env_def Let_def)

section \<open>Pools that grow to a total size\<close>

lemma gib_metric:
  assumes "l \<le> 2 ^ 20" and "T < 2 ^ 64"
  shows "fl64 (fl64 (of_nat T) / 2 ^ 30) < of_nat l \<longleftrightarrow> T < l * 2 ^ 30"
proof (cases "T < l * 2 ^ 30")
  case True
  then have T: "T < 2 ^ 53"
    using assms(1) by simp
  have "fl64 (of_nat T / 2 ^ 30) = of_nat T / 2 ^ 30"
  proof (cases "T = 0")
    case False
    then show ?thesis
      using representableI [of "int T" "- 30"] T by (simp add: fl64_representable power_int_minus field_simps)
  qed simp
  moreover have "(of_nat T :: rat) < of_nat (l * 2 ^ 30)"
    using True by (simp only: of_nat_less_iff)
  ultimately show ?thesis
    using True T by (simp add: fl64_nat field_simps)
next
  case False
  have T: "(of_nat T :: rat) \<le> 2 ^ 64"
    using assms(2) of_nat_less_iff [of T "2 ^ 64", where 'a = rat] by simp
  have "of_nat l \<le> fl64 (fl64 (of_nat T) / 2 ^ 30)"
  proof (cases "l = 0")
    case True
    have "0 \<le> fl64 (of_nat T) / 2 ^ 30" "fl64 (of_nat T) / 2 ^ 30 \<le> 2 ^ 64"
      using f64_of_small [OF _ T] by (simp_all add: field_simps)
    then show ?thesis
      using f64_of_small(2) True by simp
  next
    case l: False
    have "(of_nat (l * 2 ^ 30) :: rat) \<le> of_nat T"
      using False by (intro of_nat_mono) simp
    then have "of_nat (l * 2 ^ 30) \<le> fl64 (of_nat T)"
      using assms(1) l by (intro fl64_ge representable_nat) simp_all
    then have "of_nat l \<le> fl64 (of_nat T) / 2 ^ 30"
      by (simp add: field_simps)
    then show ?thesis
      using assms(1) l by (intro fl64_ge representable_nat) simp_all
  qed
  then show ?thesis
    using False by simp
qed

lemma total_capacity_match:
  assumes "unat L \<le> 2 ^ 20" "ex_Key ex = PxPoolTotalCapacityMetric" "ex_Operator ex = LabelSelectorOpLt"
    "ex_Values ex = [show_u64 L]"
  shows "\<exists>v. pool_metric (ex_Key ex) t w = Some v \<and>
           doesConditionMatch env v ex = Some (unat t < unat L * 2 ^ 30)"
proof -
  obtain l T where l: "unat L = l" and T: "unat t = T" by simp
  have "T < 2 ^ 64"
    using unsigned_less [of t, where 'a = nat] T by simp
  then have le: "(of_nat T :: rat) \<le> 2 ^ 64"
    using of_nat_less_iff [of T "2 ^ 64", where 'a = rat] by simp
  then have "0 \<le> fl64 (of_nat T) / 2 ^ 30" "fl64 (of_nat T) / 2 ^ 30 \<le> 2 ^ 64"
    using f64_of_small [OF _ le] by (simp_all add: field_simps)
  then have metric: "f64_div (float_of_u64 t) (2 ^ 30) = Fin (fl64 (fl64 (of_nat T) / 2 ^ 30))"
    unfolding f64_div_def float_of_u64_def T by (simp add: f64_of_small)
  have "ParseFloat other (show_u64 L) = Fin (of_nat l)" for other
    using assms(1) l by (intro ParseFloat_show_u64) simp_all
  then show ?thesis
    using assms metric gib_metric [of l T] \<open>T < 2 ^ 64\<close> unfolding l T
    by (simp add: pool_metric_def doesConditionMatch_def rule_constants)
qed

text \<open>The number of disks: at least one, and no more than the exact quotient rounded up.\<close>

lemma disk_count:
  assumes "0 < n" "n < 2 ^ 53" "0 < B" "B < 2 ^ 53"
  obtains k where "\<lceil>fl64 (of_nat n / fl64 (of_nat B))\<rceil> = int k" "1 \<le> k" "k * B < n + B" "k \<le> n"
proof -
  let ?x = "(of_nat n :: rat) / of_nat B"
  have B: "fl64 (of_nat B) = of_nat B"
    using assms(4) by (rule fl64_nat)
  have x: "0 < ?x" using assms by simp
  have "?x \<le> of_nat n"
    using assms by (simp add: field_simps)
  then have cn: "\<lceil>?x\<rceil> \<le> int n"
    by (simp add: ceiling_le_iff)
  have c1: "1 \<le> \<lceil>?x\<rceil>" using x by (simp add: one_le_ceiling)
  have rep: "representable (of_int \<lceil>?x\<rceil>)"
    using representable_nat [of "nat \<lceil>?x\<rceil>"] c1 cn assms(2) by simp
  have up: "\<lceil>fl64 ?x\<rceil> \<le> \<lceil>?x\<rceil>"
    using fl64_le [OF rep x le_of_int_ceiling] by (simp add: ceiling_le_iff)
  have "1 / 2 ^ 53 \<le> ?x"
  proof -
    have "(1 :: rat) / 2 ^ 53 \<le> 1 / of_nat B"
      using assms of_nat_less_iff [of B "2 ^ 53", where 'a = rat] by (intro divide_left_mono) simp_all
    also have "\<dots> \<le> ?x"
      using assms by (intro divide_right_mono) simp_all
    finally show ?thesis .
  qed
  moreover have "representable (1 / 2 ^ 53)"
    using representableI [of 1 "- 53"] by (simp add: power_int_minus field_simps)
  ultimately have "1 / 2 ^ 53 \<le> fl64 ?x"
    by (intro fl64_ge)
  then have "0 < fl64 ?x" by (rule less_le_trans [rotated]) simp
  then have lo: "1 \<le> \<lceil>fl64 ?x\<rceil>" by (simp add: one_le_ceiling)
  have "of_int \<lceil>?x\<rceil> < ?x + 1" by linarith
  then have "of_int \<lceil>?x\<rceil> * of_nat B < (?x + 1) * of_nat B"
    using assms(3) by (intro mult_strict_right_mono) simp_all
  also have "\<dots> = of_nat (n + B)"
    using assms(3) by (simp add: field_simps)
  finally have hi: "of_int (\<lceil>?x\<rceil> * int B) < (of_int (int (n + B)) :: rat)" by simp
  have "\<lceil>fl64 ?x\<rceil> * int B \<le> \<lceil>?x\<rceil> * int B"
    using up by (intro mult_right_mono) simp_all
  also have "\<dots> < int (n + B)" using hi by (simp only: of_int_less_iff)
  finally have hi: "\<lceil>fl64 ?x\<rceil> * int B < int (n + B)" .
  obtain k where k: "\<lceil>fl64 ?x\<rceil> = int k"
    using lo by (metis int_one_le_iff_zero_less zero_le_imp_eq_int zle_int order_trans zero_le_one)
  have "1 \<le> k" "k * B < n + B" "k \<le> n"
    using lo hi up cn unfolding k by (simp_all flip: of_nat_mult of_nat_add)
  with k show thesis
    by (intro that [of k]) (simp_all only: B)
qed

lemma add_disk_growth:
  fixes t base p :: u64
  assumes t: "100 \<le> t" "unat t < 2 ^ 50" and p: "1 \<le> p" "p \<le> 100" and base: "base \<noteq> 0" "unat base < 2 ^ 50"
  obtains k where "1 \<le> k" "k * unat base \<le> unat t + unat base"
    "unat (pool_grow env RuleScaleTypeAddDisk base disks (float_of_u64 (t * p div 100)) t) =
       unat t + k * unat base"
proof -
  have up: "unat p \<le> 100" and lp: "1 \<le> unat p" and lt: "100 \<le> unat t"
    using p t by (simp_all add: word_le_nat_alt)
  have prod: "unat t * unat p \<le> unat t * 100"
    using up by (rule mult_le_mono2)
  moreover have "unat t * 100 < 2 ^ 64"
    using t(2) by simp
  ultimately have "unat t * unat p < 2 ^ 64"
    by (rule le_less_trans)
  then have quot: "unat (t * p div 100) = unat t * unat p div 100"
    by (simp add: unat_word_ariths unat_div)
  let ?n = "unat t * unat p div 100"
  have nt: "?n \<le> unat t"
    using prod by (simp add: div_le_mono [of _ "unat t * 100" 100, simplified])
  have "100 * 1 \<le> unat t * unat p"
    using lt lp by (rule mult_le_mono)
  then have n1: "0 < ?n" by simp
  have n53: "?n < 2 ^ 53" using nt t(2) by simp
  have b: "0 < unat base" using base(1) by (simp add: unat_gt_0)
  have b53: "unat base < 2 ^ 53" using base(2) by simp
  obtain k where k: "\<lceil>fl64 (of_nat ?n / fl64 (of_nat (unat base)))\<rceil> = int k" "1 \<le> k"
      "k * unat base < ?n + unat base" "k \<le> ?n"
    using disk_count [OF n1 n53 b b53] .
  have "float_of_u64 (t * p div 100) = of_nat ?n" "float_of_u64 base = fl64 (of_nat (unat base))"
    using float_of_u64_exact [OF quot n53] by (simp_all only: float_of_u64_def)
  then have "pool_grow env RuleScaleTypeAddDisk base disks (float_of_u64 (t * p div 100)) t =
      t + u64_of_float (out_of_range env) (of_int (int k)) * base"
    unfolding pool_grow_def Let_def by (simp only: k(1)) simp
  also have "\<dots> = t + of_nat k * base"
    using u64_of_float_nat [of k] k(4) n53 by simp
  finally have eq: "pool_grow env RuleScaleTypeAddDisk base disks (float_of_u64 (t * p div 100)) t =
      t + of_nat k * base" .
  have "k * unat base < 2 ^ 52"
    using k(3) nt t(2) base(2) by simp
  then have "unat (t + of_nat k * base) = unat t + k * unat base"
    using t(2) k(4) n53 by (simp add: unat_word_ariths unat_of_nat)
  then show thesis
    using that [of k] k nt eq by simp
qed

definition add_disk_rule_pass where
  "add_disk_rule_pass env base disks w L p labels =
     pool_pass env RuleScaleTypeAddDisk base disks w
       (rule_Actions (PoolRuleByTotalSize L p RuleScaleTypeAddDisk labels))
       (rule_Expressions (PoolRuleByTotalSize L p RuleScaleTypeAddDisk labels))"

lemma add_disk_rule_pass_eq:
  assumes "unat L \<le> 2 ^ 20"
  shows "add_disk_rule_pass env base disks w L p labels t =
    (if unat t < unat L * 2 ^ 30
     then Inr (pool_grow env RuleScaleTypeAddDisk base disks (float_of_u64 (t * p div 100)) t)
     else Inl (Returns (Inr (t - t mod GiB))))"
proof -
  let ?ex = "\<lparr>ex_Key = PxPoolTotalCapacityMetric, ex_KeyAlias = [], ex_Operator = LabelSelectorOpLt,
    ex_Values = [show_u64 L]\<rparr>"
  obtain v where "pool_metric (ex_Key ?ex) t w = Some v"
      "doesConditionMatch env v ?ex = Some (unat t < unat L * 2 ^ 30)"
    using total_capacity_match [OF assms, of ?ex t w env] by auto
  then show ?thesis
    by (cases "unat t < unat L * 2 ^ 30")
       (simp_all add: add_disk_rule_pass_def PoolRuleByTotalSize_def pool_scale_size_def)
qed

text \<open>Sizes that the estimate reaches from \<open>s0\<close> by adding disks of \<open>base\<close> bytes.\<close>

definition disks_added :: "u64 \<Rightarrow> u64 \<Rightarrow> u64 \<Rightarrow> u64 \<Rightarrow> u64 \<Rightarrow> bool" where
  "disks_added L p base s0 t \<longleftrightarrow> unat L \<le> 2 ^ 20 \<and> 1 \<le> p \<and> p \<le> 100 \<and> base \<noteq> 0 \<and> unat base < 2 ^ 50 \<and>
     100 \<le> s0 \<and> (\<exists>k. unat t = unat s0 + k * unat base) \<and>
     unat t \<le> max (unat s0) (2 * unat L * 2 ^ 30 + unat base)"

lemma disks_added_step:
  assumes "disks_added L p base s0 t" "add_disk_rule_pass env base disks w L p labels t = Inr t'"
  shows "disks_added L p base s0 t'" and "unat t < unat L * 2 ^ 30" and "unat t < unat t'"
proof -
  have L: "unat L \<le> 2 ^ 20" and s0: "100 \<le> s0" and p: "1 \<le> p" "p \<le> 100" and b: "base \<noteq> 0" "unat base < 2 ^ 50"
    using assms(1) by (simp_all add: disks_added_def)
  obtain j where j: "unat t = unat s0 + j * unat base"
    using assms(1) by (auto simp: disks_added_def)
  show lt: "unat t < unat L * 2 ^ 30"
    using assms(2) by (auto simp: add_disk_rule_pass_eq [OF L] split: if_splits)
  have t': "t' = pool_grow env RuleScaleTypeAddDisk base disks (float_of_u64 (t * p div 100)) t"
    using assms(2) lt by (simp add: add_disk_rule_pass_eq [OF L])
  have "100 \<le> t"
    using s0 j by (simp add: word_le_nat_alt)
  moreover have "unat t < 2 ^ 50"
    using lt L by simp
  ultimately obtain k where k: "1 \<le> k" "k * unat base \<le> unat t + unat base" "unat t' = unat t + k * unat base"
    using add_disk_growth [OF _ _ p b, of t env disks] t' by metis
  show "unat t < unat t'"
    using k(1,3) b(1) by (simp add: unat_gt_0)
  have "unat t' = unat s0 + (j + k) * unat base"
    using k(3) j by (simp add: add_mult_distrib)
  moreover have "unat t' \<le> 2 * unat L * 2 ^ 30 + unat base"
    using k(2,3) lt by simp
  ultimately show "disks_added L p base s0 t'"
    using L s0 p b unfolding disks_added_def by (intro conjI exI [of _ "j + k"]) simp_all
qed

interpretation add_disk_pass: invariant_pass "add_disk_rule_pass env base disks w L p labels"
  "disks_added L p base s0" for env base disks w L p labels s0
  using disks_added_step(1) by unfold_locales blast

lemma unat_round_GiB: "unat (t - t mod GiB) = unat t div 2 ^ 30 * 2 ^ 30"
proof -
  have mod: "unat (t mod GiB) = unat t mod 2 ^ 30"
    by (simp add: unat_mod GiB_def)
  have "t mod GiB \<le> t"
    by (simp add: word_le_nat_alt mod)
  then show ?thesis
    unfolding unat_sub [OF \<open>t mod GiB \<le> t\<close>] mod by (simp only: minus_mod_eq_div_mult)
qed

text \<open>C21: For the rule that adds disks while a pool has less than \<open>L\<close> GiB (up to a PiB) and scales by
  1 to 100 percent, the estimate of any pool of at least 100 bytes on disks of at most a PiB always
  returns. The size is that of the pool plus a number of whole disks, rounded down to a GiB; it is
  \<open>L\<close> GiB or more, and unless the pool was larger from the start, at most \<open>2 L\<close> GiB and one disk.\<close>

theorem pool_estimate_adds_disks:
  assumes "unat L \<le> 2 ^ 20" and "1 \<le> p" and "p \<le> 100" and "StorageNode n = Some sn"
    and "base = base_disk_size (pool_Medium (sp_StoragePoolAtInit pool)) (gm_values (sn_Disks sn)) 0"
    and "base \<noteq> 0" and "unat base < 2 ^ 50"
    and "s0 = pool_TotalSize (sp_StoragePoolAtInit pool)" and "100 \<le> s0"
  shows "\<exists>size k. EstimatePoolExpandSize env (PoolRuleByTotalSize L p RuleScaleTypeAddDisk labels) pool n =
           Some (Returns (Inr size)) \<and>
         unat size = (unat s0 + k * unat base) div 2 ^ 30 * 2 ^ 30 \<and> unat L * 2 ^ 30 \<le> unat size \<and>
         unat size \<le> max (unat s0) (2 * unat L * 2 ^ 30 + unat base)"
proof -
  define w where "w = sp_WorkloadSize pool + pool_base_usage env s0"
  let ?pass = "add_disk_rule_pass env base (length (sn_Disks sn)) w L p labels"
  have est: "EstimatePoolExpandSize env (PoolRuleByTotalSize L p RuleScaleTypeAddDisk labels) pool n = pass_loop ?pass s0"
    using assms(4-6,8)
    by (simp add: EstimatePoolExpandSize_def add_disk_rule_pass_def PoolRuleByTotalSize_def gm_index_def
          rule_constants w_def Let_def)
  have init: "disks_added L p base s0 s0"
    using assms by (simp add: disks_added_def)
  have "unat L * 2 ^ 30 - unat t' < unat L * 2 ^ 30 - unat t"
    if "disks_added L p base s0 t" "?pass t = Inr t'" for t t'
    using disks_added_step(2,3) [OF that] by simp
  from add_disk_pass.loop_returns [where m = "\<lambda>t. unat L * 2 ^ 30 - unat t", OF this init]
  obtain t r where t: "pass_loop ?pass s0 = Some r" "disks_added L p base s0 t" "?pass t = Inl r"
    by blast
  have r: "r = Returns (Inr (t - t mod GiB))" and ge: "unat L * 2 ^ 30 \<le> unat t"
    using t(3) by (auto simp: add_disk_rule_pass_eq [OF assms(1)] not_less split: if_splits)
  obtain k where k: "unat t = unat s0 + k * unat base"
    and up: "unat t \<le> max (unat s0) (2 * unat L * 2 ^ 30 + unat base)"
    using t(2) by (auto simp: disks_added_def)
  have "unat L \<le> unat t div 2 ^ 30"
    using div_le_mono [OF ge, of "2 ^ 30"] by simp
  then have "unat L * 2 ^ 30 \<le> unat t div 2 ^ 30 * 2 ^ 30"
    by (rule mult_le_mono1)
  moreover have "unat t div 2 ^ 30 * 2 ^ 30 \<le> max (unat s0) (2 * unat L * 2 ^ 30 + unat base)"
    using up by (rule order_trans [rotated]) (rule div_times_less_eq_dividend)
  ultimately show ?thesis
    unfolding est t(1) r using k
    by (intro exI [of _ "t - t mod GiB"] exI [of _ k]) (simp add: unat_round_GiB)
qed

definition sample_pool :: StoragePool where
  "sample_pool = (let p = \<lparr>pool_Uuid = ''p1'', pool_Medium = STORAGE_MEDIUM_SSD, pool_TotalSize = 34359738368,
     pool_Labels = []\<rparr> in \<lparr>sp_StoragePool = p, sp_StoragePoolAtInit = p, sp_WorkloadSize = 0\<rparr>)"

definition sample_disks :: "(string, StorageResource) gomap" where
  "sample_disks = [(''/dev/sdb'', \<lparr>res_Path = ''/dev/sdb'', res_Medium = STORAGE_MEDIUM_SSD, res_Size = 34359738368\<rparr>)]"

definition sample_storage_node :: api_StorageNode where
  "sample_storage_node = \<lparr>sn_Id = ''n1'', sn_Hostname = [], sn_DataIp = [], sn_MgmtIp = [],
     sn_SchedulerNodeName = [], sn_Status = STATUS_OK, sn_Disks = sample_disks, sn_Pools = []\<rparr>"

definition sample_pool_node :: Node where
  "sample_pool_node = zero_Node\<lparr>StorageNode := Some sample_storage_node\<rparr>"

theorem pool_estimate_adds_disks_witness:
  "\<exists>size k. EstimatePoolExpandSize decimal_env (PoolRuleByTotalSize 64 50 RuleScaleTypeAddDisk []) sample_pool sample_pool_node =
      Some (Returns (Inr size)) \<and>
    unat size = (unat (34359738368 :: u64) + k * unat (34359738368 :: u64)) div 2 ^ 30 * 2 ^ 30 \<and>
    unat (64 :: u64) * 2 ^ 30 \<le> unat size \<and>
    unat size \<le> max (unat (34359738368 :: u64)) (2 * unat (64 :: u64) * 2 ^ 30 + unat (34359738368 :: u64))"
  by (rule pool_estimate_adds_disks [where sn = sample_storage_node])
     (simp_all add: sample_pool_def sample_pool_node_def sample_storage_node_def sample_disks_def
        gm_values_def Let_def zero_Node_def)

section \<open>Which rules the estimates support\<close>

text \<open>Every builder of package \<open>aututils\<close> with its arguments.\<close>

datatype built_rule =
    ByTotal u64 u64 string "(string, string) gomap"
  | FixedByTotal u64 string string "(string, string) gomap"
  | ByAvailable u64 u64 string
  | FixedByAvailable int string string
  | RebalanceProvisioned "string list" bool
  | RebalanceUsage "string list" bool
  | RebalanceAbsolute int int bool
  | VolumeRule volume_rule int string

fun build_rule :: "built_rule \<Rightarrow> AutopilotRule" where
  "build_rule (ByTotal g p et ls) = PoolRuleByTotalSize g p et ls"
| "build_rule (FixedByTotal g s et ls) = PoolRuleFixedScaleSizeByTotalSize g s et ls"
| "build_rule (ByAvailable u p et) = PoolRuleByAvailableCapacity u p et"
| "build_rule (FixedByAvailable u s et) = PoolRuleFixedScaleSizeByAvailableCapacity u s et"
| "build_rule (RebalanceProvisioned vals ap) = PoolRuleRebalanceByProvisionedMean vals ap"
| "build_rule (RebalanceUsage vals ap) = PoolRuleRebalanceByUsageMean vals ap"
| "build_rule (RebalanceAbsolute i j ap) = PoolRuleRebalanceAbsolute i j ap"
| "build_rule (VolumeRule r p m) = build_volume_rule r p m"

fun expands_pool :: "built_rule \<Rightarrow> bool" where
  "expands_pool (ByTotal _ _ et _) \<longleftrightarrow> et \<noteq> []"
| "expands_pool (FixedByTotal _ _ et _) \<longleftrightarrow> et \<noteq> []"
| "expands_pool (ByAvailable _ _ et) \<longleftrightarrow> et \<noteq> []"
| "expands_pool (FixedByAvailable _ _ et) \<longleftrightarrow> et \<noteq> []"
| "expands_pool _ \<longleftrightarrow> False"

fun resizes_volume :: "built_rule \<Rightarrow> bool" where
  "resizes_volume (VolumeRule _ _ _) \<longleftrightarrow> True"
| "resizes_volume _ \<longleftrightarrow> False"

fun unsupported :: "'a ending option \<Rightarrow> bool" where
  "unsupported (Some (Returns (Inl (ErrNotSupported _ _)))) \<longleftrightarrow> True"
| "unsupported _ \<longleftrightarrow> False"

definition pool_condition :: "LabelSelectorRequirement \<Rightarrow> bool" where
  "pool_condition ex \<longleftrightarrow> ex_Key ex = PxPoolAvailableCapacityMetric \<or> ex_Key ex = PxPoolTotalCapacityMetric"

lemma pool_condition_metric: "pool_condition ex \<Longrightarrow> \<exists>v. pool_metric (ex_Key ex) t w = Some v"
  by (cases "ex_Key ex = PxPoolAvailableCapacityMetric")
     (simp_all add: pool_condition_def pool_metric_def Let_def)

lemma pool_actions_supported: "pool_actions env st b d as t \<noteq> Inl (ErrNotSupported x y)"
  by (induction as arbitrary: t)
     (auto simp: pool_scale_size_def ParseUint_error_def split: sum.splits option.splits)

lemma pool_pass_supported:
  "list_all pool_condition exs \<Longrightarrow> pool_pass env st b d w as exs t \<noteq> Inl (Returns (Inl (ErrNotSupported x y)))"
proof (induction exs arbitrary: t)
  case (Cons ex exs)
  then obtain v where "pool_metric (ex_Key ex) t w = Some v"
    using pool_condition_metric by fastforce
  with Cons pool_actions_supported [of env st b d as t x y] show ?case
    by (auto split: option.splits bool.splits sum.splits)
qed simp

lemma volume_actions_supported: "volume_actions env i as s \<noteq> Inl (Inl (ErrNotSupported x y))"
proof (induction as arbitrary: s)
  case Nil
  show ?case by (cases s) simp
next
  case (Cons a as)
  obtain t c where "s = (t, c)" by (cases s)
  with Cons show ?case
    by (simp add: ParseUint_error_def Let_def split: option.splits)
qed

lemma volume_pass_supported:
  "list_all volume_condition exs \<Longrightarrow> volume_pass env i w as exs s \<noteq> Inl (Returns (Inl (ErrNotSupported x y)))"
proof (induction exs arbitrary: s)
  case (Cons ex exs)
  then obtain v where "volume_metric (ex_Key ex) (fst s) w = Some v"
    using volume_condition_cases by fastforce
  with Cons volume_actions_supported [of env i as s x y] show ?case
    by (auto split: option.splits bool.splits sum.splits)
qed simp

interpretation any_pool_pass: invariant_pass "pool_pass env st b d w as exs" "\<lambda>_. True"
  for env st b d w as exs
  by unfold_locales simp

interpretation any_volume_pass: invariant_pass "volume_pass env i w as exs" "\<lambda>_. True"
  for env i w as exs
  by unfold_locales simp

lemma unsupported_iff: "unsupported r \<longleftrightarrow> (\<exists>x y. r = Some (Returns (Inl (ErrNotSupported x y))))"
  by (cases r rule: unsupported.cases) auto

lemma pool_loop_supported:
  "list_all pool_condition exs \<Longrightarrow> \<not> unsupported (pass_loop (pool_pass env st b d w as exs) t)"
  using any_pool_pass.loop_result [of env st b d w as exs t] pool_pass_supported [of exs env st b d w as]
  unfolding unsupported_iff by blast

lemma volume_loop_supported:
  "list_all volume_condition exs \<Longrightarrow> \<not> unsupported (pass_loop (volume_pass env i w as exs) s)"
  using any_volume_pass.loop_result [of env i w as exs s] volume_pass_supported [of exs env i w as]
  unfolding unsupported_iff by blast

lemma EstimatePoolExpandSize_supported:
  assumes "list_all pool_condition (rule_Expressions r)"
  shows "unsupported (EstimatePoolExpandSize env r pool n) \<longleftrightarrow>
           (\<exists>x y. check_pool_actions (rule_Actions r) [] = Inl (ErrNotSupported x y))"
  using pool_loop_supported [OF assms]
  by (simp add: EstimatePoolExpandSize_def unsupported_iff Let_def split: sum.splits option.splits)

lemma EstimateVolumeExpand_supported:
  assumes "list_all volume_condition (rule_Expressions r)"
  shows "unsupported (EstimateVolumeExpand env r i w) \<longleftrightarrow>
           (\<exists>x y. check_volume_actions (rule_Actions r) = Some (ErrNotSupported x y))"
  using volume_loop_supported [OF assms]
  by (simp add: EstimateVolumeExpand_def unsupported_iff split: option.splits)

lemmas rule_builder_defs = PoolRuleByTotalSize_def PoolRuleFixedScaleSizeByTotalSize_def
  PoolRuleByAvailableCapacity_def PoolRuleFixedScaleSizeByAvailableCapacity_def
  PoolRuleRebalanceByProvisionedMean_def PoolRuleRebalanceByUsageMean_def PoolRuleRebalanceAbsolute_def
  require_approval_def

lemma pool_rule_supported:
  assumes "check_pool_actions (rule_Actions r) [] = Inl (ErrNotSupported x y)"
  shows "unsupported (EstimatePoolExpandSize env r pool n)"
  using assms by (simp add: EstimatePoolExpandSize_def)

lemma volume_rule_supported:
  assumes "check_volume_actions (rule_Actions r) = Some (ErrNotSupported x y)"
  shows "unsupported (EstimateVolumeExpand env r i w)"
  using assms by (simp add: EstimateVolumeExpand_def)

text \<open>Of the rules that package \<open>aututils\<close> builds, \<open>EstimatePoolExpandSize\<close> answers "not supported"
  exactly for those that do not expand a pool or have no scale type, and
  \<open>EstimateVolumeExpand\<close> exactly for those that do not resize a volume.\<close>

theorem built_rules_supported:
  "(unsupported (EstimatePoolExpandSize env (build_rule r) pool n) \<longleftrightarrow> \<not> expands_pool r) \<and>
   (unsupported (EstimateVolumeExpand env (build_rule r) initialSize workloadSize) \<longleftrightarrow> \<not> resizes_volume r)"
proof
  have names: "RebalanceSpecAction \<noteq> StorageSpecAction" "VolumeSpecAction \<noteq> StorageSpecAction"
    "StorageSpecAction \<noteq> VolumeSpecAction" "RebalanceSpecAction \<noteq> VolumeSpecAction"
    by (simp_all add: rule_constants)
  show "unsupported (EstimatePoolExpandSize env (build_rule r) pool n) \<longleftrightarrow> \<not> expands_pool r"
  proof (cases "\<exists>k p m. r = VolumeRule k p m")
    case True
    then show ?thesis
      using names by (auto simp: build_volume_rule_actions intro!: pool_rule_supported)
  next
    case False
    have "gm_index [] [(a, b), (RuleScaleType, et)] RuleScaleType = et"
      if "a = RuleActionsScalePercentage \<or> a = RuleActionsScaleSize" for a b et :: string
      using that by (auto simp: gm_index_def rule_constants)
    with False names show ?thesis
      by (cases r)
         (auto simp: EstimatePoolExpandSize_supported rule_builder_defs pool_condition_def
           intro!: pool_rule_supported)
  qed
  show "unsupported (EstimateVolumeExpand env (build_rule r) initialSize workloadSize) \<longleftrightarrow> \<not> resizes_volume r"
  proof (cases "\<exists>k p m. r = VolumeRule k p m")
    case True
    then show ?thesis
      by (auto simp: EstimateVolumeExpand_supported build_volume_rule_conditions build_volume_rule_actions)
  next
    case False
    with names show ?thesis
      by (cases r) (auto simp: rule_builder_defs intro!: volume_rule_supported)
  qed
qed

end
