(* ===== verification/PxPools.thy ===== *)
theory PxPools
  imports AutopilotEstimate PxNodes
begin

text \<open>
  How the Portworx driver (\<open>drivers/volume/portworx/portworx.go\<close>) refreshes what it knows of the
  cluster and checks that storage pools reach the sizes their autopilot rules ask for:
  \<open>RefreshDriverEndpoints\<close>, \<open>getExpectedPoolSizes\<close>, \<open>ValidateStoragePools\<close>,
  \<open>IsStorageExpansionEnabled\<close>, \<open>ValidateRebalanceJobs\<close> and \<open>ResizeStoragePoolByPercentage\<close>.

  The state is the driver, the node registry and the rest of the world. The services the driver
  calls are the record \<open>px_services\<close>; \<open>clock\<close> reads the time in nanoseconds, so the time a call takes
  is the difference of two readings. \<open>None\<close> is a call that panics or never returns.
\<close>

section \<open>State and services\<close>

record px_driver =
  drv_token :: string
  drv_namespace :: string
  drv_refreshEndpoint :: bool

record 'w px_state =
  st_driver :: px_driver
  st_registry :: registry
  st_world :: 'w

record 'w px_services =
  clock :: "'w \<Rightarrow> nat"
  config_map :: string
  GetTokenFromConfigMap :: "string \<Rightarrow> 'w \<Rightarrow> string result \<times> 'w"
  GetPortworxNamespace :: "'w \<Rightarrow> string result \<times> 'w"
  InspectCurrentCluster :: "'w \<Rightarrow> Status result \<times> 'w"
  getPxNodes :: "'w \<Rightarrow> api_StorageNode list result \<times> 'w"
  IsPXEnabled :: "'w \<Rightarrow> Node \<Rightarrow> bool result"
  GetKvdbMembers :: "'w \<Rightarrow> Node \<Rightarrow> (string, string list) gomap result"
  fmt_nodes :: "api_StorageNode list \<Rightarrow> string"
  fmt_status :: "Status \<Rightarrow> string"
  ListAutopilotRules :: "'w \<Rightarrow> AutopilotRule list result \<times> 'w"

definition elapsed :: "'w px_services \<Rightarrow> 'w \<Rightarrow> 'w \<Rightarrow> nat" where
  "elapsed svc w w' = clock svc w' - clock svc w"

section \<open>Refreshing the driver\<close>

definition validateClusterStartTimeout :: int where "validateClusterStartTimeout = 2 * minute_ns"

definition cluster_task :: "'w px_services \<Rightarrow> ('w, unit) task_fn" where
  "cluster_task svc w = (case InspectCurrentCluster svc w of
     (Inl err, w1) \<Rightarrow> (((), True, Some err), elapsed svc w w1, w1)
   | (Inr status, w1) \<Rightarrow>
       if status \<noteq> STATUS_OK
       then (((), True, Some (PxErr (ErrFailedToWaitForPx zero_Node (''px cluster is still not up. Status: '' @ fmt_status svc status)))),
             elapsed svc w w1, w1)
       else (((), False, None), elapsed svc w w1, w1))"

definition getStorageNodesOnStart :: "'w px_services \<Rightarrow> 'w \<Rightarrow> (api_StorageNode list result \<times> 'w) option" where
  "getStorageNodesOnStart svc w =
     (case DoRetryWithTimeout (cluster_task svc) validateClusterStartTimeout defaultRetryInterval w of
        None \<Rightarrow> None
      | Some (Inl err, w1) \<Rightarrow> Some (Inl err, w1)
      | Some (Inr _, w1) \<Rightarrow> Some (getPxNodes svc w1))"

definition refresh_nodes :: "'w px_services \<Rightarrow> 'w px_state \<Rightarrow> (go_error option \<times> 'w px_state) option" where
  "refresh_nodes svc s =
     (let s = s\<lparr>st_driver := (st_driver s)\<lparr>drv_refreshEndpoint := True\<rparr>\<rparr> in
      case getStorageNodesOnStart svc (st_world s) of
        None \<Rightarrow> None
      | Some (Inl err, w1) \<Rightarrow> Some (Some err, s\<lparr>st_world := w1\<rparr>)
      | Some (Inr storageNodes, w1) \<Rightarrow>
          if length storageNodes = 0
          then Some (Some (Errorf ''cluster inspect returned empty nodes''), s\<lparr>st_world := w1\<rparr>)
          else (case updateNodes (IsPXEnabled svc w1) (GetKvdbMembers svc w1) (fmt_nodes svc) storageNodes (st_registry s) of
                  (err, r) \<Rightarrow> Some (err, s\<lparr>st_world := w1, st_registry := r\<rparr>)))"

definition refresh_namespace :: "'w px_services \<Rightarrow> 'w px_state \<Rightarrow> (go_error option \<times> 'w px_state) option" where
  "refresh_namespace svc s = (case GetPortworxNamespace svc (st_world s) of
     (Inl err, w1) \<Rightarrow> Some (Some err, s\<lparr>st_world := w1\<rparr>)
   | (Inr namespace, w1) \<Rightarrow>
       refresh_nodes svc (s\<lparr>st_world := w1, st_driver := (st_driver s)\<lparr>drv_namespace := namespace\<rparr>\<rparr>))"

definition RefreshDriverEndpoints :: "'w px_services \<Rightarrow> 'w px_state \<Rightarrow> (go_error option \<times> 'w px_state) option" where
  "RefreshDriverEndpoints svc s =
     (if config_map svc \<noteq> [] then
        (case GetTokenFromConfigMap svc (config_map svc) (st_world s) of
           (Inl err, w1) \<Rightarrow> Some (Some err, s\<lparr>st_world := w1\<rparr>)
         | (Inr token, w1) \<Rightarrow>
             refresh_namespace svc (s\<lparr>st_world := w1, st_driver := (st_driver s)\<lparr>drv_token := token\<rparr>\<rparr>))
      else refresh_namespace svc s)"

section \<open>Expected pool sizes\<close>

text \<open>The loop over the labels of a rule; the flag stays set.\<close>

fun labels_match :: "(string, string) gomap \<Rightarrow> (string, string) gomap \<Rightarrow> (string, string) gomap \<Rightarrow> bool \<Rightarrow> bool" where
  "labels_match apRuleLabels poolLabels [] matched = matched"
| "labels_match apRuleLabels poolLabels ((k, v) # kvs) matched =
     labels_match apRuleLabels poolLabels kvs
       (if gm_index [] apRuleLabels k = gm_index [] poolLabels k \<and> gm_index [] apRuleLabels v = gm_index [] poolLabels v
        then True else matched)"

definition rule_matches :: "AutopilotRule \<Rightarrow> StoragePool \<Rightarrow> bool" where
  "rule_matches apRule pool =
     labels_match (rule_MatchLabels apRule) (pool_Labels (sp_StoragePool pool)) (rule_MatchLabels apRule) False"

type_synonym sizes = "(string, u64) gomap"

fun expect_pools :: "estimate_env \<Rightarrow> AutopilotRule \<Rightarrow> Node \<Rightarrow> StoragePool list \<Rightarrow> sizes \<Rightarrow> sizes ending option" where
  "expect_pools env apRule n [] m = Some (Returns (Inr m))"
| "expect_pools env apRule n (pool # pools) m =
     (let u = pool_Uuid (sp_StoragePool pool) in
      if rule_matches apRule pool then
        (case EstimatePoolExpandSize env apRule pool n of
           None \<Rightarrow> None
         | Some Panics \<Rightarrow> Some Panics
         | Some (Returns (Inl err)) \<Rightarrow> Some (Returns (Inl err))
         | Some (Returns (Inr sz)) \<Rightarrow> expect_pools env apRule n pools (gm_put u sz m))
      else if gm_has m u then expect_pools env apRule n pools m
      else expect_pools env apRule n pools (gm_put u (pool_TotalSize (sp_StoragePoolAtInit pool)) m))"

fun expect_nodes :: "estimate_env \<Rightarrow> AutopilotRule \<Rightarrow> Node list \<Rightarrow> sizes \<Rightarrow> sizes ending option" where
  "expect_nodes env apRule [] m = Some (Returns (Inr m))"
| "expect_nodes env apRule (n # ns) m = (case expect_pools env apRule n (StoragePools n) m of
     Some (Returns (Inr m')) \<Rightarrow> expect_nodes env apRule ns m'
   | r \<Rightarrow> r)"

fun expect_rules :: "estimate_env \<Rightarrow> AutopilotRule list \<Rightarrow> Node list \<Rightarrow> sizes \<Rightarrow> sizes ending option" where
  "expect_rules env [] ns m = Some (Returns (Inr m))"
| "expect_rules env (apRule # rules) ns m = (case expect_nodes env apRule ns m of
     Some (Returns (Inr m')) \<Rightarrow> expect_rules env rules ns m'
   | r \<Rightarrow> r)"

text \<open>The error of the refresh is ignored. The result is \<open>None\<close> when the call panics or never returns.\<close>

definition getExpectedPoolSizes ::
  "estimate_env \<Rightarrow> 'w px_services \<Rightarrow> AutopilotRule list \<Rightarrow> 'w px_state \<Rightarrow> (sizes result \<times> 'w px_state) option" where
  "getExpectedPoolSizes env svc rules s = (case RefreshDriverEndpoints svc s of
     None \<Rightarrow> None
   | Some (_, s1) \<Rightarrow> (case expect_rules env rules (GetWorkerNodes (st_registry s1)) [] of
         Some (Returns r) \<Rightarrow> Some (r, s1)
       | _ \<Rightarrow> None))"

section \<open>Validation of the pools\<close>

text \<open>The loop over the pools: \<open>None\<close> is the early return on a pool that is larger than expected,
  otherwise \<open>allDone\<close>.\<close>

fun check_pools :: "sizes \<Rightarrow> StoragePool list \<Rightarrow> bool \<Rightarrow> bool option" where
  "check_pools m [] allDone = Some allDone"
| "check_pools m (pool # pools) allDone =
     (let expectedSize = gm_index 0 m (pool_Uuid (sp_StoragePool pool));
          actual = pool_TotalSize (sp_StoragePool pool) in
      if expectedSize \<noteq> actual
      then (if actual > expectedSize then None else check_pools m pools False)
      else check_pools m pools allDone)"

fun check_nodes :: "sizes \<Rightarrow> Node list \<Rightarrow> bool \<Rightarrow> bool option" where
  "check_nodes m [] allDone = Some allDone"
| "check_nodes m (n # ns) allDone = (case check_pools m (StoragePools n) allDone of
     None \<Rightarrow> None
   | Some allDone' \<Rightarrow> check_nodes m ns allDone')"

definition pools_task :: "'w px_services \<Rightarrow> sizes \<Rightarrow> ('w px_state, unit) task_fn" where
  "pools_task svc m s = (case RefreshDriverEndpoints svc s of
     None \<Rightarrow> (((), True, Some DeadlineExceeded), 0, s)
   | Some (Some err, s1) \<Rightarrow> (((), True, Some err), elapsed svc (st_world s) (st_world s1), s1)
   | Some (None, s1) \<Rightarrow> (case check_nodes m (GetWorkerNodes (st_registry s1)) True of
         Some False \<Rightarrow> (((), True, Some (Errorf ''some sizes of pools are not as expected'')),
                        elapsed svc (st_world s) (st_world s1), s1)
       | _ \<Rightarrow> (((), False, None), elapsed svc (st_world s) (st_world s1), s1)))"

definition ValidateStoragePools ::
  "estimate_env \<Rightarrow> 'w px_services \<Rightarrow> 'w px_state \<Rightarrow> (go_error option \<times> 'w px_state) option" where
  "ValidateStoragePools env svc s = (case ListAutopilotRules svc (st_world s) of
     (Inl err, w1) \<Rightarrow> Some (Some err, s\<lparr>st_world := w1\<rparr>)
   | (Inr rules, w1) \<Rightarrow>
       (let s1 = s\<lparr>st_world := w1\<rparr> in
        if length rules \<noteq> 0 then
          (case getExpectedPoolSizes env svc rules s1 of
             None \<Rightarrow> None
           | Some (Inl err, s2) \<Rightarrow> Some (Some err, s2)
           | Some (Inr m, s2) \<Rightarrow>
               (case DoRetryWithTimeout (pools_task svc m) validateStoragePoolSizeTimeout
                       validateStoragePoolSizeInterval s2 of
                  None \<Rightarrow> None
                | Some (Inl err, s3) \<Rightarrow> Some (Some err, s3)
                | Some (Inr _, s3) \<Rightarrow> Some (None, s3)))
        else Some (None, s1)))"

section \<open>Rules that select a pool\<close>

fun some_pool_has :: "string \<Rightarrow> string \<Rightarrow> StoragePool list \<Rightarrow> bool" where
  "some_pool_has k v [] = False"
| "some_pool_has k v (pool # pools) = (case map_of (pool_Labels (sp_StoragePool pool)) k of
     Some poolLabelValue \<Rightarrow> if poolLabelValue = v then True else some_pool_has k v pools
   | None \<Rightarrow> some_pool_has k v pools)"

fun some_label_matches :: "(string, string) gomap \<Rightarrow> StoragePool list \<Rightarrow> bool" where
  "some_label_matches [] sPools = False"
| "some_label_matches ((k, v) # kvs) sPools = (if some_pool_has k v sPools then True else some_label_matches kvs sPools)"

definition isAutopilotMatchStoragePoolLabels :: "AutopilotRule \<Rightarrow> StoragePool list \<Rightarrow> bool" where
  "isAutopilotMatchStoragePoolLabels apRule sPools = some_label_matches (rule_MatchLabels apRule) sPools"

definition IsStorageExpansionEnabled :: "'w px_services \<Rightarrow> 'w px_state \<Rightarrow> (bool result \<times> 'w px_state) option" where
  "IsStorageExpansionEnabled svc s = (case RefreshDriverEndpoints svc s of
     None \<Rightarrow> None
   | Some (_, s1) \<Rightarrow> (case ListAutopilotRules svc (st_world s1) of
         (Inl err, w1) \<Rightarrow> Some (Inl err, s1\<lparr>st_world := w1\<rparr>)
       | (Inr rules, w1) \<Rightarrow>
           Some (Inr (list_ex (\<lambda>apRule. list_ex (\<lambda>n. isAutopilotMatchStoragePoolLabels apRule (StoragePools n))
                   (GetWorkerNodes (st_registry s1))) rules), s1\<lparr>st_world := w1\<rparr>)))"

section \<open>Jobs of the pools\<close>

definition validateRebalanceJobsTimeout :: int where "validateRebalanceJobsTimeout = 30 * minute_ns"
definition validateRebalanceJobsInterval :: int where "validateRebalanceJobsInterval = 30 * second_ns"

datatype StorageRebalanceJobState = JOB_PENDING | JOB_RUNNING | JOB_DONE | JOB_PAUSED | JOB_CANCELLED

text \<open>A job is its id and its state; \<open>show_state\<close> prints a state.\<close>

fun jobs_done :: "(StorageRebalanceJobState \<Rightarrow> string) \<Rightarrow> (string \<times> StorageRebalanceJobState) list \<Rightarrow> go_error option" where
  "jobs_done show_state [] = None"
| "jobs_done show_state ((job, state) # jobs) =
     (if state \<noteq> JOB_DONE
      then Some (Errorf (''rebalance job is not done. Job ID: '' @ job @ '', State: '' @ show_state state))
      else jobs_done show_state jobs)"

definition rebalance_task where
  "rebalance_task EnumerateRebalanceJobs show_state w = (case EnumerateRebalanceJobs w of
     (Inl err, d, w1) \<Rightarrow> (((), True, Some err), d, w1)
   | (Inr jobs, d, w1) \<Rightarrow> (case jobs_done show_state jobs of
         Some err \<Rightarrow> (((), True, Some err), d, w1)
       | None \<Rightarrow> (((), False, None), d, w1)))"

definition ValidateRebalanceJobs where
  "ValidateRebalanceJobs EnumerateRebalanceJobs show_state w =
     (case DoRetryWithTimeout (rebalance_task EnumerateRebalanceJobs show_state)
             validateRebalanceJobsTimeout validateRebalanceJobsInterval w of
        None \<Rightarrow> None
      | Some (Inl err, w') \<Rightarrow> Some (Some err, w')
      | Some (Inr _, w') \<Rightarrow> Some (None, w'))"

text \<open>\<open>Resize uuid operation percentage\<close> is the request to the pool service.\<close>

definition resize_task where
  "resize_task Resize poolUUID e percentage w = (case Resize poolUUID e percentage w of
     (Some err, d, w1) \<Rightarrow> (((), True, Some err), d, w1)
   | (None, d, w1) \<Rightarrow> (((), False, None), d, w1))"

definition ResizeStoragePoolByPercentage where
  "ResizeStoragePoolByPercentage Resize poolUUID e percentage w =
     (case DoRetryWithTimeout (resize_task Resize poolUUID e percentage)
             validateRebalanceJobsTimeout validateRebalanceJobsInterval w of
        None \<Rightarrow> None
      | Some (Inl err, w') \<Rightarrow> Some (Some err, w')
      | Some (Inr _, w') \<Rightarrow> Some (None, w'))"

section \<open>The refresh returns and forgets\<close>

lemma getStorageNodesOnStart_returns: "getStorageNodesOnStart svc w \<noteq> None"
proof -
  have "0 < defaultRetryInterval" by (simp add: wait_times)
  then obtain x where "DoRetryWithTimeout (cluster_task svc) validateClusterStartTimeout defaultRetryInterval w = Some x"
    using retry_total by (metis not_None_eq)
  then show ?thesis
    by (auto simp: getStorageNodesOnStart_def split: prod.splits sum.splits)
qed

lemma refresh_nodes_returns: "refresh_nodes svc s \<noteq> None"
  using getStorageNodesOnStart_returns [of svc "st_world s"]
  by (auto simp: refresh_nodes_def Let_def split: option.splits prod.splits sum.splits)

text \<open>A refresh stops with an error before it changes the registry, or it refreshes the nodes.\<close>

lemma refresh_namespace_cases:
  obtains (early) err s1 where "refresh_namespace svc s = Some (Some err, s1)"
  | (nodes) s1 where "st_registry s1 = st_registry s" "refresh_namespace svc s = refresh_nodes svc s1"
proof -
  obtain ns w1 where ns: "GetPortworxNamespace svc (st_world s) = (ns, w1)"
    by (cases "GetPortworxNamespace svc (st_world s)")
  show thesis
  proof (cases ns)
    case (Inl err)
    then show thesis using early ns by (simp add: refresh_namespace_def)
  next
    case (Inr namespace)
    then show thesis
      using nodes [of "s\<lparr>st_world := w1, st_driver := (st_driver s)\<lparr>drv_namespace := namespace\<rparr>\<rparr>"] ns
      by (simp add: refresh_namespace_def)
  qed
qed

lemma RefreshDriverEndpoints_cases:
  obtains (early) err s1 where "RefreshDriverEndpoints svc s = Some (Some err, s1)"
  | (nodes) s1 where "st_registry s1 = st_registry s" "RefreshDriverEndpoints svc s = refresh_nodes svc s1"
proof (cases "config_map svc = []")
  case True
  then have "RefreshDriverEndpoints svc s = refresh_namespace svc s"
    by (simp add: RefreshDriverEndpoints_def)
  then show thesis
    using early nodes by (cases rule: refresh_namespace_cases [of svc s]) metis+
next
  case cm: False
  obtain tok w1 where tok: "GetTokenFromConfigMap svc (config_map svc) (st_world s) = (tok, w1)"
    by (cases "GetTokenFromConfigMap svc (config_map svc) (st_world s)")
  show thesis
  proof (cases tok)
    case (Inl err)
    then show thesis using early cm tok by (simp add: RefreshDriverEndpoints_def)
  next
    case (Inr t)
    let ?s = "s\<lparr>st_world := w1, st_driver := (st_driver s)\<lparr>drv_token := t\<rparr>\<rparr>"
    have eq: "RefreshDriverEndpoints svc s = refresh_namespace svc ?s"
      using cm tok Inr by (simp add: RefreshDriverEndpoints_def)
    show thesis
    proof (cases rule: refresh_namespace_cases [of svc ?s])
      case (early err s1)
      then show thesis using eq that(1) by simp
    next
      case (nodes s1)
      then show thesis using eq that(2) [of s1] by simp
    qed
  qed
qed

lemma RefreshDriverEndpoints_returns: "RefreshDriverEndpoints svc s \<noteq> None"
  by (cases rule: RefreshDriverEndpoints_cases [of svc s]) (simp_all add: refresh_nodes_returns)

lemma refresh_nodes_ok:
  assumes "refresh_nodes svc s = Some (None, s')"
  shows "\<exists>pxNodes. pxNodes \<noteq> [] \<and>
    updateNodes (IsPXEnabled svc (st_world s')) (GetKvdbMembers svc (st_world s')) (fmt_nodes svc) pxNodes (st_registry s) =
      (None, st_registry s')"
  using assms by (auto simp: refresh_nodes_def Let_def split: option.splits prod.splits sum.splits if_splits)

lemma RefreshDriverEndpoints_ok:
  assumes "RefreshDriverEndpoints svc s = Some (None, s')"
  shows "\<exists>pxNodes. pxNodes \<noteq> [] \<and>
    updateNodes (IsPXEnabled svc (st_world s')) (GetKvdbMembers svc (st_world s')) (fmt_nodes svc) pxNodes (st_registry s) =
      (None, st_registry s')"
proof (cases rule: RefreshDriverEndpoints_cases [of svc s])
  case (nodes s1)
  then show ?thesis using assms refresh_nodes_ok [of svc s1 s'] by simp
qed (use assms in simp)

text \<open>A pool as a refresh leaves it: its size at the start is its present size, without a workload.\<close>

definition fresh_pool :: "StoragePool \<Rightarrow> bool" where
  "fresh_pool p \<longleftrightarrow> sp_StoragePoolAtInit p = sp_StoragePool p \<and> sp_WorkloadSize p = 0"

lemma with_px_fresh: "sn_Pools p \<noteq> [] \<Longrightarrow> list_all fresh_pool (StoragePools (with_px b p n))"
  by (simp add: with_px_def Let_def new_storage_pool_def fresh_pool_def list_all_iff)

lemma refreshed_node:
  assumes "registry_inv (st_registry s)" and "RefreshDriverEndpoints svc s = Some (None, s')"
    and "map_of (st_registry s) k = Some n" and "IsPXEnabled svc (st_world s') n = Inr True"
  shows "\<exists>n' p. map_of (st_registry s') k = Some n' \<and> StorageNode n' = Some p \<and>
    (sn_Pools p = [] \<or> list_all fresh_pool (StoragePools n'))"
proof -
  obtain pxNodes where upd: "updateNodes (IsPXEnabled svc (st_world s')) (GetKvdbMembers svc (st_world s'))
      (fmt_nodes svc) pxNodes (st_registry s) = (None, st_registry s')"
    using RefreshDriverEndpoints_ok [OF assms(2)] by blast
  have "n \<in> set (GetNodes (st_registry s))"
    using assms(1,3) by (auto simp: GetNodes_values set_gm_values registry_inv_ok ran_def)
  then obtain a p where "find_px n (Addresses n) pxNodes = Some (a, p)"
    using updateNodes_ok(3) [OF assms(1) upd] assms(4) by auto
  then have "\<exists>b. map_of (st_registry s') k = Some (with_px b p n)"
    using updateNodes_ok(2) [OF assms(1) upd, of k] assms(3,4) by (auto simp: px_node_def)
  then obtain b where "map_of (st_registry s') k = Some (with_px b p n)" ..
  then show ?thesis
    using with_px_fresh [of p b n] by auto
qed

section \<open>What the expected sizes are\<close>

text \<open>A reference for one pool: the estimate for the last rule that matches it, or its size at the start.\<close>

definition expected_size :: "estimate_env \<Rightarrow> AutopilotRule list \<Rightarrow> Node \<Rightarrow> StoragePool \<Rightarrow> u64 \<Rightarrow> bool" where
  "expected_size env rules n pool sz =
     (let rs = filter (\<lambda>r. rule_matches r pool) rules in
      if rs = [] then sz = pool_TotalSize (sp_StoragePoolAtInit pool)
      else EstimatePoolExpandSize env (last rs) pool n = Some (Returns (Inr sz)))"

abbreviation "pool_id p \<equiv> pool_Uuid (sp_StoragePool p)"

text \<open>One successful pass of a rule, as a fold over all the pools.\<close>

definition node_pools :: "Node list \<Rightarrow> (Node \<times> StoragePool) list" where
  "node_pools ns = concat (map (\<lambda>n. map (Pair n) (StoragePools n)) ns)"

definition expect_step :: "estimate_env \<Rightarrow> AutopilotRule \<Rightarrow> Node \<times> StoragePool \<Rightarrow> sizes \<Rightarrow> sizes option" where
  "expect_step env r q m = (case q of (n, p) \<Rightarrow>
     if rule_matches r p then
        (case EstimatePoolExpandSize env r p n of
           Some (Returns (Inr sz)) \<Rightarrow> Some (gm_put (pool_id p) sz m)
         | _ \<Rightarrow> None)
     else Some (if gm_has m (pool_id p) then m
        else gm_put (pool_id p) (pool_TotalSize (sp_StoragePoolAtInit p)) m))"

fun expect_pairs :: "estimate_env \<Rightarrow> AutopilotRule \<Rightarrow> (Node \<times> StoragePool) list \<Rightarrow> sizes \<Rightarrow> sizes option" where
  "expect_pairs env r [] m = Some m"
| "expect_pairs env r (q # qs) m = Option.bind (expect_step env r q m) (expect_pairs env r qs)"

lemma expect_pairs_append:
  "expect_pairs env r (ps @ qs) m = Option.bind (expect_pairs env r ps m) (expect_pairs env r qs)"
proof (induction ps arbitrary: m)
  case (Cons q ps)
  then show ?case by (cases "expect_step env r q m") simp_all
qed simp

lemma expect_pools_pairs:
  "expect_pools env r n ps m = Some (Returns (Inr m')) \<longleftrightarrow> expect_pairs env r (map (Pair n) ps) m = Some m'"
proof (induction ps arbitrary: m)
  case (Cons p ps)
  then show ?case
    by (cases "rule_matches r p")
       (simp_all add: expect_step_def Let_def split: option.splits ending.splits sum.splits)
qed simp

lemma expect_nodes_pairs:
  "expect_nodes env r ns m = Some (Returns (Inr m')) \<longleftrightarrow> expect_pairs env r (node_pools ns) m = Some m'"
proof (induction ns arbitrary: m)
  case (Cons n ns)
  have split: "expect_pairs env r (node_pools (n # ns)) m =
      Option.bind (expect_pairs env r (map (Pair n) (StoragePools n)) m) (expect_pairs env r (node_pools ns))"
    by (simp add: node_pools_def expect_pairs_append)
  show ?case
  proof (cases "\<exists>m1. expect_pools env r n (StoragePools n) m = Some (Returns (Inr m1))")
    case True
    then obtain m1 where m1: "expect_pools env r n (StoragePools n) m = Some (Returns (Inr m1))" ..
    then show ?thesis
      using expect_pools_pairs [of env r n "StoragePools n" m m1] by (simp add: split Cons.IH)
  next
    case False
    then have "expect_pairs env r (map (Pair n) (StoragePools n)) m = None"
      using expect_pools_pairs [of env r n "StoragePools n" m] by (metis not_None_eq)
    then show ?thesis
      using False by (auto simp: split split: option.splits ending.splits sum.splits)
  qed
qed (simp add: node_pools_def)

text \<open>What one step does to the size of a pool.\<close>

definition size_after :: "estimate_env \<Rightarrow> AutopilotRule \<Rightarrow> Node \<Rightarrow> StoragePool \<Rightarrow> u64 option \<Rightarrow> u64 option \<Rightarrow> bool" where
  "size_after env r n p old new =
     (if rule_matches r p then \<exists>sz. new = Some sz \<and> EstimatePoolExpandSize env r p n = Some (Returns (Inr sz))
      else new = (case old of Some sz \<Rightarrow> Some sz | None \<Rightarrow> Some (pool_TotalSize (sp_StoragePoolAtInit p))))"

lemma expect_step_result:
  assumes "expect_step env r (n, p) m = Some m'"
  shows "u \<noteq> pool_id p \<Longrightarrow> map_of m' u = map_of m u"
    and "size_after env r n p (map_of m (pool_id p)) (map_of m' (pool_id p))"
  using assms
  by (auto simp: expect_step_def size_after_def gm_has_def split: if_splits option.splits ending.splits sum.splits)

lemma expect_pairs_result:
  assumes "expect_pairs env r qs m = Some m'" and "distinct (map (pool_id \<circ> snd) qs)"
  shows "(\<forall>u. u \<notin> (pool_id \<circ> snd) ` set qs \<longrightarrow> map_of m' u = map_of m u) \<and>
    (\<forall>(n, p) \<in> set qs. size_after env r n p (map_of m (pool_id p)) (map_of m' (pool_id p)))"
  using assms
proof (induction qs arbitrary: m)
  case (Cons q qs)
  obtain n p where q: "q = (n, p)" by (cases q)
  obtain m1 where m1: "expect_step env r (n, p) m = Some m1" "expect_pairs env r qs m1 = Some m'"
    using Cons.prems(1) q by (auto simp: bind_eq_Some_conv)
  have new: "pool_id p \<notin> (pool_id \<circ> snd) ` set qs"
    using Cons.prems(2) q by simp
  have IH: "(\<forall>u. u \<notin> (pool_id \<circ> snd) ` set qs \<longrightarrow> map_of m' u = map_of m1 u) \<and>
      (\<forall>(n, p) \<in> set qs. size_after env r n p (map_of m1 (pool_id p)) (map_of m' (pool_id p)))"
    using Cons.IH [OF m1(2)] Cons.prems(2) by simp
  have old: "map_of m1 (pool_id p2) = map_of m (pool_id p2)" if "(n2, p2) \<in> set qs" for n2 p2
    using expect_step_result(1) [OF m1(1)] new that by (force simp: image_iff)
  show ?case
  proof (intro conjI allI impI)
    fix u assume "u \<notin> (pool_id \<circ> snd) ` set (q # qs)"
    then show "map_of m' u = map_of m u"
      using IH expect_step_result(1) [OF m1(1), of u] q by simp
  next
    show "\<forall>(n, p) \<in> set (q # qs). size_after env r n p (map_of m (pool_id p)) (map_of m' (pool_id p))"
      using IH new old expect_step_result(2) [OF m1(1)] q by auto
  qed
qed simp

text \<open>The sizes after some rules have been applied to an empty map.\<close>

definition sizes_after :: "estimate_env \<Rightarrow> AutopilotRule list \<Rightarrow> Node list \<Rightarrow> sizes \<Rightarrow> bool" where
  "sizes_after env rules ns m \<longleftrightarrow> (\<forall>(n, p) \<in> set (node_pools ns).
     if rules = [] then map_of m (pool_id p) = None
     else \<exists>sz. map_of m (pool_id p) = Some sz \<and> expected_size env rules n p sz)"

lemma expected_size_snoc:
  "expected_size env (rules @ [r]) n p sz =
     (if rule_matches r p then EstimatePoolExpandSize env r p n = Some (Returns (Inr sz))
      else expected_size env rules n p sz)"
  by (simp add: expected_size_def Let_def)

lemma expected_size_Nil: "expected_size env [] n p sz \<longleftrightarrow> sz = pool_TotalSize (sp_StoragePoolAtInit p)"
  by (simp add: expected_size_def)

lemma sizes_after_step:
  assumes "sizes_after env rules ns m" and "expect_nodes env r ns m = Some (Returns (Inr m'))"
    and "distinct (map (pool_id \<circ> snd) (node_pools ns))"
  shows "sizes_after env (rules @ [r]) ns m'"
proof -
  have "\<exists>sz. map_of m' (pool_id p) = Some sz \<and> expected_size env (rules @ [r]) n p sz"
    if "(n, p) \<in> set (node_pools ns)" for n p
  proof -
    have "size_after env r n p (map_of m (pool_id p)) (map_of m' (pool_id p))"
      using expect_pairs_result [OF assms(2) [unfolded expect_nodes_pairs] assms(3)] that by auto
    moreover have "if rules = [] then map_of m (pool_id p) = None
        else \<exists>sz. map_of m (pool_id p) = Some sz \<and> expected_size env rules n p sz"
      using assms(1) that by (auto simp: sizes_after_def)
    ultimately show ?thesis
      unfolding expected_size_snoc
      by (cases "rules = []"; cases "rule_matches r p") (auto simp: size_after_def expected_size_Nil)
  qed
  then show ?thesis
    by (auto simp: sizes_after_def)
qed

lemma expect_rules_sizes:
  assumes "expect_rules env rules ns m = Some (Returns (Inr m'))" and "sizes_after env before ns m"
    and "distinct (map (pool_id \<circ> snd) (node_pools ns))"
  shows "sizes_after env (before @ rules) ns m'"
  using assms(1,2)
proof (induction rules arbitrary: before m)
  case (Cons r rules)
  then obtain m1 where m1: "expect_nodes env r ns m = Some (Returns (Inr m1))"
      "expect_rules env rules ns m1 = Some (Returns (Inr m'))"
    by (auto split: option.splits ending.splits sum.splits)
  from Cons.IH [OF m1(2) sizes_after_step [OF Cons.prems(2) m1(1) assms(3)]] show ?case
    by simp
qed simp

lemma expected_sizes_of_rules:
  assumes "expect_rules env rules ns [] = Some (Returns (Inr m))" and "rules \<noteq> []"
    and "distinct (map (pool_id \<circ> snd) (node_pools ns))" and "n \<in> set ns" and "p \<in> set (StoragePools n)"
  shows "\<exists>sz. map_of m (pool_id p) = Some sz \<and> expected_size env rules n p sz"
proof -
  have "sizes_after env [] ns []" by (auto simp: sizes_after_def)
  then have "sizes_after env rules ns m"
    using expect_rules_sizes [OF assms(1) _ assms(3)] by fastforce
  moreover have "(n, p) \<in> set (node_pools ns)"
    using assms(4,5) by (auto simp: node_pools_def)
  ultimately show ?thesis
    using assms(2) by (auto simp: sizes_after_def)
qed

section \<open>What the checks accept\<close>

definition pool_larger :: "sizes \<Rightarrow> StoragePool \<Rightarrow> bool" where
  "pool_larger m p \<longleftrightarrow> gm_index 0 m (pool_id p) < pool_TotalSize (sp_StoragePool p)"

definition pool_as_expected :: "sizes \<Rightarrow> StoragePool \<Rightarrow> bool" where
  "pool_as_expected m p \<longleftrightarrow> gm_index 0 m (pool_id p) = pool_TotalSize (sp_StoragePool p)"

text \<open>The state in which the validation stops: one pool outgrew its size, or all have theirs.\<close>

definition pools_settled :: "sizes \<Rightarrow> Node list \<Rightarrow> bool" where
  "pools_settled m ns \<longleftrightarrow> list_ex (\<lambda>n. list_ex (pool_larger m) (StoragePools n)) ns \<or>
     list_all (\<lambda>n. list_all (pool_as_expected m) (StoragePools n)) ns"

lemma check_pools_eq:
  "check_pools m ps b = (if list_ex (pool_larger m) ps then None else Some (b \<and> list_all (pool_as_expected m) ps))"
  by (induction ps arbitrary: b) (auto simp: Let_def pool_larger_def pool_as_expected_def)

lemma check_nodes_eq:
  "check_nodes m ns b = (if list_ex (\<lambda>n. list_ex (pool_larger m) (StoragePools n)) ns then None
     else Some (b \<and> list_all (\<lambda>n. list_all (pool_as_expected m) (StoragePools n)) ns))"
  by (induction ns arbitrary: b) (auto simp: check_pools_eq)

lemma check_nodes_settled: "check_nodes m ns True = Some False \<longleftrightarrow> \<not> pools_settled m ns"
  by (auto simp: check_nodes_eq pools_settled_def)

section \<open>The waits as polls\<close>

definition pools_ok :: "'w px_services \<Rightarrow> sizes \<Rightarrow> 'w px_state \<Rightarrow> bool" where
  "pools_ok svc m s = (case RefreshDriverEndpoints svc s of
     Some (None, s1) \<Rightarrow> pools_settled m (GetWorkerNodes (st_registry s1))
   | _ \<Rightarrow> False)"

lemma pools_task_outcome:
  "asks_retry (fst (pools_task svc m s)) \<longleftrightarrow> \<not> pools_ok svc m s"
  "pools_ok svc m s \<Longrightarrow> \<exists>out. final_result (fst (pools_task svc m s)) = Inr out"
proof -
  obtain e s1 where r: "RefreshDriverEndpoints svc s = Some (e, s1)"
    using RefreshDriverEndpoints_returns [of svc s] by auto
  consider (err) x where "e = Some x" | (none) "e = None" "check_nodes m (GetWorkerNodes (st_registry s1)) True = Some False"
    | (ready) "e = None" "check_nodes m (GetWorkerNodes (st_registry s1)) True \<noteq> Some False"
    by (cases e) auto
  then have "(asks_retry (fst (pools_task svc m s)) \<longleftrightarrow> \<not> pools_ok svc m s) \<and>
      (pools_ok svc m s \<longrightarrow> (\<exists>out. final_result (fst (pools_task svc m s)) = Inr out))"
  proof cases
    case err
    then show ?thesis by (simp add: pools_task_def pools_ok_def r asks_retry_def)
  next
    case none
    then have "\<not> pools_ok svc m s"
      using check_nodes_settled [of m "GetWorkerNodes (st_registry s1)"] by (simp add: pools_ok_def r)
    then show ?thesis
      using none by (simp add: pools_task_def r asks_retry_def)
  next
    case ready
    then have "fst (pools_task svc m s) = ((), False, None)"
      by (auto simp: pools_task_def r split: option.splits bool.splits)
    moreover have "pools_ok svc m s"
      using ready check_nodes_settled by (auto simp: pools_ok_def r)
    ultimately show ?thesis by (simp add: asks_retry_def final_result_def)
  qed
  then show "asks_retry (fst (pools_task svc m s)) \<longleftrightarrow> \<not> pools_ok svc m s"
    and "pools_ok svc m s \<Longrightarrow> \<exists>out. final_result (fst (pools_task svc m s)) = Inr out" by auto
qed

interpretation pools_poll: poll_task "pools_task svc m" validateStoragePoolSizeInterval "pools_ok svc m" for svc m
  using pools_task_outcome
  by unfold_locales (simp_all add: validateStoragePoolSizeInterval_def second_ns_def)

lemma jobs_done_iff: "jobs_done sh jobs = None \<longleftrightarrow> list_all (\<lambda>(_, st). st = JOB_DONE) jobs"
proof (induction jobs)
  case (Cons job jobs)
  then show ?case by (cases job; cases "snd job = JOB_DONE") simp_all
qed simp

lemma rebalance_task_outcome:
  "fst (rebalance_task EnumerateRebalanceJobs show_state w) = (case fst (EnumerateRebalanceJobs w) of
     Inl err \<Rightarrow> ((), True, Some err)
   | Inr jobs \<Rightarrow> (case jobs_done show_state jobs of Some err \<Rightarrow> ((), True, Some err) | None \<Rightarrow> ((), False, None)))"
  by (simp add: rebalance_task_def split: prod.splits sum.splits option.splits)

definition all_jobs_done where
  "all_jobs_done EnumerateRebalanceJobs w = (case fst (EnumerateRebalanceJobs w) of
     Inl _ \<Rightarrow> False | Inr jobs \<Rightarrow> list_all (\<lambda>(_, st). st = JOB_DONE) jobs)"

interpretation rebalance_poll: poll_task "rebalance_task EnumerateRebalanceJobs show_state" validateRebalanceJobsInterval
  "all_jobs_done EnumerateRebalanceJobs" for EnumerateRebalanceJobs show_state
proof
  show "0 < validateRebalanceJobsInterval"
    by (simp add: validateRebalanceJobsInterval_def second_ns_def)
next
  fix w
  show "asks_retry (fst (rebalance_task EnumerateRebalanceJobs show_state w)) \<longleftrightarrow> \<not> all_jobs_done EnumerateRebalanceJobs w"
    unfolding all_jobs_done_def jobs_done_iff [of show_state, symmetric]
    by (simp add: rebalance_task_outcome asks_retry_def split: sum.splits option.splits)
next
  fix w
  assume "all_jobs_done EnumerateRebalanceJobs w"
  then show "\<exists>out. final_result (fst (rebalance_task EnumerateRebalanceJobs show_state w)) = Inr out"
    unfolding all_jobs_done_def jobs_done_iff [of show_state, symmetric]
    by (simp add: rebalance_task_outcome final_result_def split: sum.splits)
qed

interpretation resize_poll: poll_task "resize_task Resize poolUUID e percentage" validateRebalanceJobsInterval
  "\<lambda>w. fst (Resize poolUUID e percentage w) = None" for Resize poolUUID e percentage
proof
  fix w
  obtain err d w1 where r: "Resize poolUUID e percentage w = (err, d, w1)" by (rule prod_cases3)
  show "asks_retry (fst (resize_task Resize poolUUID e percentage w)) \<longleftrightarrow> fst (Resize poolUUID e percentage w) \<noteq> None"
    by (cases err) (simp_all add: resize_task_def r asks_retry_def)
  show "\<exists>out. final_result (fst (resize_task Resize poolUUID e percentage w)) = Inr out"
    if "fst (Resize poolUUID e percentage w) = None"
    using that by (simp add: resize_task_def r final_result_def)
qed (simp add: validateRebalanceJobsInterval_def second_ns_def)

lemma resize_wait_correct:
  "\<exists>err w'. ResizeStoragePoolByPercentage Resize poolUUID e percentage w = Some (err, w') \<and>
     (err = None \<longleftrightarrow> (\<exists>k. int (start_at (resize_task Resize poolUUID e percentage) validateRebalanceJobsInterval k w)
          < validateRebalanceJobsTimeout \<and>
        fst (Resize poolUUID e percentage (world_at (resize_task Resize poolUUID e percentage) k w)) = None))"
proof (cases rule: resize_poll.poll_cases [of Resize poolUUID e percentage w validateRebalanceJobsTimeout, case_names found never])
  case (found k out)
  show ?thesis
    unfolding ResizeStoragePoolByPercentage_def found(4) using found(1,2) by (simp del: world_at.simps start_at.simps; blast)
next
  case (never s w')
  show ?thesis
    unfolding ResizeStoragePoolByPercentage_def never(2) using never(1) by (simp del: world_at.simps start_at.simps; blast)
qed

lemma rebalance_wait_correct:
  "\<exists>e w'. ValidateRebalanceJobs EnumerateRebalanceJobs show_state w = Some (e, w') \<and>
     (e = None \<longleftrightarrow> (\<exists>k. int (start_at (rebalance_task EnumerateRebalanceJobs show_state) validateRebalanceJobsInterval k w)
          < validateRebalanceJobsTimeout \<and>
        all_jobs_done EnumerateRebalanceJobs (world_at (rebalance_task EnumerateRebalanceJobs show_state) k w)))"
proof (cases rule: rebalance_poll.poll_cases [of EnumerateRebalanceJobs show_state w validateRebalanceJobsTimeout, case_names found never])
  case (found k out)
  show ?thesis
    unfolding ValidateRebalanceJobs_def found(4) using found(1,2) by (simp del: world_at.simps start_at.simps; blast)
next
  case (never s w')
  show ?thesis
    unfolding ValidateRebalanceJobs_def never(2) using never(1) by (simp del: world_at.simps start_at.simps; blast)
qed

section \<open>Properties\<close>


text \<open>A cluster of one node with one pool, for the witnesses.\<close>

definition sample_worker :: Node where
  "sample_worker = node_sample\<lparr>node_Type := TypeWorker, StoragePools := [sample_pool]\<rparr>"

definition sample_services :: "unit px_services" where
  "sample_services = \<lparr>clock = (\<lambda>_. 0), config_map = [], GetTokenFromConfigMap = (\<lambda>_ w. (Inr [], w)),
     GetPortworxNamespace = (\<lambda>w. (Inr ''kube-system'', w)), InspectCurrentCluster = (\<lambda>w. (Inr STATUS_OK, w)),
     getPxNodes = (\<lambda>w. (Inr [px_sample], w)), IsPXEnabled = (\<lambda>_ _. Inr True), GetKvdbMembers = (\<lambda>_ _. Inr []),
     fmt_nodes = (\<lambda>_. []), fmt_status = (\<lambda>_. []), ListAutopilotRules = (\<lambda>w. (Inr [], w))\<rparr>"

definition sample_state :: "unit px_state" where
  "sample_state = \<lparr>st_driver = \<lparr>drv_token = [], drv_namespace = [], drv_refreshEndpoint = False\<rparr>,
     st_registry = [(''u1'', sample_worker)], st_world = ()\<rparr>"

definition refreshed_state :: "unit px_state" where
  "refreshed_state = \<lparr>st_driver = \<lparr>drv_token = [], drv_namespace = ''kube-system'', drv_refreshEndpoint = True\<rparr>,
     st_registry = [(''u1'', with_px False px_sample sample_worker)], st_world = ()\<rparr>"

lemma sample_refresh: "RefreshDriverEndpoints sample_services sample_state = Some (None, refreshed_state)"
proof -
  have start: "getStorageNodesOnStart sample_services () = Some (Inr [px_sample], ())"
    by (simp add: getStorageNodesOnStart_def DoRetryWithTimeout_def retry_loop.simps cluster_task_def
        sample_services_def validateClusterStartTimeout_def minute_ns_def second_ns_def)
  have "updateNodes (\<lambda>_. Inr True) (\<lambda>_. Inr []) (\<lambda>_. []) [px_sample] [(''u1'', sample_worker)] =
      (None, [(''u1'', with_px False px_sample sample_worker)])"
    by (simp add: updateNodes_def GetNodes_values gm_values_def updateNode_def sample_worker_def node_sample_def
        zero_Node_def px_sample_def UpdateNode_def gm_has_def gm_put_def with_px_def isMetadataNode_def Let_def)
  moreover have "config_map sample_services = []" "GetPortworxNamespace sample_services () = (Inr ''kube-system'', ())"
    "IsPXEnabled sample_services () = (\<lambda>_. Inr True)" "GetKvdbMembers sample_services () = (\<lambda>_. Inr [])"
    "fmt_nodes sample_services = (\<lambda>_. [])"
    by (simp_all add: sample_services_def)
  ultimately show ?thesis
    using start
    by (simp add: RefreshDriverEndpoints_def refresh_namespace_def refresh_nodes_def sample_state_def refreshed_state_def)
qed



text \<open>C36: When \<open>getExpectedPoolSizes\<close> succeeds for at least one rule and the pools of the worker nodes have
  distinct ids, the map has an entry for every pool of every worker node: the estimate for the last
  rule of the list that matches the pool, or the size the pool had at the start if none does.\<close>

theorem expected_pool_sizes_correct:
  assumes "getExpectedPoolSizes env svc rules s = Some (Inr m, s')" and "rules \<noteq> []"
    and "distinct (map (pool_id \<circ> snd) (node_pools (GetWorkerNodes (st_registry s'))))"
    and "n \<in> set (GetWorkerNodes (st_registry s'))" and "p \<in> set (StoragePools n)"
  shows "\<exists>sz. map_of m (pool_id p) = Some sz \<and> expected_size env rules n p sz"
proof -
  have "expect_rules env rules (GetWorkerNodes (st_registry s')) [] = Some (Returns (Inr m))"
    using assms(1) by (auto simp: getExpectedPoolSizes_def split: option.splits prod.splits ending.splits)
  then show ?thesis
    using assms(2-) by (rule expected_sizes_of_rules)
qed

definition sample_rule :: AutopilotRule where
  "sample_rule = PoolRuleByTotalSize 64 50 RuleScaleTypeAddDisk [(''node'', ''n9'')]"

theorem expected_pool_sizes_correct_witness:
  "\<exists>sz. map_of [(''p1'', 10)] ''p1'' = Some sz \<and>
     expected_size decimal_env [sample_rule] (with_px False px_sample sample_worker) (new_storage_pool (hd (sn_Pools px_sample))) sz"
proof -
  have pools: "StoragePools (with_px False px_sample sample_worker) = [new_storage_pool (hd (sn_Pools px_sample))]"
    by (simp add: with_px_def px_sample_def Let_def)
  have workers: "GetWorkerNodes (st_registry refreshed_state) = [with_px False px_sample sample_worker]"
    by (simp add: GetWorkerNodes_def refreshed_state_def collect_eq gm_values_def with_px_def sample_worker_def Let_def px_sample_def)
  have "\<not> rule_matches sample_rule (new_storage_pool (hd (sn_Pools px_sample)))"
    by (simp add: rule_matches_def sample_rule_def PoolRuleByTotalSize_def new_storage_pool_def px_sample_def gm_index_def)
  then have "getExpectedPoolSizes decimal_env sample_services [sample_rule] sample_state = Some (Inr [(''p1'', 10)], refreshed_state)"
    by (simp add: getExpectedPoolSizes_def sample_refresh workers pools Let_def gm_has_def gm_put_def)
       (simp add: new_storage_pool_def px_sample_def)
  from expected_pool_sizes_correct [OF this, of "with_px False px_sample sample_worker" "new_storage_pool (hd (sn_Pools px_sample))"]
  show ?thesis
    by (simp add: workers pools node_pools_def) (simp add: new_storage_pool_def px_sample_def)
qed

end
