(* ===== verification/PxPurePaths.thy ===== *)
theory PxPurePaths
  imports GoIO NodeRegistry PxMaintenance
begin

text \<open>
  The check of the FlashArray devices on the nodes (\<open>drivers/volume/portworx/portworx.go\<close>):
  \<open>GetSerialFromWWID\<close>, \<open>parseLsblkOutput\<close>, \<open>collectLocalNodeInfo\<close>, \<open>getCurrentPureLocalVolumePaths\<close>,
  \<open>InitializePureLocalVolumePaths\<close> and \<open>ValidatePureLocalVolumePaths\<close>.

  A node driver's \<open>RunCommandWithNoRetry\<close>, the driver's \<open>ListAllVolumes\<close> and \<open>InspectVolume\<close> and the
  clock are arguments; an inspected volume has a locator and a spec. Index and slice expressions out
  of range and reads through a nil pointer panic, the value \<open>None\<close>.
\<close>

section \<open>The output of lsblk\<close>

definition PureVolumeOUI :: string where "PureVolumeOUI = ''24a937''"

record pureLocalPathEntry =
  pe_WWID :: string
  pe_SinglePaths :: "string list"
  pe_Size :: u64

type_synonym devices = "(string, pureLocalPathEntry) gomap"

definition GetSerialFromWWID :: "string \<Rightarrow> (go_error + string) option" where
  "GetSerialFromWWID wwid =
     (if \<not> Contains_str wwid PureVolumeOUI
      then Some (Inl (Errorf (''not a Pure Storage multipath WWID '' @ [CHR 0x27] @ wwid @ [CHR 0x27])))
      else if HasPrefix wwid ''eui.''
      then (if length wwid < 36 then None
            else Some (Inr (ToLower (take 14 (drop 6 wwid) @ take 10 (drop 26 wwid)))))
      else Some (Inr (TrimPrefix (ToLower wwid) (''36'' @ PureVolumeOUI @ ''0''))))"

definition finish_entry :: "pureLocalPathEntry option \<Rightarrow> devices \<Rightarrow> devices" where
  "finish_entry currentEntry foundDevices = (case currentEntry of
     None \<Rightarrow> foundDevices
   | Some e \<Rightarrow> gm_put (pe_WWID e) e foundDevices)"

definition trim_wwid :: "string \<Rightarrow> string" where
  "trim_wwid s = RemoveChar (RemoveChar s (CHR ''-'')) (CHR 0x60)"

text \<open>One pass of the loop over the lines, on the devices found and the current entry.\<close>

definition start_entry :: "string \<Rightarrow> devices \<times> pureLocalPathEntry option
    \<Rightarrow> (go_error + devices \<times> pureLocalPathEntry option) option" where
  "start_entry line st = (case Fields line of
     wwid # sizeStr # _ \<Rightarrow> (case ParseUint sizeStr of
         None \<Rightarrow> Some (Inl (Errorf (''failed to parse size '' @ [CHR 0x27] @ sizeStr @ [CHR 0x27] @
             '' from lsblk output, Err: '' @ Error_str (ParseUint_error sizeStr))))
       | Some sz \<Rightarrow> Some (Inr (finish_entry (snd st) (fst st),
             Some \<lparr>pe_WWID = trim_wwid wwid, pe_SinglePaths = [], pe_Size = sz\<rparr>)))
   | _ \<Rightarrow> None)"

definition lsblk_line :: "string \<Rightarrow> devices \<times> pureLocalPathEntry option
    \<Rightarrow> (go_error + devices \<times> pureLocalPathEntry option) option" where
  "lsblk_line l st =
     (let line = TrimSpace l in
      if length line = 0 then Some (Inr st)
      else if Contains_str line ''p'' \<and> \<not> Contains_str line ''sd'' then Some (Inr st)
      else if Contains_str line PureVolumeOUI then start_entry line st
      else (case snd st of
          None \<Rightarrow> Some (Inr st)
        | Some e \<Rightarrow>
            if HasPrefix line ''|-'' \<or> HasPrefix line [CHR 0x60, CHR ''-'']
            then (case Fields (drop 2 line) of
                [] \<Rightarrow> None
              | p # _ \<Rightarrow> Some (Inr (fst st, Some (e\<lparr>pe_SinglePaths := pe_SinglePaths e @ [p]\<rparr>))))
            else Some (Inr (finish_entry (Some e) (fst st), None))))"

fun lsblk_lines :: "string list \<Rightarrow> devices \<times> pureLocalPathEntry option
    \<Rightarrow> (go_error + devices \<times> pureLocalPathEntry option) option" where
  "lsblk_lines [] st = Some (Inr st)"
| "lsblk_lines (l # ls) st = (case lsblk_line l st of
     Some (Inr st') \<Rightarrow> lsblk_lines ls st'
   | r \<Rightarrow> r)"

definition parseLsblkOutput :: "string \<Rightarrow> (go_error + devices) option" where
  "parseLsblkOutput out = (case lsblk_lines (Split out go_nl) ([], None) of
     None \<Rightarrow> None
   | Some (Inl err) \<Rightarrow> Some (Inl err)
   | Some (Inr (foundDevices, currentEntry)) \<Rightarrow> Some (Inr (finish_entry currentEntry foundDevices)))"

section \<open>The devices of a node\<close>

type_synonym 'w run_command = "Node \<Rightarrow> string \<Rightarrow> 'w \<Rightarrow> string result \<times> 'w"

text \<open>An error whose text names the management address of the node.\<close>

definition ip_error :: "Node \<Rightarrow> (string \<Rightarrow> go_error) \<Rightarrow> ('w, 'a) io" where
  "ip_error n err = (case StorageNode n of
     None \<Rightarrow> io_panic
   | Some sn \<Rightarrow> io_error (err (sn_MgmtIp sn)))"

definition dmsetup_line :: "string \<Rightarrow> string list" where
  "dmsetup_line line =
     (if \<not> Contains_str line PureVolumeOUI then []
      else let mapperName = hd (Split line go_tab) in
        if Contains_str mapperName PureVolumeOUI \<and> (length mapperName > 34 \<or> Contains_str line ''p'')
        then [] else [mapperName])"

definition dmsetup_mappers :: "string \<Rightarrow> string list" where
  "dmsetup_mappers out = concat (map dmsetup_line (Split out go_nl))"

fun check_mappers :: "devices \<Rightarrow> string list \<Rightarrow> (string \<Rightarrow> go_error) option" where
  "check_mappers lsblkParsed [] = None"
| "check_mappers lsblkParsed (mapper # mappers) = (case map_of lsblkParsed mapper of
     None \<Rightarrow> Some (\<lambda>ip. Errorf (''found mapper '' @ mapper @ '' in dmsetup but not lsblk on node '' @ ip @
       '', inconsistent disk state (we didn'' @ [CHR 0x27] @ ''t clean something up right?)''))
   | Some lsblkEntry \<Rightarrow>
       if length (pe_SinglePaths lsblkEntry) = 0
       then Some (\<lambda>ip. Errorf (''found mapper '' @ mapper @ '' with no single paths on node '' @ ip @
         '', this should not happen (we didn'' @ [CHR 0x27] @ ''t clean something up right?)''))
       else check_mappers lsblkParsed mappers)"

definition lsblk_cmd :: string where
  "lsblk_cmd = ''lsblk --inverse --ascii --noheadings -o NAME,SIZE -b''"

definition compare_listings :: "Node \<Rightarrow> string list \<Rightarrow> devices \<Rightarrow> ('w, devices) io" where
  "compare_listings n mappers lsblkParsed =
     (if length lsblkParsed \<noteq> length mappers
      then ip_error n (\<lambda>ip. Errorf (''found '' @ show_nat (length mappers) @ '' mappers in dmsetup but '' @
        show_nat (length lsblkParsed) @ '' devices in lsblk on node '' @ ip @
        '', inconsistent disk state (we didn'' @ [CHR 0x27] @ ''t clean something up right?)''))
      else (case check_mappers lsblkParsed mappers of
          Some err \<Rightarrow> ip_error n err
        | None \<Rightarrow> io_return lsblkParsed))"

definition collectLocalNodeInfo :: "'w run_command \<Rightarrow> Node \<Rightarrow> ('w, devices) io" where
  "collectLocalNodeInfo run n =
     io_bind (io_catch (io_call (run n ''dmsetup ls''))
       (\<lambda>err. ip_error n (\<lambda>ip. Errorf (''failed to check dmsetup ls output on node '' @ ip @ '', Err: '' @ Error_str err))))
     (\<lambda>dm. io_bind (io_catch (io_call (run n lsblk_cmd))
       (\<lambda>err. ip_error n (\<lambda>ip. Errorf (''failed to check '' @ [CHR 0x27] @
          ''lsblk --inverse --ascii --noheadings -o NAME,SIZE'' @ [CHR 0x27] @ '' output on node '' @ ip @
          '', Err: '' @ Error_str err))))
     (\<lambda>out. io_bind (io_catch (io_lift (parseLsblkOutput out))
       (\<lambda>err. ip_error n (\<lambda>ip. Errorf (''failed to parse lsblk output on node '' @ ip @ '', Err: '' @ Error_str err))))
     (compare_listings n (dmsetup_mappers dm))))"

type_synonym node_devices = "(string, devices) gomap"

fun collect_nodes :: "'w run_command \<Rightarrow> Node list \<Rightarrow> node_devices \<Rightarrow> ('w, node_devices) io" where
  "collect_nodes run [] currentDevices = io_return currentDevices"
| "collect_nodes run (n # ns) currentDevices =
     io_bind (collectLocalNodeInfo run n) (\<lambda>localPathMap.
       case StorageNode n of
         None \<Rightarrow> io_panic
       | Some sn \<Rightarrow> collect_nodes run ns (gm_put (sn_MgmtIp sn) localPathMap currentDevices))"

definition getCurrentPureLocalVolumePaths :: "'w run_command \<Rightarrow> registry \<Rightarrow> ('w, node_devices) io" where
  "getCurrentPureLocalVolumePaths run r = collect_nodes run (GetStorageDriverNodes r) []"

text \<open>The state is the field \<open>pureDeviceBaseline\<close> of the driver and the world.\<close>

definition InitializePureLocalVolumePaths ::
  "'w run_command \<Rightarrow> registry \<Rightarrow> node_devices \<times> 'w \<Rightarrow> (go_error option \<times> node_devices \<times> 'w) option" where
  "InitializePureLocalVolumePaths run r st = (case st of (pureDeviceBaseline, w) \<Rightarrow>
     (case getCurrentPureLocalVolumePaths run r w of
        None \<Rightarrow> None
      | Some (Inl err, w') \<Rightarrow> Some (Some err, pureDeviceBaseline, w')
      | Some (Inr currentDevices, w') \<Rightarrow> Some (None, currentDevices, w')))"

section \<open>Validation\<close>

text \<open>\<open>PureBlockSpec\<close> is nil or holds the serial number.\<close>

record ProxySpec =
  proxy_Protocol :: ProxyProtocol
  proxy_PureBlockSerial :: "string option"

record pure_volume =
  pv_Name :: string
  pv_AttachedOn :: string
  pv_Size :: u64
  pv_ProxySpec :: "ProxySpec option"

definition IsPureVolume :: "pure_volume \<Rightarrow> bool" where
  "IsPureVolume v = (case pv_ProxySpec v of
     None \<Rightarrow> False
   | Some s \<Rightarrow> proxy_Protocol s = PURE_BLOCK \<or> proxy_Protocol s = PURE_FILE)"

fun remove_wwids :: "string \<Rightarrow> string list \<Rightarrow> devices \<Rightarrow> go_error + devices" where
  "remove_wwids ip [] devs = Inr devs"
| "remove_wwids ip (wwid # wwids) devs =
     (if gm_has devs wwid then remove_wwids ip wwids (gm_del wwid devs)
      else Inl (Errorf (''baseline FA device '' @ wwid @ '' originally present on node '' @ ip @
        '' is missing, this should not happen'')))"

text \<open>The deletions go through the map that \<open>currentDevices\<close> holds; a node without one reads as a
  nil map, from which nothing is deleted.\<close>

fun remove_baseline :: "node_devices \<Rightarrow> node_devices \<Rightarrow> go_error + node_devices" where
  "remove_baseline [] currentDevices = Inr currentDevices"
| "remove_baseline ((ip, baselineDevices) # bs) currentDevices =
     (case remove_wwids ip (map fst baselineDevices) (gm_index [] currentDevices ip) of
        Inl err \<Rightarrow> Inl err
      | Inr devs \<Rightarrow> remove_baseline bs
          (if gm_has currentDevices ip then gm_put ip devs currentDevices else currentDevices))"

text \<open>The FADA volumes, each with the serial number of its block spec.\<close>

fun inspect_fada :: "(string \<Rightarrow> 'w \<Rightarrow> pure_volume result \<times> 'w) \<Rightarrow> string list \<Rightarrow> ('w, (pure_volume \<times> string) list) io" where
  "inspect_fada InspectVolume [] = io_return []"
| "inspect_fada InspectVolume (volName # volNames) =
     io_bind (io_call (InspectVolume volName)) (\<lambda>v.
     io_bind (inspect_fada InspectVolume volNames) (\<lambda>vs.
       if \<not> IsPureVolume v then io_return vs
       else (case pv_ProxySpec v of
           None \<Rightarrow> io_return vs
         | Some s \<Rightarrow> (case proxy_PureBlockSerial s of
               None \<Rightarrow> io_return vs
             | Some serial \<Rightarrow> io_return ((v, serial) # vs)))))"

fun attached_to :: "string \<Rightarrow> Node list \<Rightarrow> bool option" where
  "attached_to attachedOn [] = Some False"
| "attached_to attachedOn (n # ns) = (case StorageNode n of
     None \<Rightarrow> None
   | Some sn \<Rightarrow> if sn_MgmtIp sn = attachedOn then Some True else attached_to attachedOn ns)"

fun find_device :: "string \<Rightarrow> pureLocalPathEntry list \<Rightarrow> (go_error + pureLocalPathEntry option) option" where
  "find_device serialNum [] = Some (Inr None)"
| "find_device serialNum (deviceEntry # es) = (case GetSerialFromWWID (pe_WWID deviceEntry) of
     None \<Rightarrow> None
   | Some (Inl err) \<Rightarrow> Some (Inl err)
   | Some (Inr serial) \<Rightarrow>
       if serial = ToLower serialNum then Some (Inr (Some deviceEntry)) else find_device serialNum es)"

definition match_volume :: "Node list \<Rightarrow> pure_volume \<times> string \<Rightarrow> node_devices \<Rightarrow> (go_error + node_devices) option" where
  "match_volume ns vs currentDevices = (case vs of (v, serialNum) \<Rightarrow>
     (let ip = pv_AttachedOn v; devs = gm_index [] currentDevices ip in
      case attached_to ip ns of
        None \<Rightarrow> None
      | Some False \<Rightarrow> Some (Inr currentDevices)
      | Some True \<Rightarrow> (case find_device serialNum (gm_values devs) of
            None \<Rightarrow> None
          | Some (Inl err) \<Rightarrow> Some (Inl err)
          | Some (Inr None) \<Rightarrow> Some (Inl (Errorf (''volume '' @ pv_Name v @ '' is attached to node '' @ ip @
                '' but not found in any local path'')))
          | Some (Inr (Some device)) \<Rightarrow>
              if pe_Size device \<noteq> pv_Size v
              then Some (Inl (Errorf (''volume '' @ pv_Name v @ '' is attached to node '' @ ip @
                '' but has incorrect size '' @ show_u64 (pe_Size device) @ '' instead of expected size '' @
                show_u64 (pv_Size v))))
              else Some (Inr (gm_put ip (gm_del (pe_WWID device) devs) currentDevices)))))"

fun match_volumes :: "Node list \<Rightarrow> (pure_volume \<times> string) list \<Rightarrow> node_devices \<Rightarrow> (go_error + node_devices) option" where
  "match_volumes ns [] currentDevices = Some (Inr currentDevices)"
| "match_volumes ns (v # vs) currentDevices = (case match_volume ns v currentDevices of
     Some (Inr currentDevices') \<Rightarrow> match_volumes ns vs currentDevices'
   | r \<Rightarrow> r)"

fun no_devices_left :: "node_devices \<Rightarrow> go_error + unit" where
  "no_devices_left [] = Inr ()"
| "no_devices_left ((ip, devs) # rest) =
     (if length devs > 0
      then Inl (Errorf (''found '' @ show_nat (length devs) @ '' extra devices on node '' @ ip @
        '' that are not attached to any torpedo app volume (it may be from a clone test pod)''))
      else no_devices_left rest)"

definition pure_paths_check ::
  "'w run_command \<Rightarrow> ('w \<Rightarrow> string list result \<times> 'w) \<Rightarrow> (string \<Rightarrow> 'w \<Rightarrow> pure_volume result \<times> 'w)
     \<Rightarrow> node_devices \<Rightarrow> registry \<Rightarrow> ('w, unit) io" where
  "pure_paths_check run ListAllVolumes InspectVolume pureDeviceBaseline r =
     io_bind (getCurrentPureLocalVolumePaths run r) (\<lambda>currentDevices.
     io_bind (io_lift (Some (remove_baseline pureDeviceBaseline currentDevices))) (\<lambda>currentDevices.
     io_bind (io_call ListAllVolumes) (\<lambda>allVolNames.
     io_bind (inspect_fada InspectVolume allVolNames) (\<lambda>fadaVolumes.
     io_bind (io_lift (match_volumes (GetStorageDriverNodes r) fadaVolumes currentDevices)) (\<lambda>currentDevices.
     io_lift (Some (no_devices_left currentDevices)))))))"

definition ValidatePureLocalVolumePaths ::
  "('w \<Rightarrow> nat) \<Rightarrow> 'w run_command \<Rightarrow> ('w \<Rightarrow> string list result \<times> 'w) \<Rightarrow> (string \<Rightarrow> 'w \<Rightarrow> pure_volume result \<times> 'w)
     \<Rightarrow> node_devices \<Rightarrow> registry \<Rightarrow> ('w, unit) io" where
  "ValidatePureLocalVolumePaths clk run ListAllVolumes InspectVolume pureDeviceBaseline r =
     io_poll clk (pure_paths_check run ListAllVolumes InspectVolume pureDeviceBaseline r) (2 * minute_ns) defaultRetryInterval"

section \<open>The entries found are keyed by their WWID\<close>

definition keyed :: "devices \<Rightarrow> bool" where
  "keyed devs \<longleftrightarrow> gm_ok devs \<and> list_all (\<lambda>(k, e). k = pe_WWID e) devs"

lemma keyed_Nil [simp]: "keyed []"
  by (simp add: keyed_def)

lemma keyed_finish [intro]: "keyed devs \<Longrightarrow> keyed (finish_entry cur devs)"
  by (cases cur) (auto simp: keyed_def finish_entry_def list_all_put)

lemma keyed_filter [intro]: "keyed devs \<Longrightarrow> keyed (filter P devs)"
  by (auto simp: keyed_def gm_ok_def list_all_iff intro: distinct_map_filter)

lemma keyed_lsblk_line:
  assumes "lsblk_line l st = Some (Inr st')" "keyed (fst st)"
  shows "keyed (fst st')"
  using assms
  by (auto simp: lsblk_line_def start_entry_def Let_def split: if_splits option.splits list.splits)

lemma keyed_lsblk_lines:
  "lsblk_lines ls st = Some (Inr st') \<Longrightarrow> keyed (fst st) \<Longrightarrow> keyed (fst st')"
  by (induction ls st rule: lsblk_lines.induct)
     (auto split: option.splits sum.splits intro: keyed_lsblk_line)

lemma keyed_parse: "parseLsblkOutput out = Some (Inr devs) \<Longrightarrow> keyed devs"
  by (auto simp: parseLsblkOutput_def split: option.splits sum.splits prod.splits
           dest!: keyed_lsblk_lines)

section \<open>Devices of the nodes\<close>

lemma ip_error_Inr [simp]: "ip_error n err w \<noteq> Some (Inr y, w')"
  by (simp add: ip_error_def split: option.splits)

lemma collect_keyed:
  assumes "collectLocalNodeInfo run n w = Some (Inr devs, w')"
  shows "keyed devs"
  using assms
  by (auto simp: collectLocalNodeInfo_def io_bind_Inr io_catch_Inr compare_listings_def
           split: if_splits option.splits intro: keyed_parse)

definition all_keyed :: "node_devices \<Rightarrow> bool" where
  "all_keyed cur \<longleftrightarrow> gm_ok cur \<and> list_all (\<lambda>(ip, devs). keyed devs) cur"

lemma all_keyed_put [intro]: "all_keyed cur \<Longrightarrow> keyed devs \<Longrightarrow> all_keyed (gm_put ip devs cur)"
  by (auto simp: all_keyed_def list_all_put)

lemma all_keyed_index: "all_keyed cur \<Longrightarrow> keyed (gm_index [] cur ip)"
  by (auto simp: all_keyed_def gm_index_def list_all_iff split: option.splits dest!: map_of_SomeD)

lemma collect_nodes_keyed:
  "collect_nodes run ns cur w = Some (Inr cur', w') \<Longrightarrow> all_keyed cur \<Longrightarrow>
     all_keyed cur' \<and> list_all (\<lambda>n. StorageNode n \<noteq> None) ns \<and>
     fst ` set cur' = fst ` set cur \<union> {ip. \<exists>n\<in>set ns. \<exists>sn. StorageNode n = Some sn \<and> ip = sn_MgmtIp sn}"
proof (induction ns arbitrary: cur w)
  case (Cons n ns)
  from Cons.prems(1) obtain devs w1 sn where step:
    "collectLocalNodeInfo run n w = Some (Inr devs, w1)" "StorageNode n = Some sn"
    "collect_nodes run ns (gm_put (sn_MgmtIp sn) devs cur) w1 = Some (Inr cur', w')"
    by (auto simp: io_bind_Inr split: option.splits)
  have "all_keyed (gm_put (sn_MgmtIp sn) devs cur)"
    using Cons.prems(2) collect_keyed [OF step(1)] by blast
  from Cons.IH [OF step(3) this] step(2) show ?case
    by (auto simp: gm_put_def dom_update)
qed simp

lemma current_keyed:
  assumes "getCurrentPureLocalVolumePaths run r w = Some (Inr cur, w')"
  shows "all_keyed cur" and "list_all (\<lambda>n. StorageNode n \<noteq> None) (GetStorageDriverNodes r)"
    and "fst ` set cur = {ip. \<exists>n\<in>set (GetStorageDriverNodes r). \<exists>sn. StorageNode n = Some sn \<and> ip = sn_MgmtIp sn}"
  using collect_nodes_keyed [of run "GetStorageDriverNodes r" "[]" w cur w'] assms
  by (auto simp: getCurrentPureLocalVolumePaths_def all_keyed_def)

lemma baseline_keyed:
  "InitializePureLocalVolumePaths run r st = Some (None, base, w) \<Longrightarrow> all_keyed base"
  using current_keyed(1)
  by (auto simp: InitializePureLocalVolumePaths_def split: prod.splits option.splits sum.splits)

section \<open>Removing the baseline\<close>

abbreviation keys_of :: "('k, 'v) gomap \<Rightarrow> 'k set" where
  "keys_of m \<equiv> fst ` set m"

lemma gm_has_keys [simp]: "gm_has m k \<longleftrightarrow> k \<in> keys_of m"
  by (simp add: gm_has_def map_of_eq_None_iff)

lemma gm_del_filter: "gm_del k m = filter (\<lambda>x. fst x \<noteq> k) m"
  unfolding gm_del_def by (induction m) auto

lemma remove_wwids_iff:
  "distinct wwids \<Longrightarrow> remove_wwids ip wwids devs = Inr devs' \<longleftrightarrow>
     set wwids \<subseteq> keys_of devs \<and> devs' = filter (\<lambda>x. fst x \<notin> set wwids) devs"
proof (induction wwids arbitrary: devs)
  case (Cons x xs)
  then have "remove_wwids ip (x # xs) devs = Inr devs' \<longleftrightarrow> x \<in> keys_of devs \<and>
      set xs \<subseteq> keys_of (gm_del x devs) \<and> devs' = filter (\<lambda>y. fst y \<notin> set xs) (gm_del x devs)"
    by simp
  moreover have "filter (\<lambda>y. fst y \<notin> set xs) (gm_del x devs) = filter (\<lambda>y. fst y \<notin> set (x # xs)) devs"
    by (auto simp: gm_del_filter intro!: filter_cong)
  moreover have "set xs \<subseteq> keys_of (gm_del x devs) \<longleftrightarrow> set xs \<subseteq> keys_of devs"
    using Cons.prems by (auto simp: gm_del_filter)
  ultimately show ?case by auto
qed auto

definition set_node :: "string \<Rightarrow> devices \<Rightarrow> node_devices \<Rightarrow> node_devices" where
  "set_node ip devs cur = (if gm_has cur ip then gm_put ip devs cur else cur)"

lemma index_missing: "ip \<notin> keys_of cur \<Longrightarrow> gm_index z cur ip = z"
  by (simp add: gm_index_def map_of_eq_None_iff [THEN iffD2])

lemma index_set_node:
  "gm_index [] (set_node ip devs cur) ip' = (if ip' = ip \<and> ip \<in> keys_of cur then devs else gm_index [] cur ip')"
  by (auto simp: set_node_def index_missing)

lemma keys_put: "keys_of (gm_put k v m) = insert k (keys_of m)"
  by (auto simp: gm_put_def dom_update)

lemma keys_set_node: "keys_of (set_node ip devs cur) = keys_of cur"
  by (auto simp: set_node_def keys_put)

lemma all_keyed_set_node [intro]: "all_keyed cur \<Longrightarrow> keyed devs \<Longrightarrow> all_keyed (set_node ip devs cur)"
  by (auto simp: set_node_def)

text \<open>The devices of a node that are not in the baseline.\<close>

definition beyond :: "node_devices \<Rightarrow> node_devices \<Rightarrow> string \<Rightarrow> devices" where
  "beyond base cur ip = filter (\<lambda>x. fst x \<notin> keys_of (gm_index [] base ip)) (gm_index [] cur ip)"

definition baseline_present :: "node_devices \<Rightarrow> node_devices \<Rightarrow> bool" where
  "baseline_present base cur \<longleftrightarrow>
     list_all (\<lambda>(ip, b). list_all (\<lambda>(wwid, _). gm_has (gm_index [] cur ip) wwid) b) base"

lemma baseline_present_iff:
  "baseline_present base cur \<longleftrightarrow> (\<forall>x\<in>set base. keys_of (snd x) \<subseteq> keys_of (gm_index [] cur (fst x)))"
  by (simp add: baseline_present_def list_all_iff case_prod_unfold image_subset_iff)

lemma baseline_present_cong:
  "(\<And>ip. ip \<in> keys_of base \<Longrightarrow> gm_index [] cur ip = gm_index [] cur' ip) \<Longrightarrow>
     baseline_present base cur \<longleftrightarrow> baseline_present base cur'"
  by (simp add: baseline_present_iff)

abbreviation without :: "devices \<Rightarrow> string \<Rightarrow> node_devices \<Rightarrow> node_devices" where
  "without b ip cur \<equiv> set_node ip (filter (\<lambda>x. fst x \<notin> keys_of b) (gm_index [] cur ip)) cur"

lemma remove_baseline_step:
  assumes "keyed b"
  shows "remove_baseline ((ip, b) # bs) cur = Inr cur' \<longleftrightarrow>
    keys_of b \<subseteq> keys_of (gm_index [] cur ip) \<and> remove_baseline bs (without b ip cur) = Inr cur'"
proof -
  have "remove_baseline ((ip, b) # bs) cur = Inr cur' \<longleftrightarrow>
      (\<exists>devs. remove_wwids ip (map fst b) (gm_index [] cur ip) = Inr devs \<and>
         remove_baseline bs (set_node ip devs cur) = Inr cur')"
    by (simp add: set_node_def split: sum.splits)
  then show ?thesis
    using assms by (auto simp: keyed_def gm_ok_def remove_wwids_iff)
qed

lemma remove_baseline_Inr:
  "all_keyed base \<Longrightarrow> all_keyed cur \<Longrightarrow> remove_baseline base cur = Inr cur' \<Longrightarrow>
     baseline_present base cur \<and> all_keyed cur' \<and> keys_of cur' = keys_of cur \<and>
     (\<forall>ip. gm_index [] cur' ip = beyond base cur ip)"
proof (induction base arbitrary: cur)
  case Nil
  then show ?case by (simp add: baseline_present_def beyond_def gm_index_def)
next
  case (Cons x bs)
  obtain ip b where x: "x = (ip, b)" by (cases x)
  have b: "keyed b" and bs: "all_keyed bs" and ip: "ip \<notin> keys_of bs"
    using Cons.prems(1) by (auto simp: x all_keyed_def keyed_def gm_ok_def)
  let ?devs = "filter (\<lambda>y. fst y \<notin> keys_of b) (gm_index [] cur ip)"
  let ?cur = "set_node ip ?devs cur"
  from Cons.prems(3) have sub: "keys_of b \<subseteq> keys_of (gm_index [] cur ip)"
    and rest: "remove_baseline bs ?cur = Inr cur'"
    unfolding x remove_baseline_step [OF b] by blast+
  have k: "all_keyed ?cur"
    using Cons.prems(2) by (blast intro: all_keyed_index)
  note IH = Cons.IH [OF bs k rest]
  have other: "gm_index [] ?cur ip' = gm_index [] cur ip'" if "ip' \<in> keys_of bs" for ip'
    using that ip by (auto simp: index_set_node)
  have "baseline_present bs cur"
    using IH baseline_present_cong [OF other] by blast
  then have present: "baseline_present (x # bs) cur"
    using sub by (simp add: baseline_present_iff x)
  have bey: "beyond bs ?cur ip' = beyond (x # bs) cur ip'" for ip'
  proof (cases "ip' = ip")
    case True
    then show ?thesis
      using ip by (auto simp: beyond_def x index_set_node index_missing gm_index_def [of "[]" "(ip, b) # bs"])
  next
    case False
    then show ?thesis
      by (simp add: beyond_def x index_set_node gm_index_def [of "[]" "(ip, b) # bs"] gm_index_def [of "[]" bs])
  qed
  show ?case
    using present IH [unfolded bey keys_set_node] by blast
qed

lemma remove_baseline_present:
  "all_keyed base \<Longrightarrow> baseline_present base cur \<Longrightarrow> \<exists>cur'. remove_baseline base cur = Inr cur'"
proof (induction base arbitrary: cur)
  case (Cons x bs)
  obtain ip b where x: "x = (ip, b)" by (cases x)
  have b: "keyed b" and bs: "all_keyed bs" and ip: "ip \<notin> keys_of bs"
    using Cons.prems(1) by (auto simp: x all_keyed_def gm_ok_def)
  have "baseline_present bs (without b ip cur) \<longleftrightarrow> baseline_present bs cur"
    by (rule baseline_present_cong) (use ip in \<open>auto simp: index_set_node\<close>)
  then have "baseline_present bs (without b ip cur)"
    using Cons.prems(2) by (simp add: baseline_present_iff [of "x # bs"] baseline_present_iff [of bs cur])
  then obtain cur' where "remove_baseline bs (without b ip cur) = Inr cur'"
    using Cons.IH [OF bs] by blast
  then have "remove_baseline (x # bs) cur = Inr cur'"
    unfolding x remove_baseline_step [OF b] using Cons.prems(2) by (simp add: baseline_present_iff x)
  then show ?case by blast
qed simp

section \<open>Matching the volumes\<close>

definition owns :: "pure_volume \<times> string \<Rightarrow> pureLocalPathEntry \<Rightarrow> bool" where
  "owns vs e \<longleftrightarrow> GetSerialFromWWID (pe_WWID e) = Some (Inr (ToLower (snd vs))) \<and> pe_Size e = pv_Size (fst vs)"

definition attached_at :: "Node list \<Rightarrow> string \<Rightarrow> (pure_volume \<times> string) list \<Rightarrow> (pure_volume \<times> string) list" where
  "attached_at ns ip vs = filter (\<lambda>v. pv_AttachedOn (fst v) = ip \<and> attached_to ip ns = Some True) vs"

lemma find_device_Some:
  "find_device serial es = Some (Inr (Some e)) \<Longrightarrow>
     e \<in> set es \<and> GetSerialFromWWID (pe_WWID e) = Some (Inr (ToLower serial))"
  by (induction es) (auto split: option.splits sum.splits if_splits)

lemma keyed_entry: "keyed devs \<Longrightarrow> e \<in> set (gm_values devs) \<Longrightarrow> (pe_WWID e, e) \<in> set devs"
  by (auto simp: keyed_def gm_values_def list_all_iff)

lemma values_del:
  assumes "keyed devs" "e \<in> set (gm_values devs)"
  shows "mset (gm_values devs) = add_mset e (mset (gm_values (gm_del (pe_WWID e) devs)))"
  using assms
proof (induction devs)
  case (Cons x ds)
  obtain k e' where x: "x = (k, e')" by (cases x)
  have k: "k = pe_WWID e'" "k \<notin> keys_of ds" and ds: "keyed ds"
    using Cons.prems(1) by (auto simp: x keyed_def gm_ok_def)
  show ?case
  proof (cases "e = e'")
    case True
    then have "gm_del (pe_WWID e) ds = ds"
      using k by (force simp: gm_del_filter filter_id_conv)
    then show ?thesis
      using True k by (simp add: x gm_values_def gm_del_filter)
  next
    case False
    then have e: "e \<in> set (gm_values ds)"
      using Cons.prems(2) by (simp add: x gm_values_def)
    then have "pe_WWID e \<noteq> k"
      using keyed_entry [OF ds] k(2) by force
    with Cons.IH [OF ds e] show ?thesis
      by (simp add: x gm_values_def gm_del_filter)
  qed
qed (simp add: gm_values_def)

text \<open>What one volume takes: nothing when it is attached to none of the nodes, otherwise one device it
  owns from the node it is attached to.\<close>

lemma match_volume_Inr:
  assumes "match_volume ns vs cur = Some (Inr cur')" "all_keyed cur"
  shows "all_keyed cur' \<and> keys_of cur' = keys_of cur \<and>
    (\<forall>ip. \<exists>es. list_all2 owns (attached_at ns ip [vs]) es \<and>
       mset (gm_values (gm_index [] cur ip)) = mset es + mset (gm_values (gm_index [] cur' ip)))"
proof -
  obtain v serial where vs: "vs = (v, serial)" by (cases vs)
  let ?ip = "pv_AttachedOn v"
  from assms(1) consider "attached_to ?ip ns = Some False" "cur' = cur"
    | e where "attached_to ?ip ns = Some True" "find_device serial (gm_values (gm_index [] cur ?ip)) = Some (Inr (Some e))"
        "pe_Size e = pv_Size v" "cur' = gm_put ?ip (gm_del (pe_WWID e) (gm_index [] cur ?ip)) cur"
    by (auto simp: vs match_volume_def Let_def split: option.splits bool.splits sum.splits if_splits)
  then show ?thesis
  proof cases
    case 1
    then show ?thesis using assms(2) by (auto simp: attached_at_def vs)
  next
    case 2
    have e: "e \<in> set (gm_values (gm_index [] cur ?ip))" and own: "owns vs e"
      using find_device_Some [OF 2(2)] 2(3) by (auto simp: owns_def vs)
    have k: "keyed (gm_index [] cur ?ip)"
      using assms(2) by (rule all_keyed_index)
    have present: "?ip \<in> keys_of cur"
    proof (rule ccontr)
      assume "?ip \<notin> keys_of cur"
      with e show False by (simp add: index_missing gm_values_def)
    qed
    have "all_keyed cur'"
      unfolding 2(4) gm_del_filter using assms(2) k by blast
    moreover have "keys_of cur' = keys_of cur"
      using present by (auto simp: 2(4) keys_put)
    moreover have "\<exists>es. list_all2 owns (attached_at ns ip [vs]) es \<and>
       mset (gm_values (gm_index [] cur ip)) = mset es + mset (gm_values (gm_index [] cur' ip))" for ip
    proof (cases "ip = ?ip")
      case True
      then show ?thesis
        using 2(1) own values_del [OF k e]
        by (intro exI [of _ "[e]"]) (simp add: attached_at_def vs 2(4))
    next
      case False
      then show ?thesis
        by (intro exI [of _ "[]"]) (simp add: attached_at_def vs 2(4))
    qed
    ultimately show ?thesis by blast
  qed
qed

lemma attached_at_Cons: "attached_at ns ip (v # vs) = attached_at ns ip [v] @ attached_at ns ip vs"
  by (simp add: attached_at_def)

lemma match_volumes_Cons_Inr:
  "match_volumes ns (v # vs) cur = Some (Inr cur') \<longleftrightarrow>
     (\<exists>cur1. match_volume ns v cur = Some (Inr cur1) \<and> match_volumes ns vs cur1 = Some (Inr cur'))"
proof (cases "match_volume ns v cur")
  case (Some r)
  then show ?thesis by (cases r) simp_all
qed simp

lemma match_volumes_Inr:
  "match_volumes ns vs cur = Some (Inr cur') \<Longrightarrow> all_keyed cur \<Longrightarrow>
     all_keyed cur' \<and> keys_of cur' = keys_of cur \<and>
     (\<forall>ip. \<exists>es. list_all2 owns (attached_at ns ip vs) es \<and>
        mset (gm_values (gm_index [] cur ip)) = mset es + mset (gm_values (gm_index [] cur' ip)))"
proof (induction vs arbitrary: cur)
  case Nil
  then show ?case by (auto simp: attached_at_def)
next
  case (Cons v vs)
  from Cons.prems(1) have "\<exists>cur1. match_volume ns v cur = Some (Inr cur1) \<and> match_volumes ns vs cur1 = Some (Inr cur')"
    by (simp only: match_volumes_Cons_Inr)
  then obtain cur1 where m: "match_volume ns v cur = Some (Inr cur1)" "match_volumes ns vs cur1 = Some (Inr cur')"
    by (elim exE conjE)
  note 1 = match_volume_Inr [OF m(1) Cons.prems(2)]
  note 2 = Cons.IH [OF m(2) conjunct1 [OF 1]]
  have "\<exists>es. list_all2 owns (attached_at ns ip (v # vs)) es \<and>
      mset (gm_values (gm_index [] cur ip)) = mset es + mset (gm_values (gm_index [] cur' ip))" for ip
  proof -
    obtain es1 where "list_all2 owns (attached_at ns ip [v]) es1"
      "mset (gm_values (gm_index [] cur ip)) = mset es1 + mset (gm_values (gm_index [] cur1 ip))"
      using 1 [THEN conjunct2, THEN conjunct2, THEN spec, of ip] by (elim exE conjE)
    moreover obtain es2 where "list_all2 owns (attached_at ns ip vs) es2"
      "mset (gm_values (gm_index [] cur1 ip)) = mset es2 + mset (gm_values (gm_index [] cur' ip))"
      using 2 [THEN conjunct2, THEN conjunct2, THEN spec, of ip] by (elim exE conjE)
    ultimately show ?thesis
      unfolding attached_at_Cons [of ns ip v vs]
      by (intro exI [of _ "es1 @ es2"]) (simp add: list_all2_appendI)
  qed
  moreover have "all_keyed cur'" "keys_of cur' = keys_of cur"
    using 1 2 by (simp_all only: simp_thms)
  ultimately show ?case by (intro conjI allI)
qed

section \<open>Every device accounted for\<close>

definition accounted :: "Node list \<Rightarrow> node_devices \<Rightarrow> (pure_volume \<times> string) list \<Rightarrow> node_devices \<Rightarrow> bool" where
  "accounted ns base vs cur \<longleftrightarrow> baseline_present base cur \<and>
     (\<forall>ip. \<exists>es. list_all2 owns (attached_at ns ip vs) es \<and> mset es = mset (gm_values (beyond base cur ip)))"

lemma no_devices_left_iff:
  "gm_ok cur \<Longrightarrow> no_devices_left cur = Inr () \<longleftrightarrow> (\<forall>ip. gm_index [] cur ip = [])"
proof -
  assume ok: "gm_ok cur"
  have "no_devices_left cur = Inr () \<longleftrightarrow> (\<forall>x\<in>set cur. snd x = [])"
    by (induction cur rule: no_devices_left.induct) auto
  also have "\<dots> \<longleftrightarrow> (\<forall>ip. gm_index [] cur ip = [])"
    using ok by (force simp: gm_index_def gm_ok_def split: option.splits dest: map_of_SomeD)
  finally show ?thesis .
qed

lemma gm_values_eq_Nil [simp]: "gm_values m = [] \<longleftrightarrow> m = []"
  by (simp add: gm_values_def)

lemma accounting_sound:
  assumes base: "all_keyed base" and cur: "all_keyed cur" and rb: "remove_baseline base cur = Inr cur1"
    and mv: "match_volumes ns vs cur1 = Some (Inr cur2)" and left: "no_devices_left cur2 = Inr ()"
  shows "accounted ns base vs cur"
proof -
  note 1 = remove_baseline_Inr [OF base cur rb]
  note k1 = 1 [THEN conjunct2, THEN conjunct1]
  note 2 = match_volumes_Inr [OF mv k1]
  have "gm_index [] cur2 ip = []" for ip
    using left no_devices_left_iff [of cur2] 2 by (simp add: all_keyed_def)
  moreover have "gm_index [] cur1 ip = beyond base cur ip" for ip
    using 1 by simp
  ultimately have "\<exists>es. list_all2 owns (attached_at ns ip vs) es \<and> mset es = mset (gm_values (beyond base cur ip))" for ip
    using 2 [THEN conjunct2, THEN conjunct2, THEN spec, of ip] by fastforce
  with 1 show ?thesis
    by (simp add: accounted_def)
qed

lemma pure_paths_check_Inr:
  "pure_paths_check run lv insp base r w = Some (Inr u, w') \<longleftrightarrow>
     (\<exists>cur w1 names w2 vs cur1 cur2.
        getCurrentPureLocalVolumePaths run r w = Some (Inr cur, w1) \<and> remove_baseline base cur = Inr cur1 \<and>
        lv w1 = (Inr names, w2) \<and> inspect_fada insp names w2 = Some (Inr vs, w') \<and>
        match_volumes (GetStorageDriverNodes r) vs cur1 = Some (Inr cur2) \<and> no_devices_left cur2 = Inr ())"
  by (auto simp: pure_paths_check_def io_bind_Inr)

section \<open>Completeness of the matching\<close>

definition serials_ok :: "pureLocalPathEntry list \<Rightarrow> bool" where
  "serials_ok es \<longleftrightarrow> distinct (map (\<lambda>e. GetSerialFromWWID (pe_WWID e)) es) \<and>
     list_all (\<lambda>e. case GetSerialFromWWID (pe_WWID e) of Some (Inr _) \<Rightarrow> True | _ \<Rightarrow> False) es"

lemma serials_ok_filter: "serials_ok (gm_values devs) \<Longrightarrow> serials_ok (gm_values (filter P devs))"
proof -
  assume ok: "serials_ok (gm_values devs)"
  then have "distinct (map (\<lambda>x. GetSerialFromWWID (pe_WWID (snd x))) devs)"
    by (simp add: serials_ok_def gm_values_def comp_def)
  then have "distinct (map (\<lambda>x. GetSerialFromWWID (pe_WWID (snd x))) (filter P devs))"
    by (rule distinct_map_filter)
  with ok show ?thesis
    by (simp add: serials_ok_def gm_values_def comp_def list_all_iff)
qed

lemma find_device_unique:
  "serials_ok es \<Longrightarrow> e \<in> set es \<Longrightarrow> GetSerialFromWWID (pe_WWID e) = Some (Inr (ToLower serial)) \<Longrightarrow>
     find_device serial es = Some (Inr (Some e))"
proof (induction es)
  case (Cons d es)
  from Cons.prems(1) obtain s where s: "GetSerialFromWWID (pe_WWID d) = Some (Inr s)"
    by (auto simp: serials_ok_def split: option.splits sum.splits)
  have ok: "serials_ok es" and new: "GetSerialFromWWID (pe_WWID d) \<notin> (\<lambda>e. GetSerialFromWWID (pe_WWID e)) ` set es"
    using Cons.prems(1) by (auto simp: serials_ok_def)
  show ?case
  proof (cases "e = d")
    case True
    then show ?thesis using s Cons.prems(3) by simp
  next
    case False
    then have e: "e \<in> set es" using Cons.prems(2) by simp
    then have "s \<noteq> ToLower serial"
      using new s Cons.prems(3) by (metis image_eqI)
    then show ?thesis
      using s Cons.IH [OF ok e Cons.prems(3)] by simp
  qed
qed simp

lemma attached_to_total: "list_all (\<lambda>n. StorageNode n \<noteq> None) ns \<Longrightarrow> \<exists>b. attached_to ip ns = Some b"
  by (induction ns) auto

definition covers :: "Node list \<Rightarrow> (pure_volume \<times> string) list \<Rightarrow> node_devices \<Rightarrow> string \<Rightarrow> bool" where
  "covers ns vs cur ip \<longleftrightarrow>
     (\<exists>es. list_all2 owns (attached_at ns ip vs) es \<and> mset es \<subseteq># mset (gm_values (gm_index [] cur ip)))"

lemma match_volume_covers:
  assumes nodes: "list_all (\<lambda>n. StorageNode n \<noteq> None) ns" and keyed: "all_keyed cur"
    and serials: "\<And>ip. serials_ok (gm_values (gm_index [] cur ip))" and cov: "\<And>ip. covers ns (v # vs) cur ip"
  shows "\<exists>cur'. match_volume ns v cur = Some (Inr cur') \<and>
    (\<forall>ip. serials_ok (gm_values (gm_index [] cur' ip)) \<and> covers ns vs cur' ip)"
proof -
  obtain v0 serial where v: "v = (v0, serial)" by (cases v)
  let ?ip = "pv_AttachedOn v0"
  let ?devs = "gm_index [] cur ?ip"
  have other: "attached_at ns ip (v # vs) = attached_at ns ip vs" if "ip = ?ip \<Longrightarrow> attached_to ?ip ns \<noteq> Some True" for ip
    using that by (auto simp: attached_at_def v)
  show ?thesis
  proof (cases "attached_to ?ip ns = Some True")
    case False
    then have "attached_to ?ip ns = Some False"
      using attached_to_total [OF nodes, of ?ip] by auto
    then have "match_volume ns v cur = Some (Inr cur)"
      by (simp add: match_volume_def v)
    moreover have "covers ns vs cur ip" for ip
      using cov [of ip] other [of ip] False by (simp add: covers_def)
    ultimately show ?thesis using serials by blast
  next
    case True
    then have "attached_at ns ?ip (v # vs) = v # attached_at ns ?ip vs"
      by (simp add: attached_at_def v)
    then obtain e es where es: "owns v e" "list_all2 owns (attached_at ns ?ip vs) es"
        "mset (e # es) \<subseteq># mset (gm_values ?devs)"
      using cov [of ?ip] by (auto simp: covers_def list_all2_Cons1)
    have e: "e \<in> set (gm_values ?devs)"
      using es(3) by (metis list.set_intros(1) mset_subset_eqD set_mset_mset)
    let ?cur = "gm_put ?ip (gm_del (pe_WWID e) ?devs) cur"
    have "find_device serial (gm_values ?devs) = Some (Inr (Some e))"
      using find_device_unique [OF serials e] es(1) by (simp add: owns_def v)
    then have "match_volume ns v cur = Some (Inr ?cur)"
      using True es(1) by (simp add: match_volume_def v owns_def Let_def)
    moreover have "serials_ok (gm_values (gm_index [] ?cur ip))" for ip
      by (simp add: gm_del_filter serials serials_ok_filter)
    moreover have "covers ns vs ?cur ip" for ip
    proof (cases "ip = ?ip")
      case True
      have "mset es \<subseteq># mset (gm_values (gm_del (pe_WWID e) ?devs))"
        using es(3) values_del [OF all_keyed_index [OF keyed] e] by simp
      with es(2) True show ?thesis
        unfolding covers_def by (intro exI [of _ es]) simp
    next
      case False
      then show ?thesis
        using cov [of ip] other [of ip] by (simp add: covers_def)
    qed
    ultimately show ?thesis by blast
  qed
qed

lemma match_volumes_complete:
  "list_all (\<lambda>n. StorageNode n \<noteq> None) ns \<Longrightarrow> all_keyed cur \<Longrightarrow>
     (\<And>ip. serials_ok (gm_values (gm_index [] cur ip))) \<Longrightarrow> (\<And>ip. covers ns vs cur ip) \<Longrightarrow>
     \<exists>cur'. match_volumes ns vs cur = Some (Inr cur')"
proof (induction vs arbitrary: cur)
  case (Cons v vs)
  from match_volume_covers [OF Cons.prems] obtain cur1 where m: "match_volume ns v cur = Some (Inr cur1)"
      "\<And>ip. serials_ok (gm_values (gm_index [] cur1 ip))" "\<And>ip. covers ns vs cur1 ip"
    by blast
  have "all_keyed cur1"
    using match_volume_Inr [OF m(1) Cons.prems(2)] by (rule conjunct1)
  from Cons.IH [OF Cons.prems(1) this m(2,3)] m(1) show ?case by simp
qed simp

lemma accounting_complete:
  assumes base: "all_keyed base" and cur: "all_keyed cur" and nodes: "list_all (\<lambda>n. StorageNode n \<noteq> None) ns"
    and serials: "\<And>ip. serials_ok (gm_values (beyond base cur ip))" and acc: "accounted ns base vs cur"
  shows "\<exists>cur1 cur2. remove_baseline base cur = Inr cur1 \<and> match_volumes ns vs cur1 = Some (Inr cur2) \<and>
    no_devices_left cur2 = Inr ()"
proof -
  obtain cur1 where rb: "remove_baseline base cur = Inr cur1"
    using remove_baseline_present [OF base] acc by (auto simp: accounted_def)
  note 1 = remove_baseline_Inr [OF base cur rb]
  then have k1: "all_keyed cur1" and i1: "\<And>ip. gm_index [] cur1 ip = beyond base cur ip"
    by simp_all
  have total_match: "\<exists>es. list_all2 owns (attached_at ns ip vs) es \<and> mset es = mset (gm_values (beyond base cur ip))" for ip
    using acc by (simp add: accounted_def)
  then have "covers ns vs cur1 ip" for ip
    unfolding covers_def i1 by (metis subset_mset.order_refl)
  then obtain cur2 where mv: "match_volumes ns vs cur1 = Some (Inr cur2)"
    using match_volumes_complete [OF nodes k1] serials i1 by fastforce
  note 2 = match_volumes_Inr [OF mv k1]
  have "gm_index [] cur2 ip = []" for ip
  proof -
    obtain es where es: "list_all2 owns (attached_at ns ip vs) es"
        "mset (gm_values (beyond base cur ip)) = mset es + mset (gm_values (gm_index [] cur2 ip))"
      using 2 [THEN conjunct2, THEN conjunct2, THEN spec, of ip] i1 by auto
    obtain es' where "list_all2 owns (attached_at ns ip vs) es'" "mset es' = mset (gm_values (beyond base cur ip))"
      using total_match [of ip] by blast
    then have "length es = length es'" "mset es' = mset es + mset (gm_values (gm_index [] cur2 ip))"
      using es by (simp_all add: list_all2_lengthD [of owns, symmetric])
    then have "length es = length es + length (gm_values (gm_index [] cur2 ip))"
      by (metis size_mset size_union)
    then show ?thesis by simp
  qed
  then have "no_devices_left cur2 = Inr ()"
    using no_devices_left_iff [of cur2] 2 by (simp add: all_keyed_def)
  with rb mv show ?thesis by blast
qed

section \<open>Listings as lsblk prints them\<close>

text \<open>A Pure device with its single paths, or another device with its parents, in columns \<open>width\<close> wide.\<close>

datatype lsblk_item =
    PureDev string u64 "(string \<times> u64) list"
  | OtherDev string u64 "(string \<times> u64) list"

definition lsblk_row :: "nat \<Rightarrow> string \<Rightarrow> u64 \<Rightarrow> string" where
  "lsblk_row width name sz = name @ replicate (Suc (width - length name)) (CHR '' '') @ show_u64 sz"

fun lsblk_tree :: "nat \<Rightarrow> (string \<times> u64) list \<Rightarrow> string list" where
  "lsblk_tree width [] = []"
| "lsblk_tree width [(p, sz)] = [lsblk_row width ([CHR 0x60, CHR ''-''] @ p) sz]"
| "lsblk_tree width ((p, sz) # ps) = lsblk_row width (''|-'' @ p) sz # lsblk_tree width ps"

fun lsblk_print :: "nat \<Rightarrow> lsblk_item \<Rightarrow> string list" where
  "lsblk_print width (PureDev wwid sz ps) = lsblk_row width wwid sz # lsblk_tree width ps"
| "lsblk_print width (OtherDev name sz ps) = lsblk_row width name sz # lsblk_tree width ps"

definition lsblk_output :: "nat \<Rightarrow> lsblk_item list \<Rightarrow> string" where
  "lsblk_output width items = Join (concat (map (lsblk_print width) items) @ [[]]) [go_nl]"

fun pure_entries :: "lsblk_item list \<Rightarrow> devices" where
  "pure_entries [] = []"
| "pure_entries (PureDev wwid sz ps # items) =
     (wwid, \<lparr>pe_WWID = wwid, pe_SinglePaths = map fst ps, pe_Size = sz\<rparr>) # pure_entries items"
| "pure_entries (OtherDev _ _ _ # items) = pure_entries items"

definition wf_name :: "string \<Rightarrow> bool" where
  "wf_name n \<longleftrightarrow> n \<noteq> [] \<and> list_all (\<lambda>c. \<not> isSpace c) n"

text \<open>A name that the parser reads as that of a device other than a Pure device or a partition.\<close>

definition plain_name :: "string \<Rightarrow> bool" where
  "plain_name n \<longleftrightarrow> wf_name n \<and> \<not> Contains_str n PureVolumeOUI \<and> (CHR ''p'' \<in> set n \<longrightarrow> Contains_str n ''sd'')"

fun wf_item :: "lsblk_item \<Rightarrow> bool" where
  "wf_item (PureDev wwid _ ps) \<longleftrightarrow> wf_name wwid \<and> Contains_str wwid PureVolumeOUI \<and>
     list_all (\<lambda>c. c \<notin> {CHR ''p'', CHR ''-'', CHR 0x60}) wwid \<and> list_all (\<lambda>(p, _). plain_name p) ps"
| "wf_item (OtherDev name _ ps) \<longleftrightarrow> plain_name name \<and> \<not> HasPrefix name ''|-'' \<and>
     \<not> HasPrefix name [CHR 0x60, CHR ''-''] \<and> list_all (\<lambda>(p, _). plain_name p) ps"

lemma digits_val_digits: "digits_val a s = Some n \<Longrightarrow> c \<in> set s \<Longrightarrow> digit_val c \<noteq> None"
  by (induction s arbitrary: a) (auto split: option.splits)

lemma show_u64_digit: "c \<in> set (show_u64 sz) \<Longrightarrow> digit_val c \<noteq> None"
  unfolding show_u64_def by (rule digits_val_digits [OF digits_val_show_nat])

lemma show_u64_no_space: "c \<in> set (show_u64 sz) \<Longrightarrow> \<not> isSpace c"
  using show_u64_digit [of c sz] by (auto simp: isSpace_def go_space_def digit_val_def Let_def)

lemma show_u64_neq_Nil [simp]: "show_u64 sz \<noteq> []"
  by (simp add: show_u64_def)

lemma prefix_before: "prefix sub (x @ c # y) \<Longrightarrow> c \<notin> set sub \<Longrightarrow> prefix sub x"
  by (induction x arbitrary: sub) (auto simp: prefix_Cons)

lemma Contains_Nil [simp]: "Contains_str s []"
  by (cases s) (simp_all add: HasPrefix_def)

lemma Contains_split:
  "Contains_str (x @ c # y) sub \<Longrightarrow> c \<notin> set sub \<Longrightarrow> Contains_str x sub \<or> Contains_str y sub"
proof (induction x)
  case Nil
  then show ?case
    by (cases sub) (auto simp: HasPrefix_def)
next
  case (Cons a x)
  then show ?case
    using prefix_before [of sub "a # x" c y] by (auto simp: HasPrefix_iff_prefix)
qed

lemma Contains_subset: "Contains_str s sub \<Longrightarrow> set sub \<subseteq> set s"
  by (auto simp: Contains_str_iff)

lemma Contains_extend: "Contains_str x sub \<Longrightarrow> Contains_str (u @ x @ v) sub"
  by (auto simp: Contains_str_iff) (metis append.assoc)

lemma Contains_char: "Contains_str s [c] \<longleftrightarrow> c \<in> set s"
  by (auto simp: Contains_str_iff in_set_conv_decomp)

lemma row_shape: "\<exists>b. lsblk_row width name sz = name @ CHR '' '' # b @ show_u64 sz \<and> set b \<subseteq> {CHR '' ''}"
  by (auto simp: lsblk_row_def)

lemma row_Contains:
  assumes "set sub \<inter> {CHR '' ''} = {}" "\<not> set sub \<subseteq> {c. digit_val c \<noteq> None} \<union> {CHR '' ''}"
  shows "Contains_str (lsblk_row width name sz) sub \<longleftrightarrow> Contains_str name sub"
proof -
  obtain b where b: "lsblk_row width name sz = name @ CHR '' '' # b @ show_u64 sz" "set b \<subseteq> {CHR '' ''}"
    using row_shape by blast
  have "\<not> Contains_str (b @ show_u64 sz) sub"
    using Contains_subset [of "b @ show_u64 sz" sub] assms(2) b(2) show_u64_digit [of _ sz] by auto
  then show ?thesis
    using Contains_split [of name "CHR '' ''" "b @ show_u64 sz" sub] assms(1)
      Contains_extend [of name sub "[]"] by (auto simp: b(1))
qed

lemma row_Fields:
  assumes "wf_name name"
  shows "Fields (lsblk_row width name sz) = [name, show_u64 sz]"
proof -
  have pad: "Fields (replicate k (CHR '' '') @ show_u64 sz) = [show_u64 sz]" for k
  proof (induction k)
    case 0
    then show ?case by (simp add: Fields_word show_u64_no_space)
  next
    case (Suc k)
    then show ?case by (simp add: Fields_space isSpace_def go_space_def)
  qed
  show ?thesis
    using assms Fields_word_sep [of name "CHR '' ''" "replicate (width - length name) (CHR '' '') @ show_u64 sz"]
    by (simp add: lsblk_row_def wf_name_def list_all_iff pad isSpace_def go_space_def)
qed

lemma row_TrimSpace:
  assumes "wf_name name"
  shows "TrimSpace (lsblk_row width name sz) = lsblk_row width name sz"
  unfolding TrimSpace_def
proof (rule Trim_id)
  have "hd (lsblk_row width name sz) = hd name" "hd name \<in> set name"
    using assms by (auto simp: lsblk_row_def wf_name_def)
  moreover have "last (lsblk_row width name sz) \<in> set (show_u64 sz)"
    by (simp add: lsblk_row_def)
  ultimately show "lsblk_row width name sz = [] \<or>
      hd (lsblk_row width name sz) \<notin> set go_space \<and> last (lsblk_row width name sz) \<notin> set go_space"
    using assms show_u64_no_space by (auto simp: wf_name_def list_all_iff isSpace_def)
qed

lemma digit_val_letter: "digit_val (CHR ''p'') = None" "digit_val (CHR ''s'') = None" "digit_val (CHR ''a'') = None"
  by (simp_all add: digit_val_def)

lemma row_marks:
  "Contains_str (lsblk_row width name sz) ''p'' \<longleftrightarrow> CHR ''p'' \<in> set name"
  "Contains_str (lsblk_row width name sz) ''sd'' \<longleftrightarrow> Contains_str name ''sd''"
  "Contains_str (lsblk_row width name sz) PureVolumeOUI \<longleftrightarrow> Contains_str name PureVolumeOUI"
  by (subst row_Contains; simp add: digit_val_letter PureVolumeOUI_def Contains_char)+

lemma row_neq_Nil [simp]: "lsblk_row width name sz \<noteq> []"
  by (simp add: lsblk_row_def)

lemmas line_simps = lsblk_line_def Let_def row_TrimSpace row_marks row_Fields

definition tree_mark :: "string \<Rightarrow> bool" where
  "tree_mark pre \<longleftrightarrow> pre = ''|-'' \<or> pre = [CHR 0x60, CHR ''-'']"

lemma tree_mark_name:
  assumes "tree_mark pre" "plain_name p"
  shows "plain_name (pre @ p)"
proof -
  obtain x where pre: "pre = [x, CHR ''-'']" and x: "x \<noteq> CHR ''p''" "\<not> isSpace x"
    using assms(1) by (auto simp: tree_mark_def isSpace_def go_space_def)
  have "\<not> Contains_str ([x] @ CHR ''-'' # p) PureVolumeOUI"
    using Contains_split [of "[x]" "CHR ''-''" p PureVolumeOUI] assms(2)
    by (auto simp: plain_name_def PureVolumeOUI_def HasPrefix_def)
  moreover have "Contains_str p ''sd'' \<Longrightarrow> Contains_str (pre @ p) ''sd''"
    using Contains_extend [of p "''sd''" pre "[]"] by simp
  ultimately show ?thesis
    using assms(2) x by (auto simp: plain_name_def pre wf_name_def isSpace_def go_space_def)
qed

lemma row_drop:
  assumes "tree_mark pre"
  shows "drop 2 (lsblk_row width (pre @ p) sz) = lsblk_row (width - 2) p sz"
    and "HasPrefix (lsblk_row width (pre @ p) sz) pre"
  using assms by (auto simp: tree_mark_def lsblk_row_def HasPrefix_def)

abbreviation add_path :: "string \<Rightarrow> pureLocalPathEntry \<Rightarrow> pureLocalPathEntry" where
  "add_path p e \<equiv> e\<lparr>pe_SinglePaths := pe_SinglePaths e @ [p]\<rparr>"

lemma path_line:
  assumes "tree_mark pre" "plain_name p"
  shows "lsblk_line (lsblk_row width (pre @ p) sz) (found, cur) = Some (Inr (found, map_option (add_path p) cur))"
proof -
  have n: "plain_name (pre @ p)" using assms by (rule tree_mark_name)
  have prefix: "HasPrefix (lsblk_row width (pre @ p) sz) ''|-'' \<or> HasPrefix (lsblk_row width (pre @ p) sz) [CHR 0x60, CHR ''-'']"
    using row_drop(2) [OF assms(1)] assms(1) by (auto simp: tree_mark_def)
  have "Fields (drop 2 (lsblk_row width (pre @ p) sz)) = [p, show_u64 sz]"
    using assms by (simp add: row_drop row_Fields plain_name_def)
  then show ?thesis
    using n prefix by (cases cur) (auto simp: line_simps plain_name_def simp del: append.simps)
qed

lemma tree_lines:
  "list_all (\<lambda>(p, _). plain_name p) ps \<Longrightarrow>
     lsblk_lines (lsblk_tree width ps) (found, cur) =
       Some (Inr (found, map_option (\<lambda>e. e\<lparr>pe_SinglePaths := pe_SinglePaths e @ map fst ps\<rparr>) cur))"
proof (induction width ps arbitrary: cur rule: lsblk_tree.induct)
  case (1 width)
  then show ?case by (cases cur) simp_all
next
  case (2 width p sz)
  then show ?case
    using path_line [of "[CHR 0x60, CHR ''-'']" p] by (simp add: tree_mark_def)
next
  case (3 width p sz q ps)
  then show ?case
    using path_line [of "''|-''" p width sz found cur] by (cases cur) (simp_all add: tree_mark_def)
qed

lemma lsblk_lines_append:
  "lsblk_lines (xs @ ys) st = (case lsblk_lines xs st of Some (Inr st') \<Rightarrow> lsblk_lines ys st' | r \<Rightarrow> r)"
proof (induction xs arbitrary: st)
  case (Cons x xs)
  show ?case
  proof (cases "lsblk_line x st")
    case (Some r)
    then show ?thesis using Cons.IH by (cases r) simp_all
  qed simp
qed simp

definition found_so_far :: "devices \<times> pureLocalPathEntry option \<Rightarrow> devices" where
  "found_so_far st = finish_entry (snd st) (fst st)"

fun add_item :: "lsblk_item \<Rightarrow> devices \<Rightarrow> devices" where
  "add_item (PureDev wwid sz ps) m =
     gm_put wwid \<lparr>pe_WWID = wwid, pe_SinglePaths = map fst ps, pe_Size = sz\<rparr> m"
| "add_item (OtherDev _ _ _) m = m"

lemma item_lines:
  assumes "wf_item it"
  shows "\<exists>st'. lsblk_lines (lsblk_print width it) st = Some (Inr st') \<and> found_so_far st' = add_item it (found_so_far st)"
proof (cases it)
  case (PureDev wwid sz ps)
  have "trim_wwid wwid = wwid"
    using assms by (simp add: PureDev trim_wwid_def RemoveChar_def list_all_iff filter_id_conv)
  moreover have "CHR ''p'' \<notin> set wwid"
    using assms by (auto simp: PureDev list_all_iff)
  ultimately have "lsblk_line (lsblk_row width wwid sz) st =
      Some (Inr (found_so_far st, Some \<lparr>pe_WWID = wwid, pe_SinglePaths = [], pe_Size = sz\<rparr>))"
    using assms by (simp add: PureDev line_simps start_entry_def found_so_far_def)
  then show ?thesis
    using assms by (simp add: PureDev tree_lines found_so_far_def finish_entry_def)
next
  case (OtherDev name sz ps)
  have "\<not> HasPrefix (lsblk_row width name sz) pre" if "tree_mark pre" "\<not> HasPrefix name pre" for pre
    using that prefix_before [of pre name "CHR '' ''"] by (auto simp: tree_mark_def HasPrefix_iff_prefix lsblk_row_def)
  then have "\<not> HasPrefix (lsblk_row width name sz) ''|-''" "\<not> HasPrefix (lsblk_row width name sz) [CHR 0x60, CHR ''-'']"
    using assms by (simp_all add: OtherDev tree_mark_def)
  then have "lsblk_line (lsblk_row width name sz) st = Some (Inr (found_so_far st, None))"
    using assms by (cases st; cases "snd st") (simp_all add: OtherDev line_simps plain_name_def found_so_far_def finish_entry_def)
  then show ?thesis
    using assms by (simp add: OtherDev tree_lines found_so_far_def finish_entry_def)
qed

lemma items_lines:
  "list_all wf_item items \<Longrightarrow>
     \<exists>st'. lsblk_lines (concat (map (lsblk_print width) items)) st = Some (Inr st') \<and>
       found_so_far st' = fold add_item items (found_so_far st)"
proof (induction items arbitrary: st)
  case (Cons it items)
  then obtain st1 where "lsblk_lines (lsblk_print width it) st = Some (Inr st1)"
      "found_so_far st1 = add_item it (found_so_far st)"
    using item_lines [of it width st] by auto
  with Cons.IH [of st1] Cons.prems show ?case by (simp add: lsblk_lines_append)
qed simp

lemma put_new: "k \<notin> keys_of m \<Longrightarrow> gm_put k v m = m @ [(k, v)]"
  unfolding gm_put_def by (induction m) auto

lemma fold_add_items:
  "distinct (map fst (m @ pure_entries items)) \<Longrightarrow> fold add_item items m = m @ pure_entries items"
proof (induction items arbitrary: m)
  case (Cons it items)
  then show ?case by (cases it) (auto simp: put_new)
qed simp

lemma isSpace_nl: "isSpace go_nl"
  by (simp add: isSpace_def go_space_def go_nl_def)

lemma row_no_nl: "wf_name name \<Longrightarrow> go_nl \<notin> set (lsblk_row width name sz)"
  using isSpace_nl show_u64_no_space [of go_nl sz]
  by (auto simp: lsblk_row_def wf_name_def list_all_iff go_nl_def)

lemma tree_row_no_nl: "tree_mark pre \<Longrightarrow> plain_name p \<Longrightarrow> go_nl \<notin> set (lsblk_row width (pre @ p) sz)"
  using tree_mark_name [of pre p] by (intro row_no_nl) (simp add: plain_name_def)

lemma tree_no_nl:
  "list_all (\<lambda>(p, _). plain_name p) ps \<Longrightarrow> \<forall>l\<in>set (lsblk_tree width ps). go_nl \<notin> set l"
proof (induction width ps rule: lsblk_tree.induct)
  case (2 width p sz)
  then show ?case
    using tree_row_no_nl [of "[CHR 0x60, CHR ''-'']" p width sz] by (simp add: tree_mark_def)
next
  case (3 width p sz q ps)
  then show ?case
    using tree_row_no_nl [of "''|-''" p width sz] by (simp add: tree_mark_def)
qed simp

lemma plain_wf: "plain_name n \<Longrightarrow> wf_name n"
  by (simp add: plain_name_def)

lemma print_no_nl: "wf_item it \<Longrightarrow> \<forall>l\<in>set (lsblk_print width it). go_nl \<notin> set l"
  by (cases it) (use tree_no_nl in \<open>auto simp: row_no_nl plain_wf\<close>)

lemma parse_printed:
  assumes "list_all wf_item items" "distinct (map fst (pure_entries items))"
  shows "parseLsblkOutput (lsblk_output width items) = Some (Inr (pure_entries items))"
proof -
  let ?ls = "concat (map (lsblk_print width) items)"
  have "Split (lsblk_output width items) go_nl = ?ls @ [[]]"
    unfolding lsblk_output_def
    by (subst Split_Join) (use assms(1) print_no_nl in \<open>auto simp: list_all_iff\<close>)
  moreover obtain st where "lsblk_lines ?ls ([], None) = Some (Inr st)" "found_so_far st = pure_entries items"
    using items_lines [OF assms(1), of width "([], None)"] fold_add_items [of "[]" items] assms(2)
    by (auto simp: found_so_far_def finish_entry_def)
  moreover have "lsblk_line [] st = Some (Inr st)"
    by (simp add: lsblk_line_def TrimSpace_def Trim_id)
  ultimately show ?thesis
    by (cases st) (simp add: parseLsblkOutput_def lsblk_lines_append found_so_far_def)
qed

section \<open>Main theorems\<close>


definition sample_items :: "lsblk_item list" where
  "sample_items = [OtherDev ''sdd'' 4096 [], PureDev ''3624a93700a1B'' 512 [(''sdf'', 512), (''sdh'', 512)],
     OtherDev ''sde2'' 64 [(''sde'', 128)]]"

lemma sample_items_wf: "list_all wf_item sample_items" "distinct (map fst (pure_entries sample_items))"
  by code_simp+


text \<open>C26: No unexplained device. With a baseline that \<open>InitializePureLocalVolumePaths\<close> recorded, a
  validation that succeeds has seen, on every node, all the baseline devices and beyond them exactly one
  device per FADA volume attached there, with the serial number and the size of that volume.\<close>

theorem pure_paths_validated:
  assumes "InitializePureLocalVolumePaths run r0 st0 = Some (None, base, w0)"
    and "ValidatePureLocalVolumePaths clk run ListVols Inspect base r w = Some (Inr (), w')"
  shows "\<exists>w1 cur w2 names w3 vols.
     getCurrentPureLocalVolumePaths run r w1 = Some (Inr cur, w2) \<and> ListVols w2 = (Inr names, w3) \<and>
     inspect_fada Inspect names w3 = Some (Inr vols, w') \<and> accounted (GetStorageDriverNodes r) base vols cur"
proof -
  note base = baseline_keyed [OF assms(1)]
  obtain w1 where "pure_paths_check run ListVols Inspect base r w1 = Some (Inr (), w')"
    using io_poll_Inr [OF _ assms(2) [unfolded ValidatePureLocalVolumePaths_def]]
    by (auto simp: defaultRetryInterval_def second_ns_def)
  then obtain cur w2 names w3 vols cur1 cur2 where
    c: "getCurrentPureLocalVolumePaths run r w1 = Some (Inr cur, w2)" "remove_baseline base cur = Inr cur1"
      "ListVols w2 = (Inr names, w3)" "inspect_fada Inspect names w3 = Some (Inr vols, w')"
      "match_volumes (GetStorageDriverNodes r) vols cur1 = Some (Inr cur2)" "no_devices_left cur2 = Inr ()"
    unfolding pure_paths_check_Inr by blast
  have "accounted (GetStorageDriverNodes r) base vols cur"
    by (rule accounting_sound [OF base current_keyed(1) [OF c(1)] c(2,5,6)])
  with c(1,3,4) show ?thesis by blast
qed

definition sample_lsblk :: "bool \<Rightarrow> lsblk_item list" where
  "sample_lsblk attached = PureDev ''3624a93700aa'' 512 [(''sdf'', 512)] #
     (if attached then [PureDev ''3624a93700bb'' 1024 [(''sdg'', 1024)]] else [])"

definition sample_run :: "bool run_command" where
  "sample_run n cmd attached = (Inr (if cmd = lsblk_cmd then lsblk_output 20 (sample_lsblk attached)
     else ''3624a93700aa'' @ go_tab # ''(253:0)'' @
       (if attached then go_nl # ''3624a93700bb'' @ go_tab # ''(253:1)'' else [])), attached)"

definition sample_volume :: pure_volume where
  "sample_volume = \<lparr>pv_Name = ''v1'', pv_AttachedOn = ''10.0.0.1'', pv_Size = 1024,
     pv_ProxySpec = Some \<lparr>proxy_Protocol = PURE_BLOCK, proxy_PureBlockSerial = Some ''0BB''\<rparr>\<rparr>"

definition sample_list :: "bool \<Rightarrow> string list result \<times> bool" where
  "sample_list w = (Inr [''v1''], w)"

definition sample_inspect :: "string \<Rightarrow> bool \<Rightarrow> pure_volume result \<times> bool" where
  "sample_inspect v w = (Inr sample_volume, w)"

abbreviation sample_registry :: registry where
  "sample_registry \<equiv> [(''u1'', sample_node)]"

definition sample_current :: "bool \<Rightarrow> node_devices" where
  "sample_current attached = [(''10.0.0.1'', pure_entries (sample_lsblk attached))]"

lemma sample_parse: "parseLsblkOutput (lsblk_output 20 (sample_lsblk attached)) = Some (Inr (pure_entries (sample_lsblk attached)))"
proof (rule parse_printed)
  have "list_all wf_item (sample_lsblk True)"
    by code_simp
  then show "list_all wf_item (sample_lsblk attached)"
    by (simp add: sample_lsblk_def)
  show "distinct (map fst (pure_entries (sample_lsblk attached)))"
    by (simp add: sample_lsblk_def)
qed

lemma sample_mappers:
  "dmsetup_mappers (''3624a93700aa'' @ go_tab # ''(253:0)'') = [''3624a93700aa'']"
  "dmsetup_mappers (''3624a93700aa'' @ go_tab # ''(253:0)'' @ go_nl # ''3624a93700bb'' @ go_tab # ''(253:1)'') =
     [''3624a93700aa'', ''3624a93700bb'']"
  by (simp_all add: dmsetup_mappers_def dmsetup_line_def go_tab_def go_nl_def PureVolumeOUI_def HasPrefix_def)

lemma sample_collect:
  "collectLocalNodeInfo sample_run n attached = Some (Inr (pure_entries (sample_lsblk attached)), attached)"
proof -
  have "check_mappers (pure_entries (sample_lsblk True)) [''3624a93700aa'', ''3624a93700bb''] = None"
    "check_mappers (pure_entries (sample_lsblk False)) [''3624a93700aa''] = None"
    "length (pure_entries (sample_lsblk True)) = 2" "length (pure_entries (sample_lsblk False)) = 1"
    by (simp_all add: sample_lsblk_def)
  then show ?thesis
    using sample_mappers
    by (cases attached)
       (simp_all add: collectLocalNodeInfo_def io_bind_def io_call_def io_lift_def io_catch_def io_return_def
          sample_run_def lsblk_cmd_def sample_parse compare_listings_def)
qed

lemma sample_nodes: "GetStorageDriverNodes sample_registry = [sample_node]"
  by (simp add: GetStorageDriverNodes_def sample_node_def)

lemma sample_now:
  "getCurrentPureLocalVolumePaths sample_run sample_registry attached = Some (Inr (sample_current attached), attached)"
  unfolding getCurrentPureLocalVolumePaths_def sample_nodes
  by (simp add: io_bind_def sample_collect sample_current_def sample_node_def io_return_def gm_put_def)

lemma sample_fada: "inspect_fada sample_inspect [''v1''] w = Some (Inr [(sample_volume, ''0BB'')], w)"
  by (simp add: io_bind_def io_call_def sample_inspect_def io_return_def IsPureVolume_def sample_volume_def)

lemma sample_serials:
  "GetSerialFromWWID ''3624a93700bb'' = Some (Inr ''0bb'')" "ToLower ''0BB'' = ''0bb''"
  by code_simp+

lemma sample_matches:
  "remove_baseline (sample_current False) (sample_current True) =
     Inr [(''10.0.0.1'', [(''3624a93700bb'', \<lparr>pe_WWID = ''3624a93700bb'', pe_SinglePaths = [''sdg''], pe_Size = 1024\<rparr>)])]"
  "match_volumes [sample_node] [(sample_volume, ''0BB'')]
     [(''10.0.0.1'', [(''3624a93700bb'', \<lparr>pe_WWID = ''3624a93700bb'', pe_SinglePaths = [''sdg''], pe_Size = 1024\<rparr>)])] =
     Some (Inr [(''10.0.0.1'', [])])"
  by (simp_all add: sample_current_def sample_lsblk_def gm_has_def gm_index_def gm_put_def gm_del_def gm_values_def
      match_volume_def sample_volume_def sample_node_def sample_serials Let_def)

lemma sample_check:
  "pure_paths_check sample_run sample_list sample_inspect (sample_current False) sample_registry True = Some (Inr (), True)"
  unfolding pure_paths_check_def sample_nodes
  by (simp add: io_bind_def sample_now io_lift_def sample_matches io_call_def sample_list_def sample_fada del: inspect_fada.simps match_volumes.simps)

lemma sample_beyond:
  "beyond (sample_current False) (sample_current True) ip =
     (if ip = ''10.0.0.1'' then [(''3624a93700bb'', \<lparr>pe_WWID = ''3624a93700bb'', pe_SinglePaths = [''sdg''], pe_Size = 1024\<rparr>)] else [])"
  by (simp add: beyond_def sample_current_def sample_lsblk_def gm_index_def)

lemma sample_baseline:
  "InitializePureLocalVolumePaths sample_run sample_registry ([], False) = Some (None, sample_current False, False)"
  by (simp add: InitializePureLocalVolumePaths_def sample_now)

lemma sample_validation:
  "ValidatePureLocalVolumePaths (\<lambda>_. 0) sample_run sample_list sample_inspect (sample_current False) sample_registry True =
     Some (Inr (), True)"
  unfolding ValidatePureLocalVolumePaths_def
  by (rule io_poll_first) (simp_all add: sample_check minute_ns_def second_ns_def)

theorem pure_paths_validated_witness:
  "\<exists>w1 cur w2 names w3 vols. getCurrentPureLocalVolumePaths sample_run sample_registry w1 = Some (Inr cur, w2) \<and>
     sample_list w2 = (Inr names, w3) \<and> inspect_fada sample_inspect names w3 = Some (Inr vols, True) \<and>
     accounted (GetStorageDriverNodes sample_registry) (sample_current False) vols cur"
  by (rule pure_paths_validated [OF sample_baseline sample_validation])

text \<open>C27: The check decides the accounting. When the listings, the volume list and the inspections
  succeed and the devices beyond the baseline have different serial numbers on each node, one pass of
  the validation succeeds exactly when every device is accounted for.\<close>

theorem pure_paths_check_decides:
  assumes "InitializePureLocalVolumePaths run r0 st0 = Some (None, base, w0)"
    and "getCurrentPureLocalVolumePaths run r w = Some (Inr cur, w1)" "ListVols w1 = (Inr names, w2)"
    and "inspect_fada Inspect names w2 = Some (Inr vols, w3)"
    and "\<And>ip. serials_ok (gm_values (beyond base cur ip))"
  shows "pure_paths_check run ListVols Inspect base r w = Some (Inr (), w3) \<longleftrightarrow>
    accounted (GetStorageDriverNodes r) base vols cur"
proof -
  note base = baseline_keyed [OF assms(1)]
  note cur = current_keyed [OF assms(2)]
  show ?thesis
    unfolding pure_paths_check_Inr
    using accounting_sound [OF base cur(1)] accounting_complete [OF base cur(1,2) assms(5)] assms(2-4)
    by auto
qed

theorem pure_paths_check_decides_witness:
  "pure_paths_check sample_run sample_list sample_inspect (sample_current False) sample_registry True = Some (Inr (), True) \<and>
   accounted (GetStorageDriverNodes sample_registry) (sample_current False) [(sample_volume, ''0BB'')] (sample_current True)"
proof -
  have "serials_ok (gm_values (beyond (sample_current False) (sample_current True) ip))" for ip
    by (simp add: sample_beyond serials_ok_def gm_values_def sample_serials)
  from pure_paths_check_decides [OF sample_baseline sample_now [of True] _ sample_fada this, of sample_list]
  show ?thesis
    using sample_check by (simp add: sample_list_def)
qed

end
