(* ===== verification/PxLifecycle.thy ===== *)
theory PxLifecycle
  imports GoIO PxMaintenance PxReplication
begin

text \<open>
  How the Portworx driver (\<open>drivers/volume/portworx/portworx.go\<close>) finds nodes in the cluster and takes
  them out of it: \<open>getPxNodes\<close>, \<open>updateNodeID\<close>, \<open>GetDriverNode\<close>, \<open>GetNodeStatus\<close>, \<open>DecommissionNode\<close>,
  \<open>RejoinNode\<close>, \<open>GetNodeForVolume\<close> and the operations that stop Portworx on a node.

  The state holds the node registry, the field \<open>refreshEndpoint\<close> of the driver, the node that the
  argument of the running operation points to, and the rest of the world. The services are the record
  \<open>lc_services\<close>: the node manager and the volume service of the cluster, the node driver, the
  Kubernetes API and the clock, each over the rest of the world. \<open>None\<close> is a panic or a call that never
  returns. \<open>getNodeManager\<close> is the node manager of the cluster, whatever endpoint it is reached at.
\<close>

section \<open>State and services\<close>

record 'x lc =
  lc_registry :: registry
  lc_refreshEndpoint :: bool
  lc_node :: Node
  lc_rest :: 'x

record lc_volume =
  lv_Id :: string
  lv_AttachedOn :: string
  lv_SourceParent :: string
  lv_ProxyProtocol :: "ProxyProtocol option"

record 'x lc_services =
  lc_clock :: "'x \<Rightarrow> nat"
  lc_sleep :: "int \<Rightarrow> 'x \<Rightarrow> 'x"
  lc_Inspect :: "string \<Rightarrow> 'x \<Rightarrow> api_StorageNode result \<times> 'x"
  lc_Enumerate :: "'x \<Rightarrow> string list result \<times> 'x"
  lc_not_found :: "go_error \<Rightarrow> bool"
  lc_IsPXEnabled :: "'x \<Rightarrow> Node \<Rightarrow> bool result"
  lc_GetKvdbMembers :: "'x \<Rightarrow> Node \<Rightarrow> (string, string list) gomap result"
  lc_fmt_nodes :: "api_StorageNode list \<Rightarrow> string"
  lc_fmt_response :: "api_StorageNode \<Rightarrow> string"
  lc_AddLabelOnNode :: "string \<Rightarrow> string \<Rightarrow> string \<Rightarrow> 'x \<Rightarrow> unit result \<times> 'x"
  lc_RemoveLabelOnNode :: "string \<Rightarrow> string \<Rightarrow> 'x \<Rightarrow> unit result \<times> 'x"
  lc_UnCordonNode :: "string \<Rightarrow> 'x \<Rightarrow> unit result \<times> 'x"
  lc_maintenanceOp :: "Node \<Rightarrow> string \<Rightarrow> 'x \<Rightarrow> unit result \<times> 'x"
  lc_RunCommand :: "Node \<Rightarrow> string \<Rightarrow> 'x \<Rightarrow> string result \<times> 'x"
  lc_RunCommandWithNoRetry :: "Node \<Rightarrow> string \<Rightarrow> 'x \<Rightarrow> string result \<times> 'x"
  lc_Systemctl :: "Node \<Rightarrow> string \<Rightarrow> string \<Rightarrow> 'x \<Rightarrow> unit result \<times> 'x"
  lc_StopPxOnNode :: "Node \<Rightarrow> 'x \<Rightarrow> unit result \<times> 'x"
  lc_RestartPxOnNode :: "Node \<Rightarrow> 'x \<Rightarrow> unit result \<times> 'x"
  lc_InspectVolume :: "string \<Rightarrow> 'x \<Rightarrow> lc_volume result \<times> 'x"

definition on_rest :: "('x \<Rightarrow> 'a \<times> 'x) \<Rightarrow> 'x lc \<Rightarrow> 'a \<times> 'x lc" where
  "on_rest f s = (case f (lc_rest s) of (r, x) \<Rightarrow> (r, s\<lparr>lc_rest := x\<rparr>))"

abbreviation lc_now :: "'x lc_services \<Rightarrow> 'x lc \<Rightarrow> nat" where
  "lc_now svc s \<equiv> lc_clock svc (lc_rest s)"

definition px_defaultTimeout :: int where "px_defaultTimeout = 2 * minute_ns"

section \<open>The nodes of the cluster\<close>

definition inspect_node :: "'x lc_services \<Rightarrow> string \<Rightarrow> ('x lc, api_StorageNode) io" where
  "inspect_node svc i = io_bind (io_call (on_rest (lc_Inspect svc i))) (\<lambda>nd.
     if sn_MgmtIp nd = []
     then io_error (Errorf (''got an empty MgmtIp from SdkNodeInspectRequest, response: '' @ lc_fmt_response svc nd))
     else io_return nd)"

text \<open>On an error the nodes found so far are returned with it.\<close>

fun inspect_nodes :: "'x lc_services \<Rightarrow> string list \<Rightarrow> api_StorageNode list \<Rightarrow> 'x lc
    \<Rightarrow> ((api_StorageNode list \<times> go_error option) \<times> 'x lc) option" where
  "inspect_nodes svc [] nodes s = Some ((nodes, None), s)"
| "inspect_nodes svc (i # ids) nodes s =
     (case io_poll (lc_now svc) (inspect_node svc i) px_defaultTimeout defaultRetryInterval s of
        None \<Rightarrow> None
      | Some (Inl err, s') \<Rightarrow> Some ((nodes, Some err), s')
      | Some (Inr nd, s') \<Rightarrow> inspect_nodes svc ids (nodes @ [nd]) s')"

text \<open>\<open>given\<close> tells whether the caller passes a node manager.\<close>

definition getPxNodes :: "'x lc_services \<Rightarrow> bool \<Rightarrow> 'x lc
    \<Rightarrow> ((api_StorageNode list \<times> go_error option) \<times> 'x lc) option" where
  "getPxNodes svc given s =
     (let s = (if given then s else s\<lparr>lc_refreshEndpoint := False\<rparr>) in
      case on_rest (lc_Enumerate svc) s of
        (Inl err, s') \<Rightarrow> Some (([], Some err), s')
      | (Inr ids, s') \<Rightarrow> inspect_nodes svc ids [] s')"

text \<open>What \<open>updateNode\<close> leaves in the node it is given.\<close>

definition updated_node :: "'x lc_services \<Rightarrow> 'x \<Rightarrow> Node \<Rightarrow> api_StorageNode list \<Rightarrow> Node" where
  "updated_node svc x n pxNodes = (case lc_IsPXEnabled svc x n of
     Inr True \<Rightarrow> (case find_px n (Addresses n) pxNodes of
         Some (address, pxNode) \<Rightarrow>
           if length (sn_Id pxNode) > 0
           then with_px (fst (isMetadataNode (lc_GetKvdbMembers svc x
                  (n\<lparr>StorageNode := Some pxNode, VolDriverNodeID := sn_Id pxNode, IsStorageDriverInstalled := True\<rparr>))
                  address)) pxNode n
           else n
       | None \<Rightarrow> n)
   | _ \<Rightarrow> n)"

text \<open>The error text of \<open>updateNodeID\<close> reads \<open>n.Id\<close>, a field of the embedded storage node.\<close>

definition updateNodeID :: "'x lc_services \<Rightarrow> bool \<Rightarrow> ('x lc, unit) io" where
  "updateNodeID svc given s = (case getPxNodes svc given s of
     None \<Rightarrow> None
   | Some ((_, Some err), s1) \<Rightarrow> Some (Inl err, s1)
   | Some ((nodes, None), s1) \<Rightarrow>
       (let n = lc_node s1; n' = updated_node svc (lc_rest s1) n nodes in
        case updateNode (lc_IsPXEnabled svc (lc_rest s1)) (lc_GetKvdbMembers svc (lc_rest s1)) (lc_fmt_nodes svc)
               n nodes (lc_registry s1) of
          (None, r) \<Rightarrow> Some (Inr (), s1\<lparr>lc_registry := r, lc_node := n'\<rparr>)
        | (Some err, r) \<Rightarrow> (case StorageNode n' of
              None \<Rightarrow> None
            | Some sn \<Rightarrow> Some (Inl (Errorf (''failed to update node ID for node ['' @ node_Name n' @ ''] with ID ['' @
                sn_Id sn @ ''] in the cluster, Err: '' @ Error_str err)), s1\<lparr>lc_registry := r, lc_node := n'\<rparr>))))"

text \<open>The recursive calls of \<open>GetDriverNode\<close> pass the node manager on.\<close>

partial_function (option) driver_node_loop :: "'x lc_services \<Rightarrow> 'x lc \<Rightarrow> (api_StorageNode result \<times> 'x lc) option" where
  "driver_node_loop svc s = (case on_rest (lc_Inspect svc (VolDriverNodeID (lc_node s))) s of
     (Inr nd, s1) \<Rightarrow> Some (Inr nd, s1)
   | (Inl err, s1) \<Rightarrow>
       if lc_not_found svc err
       then (case updateNodeID svc True s1 of
           None \<Rightarrow> None
         | Some (Inl err', s2) \<Rightarrow> Some (Inl err', s2)
         | Some (Inr _, s2) \<Rightarrow> driver_node_loop svc s2)
       else Some (Inl err, s1))"

definition GetDriverNode :: "'x lc_services \<Rightarrow> ('x lc, api_StorageNode) io" where
  "GetDriverNode svc s = driver_node_loop svc (s\<lparr>lc_refreshEndpoint := True\<rparr>)"

section \<open>The status of a node\<close>

definition node_status_task :: "'x lc_services \<Rightarrow> Node \<Rightarrow> ('x lc, api_StorageNode option) task_fn" where
  "node_status_task svc n s = (case on_rest (lc_Inspect svc (VolDriverNodeID n)) s of
     (Inl err, s') \<Rightarrow> ((None, \<not> lc_not_found svc err, Some err), lc_now svc s' - lc_now svc s, s')
   | (Inr nd, s') \<Rightarrow> ((Some nd, False, None), lc_now svc s' - lc_now svc s, s'))"

definition GetNodeStatus :: "'x lc_services \<Rightarrow> Node \<Rightarrow> ('x lc, Status) io" where
  "GetNodeStatus svc n s =
     (case DoRetryWithTimeout (node_status_task svc n) (5 * minute_ns) minute_ns s of
        Some (Inr (Some nd), s') \<Rightarrow> Some (Inr (sn_Status nd), s')
      | Some (Inl err, s') \<Rightarrow>
          if lc_not_found svc err then Some (Inr STATUS_NONE, s')
          else Some (Inl (PxErr (ErrFailedToGetNodeStatus (node_Name n)
                 (''Failed to check status on node ['' @ node_Name n @ ''], Err: '' @ Error_str err))), s')
      | _ \<Rightarrow> None)"

section \<open>Decommissioning\<close>

text \<open>An operation that is given a copy of the node.\<close>

definition with_copy :: "('x lc, 'a) io \<Rightarrow> ('x lc, 'a) io" where
  "with_copy m s = map_option (\<lambda>(r, s'). (r, s'\<lparr>lc_node := lc_node s\<rparr>)) (m s)"

definition enter_op :: "'x lc_services \<Rightarrow> ('x lc, unit) io" where
  "enter_op svc s = Some (on_rest (lc_maintenanceOp svc (lc_node s) ''/entermaintenance'') s)"

definition enter_status :: "'x lc_services \<Rightarrow> ('x lc, unit) io" where
  "enter_status svc = io_bind (GetDriverNode svc) (\<lambda>apiNode. io_bind (io_gets lc_node) (\<lambda>n.
     if sn_Status apiNode = STATUS_MAINTENANCE then io_return ()
     else io_error (Errorf (enter_message n (sn_Status apiNode)))))"

text \<open>\<open>EnterMaintenance\<close> with the calls of \<open>GetDriverNode\<close> written out.\<close>

definition enter_maintenance :: "'x lc_services \<Rightarrow> ('x lc, unit) io" where
  "enter_maintenance svc = with_copy
     (io_bind (io_poll (lc_now svc) (enter_op svc) maintenanceOpTimeout defaultRetryInterval) (\<lambda>_.
      io_bind (io_modify (\<lambda>s. s\<lparr>lc_rest := lc_sleep svc (3 * minute_ns) (lc_rest s)\<rparr>)) (\<lambda>_.
      io_catch (io_poll (lc_now svc) (enter_status svc) maintenanceWaitTimeout defaultRetryInterval)
        (\<lambda>err. io_bind (io_gets lc_node) (\<lambda>n. io_error (PxErr (ErrFailedToEnterMaintenence n (Error_str err))))))))"

definition enter_or_offline :: "'x lc_services \<Rightarrow> ('x lc, unit) io" where
  "enter_or_offline svc = io_bind (io_try (enter_maintenance svc)) (\<lambda>r. case r of
     Inr _ \<Rightarrow> io_return ()
   | Inl err \<Rightarrow> io_bind (io_gets lc_node) (\<lambda>n.
       if length (StoragePools n) = 0
       then io_bind (GetDriverNode svc) (\<lambda>stNode.
              if sn_Status stNode = STATUS_OFFLINE then io_return () else io_error err)
       else io_error err))"

definition out_of_service :: "'x lc_services \<Rightarrow> ('x lc, bool) io" where
  "out_of_service svc =
     io_bind (io_catch (GetDriverNode svc) (\<lambda>_. io_bind (io_gets lc_node) (\<lambda>n.
       io_error (Errorf (''failed getting node ['' @ node_Name n @ ''] status''))))) (\<lambda>stNode.
     io_bind (io_gets lc_node) (\<lambda>n.
       if sn_Status stNode = STATUS_MAINTENANCE \<or> sn_Status stNode = STATUS_OFFLINE then io_return True
       else io_error (Errorf (''waiting for node ['' @ node_Name n @ ''] to be in maintenence mode, current Status: '' @
              Status_String (sn_Status stNode)))))"

definition getPxctlPath :: "'x lc_services \<Rightarrow> Node \<Rightarrow> ('x lc, string) io" where
  "getPxctlPath svc n = io_bind (io_try (io_call (on_rest (lc_RunCommand svc n ''which pxctl'')))) (\<lambda>r. case r of
     Inl _ \<Rightarrow> io_return ''sudo /opt/pwx/bin/pxctl''
   | Inr out \<Rightarrow> io_return (TrimSpace (''sudo '' @ out)))"

fun other_node :: "string \<Rightarrow> Node list \<Rightarrow> Node" where
  "other_node name [] = zero_Node"
| "other_node name (cn # cns) = (if node_Name cn \<noteq> name then cn else other_node name cns)"

definition run_delete :: "'x lc_services \<Rightarrow> Node \<Rightarrow> string \<Rightarrow> ('x lc, unit) io" where
  "run_delete svc cmdNode cmd =
     io_bind (io_try (io_call (on_rest (lc_RunCommandWithNoRetry svc cmdNode cmd)))) (\<lambda>r. case r of
       Inl err \<Rightarrow> if Contains_str (Error_str err) ''Node remove is pending'' then io_return () else io_error err
     | Inr out \<Rightarrow> io_return ())"

definition mark_uninstalled :: "('x lc, unit) io" where
  "mark_uninstalled s =
     (let n = (lc_node s)\<lparr>IsStorageDriverInstalled := False\<rparr>; s1 = s\<lparr>lc_node := n\<rparr> in
      case UpdateNode n (lc_registry s1) of
        (Some err, r) \<Rightarrow> Some (Inl (Errorf (''failed to update node ['' @ node_Name n @ ''], Err: '' @ Error_str err)), s1)
      | (None, r) \<Rightarrow> Some (Inr (), s1\<lparr>lc_registry := r, lc_refreshEndpoint := True\<rparr>))"

definition still_exist :: "Node \<Rightarrow> go_error" where
  "still_exist n = PxErr (ErrFailedToDecommissionNode (node_Name n)
     (''node ['' @ node_Name n @ ''] still exist in the PX cluster''))"

text \<open>The comparison with \<open>n.Hostname\<close> reads a field of the embedded storage node.\<close>

definition node_gone :: "'x lc_services \<Rightarrow> ('x lc, unit) io" where
  "node_gone svc s = (case getPxNodes svc False s of
     None \<Rightarrow> None
   | Some ((_, Some err), s1) \<Rightarrow>
       Some (Inl (PxErr (ErrFailedToDecommissionNode (node_Name (lc_node s1)) (Error_str err))), s1)
   | Some ((latestNodes, None), s1) \<Rightarrow>
       if latestNodes = [] then Some (Inr (), s1)
       else (case StorageNode (lc_node s1) of
           None \<Rightarrow> None
         | Some sn \<Rightarrow>
             if list_ex (\<lambda>latestNode. sn_Hostname latestNode = sn_Hostname sn) latestNodes
             then Some (Inl (still_exist (lc_node s1)), s1)
             else Some (Inr (), s1)))"

text \<open>When the inspection fails, the error text reads a field of the nil response.\<close>

definition inspect_target :: "'x lc_services \<Rightarrow> ('x lc, string) io" where
  "inspect_target svc s = (case on_rest (lc_Inspect svc (VolDriverNodeID (lc_node s))) s of
     (Inl err, s') \<Rightarrow> None
   | (Inr nd, s') \<Rightarrow> Some (Inr (sn_Id nd), s'))"

definition remove_node :: "'x lc_services \<Rightarrow> string \<Rightarrow> ('x lc, unit) io" where
  "remove_node svc i =
     io_bind (io_gets lc_node) (\<lambda>n.
     io_bind (getPxctlPath svc n) (\<lambda>path.
     io_bind (io_gets (\<lambda>s. other_node (node_Name (lc_node s)) (GetStorageDriverNodes (lc_registry s)))) (\<lambda>cmdNode.
     io_poll (lc_now svc) (run_delete svc cmdNode (''echo Y | '' @ path @ '' cluster delete -f '' @ i))
       (5 * minute_ns) (10 * second_ns))))"

definition PXEnabledLabelKey :: string where "PXEnabledLabelKey = ''px/enabled''"
definition PXServiceLabelKey :: string where "PXServiceLabelKey = ''px/service''"

definition add_remove_label :: "'x lc_services \<Rightarrow> ('x lc, unit) io" where
  "add_remove_label svc = io_bind (io_gets lc_node) (\<lambda>n.
     io_catch (io_call (on_rest (lc_AddLabelOnNode svc (node_Name n) PXEnabledLabelKey ''remove'')))
       (\<lambda>err. io_error (PxErr (ErrFailedToDecommissionNode (node_Name n)
          (''Failed to set label on node ['' @ node_Name n @ ''], Err: '' @ Error_str err)))))"

text \<open>The result of the wait for the maintenance mode is overwritten before it is read.\<close>

definition DecommissionNode :: "'x lc_services \<Rightarrow> ('x lc, unit) io" where
  "DecommissionNode svc =
     io_bind (add_remove_label svc) (\<lambda>_.
     io_bind (enter_or_offline svc) (\<lambda>_.
     io_bind (inspect_target svc) (\<lambda>i.
     io_bind (io_try (io_poll (lc_now svc) (out_of_service svc) px_defaultTimeout defaultRetryInterval)) (\<lambda>_.
     io_bind (remove_node svc i) (\<lambda>_.
     io_bind mark_uninstalled (\<lambda>_.
     io_catch (io_poll (lc_now svc) (node_gone svc) (25 * minute_ns) (3 * minute_ns))
       (\<lambda>_. io_bind (io_gets lc_node) (\<lambda>n. io_error (still_exist n)))))))))"

section \<open>Rejoining\<close>

definition rejoin_error :: "Node \<Rightarrow> string \<Rightarrow> go_error \<Rightarrow> go_error" where
  "rejoin_error n what err = PxErr (ErrFailedToRejoinNode (node_Name n)
     (what @ '' node ['' @ node_Name n @ ''], Err: '' @ Error_str err))"

definition rejoin_step :: "(go_error \<Rightarrow> go_error) \<Rightarrow> ('x \<Rightarrow> 'a result \<times> 'x) \<Rightarrow> ('x lc, unit) io" where
  "rejoin_step wrap f = io_bind (io_catch (io_call (on_rest f)) (\<lambda>err. io_error (wrap err))) (\<lambda>_. io_return ())"

definition RejoinNode :: "'x lc_services \<Rightarrow> ('x lc, unit) io" where
  "RejoinNode svc =
     io_bind (io_gets lc_node) (\<lambda>n.
     io_bind (getPxctlPath svc n) (\<lambda>path.
     io_bind (rejoin_step (rejoin_error n ''Failed running node wipe on'')
                (lc_RunCommand svc n (path @ '' sv node-wipe --all''))) (\<lambda>_.
     io_bind (rejoin_step (rejoin_error n ''Failed to set label on'')
                (lc_RemoveLabelOnNode svc (node_Name n) PXServiceLabelKey)) (\<lambda>_.
     io_bind (rejoin_step (rejoin_error n ''Failed to set label on'')
                (lc_RemoveLabelOnNode svc (node_Name n) PXEnabledLabelKey)) (\<lambda>_.
     io_bind (rejoin_step (\<lambda>err. PxErr (ErrFailedToRejoinNode (node_Name n) (Error_str err)))
                (lc_RestartPxOnNode svc n)) (\<lambda>_.
     rejoin_step (rejoin_error n ''Failed to uncordon'') (lc_UnCordonNode svc (node_Name n))))))))"

section \<open>Stopping Portworx\<close>

definition px_waitVolDriverToCrash :: int where "px_waitVolDriverToCrash = 1 * minute_ns"

definition sleep_for :: "'x lc_services \<Rightarrow> int \<Rightarrow> ('x lc, unit) io" where
  "sleep_for svc d = io_modify (\<lambda>s. s\<lparr>lc_rest := lc_sleep svc d (lc_rest s)\<rparr>)"

definition command_error :: "string \<Rightarrow> Node \<Rightarrow> go_error \<Rightarrow> go_error" where
  "command_error cmd n err = Errorf (''failed to run cmd ['' @ cmd @ ''] on node ['' @ node_Name n @ ''], Err: '' @ Error_str err)"

definition run_or_fail :: "'x lc_services \<Rightarrow> Node \<Rightarrow> string \<Rightarrow> ('x lc, string) io" where
  "run_or_fail svc n cmd =
     io_catch (io_call (on_rest (lc_RunCommand svc n cmd))) (\<lambda>err. io_error (command_error cmd n err))"

definition stop_on_node :: "'x lc_services \<Rightarrow> bool \<Rightarrow> Node \<Rightarrow> ('x lc, unit) io" where
  "stop_on_node svc force n =
     (if force
      then io_bind (run_or_fail svc n ''sudo pkill -9 px-storage'') (\<lambda>_. sleep_for svc px_waitVolDriverToCrash)
      else io_bind (io_call (on_rest (lc_StopPxOnNode svc n))) (\<lambda>_.
           io_bind (io_call (on_rest (lc_Systemctl svc n ''portworx.service'' ''stop''))) (\<lambda>_.
           sleep_for svc (px_waitVolDriverToCrash div 6))))"

fun daemon_pid :: "string list \<Rightarrow> string option" where
  "daemon_pid [] = Some []"
| "daemon_pid (line # lines) =
     (if Contains_str line ''/usr/local/bin/px -daemon'' \<and> \<not> Contains_str line ''grep''
      then (case Fields line of _ # pid # _ \<Rightarrow> Some pid | _ \<Rightarrow> None)
      else daemon_pid lines)"

definition kill_on_node :: "'x lc_services \<Rightarrow> Node \<Rightarrow> ('x lc, unit) io" where
  "kill_on_node svc n =
     io_bind (io_call (on_rest (lc_RunCommand svc n (''ps -ef | grep '' @ Quote ''px -daemon'')))) (\<lambda>out.
       case daemon_pid (Split out go_nl) of
         None \<Rightarrow> io_panic
       | Some pid \<Rightarrow>
           if pid = [] then io_error (Errorf (''unable to find PID for px daemon in output ['' @ out @ '']''))
           else io_bind (run_or_fail svc n (''sudo kill -9 '' @ pid)) (\<lambda>_. sleep_for svc px_waitVolDriverToCrash))"

text \<open>\<open>PerformTask\<close> runs these tasks. They always return, so the last case never arises.\<close>

definition io_user_task :: "('w \<Rightarrow> nat) \<Rightarrow> ('w, 'a) io \<Rightarrow> 'w \<Rightarrow> go_error option \<times> nat \<times> 'w" where
  "io_user_task clk m w = (case m w of
     Some (Inr _, w') \<Rightarrow> (None, clk w' - clk w, w')
   | Some (Inl err, w') \<Rightarrow> (Some err, clk w' - clk w, w')
   | None \<Rightarrow> (None, 0, w))"

definition StopDriver where
  "StopDriver svc schedule cb nodes force triggerOpts =
     PerformTask schedule cb (io_user_task (lc_now svc) (io_each (stop_on_node svc force) nodes)) triggerOpts"

definition KillPXDaemon where
  "KillPXDaemon svc schedule cb nodes triggerOpts =
     PerformTask schedule cb (io_user_task (lc_now svc) (io_each (kill_on_node svc) nodes)) triggerOpts"

section \<open>The node of a volume\<close>

definition proxy_task :: "'x lc_services \<Rightarrow> string \<Rightarrow> ('x lc, ProxyProtocol option) task_fn" where
  "proxy_task svc name s = (case on_rest (lc_InspectVolume svc name) s of
     (Inl err, s') \<Rightarrow> ((None, \<not> errIsNotFound (lc_not_found svc) err, Some err), lc_now svc s' - lc_now svc s, s')
   | (Inr v, s') \<Rightarrow> ((lv_ProxyProtocol v, False, None), lc_now svc s' - lc_now svc s, s'))"

definition GetProxySpecForAVolume :: "'x lc_services \<Rightarrow> string \<Rightarrow> ('x lc, ProxyProtocol option) io" where
  "GetProxySpecForAVolume svc name s =
     (case DoRetryWithTimeout (proxy_task svc name) validateReplicationUpdateTimeout defaultRetryInterval s of
        None \<Rightarrow> None
      | Some (Inl err, s') \<Rightarrow> Some (Inl (PxErr (ErrFailedToGetVolumeProxySpec name (Error_str err))), s')
      | Some (Inr p, s') \<Rightarrow> Some (Inr p, s'))"

definition IsPureVolume_px :: "'x lc_services \<Rightarrow> string \<Rightarrow> ('x lc, bool) io" where
  "IsPureVolume_px svc name = io_bind (GetProxySpecForAVolume svc name) (\<lambda>p.
     io_return (p = Some PURE_BLOCK \<or> p = Some PURE_FILE))"

definition IsPureFileVolume :: "'x lc_services \<Rightarrow> string \<Rightarrow> ('x lc, bool) io" where
  "IsPureFileVolume svc name = io_bind (GetProxySpecForAVolume svc name) (\<lambda>p. io_return (p = Some PURE_FILE))"

definition IsVolumeAttachedOnNode :: "'x lc_services \<Rightarrow> lc_volume \<Rightarrow> Node \<Rightarrow> ('x lc, bool) io" where
  "IsVolumeAttachedOnNode svc v n =
     (if VolDriverNodeID n = lv_AttachedOn v then io_return True
      else io_bind (io_call (on_rest (lc_Inspect svc (VolDriverNodeID n)))) (\<lambda>nd.
        if sn_MgmtIp nd = lv_AttachedOn v then io_return True
        else if sn_DataIp nd = lv_AttachedOn v then io_return True
        else io_return (lv_AttachedOn v \<in> set (Addresses n))))"

fun attached_node :: "'x lc_services \<Rightarrow> lc_volume \<Rightarrow> Node list \<Rightarrow> ('x lc, Node option) io" where
  "attached_node svc v [] = io_return None"
| "attached_node svc v (n # ns) = io_bind (IsVolumeAttachedOnNode svc v n) (\<lambda>ok.
     if ok then io_return (Some n) else attached_node svc v ns)"

text \<open>One attempt: a node, no node, or the wish to try again. Its errors end the wait.\<close>

definition volume_node_attempt :: "'x lc_services \<Rightarrow> string \<Rightarrow> ('x lc, Node option option) io" where
  "volume_node_attempt svc name =
     io_bind (io_catch (io_call (on_rest (lc_InspectVolume svc name)))
       (\<lambda>err. io_error (PxErr (ErrFailedToInspectVolume name (Error_str err))))) (\<lambda>pxVol.
     io_bind (IsPureFileVolume svc name) (\<lambda>isPureFile.
       if isPureFile then io_return (Some None)
       else io_bind (io_gets (\<lambda>s. GetStorageDriverNodes (lc_registry s))) (\<lambda>ns.
            io_bind (attached_node svc pxVol ns) (\<lambda>found. case found of
              Some n \<Rightarrow> io_return (Some (Some n))
            | None \<Rightarrow> if lv_SourceParent pxVol \<noteq> [] then io_return (Some None) else io_return None))))"

definition volume_node_task :: "'x lc_services \<Rightarrow> string \<Rightarrow> ('x lc, Node option option) task_fn" where
  "volume_node_task svc name s = (case volume_node_attempt svc name s of
     None \<Rightarrow> ((None, False, None), 0, s)
   | Some (Inl err, s') \<Rightarrow> ((None, False, Some err), lc_now svc s' - lc_now svc s, s')
   | Some (Inr None, s') \<Rightarrow>
       ((None, True, Some (Errorf (''volume ['' @ name @ ''] is not attached on any node''))), lc_now svc s' - lc_now svc s, s')
   | Some (Inr (Some r), s') \<Rightarrow> ((Some r, False, None), lc_now svc s' - lc_now svc s, s'))"

definition GetNodeForVolume :: "'x lc_services \<Rightarrow> string \<Rightarrow> int \<Rightarrow> int \<Rightarrow> ('x lc, Node option) io" where
  "GetNodeForVolume svc name timeout retryInterval s =
     (case DoRetryWithTimeout (volume_node_task svc name) timeout retryInterval (s\<lparr>lc_refreshEndpoint := True\<rparr>) of
        Some (Inl err, s') \<Rightarrow>
          Some (Inl (PxErr (ErrFailedToValidateAttachment name (Error_str err))), s'\<lparr>lc_refreshEndpoint := False\<rparr>)
      | Some (Inr (Some r), s') \<Rightarrow> Some (Inr r, s'\<lparr>lc_refreshEndpoint := False\<rparr>)
      | _ \<Rightarrow> None)"

section \<open>The registry invariant\<close>

abbreviation reg_inv :: "'x lc \<Rightarrow> bool" where
  "reg_inv s \<equiv> registry_inv (lc_registry s)"

lemma on_rest_fields:
  "on_rest f s = (r, s') \<Longrightarrow> lc_registry s' = lc_registry s \<and> lc_node s' = lc_node s"
  by (auto simp: on_rest_def split: prod.splits)

lemma keeps_call [keeps_intros]: "keeps reg_inv (io_call (on_rest f))"
  by (rule keepsI) (auto simp: io_call_def dest: on_rest_fields)

lemma keeps_rest [keeps_intros]: "keeps reg_inv (io_modify (\<lambda>s. s\<lparr>lc_rest := g s\<rparr>))"
  by (rule keeps_modify) simp

lemma UpdateNode_inv: "registry_inv r \<Longrightarrow> UpdateNode n r = (e, r') \<Longrightarrow> registry_inv r'"
  by (blast intro: registry_step_inv registry_step.update)

lemma updateNode_inv:
  assumes "updateNode px kv fmt n ps r = (e, r')" "registry_inv r"
  shows "registry_inv r'"
  using assms
  by (auto simp: updateNode_def Let_def split: sum.splits if_splits option.splits prod.splits dest: UpdateNode_inv)

text \<open>Listing the nodes touches neither the registry nor the node.\<close>

abbreviation same_node :: "registry \<Rightarrow> Node \<Rightarrow> 'x lc \<Rightarrow> bool" where
  "same_node r n s \<equiv> lc_registry s = r \<and> lc_node s = n"

lemma same_node_call [keeps_intros]: "keeps (same_node r n) (io_call (on_rest f))"
  by (rule keepsI) (auto simp: io_call_def dest: on_rest_fields)

lemma gaps_pos: "0 < defaultRetryInterval" "0 < 10 * second_ns" "0 < 3 * minute_ns" "0 < minute_ns"
  by (simp_all add: wait_times)

lemma same_node_inspect: "keeps (same_node r n) (inspect_node svc i)"
proof -
  have "keeps (same_node r n) (if c then io_error e else io_return x)" for c e and x :: api_StorageNode
    by (cases c) (simp_all add: keeps_intros)
  then show ?thesis
    unfolding inspect_node_def by (intro keeps_bind same_node_call)
qed

lemma same_node_inspect_nodes:
  "inspect_nodes svc ids nodes s = Some (r, s') \<Longrightarrow> same_node (lc_registry s) (lc_node s) s'"
proof (induction ids arbitrary: nodes s)
  case (Cons i ids)
  have poll: "same_node (lc_registry s) (lc_node s) s1"
    if "io_poll (lc_now svc) (inspect_node svc i) px_defaultTimeout defaultRetryInterval s = Some (q, s1)" for q s1
    using keepsD [OF keeps_poll [OF same_node_inspect gaps_pos(1)] that, of "lc_registry s" "lc_node s"] by simp
  from Cons.prems consider e where "io_poll (lc_now svc) (inspect_node svc i) px_defaultTimeout defaultRetryInterval s = Some (Inl e, s')"
    | nd s1 where "io_poll (lc_now svc) (inspect_node svc i) px_defaultTimeout defaultRetryInterval s = Some (Inr nd, s1)"
        "inspect_nodes svc ids (nodes @ [nd]) s1 = Some (r, s')"
    by (auto split: option.splits prod.splits sum.splits)
  then show ?case
  proof cases
    case (2 nd s1)
    from poll [OF 2(1)] Cons.IH [OF 2(2)] show ?thesis by simp
  qed (rule poll)
qed simp

lemma same_node_getPxNodes:
  assumes "getPxNodes svc given s = Some (r, s')"
  shows "same_node (lc_registry s) (lc_node s) s'"
  using assms
  by (auto simp: getPxNodes_def Let_def split: prod.splits sum.splits if_splits
      dest!: on_rest_fields same_node_inspect_nodes)

lemma updateNodeID_keeps: "keeps reg_inv (updateNodeID svc given)"
proof (rule keepsI)
  fix s r s'
  assume u: "updateNodeID svc given s = Some (r, s')" and s: "reg_inv s"
  then obtain nodes err s1 where g: "getPxNodes svc given s = Some ((nodes, err), s1)"
    by (cases "getPxNodes svc given s") (auto simp: updateNodeID_def)
  have s1: "reg_inv s1"
    using same_node_getPxNodes [OF g] s by simp
  show "reg_inv s'"
    using u s1 by (auto simp: updateNodeID_def g Let_def split: option.splits prod.splits dest: updateNode_inv)
qed

lemma driver_node_loop_inv:
  "driver_node_loop svc s = Some y \<Longrightarrow> reg_inv s \<longrightarrow> reg_inv (snd y)"
proof (erule driver_node_loop.raw_induct [rotated])
  fix loop :: "'a lc_services \<Rightarrow> 'a lc \<Rightarrow> (api_StorageNode result \<times> 'a lc) option" and svc s y
  assume IH: "\<And>svc s y. loop svc s = Some y \<Longrightarrow> reg_inv s \<longrightarrow> reg_inv (snd y)"
    and step: "(case on_rest (lc_Inspect svc (VolDriverNodeID (lc_node s))) s of
     (Inl err, s1) \<Rightarrow>
       if lc_not_found svc err
       then (case updateNodeID svc True s1 of
           None \<Rightarrow> None
         | Some (Inl err', s2) \<Rightarrow> Some (Inl err', s2)
         | Some (Inr _, s2) \<Rightarrow> loop svc s2)
       else Some (Inl err, s1)
   | (Inr nd, s1) \<Rightarrow> Some (Inr nd, s1)) = Some y"
  obtain r s1 where c: "on_rest (lc_Inspect svc (VolDriverNodeID (lc_node s))) s = (r, s1)"
    by (cases "on_rest (lc_Inspect svc (VolDriverNodeID (lc_node s))) s")
  have s1: "reg_inv s1 \<longleftrightarrow> reg_inv s"
    using on_rest_fields [OF c] by simp
  show "reg_inv s \<longrightarrow> reg_inv (snd y)"
  proof
    assume "reg_inv s"
    then have inv: "reg_inv s1" using s1 by simp
    consider "snd y = s1" | q s2 where "updateNodeID svc True s1 = Some (q, s2)" "snd y = s2 \<or> loop svc s2 = Some y"
      using step by (auto simp: c split: sum.splits if_splits option.splits)
    then show "reg_inv (snd y)"
    proof cases
      case (2 q s2)
      from keepsD [OF updateNodeID_keeps 2(1) inv] 2(2) IH [of svc s2 y] show ?thesis by blast
    qed (simp add: inv)
  qed
qed

lemma GetDriverNode_keeps [keeps_intros]: "keeps reg_inv (GetDriverNode svc)"
  by (rule keepsI) (auto simp: GetDriverNode_def dest!: driver_node_loop_inv)

section \<open>Decommissioning takes the node out\<close>

lemma keeps_copy [keeps_intros]: "keeps reg_inv m \<Longrightarrow> keeps reg_inv (with_copy m)"
  by (auto simp: keeps_def with_copy_def)

lemma enter_op_keeps [keeps_intros]: "keeps reg_inv (enter_op svc)"
  by (rule keepsI) (auto simp: enter_op_def dest: on_rest_fields)

lemma enter_keeps [keeps_intros]: "keeps reg_inv (enter_or_offline svc)"
  unfolding enter_or_offline_def enter_maintenance_def enter_status_def
  by (intro keeps_intros keeps_cases gaps_pos)

lemma out_of_service_keeps [keeps_intros]: "keeps reg_inv (out_of_service svc)"
  unfolding out_of_service_def by (intro keeps_intros keeps_cases gaps_pos)

lemma inspect_target_keeps [keeps_intros]: "keeps reg_inv (inspect_target svc)"
  by (rule keepsI) (auto simp: inspect_target_def split: prod.splits sum.splits dest: on_rest_fields)

lemma remove_node_keeps [keeps_intros]: "keeps reg_inv (remove_node svc i)"
  unfolding remove_node_def getPxctlPath_def run_delete_def by (intro keeps_intros keeps_cases gaps_pos)

lemma add_label_keeps [keeps_intros]: "keeps reg_inv (add_remove_label svc)"
  unfolding add_remove_label_def by (intro keeps_intros keeps_cases gaps_pos)

lemma node_gone_same: "keeps (same_node r n) (node_gone svc)"
proof (rule keepsI)
  fix s q s'
  assume g: "node_gone svc s = Some (q, s')" and s: "same_node r n s"
  then obtain nodes err where "getPxNodes svc False s = Some ((nodes, err), s')"
    by (auto simp: node_gone_def split: option.splits prod.splits if_splits)
  from same_node_getPxNodes [OF this] s show "same_node r n s'" by simp
qed

lemma mark_uninstalled_node:
  assumes "mark_uninstalled s = Some (Inr u, s')" "reg_inv s"
  shows "reg_inv s'" "\<not> IsStorageDriverInstalled (lc_node s')"
    "map_of (lc_registry s') (uuid (lc_node s')) = Some (lc_node s')"
proof -
  let ?n = "(lc_node s)\<lparr>IsStorageDriverInstalled := False\<rparr>"
  obtain r where r: "UpdateNode ?n (lc_registry s) = (None, r)"
      "s' = s\<lparr>lc_node := ?n, lc_registry := r, lc_refreshEndpoint := True\<rparr>"
    using assms(1) by (auto simp: mark_uninstalled_def Let_def split: prod.splits option.splits)
  show "reg_inv s'"
    using UpdateNode_inv [OF assms(2) r(1)] by (simp add: r(2))
  show "\<not> IsStorageDriverInstalled (lc_node s')"
    by (simp add: r(2))
  show "map_of (lc_registry s') (uuid (lc_node s')) = Some (lc_node s')"
    using r(1) by (auto simp: r(2) UpdateNode_def split: if_splits)
qed

lemma registry_inv_map_of:
  assumes "registry_inv r" "m \<in> set (gm_values r)"
  shows "map_of r (uuid m) = Some m"
proof -
  obtain k where "(k, m) \<in> set r"
    using assms(2) by (auto simp: gm_values_def)
  then have "map_of r k = Some m"
    using gm_ok_map_of [OF registry_inv_ok [OF assms(1)]] by blast
  with registry_inv_uuid [OF assms(1) this] show ?thesis by simp
qed

lemma uninstalled_not_listed:
  assumes "registry_inv r" "map_of r (uuid n) = Some n" "\<not> IsStorageDriverInstalled n"
  shows "list_all (\<lambda>m. uuid m \<noteq> uuid n) (GetStorageDriverNodes r)"
  unfolding list_all_iff
proof
  fix m
  assume "m \<in> set (GetStorageDriverNodes r)"
  then have m: "m \<in> set (gm_values r)" "IsStorageDriverInstalled m"
    by (simp_all add: GetStorageDriverNodes_def collect_eq)
  show "uuid m \<noteq> uuid n"
  proof
    assume "uuid m = uuid n"
    then have "Some m = Some n"
      using registry_inv_map_of [OF assms(1) m(1)] assms(2) by (simp only:)
    then show False using m(2) assms(3) by simp
  qed
qed

text \<open>The steps of a decommissioning that succeeds.\<close>

lemma DecommissionNode_Inr:
  assumes "DecommissionNode svc s = Some (Inr u, s')"
  obtains i s1 s2 s3 s4 where "reg_inv s \<Longrightarrow> reg_inv s1"
    "remove_node svc i s1 = Some (Inr (), s2)" "mark_uninstalled s2 = Some (Inr (), s3)"
    "node_gone svc s4 = Some (Inr (), s')" "same_node (lc_registry s3) (lc_node s3) s4"
proof -
  obtain u1 a u2 b i c q s1 u3 s2 u4 s3 where steps:
    "add_remove_label svc s = Some (Inr u1, a)" "enter_or_offline svc a = Some (Inr u2, b)"
    "inspect_target svc b = Some (Inr i, c)"
    "io_try (io_poll (lc_now svc) (out_of_service svc) px_defaultTimeout defaultRetryInterval) c = Some (Inr q, s1)"
    "remove_node svc i s1 = Some (Inr u3, s2)" "mark_uninstalled s2 = Some (Inr u4, s3)"
    "io_poll (lc_now svc) (node_gone svc) (25 * minute_ns) (3 * minute_ns) s3 = Some (Inr u, s')"
    using assms unfolding DecommissionNode_def io_bind_Inr io_catch_failing by (elim exE conjE)
  have "reg_inv s1" if "reg_inv s"
  proof -
    have "reg_inv a" using keepsD [OF add_label_keeps steps(1)] that .
    then have "reg_inv b" by (rule keepsD [OF enter_keeps steps(2)])
    then have "reg_inv c" by (rule keepsD [OF inspect_target_keeps steps(3)])
    then show ?thesis
      using keepsD [OF keeps_try [OF keeps_poll [OF out_of_service_keeps gaps_pos(1)]] steps(4)] by blast
  qed
  moreover obtain s4 where "node_gone svc s4 = Some (Inr (), s')" "same_node (lc_registry s3) (lc_node s3) s4"
    using io_poll_Inr_inv [OF gaps_pos(3) node_gone_same _ steps(7), of "lc_registry s3" "lc_node s3"] by auto
  ultimately show thesis
    using that [of s1 i s2 s3 s4] steps(5,6) by simp
qed

section \<open>A cluster that does not change\<close>

text \<open>The cluster lists \<open>ids\<close>, answers for each of them with a complete node of that id, and no call changes
  the world.\<close>

definition steady :: "'x lc_services \<Rightarrow> 'x \<Rightarrow> string list \<Rightarrow> bool" where
  "steady svc x ids \<longleftrightarrow> (\<forall>i. snd (lc_Inspect svc i x) = x) \<and> lc_Enumerate svc x = (Inr ids, x) \<and>
     list_all (\<lambda>i. case fst (lc_Inspect svc i x) of
       Inr nd \<Rightarrow> sn_MgmtIp nd \<noteq> [] \<and> sn_Id nd = i | Inl _ \<Rightarrow> False) ids"

lemma steady_inspect:
  "steady svc (lc_rest s) ids \<Longrightarrow> on_rest (lc_Inspect svc i) s = (fst (lc_Inspect svc i (lc_rest s)), s)"
  by (auto simp: steady_def on_rest_def prod_eq_iff split: prod.splits)

lemma steady_poll:
  assumes "steady svc (lc_rest s) ids" "fst (lc_Inspect svc i (lc_rest s)) = Inr nd" "sn_MgmtIp nd \<noteq> []"
  shows "io_poll (lc_now svc) (inspect_node svc i) px_defaultTimeout gap s = Some (Inr nd, s)"
  by (rule io_poll_first)
     (use assms in \<open>simp_all add: inspect_node_def io_bind_def io_call_def steady_inspect io_return_def
        px_defaultTimeout_def wait_times\<close>)

lemma steady_inspect_nodes:
  assumes "steady svc (lc_rest s) ids"
  shows "set is' \<subseteq> set ids \<Longrightarrow> \<exists>nds. inspect_nodes svc is' nodes s = Some ((nodes @ nds, None), s) \<and>
    (\<forall>nd\<in>set nds. fst (lc_Inspect svc (sn_Id nd) (lc_rest s)) = Inr nd)"
proof (induction is' arbitrary: nodes)
  case (Cons i is')
  then obtain nd where nd: "fst (lc_Inspect svc i (lc_rest s)) = Inr nd" "sn_MgmtIp nd \<noteq> []" "sn_Id nd = i"
    using assms by (cases "fst (lc_Inspect svc i (lc_rest s))") (auto simp: steady_def list_all_iff split: sum.splits)
  obtain nds where "inspect_nodes svc is' (nodes @ [nd]) s = Some (((nodes @ [nd]) @ nds, None), s)"
      "\<forall>nd\<in>set nds. fst (lc_Inspect svc (sn_Id nd) (lc_rest s)) = Inr nd"
    using Cons.IH [of "nodes @ [nd]"] Cons.prems by auto
  then show ?case
    using nd by (intro exI [of _ "nd # nds"]) (simp add: steady_poll [OF assms])
qed simp

lemma steady_listing:
  assumes "steady svc (lc_rest s) ids"
  obtains nds where "getPxNodes svc True s = Some ((nds, None), s)"
    "\<forall>nd\<in>set nds. fst (lc_Inspect svc (sn_Id nd) (lc_rest s)) = Inr nd"
proof -
  have e: "on_rest (lc_Enumerate svc) s = (Inr ids, s)"
    using assms by (simp add: steady_def on_rest_def)
  obtain nds where "inspect_nodes svc ids [] s = Some ((nds, None), s)"
      "\<forall>nd\<in>set nds. fst (lc_Inspect svc (sn_Id nd) (lc_rest s)) = Inr nd"
    using steady_inspect_nodes [OF assms order_refl, of "[]"] by auto
  then show thesis
    by (intro that [of nds]) (simp_all add: getPxNodes_def e)
qed

text \<open>When the update of the node id succeeds and leaves the state alone, \<open>GetDriverNode\<close> goes on forever.\<close>

lemma driver_node_forever:
  assumes "on_rest (lc_Inspect svc (VolDriverNodeID (lc_node s))) s = (Inl err, s)" "lc_not_found svc err"
    and "updateNodeID svc True s = Some (Inr (), s)"
  shows "driver_node_loop svc s = None"
proof (rule ccontr)
  assume "driver_node_loop svc s \<noteq> None"
  then obtain y where "driver_node_loop svc s = Some y" by blast
  then have "svc = svc \<longrightarrow> s \<noteq> s"
  proof (rule driver_node_loop.raw_induct [where P = "\<lambda>svc' s' y. svc' = svc \<longrightarrow> s' \<noteq> s", rotated])
    fix loop :: "'a lc_services \<Rightarrow> 'a lc \<Rightarrow> (api_StorageNode result \<times> 'a lc) option" and svc' s' y
    assume IH: "\<And>svc' s' y. loop svc' s' = Some y \<Longrightarrow> svc' = svc \<longrightarrow> s' \<noteq> s"
      and step: "(case on_rest (lc_Inspect svc' (VolDriverNodeID (lc_node s'))) s' of
       (Inl err, s1) \<Rightarrow>
         if lc_not_found svc' err
         then (case updateNodeID svc' True s1 of
             None \<Rightarrow> None
           | Some (Inl err', s2) \<Rightarrow> Some (Inl err', s2)
           | Some (Inr _, s2) \<Rightarrow> loop svc' s2)
         else Some (Inl err, s1)
     | (Inr nd, s1) \<Rightarrow> Some (Inr nd, s1)) = Some y"
    show "svc' = svc \<longrightarrow> s' \<noteq> s"
      using step IH [of svc s y] assms by auto
  qed
  then show False by simp
qed

text \<open>An update of the node id that finds Portworx enabled either fails or moves the node to a listed id.\<close>

lemma updateNodeID_found:
  assumes "getPxNodes svc True s = Some ((nds, None), s)" "StorageNode (lc_node s) \<noteq> None"
    and "lc_IsPXEnabled svc (lc_rest s) (lc_node s) \<noteq> Inr False"
  obtains q s' where "updateNodeID svc True s = Some (q, s')" "lc_rest s' = lc_rest s"
    "\<And>v. q = Inr v \<Longrightarrow> \<exists>nd\<in>set nds. VolDriverNodeID (lc_node s') = sn_Id nd"
proof -
  let ?n = "lc_node s"
  let ?n' = "updated_node svc (lc_rest s) ?n nds"
  obtain e r where u: "updateNode (lc_IsPXEnabled svc (lc_rest s)) (lc_GetKvdbMembers svc (lc_rest s)) (lc_fmt_nodes svc)
      ?n nds (lc_registry s) = (e, r)"
    by (cases "updateNode (lc_IsPXEnabled svc (lc_rest s)) (lc_GetKvdbMembers svc (lc_rest s)) (lc_fmt_nodes svc)
      ?n nds (lc_registry s)")
  have n': "StorageNode ?n' \<noteq> None"
    using assms(2) by (auto simp: updated_node_def split: sum.splits bool.splits option.splits prod.splits)
  show thesis
  proof (cases e)
    case None
    have "\<exists>nd\<in>set nds. VolDriverNodeID ?n' = sn_Id nd"
      using u assms(3) find_px_Some
      by (auto simp: None updateNode_def updated_node_def Let_def split: sum.splits if_splits option.splits prod.splits)
    then show thesis
      by (intro that [of "Inr ()" "s\<lparr>lc_registry := r, lc_node := ?n'\<rparr>"])
         (simp_all add: updateNodeID_def assms(1) Let_def u None)
  next
    case (Some err)
    then obtain v where "updateNodeID svc True s = Some (Inl v, s\<lparr>lc_registry := r, lc_node := ?n'\<rparr>)"
      using n' by (auto simp: updateNodeID_def assms(1) Let_def u)
    then show thesis
      by (rule that) simp_all
  qed
qed

section \<open>The node of a volume\<close>

lemma same_node_rules:
  "keeps (same_node r n) m \<Longrightarrow> m s = Some (q, s') \<Longrightarrow> same_node r n s \<Longrightarrow> same_node r n s'"
  by (rule keepsD)

lemma proxy_task_same: "same_node r n s \<Longrightarrow> same_node r n (snd (snd (proxy_task svc name s)))"
  by (auto simp: proxy_task_def split: prod.splits sum.splits dest: on_rest_fields)

lemma GetProxySpec_same [keeps_intros]: "keeps (same_node r n) (GetProxySpecForAVolume svc name)"
proof (rule keepsI)
  fix s q s'
  assume g: "GetProxySpecForAVolume svc name s = Some (q, s')" and s: "same_node r n s"
  then obtain q' where "DoRetryWithTimeout (proxy_task svc name) validateReplicationUpdateTimeout defaultRetryInterval s = Some (q', s')"
    by (auto simp: GetProxySpecForAVolume_def split: option.splits prod.splits sum.splits)
  from retry_inv [of "same_node r n" "proxy_task svc name", OF proxy_task_same gaps_pos(1) s this]
  show "same_node r n s'" by simp
qed

lemma GetProxySpec_total: "\<exists>q s'. GetProxySpecForAVolume svc name s = Some (q, s')"
  using retry_total [OF gaps_pos(1), of "proxy_task svc name" validateReplicationUpdateTimeout s]
  by (auto simp: GetProxySpecForAVolume_def split: sum.splits)

lemma GetProxySpec_Inr:
  assumes "GetProxySpecForAVolume svc name s = Some (Inr p, s')"
  shows "\<exists>x v. fst (lc_InspectVolume svc name x) = Inr v \<and> lv_ProxyProtocol v = p"
proof -
  have "DoRetryWithTimeout (proxy_task svc name) validateReplicationUpdateTimeout defaultRetryInterval s = Some (Inr p, s')"
    using assms by (auto simp: GetProxySpecForAVolume_def split: option.splits prod.splits sum.splits)
  from retry_value [OF gaps_pos(1) this] obtain k where
    "final_result (fst (proxy_task svc name (world_at (proxy_task svc name) k s))) = Inr p"
    by (auto simp: outcome_def)
  then obtain s0 where "final_result (fst (proxy_task svc name s0)) = Inr p" by blast
  then show ?thesis
    by (auto simp: proxy_task_def final_result_def on_rest_def split: prod.splits sum.splits) (metis fst_conv)
qed

definition seen_on :: "'x lc_services \<Rightarrow> lc_volume \<Rightarrow> Node \<Rightarrow> bool" where
  "seen_on svc v n \<longleftrightarrow> lv_AttachedOn v \<in> insert (VolDriverNodeID n) (set (Addresses n)) \<or>
     (\<exists>x nd. fst (lc_Inspect svc (VolDriverNodeID n) x) = Inr nd \<and> lv_AttachedOn v \<in> {sn_MgmtIp nd, sn_DataIp nd})"

lemma IsVolumeAttached_Inr:
  "IsVolumeAttachedOnNode svc v n s = Some (Inr True, s') \<Longrightarrow> seen_on svc v n"
  by (auto simp: IsVolumeAttachedOnNode_def seen_on_def io_bind_Inr on_rest_def split: if_splits prod.splits)
     (metis fst_conv)+

lemma IsVolumeAttached_same [keeps_intros]: "keeps (same_node r m) (IsVolumeAttachedOnNode svc v n)"
  unfolding IsVolumeAttachedOnNode_def by (intro keeps_intros keeps_cases)

lemma attached_node_same [keeps_intros]: "keeps (same_node r m) (attached_node svc v ns)"
  by (induction ns) (simp_all add: keeps_intros keeps_cases)

lemma attached_node_Inr:
  "attached_node svc v ns s = Some (Inr (Some n), s') \<Longrightarrow> n \<in> set ns \<and> seen_on svc v n"
  by (induction ns arbitrary: s) (auto simp: io_bind_Inr split: if_splits dest: IsVolumeAttached_Inr)

lemma IsVolumeAttached_returns [returns_intros]: "returns (IsVolumeAttachedOnNode svc v n)"
  unfolding IsVolumeAttachedOnNode_def by (intro returns_intros returns_cases)

lemma attached_node_returns [returns_intros]: "returns (attached_node svc v ns)"
  by (induction ns) (simp_all add: returns_intros returns_cases)

definition pure_file_seen :: "'x lc_services \<Rightarrow> string \<Rightarrow> bool" where
  "pure_file_seen svc name \<longleftrightarrow>
     (\<exists>x v. fst (lc_InspectVolume svc name x) = Inr v \<and> lv_ProxyProtocol v = Some PURE_FILE)"

lemma IsPureFile_Inr: "IsPureFileVolume svc name s = Some (Inr True, s') \<Longrightarrow> pure_file_seen svc name"
  using GetProxySpec_Inr by (fastforce simp: IsPureFileVolume_def io_bind_Inr pure_file_seen_def)

lemma IsPureFile_same: "keeps (same_node r n) (IsPureFileVolume svc name)"
  unfolding IsPureFileVolume_def by (intro keeps_intros)

text \<open>What an attempt that ends the wait has seen.\<close>

definition located :: "'x lc_services \<Rightarrow> string \<Rightarrow> registry \<Rightarrow> Node option \<Rightarrow> bool" where
  "located svc name r found \<longleftrightarrow> (\<exists>x v. fst (lc_InspectVolume svc name x) = Inr v \<and>
     (case found of
        Some n \<Rightarrow> n \<in> set (GetStorageDriverNodes r) \<and> seen_on svc v n
      | None \<Rightarrow> lv_SourceParent v \<noteq> [] \<or> pure_file_seen svc name))"

lemma volume_node_attempt_Inr:
  assumes "volume_node_attempt svc name s = Some (Inr (Some found), s')"
  shows "located svc name (lc_registry s) found"
proof -
  from assms obtain v s1 b s2 where v: "on_rest (lc_InspectVolume svc name) s = (Inr v, s1)"
      and b: "IsPureFileVolume svc name s1 = Some (Inr b, s2)"
      and rest: "b \<and> found = None \<or> (\<exists>q s3. attached_node svc v (GetStorageDriverNodes (lc_registry s2)) s2 = Some (Inr q, s3) \<and>
        (case q of Some n \<Rightarrow> found = Some n | None \<Rightarrow> lv_SourceParent v \<noteq> [] \<and> found = None))"
    unfolding volume_node_attempt_def
    by (auto simp: io_bind_Inr io_catch_Inr split: if_splits option.splits)
  have "fst (lc_InspectVolume svc name (lc_rest s)) = Inr v"
    using v by (simp add: on_rest_def split: prod.splits)
  moreover have "lc_registry s2 = lc_registry s"
    using keepsD [OF IsPureFile_same b, of "lc_registry s" "lc_node s"] on_rest_fields [OF v] by simp
  ultimately show ?thesis
    unfolding located_def using rest b IsPureFile_Inr [of svc name s1 s2]
    by (intro exI [of _ "lc_rest s"] exI [of _ v]) (auto split: option.splits dest: attached_node_Inr)
qed

lemma GetProxySpec_returns [returns_intros]: "returns (GetProxySpecForAVolume svc name)"
  using GetProxySpec_total by (fastforce simp: returns_def)

lemma volume_node_attempt_returns [returns_intros]: "returns (volume_node_attempt svc name)"
  unfolding volume_node_attempt_def IsPureFileVolume_def by (intro returns_intros returns_cases)

lemma volume_node_task_same: "same_node r n s \<Longrightarrow> same_node r n (snd (snd (volume_node_task svc name s)))"
proof -
  have "keeps (same_node r n) (volume_node_attempt svc name)"
    unfolding volume_node_attempt_def
    by (intro keeps_intros keeps_cases IsPureFile_same)
  then show "same_node r n s \<Longrightarrow> same_node r n (snd (snd (volume_node_task svc name s)))"
    by (auto simp: volume_node_task_def keeps_def split: option.splits prod.splits sum.splits)
qed

lemma volume_node_result:
  assumes "volume_node_attempt svc name s = Some (q, s')"
  shows "fst (volume_node_task svc name s) = (case q of
      Inl err \<Rightarrow> (None, False, Some err)
    | Inr None \<Rightarrow> (None, True, Some (Errorf (''volume ['' @ name @ ''] is not attached on any node'')))
    | Inr (Some r) \<Rightarrow> (Some r, False, None))"
  by (simp add: volume_node_task_def assms split: sum.splits option.splits)

section \<open>Stopping Portworx\<close>

lemma fields_aux_append_space:
  "isSpace b \<Longrightarrow> fields_aux w (s @ b # t) = fields_aux w s @ fields_aux [] t"
  by (induction w s rule: fields_aux.induct) auto

lemma fields_aux_Nil_iff: "fields_aux w s = [] \<longleftrightarrow> w = [] \<and> (\<forall>c\<in>set s. isSpace c)"
  by (induction w s rule: fields_aux.induct) auto

lemma daemon_pid_total: "daemon_pid ls \<noteq> None"
proof (induction ls)
  case (Cons l ls)
  have "\<exists>a p ws. Fields l = a # p # ws" if c: "Contains_str l ''/usr/local/bin/px -daemon''"
  proof -
    obtain u v where l: "l = u @ ''/usr/local/bin/px -daemon'' @ v"
      using c by (auto simp: Contains_str_iff)
    have "Fields l = Fields (u @ ''/usr/local/bin/px'') @ Fields (''-daemon'' @ v)"
      using fields_aux_append_space [of "CHR '' ''" "[]" "u @ ''/usr/local/bin/px''" "''-daemon'' @ v"]
      by (simp add: l Fields_def isSpace_def go_space_def)
    moreover have "Fields (u @ ''/usr/local/bin/px'') \<noteq> []" "Fields (''-daemon'' @ v) \<noteq> []"
      by (simp_all add: Fields_def fields_aux_Nil_iff isSpace_def go_space_def)
    ultimately show ?thesis
      by (cases "Fields (u @ ''/usr/local/bin/px'')"; cases "Fields (''-daemon'' @ v)"; cases "tl (Fields (u @ ''/usr/local/bin/px''))") auto
  qed
  then show ?case
    using Cons by (auto split: list.splits)
qed simp

lemma kill_returns [returns_intros]: "returns (kill_on_node svc n)"
  unfolding kill_on_node_def run_or_fail_def sleep_for_def
  by (intro returns_intros returns_cases) (simp_all add: daemon_pid_total)

lemma stop_returns [returns_intros]: "returns (stop_on_node svc force n)"
  unfolding stop_on_node_def run_or_fail_def sleep_for_def by (intro returns_intros returns_cases)

section \<open>Main theorems\<close>

text \<open>C22: Decommissioning takes the node out. When \<open>DecommissionNode\<close> succeeds, the node is no longer among
  the storage driver nodes of the registry, and the last listing of the cluster has no node with its
  host name.\<close>

theorem decommission_removes_node:
  assumes "registry_inv (lc_registry s)" "DecommissionNode svc s = Some (Inr (), s')"
  shows "list_all (\<lambda>m. uuid m \<noteq> uuid (lc_node s')) (GetStorageDriverNodes (lc_registry s')) \<and>
    (\<exists>s1 nodes. getPxNodes svc False s1 = Some ((nodes, None), s') \<and>
       (case StorageNode (lc_node s') of
          None \<Rightarrow> nodes = []
        | Some sn \<Rightarrow> list_all (\<lambda>m. sn_Hostname m \<noteq> sn_Hostname sn) nodes))"
proof (rule DecommissionNode_Inr [OF assms(2)])
  fix i s1 s2 s3 s4
  assume steps: "reg_inv s \<Longrightarrow> reg_inv s1" "remove_node svc i s1 = Some (Inr (), s2)"
      "mark_uninstalled s2 = Some (Inr (), s3)" "node_gone svc s4 = Some (Inr (), s')"
      "same_node (lc_registry s3) (lc_node s3) s4"
  have "reg_inv s2"
    using keepsD [OF remove_node_keeps steps(2)] steps(1) assms(1) by blast
  note mark = mark_uninstalled_node [OF steps(3) this]
  have same: "same_node (lc_registry s3) (lc_node s3) s'"
    by (rule keepsD [OF node_gone_same steps(4,5)])
  have "list_all (\<lambda>m. uuid m \<noteq> uuid (lc_node s')) (GetStorageDriverNodes (lc_registry s'))"
    using uninstalled_not_listed [OF mark(1,3,2)] same by simp
  moreover obtain nodes where "getPxNodes svc False s4 = Some ((nodes, None), s')"
      "nodes = [] \<or> (\<exists>sn. StorageNode (lc_node s') = Some sn \<and> \<not> list_ex (\<lambda>m. sn_Hostname m = sn_Hostname sn) nodes)"
    using steps(4) by (auto simp: node_gone_def split: option.splits prod.splits if_splits)
  ultimately show ?thesis
    by (intro conjI exI [of _ s4] exI [of _ nodes]) (auto simp: list_all_iff list_ex_iff split: option.splits)
qed

text \<open>C25: Looking up an unknown node. In a steady cluster, the lookup of a node whose id the cluster does not
  know returns unless Portworx is disabled on the node; then \<open>updateNodeID\<close> reports success without
  changing the id and \<open>GetDriverNode\<close> calls itself forever.\<close>

theorem unknown_node_lookup:
  assumes "steady svc (lc_rest s) ids" "StorageNode (lc_node s) \<noteq> None"
    and "lc_Inspect svc (VolDriverNodeID (lc_node s)) (lc_rest s) = (Inl err, lc_rest s)" "lc_not_found svc err"
  shows "GetDriverNode svc s = None \<longleftrightarrow> lc_IsPXEnabled svc (lc_rest s) (lc_node s) = Inr False"
proof -
  define t where "t = s\<lparr>lc_refreshEndpoint := True\<rparr>"
  have t: "lc_rest t = lc_rest s" "lc_node t = lc_node s" by (simp_all add: t_def)
  have st: "steady svc (lc_rest t) ids" using assms(1) t by simp
  let ?n = "lc_node s"
  have insp: "on_rest (lc_Inspect svc (VolDriverNodeID ?n)) t = (Inl err, t)"
    using steady_inspect [OF st] assms(3) t by simp
  obtain nds where l: "getPxNodes svc True t = Some ((nds, None), t)"
      "\<forall>nd\<in>set nds. fst (lc_Inspect svc (sn_Id nd) (lc_rest t)) = Inr nd"
    using steady_listing [OF st] by blast
  have loop: "GetDriverNode svc s = driver_node_loop svc t"
    by (simp add: GetDriverNode_def t_def)
  have unfold: "driver_node_loop svc t = (case updateNodeID svc True t of
      None \<Rightarrow> None | Some (Inl err', s2) \<Rightarrow> Some (Inl err', s2) | Some (Inr _, s2) \<Rightarrow> driver_node_loop svc s2)"
    by (subst driver_node_loop.simps) (simp add: insp t assms(4))
  show ?thesis
  proof (cases "lc_IsPXEnabled svc (lc_rest s) ?n = Inr False")
    case True
    then have "updateNodeID svc True t = Some (Inr (), t)"
      by (simp add: updateNodeID_def l(1) Let_def t updateNode_def updated_node_def)
    from driver_node_forever [OF _ assms(4) this] insp t True loop show ?thesis by simp
  next
    case False
    obtain q s2 where u: "updateNodeID svc True t = Some (q, s2)" and s2: "lc_rest s2 = lc_rest t"
      and found: "\<And>v. q = Inr v \<Longrightarrow> \<exists>nd\<in>set nds. VolDriverNodeID (lc_node s2) = sn_Id nd"
      using updateNodeID_found [OF l(1)] assms(2) False t by metis
    show ?thesis
    proof (cases q)
      case (Inl e)
      then show ?thesis using unfold u loop False by simp
    next
      case (Inr v)
      then obtain nd where "nd \<in> set nds" "VolDriverNodeID (lc_node s2) = sn_Id nd"
        using found by blast
      then have "driver_node_loop svc s2 = Some (Inr nd, s2)"
        using l(2) st s2 steady_inspect [of svc s2 ids] by (subst driver_node_loop.simps) simp
      then show ?thesis using unfold u loop False Inr by simp
    qed
  qed
qed

definition lc_sample_node :: Node where
  "lc_sample_node = zero_Node\<lparr>uuid := ''u1'', node_Name := ''n1'', VolDriverNodeID := ''id1'',
     IsStorageDriverInstalled := True, StorageNode := Some \<lparr>sn_Id = ''id1'', sn_Hostname = ''h1'',
       sn_DataIp = ''10.0.0.1'', sn_MgmtIp = ''10.0.0.1'', sn_SchedulerNodeName = ''n1'',
       sn_Status = STATUS_MAINTENANCE, sn_Disks = [], sn_Pools = []\<rparr>\<rparr>"

text \<open>A cluster that lists no nodes; \<open>known\<close> tells whether it still answers for the node.\<close>

definition lc_sample :: "bool \<Rightarrow> unit lc_services" where
  "lc_sample known = \<lparr>lc_clock = (\<lambda>_. 0), lc_sleep = (\<lambda>_ x. x),
     lc_Inspect = (\<lambda>_ x. (if known then Inr (the (StorageNode lc_sample_node)) else Inl (Errorf ''NotFound''), x)),
     lc_Enumerate = (\<lambda>x. (Inr [], x)), lc_not_found = (\<lambda>_. True), lc_IsPXEnabled = (\<lambda>_ _. Inr False),
     lc_GetKvdbMembers = (\<lambda>_ _. Inr []), lc_fmt_nodes = (\<lambda>_. []), lc_fmt_response = (\<lambda>_. []),
     lc_AddLabelOnNode = (\<lambda>_ _ _ x. (Inr (), x)), lc_RemoveLabelOnNode = (\<lambda>_ _ x. (Inr (), x)),
     lc_UnCordonNode = (\<lambda>_ x. (Inr (), x)), lc_maintenanceOp = (\<lambda>_ _ x. (Inr (), x)),
     lc_RunCommand = (\<lambda>_ _ x. (Inr ''/opt/pwx/bin/pxctl'', x)), lc_RunCommandWithNoRetry = (\<lambda>_ _ x. (Inr [], x)),
     lc_Systemctl = (\<lambda>_ _ _ x. (Inr (), x)), lc_StopPxOnNode = (\<lambda>_ x. (Inr (), x)),
     lc_RestartPxOnNode = (\<lambda>_ x. (Inr (), x)), lc_InspectVolume = (\<lambda>_ x. (Inl (Errorf []), x))\<rparr>"

definition lc_start :: "unit lc" where
  "lc_start = \<lparr>lc_registry = [(''u1'', lc_sample_node)], lc_refreshEndpoint = False, lc_node = lc_sample_node, lc_rest = ()\<rparr>"

lemma lc_sample_fields:
  "lc_Inspect (lc_sample known) i x = (if known then Inr (the (StorageNode lc_sample_node)) else Inl (Errorf ''NotFound''), x)"
  "lc_Enumerate (lc_sample known) x = (Inr [], x)" "lc_not_found (lc_sample known) e"
  "lc_IsPXEnabled (lc_sample known) x n = Inr False" "lc_sleep (lc_sample known) d x = x"
  "lc_AddLabelOnNode (lc_sample known) a b c x = (Inr (), x)" "lc_maintenanceOp (lc_sample known) n a x = (Inr (), x)"
  "lc_RunCommand (lc_sample known) n a x = (Inr ''/opt/pwx/bin/pxctl'', x)"
  "lc_RunCommandWithNoRetry (lc_sample known) n a x = (Inr [], x)"
  by (simp_all add: lc_sample_def)

theorem unknown_node_lookup_witness: "GetDriverNode (lc_sample False) lc_start = None"
proof -
  have "steady (lc_sample False) (lc_rest lc_start) []"
    by (simp add: steady_def lc_sample_fields)
  from unknown_node_lookup [OF this] show ?thesis
    by (simp add: lc_sample_fields lc_start_def lc_sample_node_def)
qed

lemmas io_eval = io_bind_def io_return_def io_error_def io_call_def io_catch_def io_try_def io_gets_def io_modify_def

lemma sample_driver_node:
  "GetDriverNode (lc_sample True) s = Some (Inr (the (StorageNode lc_sample_node)), s\<lparr>lc_refreshEndpoint := True\<rparr>)"
  unfolding GetDriverNode_def by (subst driver_node_loop.simps) (simp add: on_rest_def lc_sample_fields)

lemma sample_first_poll:
  assumes "m s = Some (Inr x, s')"
  shows "io_poll clk m px_defaultTimeout gap s = Some (Inr x, s')"
    "io_poll clk m maintenanceOpTimeout gap s = Some (Inr x, s')"
    "io_poll clk m maintenanceWaitTimeout gap s = Some (Inr x, s')"
    "io_poll clk m (5 * minute_ns) gap s = Some (Inr x, s')"
    "io_poll clk m (25 * minute_ns) gap s = Some (Inr x, s')"
  by (rule io_poll_first; simp add: assms px_defaultTimeout_def wait_times)+

lemma sample_steps:
  "add_remove_label (lc_sample True) s = Some (Inr (), s)"
  "enter_op (lc_sample True) s = Some (Inr (), s)"
  "enter_status (lc_sample True) s = Some (Inr (), s\<lparr>lc_refreshEndpoint := True\<rparr>)"
  "inspect_target (lc_sample True) s = Some (Inr ''id1'', s)"
  "out_of_service (lc_sample True) s = Some (Inr True, s\<lparr>lc_refreshEndpoint := True\<rparr>)"
  "run_delete (lc_sample True) n cmd s = Some (Inr (), s)"
  "node_gone (lc_sample True) s = Some (Inr (), s\<lparr>lc_refreshEndpoint := False\<rparr>)"
  by (simp_all add: add_remove_label_def enter_op_def enter_status_def inspect_target_def out_of_service_def run_delete_def
      node_gone_def getPxNodes_def io_eval sample_driver_node on_rest_def lc_sample_fields lc_sample_node_def)

lemma sample_enter: "enter_or_offline (lc_sample True) s = Some (Inr (), s\<lparr>lc_refreshEndpoint := True\<rparr>)"
  by (simp add: enter_or_offline_def enter_maintenance_def with_copy_def io_eval sample_first_poll sample_steps lc_sample_fields)

lemma sample_remove: "remove_node (lc_sample True) i s = Some (Inr (), s)"
  by (simp add: remove_node_def getPxctlPath_def io_eval sample_first_poll sample_steps on_rest_def lc_sample_fields)

lemma sample_decommission:
  "DecommissionNode (lc_sample True) lc_start =
     Some (Inr (), lc_start\<lparr>lc_node := lc_sample_node\<lparr>IsStorageDriverInstalled := False\<rparr>,
       lc_registry := [(''u1'', lc_sample_node\<lparr>IsStorageDriverInstalled := False\<rparr>)]\<rparr>)"
  by (simp add: DecommissionNode_def io_eval sample_steps sample_enter sample_remove sample_first_poll mark_uninstalled_def
      Let_def UpdateNode_def gm_has_def gm_put_def)
     (simp add: lc_start_def lc_sample_node_def)

theorem decommission_removes_node_witness:
  "\<exists>s'. DecommissionNode (lc_sample True) lc_start = Some (Inr (), s') \<and>
     list_all (\<lambda>m. uuid m \<noteq> uuid (lc_node s')) (GetStorageDriverNodes (lc_registry s'))"
proof -
  have "registry_inv (lc_registry lc_start)"
    by (simp add: registry_inv_def lc_start_def lc_sample_node_def gm_ok_def)
  from decommission_removes_node [OF this sample_decommission] sample_decommission show ?thesis
    by blast
qed

text \<open>The node of a volume. For a positive interval \<open>GetNodeForVolume\<close> returns. A node it returns is a
  storage driver node of the registry on which the volume was seen attached; without a node and without
  an error, the volume is a snapshot or a file volume of a FlashBlade.\<close>

theorem node_for_volume_correct:
  assumes "0 < retryInterval"
  shows "case GetNodeForVolume svc name timeout retryInterval s of
     None \<Rightarrow> False
   | Some (Inl err, s') \<Rightarrow> \<exists>cause. err = PxErr (ErrFailedToValidateAttachment name cause)
   | Some (Inr found, s') \<Rightarrow> located svc name (lc_registry s) found"
proof -
  let ?t = "volume_node_task svc name"
  let ?s = "s\<lparr>lc_refreshEndpoint := True\<rparr>"
  obtain r s' where run: "DoRetryWithTimeout ?t timeout retryInterval ?s = Some (r, s')"
    using retry_total [OF assms, of ?t timeout ?s] by blast
  show ?thesis
  proof (cases r)
    case (Inl err)
    then show ?thesis by (simp add: GetNodeForVolume_def run)
  next
    case (Inr out)
    from retry_value [OF assms run [unfolded Inr]] obtain k where
      k: "final_result (fst (?t (world_at ?t k ?s))) = Inr out"
      by (auto simp: outcome_def)
    let ?w = "world_at ?t k ?s"
    have same: "same_node (lc_registry s) (lc_node s) ?w"
      by (rule world_at_inv [of "same_node (lc_registry s) (lc_node s)", OF volume_node_task_same]) simp_all
    obtain q w' where a: "volume_node_attempt svc name ?w = Some (q, w')"
      using returnsD [OF volume_node_attempt_returns] by blast
    then obtain found where "q = Inr (Some found)" "out = Some found"
      using k volume_node_result [OF a] by (auto simp: final_result_def split: sum.splits option.splits)
    then show ?thesis
      using volume_node_attempt_Inr [of svc name ?w found w'] a same by (simp add: GetNodeForVolume_def run Inr)
  qed
qed

theorem node_for_volume_correct_witness:
  "case GetNodeForVolume (lc_sample True) ''v1'' 1 1 lc_start of
     None \<Rightarrow> False
   | Some (Inl err, s') \<Rightarrow> \<exists>cause. err = PxErr (ErrFailedToValidateAttachment ''v1'' cause)
   | Some (Inr found, s') \<Rightarrow> located (lc_sample True) ''v1'' (lc_registry lc_start) found"
  by (rule node_for_volume_correct) simp

text \<open>The status of a node. \<open>GetNodeStatus\<close> returns; a status it returns was inspected, or the cluster
  answered that it does not know the node.\<close>

theorem node_status_correct:
  "case GetNodeStatus svc n s of
     None \<Rightarrow> False
   | Some (Inl err, s') \<Rightarrow> \<exists>cause. err = PxErr (ErrFailedToGetNodeStatus (node_Name n) cause)
   | Some (Inr st, s') \<Rightarrow>
       (\<exists>x nd. fst (lc_Inspect svc (VolDriverNodeID n) x) = Inr nd \<and> sn_Status nd = st) \<or>
       st = STATUS_NONE \<and> (\<exists>x err. fst (lc_Inspect svc (VolDriverNodeID n) x) = Inl err \<and> lc_not_found svc err) \<or>
       (\<exists>why. lc_not_found svc (ErrTimedOut why))"
proof -
  let ?t = "node_status_task svc n"
  obtain r s' where run: "DoRetryWithTimeout ?t (5 * minute_ns) minute_ns s = Some (r, s')"
    using retry_total [OF gaps_pos(4), of ?t] by blast
  show ?thesis
  proof (cases r)
    case (Inl err)
    from retry_error [OF gaps_pos(4) run [unfolded Inl]] show ?thesis
    proof (elim disjE exE conjE)
      fix k
      assume "final_result (outcome ?t k s) = Inl err" "\<not> asks_retry (outcome ?t k s)"
      then obtain w where "final_result (fst (?t w)) = Inl err" "\<not> asks_retry (fst (?t w))"
        by (auto simp: outcome_def)
      then have "fst (lc_Inspect svc (VolDriverNodeID n) (lc_rest w)) = Inl err" "lc_not_found svc err"
        by (auto simp: node_status_task_def final_result_def asks_retry_def on_rest_def split: prod.splits sum.splits)
      then show ?thesis by (auto simp: GetNodeStatus_def run Inl)
    qed (auto simp: GetNodeStatus_def run Inl)
  next
    case (Inr out)
    from retry_value [OF gaps_pos(4) run [unfolded Inr]] obtain w where "final_result (fst (?t w)) = Inr out"
      by (auto simp: outcome_def)
    then obtain nd where "out = Some nd" "fst (lc_Inspect svc (VolDriverNodeID n) (lc_rest w)) = Inr nd"
      by (auto simp: node_status_task_def final_result_def on_rest_def split: prod.splits sum.splits)
    then show ?thesis
      by (auto simp: GetNodeStatus_def run Inr)
  qed
qed

end
