(* ===== verification/K8sTypes.thy ===== *)
theory K8sTypes
  imports GoIO NodeRegistry DriverRegistry AutopilotRules
begin

text \<open>
  The data of the Kubernetes scheduler, \<open>drivers/scheduler/k8s/k8s.go\<close>: the objects of an application
  spec, the options and the context of a scheduled application, the driver's struct and the calls of the
  client library.

  An object of a spec is a Go pointer to one of many struct types, and the driver finds out which by
  type assertions. Here it is a record with the type and the fields that the driver reads or writes, and
  spec lists hold addresses into a store: applications that come from the same factory entry share their
  objects, and the driver changes them in place.
\<close>

section \<open>The types of spec objects\<close>

text \<open>The Go types that occur in the driver's type assertions; the versions \<open>v1beta1\<close> of a type are
  types of their own. \<open>OtherObject\<close> stands for every other type.\<close>

datatype (plugins only: code size) spec_type =
    Deployment | StatefulSet | DaemonSet | Service | PersistentVolumeClaim | StorageClass
  | VolumeSnapshot | GroupVolumeSnapshot | Secret | ConfigMap | Rule | Pod | ClusterPair | Migration
  | MigrationSchedule | BackupLocation | ApplicationBackup | SchedulePolicy | ApplicationRestore
  | ApplicationClone | VolumeSnapshotRestore | AutopilotRuleSpec | ServiceAccount | ClusterRole
  | ClusterRoleBinding | Role | RoleBinding | CronJob | Job | LimitRange | Ingress | Prometheus
  | PrometheusRule | ServiceMonitor | Namespace | CustomResourceDefinitionV1beta1
  | CustomResourceDefinition | PodDisruptionBudget | NetworkPolicy | Endpoints
  | ResourceTransformation | ValidatingWebhookConfiguration | ValidatingWebhookConfigurationV1beta1
  | ValidatingWebhookConfigurationList | PersistentVolume | VirtualMachine | Task | Pipeline | TaskRun
  | PipelineRun | HelmRepoSpec | CustomResourceObjectYAML | ModelsDeployment | OtherObject

section \<open>Spec objects\<close>

type_synonym labels = "(string, string) gomap"

record Container =
  ctr_Args :: "string list"
  ctr_Env :: "(string \<times> string) list"
  ctr_Image :: string

text \<open>A volume of a pod: its name and, if its source is a claim, the name of the claim.\<close>

record PodVolume =
  pv_Name :: string
  pv_ClaimName :: "string option"

record NodeSelectorRequirement =
  req_Key :: string
  req_Operator :: string
  req_Values :: "string list"

text \<open>The pointer \<open>RequiredDuringSchedulingIgnoredDuringExecution\<close> and the terms behind it, each the list
  of its \<open>MatchExpressions\<close>.\<close>

record NodeAffinity =
  RequiredDuringScheduling :: "NodeSelectorRequirement list list option"

record Affinity =
  aff_NodeAffinity :: "NodeAffinity option"

record PodSpec =
  ps_Volumes :: "PodVolume list"
  ps_InitContainers :: "Container list"
  ps_Containers :: "Container list"
  ps_SchedulerName :: string
  ps_Affinity :: "Affinity option"
  ps_ImagePullSecrets :: "string list"
  ps_NodeSelector :: labels

record StorageClassSpec =
  sc_Provisioner :: string
  sc_Parameters :: labels
  sc_VolumeBindingMode :: "string option"

text \<open>The spec of a claim; the storage request is in bytes.\<close>

record ClaimSpec =
  cl_VolumeName :: string
  cl_AccessModes :: "string list"
  cl_Request :: int
  cl_VolumeMode :: "string option"

record HelmRepo =
  helm_RepoName :: string
  helm_ChartName :: string
  helm_ReleaseName :: string
  helm_URL :: string
  helm_Values :: string

text \<open>
  \<open>so_Claims\<close> are the annotations of the \<open>VolumeClaimTemplates\<close> of a stateful set, \<open>so_Owners\<close> the kind
  and name of the owner references, \<open>so_Subjects\<close> the kind and namespace of the subjects of a role
  binding, \<open>so_HookNamespaces\<close> the namespaces of the services of the web hooks, \<open>so_ClaimRef\<close> the namespace of
  the claim of a persistent volume (both behind a pointer that may be nil), \<open>so_VmVolumes\<close> and \<open>so_DataVolumes\<close> the claims and the names of the data
  volume templates of a virtual machine, \<open>so_Path\<close> the file of a custom resource and \<open>so_Extra\<close> the
  name of the snapshot data of a snapshot or the cluster resource name of a data service. A field that a
  type does not have holds its zero value. A nil map and an empty one are both \<open>[]\<close>: the driver makes the map
  before it writes to one that may be nil.
\<close>

record spec_obj =
  so_type :: spec_type
  so_Kind :: string
  so_Name :: string
  so_Namespace :: string
  so_UID :: string
  so_Labels :: labels
  so_Annotations :: labels
  so_Owners :: "(string \<times> string) list"
  so_Pod :: PodSpec
  so_Replicas :: int
  so_Claims :: "labels list"
  so_Class :: StorageClassSpec
  so_Claim :: ClaimSpec
  so_ClaimRef :: "string option"
  so_HookNamespaces :: "string option list"
  so_Subjects :: "(string \<times> string) list"
  so_Data :: labels
  so_VmVolumes :: "string option list"
  so_DataVolumes :: "string list"
  so_Ready :: bool
  so_Helm :: HelmRepo
  so_Path :: string
  so_Extra :: string

definition zero_PodSpec :: PodSpec where
  "zero_PodSpec = \<lparr>ps_Volumes = [], ps_InitContainers = [], ps_Containers = [], ps_SchedulerName = [],
     ps_Affinity = None, ps_ImagePullSecrets = [], ps_NodeSelector = []\<rparr>"

definition new_obj :: "spec_type \<Rightarrow> string \<Rightarrow> string \<Rightarrow> spec_obj" where
  "new_obj t name namespace = \<lparr>so_type = t, so_Kind = [], so_Name = name, so_Namespace = namespace,
     so_UID = [], so_Labels = [], so_Annotations = [], so_Owners = [], so_Pod = zero_PodSpec,
     so_Replicas = 0, so_Claims = [],
     so_Class = \<lparr>sc_Provisioner = [], sc_Parameters = [], sc_VolumeBindingMode = None\<rparr>,
     so_Claim = \<lparr>cl_VolumeName = [], cl_AccessModes = [], cl_Request = 0, cl_VolumeMode = None\<rparr>,
     so_ClaimRef = None, so_HookNamespaces = [], so_Subjects = [], so_Data = [], so_VmVolumes = [],
     so_DataVolumes = [], so_Ready = False,
     so_Helm = \<lparr>helm_RepoName = [], helm_ChartName = [], helm_ReleaseName = [], helm_URL = [], helm_Values = []\<rparr>,
     so_Path = [], so_Extra = []\<rparr>"

text \<open>A pod as the driver reads it; \<open>pod_Deleting\<close> says that its deletion timestamp is set.\<close>

record kube_pod =
  pod_Name :: string
  pod_Namespace :: string
  pod_UID :: string
  pod_NodeName :: string
  pod_HostIP :: string
  pod_Deleting :: bool
  pod_Volumes :: "PodVolume list"
  pod_Owners :: "(string \<times> string) list"

text \<open>A node as Kubernetes reports it: its name and its addresses with their types.\<close>

record kube_node =
  kn_Name :: string
  kn_Addresses :: "(string \<times> string) list"

section \<open>Options, contexts and the driver\<close>

type_synonym ptr = nat

type_synonym app_spec = "ptr AppSpec"

record ScheduleOptions =
  opt_AppKeys :: "string list"
  opt_CsiAppKeys :: "string list"
  opt_Nodes :: "Node list"
  opt_StorageProvisioner :: string
  opt_AutopilotRule :: AutopilotRule
  opt_Scheduler :: string
  opt_Labels :: labels
  opt_PvcNodesAnnotation :: "string list"
  opt_PvcSize :: int
  opt_Upgrade :: bool
  opt_Namespace :: string
  opt_TopologyLabels :: "labels list"
  opt_PureFAPodName :: string

record sched_ctx =
  ctx_UID :: string
  ctx_App :: app_spec
  ctx_ScheduleOptions :: ScheduleOptions
  ctx_SkipClusterScopedObject :: bool

record VolumeOptions =
  vo_SkipClusterScopedObjects :: bool
  vo_ExpectError :: bool

text \<open>The struct \<open>K8s\<close>. The factory is a map from keys to applications.\<close>

record K8s =
  k_SpecFactory :: "(string, app_spec) gomap"
  k_NodeDriverName :: string
  k_VolDriverName :: string
  k_secretConfigMapName :: string
  k_SecretType :: string
  k_VaultAddress :: string
  k_VaultToken :: string
  k_PureVolumes :: bool
  k_PureSANType :: string
  k_PureFADAPod :: string
  k_RunCSISnapshotAndRestoreManyTest :: bool
  k_secureApps :: "string list"

section \<open>The world\<close>

text \<open>
  What the driver can change: the spec objects in the store, the package variable
  \<open>defaultTorpedoLabel\<close>, the node registry, and everything outside, of which the client calls
  and the clock are functions.
\<close>

record 'x k8s_world =
  wd_heap :: "ptr \<Rightarrow> spec_obj"
  wd_next :: ptr
  wd_label :: labels
  wd_registry :: registry
  wd_ext :: 'x

text \<open>
  The client library, by operation and type: \<open>api_Create Deployment\<close> is \<open>k8sApps.CreateDeployment\<close>,
  \<open>api_Get CronJob\<close> is \<open>k8sBatch.GetCronJobV1beta1\<close>, and so on; the namespace of a call that has none is
  empty. A call that returns an object returns a pointer and an error, and the pointer may be nil. The rest
  is the process environment, the file system, \<open>kubectl\<close>, the node driver, the clients of Vault and Helm, the
  YAML reader and decoder, the text that \<open>fmt\<close> prints for an object and for its type, and the globals of package \<open>volume\<close>.
\<close>

type_synonym 'x obj_call = "'x \<Rightarrow> (spec_obj option \<times> go_error option) \<times> 'x"

type_synonym ('x, 'a) ext_call = "'x \<Rightarrow> (go_error + 'a) \<times> 'x"

record 'x k8s_api =
  api_clock :: "'x \<Rightarrow> nat"
  api_Create :: "spec_type \<Rightarrow> spec_obj \<Rightarrow> 'x obj_call"
  api_Get :: "spec_type \<Rightarrow> string \<Rightarrow> string \<Rightarrow> 'x obj_call"
  api_Update :: "spec_type \<Rightarrow> spec_obj \<Rightarrow> 'x obj_call"
  api_Delete :: "spec_type \<Rightarrow> string \<Rightarrow> string \<Rightarrow> ('x, unit) ext_call"
  api_Validate :: "spec_type \<Rightarrow> spec_obj \<Rightarrow> int \<Rightarrow> int \<Rightarrow> ('x, unit) ext_call"
  api_ValidateTerminated :: "spec_type \<Rightarrow> spec_obj \<Rightarrow> int \<Rightarrow> int \<Rightarrow> ('x, unit) ext_call"
  api_PodsOf :: "spec_obj \<Rightarrow> ('x, kube_pod list) ext_call"
  api_ClaimsOf :: "spec_obj \<Rightarrow> ('x, spec_obj list option) ext_call"
  api_IsAlreadyExists :: "go_error \<Rightarrow> bool"
  api_IsNotFound :: "go_error \<Rightarrow> bool"
  api_ErrPodsNotFound :: go_error
  api_Register :: "spec_type \<Rightarrow> spec_obj \<Rightarrow> ('x, unit) ext_call"
  api_ListPods :: "string \<Rightarrow> labels \<Rightarrow> ('x, kube_pod list) ext_call"
  api_CreateRule :: "AutopilotRule \<Rightarrow> labels \<Rightarrow> labels \<Rightarrow> ('x, AutopilotRule) ext_call"
  api_GetRule :: "string \<Rightarrow> ('x, AutopilotRule) ext_call"
  api_GetNodes :: "('x, kube_node list) ext_call"
  api_IsNodeReady :: "string \<Rightarrow> ('x, unit) ext_call"
  api_IsNodeMaster :: "kube_node \<Rightarrow> bool"
  api_GetLabelsOnNode :: "string \<Rightarrow> ('x, labels) ext_call"
  api_AddLabelOnNode :: "string \<Rightarrow> string \<Rightarrow> string \<Rightarrow> ('x, unit) ext_call"
  api_IsPodRunning :: "kube_pod \<Rightarrow> bool"
  api_Kubectl :: "string list \<Rightarrow> ('x, unit) ext_call"
  api_NotExist :: "string \<Rightarrow> 'x \<Rightarrow> bool"
  api_Getenv :: "string \<Rightarrow> string"
  api_DockerConfig :: "string \<Rightarrow> string \<Rightarrow> string \<Rightarrow> string"
  api_Sleep :: "int \<Rightarrow> 'x \<Rightarrow> 'x"
  api_NewUUID :: "'x \<Rightarrow> string \<times> 'x"
  api_VaultNewClient :: "('x, unit) ext_call"
  api_VaultSetAddress :: "string \<Rightarrow> ('x, unit) ext_call"
  api_VaultWrite :: "string \<Rightarrow> string \<Rightarrow> labels \<Rightarrow> ('x, unit) ext_call"
  api_RepoAdd :: "HelmRepo \<Rightarrow> ('x, unit) ext_call"
  api_RepoUpdate :: "('x, unit) ext_call"
  api_InstallChart :: "HelmRepo \<Rightarrow> string \<Rightarrow> ('x, string) ext_call"
  api_UpgradeChart :: "HelmRepo \<Rightarrow> string \<Rightarrow> ('x, string) ext_call"
  api_UninstallChart :: "HelmRepo \<Rightarrow> string \<Rightarrow> ('x, string) ext_call"
  api_Documents :: "string \<Rightarrow> string list"
  api_decodeSpec :: "string \<Rightarrow> go_error + spec_obj"
  api_Sprint :: "spec_obj \<Rightarrow> string"
  api_TypeOf :: "spec_obj \<Rightarrow> string"
  api_StorageProvisioner :: string

section \<open>Calls and the store\<close>

text \<open>A call whose result the driver uses only if the error is nil; if then the pointer is nil, the first
  access to it panics. The type of the object is that of the call.\<close>

definition obj_call :: "spec_type \<Rightarrow> 'x obj_call \<Rightarrow> ('x k8s_world, spec_obj) io" where
  "obj_call t f w = (case f (wd_ext w) of
     ((_, Some err), x) \<Rightarrow> Some (Inl err, w\<lparr>wd_ext := x\<rparr>)
   | ((Some o1, None), x) \<Rightarrow> Some (Inr (o1\<lparr>so_type := t\<rparr>), w\<lparr>wd_ext := x\<rparr>)
   | ((None, None), x) \<Rightarrow> None)"

definition ext_call :: "('x, 'a) ext_call \<Rightarrow> ('x k8s_world, 'a) io" where
  "ext_call f w = (case f (wd_ext w) of (r, x) \<Rightarrow> Some (r, w\<lparr>wd_ext := x\<rparr>))"

definition clock :: "'x k8s_api \<Rightarrow> 'x k8s_world \<Rightarrow> nat" where
  "clock api w = api_clock api (wd_ext w)"

definition deref :: "ptr \<Rightarrow> ('x k8s_world, spec_obj) io" where
  "deref p = io_gets (\<lambda>w. wd_heap w p)"

definition mutate :: "ptr \<Rightarrow> (spec_obj \<Rightarrow> spec_obj) \<Rightarrow> ('x k8s_world, unit) io" where
  "mutate p f = io_modify (\<lambda>w. w\<lparr>wd_heap := (wd_heap w)(p := f (wd_heap w p))\<rparr>)"

definition alloc :: "spec_obj \<Rightarrow> ('x k8s_world, ptr) io" where
  "alloc o1 w = Some (Inr (wd_next w), w\<lparr>wd_heap := (wd_heap w)(wd_next w := o1), wd_next := Suc (wd_next w)\<rparr>)"

lemma io_bind_deref [simp]: "io_bind (deref p) f w = f (wd_heap w p) w"
  by (simp add: io_bind_def deref_def io_gets_def)

text \<open>The loops of the driver over a list of specs.\<close>

fun io_foreach :: "('a \<Rightarrow> ('w, unit) io) \<Rightarrow> 'a list \<Rightarrow> ('w, unit) io" where
  "io_foreach f [] = io_return ()"
| "io_foreach f (x # xs) = io_bind (f x) (\<lambda>_. io_foreach f xs)"

section \<open>Timeouts\<close>

definition k8sNodeReadyTimeout :: int where "k8sNodeReadyTimeout = 5 * minute_ns"
definition volDirCleanupTimeout :: int where "volDirCleanupTimeout = 5 * minute_ns"
definition k8sObjectCreateTimeout :: int where "k8sObjectCreateTimeout = 2 * minute_ns"
definition k8sDestroyTimeout :: int where "k8sDestroyTimeout = 10 * minute_ns"
definition FindFilesOnWorkerTimeout :: int where "FindFilesOnWorkerTimeout = minute_ns"
definition deleteTasksWaitTimeout :: int where "deleteTasksWaitTimeout = 5 * minute_ns"
definition k8s_DefaultRetryInterval :: int where "k8s_DefaultRetryInterval = 10 * second_ns"
definition k8s_DefaultTimeout :: int where "k8s_DefaultTimeout = 5 * minute_ns"
definition cdiImageImportTimeout :: int where "cdiImageImportTimeout = 20 * minute_ns"
definition cdiImageImportRetry :: int where "cdiImageImportRetry = 30 * second_ns"

lemmas k8s_times = k8sNodeReadyTimeout_def volDirCleanupTimeout_def k8sObjectCreateTimeout_def
  k8sDestroyTimeout_def FindFilesOnWorkerTimeout_def deleteTasksWaitTimeout_def k8s_DefaultRetryInterval_def
  k8s_DefaultTimeout_def cdiImageImportTimeout_def cdiImageImportRetry_def minute_ns_def second_ns_def

lemma k8s_gaps [simp, keeps_intros, returns_intros]: "0 < k8s_DefaultRetryInterval" "0 < cdiImageImportRetry"
  by (simp_all add: k8s_times)

end
