(* ===== verification/K8sSpecs.thy ===== *)
theory K8sSpecs
  imports K8sTypes
begin

text \<open>
  What the creation functions of the Kubernetes scheduler share (\<open>k8s.go\<close>): the substitution of the
  namespace, topology labels and affinity, the security annotations, and the steps by which one object is
  created or, if it exists already, read.
\<close>

section \<open>Keys and helpers\<close>

definition secretNameKey :: string where "secretNameKey = ''secret_name''"
definition secretNamespaceKey :: string where "secretNamespaceKey = ''secret_namespace''"
definition encryptionKey :: string where "encryptionKey = ''encryption''"
definition encryptionName :: string where "encryptionName = ''secure''"
definition secretName :: string where "secretName = ''openstorage.io/auth-secret-name''"
definition secretNamespace :: string where "secretNamespace = ''openstorage.io/auth-secret-namespace''"
definition CsiProvisionerSecretName :: string where
  "CsiProvisionerSecretName = ''csi.storage.k8s.io/provisioner-secret-name''"
definition CsiProvisionerSecretNamespace :: string where
  "CsiProvisionerSecretNamespace = ''csi.storage.k8s.io/provisioner-secret-namespace''"
definition CsiNodePublishSecretName :: string where
  "CsiNodePublishSecretName = ''csi.storage.k8s.io/node-publish-secret-name''"
definition CsiNodePublishSecretNamespace :: string where
  "CsiNodePublishSecretNamespace = ''csi.storage.k8s.io/node-publish-secret-namespace''"
definition CsiControllerExpandSecretName :: string where
  "CsiControllerExpandSecretName = ''csi.storage.k8s.io/controller-expand-secret-name''"
definition CsiControllerExpandSecretNamespace :: string where
  "CsiControllerExpandSecretNamespace = ''csi.storage.k8s.io/controller-expand-secret-namespace''"
definition autopilotEnabledAnnotationKey :: string where
  "autopilotEnabledAnnotationKey = ''torpedo.io/autopilot-enabled''"
definition pvcLabelsAnnotationKey :: string where "pvcLabelsAnnotationKey = ''torpedo.io/pvclabels-enabled''"
definition pvcNodesAnnotationKey :: string where "pvcNodesAnnotationKey = ''torpedo.io/pvcnodes-enabled''"
definition cdiPvcRunningMessageAnnotationKey :: string where
  "cdiPvcRunningMessageAnnotationKey = ''cdi.kubevirt.io/storage.condition.running.message''"
definition cdiPvcImportEndpointAnnotationKey :: string where
  "cdiPvcImportEndpointAnnotationKey = ''cdi.kubevirt.io/storage.import.endpoint''"
definition cdiImportComplete :: string where "cdiImportComplete = ''Import Complete''"
definition PortworxStrict :: string where "PortworxStrict = ''strict''"
definition StorkSnapshot :: string where "StorkSnapshot = ''stork-snapshot''"
definition CsiProvisioner :: string where "CsiProvisioner = ''pxd.portworx.com''"
definition namespaceRegex :: string where "namespaceRegex = ''_NAMESPACE_''"

definition app_error :: "'s AppSpec \<Rightarrow> sched_app \<Rightarrow> string \<Rightarrow> go_error" where
  "app_error app t cause = SchedErr (AppErr t (app_Key app) cause)"

definition MergeMaps :: "labels \<Rightarrow> labels \<Rightarrow> labels" where
  "MergeMaps m1 m2 = fold (\<lambda>(k, v). gm_put k v) m2 m1"

text \<open>\<open>namespaceRegex.ReplaceAllString\<close>; the name of a namespace has no \<open>$\<close>, which the replacement text of
  a regular expression would interpret.\<close>

definition substitute_ns :: "string \<Rightarrow> string \<Rightarrow> string" where
  "substitute_ns ns s = ReplaceAll s namespaceRegex ns"

definition substituteNamespaceInPVC :: "spec_obj \<Rightarrow> string \<Rightarrow> spec_obj" where
  "substituteNamespaceInPVC pvc ns = pvc\<lparr>so_Name := substitute_ns ns (so_Name pvc),
     so_Annotations := map (\<lambda>(k, v). (k, substitute_ns ns v)) (so_Annotations pvc)\<rparr>"

definition substituteNamespaceInContainers :: "Container list \<Rightarrow> string \<Rightarrow> Container list" where
  "substituteNamespaceInContainers containers ns =
     map (\<lambda>c. c\<lparr>ctr_Args := map (substitute_ns ns) (ctr_Args c)\<rparr>) containers"

definition substituteNamespaceInVolumes :: "PodVolume list \<Rightarrow> string \<Rightarrow> PodVolume list" where
  "substituteNamespaceInVolumes volumes ns =
     map (\<lambda>v. v\<lparr>pv_ClaimName := map_option (substitute_ns ns) (pv_ClaimName v)\<rparr>) volumes"

definition addLabelsToPVC :: "spec_obj \<Rightarrow> labels \<Rightarrow> spec_obj" where
  "addLabelsToPVC pvc ls = pvc\<lparr>so_Labels := MergeMaps (so_Labels pvc) ls\<rparr>"

definition addAnnotationsToPVC :: "spec_obj \<Rightarrow> labels \<Rightarrow> spec_obj" where
  "addAnnotationsToPVC pvc as = pvc\<lparr>so_Annotations := MergeMaps (so_Annotations pvc) as\<rparr>"

definition annotation_enabled :: "spec_obj \<Rightarrow> string \<Rightarrow> bool" where
  "annotation_enabled o1 key = (case map_of (so_Annotations o1) key of
     Some v \<Rightarrow> ParseBool_value v
   | None \<Rightarrow> False)"

text \<open>\<open>rotateTopologyArray\<close>, \<open>getAffinity\<close> and \<open>getLabelsFromNodeAffinity\<close>; the second panics without labels,
  the last on a requirement without values.\<close>

definition rotateTopologyArray :: "ScheduleOptions \<Rightarrow> ScheduleOptions" where
  "rotateTopologyArray options =
     (if length (opt_TopologyLabels options) > 1
      then options\<lparr>opt_TopologyLabels := tl (opt_TopologyLabels options) @ [hd (opt_TopologyLabels options)]\<rparr>
      else options)"

definition getAffinity :: "labels list \<Rightarrow> Affinity option" where
  "getAffinity topologyLabels = (case topologyLabels of
     [] \<Rightarrow> None
   | ls # _ \<Rightarrow> Some \<lparr>aff_NodeAffinity = Some \<lparr>RequiredDuringScheduling =
       Some [map (\<lambda>(key, v). \<lparr>req_Key = key, req_Operator = ''In'', req_Values = [v]\<rparr>) ls]\<rparr>\<rparr>)"

fun labels_of_reqs :: "NodeSelectorRequirement list \<Rightarrow> labels \<Rightarrow> labels option" where
  "labels_of_reqs [] label = Some label"
| "labels_of_reqs (r # rs) label = (case req_Values r of
     [] \<Rightarrow> None
   | v # _ \<Rightarrow> labels_of_reqs rs (gm_put (req_Key r) v label))"

fun labels_of_terms :: "NodeSelectorRequirement list list \<Rightarrow> labels \<Rightarrow> labels option" where
  "labels_of_terms [] label = Some label"
| "labels_of_terms (t # ts) label = (case labels_of_reqs t label of
     None \<Rightarrow> None
   | Some label' \<Rightarrow> labels_of_terms ts label')"

definition getLabelsFromNodeAffinity :: "NodeAffinity \<Rightarrow> labels option" where
  "getLabelsFromNodeAffinity nodeAffSpec = (case RequiredDuringScheduling nodeAffSpec of
     None \<Rightarrow> Some []
   | Some nodeSelTerms \<Rightarrow> labels_of_terms nodeSelTerms [])"

section \<open>Security annotations\<close>

definition isSecureEnabled :: "string \<Rightarrow> string list \<Rightarrow> bool" where
  "isSecureEnabled appName secureApps \<longleftrightarrow> list_ex (\<lambda>name. name = appName) secureApps"

text \<open>The two annotations that most types get, one for each key of the config map that is present.\<close>

definition secret_annotations :: "labels \<Rightarrow> labels \<Rightarrow> labels" where
  "secret_annotations data as =
     (let as1 = (if gm_has data secretNameKey then gm_put secretName (gm_index [] data secretNameKey) as else as)
      in (if gm_has data secretNamespaceKey
          then gm_put secretNamespace (gm_index [] data secretNamespaceKey) as1 else as1))"

definition put_names :: "string list \<Rightarrow> string \<Rightarrow> labels \<Rightarrow> labels" where
  "put_names keys v ps = fold (\<lambda>k. gm_put k v) keys ps"

definition csi_name_keys :: "string list" where
  "csi_name_keys = [CsiProvisionerSecretName, CsiNodePublishSecretName, CsiControllerExpandSecretName]"

definition csi_namespace_keys :: "string list" where
  "csi_namespace_keys =
     [CsiProvisionerSecretNamespace, CsiNodePublishSecretNamespace, CsiControllerExpandSecretNamespace]"

definition setSecureParams :: "string \<Rightarrow> labels \<Rightarrow> bool \<Rightarrow> labels \<Rightarrow> labels" where
  "setSecureParams provisioner data isCSI params =
     (let name = gm_index [] data secretNameKey; namespace = gm_index [] data secretNamespaceKey;
          p1 = (if gm_has data encryptionKey then gm_put encryptionName ''true'' params else params);
          p2 = (if isCSI then put_names csi_namespace_keys namespace (put_names csi_name_keys name p1) else p1)
      in (if Contains_str provisioner ''pxd'' then
            (let p3 = (if gm_has data secretNameKey then put_names csi_name_keys name p2 else p2)
             in (if gm_has data secretNamespaceKey then put_names csi_namespace_keys namespace p3 else p3))
          else secret_annotations data p2))"

definition annotated_types :: "spec_type list" where
  "annotated_types = [VolumeSnapshot, ApplicationBackup, ApplicationClone, ApplicationRestore, Migration,
     MigrationSchedule, VolumeSnapshotRestore, GroupVolumeSnapshot, ClusterPair]"

definition addSecurityAnnotation ::
  "K8s \<Rightarrow> string \<Rightarrow> labels \<Rightarrow> app_spec \<Rightarrow> spec_obj \<Rightarrow> spec_obj" where
  "addSecurityAnnotation k provisioner data app obj =
     (if so_type obj = StorageClass then
        (if k_secretConfigMapName k \<noteq> [] \<and>
            (k_secureApps k = [] \<or> isSecureEnabled (app_Key app) (k_secureApps k))
         then obj\<lparr>so_Class := (so_Class obj)\<lparr>sc_Parameters :=
                setSecureParams provisioner data (IsCSI app) (sc_Parameters (so_Class obj))\<rparr>\<rparr>
         else obj)
      else if so_type obj = PersistentVolumeClaim then
        (if IsCSI app then obj
         else obj\<lparr>so_Annotations := secret_annotations data (so_Annotations obj)\<rparr>)
      else if so_type obj = StatefulSet then
        obj\<lparr>so_Claims := map (secret_annotations data) (so_Claims obj)\<rparr>
      else if so_type obj \<in> set annotated_types then
        obj\<lparr>so_Annotations := secret_annotations data (so_Annotations obj)\<rparr>
      else obj)"

text \<open>The block that the creation functions start with when the driver runs with authorization.\<close>

definition annotate_spec :: "K8s \<Rightarrow> 'x k8s_api \<Rightarrow> ptr \<Rightarrow> app_spec \<Rightarrow> ('x k8s_world, unit) io" where
  "annotate_spec k api spec app =
     (if k_secretConfigMapName k = [] then io_return ()
      else io_bind
        (io_catch (obj_call ConfigMap (api_Get api ConfigMap (k_secretConfigMapName k) ''default''))
          (\<lambda>err. io_error (SchedErr (ErrFailedToGetConfigMap (k_secretConfigMapName k)
             (''Failed to get config map: Err: '' @ Error_str err)))))
        (\<lambda>configMap. mutate spec (addSecurityAnnotation k (api_StorageProvisioner api) (so_Data configMap) app)))"

section \<open>Creating one object\<close>

text \<open>
  \<open>create_or_get\<close> is the pattern of most creation functions: an object that exists already is read, and an
  error of the read replaces the first. Where the code declares new variables for the read, its error is
  dropped: \<open>create_or_find\<close>. The object returned becomes a new spec object, with the field \<open>Kind\<close> set where the
  code works around the client library leaving it empty.
\<close>

definition create_or_get ::
  "'x k8s_api \<Rightarrow> spec_type \<Rightarrow> spec_obj \<Rightarrow> string \<Rightarrow> ('x k8s_world, spec_obj) io" where
  "create_or_get api t obj namespace =
     io_catch (obj_call t (api_Create api t obj))
       (\<lambda>err. if api_IsAlreadyExists api err then obj_call t (api_Get api t (so_Name obj) namespace)
              else io_error err)"

definition create_or_find ::
  "'x k8s_api \<Rightarrow> spec_type \<Rightarrow> spec_obj \<Rightarrow> string \<Rightarrow> ('x k8s_world, spec_obj) io" where
  "create_or_find api t obj namespace =
     io_catch (obj_call t (api_Create api t obj))
       (\<lambda>err. if api_IsAlreadyExists api err
              then io_catch (obj_call t (api_Get api t (so_Name obj) namespace)) (\<lambda>_. io_error err)
              else io_error err)"

definition new_spec :: "string \<Rightarrow> spec_obj \<Rightarrow> ('x k8s_world, ptr option) io" where
  "new_spec kind o1 =
     io_bind (alloc (if kind = [] then o1 else o1\<lparr>so_Kind := kind\<rparr>)) (\<lambda>p. io_return (Some p))"

definition failing_with :: "('w, 'a) io \<Rightarrow> (string \<Rightarrow> go_error) \<Rightarrow> ('w, 'a) io" where
  "failing_with m e = io_catch m (\<lambda>err. io_error (e (Error_str err)))"

definition schedule_error :: "app_spec \<Rightarrow> string \<Rightarrow> spec_obj \<Rightarrow> string \<Rightarrow> go_error" where
  "schedule_error app what obj err = app_error app ErrFailedToScheduleApp (what @ so_Name obj @ ''. Err: '' @ err)"

definition schedule_error_comma :: "app_spec \<Rightarrow> string \<Rightarrow> spec_obj \<Rightarrow> string \<Rightarrow> go_error" where
  "schedule_error_comma app what obj err =
     app_error app ErrFailedToScheduleApp (what @ so_Name obj @ '', Err: '' @ err)"

definition create_spec ::
  "'x k8s_api \<Rightarrow> app_spec \<Rightarrow> spec_type \<Rightarrow> string \<Rightarrow> string \<Rightarrow> spec_obj \<Rightarrow> string \<Rightarrow> ('x k8s_world, ptr option) io"
  where
  "create_spec api app t what kind obj namespace =
     io_bind (failing_with (create_or_get api t obj namespace) (schedule_error app what obj)) (new_spec kind)"

text \<open>The functions that do not look for an existing object.\<close>

definition create_only ::
  "'x k8s_api \<Rightarrow> app_spec \<Rightarrow> spec_type \<Rightarrow> string \<Rightarrow> spec_obj \<Rightarrow> ('x k8s_world, ptr option) io" where
  "create_only api app t what obj =
     io_bind (failing_with (obj_call t (api_Create api t obj)) (schedule_error app what obj)) (new_spec [])"

text \<open>\<open>obj.Namespace = ns.Name\<close>, and the object after it.\<close>

definition set_namespace :: "ptr \<Rightarrow> string \<Rightarrow> ('x k8s_world, spec_obj) io" where
  "set_namespace spec ns = io_bind (mutate spec (\<lambda>o1. o1\<lparr>so_Namespace := ns\<rparr>)) (\<lambda>_. deref spec)"

definition set_namespace_unless :: "(string \<Rightarrow> bool) \<Rightarrow> ptr \<Rightarrow> string \<Rightarrow> ('x k8s_world, spec_obj) io" where
  "set_namespace_unless keep spec ns =
     io_bind (mutate spec (\<lambda>o1. if keep (so_Namespace o1) then o1 else o1\<lparr>so_Namespace := ns\<rparr>)) (\<lambda>_. deref spec)"

end
