(* ===== verification/K8sCreate.thy ===== *)
theory K8sCreate
  imports K8sSpecs
begin

text \<open>
  How the Kubernetes scheduler creates the objects of an application (\<open>k8s.go\<close>): the fifteen creation
  functions, each for the types of one API group, and \<open>CreateSpecObjects\<close>, which runs them phase by
  phase over the spec list and retries each object. A creation function returns the address of the new
  object, or \<open>None\<close> (a nil interface) for a type that is not its own.
\<close>

section \<open>Namespaces\<close>

text \<open>\<open>metadata := defaultTorpedoLabel\<close> is an alias of the package variable: the labels of the namespace
  stay in it.\<close>

definition createNamespace ::
  "'x k8s_api \<Rightarrow> app_spec \<Rightarrow> string \<Rightarrow> ScheduleOptions \<Rightarrow> ('x k8s_world, spec_obj) io" where
  "createNamespace api app namespace options =
     io_poll (clock api)
       (io_bind (io_modify (\<lambda>w. w\<lparr>wd_label := MergeMaps (gm_put ''app'' (app_Key app) (wd_label w)) (opt_Labels options)\<rparr>)) (\<lambda>_.
        io_bind (io_gets wd_label) (\<lambda>metadata.
        failing_with
          (create_or_get api Namespace ((new_obj Namespace namespace [])\<lparr>so_Labels := metadata\<rparr>) [])
          (\<lambda>err. app_error app ErrFailedToScheduleApp
             (''Failed to create namespace: '' @ namespace @ ''. Err: '' @ err)))))
       k8sObjectCreateTimeout k8s_DefaultRetryInterval"

section \<open>Autopilot rules\<close>

text \<open>The selectors of the rule are arguments of the call that creates it.\<close>

definition CreateAutopilotRule ::
  "'x k8s_api \<Rightarrow> AutopilotRule \<Rightarrow> labels \<Rightarrow> ('x k8s_world, AutopilotRule option) io" where
  "CreateAutopilotRule api apRule namespaceSelector =
     io_poll (clock api)
       (io_bind (io_gets wd_label) (\<lambda>labels.
        io_bind (io_try (ext_call (api_CreateRule api apRule labels namespaceSelector))) (\<lambda>r. (case r of
          Inr aRule \<Rightarrow> io_return (Some aRule)
        | Inl err \<Rightarrow>
            (if api_IsAlreadyExists api err
             then io_catch
               (io_bind (ext_call (api_GetRule api (rule_Name apRule))) (\<lambda>_. io_return None))
               (\<lambda>_. io_error (Errorf (''failed to create autopilot rule: '' @ rule_Name apRule @ ''. Err: '' @ Error_str err)))
             else io_error (Errorf (''failed to create autopilot rule: '' @ rule_Name apRule @ ''. Err: '' @ Error_str err)))))))
       k8sObjectCreateTimeout k8s_DefaultRetryInterval"

section \<open>Storage objects\<close>

text \<open>The volume placement strategies of the applications whose key names one.\<close>

definition apply_vps :: "'x k8s_api \<Rightarrow> string \<Rightarrow> string \<Rightarrow> string \<Rightarrow> ('x k8s_world, unit) io" where
  "apply_vps api key word path =
     (if Contains_str key word then
        io_bind (io_gets (\<lambda>w. api_NotExist api path (wd_ext w))) (\<lambda>missing.
          if missing then io_return ()
          else io_catch (ext_call (api_Kubectl api [''apply'', ''-f'', path])) (\<lambda>_. io_return ()))
      else io_return ())"

definition storage_provisioner :: "'x k8s_api \<Rightarrow> app_spec \<Rightarrow> ScheduleOptions \<Rightarrow> string \<Rightarrow> string" where
  "storage_provisioner api app options provisioner =
     (if provisioner = StorkSnapshot then provisioner
      else if api_StorageProvisioner api \<noteq> PortworxStrict \<and>
              (opt_StorageProvisioner options = DefaultStorageProvisioner \<or>
               opt_StorageProvisioner options = CSIStorageProvisioner)
      then (if IsCSI app then CsiProvisioner else api_StorageProvisioner api)
      else provisioner)"

text \<open>The settings for Pure volumes, in the order of the code.\<close>

definition pure_parameters :: "K8s \<Rightarrow> ScheduleOptions \<Rightarrow> StorageClassSpec \<Rightarrow> StorageClassSpec" where
  "pure_parameters k options sc =
     (let p1 = (if k_PureSANType k = ''NVMEOF-RDMA''
                then gm_del ''max_bandwidth'' (gm_del ''max_iops'' (sc_Parameters sc)) else sc_Parameters sc);
          block = (map_of p1 ''backend'' = Some ''pure_block'');
          p2 = (if k_PureFADAPod k \<noteq> [] \<and> block then gm_put ''pure_fa_pod_name'' (k_PureFADAPod k) p1 else p1);
          p3 = (if opt_PureFAPodName options \<noteq> [] \<and> block
                then gm_put ''pure_fa_pod_name'' (opt_PureFAPodName options) p2 else p2)
      in sc\<lparr>sc_Parameters := p3,
            sc_VolumeBindingMode := (if k_RunCSISnapshotAndRestoreManyTest k then Some ''Immediate''
                                     else sc_VolumeBindingMode sc)\<rparr>)"

definition prepare_class ::
  "K8s \<Rightarrow> 'x k8s_api \<Rightarrow> string \<Rightarrow> app_spec \<Rightarrow> ScheduleOptions \<Rightarrow> spec_obj \<Rightarrow> spec_obj" where
  "prepare_class k api ns app options obj =
     (let sc = (so_Class obj)\<lparr>sc_Provisioner :=
                 storage_provisioner api app options (sc_Provisioner (so_Class obj))\<rparr>
      in obj\<lparr>so_Namespace := ns, so_Class := (if k_PureVolumes k then pure_parameters k options sc else sc)\<rparr>)"

text \<open>What happens to the spec of a claim before it is created.\<close>

definition is_cloned :: "spec_obj \<Rightarrow> bool" where
  "is_cloned obj \<longleftrightarrow> map_of (so_Annotations obj) ''pvc.source'' = Some ''cloned''"

definition prepare_pvc :: "string \<Rightarrow> ScheduleOptions \<Rightarrow> spec_obj \<Rightarrow> spec_obj" where
  "prepare_pvc ns options obj =
     (let o1 = (if is_cloned obj then obj else substituteNamespaceInPVC (obj\<lparr>so_Namespace := ns\<rparr>) ns);
          o2 = (if annotation_enabled o1 pvcLabelsAnnotationKey \<and> opt_Labels options \<noteq> []
                then addLabelsToPVC o1 (opt_Labels options) else o1)
      in (if annotation_enabled o2 pvcNodesAnnotationKey \<and> opt_PvcNodesAnnotation options \<noteq> []
          then addAnnotationsToPVC o2 [(''nodes'', Join (opt_PvcNodesAnnotation options) '','')] else o2))"

text \<open>The copy that is created: a positive size in the options overrides the request of a claim under
  autopilot. The decimal text of an integer is always a valid quantity.\<close>

definition sized_pvc :: "ScheduleOptions \<Rightarrow> spec_obj \<Rightarrow> spec_obj" where
  "sized_pvc options obj =
     (if opt_PvcSize options > 0 \<and> annotation_enabled obj autopilotEnabledAnnotationKey
      then obj\<lparr>so_Claim := (so_Claim obj)\<lparr>cl_Request := opt_PvcSize options\<rparr>\<rparr> else obj)"

text \<open>A call whose pointer and error the code looks at, and an access through such a pointer.\<close>

definition raw_call :: "spec_type \<Rightarrow> 'x obj_call \<Rightarrow> ('x k8s_world, spec_obj option \<times> go_error option) io" where
  "raw_call t f w = (case f (wd_ext w) of ((p, err), x) \<Rightarrow>
     Some (Inr (map_option (\<lambda>o1. o1\<lparr>so_type := t\<rparr>) p, err), w\<lparr>wd_ext := x\<rparr>))"

definition through :: "spec_obj option \<Rightarrow> (spec_obj \<Rightarrow> ('w, 'a) io) \<Rightarrow> ('w, 'a) io" where
  "through p f = (case p of None \<Rightarrow> io_panic | Some o1 \<Rightarrow> f o1)"

text \<open>The wait for the import of an image into a claim; the error of the read is not looked at. It returns
  the claim of the last attempt.\<close>

definition import_attempt ::
  "'x k8s_api \<Rightarrow> string \<Rightarrow> string \<Rightarrow> string \<Rightarrow> ('x k8s_world, spec_obj) io" where
  "import_attempt api name namespace forwhat =
     io_bind (raw_call PersistentVolumeClaim (api_Get api PersistentVolumeClaim name namespace)) (\<lambda>(p, _).
       through p (\<lambda>pvc. (case map_of (so_Annotations pvc) cdiPvcRunningMessageAnnotationKey of
         Some message \<Rightarrow>
           (if message = cdiImportComplete then io_return pvc
            else io_error (Errorf (''waiting for annotation ['' @ cdiPvcRunningMessageAnnotationKey @ ''] in pvc ['' @ name @
              ''] in namespace ['' @ namespace @ '']'' @ forwhat @ '' to be '' @ cdiImportComplete @ '', but got '' @ message)))
       | None \<Rightarrow> io_error (Errorf (''annotation ['' @ cdiPvcRunningMessageAnnotationKey @ ''] not found in pvc ['' @ name @
              ''] in namespace ['' @ namespace @ '']'' @ forwhat)))))"

definition wait_import ::
  "'x k8s_api \<Rightarrow> string \<Rightarrow> string \<Rightarrow> string \<Rightarrow> ('x k8s_world, spec_obj) io" where
  "wait_import api name namespace forwhat =
     io_poll (clock api) (import_attempt api name namespace forwhat) cdiImageImportTimeout cdiImageImportRetry"

text \<open>The rule that the options ask for, with the labels of the options as its selectors.\<close>

definition create_rule_of_options ::
  "'x k8s_api \<Rightarrow> ScheduleOptions \<Rightarrow> spec_obj \<Rightarrow> ('x k8s_world, unit) io" where
  "create_rule_of_options api options pvc =
     (if annotation_enabled pvc autopilotEnabledAnnotationKey \<and> rule_Name (opt_AutopilotRule options) \<noteq> []
      then io_bind (CreateAutopilotRule api
             ((opt_AutopilotRule options)\<lparr>rule_MatchLabels := opt_Labels options\<rparr>) (opt_Labels options)) (\<lambda>_. io_return ())
      else io_return ())"

definition created_pvc ::
  "'x k8s_api \<Rightarrow> ScheduleOptions \<Rightarrow> spec_obj \<Rightarrow> ('x k8s_world, ptr option) io" where
  "created_pvc api options pvc =
     io_bind (create_rule_of_options api options pvc) (\<lambda>_. new_spec ''PersistentVolumeClaim'' pvc)"

definition settle_pvc ::
  "'x k8s_api \<Rightarrow> app_spec \<Rightarrow> ScheduleOptions \<Rightarrow> spec_obj \<Rightarrow> spec_obj option \<Rightarrow> go_error option
     \<Rightarrow> ('x k8s_world, ptr option) io" where
  "settle_pvc api app options newPvcObj pvc err = (case err of
     Some e \<Rightarrow> io_error (schedule_error app ''Failed to create PVC: '' newPvcObj (Error_str e))
   | None \<Rightarrow> through pvc (created_pvc api options))"

text \<open>For a cloned claim the code reads the annotations of the result before it looks at the error, and a
  wait that succeeds replaces the error.\<close>

definition finish_pvc ::
  "'x k8s_api \<Rightarrow> app_spec \<Rightarrow> ScheduleOptions \<Rightarrow> bool \<Rightarrow> spec_obj \<Rightarrow> spec_obj option \<Rightarrow> go_error option
     \<Rightarrow> ('x k8s_world, ptr option) io" where
  "finish_pvc api app options cloned newPvcObj pvc err =
     (if cloned then
        through pvc (\<lambda>o1.
          if gm_index [] (so_Annotations o1) cdiPvcImportEndpointAnnotationKey \<noteq> []
          then io_bind (wait_import api (so_Name newPvcObj) (so_Namespace newPvcObj) []) (created_pvc api options)
          else settle_pvc api app options newPvcObj pvc err)
      else settle_pvc api app options newPvcObj pvc err)"

definition create_pvc ::
  "'x k8s_api \<Rightarrow> app_spec \<Rightarrow> ScheduleOptions \<Rightarrow> bool \<Rightarrow> spec_obj \<Rightarrow> ('x k8s_world, ptr option) io" where
  "create_pvc api app options cloned newPvcObj =
     io_bind (raw_call PersistentVolumeClaim (api_Create api PersistentVolumeClaim newPvcObj)) (\<lambda>(pvc, err).
       if err \<noteq> None \<and> api_IsAlreadyExists api (the err) then
         io_bind (raw_call PersistentVolumeClaim (api_Get api PersistentVolumeClaim (so_Name newPvcObj) (so_Namespace newPvcObj))) (\<lambda>(pvc', err').
           if err' = None then through pvc' (new_spec ''PersistentVolumeClaim'')
           else finish_pvc api app options cloned newPvcObj pvc' err')
       else finish_pvc api app options cloned newPvcObj pvc err)"

definition createStorageObject ::
  "K8s \<Rightarrow> 'x k8s_api \<Rightarrow> ptr \<Rightarrow> string \<Rightarrow> app_spec \<Rightarrow> ScheduleOptions \<Rightarrow> ('x k8s_world, ptr option) io" where
  "createStorageObject k api spec ns app options =
     io_bind (annotate_spec k api spec app) (\<lambda>_.
     io_bind (apply_vps api (app_Key app) ''fastpath'' ''/torpedo/deployments/customconfigs/fastpath-vps.yaml'') (\<lambda>_.
     io_bind (apply_vps api (app_Key app) ''repl-vps'' ''/torpedo/deployments/customconfigs/repl-vps.yaml'') (\<lambda>_.
     io_bind (deref spec) (\<lambda>obj.
       if so_type obj = StorageClass then
         io_bind (mutate spec (prepare_class k api ns app options)) (\<lambda>_.
         io_bind (deref spec) (\<lambda>sc.
           create_spec api app StorageClass ''Failed to create storage class: '' ''StorageClass'' sc []))
       else if so_type obj = PersistentVolumeClaim then
         io_bind (mutate spec (prepare_pvc ns options)) (\<lambda>_.
         io_bind (deref spec) (\<lambda>pvc. create_pvc api app options (is_cloned obj) (sized_pvc options pvc)))
       else if so_type obj = VolumeSnapshot then
         io_bind (set_namespace spec ns) (\<lambda>snap.
           create_spec api app VolumeSnapshot ''Failed to create Snapshot: '' ''VolumeSnapshot'' snap ns)
       else if so_type obj = GroupVolumeSnapshot then
         io_bind (set_namespace spec ns) (\<lambda>snap.
           create_spec api app GroupVolumeSnapshot ''Failed to create group snapshot: '' [] snap ns)
       else if so_type obj = PersistentVolume then
         (if so_ClaimRef obj = None then io_panic
          else io_bind (mutate spec (\<lambda>o1. o1\<lparr>so_ClaimRef := Some ns\<rparr>)) (\<lambda>_.
               io_bind (deref spec) (\<lambda>pv.
                 create_spec api app PersistentVolume ''Failed to create PersistentVolume: '' [] pv [])))
       else io_return None))))"

definition createVolumeSnapshotRestore ::
  "K8s \<Rightarrow> 'x k8s_api \<Rightarrow> ptr \<Rightarrow> string \<Rightarrow> app_spec \<Rightarrow> ('x k8s_world, ptr option) io" where
  "createVolumeSnapshotRestore k api spec ns app =
     io_bind (annotate_spec k api spec app) (\<lambda>_.
     io_bind (deref spec) (\<lambda>obj.
       if so_type obj = VolumeSnapshotRestore then
         io_bind (set_namespace spec ns)
           (create_only api app VolumeSnapshotRestore ''Failed to create VolumeSnapshotRestore: '')
       else io_return None))"

section \<open>Core objects\<close>

definition createDockerRegistrySecret ::
  "'x k8s_api \<Rightarrow> string \<Rightarrow> string \<Rightarrow> ('x k8s_world, string option) io" where
  "createDockerRegistrySecret api name namespace =
     (let server = api_Getenv api ''IMAGE_PULL_SERVER''; user = api_Getenv api ''IMAGE_PULL_USERNAME'';
          password = api_Getenv api ''IMAGE_PULL_PASSWORD''
      in (if server \<noteq> [] \<and> user \<noteq> [] \<and> password \<noteq> [] then
            io_bind
              (failing_with
                (create_or_get api Secret ((new_obj Secret name namespace)\<lparr>so_Data :=
                   [(''.dockerconfigjson'', api_DockerConfig api server user password)]\<rparr>) namespace)
                (\<lambda>err. Errorf (''failed to create Docker registry secret: '' @ name @ '' in namespace: '' @ namespace @
                   '' . Err: '' @ err)))
              (\<lambda>secret. io_return (Some (so_Name secret)))
          else io_return None))"

definition createVaultSecret :: "K8s \<Rightarrow> 'x k8s_api \<Rightarrow> spec_obj \<Rightarrow> ('x k8s_world, unit) io" where
  "createVaultSecret k api obj =
     io_bind (ext_call (api_VaultNewClient api)) (\<lambda>_.
     io_bind (ext_call (api_VaultSetAddress api (k_VaultAddress k))) (\<lambda>_.
       ext_call (api_VaultWrite api (k_VaultToken k) (''secret/'' @ so_Name obj) (so_Data obj))))"

definition NodeType :: string where "NodeType = ''node-type''"
definition FastpathNodeType :: string where "FastpathNodeType = ''fastpath''"

definition place_pod :: "string \<Rightarrow> ScheduleOptions \<Rightarrow> PodSpec \<Rightarrow> PodSpec" where
  "place_pod ns options ps = ps\<lparr>
     ps_Volumes := substituteNamespaceInVolumes (ps_Volumes ps) ns,
     ps_SchedulerName := (if opt_Scheduler options \<noteq> [] then opt_Scheduler options else ps_SchedulerName ps),
     ps_Affinity := (if opt_TopologyLabels options \<noteq> [] then getAffinity (opt_TopologyLabels options)
                     else ps_Affinity ps)\<rparr>"

text \<open>A deployment that asks for a fastpath node makes the first node of the storage driver one; without such
  a node the code panics. The error of the call is ignored.\<close>

definition label_fastpath :: "'x k8s_api \<Rightarrow> PodSpec \<Rightarrow> ('x k8s_world, unit) io" where
  "label_fastpath api ps = (case ps_Affinity ps of
     None \<Rightarrow> io_return ()
   | Some aff \<Rightarrow> (case aff_NodeAffinity aff of
       None \<Rightarrow> io_return ()
     | Some nodeAff \<Rightarrow> (case getLabelsFromNodeAffinity nodeAff of
         None \<Rightarrow> io_panic
       | Some labels \<Rightarrow>
           (if map_of labels NodeType = Some FastpathNodeType then
              io_bind (io_gets (\<lambda>w. GetStorageDriverNodes (wd_registry w))) (\<lambda>nodes. (case nodes of
                [] \<Rightarrow> io_panic
              | n # _ \<Rightarrow> io_catch (ext_call (api_AddLabelOnNode api (node_Name n) NodeType FastpathNodeType))
                           (\<lambda>_. io_return ())))
            else io_return ()))))"

text \<open>The image pull secret and the node selector, the last changes before the object is created.\<close>

definition finish_pod :: "ScheduleOptions \<Rightarrow> string option \<Rightarrow> PodSpec \<Rightarrow> PodSpec" where
  "finish_pod options secret ps = ps\<lparr>
     ps_ImagePullSecrets := (case secret of Some name \<Rightarrow> [name] | None \<Rightarrow> ps_ImagePullSecrets ps),
     ps_NodeSelector := (if opt_Nodes options \<noteq> [] \<and> opt_Labels options \<noteq> [] then opt_Labels options
                         else ps_NodeSelector ps)\<rparr>"

definition pull_secret ::
  "'x k8s_api \<Rightarrow> app_spec \<Rightarrow> string \<Rightarrow> string \<Rightarrow> string \<Rightarrow> spec_obj \<Rightarrow> ('x k8s_world, string option) io" where
  "pull_secret api app name ns what obj =
     failing_with (createDockerRegistrySecret api name ns)
       (schedule_error app (''Failed to create Docker registry secret for '' @ what @ '': '') obj)"

definition create_deployment ::
  "'x k8s_api \<Rightarrow> ptr \<Rightarrow> string \<Rightarrow> app_spec \<Rightarrow> ScheduleOptions \<Rightarrow> ('x k8s_world, ptr option) io" where
  "create_deployment api spec ns app options =
     io_bind (mutate spec (\<lambda>o1. o1\<lparr>so_Namespace := ns, so_Pod := place_pod ns options (so_Pod o1)\<rparr>)) (\<lambda>_.
     io_bind (deref spec) (\<lambda>obj.
     io_bind (label_fastpath api (so_Pod obj)) (\<lambda>_.
     io_bind (pull_secret api app (app_Key app) ns ''deployment'' obj) (\<lambda>secret.
     io_bind (mutate spec (\<lambda>o1. o1\<lparr>so_Pod := finish_pod options secret (so_Pod o1)\<rparr>)) (\<lambda>_.
     io_bind (deref spec) (\<lambda>dep.
       create_spec api app Deployment ''Failed to create Deployment: '' ''Deployment'' dep ns))))))"

definition create_statefulset ::
  "K8s \<Rightarrow> 'x k8s_api \<Rightarrow> ptr \<Rightarrow> string \<Rightarrow> app_spec \<Rightarrow> ScheduleOptions \<Rightarrow> ('x k8s_world, ptr option) io" where
  "create_statefulset k api spec ns app options =
     io_bind (annotate_spec k api spec app) (\<lambda>_.
     io_bind (mutate spec (\<lambda>o1. o1\<lparr>so_Namespace := ns, so_Pod := (place_pod ns options (so_Pod o1))\<lparr>ps_Containers :=
        substituteNamespaceInContainers (ps_Containers (so_Pod o1)) ns\<rparr>\<rparr>)) (\<lambda>_.
     io_bind (deref spec) (\<lambda>obj.
     io_bind (pull_secret api app (app_Key app) ns ''statefulset'' obj) (\<lambda>secret.
     io_bind (mutate spec (\<lambda>o1. o1\<lparr>so_Pod := finish_pod options secret (so_Pod o1)\<rparr>)) (\<lambda>_.
     io_bind (deref spec) (\<lambda>ss.
       create_spec api app StatefulSet ''Failed to create StatefulSet: '' ''StatefulSet'' ss ns))))))"

definition create_pod ::
  "'x k8s_api \<Rightarrow> ptr \<Rightarrow> string \<Rightarrow> app_spec \<Rightarrow> ScheduleOptions \<Rightarrow> ('x k8s_world, ptr option) io" where
  "create_pod api spec ns app options =
     io_bind (mutate spec (\<lambda>o1. o1\<lparr>so_Namespace := ns, so_Pod := (so_Pod o1)\<lparr>ps_SchedulerName :=
        (if opt_Scheduler options \<noteq> [] then opt_Scheduler options else ps_SchedulerName (so_Pod o1))\<rparr>\<rparr>)) (\<lambda>_.
     io_bind (deref spec) (\<lambda>obj.
     io_bind (pull_secret api app ns ns ''pod'' obj) (\<lambda>secret.
     io_bind (mutate spec (\<lambda>o1. o1\<lparr>so_Pod := (so_Pod o1)\<lparr>ps_ImagePullSecrets :=
        (case secret of Some name \<Rightarrow> [name] | None \<Rightarrow> ps_ImagePullSecrets (so_Pod o1))\<rparr>\<rparr>)) (\<lambda>_.
     io_bind (deref spec) (\<lambda>pod.
     io_bind (failing_with (create_or_find api Pod pod ns)
        (\<lambda>err. app_error app ErrFailedToSchedulePod (''Failed to create Pod: '' @ so_Name pod @ ''. Err: '' @ err)))
       (new_spec []))))))"

definition create_secret ::
  "K8s \<Rightarrow> 'x k8s_api \<Rightarrow> ptr \<Rightarrow> string \<Rightarrow> app_spec \<Rightarrow> ('x k8s_world, ptr option) io" where
  "create_secret k api spec ns app =
     io_bind (set_namespace spec ns) (\<lambda>obj.
     io_bind (if k_SecretType k = ''vault'' then createVaultSecret k api obj else io_return ()) (\<lambda>_.
       create_spec api app Secret ''Failed to create Secret: '' ''Secret'' obj ns))"

definition kube_system :: string where "kube_system = ''kube-system''"

definition create_rule ::
  "'x k8s_api \<Rightarrow> ptr \<Rightarrow> string \<Rightarrow> app_spec \<Rightarrow> ('x k8s_world, ptr option) io" where
  "create_rule api spec ns app =
     io_bind (set_namespace_unless (\<lambda>s. s = kube_system) spec ns) (\<lambda>rule.
     io_bind (failing_with (create_or_get api Rule rule (so_Namespace rule))
        (schedule_error_comma app ''Failed to create Rule: '' rule)) (new_spec []))"

definition createCoreObject ::
  "K8s \<Rightarrow> 'x k8s_api \<Rightarrow> ptr \<Rightarrow> string \<Rightarrow> app_spec \<Rightarrow> ScheduleOptions \<Rightarrow> ('x k8s_world, ptr option) io" where
  "createCoreObject k api spec ns app options =
     io_bind (deref spec) (\<lambda>obj.
       if so_type obj = Deployment then create_deployment api spec ns app options
       else if so_type obj = StatefulSet then create_statefulset k api spec ns app options
       else if so_type obj = Service then
         io_bind (set_namespace spec ns) (\<lambda>svc.
           create_spec api app Service ''Failed to create Service: '' ''Service'' svc ns)
       else if so_type obj = Secret then create_secret k api spec ns app
       else if so_type obj = Rule then create_rule api spec ns app
       else if so_type obj = Pod then create_pod api spec ns app options
       else if so_type obj = ConfigMap then
         io_bind (set_namespace spec ns) (\<lambda>configMap.
           create_spec api app ConfigMap ''Failed to create Config Map: '' ''ConfigMap'' configMap ns)
       else if so_type obj = Endpoints then
         io_bind (set_namespace spec ns) (\<lambda>endpoints.
           create_spec api app Endpoints ''Failed to create Endpoints: '' [] endpoints ns)
       else if so_type obj = NetworkPolicy then
         io_bind (set_namespace spec ns) (\<lambda>networkPolicy.
           create_spec api app NetworkPolicy ''Failed to create NetworkPolicy: '' [] networkPolicy ns)
       else io_return None)"

section \<open>The objects of the other groups\<close>

definition createMigrationObjects ::
  "K8s \<Rightarrow> 'x k8s_api \<Rightarrow> ptr \<Rightarrow> string \<Rightarrow> app_spec \<Rightarrow> ('x k8s_world, ptr option) io" where
  "createMigrationObjects k api spec ns app =
     io_bind (annotate_spec k api spec app) (\<lambda>_.
     io_bind (deref spec) (\<lambda>obj.
       if so_type obj = ClusterPair then
         io_bind (set_namespace spec ns) (create_only api app ClusterPair ''Failed to create ClusterPair: '')
       else if so_type obj = Migration then
         io_bind (set_namespace spec ns) (create_only api app Migration ''Failed to create Migration: '')
       else if so_type obj = MigrationSchedule then
         io_bind (set_namespace spec ns) (create_only api app MigrationSchedule ''Failed to create MigrationSchedule: '')
       else if so_type obj = SchedulePolicy then
         create_spec api app SchedulePolicy ''Failed to create SchedulePolicy: '' [] obj []
       else if so_type obj = ResourceTransformation then
         io_bind (set_namespace spec ns) (\<lambda>o1.
         io_bind (failing_with (obj_call ResourceTransformation (api_Create api ResourceTransformation o1))
            (\<lambda>err. app_error app ErrFailedToScheduleApp (''Failed to create ResourceTransformation: '' @ so_Name o1 @ ''/'' @
               so_Namespace o1 @ ''. Obj: '' @ api_Sprint api o1 @ '', Err: '' @ err)))
           (new_spec []))
       else io_return None))"

text \<open>A definition of custom resources is registered and then read; the call returns no object.\<close>

definition create_crd ::
  "'x k8s_api \<Rightarrow> spec_type \<Rightarrow> string \<Rightarrow> ptr \<Rightarrow> string \<Rightarrow> app_spec \<Rightarrow> ('x k8s_world, ptr option) io" where
  "create_crd api t what spec ns app =
     io_bind (set_namespace spec ns) (\<lambda>obj.
     io_bind (io_try (ext_call (api_Register api t obj))) (\<lambda>r. (case r of
       Inl err \<Rightarrow>
         (let failed = schedule_error app (''Failed to Register '' @ what @ '': '') obj (Error_str err)
          in (if api_IsAlreadyExists api err
              then io_bind (io_catch (obj_call t (api_Get api t (so_Name obj) [])) (\<lambda>_. io_error failed)) (new_spec [])
              else io_error failed))
     | Inr _ \<Rightarrow>
         io_bind (failing_with (obj_call t (api_Get api t (so_Name obj) []))
            (schedule_error app (''Failed to Get '' @ what @ '' after Registration: '') obj))
           (new_spec []))))"

definition createCRDObjects ::
  "'x k8s_api \<Rightarrow> ptr \<Rightarrow> string \<Rightarrow> app_spec \<Rightarrow> ('x k8s_world, ptr option) io" where
  "createCRDObjects api spec ns app =
     io_bind (deref spec) (\<lambda>obj.
       if so_type obj = CustomResourceDefinition then
         create_crd api CustomResourceDefinition ''CRD'' spec ns app
       else if so_type obj = CustomResourceDefinitionV1beta1 then
         create_crd api CustomResourceDefinitionV1beta1 ''CRDV1beta1'' spec ns app
       else io_return None)"

definition create_tekton ::
  "'x k8s_api \<Rightarrow> spec_type \<Rightarrow> string \<Rightarrow> ptr \<Rightarrow> string \<Rightarrow> app_spec \<Rightarrow> ('x k8s_world, ptr option) io" where
  "create_tekton api t what spec ns app =
     io_bind (set_namespace_unless (\<lambda>s. s = kube_system) spec ns) (\<lambda>obj.
     io_bind (failing_with (create_or_get api t obj (so_Namespace obj)) (schedule_error_comma app what obj)) (new_spec []))"

definition createTektonObjects ::
  "'x k8s_api \<Rightarrow> ptr \<Rightarrow> string \<Rightarrow> app_spec \<Rightarrow> ('x k8s_world, ptr option) io" where
  "createTektonObjects api spec ns app =
     io_bind (deref spec) (\<lambda>obj.
       if so_type obj = Task then create_tekton api Task ''Failed to create task: '' spec ns app
       else if so_type obj = Pipeline then create_tekton api Pipeline ''Failed to create pipeline: '' spec ns app
       else io_return None)"

definition createRbacObjects ::
  "'x k8s_api \<Rightarrow> ptr \<Rightarrow> string \<Rightarrow> app_spec \<Rightarrow> ('x k8s_world, ptr option) io" where
  "createRbacObjects api spec ns app =
     io_bind (deref spec) (\<lambda>obj.
       if so_type obj = Role then
         io_bind (set_namespace spec ns) (\<lambda>role. create_spec api app Role ''Failed to create Role: '' [] role ns)
       else if so_type obj = RoleBinding then
         io_bind (set_namespace spec ns) (\<lambda>rb. create_spec api app RoleBinding ''Failed to create Role Binding: '' [] rb ns)
       else if so_type obj = ClusterRole then
         io_bind (set_namespace spec ns) (\<lambda>cr. create_spec api app ClusterRole ''Failed to create Cluster Role: '' [] cr [])
       else if so_type obj = ClusterRoleBinding then
         io_bind (mutate spec (\<lambda>o1. o1\<lparr>so_Namespace := ns, so_Subjects :=
            map (\<lambda>(kind, n). (kind, if kind = ''ServiceAccount'' then ns else n)) (so_Subjects o1)\<rparr>)) (\<lambda>_.
         io_bind (deref spec) (\<lambda>crb.
           create_spec api app ClusterRoleBinding ''Failed to create Cluster Role Binding: '' [] crb []))
       else if so_type obj = ServiceAccount then
         io_bind (set_namespace spec ns) (\<lambda>sa. create_spec api app ServiceAccount ''Failed to create Service Account: '' [] sa ns)
       else io_return None)"

definition createBackupObjects ::
  "'x k8s_api \<Rightarrow> ptr \<Rightarrow> string \<Rightarrow> app_spec \<Rightarrow> ('x k8s_world, ptr option) io" where
  "createBackupObjects api spec ns app =
     io_bind (deref spec) (\<lambda>obj.
       if so_type obj = BackupLocation then
         io_bind (set_namespace spec ns) (create_only api app BackupLocation ''Failed to create BackupLocation: '')
       else if so_type obj = ApplicationBackup then
         io_bind (set_namespace spec ns) (create_only api app ApplicationBackup ''Failed to create ApplicationBackup: '')
       else if so_type obj = ApplicationRestore then
         io_bind (set_namespace spec ns) (create_only api app ApplicationRestore ''Failed to create ApplicationRestore: '')
       else if so_type obj = ApplicationClone then
         create_only api app ApplicationClone ''Failed to create ApplicationClone: '' obj
       else io_return None)"

definition createNetworkingObjects ::
  "'x k8s_api \<Rightarrow> ptr \<Rightarrow> string \<Rightarrow> app_spec \<Rightarrow> ('x k8s_world, ptr option) io" where
  "createNetworkingObjects api spec ns app =
     io_bind (deref spec) (\<lambda>obj.
       if so_type obj = Ingress then
         io_bind (set_namespace spec ns) (\<lambda>o1. create_spec api app Ingress ''Failed to create Ingress: '' [] o1 ns)
       else io_return None)"

definition createBatchObjects ::
  "'x k8s_api \<Rightarrow> ptr \<Rightarrow> string \<Rightarrow> app_spec \<Rightarrow> ('x k8s_world, ptr option) io" where
  "createBatchObjects api spec ns app =
     io_bind (deref spec) (\<lambda>obj.
       if so_type obj = CronJob then
         io_bind (set_namespace spec ns) (\<lambda>o1. create_spec api app CronJob ''Failed to create CronJob: '' [] o1 ns)
       else if so_type obj = Job then
         io_bind (set_namespace spec ns) (\<lambda>o1. create_spec api app Job ''Failed to create Job: '' [] o1 ns)
       else io_return None)"

definition createServiceMonitorObjects ::
  "'x k8s_api \<Rightarrow> ptr \<Rightarrow> string \<Rightarrow> app_spec \<Rightarrow> ('x k8s_world, ptr option) io" where
  "createServiceMonitorObjects api spec ns app =
     io_bind (deref spec) (\<lambda>obj.
       if so_type obj = ServiceMonitor then
         io_bind (set_namespace_unless (\<lambda>s. s \<noteq> []) spec ns) (\<lambda>o1.
           create_spec api app ServiceMonitor ''Failed to create ServiceMonitor: '' [] o1 (so_Namespace o1))
       else io_return None)"

definition createPodDisruptionBudgetObjects ::
  "'x k8s_api \<Rightarrow> ptr \<Rightarrow> string \<Rightarrow> app_spec \<Rightarrow> ('x k8s_world, ptr option) io" where
  "createPodDisruptionBudgetObjects api spec ns app =
     io_bind (deref spec) (\<lambda>obj.
       if so_type obj = PodDisruptionBudget then
         io_bind (set_namespace_unless (\<lambda>s. s \<noteq> []) spec ns) (\<lambda>o1.
           create_spec api app PodDisruptionBudget ''Failed to create PodDisruptionBudget: '' [] o1 (so_Namespace o1))
       else io_return None)"

definition create_webhooks ::
  "'x k8s_api \<Rightarrow> spec_type \<Rightarrow> ptr \<Rightarrow> string \<Rightarrow> app_spec \<Rightarrow> ('x k8s_world, ptr option) io" where
  "create_webhooks api t spec ns app =
     io_bind (set_namespace spec ns) (\<lambda>o1.
       if list_ex (\<lambda>s. s = None) (so_HookNamespaces o1) then io_panic
       else io_bind (mutate spec (\<lambda>o2. o2\<lparr>so_HookNamespaces := map (\<lambda>_. Some ns) (so_HookNamespaces o2)\<rparr>)) (\<lambda>_.
            io_bind (deref spec) (\<lambda>obj.
            io_bind (failing_with (create_or_find api t obj [])
               (schedule_error app ''Failed to Create ValidatingWebhookConfiguration: '' obj))
              (new_spec []))))"

definition createAdmissionRegistrationObjects ::
  "K8s \<Rightarrow> 'x k8s_api \<Rightarrow> ptr \<Rightarrow> string \<Rightarrow> app_spec \<Rightarrow> ('x k8s_world, ptr option) io" where
  "createAdmissionRegistrationObjects k api spec ns app =
     io_bind (annotate_spec k api spec app) (\<lambda>_.
     io_bind (deref spec) (\<lambda>obj.
       if so_type obj = ValidatingWebhookConfiguration then
         create_webhooks api ValidatingWebhookConfiguration spec ns app
       else if so_type obj = ValidatingWebhookConfigurationV1beta1 then
         create_webhooks api ValidatingWebhookConfigurationV1beta1 spec ns app
       else io_return None))"

text \<open>A custom resource is applied with \<open>kubectl\<close>, and the spec itself becomes the object.\<close>

definition createCustomResourceObjects ::
  "'x k8s_api \<Rightarrow> ptr \<Rightarrow> string \<Rightarrow> app_spec \<Rightarrow> ('x k8s_world, ptr option) io" where
  "createCustomResourceObjects api spec ns app =
     io_bind (deref spec) (\<lambda>obj.
       if so_type obj = CustomResourceObjectYAML then
         io_bind (io_gets (\<lambda>w. api_NotExist api (so_Path obj) (wd_ext w))) (\<lambda>missing.
           if missing then io_error (Errorf (''Cannot find yaml in path '' @ so_Path obj))
           else io_bind
             (failing_with (ext_call (api_Kubectl api [''apply'', ''-f'', so_Path obj, ''-n'', ns]))
               (\<lambda>err. Errorf (''Error applying spec ['' @ so_Path obj @ ''], Error: '' @ err)))
             (\<lambda>_. io_bind (mutate spec (\<lambda>o1. o1\<lparr>so_Namespace := ns, so_Name := ''placeholder''\<rparr>))
                    (\<lambda>_. io_return (Some spec))))
       else io_return None)"

section \<open>Virtual machines\<close>

definition WaitForImageImportForVM ::
  "'x k8s_api \<Rightarrow> string \<Rightarrow> string \<Rightarrow> string option \<Rightarrow> ('x k8s_world, unit) io" where
  "WaitForImageImportForVM api vmName namespace claim = (case claim of
     None \<Rightarrow> io_return ()
   | Some pvcName \<Rightarrow>
       io_bind (obj_call PersistentVolumeClaim (api_Get api PersistentVolumeClaim pvcName namespace)) (\<lambda>pvc.
         if gm_index [] (so_Annotations pvc) cdiPvcImportEndpointAnnotationKey \<noteq> []
         then io_bind (wait_import api pvcName namespace ('' for virtual machine ['' @ vmName @ '']'')) (\<lambda>_. io_return ())
         else io_return ()))"

definition clone_attempt :: "'x k8s_api \<Rightarrow> string \<Rightarrow> string \<Rightarrow> ('x k8s_world, unit) io" where
  "clone_attempt api namespace pvcName =
     io_bind (obj_call PersistentVolumeClaim (api_Get api PersistentVolumeClaim pvcName namespace)) (\<lambda>pvc.
       if map_of (so_Annotations pvc) ''cdi.kubevirt.io/storage.condition.source.running.message'' = Some ''Clone Complete''
       then io_return ()
       else io_error (Errorf (''waiting for clone operation to succeed for PVC ['' @ pvcName @ ''] in namespace ['' @ namespace @
              ''], current phase: '' @ gm_index [] (so_Annotations pvc) ''cdi.kubevirt.io/clonePhase'')))"

definition WaitForCloneToSucceed :: "'x k8s_api \<Rightarrow> string \<Rightarrow> string \<Rightarrow> ('x k8s_world, unit) io" where
  "WaitForCloneToSucceed api namespace pvcName =
     io_poll (clock api) (clone_attempt api namespace pvcName) cdiImageImportTimeout cdiImageImportRetry"

text \<open>The last wait of a cloned machine: each attempt assigns the variable that is returned in the end, here
  the cell \<open>vm\<close>, and the error of the wait is dropped. An attempt whose call returns a nil pointer
  leaves the cell as it is.\<close>

definition ready_attempt :: "'x k8s_api \<Rightarrow> spec_obj \<Rightarrow> ptr \<Rightarrow> ('x k8s_world, unit) io" where
  "ready_attempt api obj vm =
     io_bind (raw_call VirtualMachine (api_Get api VirtualMachine (so_Name obj) (so_Namespace obj))) (\<lambda>(p, err).
     io_bind (case p of Some o1 \<Rightarrow> mutate vm (\<lambda>_. o1) | None \<Rightarrow> io_return ()) (\<lambda>_. (case err of
       Some e \<Rightarrow> io_error e
     | None \<Rightarrow> through p (\<lambda>o1. if so_Ready o1 then io_return ()
         else io_error (Errorf (''waiting for VM ['' @ so_Name obj @ ''] in namespace ['' @ so_Namespace obj @ ''] to be ready''))))))"

definition wait_cloned_vm ::
  "'x k8s_api \<Rightarrow> string \<Rightarrow> spec_obj \<Rightarrow> ('x k8s_world, ptr option) io" where
  "wait_cloned_vm api ns obj =
     io_bind (io_foreach (WaitForCloneToSucceed api ns) (so_DataVolumes obj)) (\<lambda>_.
     io_bind (io_modify (\<lambda>w. w\<lparr>wd_ext := api_Sleep api (30 * second_ns) (wd_ext w)\<rparr>)) (\<lambda>_.
     io_bind (failing_with (obj_call VirtualMachine (api_Get api VirtualMachine (so_Name obj) (so_Namespace obj)))
        (\<lambda>err. Errorf (''failed to retrieve VM after creating/waiting for DataVolumes: '' @ err))) (\<lambda>o1.
     io_bind (alloc o1) (\<lambda>vm.
     io_bind (io_try (io_poll (clock api) (ready_attempt api obj vm) cdiImageImportTimeout cdiImageImportRetry)) (\<lambda>_.
       io_return (Some vm))))))"

text \<open>The error of the creation itself is dropped as well: only an existing machine is returned at once.\<close>

definition create_cloned_vm ::
  "'x k8s_api \<Rightarrow> ptr \<Rightarrow> string \<Rightarrow> app_spec \<Rightarrow> ('x k8s_world, ptr option) io" where
  "create_cloned_vm api spec ns app =
     io_bind (set_namespace_unless (\<lambda>s. s = kube_system) spec ns) (\<lambda>obj.
     io_bind (io_try (obj_call VirtualMachine (api_Create api VirtualMachine obj))) (\<lambda>r. (case r of
       Inl err \<Rightarrow>
         (if api_IsAlreadyExists api err then
            io_bind (io_try (obj_call VirtualMachine (api_Get api VirtualMachine (so_Name obj) (so_Namespace obj)))) (\<lambda>r'.
              (case r' of Inl _ \<Rightarrow> wait_cloned_vm api ns obj | Inr vm \<Rightarrow> new_spec [] vm))
          else wait_cloned_vm api ns obj)
     | Inr _ \<Rightarrow> wait_cloned_vm api ns obj)))"

definition createVirtualMachineObjects ::
  "'x k8s_api \<Rightarrow> ptr \<Rightarrow> string \<Rightarrow> app_spec \<Rightarrow> ('x k8s_world, ptr option) io" where
  "createVirtualMachineObjects api spec ns app =
     io_bind (deref spec) (\<lambda>obj.
       if so_type obj = VirtualMachine then
         (if is_cloned obj then create_cloned_vm api spec ns app
          else
            io_bind (io_foreach (WaitForImageImportForVM api (so_Name obj) ns) (so_VmVolumes obj)) (\<lambda>_.
            io_bind (set_namespace_unless (\<lambda>s. s = kube_system) spec ns) (\<lambda>o1.
            io_bind (failing_with (create_or_get api VirtualMachine o1 (so_Namespace o1))
               (schedule_error_comma app ''Failed to create VirtualMachine: '' o1)) (new_spec []))))
       else io_return None)"

section \<open>All objects of an application\<close>

text \<open>One pass over the spec list: every creation is retried, and what it returns is appended.\<close>

fun run_phase ::
  "'x k8s_api \<Rightarrow> (ptr \<Rightarrow> ('x k8s_world, ptr option) io) \<Rightarrow> ptr list \<Rightarrow> ptr list \<Rightarrow> ('x k8s_world, ptr list) io" where
  "run_phase api create [] specObjects = io_return specObjects"
| "run_phase api create (appSpec # specs) specObjects =
     io_bind (io_poll (clock api) (create appSpec) k8sObjectCreateTimeout k8s_DefaultRetryInterval) (\<lambda>obj.
       run_phase api create specs (case obj of None \<Rightarrow> specObjects | Some p \<Rightarrow> specObjects @ [p]))"

fun run_phases ::
  "'x k8s_api \<Rightarrow> (ptr \<Rightarrow> ('x k8s_world, ptr option) io) list \<Rightarrow> ptr list \<Rightarrow> ptr list \<Rightarrow> ('x k8s_world, ptr list) io" where
  "run_phases api [] specs specObjects = io_return specObjects"
| "run_phases api (create # creates) specs specObjects =
     io_bind (run_phase api create specs specObjects) (run_phases api creates specs)"

definition create_phases ::
  "K8s \<Rightarrow> 'x k8s_api \<Rightarrow> string \<Rightarrow> app_spec \<Rightarrow> ScheduleOptions \<Rightarrow> (ptr \<Rightarrow> ('x k8s_world, ptr option) io) list" where
  "create_phases k api ns app options =
     [\<lambda>s. createMigrationObjects k api s ns app,
      \<lambda>s. createCRDObjects api s ns app,
      \<lambda>s. createVolumeSnapshotRestore k api s ns app,
      \<lambda>s. createStorageObject k api s ns app options,
      \<lambda>s. createTektonObjects api s ns app,
      \<lambda>s. createRbacObjects api s ns app,
      \<lambda>s. createCoreObject k api s ns app options,
      \<lambda>s. createBackupObjects api s ns app,
      \<lambda>s. createNetworkingObjects api s ns app,
      \<lambda>s. createBatchObjects api s ns app,
      \<lambda>s. createServiceMonitorObjects api s ns app,
      \<lambda>s. createPodDisruptionBudgetObjects api s ns app,
      \<lambda>s. createAdmissionRegistrationObjects k api s ns app,
      \<lambda>s. createCustomResourceObjects api s ns app,
      \<lambda>s. createVirtualMachineObjects api s ns app]"

definition CreateSpecObjects ::
  "K8s \<Rightarrow> 'x k8s_api \<Rightarrow> app_spec \<Rightarrow> string \<Rightarrow> ScheduleOptions \<Rightarrow> ('x k8s_world, ptr list) io" where
  "CreateSpecObjects k api app namespace options =
     io_bind (createNamespace api app namespace options) (\<lambda>ns.
       run_phases api (create_phases k api (so_Name ns) app options) (SpecList app) [])"

end
