(* ===== verification/K8sSample.thy ===== *)
theory K8sSample
  imports K8sCreate
begin

text \<open>
  A small cluster for the examples: the calls of the client library on a list of objects. Creating an object
  whose type, name and namespace are taken reports that it exists, and reading or deleting one that is not there
  that it is not found.
\<close>

definition same_object :: "spec_type \<Rightarrow> string \<Rightarrow> string \<Rightarrow> spec_obj \<Rightarrow> bool" where
  "same_object t name namespace o1 \<longleftrightarrow> so_type o1 = t \<and> so_Name o1 = name \<and> so_Namespace o1 = namespace"

definition already_exists :: go_error where "already_exists = Errorf ''already exists''"
definition not_found :: go_error where "not_found = Errorf ''not found''"

definition mem_Create :: "spec_type \<Rightarrow> spec_obj \<Rightarrow> (spec_obj list) obj_call" where
  "mem_Create t o1 x =
     (if list_ex (same_object t (so_Name o1) (so_Namespace o1)) x then ((None, Some already_exists), x)
      else ((Some o1, None), x @ [o1]))"

definition mem_Get :: "spec_type \<Rightarrow> string \<Rightarrow> string \<Rightarrow> (spec_obj list) obj_call" where
  "mem_Get t name namespace x = (case filter (same_object t name namespace) x of
     [] \<Rightarrow> ((None, Some not_found), x)
   | o1 # _ \<Rightarrow> ((Some o1, None), x))"

definition mem_Update :: "spec_type \<Rightarrow> spec_obj \<Rightarrow> (spec_obj list) obj_call" where
  "mem_Update t o1 x =
     (if list_ex (same_object t (so_Name o1) (so_Namespace o1)) x
      then ((Some o1, None), map (\<lambda>o2. if same_object t (so_Name o1) (so_Namespace o1) o2 then o1 else o2) x)
      else ((None, Some not_found), x))"

definition mem_Delete :: "spec_type \<Rightarrow> string \<Rightarrow> string \<Rightarrow> (spec_obj list, unit) ext_call" where
  "mem_Delete t name namespace x =
     (if list_ex (same_object t name namespace) x
      then (Inr (), filter (\<lambda>o1. \<not> same_object t name namespace o1) x) else (Inl not_found, x))"

definition mem_Validate :: "spec_type \<Rightarrow> spec_obj \<Rightarrow> int \<Rightarrow> int \<Rightarrow> (spec_obj list, unit) ext_call" where
  "mem_Validate t o1 timeout gap x =
     (if list_ex (same_object t (so_Name o1) (so_Namespace o1)) x then (Inr (), x) else (Inl not_found, x))"

definition mem_ValidateTerminated :: "spec_type \<Rightarrow> spec_obj \<Rightarrow> int \<Rightarrow> int \<Rightarrow> (spec_obj list, unit) ext_call" where
  "mem_ValidateTerminated t o1 timeout gap x =
     (if list_ex (same_object t (so_Name o1) (so_Namespace o1)) x then (Inl already_exists, x) else (Inr (), x))"

definition mem_api :: "(spec_obj list) k8s_api" where
  "mem_api = \<lparr>api_clock = (\<lambda>_. 0), api_Create = mem_Create, api_Get = mem_Get, api_Update = mem_Update,
     api_Delete = mem_Delete, api_Validate = mem_Validate, api_ValidateTerminated = mem_ValidateTerminated,
     api_PodsOf = (\<lambda>_ x. (Inr [], x)), api_ClaimsOf = (\<lambda>_ x. (Inr (Some []), x)),
     api_IsAlreadyExists = (\<lambda>e. e = already_exists), api_IsNotFound = (\<lambda>e. e = not_found),
     api_ErrPodsNotFound = Errorf ''Pods not found'',
     api_Register = (\<lambda>_ _ x. (Inr (), x)), api_ListPods = (\<lambda>_ _ x. (Inr [], x)),
     api_CreateRule = (\<lambda>r _ _ x. (Inr r, x)), api_GetRule = (\<lambda>_ x. (Inl not_found, x)),
     api_GetNodes = (\<lambda>x. (Inr [], x)), api_IsNodeReady = (\<lambda>_ x. (Inr (), x)), api_IsNodeMaster = (\<lambda>_. False),
     api_GetLabelsOnNode = (\<lambda>_ x. (Inr [], x)), api_AddLabelOnNode = (\<lambda>_ _ _ x. (Inr (), x)),
     api_IsPodRunning = (\<lambda>_. True), api_Kubectl = (\<lambda>_ x. (Inr (), x)), api_NotExist = (\<lambda>_ _. True),
     api_Getenv = (\<lambda>_. []), api_DockerConfig = (\<lambda>_ _ _. []), api_Sleep = (\<lambda>_ x. x),
     api_NewUUID = (\<lambda>x. (''uuid'', x)),
     api_VaultNewClient = (\<lambda>x. (Inr (), x)), api_VaultSetAddress = (\<lambda>_ x. (Inr (), x)),
     api_VaultWrite = (\<lambda>_ _ _ x. (Inr (), x)), api_RepoAdd = (\<lambda>_ x. (Inr (), x)), api_RepoUpdate = (\<lambda>x. (Inr (), x)),
     api_InstallChart = (\<lambda>_ _ x. (Inr [], x)), api_UpgradeChart = (\<lambda>_ _ x. (Inr [], x)),
     api_UninstallChart = (\<lambda>_ _ x. (Inr [], x)), api_Documents = (\<lambda>_. []),
     api_decodeSpec = (\<lambda>_. Inl not_found), api_Sprint = (\<lambda>_. []), api_TypeOf = (\<lambda>_. []), api_StorageProvisioner = []\<rparr>"

definition sample_k8s :: K8s where
  "sample_k8s = \<lparr>k_SpecFactory = [], k_NodeDriverName = ''ssh'', k_VolDriverName = ''pxd'', k_secretConfigMapName = [],
     k_SecretType = [], k_VaultAddress = [], k_VaultToken = [], k_PureVolumes = False, k_PureSANType = [],
     k_PureFADAPod = [], k_RunCSISnapshotAndRestoreManyTest = False, k_secureApps = []\<rparr>"

definition no_rule :: AutopilotRule where
  "no_rule = \<lparr>rule_Name = [], rule_MatchLabels = [], rule_Enforcement = [], rule_Expressions = [], rule_Actions = []\<rparr>"

definition sample_options :: ScheduleOptions where
  "sample_options = \<lparr>opt_AppKeys = [], opt_CsiAppKeys = [], opt_Nodes = [], opt_StorageProvisioner = [],
     opt_AutopilotRule = no_rule, opt_Scheduler = [], opt_Labels = [], opt_PvcNodesAnnotation = [], opt_PvcSize = 0,
     opt_Upgrade = False, opt_Namespace = [], opt_TopologyLabels = [], opt_PureFAPodName = []\<rparr>"

definition world_of :: "spec_obj list \<Rightarrow> (spec_obj list) k8s_world" where
  "world_of specs = \<lparr>wd_heap = (\<lambda>p. if p < length specs then specs ! p else new_obj OtherObject [] []),
     wd_next = length specs, wd_label = [(''creator'', ''torpedo'')], wd_registry = [], wd_ext = []\<rparr>"

definition sample_app :: "string \<Rightarrow> nat \<Rightarrow> app_spec" where
  "sample_app key n = \<lparr>app_Key = key, SpecList = [0..<n], Enabled = True, IsCSI = False, NameSpace = []\<rparr>"

lemmas mem_defs = mem_Create_def mem_Get_def mem_Update_def mem_Delete_def mem_Validate_def mem_ValidateTerminated_def
  same_object_def already_exists_def not_found_def

lemma mem_api_fields [simp]:
  "api_clock mem_api = (\<lambda>_. 0)" "api_Create mem_api = mem_Create" "api_Get mem_api = mem_Get" "api_Update mem_api = mem_Update"
  "api_Delete mem_api = mem_Delete" "api_Validate mem_api = mem_Validate"
  "api_ValidateTerminated mem_api = mem_ValidateTerminated" "api_PodsOf mem_api = (\<lambda>_ x. (Inr [], x))"
  "api_ClaimsOf mem_api = (\<lambda>_ x. (Inr (Some []), x))" "api_IsAlreadyExists mem_api e = (e = already_exists)"
  "api_IsNotFound mem_api e = (e = not_found)" "api_Getenv mem_api s = []" "api_StorageProvisioner mem_api = []"
  by (simp_all add: mem_api_def)

lemma sample_k8s_fields [simp]:
  "k_secretConfigMapName sample_k8s = []" "k_SecretType sample_k8s = []" "k_PureVolumes sample_k8s = False"
  "k_SpecFactory sample_k8s = []"
  by (simp_all add: sample_k8s_def)

lemma sample_options_fields [simp]:
  "opt_Labels sample_options = []" "opt_Scheduler sample_options = []" "opt_TopologyLabels sample_options = []"
  "opt_Nodes sample_options = []" "opt_Namespace sample_options = []" "opt_AppKeys sample_options = []"
  "rule_Name (opt_AutopilotRule sample_options) = []"
  by (simp_all add: sample_options_def no_rule_def)

lemma sample_app_fields [simp]:
  "app_Key (sample_app key n) = key" "SpecList (sample_app key n) = [0..<n]" "IsCSI (sample_app key n) = False"
  by (simp_all add: sample_app_def)

end
