(* ===== verification/K8sPhases.thy ===== *)
theory K8sPhases
  imports K8sSample
begin

text \<open>
  What the creation phases of \<open>CreateSpecObjects\<close> do: each creation function makes an object of the type of
  its spec for its own types and nothing for the others, no function changes the type of an object that
  exists, and so the phases together make exactly one object for every spec of a type they know.
\<close>

section \<open>Worlds that extend each other\<close>

text \<open>Objects are not removed from the store and keep their type.\<close>

definition extends :: "'x k8s_world \<Rightarrow> 'x k8s_world \<Rightarrow> bool" where
  "extends w w' \<longleftrightarrow> wd_next w \<le> wd_next w' \<and> (\<forall>p<wd_next w. so_type (wd_heap w' p) = so_type (wd_heap w p))"

lemma extends_refl [simp]: "extends w w"
  by (simp add: extends_def)

lemma extends_trans: "extends w1 w2 \<Longrightarrow> extends w2 w3 \<Longrightarrow> extends w1 w3"
  by (auto simp: extends_def)

lemma extends_next: "extends w w' \<Longrightarrow> wd_next w \<le> wd_next w'"
  by (simp add: extends_def)

lemma extends_type: "extends w w' \<Longrightarrow> p < wd_next w \<Longrightarrow> so_type (wd_heap w' p) = so_type (wd_heap w p)"
  by (simp add: extends_def)

lemma keeps_calls [keeps_intros]:
  "keeps (extends w0) (obj_call t f)" "keeps (extends w0) (raw_call t f)" "keeps (extends w0) (ext_call g)"
  "keeps (extends w0) (deref p)"
  by (auto simp: keeps_def obj_call_def raw_call_def ext_call_def deref_def io_gets_def extends_def
      split: prod.splits option.splits)

lemma keeps_alloc [keeps_intros]: "keeps (extends w0) (alloc o1)"
  by (auto simp: keeps_def alloc_def extends_def)

lemma keeps_mutate: "(\<And>o1. so_type (f o1) = so_type o1) \<Longrightarrow> keeps (extends w0) (mutate p f)"
  unfolding mutate_def by (rule keeps_modify) (simp add: extends_def)

lemma keeps_other [keeps_intros]:
  "keeps (extends w0) (io_modify (\<lambda>w. w\<lparr>wd_ext := f w\<rparr>))" "keeps (extends w0) (io_modify (\<lambda>w. w\<lparr>wd_label := g w\<rparr>))"
  by (auto intro!: keeps_modify simp: extends_def)

lemma keeps_foreach [keeps_intros]: "(\<And>x. keeps I (f x)) \<Longrightarrow> keeps I (io_foreach f xs)"
  by (induction xs) (auto intro: keeps_intros)

lemma keeps_through [keeps_intros]: "(\<And>o1. keeps I (f o1)) \<Longrightarrow> keeps I (through p f)"
  by (cases p) (auto simp: through_def intro: keeps_intros)

lemma keeps_failing [keeps_intros]: "keeps I m \<Longrightarrow> keeps I (failing_with m e)"
  unfolding failing_with_def by (intro keeps_intros)

lemma keeps_pair_case: "(\<And>x y. keeps I (f x y)) \<Longrightarrow> keeps I (case p of (x, y) \<Rightarrow> f x y)"
  by (cases p) simp

lemma keeps_let: "keeps I (f x) \<Longrightarrow> keeps I (let y = x in f y)"
  by simp

lemma keeps_list_case:
  "(xs = [] \<Longrightarrow> keeps I m) \<Longrightarrow> (\<And>y ys. xs = y # ys \<Longrightarrow> keeps I (f y ys)) \<Longrightarrow>
     keeps I (case xs of [] \<Rightarrow> m | y # ys \<Rightarrow> f y ys)"
  by (cases xs) simp_all

lemmas keeps_shapes = keeps_cases keeps_pair_case keeps_let keeps_list_case

section \<open>The steps of a creation\<close>

lemma same_type [simp]:
  "so_type (addSecurityAnnotation k pr d app o1) = so_type o1"
  "so_type (prepare_class k api ns app options o1) = so_type o1"
  "so_type (prepare_pvc ns options o1) = so_type o1"
  "so_type (sized_pvc options o1) = so_type o1"
  by (simp_all add: addSecurityAnnotation_def prepare_class_def prepare_pvc_def sized_pvc_def Let_def
      addLabelsToPVC_def addAnnotationsToPVC_def substituteNamespaceInPVC_def)

lemma keeps_steps [keeps_intros]:
  "keeps (extends w0) (annotate_spec k api spec app)"
  "keeps (extends w0) (set_namespace spec ns)"
  "keeps (extends w0) (set_namespace_unless keep spec ns)"
  unfolding annotate_spec_def set_namespace_def set_namespace_unless_def
  by (intro keeps_intros keeps_shapes keeps_mutate; simp)+

lemma keeps_create_steps [keeps_intros]:
  "keeps (extends w0) (create_or_get api t obj ns)"
  "keeps (extends w0) (create_or_find api t obj ns)"
  "keeps (extends w0) (new_spec kind obj)"
  unfolding create_or_get_def create_or_find_def new_spec_def by (intro keeps_intros keeps_shapes)+

lemma keeps_create_spec [keeps_intros]:
  "keeps (extends w0) (create_spec api app t what kind obj ns)"
  "keeps (extends w0) (create_only api app t what obj)"
  unfolding create_spec_def create_only_def by (intro keeps_intros keeps_shapes)+

lemma keeps_namespace [keeps_intros]:
  "keeps (extends w0) (createNamespace api app ns options)"
  "keeps (extends w0) (CreateAutopilotRule api rule sel)"
  unfolding createNamespace_def CreateAutopilotRule_def by (intro keeps_intros keeps_shapes)+

lemma keeps_storage_steps [keeps_intros]:
  "keeps (extends w0) (apply_vps api key word path)"
  "keeps (extends w0) (wait_import api name ns what)"
  "keeps (extends w0) (create_rule_of_options api options pvc)"
  unfolding apply_vps_def wait_import_def import_attempt_def create_rule_of_options_def
  by (intro keeps_intros keeps_shapes)+

lemma keeps_pvc [keeps_intros]:
  "keeps (extends w0) (created_pvc api options pvc)"
  "keeps (extends w0) (create_pvc api app options cloned obj)"
  unfolding create_pvc_def finish_pvc_def settle_pvc_def created_pvc_def by (intro keeps_intros keeps_shapes)+

lemma keeps_core_steps [keeps_intros]:
  "keeps (extends w0) (label_fastpath api ps)"
  "keeps (extends w0) (pull_secret api app name ns what obj)"
  "keeps (extends w0) (createVaultSecret k api obj)"
  unfolding label_fastpath_def pull_secret_def createDockerRegistrySecret_def createVaultSecret_def Let_def
  by (intro keeps_intros keeps_shapes)+

lemma keeps_vm_steps [keeps_intros]:
  "keeps (extends w0) (WaitForImageImportForVM api name ns claim)"
  "keeps (extends w0) (WaitForCloneToSucceed api ns name)"
  unfolding WaitForImageImportForVM_def WaitForCloneToSucceed_def clone_attempt_def
  by (intro keeps_intros keeps_shapes)+

text \<open>An object that is allocated on the way may change its type: it is not one of the old objects.\<close>

lemma keeps_alloc_bind:
  assumes "\<And>p. wd_next w0 \<le> p \<Longrightarrow> keeps (extends w0) (f p)"
  shows "keeps (extends w0) (io_bind (alloc o1) f)"
proof (rule keepsI)
  fix w r w'
  assume b: "io_bind (alloc o1) f w = Some (r, w')" and w: "extends w0 w"
  let ?w1 = "w\<lparr>wd_heap := (wd_heap w)(wd_next w := o1), wd_next := Suc (wd_next w)\<rparr>"
  have "f (wd_next w) ?w1 = Some (r, w')"
    using b by (simp add: io_bind_def alloc_def)
  moreover have "extends w0 ?w1"
    using w by (auto simp: extends_def)
  ultimately show "extends w0 w'"
    using keepsD [OF assms [OF extends_next [OF w]]] by blast
qed

lemma keeps_ready [keeps_intros]:
  assumes "wd_next w0 \<le> vm"
  shows "keeps (extends w0) (ready_attempt api obj vm)"
proof -
  have "keeps (extends w0) (mutate vm (\<lambda>_. o1))" for o1
    unfolding mutate_def using assms by (intro keeps_modify) (auto simp: extends_def)
  then show ?thesis
    unfolding ready_attempt_def by (intro keeps_intros keeps_shapes)
qed

lemma keeps_cloned_vm [keeps_intros]: "keeps (extends w0) (create_cloned_vm api spec ns app)"
  unfolding create_cloned_vm_def wait_cloned_vm_def by (intro keeps_alloc_bind keeps_intros keeps_shapes)

section \<open>What a creation makes\<close>

text \<open>From a world that extends \<open>w0\<close>, a successful creation yields an object of type \<open>t\<close> that is new, or
  is the spec \<open>p\<close> itself.\<close>

definition made :: "'x k8s_world \<Rightarrow> ptr \<Rightarrow> spec_type \<Rightarrow> ptr option \<Rightarrow> 'x k8s_world \<Rightarrow> bool" where
  "made w0 p t r w' \<longleftrightarrow>
     (\<exists>q. r = Some q \<and> (q = p \<or> wd_next w0 \<le> q) \<and> q < wd_next w' \<and> so_type (wd_heap w' q) = t)"

definition makes :: "'x k8s_world \<Rightarrow> ptr \<Rightarrow> spec_type \<Rightarrow> ('x k8s_world, ptr option) io \<Rightarrow> bool" where
  "makes w0 p t m \<longleftrightarrow> (\<forall>w r w'. extends w0 w \<longrightarrow> m w = Some (Inr r, w') \<longrightarrow> made w0 p t r w')"

text \<open>Objects that a call returns have the type of the call.\<close>

definition typed :: "spec_type \<Rightarrow> ('w, spec_obj) io \<Rightarrow> bool" where
  "typed t m \<longleftrightarrow> (\<forall>w o1 w'. m w = Some (Inr o1, w') \<longrightarrow> so_type o1 = t)"

named_theorems makes_intros \<open>creations that make an object of a type\<close>

lemma typedD: "typed t m \<Longrightarrow> m w = Some (Inr o1, w') \<Longrightarrow> so_type o1 = t"
  by (auto simp: typed_def)

lemma makesD: "makes w0 p t m \<Longrightarrow> extends w0 w \<Longrightarrow> m w = Some (Inr r, w') \<Longrightarrow> made w0 p t r w'"
  by (simp add: makes_def)

lemma makesI: "(\<And>w r w'. extends w0 w \<Longrightarrow> m w = Some (Inr r, w') \<Longrightarrow> made w0 p t r w') \<Longrightarrow> makes w0 p t m"
  by (simp add: makes_def)

lemma typed_call [makes_intros]: "typed t (obj_call t f)"
  by (auto simp: typed_def obj_call_def split: prod.splits option.splits)

lemma typed_error [makes_intros]: "typed t (io_error e)"
  by (simp add: typed_def)

lemma typed_catch [makes_intros]: "typed t m \<Longrightarrow> (\<And>e. typed t (h e)) \<Longrightarrow> typed t (io_catch m h)"
  unfolding typed_def io_catch_Inr by blast

lemma typed_if: "typed t m \<Longrightarrow> typed t m' \<Longrightarrow> typed t (if c then m else m')"
  by simp

lemma typed_create [makes_intros]:
  "typed t (create_or_get api t obj ns)" "typed t (create_or_find api t obj ns)"
  "typed t m \<Longrightarrow> typed t (failing_with m e)"
  unfolding create_or_get_def create_or_find_def failing_with_def by (intro makes_intros typed_if | assumption)+

lemma makes_bind:
  assumes "keeps (extends w0) m" "\<And>x. makes w0 p t (f x)"
  shows "makes w0 p t (io_bind m f)"
  by (rule makesI) (auto simp: io_bind_Inr intro: makesD [OF assms(2)] keepsD [OF assms(1)])

lemma makes_new_spec:
  assumes "so_type o1 = t"
  shows "makes w0 p t (new_spec kind o1)"
  using assms unfolding makes_def made_def new_spec_def
  by (auto simp: io_bind_Inr alloc_def dest: extends_next)

lemma makes_typed:
  assumes "typed t m" "keeps (extends w0) m" "\<And>o1. so_type o1 = t \<Longrightarrow> makes w0 p t (f o1)"
  shows "makes w0 p t (io_bind m f)"
  by (rule makesI) (auto simp: io_bind_Inr intro: makesD [OF assms(3)] typedD [OF assms(1)] keepsD [OF assms(2)])

lemma makes_spec [makes_intros]:
  "typed t m \<Longrightarrow> keeps (extends w0) m \<Longrightarrow> makes w0 p t (io_bind m (new_spec kind))"
  "makes w0 p t (create_spec api app t what kind obj ns)"
  "makes w0 p t (create_only api app t what obj)"
  unfolding create_spec_def create_only_def
  by (rule makes_typed; (assumption | intro makes_intros keeps_intros makes_new_spec)+)+

lemma makes_through [makes_intros]:
  "(\<And>o1. p1 = Some o1 \<Longrightarrow> makes w0 p t (f o1)) \<Longrightarrow> makes w0 p t (through p1 f)"
  by (cases p1) (auto simp: through_def makes_def)

lemma makes_simple [makes_intros]: "makes w0 p t (io_error e)" "makes w0 p t io_panic"
  by (simp_all add: makes_def)

lemma makes_cases:
  "(c \<Longrightarrow> makes w0 p t m) \<Longrightarrow> (\<not> c \<Longrightarrow> makes w0 p t m') \<Longrightarrow> makes w0 p t (if c then m else m')"
  "(q = None \<Longrightarrow> makes w0 p t n) \<Longrightarrow> (\<And>z. q = Some z \<Longrightarrow> makes w0 p t (h z)) \<Longrightarrow>
     makes w0 p t (case q of None \<Rightarrow> n | Some z \<Rightarrow> h z)"
  "(\<And>x. r = Inl x \<Longrightarrow> makes w0 p t (g x)) \<Longrightarrow> (\<And>y. r = Inr y \<Longrightarrow> makes w0 p t (g' y)) \<Longrightarrow>
     makes w0 p t (case r of Inl x \<Rightarrow> g x | Inr y \<Rightarrow> g' y)"
  by (simp, simp split: option.splits, simp split: sum.splits)

text \<open>A result read through a call: its type is that of the call.\<close>

lemma makes_raw:
  assumes "\<And>p1 err. pred_option (\<lambda>o1. so_type o1 = t) p1 \<Longrightarrow> makes w0 p t (f p1 err)"
  shows "makes w0 p t (io_bind (raw_call t c) (\<lambda>(p1, err). f p1 err))"
proof (rule makesI)
  fix w r w'
  assume w: "extends w0 w" and b: "io_bind (raw_call t c) (\<lambda>(p1, err). f p1 err) w = Some (Inr r, w')"
  obtain p1 err x where c: "c (wd_ext w) = ((p1, err), x)"
    by (metis surj_pair)
  let ?w1 = "w\<lparr>wd_ext := x\<rparr>" and ?p = "map_option (\<lambda>o1. o1\<lparr>so_type := t\<rparr>) p1"
  have "f ?p err ?w1 = Some (Inr r, w')"
    using b c by (simp add: io_bind_def raw_call_def)
  moreover have "extends w0 ?w1"
    using w by (simp add: extends_def)
  moreover have "pred_option (\<lambda>o1. so_type o1 = t) ?p"
    by (cases p1) simp_all
  ultimately show "made w0 p t r w'"
    using makesD [OF assms] by blast
qed

lemma makes_created_pvc: "so_type o1 = PersistentVolumeClaim \<Longrightarrow> makes w0 p PersistentVolumeClaim (created_pvc api options o1)"
  unfolding created_pvc_def by (intro makes_bind keeps_intros makes_new_spec)

lemma typed_import: "typed PersistentVolumeClaim (wait_import api name ns what)"
proof -
  have "typed PersistentVolumeClaim (import_attempt api name ns what)"
    by (auto simp: typed_def import_attempt_def io_bind_Inr raw_call_def through_def
        split: prod.splits option.splits if_splits)
  then show ?thesis
    unfolding wait_import_def typed_def by (auto dest!: io_poll_Inr [OF k8s_gaps(2)])
qed

lemma makes_finish_pvc:
  assumes "pred_option (\<lambda>o1. so_type o1 = PersistentVolumeClaim) p1"
  shows "makes w0 p PersistentVolumeClaim (finish_pvc api app options cloned obj p1 err)"
proof -
  have settle: "makes w0 p PersistentVolumeClaim (settle_pvc api app options obj p1 err)"
    unfolding settle_pvc_def using assms
    by (intro makes_cases makes_intros makes_created_pvc) simp
  have wait: "makes w0 p PersistentVolumeClaim (io_bind (wait_import api n ns []) (created_pvc api options))" for n ns
    by (rule makes_typed [OF typed_import keeps_storage_steps(2) makes_created_pvc])
  show ?thesis
    unfolding finish_pvc_def by (intro makes_cases makes_through settle wait)
qed

lemma makes_pvc [makes_intros]: "makes w0 p PersistentVolumeClaim (create_pvc api app options cloned obj)"
  unfolding create_pvc_def
  by (intro makes_raw makes_cases makes_through makes_new_spec makes_finish_pvc) auto

lemma makes_core [makes_intros]:
  "makes w0 p Deployment (create_deployment api spec ns app options)"
  "makes w0 p StatefulSet (create_statefulset k api spec ns app options)"
  "makes w0 p Secret (create_secret k api spec ns app)"
  unfolding create_deployment_def create_statefulset_def create_secret_def
  by (intro makes_bind makes_spec(2) keeps_intros keeps_shapes keeps_mutate; simp)+

lemma makes_rule [makes_intros]:
  "makes w0 p Rule (create_rule api spec ns app)"
  "makes w0 p t (create_tekton api t what spec ns app)"
  unfolding create_rule_def create_tekton_def
  by (rule makes_bind; (intro keeps_intros makes_spec(1) makes_intros)?)+

lemma makes_pod [makes_intros]: "makes w0 p Pod (create_pod api spec ns app options)"
  unfolding create_pod_def
  by (intro makes_bind [OF keeps_mutate] makes_bind [OF keeps_calls(4)] makes_bind [OF keeps_core_steps(2)]
      makes_spec(1) makes_intros keeps_intros) simp_all

lemma makes_webhooks [makes_intros]: "makes w0 p t (create_webhooks api t spec ns app)"
  unfolding create_webhooks_def
  by (intro makes_bind [OF keeps_steps(2)] makes_bind [OF keeps_mutate] makes_bind [OF keeps_calls(4)] makes_cases
      makes_spec(1) makes_intros keeps_intros) simp_all

lemma makes_crd [makes_intros]: "makes w0 p t (create_crd api t what spec ns app)"
  unfolding create_crd_def Let_def
  by (intro makes_bind [OF keeps_steps(2)] makes_bind [OF keeps_try] makes_cases makes_spec(1) makes_intros keeps_intros)

text \<open>The machine that a wait updates in place: the cell is allocated with its type, and every attempt
  keeps it.\<close>

lemma keeps_raw:
  assumes "\<And>p1 err. pred_option (\<lambda>o1. so_type o1 = t) p1 \<Longrightarrow> keeps (extends w0) (f p1 err)"
  shows "keeps (extends w0) (io_bind (raw_call t c) (\<lambda>(p1, err). f p1 err))"
proof (rule keepsI)
  fix w r w'
  assume w: "extends w0 w" and b: "io_bind (raw_call t c) (\<lambda>(p1, err). f p1 err) w = Some (r, w')"
  obtain p1 err x where c: "c (wd_ext w) = ((p1, err), x)"
    by (metis surj_pair)
  let ?w1 = "w\<lparr>wd_ext := x\<rparr>" and ?p = "map_option (\<lambda>o1. o1\<lparr>so_type := t\<rparr>) p1"
  have "f ?p err ?w1 = Some (r, w')"
    using b c by (simp add: io_bind_def raw_call_def)
  moreover have "extends w0 ?w1"
    using w by (simp add: extends_def)
  moreover have "pred_option (\<lambda>o1. so_type o1 = t) ?p"
    by (cases p1) simp_all
  ultimately show "extends w0 w'"
    using keepsD [OF assms] by blast
qed

lemma keeps_ready_type:
  assumes "so_type (wd_heap w1 vm) = VirtualMachine"
  shows "keeps (extends w1) (ready_attempt api obj vm)"
proof -
  have "keeps (extends w1) (mutate vm (\<lambda>_. o1))" if "so_type o1 = VirtualMachine" for o1
    unfolding mutate_def using assms that by (intro keeps_modify) (auto simp: extends_def)
  then show ?thesis
    unfolding ready_attempt_def by (intro keeps_raw keeps_intros keeps_shapes) simp_all
qed

lemma makes_alloc:
  assumes "so_type o1 = t"
    and "\<And>w1 q. so_type (wd_heap w1 q) = t \<Longrightarrow> keeps (extends w1) (m q)"
  shows "makes w0 p t (io_bind (alloc o1) (\<lambda>q. io_bind (m q) (\<lambda>_. io_return (Some q))))"
proof (rule makesI)
  fix w r w'
  assume w: "extends w0 w" and b: "io_bind (alloc o1) (\<lambda>q. io_bind (m q) (\<lambda>_. io_return (Some q))) w = Some (Inr r, w')"
  let ?w1 = "w\<lparr>wd_heap := (wd_heap w)(wd_next w := o1), wd_next := Suc (wd_next w)\<rparr>"
  obtain y where y: "m (wd_next w) ?w1 = Some (Inr y, w')" "r = Some (wd_next w)"
    using b by (auto simp: io_bind_Inr alloc_def)
  have "extends ?w1 w'"
    using keepsD [OF assms(2) y(1)] assms(1) by simp
  then show "made w0 p t r w'"
    using y(2) w assms(1) by (auto simp: made_def extends_def)
qed

lemma makes_try:
  assumes "typed t m" "keeps (extends w0) m" "\<And>e. makes w0 p t (h e)" "\<And>o1. so_type o1 = t \<Longrightarrow> makes w0 p t (g o1)"
  shows "makes w0 p t (io_bind (io_try m) (\<lambda>r. case r of Inl e \<Rightarrow> h e | Inr o1 \<Rightarrow> g o1))"
proof (rule makesI)
  fix w r w'
  assume w: "extends w0 w" and b: "io_bind (io_try m) (\<lambda>r. case r of Inl e \<Rightarrow> h e | Inr o1 \<Rightarrow> g o1) w = Some (Inr r, w')"
  then obtain r1 w1 where m: "m w = Some (r1, w1)"
      "(case r1 of Inl e \<Rightarrow> h e | Inr o1 \<Rightarrow> g o1) w1 = Some (Inr r, w')"
    by (auto simp: io_bind_Inr)
  show "made w0 p t r w'"
  proof (cases r1)
    case (Inl e)
    then show ?thesis
      using m makesD [OF assms(3) keepsD [OF assms(2) m(1) w]] by simp
  next
    case (Inr o1)
    then have "so_type o1 = t"
      using m typedD [OF assms(1)] by blast
    then show ?thesis
      using m Inr makesD [OF assms(4) keepsD [OF assms(2) m(1) w]] by simp
  qed
qed

lemma makes_wait_vm: "makes w0 p VirtualMachine (wait_cloned_vm api ns obj)"
  unfolding wait_cloned_vm_def
  by (rule makes_bind, (intro keeps_intros)[1], rule makes_bind, (intro keeps_intros)[1], rule makes_typed,
      (intro makes_intros)[1], (intro keeps_intros)[1], rule makes_alloc, assumption, intro keeps_intros keeps_ready_type)

lemma makes_cloned_vm [makes_intros]: "makes w0 p VirtualMachine (create_cloned_vm api spec ns app)"
  unfolding create_cloned_vm_def
  by (intro makes_bind [OF keeps_steps(3)] makes_try [OF typed_call keeps_calls(1)] makes_cases makes_wait_vm makes_new_spec)

section \<open>The contract of a creation function\<close>

text \<open>A creation function run on spec \<open>p\<close> from a world that extends \<open>w0\<close>, where \<open>p\<close> is a spec: it makes an object
  of the type of the spec if that is one of \<open>ts\<close>, and nothing otherwise.\<close>

definition phase :: "'x k8s_world \<Rightarrow> ptr \<Rightarrow> spec_type list \<Rightarrow> ('x k8s_world, ptr option) io \<Rightarrow> bool" where
  "phase w0 p ts m \<longleftrightarrow> (\<forall>w r w'. extends w0 w \<longrightarrow> m w = Some (Inr r, w') \<longrightarrow>
     (if so_type (wd_heap w0 p) \<in> set ts then made w0 p (so_type (wd_heap w0 p)) r w' else r = None))"

lemma phase_bind:
  assumes "keeps (extends w0) m" "\<And>x. phase w0 p ts (f x)"
  shows "phase w0 p ts (io_bind m f)"
  unfolding phase_def io_bind_Inr using assms(2) [unfolded phase_def] keepsD [OF assms(1)] by blast

lemma phase_deref:
  assumes "p < wd_next w0" "\<And>o1. so_type o1 = so_type (wd_heap w0 p) \<Longrightarrow> phase w0 p ts (f o1)"
  shows "phase w0 p ts (io_bind (deref p) f)"
  unfolding phase_def io_bind_Inr deref_def io_gets_Inr
  using assms(2) [unfolded phase_def] extends_type [OF _ assms(1)] by blast

lemma phase_none: "so_type (wd_heap w0 p) \<notin> set ts \<Longrightarrow> phase w0 p ts (io_return None)"
  by (auto simp: phase_def)

lemma phase_if:
  assumes "so_type o1 = so_type (wd_heap w0 p)" "t \<in> set ts" "makes w0 p t m"
    and "so_type o1 \<noteq> t \<Longrightarrow> phase w0 p ts m'"
  shows "phase w0 p ts (if so_type o1 = t then m else m')"
  using assms by (simp add: phase_def makes_def)

lemmas phase_intros = phase_bind [OF keeps_steps(1)] phase_if phase_none makes_bind [OF keeps_steps(2)]

locale creation =
  fixes create :: "ptr \<Rightarrow> ('x k8s_world, ptr option) io" and ts :: "spec_type list"
  assumes extending: "keeps (extends w0) (create p)"
    and making: "p < wd_next w0 \<Longrightarrow> phase w0 p ts (create p)"
begin

text \<open>What holds of a creation holds of the retries of it.\<close>

lemma retried:
  assumes "p < wd_next w" "io_poll clk (create p) timeout k8s_DefaultRetryInterval w = Some (Inr r, w')"
  shows "extends w w'"
    and "so_type (wd_heap w p) \<in> set ts \<Longrightarrow> made w p (so_type (wd_heap w p)) r w'"
    and "so_type (wd_heap w p) \<notin> set ts \<Longrightarrow> r = None"
proof -
  obtain w1 where w1: "extends w w1" "create p w1 = Some (Inr r, w')"
    using io_poll_Inr_inv [OF k8s_gaps(1) extending [of w] extends_refl assms(2)] by blast
  with making [OF assms(1)] have *: "if so_type (wd_heap w p) \<in> set ts
      then made w p (so_type (wd_heap w p)) r w' else r = None"
    unfolding phase_def by blast
  show "extends w w'"
    using keepsD [OF extending w1(2,1)] .
  show "made w p (so_type (wd_heap w p)) r w'" if "so_type (wd_heap w p) \<in> set ts"
    using * that by simp
  show "r = None" if "so_type (wd_heap w p) \<notin> set ts"
    using * that by simp
qed

end

section \<open>The fifteen functions\<close>

definition migration_types :: "spec_type list" where
  "migration_types = [ClusterPair, Migration, MigrationSchedule, SchedulePolicy, ResourceTransformation]"

definition storage_types :: "spec_type list" where
  "storage_types = [StorageClass, PersistentVolumeClaim, VolumeSnapshot, GroupVolumeSnapshot, PersistentVolume]"

definition core_types :: "spec_type list" where
  "core_types = [Deployment, StatefulSet, Service, Secret, Rule, Pod, ConfigMap, Endpoints, NetworkPolicy]"

definition rbac_types :: "spec_type list" where
  "rbac_types = [Role, RoleBinding, ClusterRole, ClusterRoleBinding, ServiceAccount]"

definition backup_types :: "spec_type list" where
  "backup_types = [BackupLocation, ApplicationBackup, ApplicationRestore, ApplicationClone]"

lemmas group_types = migration_types_def storage_types_def core_types_def rbac_types_def backup_types_def

interpretation migration: creation "\<lambda>s. createMigrationObjects k api s ns app" migration_types for k api ns app
proof
  show "keeps (extends w0) (createMigrationObjects k api p ns app)" for w0 p
    unfolding createMigrationObjects_def by (intro keeps_intros keeps_shapes)
  show "phase w0 p migration_types (createMigrationObjects k api p ns app)" if "p < wd_next w0" for w0 p
    unfolding createMigrationObjects_def
    by (intro phase_deref [OF that] phase_intros makes_intros keeps_intros) (simp_all add: group_types)
qed

interpretation crd: creation "\<lambda>s. createCRDObjects api s ns app"
  "[CustomResourceDefinition, CustomResourceDefinitionV1beta1]" for api ns app
proof
  show "keeps (extends w0) (createCRDObjects api p ns app)" for w0 p
    unfolding createCRDObjects_def create_crd_def by (intro keeps_intros keeps_shapes)
  show "phase w0 p [CustomResourceDefinition, CustomResourceDefinitionV1beta1] (createCRDObjects api p ns app)"
    if "p < wd_next w0" for w0 p
    unfolding createCRDObjects_def
    by (intro phase_deref [OF that] phase_intros makes_intros keeps_intros) simp_all
qed

interpretation snapshot_restore: creation "\<lambda>s. createVolumeSnapshotRestore k api s ns app"
  "[VolumeSnapshotRestore]" for k api ns app
proof
  show "keeps (extends w0) (createVolumeSnapshotRestore k api p ns app)" for w0 p
    unfolding createVolumeSnapshotRestore_def by (intro keeps_intros keeps_shapes)
  show "phase w0 p [VolumeSnapshotRestore] (createVolumeSnapshotRestore k api p ns app)" if "p < wd_next w0" for w0 p
    unfolding createVolumeSnapshotRestore_def
    by (intro phase_deref [OF that] phase_intros makes_intros keeps_intros) simp_all
qed

interpretation storage: creation "\<lambda>s. createStorageObject k api s ns app options" storage_types for k api ns app options
proof
  show "keeps (extends w0) (createStorageObject k api p ns app options)" for w0 p
    unfolding createStorageObject_def by (intro keeps_intros keeps_shapes keeps_mutate) simp_all
  show "phase w0 p storage_types (createStorageObject k api p ns app options)" if "p < wd_next w0" for w0 p
    unfolding createStorageObject_def
    by (intro phase_bind [OF keeps_storage_steps(1)] phase_deref [OF that] phase_intros makes_bind [OF keeps_mutate]
        makes_bind [OF keeps_calls(4)] makes_cases makes_intros) (simp_all add: group_types)
qed

interpretation tekton: creation "\<lambda>s. createTektonObjects api s ns app" "[Task, Pipeline]" for api ns app
proof
  show "keeps (extends w0) (createTektonObjects api p ns app)" for w0 p
    unfolding createTektonObjects_def create_tekton_def by (intro keeps_intros keeps_shapes)
  show "phase w0 p [Task, Pipeline] (createTektonObjects api p ns app)" if "p < wd_next w0" for w0 p
    unfolding createTektonObjects_def
    by (intro phase_deref [OF that] phase_intros makes_intros keeps_intros) simp_all
qed

interpretation rbac: creation "\<lambda>s. createRbacObjects api s ns app" rbac_types for api ns app
proof
  show "keeps (extends w0) (createRbacObjects api p ns app)" for w0 p
    unfolding createRbacObjects_def by (intro keeps_intros keeps_shapes keeps_mutate) simp_all
  show "phase w0 p rbac_types (createRbacObjects api p ns app)" if "p < wd_next w0" for w0 p
    unfolding createRbacObjects_def
    by (intro phase_deref [OF that] phase_intros makes_bind [OF keeps_mutate] makes_bind [OF keeps_calls(4)]
        makes_intros) (simp_all add: group_types)
qed

interpretation core: creation "\<lambda>s. createCoreObject k api s ns app options" core_types for k api ns app options
proof
  show "keeps (extends w0) (createCoreObject k api p ns app options)" for w0 p
    unfolding createCoreObject_def create_deployment_def create_statefulset_def create_secret_def create_rule_def create_pod_def
    by (intro keeps_intros keeps_shapes keeps_mutate) simp_all
  show "phase w0 p core_types (createCoreObject k api p ns app options)" if "p < wd_next w0" for w0 p
    unfolding createCoreObject_def
    by (intro phase_deref [OF that] phase_intros makes_intros) (simp_all add: group_types)
qed

interpretation backup: creation "\<lambda>s. createBackupObjects api s ns app" "backup_types" for api ns app
proof
  show "keeps (extends w0) (createBackupObjects api p ns app)" for w0 p
    unfolding createBackupObjects_def by (intro keeps_intros keeps_shapes)
  show "phase w0 p backup_types (createBackupObjects api p ns app)" if "p < wd_next w0" for w0 p
    unfolding createBackupObjects_def
    by (intro phase_deref [OF that] phase_intros makes_intros) (simp_all add: group_types)
qed

interpretation networking: creation "\<lambda>s. createNetworkingObjects api s ns app" "[Ingress]" for api ns app
proof
  show "keeps (extends w0) (createNetworkingObjects api p ns app)" for w0 p
    unfolding createNetworkingObjects_def by (intro keeps_intros keeps_shapes)
  show "phase w0 p [Ingress] (createNetworkingObjects api p ns app)" if "p < wd_next w0" for w0 p
    unfolding createNetworkingObjects_def
    by (intro phase_deref [OF that] phase_intros makes_intros) (simp_all)
qed

interpretation batch: creation "\<lambda>s. createBatchObjects api s ns app" "[CronJob, Job]" for api ns app
proof
  show "keeps (extends w0) (createBatchObjects api p ns app)" for w0 p
    unfolding createBatchObjects_def by (intro keeps_intros keeps_shapes)
  show "phase w0 p [CronJob, Job] (createBatchObjects api p ns app)" if "p < wd_next w0" for w0 p
    unfolding createBatchObjects_def
    by (intro phase_deref [OF that] phase_intros makes_intros) (simp_all)
qed

interpretation monitor: creation "\<lambda>s. createServiceMonitorObjects api s ns app" "[ServiceMonitor]" for api ns app
proof
  show "keeps (extends w0) (createServiceMonitorObjects api p ns app)" for w0 p
    unfolding createServiceMonitorObjects_def by (intro keeps_intros keeps_shapes)
  show "phase w0 p [ServiceMonitor] (createServiceMonitorObjects api p ns app)" if "p < wd_next w0" for w0 p
    unfolding createServiceMonitorObjects_def
    by (intro phase_deref [OF that] phase_intros makes_bind [OF keeps_steps(3)] makes_intros) simp_all
qed

interpretation budget: creation "\<lambda>s. createPodDisruptionBudgetObjects api s ns app" "[PodDisruptionBudget]" for api ns app
proof
  show "keeps (extends w0) (createPodDisruptionBudgetObjects api p ns app)" for w0 p
    unfolding createPodDisruptionBudgetObjects_def by (intro keeps_intros keeps_shapes)
  show "phase w0 p [PodDisruptionBudget] (createPodDisruptionBudgetObjects api p ns app)" if "p < wd_next w0" for w0 p
    unfolding createPodDisruptionBudgetObjects_def
    by (intro phase_deref [OF that] phase_intros makes_bind [OF keeps_steps(3)] makes_intros) simp_all
qed

interpretation admission: creation "\<lambda>s. createAdmissionRegistrationObjects k api s ns app"
  "[ValidatingWebhookConfiguration, ValidatingWebhookConfigurationV1beta1]" for k api ns app
proof
  show "keeps (extends w0) (createAdmissionRegistrationObjects k api p ns app)" for w0 p
    unfolding createAdmissionRegistrationObjects_def create_webhooks_def
    by (intro keeps_intros keeps_shapes keeps_mutate) simp_all
  show "phase w0 p [ValidatingWebhookConfiguration, ValidatingWebhookConfigurationV1beta1]
      (createAdmissionRegistrationObjects k api p ns app)" if "p < wd_next w0" for w0 p
    unfolding createAdmissionRegistrationObjects_def
    by (intro phase_deref [OF that] phase_intros makes_intros) simp_all
qed

interpretation custom: creation "\<lambda>s. createCustomResourceObjects api s ns app" "[CustomResourceObjectYAML]" for api ns app
proof
  show k: "keeps (extends w0) (createCustomResourceObjects api p ns app)" for w0 p
    unfolding createCustomResourceObjects_def by (intro keeps_intros keeps_shapes keeps_mutate) simp_all
  show "phase w0 p [CustomResourceObjectYAML] (createCustomResourceObjects api p ns app)" if p: "p < wd_next w0" for w0 p
    unfolding phase_def
  proof (intro allI impI)
    fix w r w'
    assume w: "extends w0 w" and b: "createCustomResourceObjects api p ns app w = Some (Inr r, w')"
    have "extends w0 w'"
      using keepsD [OF k b w] .
    then have "p < wd_next w'" "so_type (wd_heap w' p) = so_type (wd_heap w0 p)"
      using extends_next [of w0 w'] extends_type [of w0 w' p] p by simp_all
    moreover have "if so_type (wd_heap w p) = CustomResourceObjectYAML then r = Some p else r = None"
      using b unfolding createCustomResourceObjects_def by (auto simp: io_bind_Inr deref_def split: if_splits)
    ultimately show "if so_type (wd_heap w0 p) \<in> set [CustomResourceObjectYAML]
        then made w0 p (so_type (wd_heap w0 p)) r w' else r = None"
      using extends_type [OF w p] by (simp add: made_def split: if_splits)
  qed
qed

interpretation vm: creation "\<lambda>s. createVirtualMachineObjects api s ns app" "[VirtualMachine]" for api ns app
proof
  show "keeps (extends w0) (createVirtualMachineObjects api p ns app)" for w0 p
    unfolding createVirtualMachineObjects_def by (intro keeps_intros keeps_shapes)
  show "phase w0 p [VirtualMachine] (createVirtualMachineObjects api p ns app)" if "p < wd_next w0" for w0 p
    unfolding createVirtualMachineObjects_def
    by (intro phase_deref [OF that] phase_intros makes_cases makes_bind [OF keeps_foreach] makes_bind [OF keeps_steps(3)]
        makes_intros keeps_intros) simp_all
qed

section \<open>All phases\<close>

definition phase_types :: "spec_type list list" where
  "phase_types = [migration_types, [CustomResourceDefinition, CustomResourceDefinitionV1beta1], [VolumeSnapshotRestore],
     storage_types, [Task, Pipeline], rbac_types, core_types, backup_types, [Ingress], [CronJob, Job], [ServiceMonitor],
     [PodDisruptionBudget], [ValidatingWebhookConfiguration, ValidatingWebhookConfigurationV1beta1],
     [CustomResourceObjectYAML], [VirtualMachine]]"

lemma phases_are_creations: "list_all2 creation (create_phases k api ns app options) phase_types"
  unfolding create_phases_def phase_types_def
  by (simp add: migration.creation_axioms crd.creation_axioms snapshot_restore.creation_axioms storage.creation_axioms
      tekton.creation_axioms rbac.creation_axioms core.creation_axioms backup.creation_axioms networking.creation_axioms
      batch.creation_axioms monitor.creation_axioms budget.creation_axioms admission.creation_axioms
      custom.creation_axioms vm.creation_axioms)

text \<open>Specs and the objects made for them, from \<open>w\<close> to \<open>w'\<close>.\<close>

definition made_for :: "'x k8s_world \<Rightarrow> 'x k8s_world \<Rightarrow> ptr \<Rightarrow> ptr \<Rightarrow> bool" where
  "made_for w w' p q \<longleftrightarrow> (q = p \<or> wd_next w \<le> q) \<and> q < wd_next w' \<and> so_type (wd_heap w' q) = so_type (wd_heap w p)"

definition of_types :: "'x k8s_world \<Rightarrow> spec_type list \<Rightarrow> ptr list \<Rightarrow> ptr list" where
  "of_types w ts specs = filter (\<lambda>p. so_type (wd_heap w p) \<in> set ts) specs"

lemma made_for_later: "made_for w w' p q \<Longrightarrow> extends w' w'' \<Longrightarrow> made_for w w'' p q"
  using extends_next [of w' w''] extends_type [of w' w'' q] by (auto simp: made_for_def)

lemma made_for_earlier:
  "made_for w1 w' p q \<Longrightarrow> extends w w1 \<Longrightarrow> p < wd_next w \<Longrightarrow> made_for w w' p q"
  using extends_next [of w w1] extends_type [of w w1 p] by (auto simp: made_for_def)

lemma of_types_later:
  "extends w w1 \<Longrightarrow> \<forall>p\<in>set specs. p < wd_next w \<Longrightarrow> of_types w1 ts specs = of_types w ts specs"
  unfolding of_types_def using extends_type [of w w1] by (intro filter_cong) auto

context creation
begin

lemma run_phase_made:
  assumes "\<forall>p\<in>set specs. p < wd_next w" "run_phase api create specs acc w = Some (Inr res, w')"
  shows "extends w w' \<and> (\<exists>qs. res = acc @ qs \<and> list_all2 (made_for w w') (of_types w ts specs) qs)"
  using assms
proof (induction specs arbitrary: acc w)
  case Nil
  then show ?case by (simp add: of_types_def)
next
  case (Cons p specs)
  obtain r w1 where r: "io_poll (clock api) (create p) k8sObjectCreateTimeout k8s_DefaultRetryInterval w = Some (Inr r, w1)"
      "run_phase api create specs (case r of None \<Rightarrow> acc | Some q \<Rightarrow> acc @ [q]) w1 = Some (Inr res, w')"
    using Cons.prems(2) by (auto simp: io_bind_Inr)
  have p: "p < wd_next w" and ps: "\<forall>q\<in>set specs. q < wd_next w"
    using Cons.prems(1) by auto
  note first = retried [OF p r(1)]
  have "\<forall>q\<in>set specs. q < wd_next w1"
    using ps extends_next [OF first(1)] by auto
  from Cons.IH [OF this r(2)] obtain qs where qs: "extends w1 w'"
      "res = (case r of None \<Rightarrow> acc | Some q \<Rightarrow> acc @ [q]) @ qs" "list_all2 (made_for w1 w') (of_types w ts specs) qs"
    using of_types_later [OF first(1) ps] by auto
  have rest: "list_all2 (made_for w w') (of_types w ts specs) qs"
    using qs(3)
  proof (rule list.rel_mono_strong)
    fix p q
    assume "p \<in> set (of_types w ts specs)" "made_for w1 w' p q"
    then show "made_for w w' p q"
      using made_for_earlier [OF _ first(1)] ps by (auto simp: of_types_def)
  qed
  show ?case
  proof (cases "so_type (wd_heap w p) \<in> set ts")
    case True
    obtain q where "r = Some q" "made_for w w1 p q"
      using first(2) [OF True] by (auto simp: made_def made_for_def)
    then show ?thesis
      using True qs rest made_for_later [OF _ qs(1)] extends_trans [OF first(1) qs(1)] by (auto simp: of_types_def)
  next
    case False
    then show ?thesis
      using first(3) [OF False] qs rest extends_trans [OF first(1) qs(1)] by (simp add: of_types_def)
  qed
qed

end

lemma run_phases_made:
  assumes "list_all2 creation creates tss" "\<forall>p\<in>set specs. p < wd_next w"
    and "run_phases api creates specs acc w = Some (Inr res, w')"
  shows "extends w w' \<and>
    (\<exists>qs. res = acc @ qs \<and> list_all2 (made_for w w') (concat (map (\<lambda>ts. of_types w ts specs) tss)) qs)"
  using assms
proof (induction creates tss arbitrary: acc w rule: list_all2_induct)
  case Nil
  then show ?case by simp
next
  case (Cons create creates ts tss)
  obtain acc1 w1 where 1: "run_phase api create specs acc w = Some (Inr acc1, w1)"
      "run_phases api creates specs acc1 w1 = Some (Inr res, w')"
    using Cons.prems(2) by (auto simp: io_bind_Inr)
  from creation.run_phase_made [OF Cons.hyps(1) Cons.prems(1) 1(1)]
  obtain qs where qs: "extends w w1" "acc1 = acc @ qs" "list_all2 (made_for w w1) (of_types w ts specs) qs"
    by blast
  have "\<forall>p\<in>set specs. p < wd_next w1"
    using Cons.prems(1) extends_next [OF qs(1)] by auto
  from Cons.IH [OF this 1(2)] obtain qs' where qs': "extends w1 w'" "res = acc1 @ qs'"
      "list_all2 (made_for w1 w') (concat (map (\<lambda>ts. of_types w ts specs) tss)) qs'"
    using of_types_later [OF qs(1) Cons.prems(1)] by auto
  have "list_all2 (made_for w w') (of_types w ts specs) qs"
    using qs(3) made_for_later [OF _ qs'(1)] by (auto elim: list_all2_mono)
  moreover have "list_all2 (made_for w w') (concat (map (\<lambda>ts. of_types w ts specs) tss)) qs'"
  proof (rule list.rel_mono_strong [OF qs'(3)])
    fix p q
    assume "p \<in> set (concat (map (\<lambda>ts. of_types w ts specs) tss))" "made_for w1 w' p q"
    then show "made_for w w' p q"
      using made_for_earlier [OF _ qs(1)] Cons.prems(1) by (auto simp: of_types_def)
  qed
  ultimately show ?case
    using qs(2) qs'(2) extends_trans [OF qs(1) qs'(1)] by (auto simp: list_all2_appendI)
qed

lemma mset_of_types_disjoint:
  "distinct (concat tss) \<Longrightarrow>
     mset (concat (map (\<lambda>ts. of_types w ts specs) tss)) = mset (of_types w (concat tss) specs)"
proof (induction tss)
  case Nil
  then show ?case by (simp add: of_types_def)
next
  case (Cons ts tss)
  have "mset (of_types w (ts @ concat tss) specs) = mset (of_types w ts specs) + mset (of_types w (concat tss) specs)"
    using Cons.prems by (induction specs) (auto simp: of_types_def)
  with Cons show ?case by simp
qed

lemma phase_types_distinct: "distinct (concat phase_types)"
  by (simp add: phase_types_def group_types)

section \<open>Specs of other types\<close>

text \<open>Without a secret config map and the placement strategies of two applications, a creation function does
  nothing at all on a spec of a foreign type.\<close>

definition skips :: "(ptr \<Rightarrow> ('x k8s_world, ptr option) io) \<Rightarrow> spec_type list \<Rightarrow> bool" where
  "skips create ts \<longleftrightarrow> (\<forall>w p. so_type (wd_heap w p) \<notin> set ts \<longrightarrow> create p w = Some (Inr None, w))"

lemma skipsI: "(\<And>w p. so_type (wd_heap w p) \<notin> set ts \<Longrightarrow> create p w = Some (Inr None, w)) \<Longrightarrow> skips create ts"
  by (simp add: skips_def)

lemma phases_skip:
  assumes "k_secretConfigMapName k = []" "\<not> Contains_str (app_Key app) ''fastpath''" "\<not> Contains_str (app_Key app) ''repl-vps''"
  shows "list_all2 skips (create_phases k api ns app options) phase_types"
  unfolding create_phases_def phase_types_def
  by (simp only: list_all2_Cons list_all2_Nil; intro conjI skipsI;
      simp add: assms annotate_spec_def apply_vps_def group_types io_return_def
    createMigrationObjects_def createCRDObjects_def createVolumeSnapshotRestore_def createStorageObject_def
    createTektonObjects_def createRbacObjects_def createCoreObject_def createBackupObjects_def createNetworkingObjects_def
    createBatchObjects_def createServiceMonitorObjects_def createPodDisruptionBudgetObjects_def
    createAdmissionRegistrationObjects_def createCustomResourceObjects_def createVirtualMachineObjects_def)


lemma run_phase_skip:
  assumes "skips create ts" "\<forall>p\<in>set specs. so_type (wd_heap w p) \<notin> set ts"
  shows "run_phase api create specs acc w = Some (Inr acc, w)"
  using assms(2)
proof (induction specs)
  case (Cons p specs)
  have "create p w = Some (Inr None, w)"
    using assms(1) Cons.prems by (simp add: skips_def)
  then have "io_poll (clock api) (create p) k8sObjectCreateTimeout k8s_DefaultRetryInterval w = Some (Inr None, w)"
    by (rule io_poll_first) (simp add: k8s_times)
  then show ?case
    using Cons by (simp add: io_bind_def)
qed (simp add: io_return_def)

lemma run_phases_skip:
  assumes "list_all2 skips creates tss" "\<forall>p\<in>set specs. so_type (wd_heap w p) \<notin> set (concat tss)"
  shows "run_phases api creates specs acc w = Some (Inr acc, w)"
  using assms by (induction creates tss rule: list_all2_induct) (simp_all add: io_return_def io_bind_def run_phase_skip)

lemma run_phases_append:
  "run_phases api (cs1 @ cs2) specs acc = io_bind (run_phases api cs1 specs acc) (run_phases api cs2 specs)"
  by (induction cs1 arbitrary: acc) (auto simp: io_bind_assoc intro!: arg_cong2 [where f = io_bind])

section \<open>The objects of an application\<close>

text \<open>The small cluster creates every namespace and every config map, or finds it.\<close>

lemma mem_create_or_get:
  "\<exists>o1 w'. create_or_get mem_api t obj (so_Namespace obj) w = Some (Inr o1, w') \<and>
     wd_heap w' = wd_heap w \<and> wd_next w' = wd_next w"
proof (cases "list_ex (same_object t (so_Name obj) (so_Namespace obj)) (wd_ext w)")
  case True
  then obtain o1 os where "filter (same_object t (so_Name obj) (so_Namespace obj)) (wd_ext w) = o1 # os"
    by (metis filter_empty_conv list.exhaust list_ex_iff)
  then show ?thesis
    using True by (simp add: create_or_get_def io_catch_def obj_call_def mem_Create_def mem_Get_def)
next
  case False
  then show ?thesis
    by (auto simp: create_or_get_def io_catch_def obj_call_def mem_Create_def)
qed

lemma mem_namespace:
  "\<exists>ns w'. createNamespace mem_api app namespace options w = Some (Inr ns, w') \<and> wd_heap w' = wd_heap w \<and> wd_next w' = wd_next w"
proof -
  let ?l = "MergeMaps (gm_put ''app'' (app_Key app) (wd_label w)) (opt_Labels options)"
  obtain o1 w' where w': "create_or_get mem_api Namespace ((new_obj Namespace namespace [])\<lparr>so_Labels := ?l\<rparr>) []
      (w\<lparr>wd_label := ?l\<rparr>) = Some (Inr o1, w')" "wd_heap w' = wd_heap w" "wd_next w' = wd_next w"
    using mem_create_or_get [of Namespace "(new_obj Namespace namespace [])\<lparr>so_Labels := ?l\<rparr>" "w\<lparr>wd_label := ?l\<rparr>"]
    by (auto simp: new_obj_def)
  then have "createNamespace mem_api app namespace options w = Some (Inr o1, w')"
    unfolding createNamespace_def
    by (intro io_poll_first) (simp_all add: io_bind_def io_modify_def io_gets_def failing_with_def io_catch_def k8s_times)
  with w' show ?thesis by blast
qed

lemma mem_configmap:
  assumes "so_type (wd_heap w p) = ConfigMap"
  shows "\<exists>q w'. createCoreObject k mem_api p ns app options w = Some (Inr (Some q), w')"
proof -
  let ?o = "(wd_heap w p)\<lparr>so_Namespace := ns\<rparr>" and ?w = "w\<lparr>wd_heap := (wd_heap w)(p := (wd_heap w p)\<lparr>so_Namespace := ns\<rparr>)\<rparr>"
  obtain o1 w' where "create_or_get mem_api ConfigMap ?o ns ?w = Some (Inr o1, w')"
    using mem_create_or_get [of ConfigMap ?o ?w] by auto
  then show ?thesis
    using assms by (simp add: createCoreObject_def set_namespace_def mutate_def create_spec_def failing_with_def
        io_bind_def io_modify_def deref_def io_gets_def io_catch_def new_spec_def alloc_def io_return_def)
qed

definition sample_specs :: "spec_obj list" where
  "sample_specs = [new_obj ConfigMap ''cm'' [], new_obj LimitRange ''lr'' []]"

lemma sample_created:
  "\<exists>objs w'. CreateSpecObjects sample_k8s mem_api (sample_app ''app'' 2) ''ns'' sample_options (world_of sample_specs)
     = Some (Inr objs, w')"
proof -
  let ?app = "sample_app ''app'' 2" and ?w = "world_of sample_specs"
  obtain ns w1 where ns: "createNamespace mem_api ?app ''ns'' sample_options ?w = Some (Inr ns, w1)"
      "wd_heap w1 = wd_heap ?w" "wd_next w1 = wd_next ?w"
    using mem_namespace by blast
  let ?cs = "create_phases sample_k8s mem_api (so_Name ns) ?app sample_options"
  have types: "so_type (wd_heap w1 0) = ConfigMap" "so_type (wd_heap w1 (Suc 0)) = LimitRange"
    by (simp_all add: ns world_of_def sample_specs_def new_obj_def)
  have skip: "list_all2 skips ?cs phase_types"
    by (rule phases_skip) (simp_all add: HasPrefix_def)
  obtain q w2 where core: "createCoreObject sample_k8s mem_api 0 (so_Name ns) ?app sample_options w1 = Some (Inr (Some q), w2)"
    using mem_configmap [OF types(1)] by blast
  have "extends w1 w2"
    using keepsD [OF core.extending core] by simp
  then have types2: "so_type (wd_heap w2 0) = ConfigMap" "so_type (wd_heap w2 (Suc 0)) = LimitRange"
    using types extends_type [of w1 w2] by (simp_all add: ns world_of_def sample_specs_def)
  have two: "[0..<2] = [0, Suc 0]"
    by (simp add: upt_rec)
  have before: "run_phases mem_api (take 6 ?cs) [0..<2] [] w1 = Some (Inr [], w1)"
    by (rule run_phases_skip [OF list_all2_takeI [OF skip, of 6]]) (simp add: two types phase_types_def group_types)
  have after: "run_phases mem_api (drop 7 ?cs) [0..<2] [q] w2 = Some (Inr [q], w2)"
    by (rule run_phases_skip [OF list_all2_dropI [OF skip, of 7]]) (simp add: two types2 phase_types_def group_types)
  have "skips (?cs ! 6) core_types"
    using list_all2_nthD [OF skip, of 6] by (simp add: phase_types_def create_phases_def)
  then have "run_phase mem_api (?cs ! 6) [Suc 0] [q] w2 = Some (Inr [q], w2)"
    by (rule run_phase_skip) (simp add: types2 group_types)
  moreover have "io_poll (clock mem_api) ((?cs ! 6) 0) k8sObjectCreateTimeout k8s_DefaultRetryInterval w1 = Some (Inr (Some q), w2)"
    by (rule io_poll_first) (simp_all add: create_phases_def core k8s_times)
  ultimately have own: "run_phase mem_api (?cs ! 6) [0..<2] [] w1 = Some (Inr [q], w2)"
    unfolding two by (subst run_phase.simps(2)) (simp only: io_bind_def option.case prod.case sum.case append_Nil)
  have "run_phases mem_api (take 6 ?cs @ ?cs ! 6 # drop 7 ?cs) [0..<2] [] w1 = Some (Inr [q], w2)"
    by (simp only: run_phases_append run_phases.simps(2) io_bind_def before own after option.case prod.case sum.case)
  moreover have "take 6 ?cs @ ?cs ! 6 # drop 7 ?cs = ?cs"
    by (simp add: create_phases_def)
  ultimately have "run_phases mem_api ?cs [0..<2] [] w1 = Some (Inr [q], w2)"
    by (simp only:)
  then show ?thesis
    by (simp add: CreateSpecObjects_def io_bind_def ns)
qed

lemma specs_made:
  assumes "list_all (\<lambda>p. p < wd_next w) (SpecList app)"
    and "CreateSpecObjects k api app namespace options w = Some (Inr objs, w')"
  shows "list_all2 (made_for w w') (concat (map (\<lambda>ts. of_types w ts (SpecList app)) phase_types)) objs"
proof -
  obtain ns w1 where 1: "createNamespace api app namespace options w = Some (Inr ns, w1)"
      "run_phases api (create_phases k api (so_Name ns) app options) (SpecList app) [] w1 = Some (Inr objs, w')"
    using assms(2) by (auto simp: CreateSpecObjects_def io_bind_Inr)
  have e: "extends w w1"
    using keepsD [OF keeps_namespace(1) 1(1)] by simp
  have ps: "\<forall>p\<in>set (SpecList app). p < wd_next w"
    using assms(1) by (simp add: list_all_iff)
  then have "\<forall>p\<in>set (SpecList app). p < wd_next w1"
    using extends_next [OF e] by auto
  from run_phases_made [OF phases_are_creations this 1(2)]
  have "list_all2 (made_for w1 w') (concat (map (\<lambda>ts. of_types w ts (SpecList app)) phase_types)) objs"
    using of_types_later [OF e ps] by simp
  then show ?thesis
    using made_for_earlier [OF _ e] ps by (elim list.rel_mono_strong) (auto simp: of_types_def)
qed

text \<open>C2: \<open>CreateSpecObjects\<close>: if it succeeds, it has made one object for every spec whose type belongs to one
  of the fifteen phases, in the order of the phases and, within a phase, of the spec list; the object has
  the type of its spec and is new, or is the spec itself. Specs of other types are passed over, and
  none is created twice.\<close>

theorem spec_objects_created:
  assumes "list_all (\<lambda>p. p < wd_next w) (SpecList app)"
    and "CreateSpecObjects k api app namespace options w = Some (Inr objs, w')"
  shows "list_all2 (made_for w w') (concat (map (\<lambda>ts. of_types w ts (SpecList app)) phase_types)) objs \<and>
    mset (concat (map (\<lambda>ts. of_types w ts (SpecList app)) phase_types)) =
      mset (of_types w (concat phase_types) (SpecList app))"
  using specs_made [OF assms] mset_of_types_disjoint [OF phase_types_distinct] by simp

theorem spec_objects_created_witness:
  "case CreateSpecObjects sample_k8s mem_api (sample_app ''app'' 2) ''ns'' sample_options (world_of sample_specs) of
     Some (Inr objs, w') \<Rightarrow> list_all2 (made_for (world_of sample_specs) w') [0] objs
   | _ \<Rightarrow> False"
proof -
  obtain objs w' where run: "CreateSpecObjects sample_k8s mem_api (sample_app ''app'' 2) ''ns'' sample_options
      (world_of sample_specs) = Some (Inr objs, w')"
    using sample_created by blast
  have "list_all (\<lambda>p. p < wd_next (world_of sample_specs)) (SpecList (sample_app ''app'' 2))"
    by (simp add: world_of_def sample_specs_def upt_rec)
  moreover have "concat (map (\<lambda>ts. of_types (world_of sample_specs) ts [0..<2]) phase_types) = [0]"
    by (simp add: of_types_def phase_types_def group_types world_of_def sample_specs_def new_obj_def upt_rec)
  ultimately show ?thesis
    using spec_objects_created [OF _ run] by (simp add: run)
qed

end
