(* ===== verification/K8sSchedule.thy ===== *)
theory K8sSchedule
  imports K8sPhases
begin

text \<open>
  Scheduling applications (\<open>k8s.go\<close>, \<open>helm.go\<close>): the validation of decoded specs, applications that come as
  Helm charts, \<open>Schedule\<close> and \<open>ScheduleWithCustomAppSpecs\<close>, and the operations on the spec list of a
  scheduled application.
\<close>

section \<open>Decoded specs\<close>

definition validated_types :: "spec_type list" where
  "validated_types = [Deployment, StatefulSet, DaemonSet, Service, PersistentVolumeClaim, StorageClass, VolumeSnapshot,
     GroupVolumeSnapshot, Secret, ConfigMap, Rule, Pod, ClusterPair, Migration, MigrationSchedule, BackupLocation,
     ApplicationBackup, SchedulePolicy, ApplicationRestore, ApplicationClone, VolumeSnapshotRestore, AutopilotRuleSpec,
     ServiceAccount, ClusterRole, ClusterRoleBinding, Role, RoleBinding, CronJob, Job, LimitRange, Ingress, Prometheus,
     PrometheusRule, ServiceMonitor, Namespace, CustomResourceDefinitionV1beta1, CustomResourceDefinition,
     PodDisruptionBudget, NetworkPolicy, Endpoints, ResourceTransformation, ValidatingWebhookConfiguration,
     ValidatingWebhookConfigurationList, PersistentVolume, VirtualMachine, Task, Pipeline]"

definition validateSpec :: "'x k8s_api \<Rightarrow> spec_obj \<Rightarrow> spec_obj result" where
  "validateSpec api obj =
     (if so_type obj \<in> set validated_types then Inr obj
      else Inl (Errorf (''unsupported object: '' @ api_TypeOf api obj)))"

definition modifyImageInContainers :: "Container list \<Rightarrow> string \<Rightarrow> Container list" where
  "modifyImageInContainers containers imageName =
     map (\<lambda>c. c\<lparr>ctr_Image := imageName @ ''/'' @ ctr_Image c\<rparr>) containers"

definition substituteImageWithInternalRegistry :: "'x k8s_api \<Rightarrow> spec_obj \<Rightarrow> spec_obj" where
  "substituteImageWithInternalRegistry api obj =
     (let internalDockerRegistry = api_Getenv api ''INTERNAL_DOCKER_REGISTRY''
      in (if internalDockerRegistry \<noteq> [] \<and> so_type obj \<in> {DaemonSet, Deployment, StatefulSet, Job, Pod}
          then obj\<lparr>so_Pod := (so_Pod obj)\<lparr>
             ps_InitContainers := modifyImageInContainers (ps_InitContainers (so_Pod obj)) internalDockerRegistry,
             ps_Containers := modifyImageInContainers (ps_Containers (so_Pod obj)) internalDockerRegistry\<rparr>\<rparr>
          else obj))"

text \<open>The documents of the buffer are decoded, validated and changed one after another.\<close>

fun parse_documents :: "'x k8s_api \<Rightarrow> string list \<Rightarrow> spec_obj list \<Rightarrow> spec_obj list result" where
  "parse_documents api [] specs = Inr specs"
| "parse_documents api (specContents # docs) specs =
     (if TrimSpace specContents = [] then parse_documents api docs specs
      else (case api_decodeSpec api specContents of
        Inl err \<Rightarrow> Inl err
      | Inr obj \<Rightarrow> (case validateSpec api obj of
          Inl err \<Rightarrow> Inl err
        | Inr specObj \<Rightarrow> parse_documents api docs (specs @ [substituteImageWithInternalRegistry api specObj]))))"

definition ParseSpecsFromYamlBuf :: "'x k8s_api \<Rightarrow> string \<Rightarrow> ('x k8s_world, ptr list) io" where
  "ParseSpecsFromYamlBuf api yamlBuf = (case parse_documents api (api_Documents api yamlBuf) [] of
     Inl err \<Rightarrow> io_error err
   | Inr specs \<Rightarrow> io_each alloc specs)"

section \<open>Helm charts\<close>

text \<open>\<open>SetHelmParams\<close> writes to the repository record as it goes: an error leaves what was written.\<close>

definition helm_names :: "labels \<Rightarrow> bool \<Rightarrow> HelmRepo \<Rightarrow> HelmRepo" where
  "helm_names data upgrade repo =
     (if upgrade then repo\<lparr>
        helm_RepoName := (case map_of data ''repo-name'' of Some n \<Rightarrow> n | None \<Rightarrow> helm_RepoName repo),
        helm_ChartName := (case map_of data ''chart-name'' of Some n \<Rightarrow> n | None \<Rightarrow> helm_ChartName repo)\<rparr>
      else repo)"

definition helm_values :: "labels \<Rightarrow> string \<Rightarrow> string" where
  "helm_values data vals =
     (if gm_index [] data ''extra-values'' \<noteq> [] then vals @ '','' @ gm_index [] data ''extra-values'' else vals)"

definition helm_params :: "string \<Rightarrow> labels \<Rightarrow> bool \<Rightarrow> HelmRepo \<Rightarrow> HelmRepo \<times> go_error option" where
  "helm_params appKey data upgrade repo =
     (let repo1 = helm_names data upgrade repo; urlKey = (if upgrade then ''upgrade-url'' else ''install-url'')
      in (case map_of data urlKey of
           None \<Rightarrow> (repo1, Some (Errorf (''helm repo url '' @ [CHR 0x27] @ urlKey @ [CHR 0x27] @
                      '' not provided in the configmap '' @ appKey)))
         | Some url \<Rightarrow>
             (let repo2 = repo1\<lparr>helm_URL := url\<rparr>
              in (case map_of data ''values'' of
                   None \<Rightarrow> (repo2, Some (Errorf (''helm install custom values not provided in the configmap '' @ appKey)))
                 | Some vals \<Rightarrow> (repo2\<lparr>helm_Values := helm_values data vals\<rparr>, None)))))"

definition SetHelmParams :: "'x k8s_api \<Rightarrow> string \<Rightarrow> ptr \<Rightarrow> ScheduleOptions \<Rightarrow> ('x k8s_world, unit) io" where
  "SetHelmParams api appKey helmRepo options =
     io_bind (failing_with (obj_call ConfigMap (api_Get api ConfigMap appKey ''default''))
       (\<lambda>err. Errorf (''failed to get config map: '' @ err))) (\<lambda>configMap.
     io_bind (deref helmRepo) (\<lambda>obj. (case helm_params appKey (so_Data configMap) (opt_Upgrade options) (so_Helm obj) of
       (repo, err) \<Rightarrow> io_bind (mutate helmRepo (\<lambda>o1. o1\<lparr>so_Helm := repo\<rparr>)) (\<lambda>_. (case err of
         Some e \<Rightarrow> io_error e
       | None \<Rightarrow> io_return ())))))"

definition helm_install ::
  "'x k8s_api \<Rightarrow> app_spec \<Rightarrow> string \<Rightarrow> ScheduleOptions \<Rightarrow> ptr \<Rightarrow> ('x k8s_world, ptr list) io" where
  "helm_install api app appNamespace options repoInfo =
     io_bind (SetHelmParams api (app_Key app) repoInfo options) (\<lambda>_.
     io_bind (deref repoInfo) (\<lambda>r1.
     io_bind (ext_call (api_RepoAdd api (so_Helm r1))) (\<lambda>_.
     io_bind (ext_call (api_RepoUpdate api)) (\<lambda>_.
     io_bind (createNamespace api app appNamespace options) (\<lambda>_.
     io_bind (mutate repoInfo (\<lambda>o1. o1\<lparr>so_Namespace := appNamespace\<rparr>)) (\<lambda>_.
     io_bind (deref repoInfo) (\<lambda>r2.
     io_bind (if opt_Upgrade options then ext_call (api_UpgradeChart api (so_Helm r2) appNamespace)
              else ext_call (api_InstallChart api (so_Helm r2) appNamespace))
       (ParseSpecsFromYamlBuf api))))))))"

fun helm_loop ::
  "'x k8s_api \<Rightarrow> app_spec \<Rightarrow> string \<Rightarrow> ScheduleOptions \<Rightarrow> ptr list \<Rightarrow> ptr list \<Rightarrow> ('x k8s_world, ptr list) io" where
  "helm_loop api app ns options [] specObjects = io_return specObjects"
| "helm_loop api app ns options (p # specs) specObjects =
     io_bind (deref p) (\<lambda>obj.
       if so_type obj = HelmRepoSpec then
         io_bind (helm_install api app ns options p) (\<lambda>new. helm_loop api app ns options specs (specObjects @ new))
       else helm_loop api app ns options specs specObjects)"

definition HelmSchedule ::
  "'x k8s_api \<Rightarrow> app_spec \<Rightarrow> string \<Rightarrow> ScheduleOptions \<Rightarrow> ('x k8s_world, ptr list) io" where
  "HelmSchedule api app appNamespace options = helm_loop api app appNamespace options (SpecList app) []"

definition UnInstallHelmChart :: "'x k8s_api \<Rightarrow> ptr \<Rightarrow> ('x k8s_world, ptr list) io" where
  "UnInstallHelmChart api repoInfo =
     io_bind (deref repoInfo) (\<lambda>obj.
     io_bind (ext_call (api_UninstallChart api (so_Helm obj) (so_Namespace obj))) (ParseSpecsFromYamlBuf api))"

section \<open>Scheduling\<close>

definition isCsiApp :: "ScheduleOptions \<Rightarrow> string \<Rightarrow> bool" where
  "isCsiApp options appName \<longleftrightarrow> list_ex (\<lambda>app. app = appName) (opt_CsiAppKeys options)"

fun get_apps ::
  "(string, app_spec) gomap \<Rightarrow> ScheduleOptions \<Rightarrow> string list \<Rightarrow> app_spec list \<Rightarrow> app_spec list result" where
  "get_apps factory options [] apps = Inr apps"
| "get_apps factory options (key # keys) apps = (case factory_Get key factory of
     Inl err \<Rightarrow> Inl err
   | Inr appSpec \<Rightarrow> get_apps factory options keys
       (apps @ [if isCsiApp options key then appSpec\<lparr>IsCSI := True\<rparr> else appSpec]))"

text \<open>
  The loop over the applications. The namespace of the options is set for one application and put back
  after it; the rotation of the topology labels stays. The context of \<open>Schedule\<close> also has the namespace in
  its application, that of \<open>ScheduleWithCustomAppSpecs\<close> does not.
\<close>

definition new_context :: "bool \<Rightarrow> string \<Rightarrow> app_spec \<Rightarrow> string \<Rightarrow> ptr list \<Rightarrow> ScheduleOptions \<Rightarrow> sched_ctx" where
  "new_context named instanceID app appNamespace specObjects options =
     \<lparr>ctx_UID = instanceID,
      ctx_App = \<lparr>app_Key = app_Key app, SpecList = specObjects, Enabled = Enabled app, IsCSI = False,
                 NameSpace = (if named then appNamespace else [])\<rparr>,
      ctx_ScheduleOptions = options, ctx_SkipClusterScopedObject = False\<rparr>"

definition app_namespace :: "app_spec \<Rightarrow> string \<Rightarrow> ScheduleOptions \<Rightarrow> string" where
  "app_namespace app instanceID options =
     (if opt_Namespace options \<noteq> [] then opt_Namespace options else AppSpec_GetID app instanceID)"

fun schedule_apps ::
  "K8s \<Rightarrow> 'x k8s_api \<Rightarrow> bool \<Rightarrow> string \<Rightarrow> string \<Rightarrow> app_spec list \<Rightarrow> ScheduleOptions \<Rightarrow> sched_ctx list
     \<Rightarrow> ('x k8s_world, sched_ctx list) io" where
  "schedule_apps k api named instanceID oldNamespace [] options contexts = io_return contexts"
| "schedule_apps k api named instanceID oldNamespace (app # apps) options contexts =
     (let appNamespace = app_namespace app instanceID options;
          options' = rotateTopologyArray (options\<lparr>opt_Namespace := appNamespace\<rparr>)
      in io_bind (CreateSpecObjects k api app appNamespace options') (\<lambda>specObjects.
         io_bind (HelmSchedule api app appNamespace options') (\<lambda>helmSpecObjects.
           schedule_apps k api named instanceID oldNamespace apps (options'\<lparr>opt_Namespace := oldNamespace\<rparr>)
             (contexts @ [new_context named instanceID app appNamespace (specObjects @ helmSpecObjects) options']))))"

definition Schedule ::
  "K8s \<Rightarrow> 'x k8s_api \<Rightarrow> string \<Rightarrow> ScheduleOptions \<Rightarrow> ('x k8s_world, sched_ctx list) io" where
  "Schedule k api instanceID options =
     io_bind (if opt_AppKeys options \<noteq> []
              then io_lift (Some (get_apps (k_SpecFactory k) options (opt_AppKeys options) []))
              else io_return (factory_GetAll (k_SpecFactory k))) (\<lambda>apps.
       schedule_apps k api True instanceID (opt_Namespace options) apps options [])"

definition ScheduleWithCustomAppSpecs ::
  "K8s \<Rightarrow> 'x k8s_api \<Rightarrow> app_spec list \<Rightarrow> string \<Rightarrow> ScheduleOptions \<Rightarrow> ('x k8s_world, sched_ctx list) io" where
  "ScheduleWithCustomAppSpecs k api apps instanceID options =
     schedule_apps k api False instanceID (opt_Namespace options) apps options []"

section \<open>The spec list of a context\<close>

fun add_apps ::
  "K8s \<Rightarrow> 'x k8s_api \<Rightarrow> string \<Rightarrow> ScheduleOptions \<Rightarrow> app_spec list \<Rightarrow> ptr list \<Rightarrow> ('x k8s_world, ptr list) io" where
  "add_apps k api appNamespace options [] specObjects = io_return specObjects"
| "add_apps k api appNamespace options (app # apps) specObjects =
     io_bind (CreateSpecObjects k api app appNamespace options) (\<lambda>objects.
     io_bind (HelmSchedule api app appNamespace options) (\<lambda>helmSpecObjects.
       add_apps k api appNamespace options apps (specObjects @ objects @ helmSpecObjects)))"

text \<open>\<open>AddTasks\<close> and \<open>ScheduleUninstall\<close> do not look at the CSI keys.\<close>

definition no_csi :: "ScheduleOptions \<Rightarrow> ScheduleOptions" where
  "no_csi options = options\<lparr>opt_CsiAppKeys := []\<rparr>"

definition AddTasks ::
  "K8s \<Rightarrow> 'x k8s_api \<Rightarrow> sched_ctx option \<Rightarrow> ScheduleOptions \<Rightarrow> ('x k8s_world, sched_ctx) io" where
  "AddTasks k api ctx options = (case ctx of
     None \<Rightarrow> io_error (Errorf ''context to add tasks to cannot be nil'')
   | Some c \<Rightarrow>
       (if opt_AppKeys options = [] then
          io_error (Errorf ''need to specify list of applications to add to context'')
        else
          io_bind (io_lift (Some (get_apps (k_SpecFactory k) (no_csi options) (opt_AppKeys options) []))) (\<lambda>apps.
          io_bind (add_apps k api (opt_Namespace (ctx_ScheduleOptions c)) options apps (SpecList (ctx_App c))) (\<lambda>specObjects.
            io_return (c\<lparr>ctx_App := (ctx_App c)\<lparr>SpecList := specObjects\<rparr>\<rparr>)))))"

definition removable_types :: "spec_type list" where
  "removable_types = [ConfigMap, ClusterRole, ClusterRoleBinding, Deployment, Job, PersistentVolumeClaim, Prometheus,
     PrometheusRule, Role, RoleBinding, Secret, Service, ServiceAccount, ServiceMonitor, StatefulSet, ClusterPair]"

definition removed_by :: "spec_obj \<Rightarrow> spec_obj \<Rightarrow> bool" where
  "removed_by spec removeSpec \<longleftrightarrow>
     so_type spec \<in> set removable_types \<and> so_type removeSpec = so_type spec \<and> so_Name spec = so_Name removeSpec"

definition RemoveAppSpecsByName :: "sched_ctx \<Rightarrow> ptr list \<Rightarrow> ('x k8s_world, sched_ctx) io" where
  "RemoveAppSpecsByName ctx removeSpecs =
     io_gets (\<lambda>w. ctx\<lparr>ctx_App := (ctx_App ctx)\<lparr>SpecList :=
       filter (\<lambda>spec. \<not> list_ex (\<lambda>r. removed_by (wd_heap w spec) (wd_heap w r)) removeSpecs) (SpecList (ctx_App ctx))\<rparr>\<rparr>)"

fun uninstall_charts :: "'x k8s_api \<Rightarrow> ptr list \<Rightarrow> ptr list \<Rightarrow> ('x k8s_world, ptr list) io" where
  "uninstall_charts api [] removeSpecs = io_return removeSpecs"
| "uninstall_charts api (p # specs) removeSpecs =
     io_bind (deref p) (\<lambda>obj.
       if so_type obj = HelmRepoSpec then
         io_bind (UnInstallHelmChart api p) (\<lambda>new. uninstall_charts api specs (removeSpecs @ new))
       else uninstall_charts api specs removeSpecs)"

definition ScheduleUninstall ::
  "K8s \<Rightarrow> 'x k8s_api \<Rightarrow> sched_ctx option \<Rightarrow> ScheduleOptions \<Rightarrow> ('x k8s_world, sched_ctx) io" where
  "ScheduleUninstall k api ctx options = (case ctx of
     None \<Rightarrow> io_error (Errorf ''context to remove tasks to cannot be nil'')
   | Some c \<Rightarrow>
       (if opt_AppKeys options = [] then
          io_error (Errorf ''need to specify list of applications to remove to context'')
        else
          io_bind (io_lift (Some (get_apps (k_SpecFactory k) (no_csi options) (opt_AppKeys options) []))) (\<lambda>apps.
          io_bind (uninstall_charts api (concat (map SpecList apps)) []) (\<lambda>removeSpecs.
            RemoveAppSpecsByName c removeSpecs))))"

text \<open>\<open>meta.Accessor\<close> of the Kubernetes library fails for the types without object metadata; \<open>accessor\<close> is
  its error for an object. What was changed before an error stays changed.\<close>

fun set_namespaces :: "(spec_obj \<Rightarrow> go_error option) \<Rightarrow> string \<Rightarrow> ptr list \<Rightarrow> ('x k8s_world, unit) io" where
  "set_namespaces accessor i [] = io_return ()"
| "set_namespaces accessor i (p # specs) =
     io_bind (deref p) (\<lambda>obj. (case accessor obj of
       Some err \<Rightarrow> io_error err
     | None \<Rightarrow> io_bind (mutate p (\<lambda>o1. o1\<lparr>so_Namespace := i\<rparr>)) (\<lambda>_. set_namespaces accessor i specs)))"

definition UpdateTasksID ::
  "(spec_obj \<Rightarrow> go_error option) \<Rightarrow> sched_ctx \<Rightarrow> string \<Rightarrow> 'x k8s_world \<Rightarrow> ((go_error option \<times> sched_ctx) \<times> 'x k8s_world) option" where
  "UpdateTasksID accessor ctx i w = (case set_namespaces accessor i (SpecList (ctx_App ctx)) w of
     None \<Rightarrow> None
   | Some (Inl err, w') \<Rightarrow> Some ((Some err, ctx\<lparr>ctx_UID := i\<rparr>), w')
   | Some (Inr _, w') \<Rightarrow> Some ((None, ctx\<lparr>ctx_UID := i\<rparr>), w'))"

section \<open>Contexts\<close>

lemma rotate_topology: "opt_TopologyLabels (rotateTopologyArray options) = rotate1 (opt_TopologyLabels options)"
  by (cases "opt_TopologyLabels options" rule: list.exhaust; cases "tl (opt_TopologyLabels options)")
     (auto simp: rotateTopologyArray_def)

lemma rotate_namespace [simp]: "opt_Namespace (rotateTopologyArray options) = opt_Namespace options"
  by (simp add: rotateTopologyArray_def)

definition labels_of_ctx :: "sched_ctx \<Rightarrow> labels list" where
  "labels_of_ctx c = opt_TopologyLabels (ctx_ScheduleOptions c)"

text \<open>What a context has from its application and the options.\<close>

definition context_for :: "string \<Rightarrow> ScheduleOptions \<Rightarrow> app_spec \<Rightarrow> sched_ctx \<Rightarrow> bool" where
  "context_for instanceID options app c \<longleftrightarrow> ctx_UID c = instanceID \<and> app_Key (ctx_App c) = app_Key app \<and>
     Enabled (ctx_App c) = Enabled app \<and> opt_Namespace (ctx_ScheduleOptions c) = app_namespace app instanceID options"

lemma schedule_apps_contexts:
  assumes "schedule_apps k api named instanceID (opt_Namespace options) apps options ctxs w = Some (Inr res, w')"
  shows "\<exists>new. res = ctxs @ new \<and> list_all2 (context_for instanceID options) apps new \<and>
    map labels_of_ctx new = map (\<lambda>i. rotate (Suc i) (opt_TopologyLabels options)) [0..<length apps]"
  using assms
proof (induction apps arbitrary: options ctxs w)
  case Nil
  then show ?case by simp
next
  case (Cons app apps)
  let ?ns = "app_namespace app instanceID options"
  let ?o = "rotateTopologyArray (options\<lparr>opt_Namespace := ?ns\<rparr>)"
  let ?next = "?o\<lparr>opt_Namespace := opt_Namespace options\<rparr>"
  obtain objs w1 where
    "schedule_apps k api named instanceID (opt_Namespace ?next) apps ?next (ctxs @ [new_context named instanceID app ?ns objs ?o]) w1
       = Some (Inr res, w')"
    using Cons.prems by (auto simp: Let_def io_bind_Inr)
  from Cons.IH [OF this] obtain new where new: "res = (ctxs @ [new_context named instanceID app ?ns objs ?o]) @ new"
      "list_all2 (context_for instanceID ?next) apps new"
      "map labels_of_ctx new = map (\<lambda>i. rotate (Suc i) (opt_TopologyLabels ?next)) [0..<length apps]"
    by blast
  have "context_for instanceID ?next = context_for instanceID options"
    by (simp add: context_for_def app_namespace_def fun_eq_iff)
  moreover have "context_for instanceID options app (new_context named instanceID app ?ns objs ?o)"
    by (simp add: context_for_def new_context_def)
  moreover have "labels_of_ctx (new_context named instanceID app ?ns objs ?o) = rotate (Suc 0) (opt_TopologyLabels options)"
    by (simp add: labels_of_ctx_def new_context_def rotate_topology)
  moreover have "rotate (Suc i) (opt_TopologyLabels ?next) = rotate (Suc (Suc i)) (opt_TopologyLabels options)" for i
    by (simp add: rotate_topology rotate1_rotate_swap)
  ultimately show ?case
    using new by (intro exI [of _ "new_context named instanceID app ?ns objs ?o # new"])
      (simp add: map_upt_Suc del: upt_Suc)
qed

text \<open>The applications that the options name, or all of the factory.\<close>

definition scheduled_apps :: "K8s \<Rightarrow> ScheduleOptions \<Rightarrow> app_spec list result" where
  "scheduled_apps k options =
     (if opt_AppKeys options \<noteq> [] then get_apps (k_SpecFactory k) options (opt_AppKeys options) []
      else Inr (factory_GetAll (k_SpecFactory k)))"

text \<open>C4: \<open>Schedule\<close>: it returns one context per application, in order, with the instance ID, the key of the
  application and its own namespace: the one of the options if they name one, and otherwise
  \<open>key-instanceID\<close>, whatever the applications before it used. The topology labels rotate by one from each
  application to the next.\<close>

theorem schedule_contexts:
  "case Schedule k api instanceID options w of
     Some (Inr ctxs, w') \<Rightarrow> (case scheduled_apps k options of
       Inr apps \<Rightarrow> list_all2 (context_for instanceID options) apps ctxs \<and>
         map labels_of_ctx ctxs = map (\<lambda>i. rotate (Suc i) (opt_TopologyLabels options)) [0..<length apps]
     | Inl err \<Rightarrow> False)
   | Some (Inl err, w') \<Rightarrow> (case scheduled_apps k options of Inl err' \<Rightarrow> err = err' \<and> w' = w | Inr apps \<Rightarrow> True)
   | None \<Rightarrow> True"
proof -
  have S: "Schedule k api instanceID options w = (case scheduled_apps k options of
      Inl err \<Rightarrow> Some (Inl err, w)
    | Inr apps \<Rightarrow> schedule_apps k api True instanceID (opt_Namespace options) apps options [] w)"
    by (simp add: Schedule_def scheduled_apps_def io_bind_def io_lift_def io_return_def split: sum.splits)
  show ?thesis
  proof (cases "scheduled_apps k options")
    case (Inl err)
    then show ?thesis by (simp add: S)
  next
    case (Inr apps)
    have "case schedule_apps k api True instanceID (opt_Namespace options) apps options [] w of
        Some (Inr ctxs, w') \<Rightarrow> list_all2 (context_for instanceID options) apps ctxs \<and>
          map labels_of_ctx ctxs = map (\<lambda>i. rotate (Suc i) (opt_TopologyLabels options)) [0..<length apps]
      | _ \<Rightarrow> True"
      by (auto split: option.split prod.split sum.split dest!: schedule_apps_contexts)
    with Inr show ?thesis
      by (simp add: S split: option.splits prod.splits sum.splits)
  qed
qed

section \<open>Changes of the spec list\<close>

lemma add_apps_extends:
  "add_apps k api ns options apps objs w = Some (Inr res, w') \<Longrightarrow> \<exists>new. res = objs @ new"
proof (induction apps arbitrary: objs w)
  case (Cons app apps)
  then obtain new w1 where "add_apps k api ns options apps (objs @ new) w1 = Some (Inr res, w')"
    by (auto simp: io_bind_Inr)
  from Cons.IH [OF this] show ?case by auto
qed simp

theorem add_tasks_extends:
  "case AddTasks k api (Some c) options w of
     Some (Inr c', w') \<Rightarrow> c' = c\<lparr>ctx_App := (ctx_App c)\<lparr>SpecList := SpecList (ctx_App c')\<rparr>\<rparr> \<and>
       prefix (SpecList (ctx_App c)) (SpecList (ctx_App c'))
   | Some (Inl err, w') \<Rightarrow> True
   | None \<Rightarrow> True"
proof -
  have "c' = c\<lparr>ctx_App := (ctx_App c)\<lparr>SpecList := SpecList (ctx_App c')\<rparr>\<rparr> \<and> prefix (SpecList (ctx_App c)) (SpecList (ctx_App c'))"
    if "AddTasks k api (Some c) options w = Some (Inr c', w')" for c' w'
    using that unfolding AddTasks_def
    by (auto simp: io_bind_Inr prefix_def split: if_splits dest!: add_apps_extends)
  then show ?thesis
    by (auto split: option.split prod.split sum.split)
qed

text \<open>Removing the specs of two lists one after the other removes those of both; in particular a second removal
  of the same list changes nothing.\<close>

theorem removals_compose:
  "io_bind (RemoveAppSpecsByName ctx r1) (\<lambda>c. RemoveAppSpecsByName c r2) w = RemoveAppSpecsByName ctx (r1 @ r2) w"
  by (simp add: RemoveAppSpecsByName_def io_bind_def io_gets_def conj_commute)

section \<open>Specs that nothing is created for\<close>

text \<open>The types that pass the validation and that no phase creates.\<close>

definition ignored_types :: "spec_type list" where
  "ignored_types = filter (\<lambda>t. t \<notin> set (concat phase_types)) validated_types"

lemma ignored_types_are:
  "ignored_types = [DaemonSet, AutopilotRuleSpec, LimitRange, Prometheus, PrometheusRule, Namespace,
     ValidatingWebhookConfigurationList]"
  by (simp add: ignored_types_def validated_types_def phase_types_def group_types)


definition daemon_specs :: "spec_obj list" where
  "daemon_specs = [new_obj DaemonSet ''ds'' [], new_obj LimitRange ''lr'' []]"


section \<open>State that stays behind\<close>

lemma map_of_MergeMaps: "map_of (MergeMaps m1 m2) = map_of m1 ++ map_of (rev m2)"
  by (induction m2 arbitrary: m1) (auto simp: MergeMaps_def map_add_def fun_eq_iff split: option.splits)

text \<open>\<open>createNamespace\<close>: its label map is the package variable \<open>defaultTorpedoLabel\<close> itself. After the call, and
  however often it was retried, the variable holds what it held before, overridden by the key of this
  application and the labels of its options, and the next namespace is created with all of them.\<close>

theorem namespace_labels_stay:
  "case createNamespace api app namespace options w of
     Some (Inr ns, w') \<Rightarrow>
       map_of (wd_label w') = (map_of (wd_label w))(''app'' \<mapsto> app_Key app) ++ map_of (rev (opt_Labels options))
   | _ \<Rightarrow> True"
proof -
  let ?new = "(map_of (wd_label w))(''app'' \<mapsto> app_Key app) ++ map_of (rev (opt_Labels options))"
  let ?I = "\<lambda>v. map_of (wd_label v) = map_of (wd_label w) \<or> map_of (wd_label v) = ?new"
  let ?set = "io_modify (\<lambda>v. v\<lparr>wd_label := MergeMaps (gm_put ''app'' (app_Key app) (wd_label v)) (opt_Labels options)\<rparr>)
     :: ('a k8s_world, unit) io"
  let ?rest = "\<lambda>_ :: unit. io_bind (io_gets wd_label) (\<lambda>metadata. failing_with
      (create_or_get api Namespace ((new_obj Namespace namespace [])\<lparr>so_Labels := metadata\<rparr>) [])
      (\<lambda>err. app_error app ErrFailedToScheduleApp (''Failed to create namespace: '' @ namespace @ ''. Err: '' @ err)))"
  have merged: "map_of (MergeMaps (gm_put ''app'' (app_Key app) (wd_label v)) (opt_Labels options)) = ?new" if "?I v" for v
    using that by (elim disjE) (simp_all add: map_of_MergeMaps map_add_def fun_eq_iff split: option.splits)
  have labels: "keeps (\<lambda>v. P (wd_label v)) (obj_call t f)" for P t and f :: "'a obj_call"
    by (auto simp: keeps_def obj_call_def split: prod.splits option.splits)
  have rest: "keeps (\<lambda>v. P (wd_label v)) (?rest u)" for P u
    unfolding failing_with_def create_or_get_def by (intro keeps_intros keeps_cases labels)
  have "keeps ?I (io_bind ?set ?rest)"
    by (intro keeps_bind keeps_modify rest) (auto simp: merged)
  moreover have "map_of (wd_label w') = ?new" if "?I v" "io_bind ?set ?rest v = Some (Inr ns, w')" for v ns w'
  proof -
    from that(2) obtain v1 where "v1 = v\<lparr>wd_label := MergeMaps (gm_put ''app'' (app_Key app) (wd_label v)) (opt_Labels options)\<rparr>"
        "?rest () v1 = Some (Inr ns, w')"
      by (auto simp: io_bind_Inr)
    then show ?thesis
      using keepsD [OF rest [of "\<lambda>l. map_of l = ?new"], of v1] merged [OF that(1)] by simp
  qed
  ultimately have "map_of (wd_label w') = ?new"
    if "createNamespace api app namespace options w = Some (Inr ns, w')" for ns w'
    using that io_poll_Inr_inv [OF k8s_gaps(1), of ?I "io_bind ?set ?rest" w] unfolding createNamespace_def by blast
  then show ?thesis
    by (auto split: option.split prod.split sum.split)
qed

text \<open>The creation of a claim writes its name, with the namespace filled in, back to the spec, which all
  applications of the same factory entry share. If the placeholder is gone, the next application, in
  another namespace, asks for a claim under the name made for the first.\<close>

theorem claim_name_stays:
  assumes "\<not> is_cloned pvc" "\<not> is_cloned (prepare_pvc ns1 options1 pvc)"
    and "\<not> Contains_str (substitute_ns ns1 (so_Name pvc)) namespaceRegex"
  shows "so_Name (prepare_pvc ns2 options2 (prepare_pvc ns1 options1 pvc)) = substitute_ns ns1 (so_Name pvc) \<and>
    so_Namespace (prepare_pvc ns2 options2 (prepare_pvc ns1 options1 pvc)) = ns2"
proof -
  have n: "so_Name (prepare_pvc ns options o1) = substitute_ns ns (so_Name o1) \<and> so_Namespace (prepare_pvc ns options o1) = ns"
    if "\<not> is_cloned o1" for ns options and o1 :: spec_obj
    using that by (simp add: prepare_pvc_def Let_def substituteNamespaceInPVC_def addLabelsToPVC_def addAnnotationsToPVC_def)
  show ?thesis
    using n [OF assms(2)] n [OF assms(1)] ReplaceAll_absent [OF assms(3)] by (simp add: substitute_ns_def)
qed

theorem claim_name_stays_witness:
  "so_Name (prepare_pvc ''blue'' sample_options (prepare_pvc ''red'' sample_options
     (new_obj PersistentVolumeClaim ''vol-_NAMESPACE_'' []))) = ''vol-red''"
proof -
  let ?pvc = "new_obj PersistentVolumeClaim ''vol-_NAMESPACE_'' []"
  have r: "substitute_ns ''red'' (so_Name ?pvc) = ''vol-red''"
    by (simp add: substitute_ns_def new_obj_def namespaceRegex_def ReplaceAll.simps HasPrefix_def)
  moreover have "\<not> Contains_str ''vol-red'' namespaceRegex"
    by (simp add: namespaceRegex_def HasPrefix_def)
  moreover have "\<not> is_cloned ?pvc" "\<not> is_cloned (prepare_pvc ''red'' sample_options ?pvc)"
    by (simp_all add: is_cloned_def new_obj_def prepare_pvc_def Let_def annotation_enabled_def substituteNamespaceInPVC_def)
  ultimately show ?thesis
    using claim_name_stays [of ?pvc "''red''" sample_options "''blue''" sample_options] by simp
qed

end
