(* ===== verification/K8sRunning.thy ===== *)
theory K8sRunning
  imports K8sPhases
begin

text \<open>
  The part of \<open>drivers/scheduler/k8s/k8s.go\<close> that looks at a scheduled application: waiting for it to run,
  its pods and nodes, the topology check, scaling, fetching the current version of a spec object, the nodes
  of the cluster and the labels of nodes and namespaces.
\<close>

section \<open>Calls\<close>

text \<open>
  The node driver that the scheduler gets from the registry of node drivers, with the operations it uses, and
  the calls of the client library that only a running application needs. \<open>aa_Pointer\<close> and \<open>aa_Status\<close> are
  the texts of a pointer field and of the status of an object, \<open>aa_SprintPods\<close> and
  \<open>aa_SprintNode\<close> those of a list of pods and of a node.
\<close>

record 'x node_driver =
  nd_Systemctl :: "Node \<Rightarrow> string \<Rightarrow> string \<Rightarrow> int \<Rightarrow> int \<Rightarrow> ('x, unit) ext_call"
  nd_FindFiles :: "string \<Rightarrow> Node \<Rightarrow> int \<Rightarrow> int \<Rightarrow> ('x, string) ext_call"

record 'x app_api =
  aa_WaitForPodDeletion :: "string \<Rightarrow> string \<Rightarrow> int \<Rightarrow> ('x, unit) ext_call"
  aa_DeletePods :: "kube_pod list \<Rightarrow> ('x, unit) ext_call"
  aa_PodByUID :: "string \<Rightarrow> string \<Rightarrow> 'x \<Rightarrow> (kube_pod option \<times> go_error option) \<times> 'x"
  aa_ListServices :: "('x, (string \<times> string) list) ext_call"
  aa_PodsByNode :: "string \<Rightarrow> ('x, kube_pod list) ext_call"
  aa_DrainPods :: "string \<Rightarrow> kube_pod list \<Rightarrow> int \<Rightarrow> int \<Rightarrow> ('x, unit) ext_call"
  aa_CordonNode :: "string \<Rightarrow> int \<Rightarrow> int \<Rightarrow> ('x, unit) ext_call"
  aa_UnCordonNode :: "string \<Rightarrow> int \<Rightarrow> int \<Rightarrow> ('x, unit) ext_call"
  aa_RemoveLabelOnNode :: "string \<Rightarrow> string \<Rightarrow> ('x, unit) ext_call"
  aa_ProvisionerOf :: "spec_obj \<Rightarrow> ('x, string) ext_call"
  aa_Pointer :: "spec_obj \<Rightarrow> string"
  aa_Status :: "spec_obj \<Rightarrow> string"
  aa_SprintPods :: "kube_pod list \<Rightarrow> string"
  aa_SprintNode :: "Node \<Rightarrow> string"
  aa_nodeDrivers :: "(string, 'x node_driver) gomap"

text \<open>A call of which only the error is used.\<close>

definition err_call :: "spec_type \<Rightarrow> 'x obj_call \<Rightarrow> ('x k8s_world, unit) io" where
  "err_call t f = io_bind (raw_call t f) (\<lambda>(_, err). (case err of Some e \<Rightarrow> io_error e | None \<Rightarrow> io_return ()))"

definition Sprint_strings :: "string list \<Rightarrow> string" where
  "Sprint_strings xs = ''['' @ Join xs '' '' @ '']''"

text \<open>
  A closure for \<open>DoRetryWithTimeout\<close> that does not ask for a retry on every error: it returns the errors to
  retry on as values and fails with those that end the loop.
\<close>

definition io_stop :: "('w, 'a result) io \<Rightarrow> ('w, 'a result) io" where
  "io_stop m w = (case m w of
     None \<Rightarrow> None
   | Some (Inl err, w') \<Rightarrow> Some (Inr (Inl err), w')
   | Some (Inr (Inl err), w') \<Rightarrow> Some (Inl err, w')
   | Some (Inr (Inr x), w') \<Rightarrow> Some (Inr (Inr x), w'))"

definition io_retry :: "('w \<Rightarrow> nat) \<Rightarrow> ('w, 'a result) io \<Rightarrow> int \<Rightarrow> int \<Rightarrow> ('w, 'a) io" where
  "io_retry clk m timeout gap =
     io_bind (io_poll clk (io_stop m) timeout gap) (\<lambda>r. (case r of Inl err \<Rightarrow> io_error err | Inr x \<Rightarrow> io_return x))"

section \<open>Pods and nodes of an application\<close>

fun pods_of_specs :: "'x k8s_api \<Rightarrow> ptr list \<Rightarrow> kube_pod list \<Rightarrow> ('x k8s_world, kube_pod list) io" where
  "pods_of_specs api [] pods = io_return pods"
| "pods_of_specs api (p # specs) pods =
     io_bind (deref p) (\<lambda>obj.
       if so_type obj = Deployment \<or> so_type obj = StatefulSet then
         io_bind (ext_call (api_PodsOf api obj)) (\<lambda>new. pods_of_specs api specs (pods @ new))
       else pods_of_specs api specs pods)"

definition getPodsForApp :: "'x k8s_api \<Rightarrow> sched_ctx \<Rightarrow> ('x k8s_world, kube_pod list) io" where
  "getPodsForApp api ctx = pods_of_specs api (SpecList (ctx_App ctx)) []"

fun nodes_of_pods ::
  "'x k8s_api \<Rightarrow> 'x app_api \<Rightarrow> app_spec \<Rightarrow> (string, Node) gomap \<Rightarrow> kube_pod list \<Rightarrow> kube_pod list \<Rightarrow> Node list \<Rightarrow> (Node list) result"
  where
  "nodes_of_pods api aa app nodeMap pods [] nodes =
     (if nodes \<noteq> [] then Inr nodes
      else Inl (app_error app ErrFailedToGetNodesForApp (''no pods in running state '' @ aa_SprintPods aa pods)))"
| "nodes_of_pods api aa app nodeMap pods (p # ps) nodes =
     (if TrimSpace (pod_NodeName p) = [] then
        Inl (app_error app ErrFailedToGetNodesForApp (''pod '' @ pod_Name p @ '' is not scheduled to any node yet''))
      else (case map_of nodeMap (pod_NodeName p) of
        None \<Rightarrow> Inl (app_error app ErrFailedToGetNodesForApp (''node: '' @ pod_NodeName p @ '' not present in node map''))
      | Some n \<Rightarrow>
          (if NodeRegistry.Contains nodes n then nodes_of_pods api aa app nodeMap pods ps nodes
           else if api_IsPodRunning api p then nodes_of_pods api aa app nodeMap pods ps (nodes @ [n])
           else nodes_of_pods api aa app nodeMap pods ps nodes)))"

definition app_nodes_attempt :: "'x k8s_api \<Rightarrow> 'x app_api \<Rightarrow> sched_ctx \<Rightarrow> ('x k8s_world, (Node list) result) io" where
  "app_nodes_attempt api aa ctx =
     io_bind (failing_with (getPodsForApp api ctx)
       (\<lambda>err. app_error (ctx_App ctx) ErrFailedToGetNodesForApp (''failed to get pods due to: '' @ err))) (\<lambda>pods.
     io_gets (\<lambda>w. nodes_of_pods api aa (ctx_App ctx) (GetNodesByName (wd_registry w)) pods pods []))"

definition GetNodesForApp :: "'x k8s_api \<Rightarrow> 'x app_api \<Rightarrow> sched_ctx \<Rightarrow> ('x k8s_world, Node list) io" where
  "GetNodesForApp api aa ctx =
     io_retry (clock api) (app_nodes_attempt api aa ctx) k8s_DefaultTimeout k8s_DefaultRetryInterval"

section \<open>Waiting for an application\<close>

text \<open>The types whose check fails with \<open>ErrFailedToValidateCustomSpec\<close>, and the words for them.\<close>

definition custom_checks :: "(spec_type \<times> string) list" where
  "custom_checks = [(ClusterPair, ''cluster Pair''), (Migration, ''Migration''), (MigrationSchedule, ''MigrationSchedule''),
     (BackupLocation, ''BackupLocation''), (ApplicationBackup, ''ApplicationBackup''),
     (ApplicationRestore, ''ApplicationRestore''), (ApplicationClone, ''ApplicationClone''),
     (VolumeSnapshotRestore, ''VolumeSnapshotRestore''), (VolumeSnapshot, ''VolumeSnapshot''), (Ingress, ''Ingress''),
     (CronJob, ''CronJob''), (Job, ''Job''), (ResourceTransformation, ''ResourceTransformation''),
     (VirtualMachine, ''VirtualMachineRunning State'')]"

definition custom_spec_error :: "'x k8s_api \<Rightarrow> string \<Rightarrow> spec_obj \<Rightarrow> string \<Rightarrow> go_error" where
  "custom_spec_error api what obj err = SchedErr (ErrFailedToValidateCustomSpec (so_Name obj)
     (''Failed to validate '' @ what @ '': '' @ so_Name obj @ ''. Err: '' @ err) (api_Sprint api obj))"

definition validate_error :: "app_spec \<Rightarrow> string \<Rightarrow> string \<Rightarrow> string \<Rightarrow> string \<Rightarrow> go_error" where
  "validate_error app what name namespace err =
     app_error app ErrFailedToValidateApp (what @ name @ '',Namespace: '' @ namespace @ ''. Err: '' @ err)"

text \<open>A data service runs as a stateful set of its own name. A check without an interval passes 0.\<close>

definition check_data_service ::
  "'x k8s_api \<Rightarrow> 'x app_api \<Rightarrow> app_spec \<Rightarrow> int \<Rightarrow> spec_obj \<Rightarrow> ('x k8s_world, unit) io" where
  "check_data_service api aa app timeout obj =
     io_bind (failing_with (obj_call StatefulSet (api_Get api StatefulSet (so_Extra obj) (so_Namespace obj)))
       (validate_error app ''Failed to get StatefulSet: '' (so_Extra obj) (so_Namespace obj))) (\<lambda>ss.
     failing_with (ext_call (api_Validate api StatefulSet ss (timeout * so_Replicas ss) 0))
       (validate_error app ''Failed to validate StatefulSet: '' (aa_Pointer aa obj) (so_Namespace obj)))"

definition check_running ::
  "'x k8s_api \<Rightarrow> 'x app_api \<Rightarrow> app_spec \<Rightarrow> int \<Rightarrow> int \<Rightarrow> spec_obj \<Rightarrow> ('x k8s_world, unit) io" where
  "check_running api aa app timeout retryInterval obj =
     (let t = so_type obj; name = so_Name obj; namespace = so_Namespace obj in
      if t = Deployment then
        failing_with (ext_call (api_Validate api Deployment obj timeout retryInterval))
          (validate_error app ''Failed to validate Deployment: '' name namespace)
      else if t = ModelsDeployment then check_data_service api aa app timeout obj
      else if t = StatefulSet then
        failing_with (ext_call (api_Validate api StatefulSet obj (timeout * so_Replicas obj) 0))
          (validate_error app ''Failed to validate StatefulSet: '' name namespace)
      else if t = Service then
        io_bind (failing_with (obj_call Service (api_Get api Service name namespace))
          (validate_error app ''Failed to validate Service: '' name namespace)) (\<lambda>_. io_return ())
      else if t = Rule then
        io_bind (failing_with (obj_call Rule (api_Get api Rule name namespace))
          (validate_error app ''Failed to validate Rule: '' name namespace)) (\<lambda>_. io_return ())
      else if t = Pod then
        failing_with (ext_call (api_Validate api Pod obj timeout retryInterval))
          (\<lambda>_. app_error app ErrFailedToValidatePod (''Failed to validate Pod: ['' @ namespace @ ''] '' @ name @
             ''. Err: Pod is not ready '' @ aa_Status aa obj))
      else if t = AutopilotRuleSpec then
        io_bind (failing_with (ext_call (api_GetRule api name)) (custom_spec_error api ''AutopilotRule'' obj)) (\<lambda>_. io_return ())
      else (case map_of custom_checks t of
        Some what \<Rightarrow> failing_with (ext_call (api_Validate api t obj timeout (if t = Job then 0 else retryInterval)))
          (custom_spec_error api what obj)
      | None \<Rightarrow> io_return ()))"

definition isPodTerminating :: "'x k8s_api \<Rightarrow> sched_ctx \<Rightarrow> ('x k8s_world, unit) io" where
  "isPodTerminating api ctx =
     io_bind (io_try (getPodsForApp api ctx)) (\<lambda>r. (case r of
       Inl err \<Rightarrow>
         (if err = api_ErrPodsNotFound api then io_return ()
          else io_error (Errorf (''failed to get pods for app '' @ app_Key (ctx_App ctx) @ '': '' @ Error_str err)))
     | Inr pods \<Rightarrow>
         (let terminatingPods = map (\<lambda>p. pod_Namespace p @ ''/'' @ pod_Name p) (filter pod_Deleting pods)
          in if terminatingPods \<noteq> [] then io_error (Errorf (''terminating pods: '' @ Sprint_strings terminatingPods))
             else io_return ())))"

definition WaitForRunning ::
  "'x k8s_api \<Rightarrow> 'x app_api \<Rightarrow> sched_ctx \<Rightarrow> int \<Rightarrow> int \<Rightarrow> ('x k8s_world, unit) io" where
  "WaitForRunning api aa ctx timeout retryInterval =
     io_bind (io_foreach (\<lambda>p. io_bind (deref p) (check_running api aa (ctx_App ctx) timeout retryInterval))
       (SpecList (ctx_App ctx))) (\<lambda>_.
     io_poll (clock api) (isPodTerminating api ctx) k8sDestroyTimeout k8s_DefaultRetryInterval)"

section \<open>Topology\<close>

definition TopologyZoneK8sNodeLabel :: string where "TopologyZoneK8sNodeLabel = ''topology.portworx.io/zone''"

text \<open>The comparison happens when the lookup of the node fails, and then on the zero \<open>Node\<close>.\<close>

fun validatePodsTopology :: "registry \<Rightarrow> kube_pod list \<Rightarrow> string \<Rightarrow> go_error option" where
  "validatePodsTopology reg [] labelValue = None"
| "validatePodsTopology reg (pod # pods) labelValue = (case GetNodeByIP (pod_HostIP pod) reg of
     Inl _ \<Rightarrow>
       (if TopologyZone zero_Node \<noteq> labelValue \<or> TopologyRegion zero_Node \<noteq> labelValue then
          Some (SchedErr (ErrTopologyLabelMismatch (pod_Name pod)
            (''Topology Mismatch.Pod ['' @ pod_Name pod @ ''] on zone ['' @ labelValue @ ''] scheduled on a node ['' @
             node_Name zero_Node @ ''].'')))
        else validatePodsTopology reg pods labelValue)
   | Inr _ \<Rightarrow> validatePodsTopology reg pods labelValue)"

definition topology_of_spec :: "'x k8s_api \<Rightarrow> spec_obj \<Rightarrow> ('x k8s_world, unit) io" where
  "topology_of_spec api obj =
     (if so_type obj = Deployment \<or> so_type obj = StatefulSet then
        io_catch
          (io_bind (obj_call (so_type obj) (api_Get api (so_type obj) (so_Name obj) (so_Namespace obj))) (\<lambda>o1.
           (case ps_Affinity (so_Pod o1) of
              None \<Rightarrow> io_panic
            | Some affinity \<Rightarrow> (case aff_NodeAffinity affinity of
                None \<Rightarrow> io_panic
              | Some nodeAff \<Rightarrow> (case getLabelsFromNodeAffinity nodeAff of
                  None \<Rightarrow> io_panic
                | Some labels \<Rightarrow>
                    io_bind (ext_call (api_ListPods api (so_Namespace obj) [])) (\<lambda>pods.
                    io_bind (io_gets wd_registry) (\<lambda>reg.
                    (case validatePodsTopology reg pods (gm_index [] labels TopologyZoneK8sNodeLabel) of
                       Some err \<Rightarrow> io_error err
                     | None \<Rightarrow> io_return ()))))))))
          (\<lambda>err. io_error (SchedWrap ErrFailedToValidateTopologyLabel (so_Namespace obj) err))
      else io_return ())"

definition ValidateTopologyLabel :: "'x k8s_api \<Rightarrow> sched_ctx \<Rightarrow> ('x k8s_world, unit) io" where
  "ValidateTopologyLabel api ctx =
     io_foreach (\<lambda>p. io_bind (deref p) (topology_of_spec api)) (SpecList (ctx_App ctx))"

section \<open>Scaling\<close>

definition DeploymentSuffix :: string where "DeploymentSuffix = ''-dep''"

definition StatefulSetSuffix :: string where "StatefulSetSuffix = ''-ss''"

fun scalable_volumes :: "'x k8s_api \<Rightarrow> string \<Rightarrow> PodVolume list \<Rightarrow> ('x k8s_world, bool) io" where
  "scalable_volumes api namespace [] = io_return True"
| "scalable_volumes api namespace (vol # vols) = (case pv_ClaimName vol of
     None \<Rightarrow> scalable_volumes api namespace vols
   | Some pvcName \<Rightarrow>
       io_bind (io_try (obj_call PersistentVolumeClaim (api_Get api PersistentVolumeClaim pvcName namespace))) (\<lambda>r. (case r of
         Inl _ \<Rightarrow> io_return False
       | Inr pvc \<Rightarrow>
           (if list_ex (\<lambda>ac. ac = ''ReadWriteOnce'') (cl_AccessModes (so_Claim pvc)) then io_return False
            else scalable_volumes api namespace vols))))"

definition IsScalable :: "'x k8s_api \<Rightarrow> spec_obj \<Rightarrow> ('x k8s_world, bool) io" where
  "IsScalable api obj =
     (if so_type obj = Deployment then
        io_bind (io_try (obj_call Deployment (api_Get api Deployment (so_Name obj) (so_Namespace obj)))) (\<lambda>r. (case r of
          Inl _ \<Rightarrow> io_return False
        | Inr dep \<Rightarrow> scalable_volumes api (so_Namespace dep) (ps_Volumes (so_Pod dep))))
      else io_return (so_type obj = StatefulSet))"

definition scale_deployment :: "'x k8s_api \<Rightarrow> spec_obj \<Rightarrow> int \<Rightarrow> ('x k8s_world, unit) io" where
  "scale_deployment api obj newScaleFactor =
     io_bind (obj_call Deployment (api_Get api Deployment (so_Name obj) (so_Namespace obj))) (\<lambda>dep.
       err_call Deployment (api_Update api Deployment (dep\<lparr>so_Replicas := newScaleFactor\<rparr>)))"

definition scale_spec :: "'x k8s_api \<Rightarrow> app_spec \<Rightarrow> (string, int) gomap \<Rightarrow> spec_obj \<Rightarrow> ('x k8s_world, unit) io" where
  "scale_spec api app scaleFactorMap obj =
     io_bind (IsScalable api obj) (\<lambda>scalable.
       if \<not> scalable then io_return ()
       else if so_type obj = Deployment then
         failing_with
           (io_poll (clock api) (scale_deployment api obj (gm_index 0 scaleFactorMap (so_Name obj @ DeploymentSuffix)))
             (2 * minute_ns) second_ns)
           (\<lambda>err. app_error app ErrFailedToUpdateApp (''Failed to update Deployment: '' @ so_Name obj @ ''. Err: '' @ err))
       else if so_type obj = StatefulSet then
         io_bind (obj_call StatefulSet (api_Get api StatefulSet (so_Name obj) (so_Namespace obj))) (\<lambda>ss.
         failing_with (err_call StatefulSet (api_Update api StatefulSet
             (ss\<lparr>so_Replicas := gm_index 0 scaleFactorMap (so_Name obj @ StatefulSetSuffix)\<rparr>)))
           (\<lambda>err. app_error app ErrFailedToUpdateApp (''Failed to update StatefulSet: '' @ so_Name obj @ ''. Err: '' @ err)))
       else io_return ())"

definition ScaleApplication :: "'x k8s_api \<Rightarrow> sched_ctx \<Rightarrow> (string, int) gomap \<Rightarrow> ('x k8s_world, unit) io" where
  "ScaleApplication api ctx scaleFactorMap =
     io_foreach (\<lambda>p. io_bind (deref p) (scale_spec api (ctx_App ctx) scaleFactorMap)) (SpecList (ctx_App ctx))"

text \<open>An error comes with the factors read before it.\<close>

definition scale_key :: "spec_obj \<Rightarrow> string" where
  "scale_key obj = so_Name obj @ (if so_type obj = Deployment then DeploymentSuffix else StatefulSetSuffix)"

fun scale_factors ::
  "'x k8s_api \<Rightarrow> ptr list \<Rightarrow> (string, int) gomap \<Rightarrow> ('x k8s_world, (string, int) gomap \<times> go_error option) io" where
  "scale_factors api [] m = io_return (m, None)"
| "scale_factors api (p # specs) m =
     io_bind (deref p) (\<lambda>obj.
       if so_type obj = Deployment \<or> so_type obj = StatefulSet then
         io_bind (io_try (obj_call (so_type obj) (api_Get api (so_type obj) (so_Name obj) (so_Namespace obj)))) (\<lambda>r. (case r of
           Inl err \<Rightarrow> io_return (m, Some err)
         | Inr o1 \<Rightarrow> scale_factors api specs (gm_put (scale_key obj) (so_Replicas o1) m)))
       else scale_factors api specs m)"

definition GetScaleFactorMap ::
  "'x k8s_api \<Rightarrow> sched_ctx \<Rightarrow> ('x k8s_world, (string, int) gomap \<times> go_error option) io" where
  "GetScaleFactorMap api ctx = scale_factors api (SpecList (ctx_App ctx)) []"

section \<open>The current version of a spec\<close>

text \<open>
  What \<open>GetUpdatedSpec\<close> reads for a type: the type of the object returned, whether the call has a namespace,
  and the \<open>Kind\<close> it sets. The two custom resource definition types are swapped, a resource
  transformation is read as a migration schedule, and a cron job with the client of another version.
\<close>

definition updated_reads :: "(spec_type \<times> spec_type \<times> bool \<times> string) list" where
  "updated_reads =
     [(Service, Service, True, ''Service''), (PersistentVolumeClaim, PersistentVolumeClaim, True, ''PersistentVolumeClaim''),
      (StorageClass, StorageClass, False, ''StorageClass''), (VolumeSnapshot, VolumeSnapshot, True, ''VolumeSnapshot''),
      (GroupVolumeSnapshot, GroupVolumeSnapshot, True, []), (Secret, Secret, True, ''Secret''),
      (ConfigMap, ConfigMap, True, ''ConfigMap''), (Rule, Rule, True, []), (Pod, Pod, True, []),
      (ClusterPair, ClusterPair, True, []), (Migration, Migration, True, []),
      (MigrationSchedule, MigrationSchedule, True, []), (BackupLocation, BackupLocation, True, []),
      (ApplicationBackup, ApplicationBackup, True, []), (SchedulePolicy, SchedulePolicy, False, []),
      (ApplicationRestore, ApplicationRestore, True, []), (ApplicationClone, ApplicationClone, True, []),
      (VolumeSnapshotRestore, VolumeSnapshotRestore, True, []), (AutopilotRuleSpec, AutopilotRuleSpec, False, []),
      (ServiceAccount, ServiceAccount, True, []), (ClusterRole, ClusterRole, False, []),
      (ClusterRoleBinding, ClusterRoleBinding, False, []), (Role, Role, True, []), (RoleBinding, RoleBinding, True, []),
      (CronJob, OtherObject, True, []), (Job, Job, True, []), (LimitRange, LimitRange, True, []),
      (Ingress, Ingress, True, []), (Prometheus, Prometheus, True, []), (PrometheusRule, PrometheusRule, True, []),
      (ServiceMonitor, ServiceMonitor, True, []), (Namespace, Namespace, False, []),
      (CustomResourceDefinitionV1beta1, CustomResourceDefinition, False, []),
      (CustomResourceDefinition, CustomResourceDefinitionV1beta1, False, []),
      (PodDisruptionBudget, PodDisruptionBudget, True, []), (NetworkPolicy, NetworkPolicy, True, []),
      (Endpoints, Endpoints, True, []), (ResourceTransformation, MigrationSchedule, True, []),
      (ValidatingWebhookConfiguration, ValidatingWebhookConfiguration, False, []), (VirtualMachine, VirtualMachine, True, []),
      (Pipeline, Pipeline, True, ''Pipeline''), (Task, Task, True, ''Task''), (TaskRun, TaskRun, True, ''TaskRun''),
      (PipelineRun, PipelineRun, True, ''PipelineRun'')]"

definition with_kind :: "string \<Rightarrow> spec_obj \<Rightarrow> spec_obj" where
  "with_kind kind o1 = (if kind = [] then o1 else o1\<lparr>so_Kind := kind\<rparr>)"

text \<open>
  For the three workload types the test of the error is the wrong way round: no error gives no object and
  no error, an error gives the object of the failed call. A nil pointer there panics where the kind is set.
\<close>

definition inverted_read :: "'x k8s_api \<Rightarrow> spec_obj \<Rightarrow> string \<Rightarrow> ('x k8s_world, spec_obj option) io" where
  "inverted_read api obj kind =
     io_bind (raw_call (so_type obj) (api_Get api (so_type obj) (so_Name obj) (so_Namespace obj))) (\<lambda>(o1, err).
       (case err of
          None \<Rightarrow> io_return None
        | Some _ \<Rightarrow>
            (if kind = [] then io_return o1 else through o1 (\<lambda>o2. io_return (Some (with_kind kind o2))))))"

definition GetUpdatedSpec :: "'x k8s_api \<Rightarrow> spec_obj \<Rightarrow> ('x k8s_world, spec_obj option) io" where
  "GetUpdatedSpec api obj =
     (if so_type obj = Deployment then inverted_read api obj ''Deployment''
      else if so_type obj = StatefulSet then inverted_read api obj ''StatefulSet''
      else if so_type obj = DaemonSet then inverted_read api obj []
      else (case map_of updated_reads (so_type obj) of
        Some (t, namespaced, kind) \<Rightarrow>
          io_bind (obj_call t (api_Get api t (so_Name obj) (if namespaced then so_Namespace obj else []))) (\<lambda>o1.
            io_return (Some (with_kind kind o1)))
      | None \<Rightarrow> io_error (Errorf (''unsupported object: '' @ api_TypeOf api obj))))"

section \<open>Nodes of the cluster\<close>

definition ZoneK8SNodeLabel :: string where "ZoneK8SNodeLabel = ''failure-domain.beta.kubernetes.io/zone''"

definition RegionK8SNodeLabel :: string where "RegionK8SNodeLabel = ''failure-domain.beta.kubernetes.io/region''"

definition getAddressesForNode :: "kube_node \<Rightarrow> string list" where
  "getAddressesForNode n = map snd (filter (\<lambda>(t, _). t = ''ExternalIP'' \<or> t = ''InternalIP'') (kn_Addresses n))"

text \<open>A failed read of the labels gives none.\<close>

definition parseK8SNode :: "K8s \<Rightarrow> 'x k8s_api \<Rightarrow> kube_node \<Rightarrow> ('x k8s_world, Node) io" where
  "parseK8SNode k api n =
     io_bind (io_try (ext_call (api_GetLabelsOnNode api (kn_Name n)))) (\<lambda>r.
       (let nodeLabels = (case r of Inl _ \<Rightarrow> [] | Inr l \<Rightarrow> l) in
        io_return (zero_Node\<lparr>node_Name := kn_Name n, Addresses := getAddressesForNode n,
          node_Type := (if api_IsNodeMaster api n \<and> k_NodeDriverName k \<noteq> ''ibm'' then TypeMaster else TypeWorker),
          Zone := gm_index [] nodeLabels ZoneK8SNodeLabel, Region := gm_index [] nodeLabels RegionK8SNodeLabel\<rparr>)))"

definition k8s_IsNodeReady :: "'x k8s_api \<Rightarrow> Node \<Rightarrow> ('x k8s_world, unit) io" where
  "k8s_IsNodeReady api n =
     io_poll (clock api) (failing_with (ext_call (api_IsNodeReady api (node_Name n))) (\<lambda>err. SchedErr (ErrNodeNotReady n err)))
       k8sNodeReadyTimeout k8s_DefaultRetryInterval"

definition registry_add :: "'x k8s_api \<Rightarrow> Node \<Rightarrow> ('x k8s_world, unit) io" where
  "registry_add api n w = (case api_NewUUID api (wd_ext w) of (u, x) \<Rightarrow>
     (case AddNode u n (wd_registry w) of
        (Some err, reg) \<Rightarrow> Some (Inl err, w\<lparr>wd_registry := reg, wd_ext := x\<rparr>)
      | (None, reg) \<Rightarrow> Some (Inr (), w\<lparr>wd_registry := reg, wd_ext := x\<rparr>)))"

definition AddNewNode :: "K8s \<Rightarrow> 'x k8s_api \<Rightarrow> kube_node \<Rightarrow> ('x k8s_world, unit) io" where
  "AddNewNode k api newNode =
     io_bind (parseK8SNode k api newNode) (\<lambda>n.
     io_bind (k8s_IsNodeReady api n) (\<lambda>_. registry_add api n))"

definition RefreshNodeRegistry :: "K8s \<Rightarrow> 'x k8s_api \<Rightarrow> ('x k8s_world, unit) io" where
  "RefreshNodeRegistry k api =
     io_bind (ext_call (api_GetNodes api)) (\<lambda>nodes.
     io_bind (io_modify (\<lambda>w. w\<lparr>wd_registry := CleanupRegistry (wd_registry w)\<rparr>)) (\<lambda>_.
       io_foreach (AddNewNode k api) nodes))"

text \<open>The nodes of \<open>Init\<close>.\<close>

definition Init_nodes :: "K8s \<Rightarrow> 'x k8s_api \<Rightarrow> ('x k8s_world, unit) io" where
  "Init_nodes k api = io_bind (ext_call (api_GetNodes api)) (io_foreach (AddNewNode k api))"

definition SystemdSchedServiceName :: string where "SystemdSchedServiceName = ''kubelet''"

text \<open>The error of the registry of node drivers is ignored: a driver that is not there is nil.\<close>

definition with_node_driver :: "K8s \<Rightarrow> 'x app_api \<Rightarrow> ('x node_driver \<Rightarrow> ('x k8s_world, 'a) io) \<Rightarrow> ('x k8s_world, 'a) io" where
  "with_node_driver k aa f = (case node_Get (k_NodeDriverName k) (aa_nodeDrivers aa) of
     Inl _ \<Rightarrow> io_panic
   | Inr d \<Rightarrow> f d)"

definition StopSchedOnNode :: "K8s \<Rightarrow> 'x app_api \<Rightarrow> Node \<Rightarrow> ('x k8s_world, unit) io" where
  "StopSchedOnNode k aa n = with_node_driver k aa (\<lambda>d.
     failing_with (ext_call (nd_Systemctl d n SystemdSchedServiceName ''stop'' FindFilesOnWorkerTimeout k8s_DefaultRetryInterval))
       (\<lambda>err. SchedErr (ErrFailedToStopSchedOnNode (aa_SprintNode aa n) SystemdSchedServiceName err)))"

definition StartSchedOnNode :: "K8s \<Rightarrow> 'x app_api \<Rightarrow> Node \<Rightarrow> ('x k8s_world, unit) io" where
  "StartSchedOnNode k aa n = with_node_driver k aa (\<lambda>d.
     failing_with (ext_call (nd_Systemctl d n SystemdSchedServiceName ''start'' k8s_DefaultTimeout k8s_DefaultRetryInterval))
       (\<lambda>err. SchedErr (ErrFailedToStartSchedOnNode (aa_SprintNode aa n) SystemdSchedServiceName err)))"

definition EnableSchedulingOnNode :: "'x app_api \<Rightarrow> Node \<Rightarrow> ('x k8s_world, unit) io" where
  "EnableSchedulingOnNode aa n = ext_call (aa_UnCordonNode aa (node_Name n) k8s_DefaultTimeout k8s_DefaultRetryInterval)"

definition DisableSchedulingOnNode :: "'x app_api \<Rightarrow> Node \<Rightarrow> ('x k8s_world, unit) io" where
  "DisableSchedulingOnNode aa n = ext_call (aa_CordonNode aa (node_Name n) k8s_DefaultTimeout k8s_DefaultRetryInterval)"

section \<open>Draining a node\<close>

text \<open>The first volume with the right provisioner adds the pod; a claim that cannot be read ends the search
  with the pods found so far. The argument \<open>provisioner\<close> of the code is not used.\<close>

fun pod_uses_storage :: "'x k8s_api \<Rightarrow> 'x app_api \<Rightarrow> string \<Rightarrow> PodVolume list \<Rightarrow> ('x k8s_world, bool option) io" where
  "pod_uses_storage api aa namespace [] = io_return (Some False)"
| "pod_uses_storage api aa namespace (vol # vols) = (case pv_ClaimName vol of
     None \<Rightarrow> pod_uses_storage api aa namespace vols
   | Some c \<Rightarrow>
       io_bind (io_try (obj_call PersistentVolumeClaim (api_Get api PersistentVolumeClaim c namespace))) (\<lambda>r. (case r of
         Inl _ \<Rightarrow> io_return None
       | Inr pvc \<Rightarrow>
           io_bind (io_try (ext_call (aa_ProvisionerOf aa pvc))) (\<lambda>scProvisioner.
             if scProvisioner = Inr (api_StorageProvisioner api) then io_return (Some True)
             else pod_uses_storage api aa namespace vols))))"

fun getPodsUsingStorage :: "'x k8s_api \<Rightarrow> 'x app_api \<Rightarrow> kube_pod list \<Rightarrow> kube_pod list \<Rightarrow> ('x k8s_world, kube_pod list) io" where
  "getPodsUsingStorage api aa [] podsUsingStorage = io_return podsUsingStorage"
| "getPodsUsingStorage api aa (pod # pods) podsUsingStorage =
     io_bind (pod_uses_storage api aa (pod_Namespace pod) (pod_Volumes pod)) (\<lambda>r. (case r of
       None \<Rightarrow> io_return podsUsingStorage
     | Some uses \<Rightarrow> getPodsUsingStorage api aa pods (if uses then podsUsingStorage @ [pod] else podsUsingStorage)))"

definition PrepareNodeToDecommission :: "'x k8s_api \<Rightarrow> 'x app_api \<Rightarrow> Node \<Rightarrow> ('x k8s_world, unit) io" where
  "PrepareNodeToDecommission api aa n =
     io_bind (failing_with (ext_call (aa_PodsByNode aa (node_Name n)))
       (\<lambda>err. SchedErr (sched_ErrFailedToDecommissionNode (aa_SprintNode aa n)
          (''Failed to get pods on the node: '' @ node_Name n @ ''. Err: '' @ err)))) (\<lambda>pods.
     io_bind (getPodsUsingStorage api aa pods []) (\<lambda>podsUsingStorage.
     failing_with (ext_call (aa_DrainPods aa (node_Name n) podsUsingStorage
         (k8s_DefaultTimeout * int (length podsUsingStorage div 40 + 1)) k8s_DefaultRetryInterval))
       (\<lambda>err. SchedErr (sched_ErrFailedToDecommissionNode (aa_SprintNode aa n)
          (''Failed to drain pods from node: '' @ node_Name n @ ''. Err: '' @ err)))))"

section \<open>Labels and namespaces\<close>

definition AddLabelOnNode :: "'x k8s_api \<Rightarrow> 'x app_api \<Rightarrow> Node \<Rightarrow> string \<Rightarrow> string \<Rightarrow> ('x k8s_world, unit) io" where
  "AddLabelOnNode api aa n lKey lValue =
     failing_with (ext_call (api_AddLabelOnNode api (node_Name n) lKey lValue))
       (\<lambda>err. SchedErr (ErrFailedToAddLabelOnNode lKey lValue (aa_SprintNode aa n) (''Failed to add label on node. Err: '' @ err)))"

definition RemoveLabelOnNode :: "'x app_api \<Rightarrow> Node \<Rightarrow> string \<Rightarrow> ('x k8s_world, unit) io" where
  "RemoveLabelOnNode aa n lKey =
     failing_with (ext_call (aa_RemoveLabelOnNode aa (node_Name n) lKey))
       (\<lambda>err. SchedErr (ErrFailedToRemoveLabelOnNode lKey (aa_SprintNode aa n) (''Failed to remove label on node. Err: '' @ err)))"

text \<open>The error of the update is declared anew inside the condition, and the one returned is that of the
  read, which is nil there.\<close>

definition AddNamespaceLabel :: "'x k8s_api \<Rightarrow> string \<Rightarrow> labels \<Rightarrow> ('x k8s_world, unit) io" where
  "AddNamespaceLabel api namespace labelMap =
     io_bind (obj_call Namespace (api_Get api Namespace namespace [])) (\<lambda>ns.
     io_bind (io_try (err_call Namespace (api_Update api Namespace (ns\<lparr>so_Labels := MergeMaps (so_Labels ns) labelMap\<rparr>))))
       (\<lambda>_. io_return ()))"

definition RemoveNamespaceLabel :: "'x k8s_api \<Rightarrow> string \<Rightarrow> labels \<Rightarrow> ('x k8s_world, unit) io" where
  "RemoveNamespaceLabel api namespace labelMap =
     io_bind (obj_call Namespace (api_Get api Namespace namespace [])) (\<lambda>ns.
     err_call Namespace (api_Update api Namespace (ns\<lparr>so_Labels := fold (\<lambda>(key, _). gm_del key) labelMap (so_Labels ns)\<rparr>)))"

definition GetNamespaceLabel :: "'x k8s_api \<Rightarrow> string \<Rightarrow> ('x k8s_world, labels) io" where
  "GetNamespaceLabel api namespace =
     io_bind (obj_call Namespace (api_Get api Namespace namespace [])) (\<lambda>ns. io_return (so_Labels ns))"

definition portworxServiceName :: string where "portworxServiceName = ''portworx-service''"

definition PortworxNotDeployed :: string where "PortworxNotDeployed = ''portworx not deployed''"

definition autopilotDefaultNamespace :: string where "autopilotDefaultNamespace = ''kube-system''"

definition AutopilotLabelNameKey :: string where "AutopilotLabelNameKey = ''name''"

definition AutopilotLabelValue :: string where "AutopilotLabelValue = ''autopilot''"

text \<open>The namespaces of the services called \<open>portworx-service\<close> decide.\<close>

definition portworx_namespace :: "string list \<Rightarrow> string result" where
  "portworx_namespace namespaces =
     (if namespaces = [] then Inl (Errorf (PortworxNotDeployed @ '' on this K8S cluster''))
      else if length namespaces = 2 \<and> list_ex (\<lambda>n. n \<noteq> ''kube-system'') namespaces
        then Inr (hd (filter (\<lambda>n. n \<noteq> ''kube-system'') namespaces))
      else if length namespaces > 2
        then Inl (Errorf (''Portworx service ['' @ portworxServiceName @ ''] is deployed in too many namespaces '' @
               Sprint_strings namespaces @ '', something is wrong here''))
      else Inr (hd namespaces))"

definition GetPortworxNamespace :: "'x app_api \<Rightarrow> ('x k8s_world, string) io" where
  "GetPortworxNamespace aa =
     io_bind (ext_call (aa_ListServices aa)) (\<lambda>services.
       io_lift (Some (portworx_namespace (map snd (filter (\<lambda>(name, _). name = portworxServiceName) services)))))"

definition autopilot_pods_error :: "string \<Rightarrow> go_error" where
  "autopilot_pods_error what =
     Errorf (what @ '' with label ['' @ AutopilotLabelNameKey @ ''='' @ AutopilotLabelValue @ '']'')"

definition GetAutopilotNamespace :: "'x k8s_api \<Rightarrow> 'x app_api \<Rightarrow> ('x k8s_world, string) io" where
  "GetAutopilotNamespace api aa =
     io_bind (io_try (GetPortworxNamespace aa)) (\<lambda>r. (case r of
       Inl err \<Rightarrow>
         (if Contains_str (Error_str err) PortworxNotDeployed then io_return autopilotDefaultNamespace
          else io_error (Errorf (''Failed to find portworx namespace '' @ Error_str err)))
     | Inr _ \<Rightarrow>
         io_bind (ext_call (api_ListPods api [] [(AutopilotLabelNameKey, AutopilotLabelValue)])) (\<lambda>pods.
           (case pods of
              pod # _ \<Rightarrow>
                (if pod_Namespace pod = [] then io_error (autopilot_pods_error ''Failed to find autopilot namespace using pods'')
                 else io_return (pod_Namespace pod))
            | [] \<Rightarrow> io_error (autopilot_pods_error ''Failed to find autopilot namespace using pods'')))))"

definition IsAutopilotEnabled :: "'x k8s_api \<Rightarrow> ('x k8s_world, bool) io" where
  "IsAutopilotEnabled api =
     io_bind (ext_call (api_ListPods api [] [(AutopilotLabelNameKey, AutopilotLabelValue)])) (\<lambda>pods.
       if pods = [] then io_error (autopilot_pods_error ''Failed to find autopilot pods'') else io_return True)"

text \<open>The error of the secret is declared in its own condition and does not come out.\<close>

definition GetTokenFromConfigMap :: "'x k8s_api \<Rightarrow> string \<Rightarrow> ('x k8s_world, string) io" where
  "GetTokenFromConfigMap api configMapName =
     io_bind (obj_call ConfigMap (api_Get api ConfigMap configMapName ''default'')) (\<lambda>configMap.
     io_bind (io_try (obj_call Secret (api_Get api Secret (gm_index [] (so_Data configMap) secretNameKey)
         (gm_index [] (so_Data configMap) secretNamespaceKey)))) (\<lambda>r.
       io_return (case r of Inl _ \<Rightarrow> [] | Inr secret \<Rightarrow> gm_index [] (so_Data secret) ''auth-token'')))"

section \<open>What stays unchanged\<close>

text \<open>Reading an application changes neither the store of specs nor the registry of nodes.\<close>

definition frozen :: "'x k8s_world \<Rightarrow> 'x k8s_world \<Rightarrow> bool" where
  "frozen w0 w \<longleftrightarrow> wd_heap w = wd_heap w0 \<and> wd_registry w = wd_registry w0"

lemma frozen_refl [simp]: "frozen w w"
  by (simp add: frozen_def)

lemma frozenD: "frozen w0 w \<Longrightarrow> wd_heap w = wd_heap w0" "frozen w0 w \<Longrightarrow> wd_registry w = wd_registry w0"
  by (simp_all add: frozen_def)

lemma frozen_calls [keeps_intros]:
  "keeps (frozen w0) (ext_call f)" "keeps (frozen w0) (obj_call t g)" "keeps (frozen w0) (raw_call t g)"
  "keeps (frozen w0) (deref p)"
  by (auto simp: keeps_def ext_call_def obj_call_def raw_call_def deref_def io_gets_def frozen_def
      split: prod.splits option.splits)

lemma frozen_err_call [keeps_intros]: "keeps (frozen w0) (err_call t g)"
  unfolding err_call_def by (intro keeps_intros keeps_shapes)

lemma frozen_lift [keeps_intros]: "keeps I (io_lift r)"
  by (auto simp: keeps_def io_lift_def)

lemma on_success:
  "(\<And>x w'. r = Some (Inr x, w') \<Longrightarrow> P x w') \<Longrightarrow> (case r of Some (Inr x, w') \<Rightarrow> P x w' | _ \<Rightarrow> True)"
  by (simp split: option.split prod.split sum.split)

lemma io_foreach_Inr:
  assumes "\<And>x. keeps I (f x)" "I w" "io_foreach f xs w = Some (Inr u, w')"
  shows "I w' \<and> (\<forall>x\<in>set xs. \<exists>v v'. I v \<and> f x v = Some (Inr (), v'))"
  using assms(2,3)
proof (induction xs arbitrary: w)
  case (Cons x xs)
  from Cons.prems(2) obtain w1 where "f x w = Some (Inr (), w1)" "io_foreach f xs w1 = Some (Inr u, w')"
    by (auto simp: io_bind_Inr)
  moreover from this(1) have "I w1"
    using keepsD [OF assms(1)] Cons.prems(1) by blast
  ultimately show ?case
    using Cons.IH Cons.prems(1) by auto
qed auto

lemma io_stop_keeps [keeps_intros]: "keeps I m \<Longrightarrow> keeps I (io_stop m)"
  by (force simp: keeps_def io_stop_def split: option.splits prod.splits sum.splits)

lemma io_stop_Inr: "io_stop m w = Some (Inr (Inr x), w') \<longleftrightarrow> m w = Some (Inr (Inr x), w')"
  by (simp add: io_stop_def split: option.splits prod.splits sum.splits)

lemma io_retry_keeps [keeps_intros]: "keeps I m \<Longrightarrow> 0 < gap \<Longrightarrow> keeps I (io_retry clk m timeout gap)"
  unfolding io_retry_def by (intro keeps_intros keeps_shapes)

lemma io_retry_Inr:
  assumes "0 < gap" "keeps I m" "I w" "io_retry clk m timeout gap w = Some (Inr x, w')"
  shows "\<exists>w0. I w0 \<and> m w0 = Some (Inr (Inr x), w')"
proof -
  from assms(4) obtain r w1 where r: "io_poll clk (io_stop m) timeout gap w = Some (Inr r, w1)"
      "(case r of Inl err \<Rightarrow> io_error err | Inr x \<Rightarrow> io_return x) w1 = Some (Inr x, w')"
    by (auto simp: io_retry_def io_bind_Inr)
  then have "io_poll clk (io_stop m) timeout gap w = Some (Inr (Inr x), w')"
    by (auto split: sum.splits)
  then obtain w0 where "I w0" "io_stop m w0 = Some (Inr (Inr x), w')"
    using io_poll_Inr_inv [OF assms(1) io_stop_keeps [OF assms(2)] assms(3)] by blast
  then show ?thesis
    unfolding io_stop_Inr by blast
qed

lemma frozen_pods [keeps_intros]: "keeps (frozen w0) (pods_of_specs api specs pods)"
  by (induction specs arbitrary: pods) (simp, intro keeps_intros, simp, intro keeps_intros keeps_shapes, auto)

lemma frozen_app_pods [keeps_intros]: "keeps (frozen w0) (getPodsForApp api ctx)"
  unfolding getPodsForApp_def by (intro keeps_intros)

lemma frozen_attempts [keeps_intros]:
  "keeps (frozen w0) (app_nodes_attempt api aa ctx)" "keeps (frozen w0) (isPodTerminating api ctx)"
  unfolding app_nodes_attempt_def isPodTerminating_def by (intro keeps_intros keeps_shapes)+

lemma frozen_running [keeps_intros]: "keeps (frozen w0) (check_running api aa app timeout gap obj)"
  unfolding check_running_def check_data_service_def by (intro keeps_intros keeps_shapes)

section \<open>The nodes of an application\<close>

lemma Contains_name: "NodeRegistry.Contains nodes n \<longleftrightarrow> node_Name n \<in> node_Name ` set nodes"
  by (induction nodes n rule: Contains.induct) auto

lemma nodes_of_pods_ok:
  assumes "nodes_of_pods api aa app m pods ps acc = Inr nodes" "distinct (map node_Name acc)"
    and "\<And>name n. map_of m name = Some n \<Longrightarrow> node_Name n = name"
  shows "nodes \<noteq> [] \<and> distinct (map node_Name nodes) \<and> set nodes \<subseteq> set acc \<union> ran (map_of m) \<and>
    node_Name ` set nodes = node_Name ` set acc \<union> pod_NodeName ` set (filter (api_IsPodRunning api) ps) \<and>
    pod_NodeName ` set ps \<subseteq> dom (map_of m)"
  using assms(1,2)
proof (induction ps arbitrary: acc)
  case Nil
  then show ?case by (auto split: if_splits)
next
  case (Cons p ps)
  from Cons.prems(1) obtain n where n: "map_of m (pod_NodeName p) = Some n"
    by (auto split: if_splits option.splits)
  then have name: "node_Name n = pod_NodeName p" and ran: "n \<in> ran (map_of m)"
    using assms(3) by (auto simp: ran_def)
  show ?case
  proof (cases "\<not> NodeRegistry.Contains acc n \<and> api_IsPodRunning api p")
    case True
    have "nodes_of_pods api aa app m pods ps (acc @ [n]) = Inr nodes"
      using Cons.prems(1) n True by (auto split: if_splits)
    moreover have "distinct (map node_Name (acc @ [n]))"
      using Cons.prems(2) True by (simp add: Contains_name)
    ultimately show ?thesis
      using Cons.IH [of "acc @ [n]"] True n name ran by auto
  next
    case False
    have "nodes_of_pods api aa app m pods ps acc = Inr nodes"
      using Cons.prems(1) n False by (auto split: if_splits)
    note IH = Cons.IH [OF this Cons.prems(2)]
    have "pod_NodeName p \<in> node_Name ` set acc" if "api_IsPodRunning api p"
      using False name that by (simp add: Contains_name)
    then have "node_Name ` set acc \<union> pod_NodeName ` set (filter (api_IsPodRunning api) (p # ps)) =
        node_Name ` set acc \<union> pod_NodeName ` set (filter (api_IsPodRunning api) ps)"
      by (simp add: insert_absorb)
    moreover have "pod_NodeName ` set (p # ps) \<subseteq> dom (map_of m)"
      using IH n by auto
    ultimately show ?thesis
      using IH by simp
  qed
qed

text \<open>C13: \<open>GetNodesForApp\<close>: the nodes returned are registered, with distinct names, and they are exactly the nodes on
  which a pod of the application was running in the last listing; every pod of that listing was
  scheduled to a registered node.\<close>

theorem nodes_for_app:
  "case GetNodesForApp api aa ctx w of
   Some (Inr nodes, w') \<Rightarrow>
     nodes \<noteq> [] \<and> distinct (map node_Name nodes) \<and> set nodes \<subseteq> set (GetNodes (wd_registry w)) \<and>
     (\<exists>v pods. getPodsForApp api ctx v = Some (Inr pods, w') \<and>
        node_Name ` set nodes = pod_NodeName ` set (filter (api_IsPodRunning api) pods) \<and>
        pod_NodeName ` set pods \<subseteq> node_Name ` set (GetNodes (wd_registry w)))
   | _ \<Rightarrow> True"
proof (rule on_success, goal_cases)
  case (1 nodes w')
  note run = this
  let ?m = "GetNodesByName (wd_registry w)"
  obtain v where v: "frozen w v" "app_nodes_attempt api aa ctx v = Some (Inr (Inr nodes), w')"
    using io_retry_Inr [OF k8s_gaps(1) frozen_attempts(1) frozen_refl run [unfolded GetNodesForApp_def]] by blast
  then obtain pods where pods: "getPodsForApp api ctx v = Some (Inr pods, w')"
      "nodes_of_pods api aa (ctx_App ctx) (GetNodesByName (wd_registry w')) pods pods [] = Inr nodes"
    by (auto simp: app_nodes_attempt_def failing_with_def io_bind_Inr io_catch_Inr)
  have "wd_registry w' = wd_registry w"
    using keepsD [OF frozen_app_pods pods(1) v(1)] by (rule frozenD)
  then have "nodes_of_pods api aa (ctx_App ctx) ?m pods pods [] = Inr nodes"
    using pods(2) by simp
  moreover have m: "n \<in> set (GetNodes (wd_registry w)) \<and> node_Name n = name" if "map_of ?m name = Some n" for name n
    using key_nodes_sound [of node_Name "wd_registry w" name n] that by (simp add: GetNodesByName_def GetNodes_def collect_eq)
  ultimately have ok: "nodes \<noteq> []" "distinct (map node_Name nodes)" "set nodes \<subseteq> ran (map_of ?m)"
      "node_Name ` set nodes = pod_NodeName ` set (filter (api_IsPodRunning api) pods)" "pod_NodeName ` set pods \<subseteq> dom (map_of ?m)"
    using nodes_of_pods_ok [of api aa "ctx_App ctx" ?m pods pods "[]" nodes] by auto
  have sub: "ran (map_of ?m) \<subseteq> set (GetNodes (wd_registry w))" "dom (map_of ?m) \<subseteq> node_Name ` set (GetNodes (wd_registry w))"
    using m by (auto simp: ran_def)
  show ?case
    by (intro conjI exI [of _ v] exI [of _ pods] ok(1,2,4) pods(1) subset_trans [OF ok(3) sub(1)] subset_trans [OF ok(5) sub(2)])
qed

section \<open>A running application\<close>

text \<open>Calls of the client library that return an object or an error, and then return from every world.\<close>

definition no_nil :: "'x k8s_api \<Rightarrow> bool" where
  "no_nil api \<longleftrightarrow> (\<forall>t name namespace x. fst (api_Get api t name namespace x) \<noteq> (None, None))"

lemma returns_calls [returns_intros]:
  "returns (ext_call f)" "returns (deref p)" "no_nil api \<Longrightarrow> returns (obj_call t (api_Get api t name namespace))"
  by (auto simp: returns_def ext_call_def obj_call_def deref_def io_gets_def no_nil_def split: prod.splits option.splits)
     (metis fst_conv)

lemma returns_failing [returns_intros]: "returns m \<Longrightarrow> returns (failing_with m e)"
  unfolding failing_with_def by (intro returns_intros)

lemma returns_foreach [returns_intros]: "(\<And>x. returns (f x)) \<Longrightarrow> returns (io_foreach f xs)"
  by (induction xs) (simp_all add: returns_intros)

lemma returns_pods [returns_intros]: "returns (pods_of_specs api specs pods)"
  by (induction specs arbitrary: pods) (simp, intro returns_intros, simp, intro returns_intros returns_cases, auto)

lemma returns_let: "returns (f x) \<Longrightarrow> returns (let y = x in f y)"
  by simp

lemma returns_running [returns_intros]:
  "no_nil api \<Longrightarrow> returns (check_running api aa app timeout gap obj)" "returns (isPodTerminating api ctx)"
  unfolding check_running_def check_data_service_def isPodTerminating_def getPodsForApp_def
   apply (intro returns_intros returns_cases returns_let; assumption)
  by (intro returns_intros returns_cases returns_let)

lemma not_terminating:
  assumes "isPodTerminating api ctx v = Some (Inr (), w')"
  shows "case getPodsForApp api ctx v of
     Some (Inr pods, v') \<Rightarrow> v' = w' \<and> list_all (\<lambda>p. \<not> pod_Deleting p) pods
   | Some (Inl err, v') \<Rightarrow> v' = w' \<and> err = api_ErrPodsNotFound api
   | None \<Rightarrow> False"
proof -
  from assms obtain r where "getPodsForApp api ctx v = Some (r, w') \<and>
      (case r of Inl err \<Rightarrow> err = api_ErrPodsNotFound api | Inr pods \<Rightarrow> filter pod_Deleting pods = [])"
    by (fastforce simp: isPodTerminating_def io_bind_Inr Let_def split: sum.splits if_splits)
  then show ?thesis
    by (auto simp: list_all_iff filter_empty_conv split: sum.splits)
qed


text \<open>A client for the examples that has nothing to report.\<close>

definition mem_driver :: "(spec_obj list) node_driver" where
  "mem_driver = \<lparr>nd_Systemctl = (\<lambda>_ _ _ _ _ x. (Inr (), x)), nd_FindFiles = (\<lambda>_ _ _ _ x. (Inr [], x))\<rparr>"

definition mem_app :: "(spec_obj list) app_api" where
  "mem_app = \<lparr>aa_WaitForPodDeletion = (\<lambda>_ _ _ x. (Inr (), x)), aa_DeletePods = (\<lambda>_ x. (Inr (), x)),
     aa_PodByUID = (\<lambda>_ _ x. ((None, Some not_found), x)), aa_ListServices = (\<lambda>x. (Inr [], x)),
     aa_PodsByNode = (\<lambda>_ x. (Inr [], x)), aa_DrainPods = (\<lambda>_ _ _ _ x. (Inr (), x)),
     aa_CordonNode = (\<lambda>_ _ _ x. (Inr (), x)), aa_UnCordonNode = (\<lambda>_ _ _ x. (Inr (), x)),
     aa_RemoveLabelOnNode = (\<lambda>_ _ x. (Inr (), x)), aa_ProvisionerOf = (\<lambda>_ x. (Inr [], x)), aa_Pointer = (\<lambda>_. []),
     aa_Status = (\<lambda>_. []), aa_SprintPods = (\<lambda>_. []), aa_SprintNode = (\<lambda>_. []), aa_nodeDrivers = [(''ssh'', mem_driver)]\<rparr>"

definition sample_ctx :: "nat \<Rightarrow> sched_ctx" where
  "sample_ctx n = \<lparr>ctx_UID = ''1'', ctx_App = sample_app ''app'' n, ctx_ScheduleOptions = sample_options,
     ctx_SkipClusterScopedObject = False\<rparr>"

lemma sample_ctx_fields [simp]:
  "ctx_App (sample_ctx n) = sample_app ''app'' n" "ctx_ScheduleOptions (sample_ctx n) = sample_options"
  by (simp_all add: sample_ctx_def)

lemma mem_no_nil: "no_nil mem_api"
  by (auto simp: no_nil_def mem_Get_def split: list.splits)


section \<open>The topology check\<close>

lemma GetNodeByIP_found: "isl (GetNodeByIP ip reg) \<longleftrightarrow> \<not> list_ex (\<lambda>n. list_ex (\<lambda>a. a = ip) (Addresses n)) (GetNodes reg)"
  by (induction ip reg rule: GetNodeByIP.induct) (auto simp: GetNodes_def collect_eq gm_values_def)

text \<open>\<open>validatePodsTopology\<close>: whatever zone is asked for, the check passes for pods on registered nodes; the zone
  and the region of a node are never compared. It fails for a zone exactly when a pod runs on a host
  that is not registered.\<close>

theorem topology_not_compared:
  "validatePodsTopology reg pods labelValue = None \<longleftrightarrow>
     labelValue = [] \<or>
     list_all (\<lambda>pod. list_ex (\<lambda>n. list_ex (\<lambda>a. a = pod_HostIP pod) (Addresses n)) (GetNodes reg)) pods"
proof (induction reg pods labelValue rule: validatePodsTopology.induct)
  case (2 reg pod pods labelValue)
  show ?case
  proof (cases "GetNodeByIP (pod_HostIP pod) reg")
    case (Inl err)
    then have "\<not> list_ex (\<lambda>n. list_ex (\<lambda>a. a = pod_HostIP pod) (Addresses n)) (GetNodes reg)"
      using GetNodeByIP_found [of "pod_HostIP pod" reg] by simp
    with Inl 2 show ?thesis
      by (auto simp: zero_Node_def)
  next
    case (Inr n)
    then have "list_ex (\<lambda>n. list_ex (\<lambda>a. a = pod_HostIP pod) (Addresses n)) (GetNodes reg)"
      using GetNodeByIP_found [of "pod_HostIP pod" reg] by simp
    with Inr 2 show ?thesis
      by simp
  qed
qed simp

section \<open>The current version of a spec\<close>

definition misread_types :: "spec_type list" where
  "misread_types = [CronJob, CustomResourceDefinitionV1beta1, CustomResourceDefinition, ResourceTransformation]"

lemma updated_reads_type:
  "map_of updated_reads t = Some (t', n, kind) \<Longrightarrow> (t' = t \<longleftrightarrow> t \<notin> set misread_types)"
proof -
  assume "map_of updated_reads t = Some (t', n, kind)"
  then have "(t, t', n, kind) \<in> set updated_reads"
    by (rule map_of_SomeD)
  moreover have "list_all (\<lambda>(t, t', _). t' = t \<longleftrightarrow> t \<notin> set misread_types) updated_reads"
    by (simp add: updated_reads_def misread_types_def)
  ultimately show ?thesis
    by (auto simp: list_all_iff)
qed

text \<open>C30: \<open>GetUpdatedSpec\<close>: an object it returns has the type of the spec except for the two versions of custom resource
  definitions, resource transformations and cron jobs, which never have it. For deployments, stateful
  sets and daemon sets it returns an object only when the read failed; after a good read it returns
  nil without an error.\<close>

theorem updated_spec_type:
  "case GetUpdatedSpec api obj w of
     Some (Inr (Some o1), w') \<Rightarrow>
       (so_type o1 = so_type obj \<longleftrightarrow> so_type obj \<notin> set misread_types) \<and>
       (case api_Get api (so_type obj) (so_Name obj) (so_Namespace obj) (wd_ext w) of
          ((_, None), _) \<Rightarrow> so_type obj \<notin> set [Deployment, StatefulSet, DaemonSet] | _ \<Rightarrow> True)
   | Some (Inr None, w') \<Rightarrow> so_type obj \<in> set [Deployment, StatefulSet, DaemonSet]
   | _ \<Rightarrow> True"
proof -
  consider (workload) "so_type obj \<in> set [Deployment, StatefulSet, DaemonSet]"
    | (other) "so_type obj \<notin> set [Deployment, StatefulSet, DaemonSet]" by blast
  then show ?thesis
  proof cases
    case workload
    then obtain kind where k: "GetUpdatedSpec api obj = inverted_read api obj kind"
      by (auto simp: GetUpdatedSpec_def)
    have "so_type obj \<notin> set misread_types"
      using workload by (auto simp: misread_types_def)
    then show ?thesis
      unfolding k using workload
      by (auto simp: inverted_read_def io_bind_def raw_call_def through_def with_kind_def io_return_def io_panic_def
          split: option.splits prod.splits)
  next
    case other
    show ?thesis
    proof (cases "map_of updated_reads (so_type obj)")
      case None
      then show ?thesis
        using other by (simp add: GetUpdatedSpec_def io_error_def)
    next
      case (Some q)
      obtain t n kind where q: "q = (t, n, kind)" by (cases q)
      let ?call = "obj_call t (api_Get api t (so_Name obj) (if n then so_Namespace obj else []))"
      have g: "GetUpdatedSpec api obj = io_bind ?call (\<lambda>o1. io_return (Some (with_kind kind o1)))"
        using other Some by (simp add: GetUpdatedSpec_def q)
      have t: "so_type (with_kind kind o1) = so_type obj \<longleftrightarrow> so_type obj \<notin> set misread_types"
        if "?call w = Some (Inr o1, w')" for o1 w'
        using typedD [OF typed_call that] updated_reads_type [OF Some [unfolded q]] by (simp add: with_kind_def)
      show ?thesis
        unfolding g using t other by (simp add: io_bind_def io_return_def split: option.split prod.split sum.split)
    qed
  qed
qed

section \<open>The registry of nodes\<close>

text \<open>The nodes that \<open>AddNewNode\<close> makes of the nodes of the cluster.\<close>

definition parsed_node :: "K8s \<Rightarrow> 'x k8s_api \<Rightarrow> kube_node \<Rightarrow> Node \<Rightarrow> bool" where
  "parsed_node k api kn n \<longleftrightarrow> node_Name n = kn_Name kn \<and> Addresses n = getAddressesForNode kn \<and>
     node_Type n = (if api_IsNodeMaster api kn \<and> k_NodeDriverName k \<noteq> ''ibm'' then TypeMaster else TypeWorker) \<and>
     \<not> IsStorageDriverInstalled n \<and> StoragePools n = []"

lemma frozen_add_steps [keeps_intros]: "keeps (frozen w0) (parseK8SNode k api n)" "keeps (frozen w0) (k8s_IsNodeReady api n1)"
  unfolding parseK8SNode_def k8s_IsNodeReady_def by (intro keeps_intros keeps_shapes)+

lemma parse_Inr:
  "parseK8SNode k api kn w = Some (Inr n, w') \<Longrightarrow> parsed_node k api kn n \<and> uuid n = []"
  by (auto simp: parseK8SNode_def io_bind_Inr parsed_node_def zero_Node_def Let_def)

lemma AddNewNode_cases:
  assumes "AddNewNode k api kn w = Some (r, w')"
  shows "case r of
     Inl err \<Rightarrow> wd_registry w' = wd_registry w
   | Inr _ \<Rightarrow> \<exists>n. parsed_node k api kn n \<and> wd_registry w' = gm_put (uuid n) n (wd_registry w)"
proof -
  have parse: "\<exists>n w1. parseK8SNode k api kn w = Some (Inr n, w1)"
    by (simp add: parseK8SNode_def io_bind_def io_try_def ext_call_def io_return_def Let_def split: prod.splits)
  then obtain n w1 where n: "parseK8SNode k api kn w = Some (Inr n, w1)" by blast
  then have w1: "wd_registry w1 = wd_registry w"
    using keepsD [OF frozen_add_steps(1) n frozen_refl] by (simp add: frozenD)
  obtain r2 w2 where r2: "k8s_IsNodeReady api n w1 = Some (r2, w2)"
    using assms n by (cases "k8s_IsNodeReady api n w1") (auto simp: AddNewNode_def io_bind_def)
  then have w2: "wd_registry w2 = wd_registry w"
    using keepsD [OF frozen_add_steps(2) r2 frozen_refl] w1 by (simp add: frozenD)
  show ?thesis
  proof (cases r2)
    case (Inl err)
    then have "r = Inl err" "w' = w2"
      using assms n r2 by (simp_all add: AddNewNode_def io_bind_def)
    then show ?thesis
      using w2 by simp
  next
    case (Inr u)
    obtain new x where "api_NewUUID api (wd_ext w2) = (new, x)" by fastforce
    then have "r = Inr () \<and> wd_registry w' = gm_put new (n\<lparr>uuid := new\<rparr>) (wd_registry w)"
      using assms n r2 w2 Inr parse_Inr [OF n] by (auto simp: AddNewNode_def io_bind_def registry_add_def AddNode_def)
    moreover have "parsed_node k api kn (n\<lparr>uuid := new\<rparr>)"
      using parse_Inr [OF n] by (simp add: parsed_node_def)
    ultimately show ?thesis
      by (auto intro: exI [of _ "n\<lparr>uuid := new\<rparr>"])
  qed
qed

definition put_nodes :: "Node list \<Rightarrow> registry \<Rightarrow> registry" where
  "put_nodes ns reg = fold (\<lambda>n. gm_put (uuid n) n) ns reg"

lemma add_nodes:
  assumes "io_foreach (AddNewNode k api) kns w = Some (r, w')"
  shows "\<exists>ns. list_all2 (parsed_node k api) (take (length ns) kns) ns \<and> wd_registry w' = put_nodes ns (wd_registry w) \<and>
    (isl r \<longleftrightarrow> length ns < length kns)"
  using assms
proof (induction kns arbitrary: w)
  case Nil
  then show ?case
    by (auto simp: io_return_def put_nodes_def intro: exI [of _ "[]"])
next
  case (Cons kn kns)
  obtain r1 w1 where r1: "AddNewNode k api kn w = Some (r1, w1)"
    using Cons.prems by (cases "AddNewNode k api kn w") (auto simp: io_bind_def)
  show ?case
  proof (cases r1)
    case (Inl err)
    then have "isl r" "wd_registry w' = wd_registry w"
      using Cons.prems r1 AddNewNode_cases [OF r1] by (auto simp: io_bind_def)
    then show ?thesis
      by (intro exI [of _ "[]"]) (simp add: put_nodes_def)
  next
    case (Inr u)
    then obtain n where n: "parsed_node k api kn n" "wd_registry w1 = gm_put (uuid n) n (wd_registry w)"
      using AddNewNode_cases [OF r1] by auto
    have "io_foreach (AddNewNode k api) kns w1 = Some (r, w')"
      using Cons.prems r1 Inr by (simp add: io_bind_def)
    from Cons.IH [OF this] obtain ns where "list_all2 (parsed_node k api) (take (length ns) kns) ns"
        "wd_registry w' = put_nodes ns (wd_registry w1)" "isl r \<longleftrightarrow> length ns < length kns"
      by blast
    with n show ?thesis
      by (intro exI [of _ "n # ns"]) (simp add: put_nodes_def)
  qed
qed

lemma put_nodes_values: "set (gm_values (put_nodes ns reg)) \<subseteq> set ns \<union> set (gm_values reg)"
proof (induction ns arbitrary: reg)
  case (Cons n ns)
  have "set (gm_values (gm_put (uuid n) n reg)) \<subseteq> insert n (set (gm_values reg))"
    by (induction reg) (auto simp: gm_values_def gm_put_def)
  with Cons [of "gm_put (uuid n) n reg"] show ?case
    by (auto simp: put_nodes_def)
qed (simp add: put_nodes_def)

text \<open>C15: \<open>RefreshNodeRegistry\<close> fails without an effect when the nodes cannot be listed. Otherwise it forgets the registry
  and adds the nodes of the cluster one by one, each with the name, the addresses and the type that Kubernetes
  reports; on a failure the registry keeps a proper prefix of them. In either case no node of the
  registry is a storage driver node any more.\<close>

theorem refresh_registry:
  "case RefreshNodeRegistry k api w of
     Some (r, w') \<Rightarrow>
       (case fst (api_GetNodes api (wd_ext w)) of
          Inl err \<Rightarrow> r = Inl err \<and> wd_registry w' = wd_registry w
        | Inr kns \<Rightarrow> GetStorageDriverNodes (wd_registry w') = [] \<and>
            (\<exists>ns. list_all2 (parsed_node k api) (take (length ns) kns) ns \<and> wd_registry w' = put_nodes ns [] \<and>
               (isl r \<longleftrightarrow> length ns < length kns)))
   | None \<Rightarrow> True"
proof (cases "RefreshNodeRegistry k api w")
  case (Some rw)
  obtain r w' where rw: "rw = (r, w')" by (cases rw)
  obtain kns x where l: "api_GetNodes api (wd_ext w) = (kns, x)" by fastforce
  show ?thesis
  proof (cases kns)
    case (Inl err)
    then show ?thesis
      using Some l by (auto simp: RefreshNodeRegistry_def io_bind_def ext_call_def rw)
  next
    case (Inr kns')
    then have "io_foreach (AddNewNode k api) kns' (w\<lparr>wd_ext := x, wd_registry := []\<rparr>) = Some (r, w')"
      using Some l by (simp add: RefreshNodeRegistry_def io_bind_def ext_call_def io_modify_def rw CleanupRegistry_def)
    from add_nodes [OF this] obtain ns where ns: "list_all2 (parsed_node k api) (take (length ns) kns') ns"
        "wd_registry w' = put_nodes ns []" "isl r \<longleftrightarrow> length ns < length kns'"
      by auto
    have "\<forall>n\<in>set ns. \<not> IsStorageDriverInstalled n"
      using ns(1) by (auto simp: list_all2_conv_all_nth in_set_conv_nth parsed_node_def)
    then have "GetStorageDriverNodes (wd_registry w') = []"
      using put_nodes_values [of ns "[]"] by (auto simp: ns(2) GetStorageDriverNodes_def collect_eq filter_empty_conv gm_values_def)
    with ns show ?thesis
      by (auto simp: Some rw l Inr)
  qed
qed simp

section \<open>Scaling and reading back\<close>

text \<open>
  What the driver relies on in the cluster: reading changes nothing and returns the object asked for, an
  update that succeeds sets the replicas of its object and of no other, one that fails changes nothing.
\<close>

definition replicas_at :: "'x k8s_api \<Rightarrow> spec_type \<Rightarrow> string \<Rightarrow> string \<Rightarrow> 'x \<Rightarrow> int option" where
  "replicas_at api t name namespace x = (case fst (api_Get api t name namespace x) of
     (Some o1, None) \<Rightarrow> Some (so_Replicas o1) | _ \<Rightarrow> None)"

definition stores_replicas :: "'x k8s_api \<Rightarrow> bool" where
  "stores_replicas api \<longleftrightarrow>
     (\<forall>t name namespace x. snd (api_Get api t name namespace x) = x) \<and>
     (\<forall>t name namespace x o1. fst (api_Get api t name namespace x) = (Some o1, None) \<longrightarrow>
        so_Name o1 = name \<and> so_Namespace o1 = namespace) \<and>
     (\<forall>t o1 x p x'. so_type o1 = t \<longrightarrow> api_Update api t o1 x = ((p, None), x') \<longrightarrow>
        (\<forall>t' name namespace. replicas_at api t' name namespace x' =
           (if t' = t \<and> name = so_Name o1 \<and> namespace = so_Namespace o1 then Some (so_Replicas o1)
            else replicas_at api t' name namespace x))) \<and>
     (\<forall>t o1 x p err x'. api_Update api t o1 x = ((p, Some err), x') \<longrightarrow> x' = x)"

lemma stores_get: "stores_replicas api \<Longrightarrow> api_Get api t name namespace x = (r, x') \<Longrightarrow> x' = x"
  unfolding stores_replicas_def by (metis snd_conv)

lemma stores_name:
  "stores_replicas api \<Longrightarrow> api_Get api t name namespace x = ((Some o1, None), x') \<Longrightarrow> so_Name o1 = name \<and> so_Namespace o1 = namespace"
  unfolding stores_replicas_def by (metis fst_conv)

lemma stores_update:
  "stores_replicas api \<Longrightarrow> api_Update api t o1 x = ((p, None), x') \<Longrightarrow> so_type o1 = t \<Longrightarrow>
     replicas_at api t' name namespace x' =
       (if t' = t \<and> name = so_Name o1 \<and> namespace = so_Namespace o1 then Some (so_Replicas o1)
        else replicas_at api t' name namespace x)"
  unfolding stores_replicas_def by blast

lemma stores_failed: "stores_replicas api \<Longrightarrow> api_Update api t o1 x = ((p, Some err), x') \<Longrightarrow> x' = x"
  unfolding stores_replicas_def by blast

text \<open>Reading an object and writing it back with other replicas.\<close>

definition rescale :: "'x k8s_api \<Rightarrow> spec_type \<Rightarrow> string \<Rightarrow> string \<Rightarrow> int \<Rightarrow> ('x k8s_world, unit) io" where
  "rescale api t name namespace f =
     io_bind (obj_call t (api_Get api t name namespace)) (\<lambda>o1. err_call t (api_Update api t (o1\<lparr>so_Replicas := f\<rparr>)))"

lemma rescale_cases:
  assumes "stores_replicas api" "rescale api t name namespace f w = Some (r, w')"
  shows "case r of
     Inl err \<Rightarrow> wd_ext w' = wd_ext w
   | Inr _ \<Rightarrow> \<forall>t' n' ns'. replicas_at api t' n' ns' (wd_ext w') =
       (if t' = t \<and> n' = name \<and> ns' = namespace then Some f else replicas_at api t' n' ns' (wd_ext w))"
proof -
  obtain p err x where get: "api_Get api t name namespace (wd_ext w) = ((p, err), x)"
    by (metis surj_pair)
  have x: "x = wd_ext w"
    by (rule stores_get [OF assms(1) get])
  show ?thesis
  proof (cases err)
    case (Some e)
    then show ?thesis
      using assms(2) get x by (cases p) (auto simp: rescale_def io_bind_def obj_call_def)
  next
    case None
    with assms(2) get obtain o1 where o1: "p = Some o1"
      by (cases p) (auto simp: rescale_def io_bind_def obj_call_def)
    have names: "so_Name o1 = name \<and> so_Namespace o1 = namespace"
      by (rule stores_name [OF assms(1) get [unfolded None o1]])
    let ?o = "o1\<lparr>so_type := t, so_Replicas := f\<rparr>"
    obtain p2 err2 x2 where upd: "api_Update api t ?o (wd_ext w) = ((p2, err2), x2)"
      by (metis surj_pair)
    have run: "r = (case err2 of Some e \<Rightarrow> Inl e | None \<Rightarrow> Inr ())" "wd_ext w' = x2"
      using assms(2) get None o1 x upd
      by (cases err2; auto simp: rescale_def io_bind_def obj_call_def err_call_def raw_call_def io_error_def io_return_def)+
    show ?thesis
    proof (cases err2)
      case (Some e)
      then show ?thesis
        using run stores_failed [OF assms(1) upd [unfolded Some]] by simp
    next
      case None
      then show ?thesis
        using run names stores_update [OF assms(1) upd [unfolded None]] by simp
    qed
  qed
qed

text \<open>A key of the cluster holds the number that the map of factors has for it; an update of one key keeps that
  for all others.\<close>

definition factor :: "(string, int) gomap \<Rightarrow> spec_type \<Rightarrow> string \<Rightarrow> int" where
  "factor m t name = gm_index 0 m (name @ (if t = Deployment then DeploymentSuffix else StatefulSetSuffix))"

definition scaled :: "'x k8s_api \<Rightarrow> (string, int) gomap \<Rightarrow> spec_type \<Rightarrow> string \<Rightarrow> string \<Rightarrow> 'x k8s_world \<Rightarrow> bool" where
  "scaled api m t name namespace w \<longleftrightarrow> replicas_at api t name namespace (wd_ext w) = Some (factor m t name)"

lemma scaled_rescale:
  assumes "stores_replicas api"
  shows "keeps (scaled api m t' name' namespace') (rescale api t name namespace (factor m t name))"
proof (rule keepsI)
  fix w r w'
  assume run: "rescale api t name namespace (factor m t name) w = Some (r, w')" and "scaled api m t' name' namespace' w"
  then show "scaled api m t' name' namespace' w'"
    using rescale_cases [OF assms run] by (cases r) (auto simp: scaled_def)
qed

lemma rescaled:
  "stores_replicas api \<Longrightarrow> rescale api t name namespace (factor m t name) w = Some (Inr (), w') \<Longrightarrow> scaled api m t name namespace w'"
  using rescale_cases [of api t name namespace "factor m t name" w "Inr ()" w'] by (simp add: scaled_def)

lemma bind_failing: "io_bind m (\<lambda>x. failing_with (f x) e) w = Some (r, w') \<Longrightarrow> \<exists>r'. io_bind m f w = Some (r', w')"
  by (auto simp: io_bind_def failing_with_def io_catch_def io_error_def split: option.splits prod.splits sum.splits)

lemma bind_failing_Inr: "io_bind m (\<lambda>x. failing_with (f x) e) w = Some (Inr y, w') \<longleftrightarrow> io_bind m f w = Some (Inr y, w')"
  by (auto simp: io_bind_def failing_with_def io_catch_def io_error_def split: option.splits prod.splits sum.splits)

lemma scaled_reads [keeps_intros]:
  assumes "stores_replicas api"
  shows "keeps (scaled api m t' name' namespace') (obj_call t (api_Get api t name namespace))"
  by (rule keepsI) (auto simp: scaled_def obj_call_def dest!: stores_get [OF assms] split: prod.splits option.splits)

lemma scaled_scalable:
  assumes "stores_replicas api"
  shows "keeps (scaled api m t' name' namespace') (IsScalable api obj)"
proof -
  have "keeps (scaled api m t' name' namespace') (scalable_volumes api namespace vols)" for namespace vols
    by (induction vols) (simp, intro keeps_intros, simp, intro keeps_intros keeps_shapes assms, auto)
  then show ?thesis
    unfolding IsScalable_def by (intro keeps_intros keeps_shapes assms)
qed

lemma second_pos [keeps_intros]: "0 < second_ns"
  by (simp add: second_ns_def)

lemma scale_deployment_rescale:
  "scale_deployment api obj (gm_index 0 m (so_Name obj @ DeploymentSuffix)) =
     rescale api Deployment (so_Name obj) (so_Namespace obj) (factor m Deployment (so_Name obj))"
  by (simp add: scale_deployment_def rescale_def factor_def)

lemma scale_statefulset_rescale:
  "io_bind (obj_call StatefulSet (api_Get api StatefulSet name namespace))
     (\<lambda>ss. err_call StatefulSet (api_Update api StatefulSet (ss\<lparr>so_Replicas := gm_index 0 m (name @ StatefulSetSuffix)\<rparr>))) =
   rescale api StatefulSet name namespace (factor m StatefulSet name)"
  by (simp add: rescale_def factor_def)

lemma scaled_spec:
  assumes "stores_replicas api"
  shows "keeps (scaled api m t name namespace) (scale_spec api app m obj)"
proof -
  have ss: "keeps (scaled api m t name namespace)
      (io_bind (obj_call StatefulSet (api_Get api StatefulSet n ns)) (\<lambda>ss. failing_with
         (err_call StatefulSet (api_Update api StatefulSet (ss\<lparr>so_Replicas := gm_index 0 m (n @ StatefulSetSuffix)\<rparr>))) e))" for n ns e
  proof (rule keepsI)
    fix w r w'
    assume run: "io_bind (obj_call StatefulSet (api_Get api StatefulSet n ns)) (\<lambda>ss. failing_with
        (err_call StatefulSet (api_Update api StatefulSet (ss\<lparr>so_Replicas := gm_index 0 m (n @ StatefulSetSuffix)\<rparr>))) e) w = Some (r, w')"
      and s: "scaled api m t name namespace w"
    from bind_failing [OF run] obtain r' where "rescale api StatefulSet n ns (factor m StatefulSet n) w = Some (r', w')"
      unfolding scale_statefulset_rescale by blast
    then show "scaled api m t name namespace w'"
      using keepsD [OF scaled_rescale [OF assms] _ s] by blast
  qed
  show ?thesis
    unfolding scale_spec_def scale_deployment_rescale
    by (intro keeps_intros keeps_shapes ss scaled_scalable [OF assms] scaled_rescale [OF assms])
qed

lemma frozen_scale [keeps_intros]: "keeps (frozen w0) (scale_spec api app m obj)"
proof -
  have "keeps (frozen w0) (scalable_volumes api namespace vols)" for namespace vols
    by (induction vols) (simp, intro keeps_intros, simp, intro keeps_intros keeps_shapes, auto)
  then show ?thesis
    unfolding scale_spec_def IsScalable_def scale_deployment_def
    by (intro keeps_intros keeps_shapes)
qed

definition always_scalable :: "'x k8s_api \<Rightarrow> spec_obj \<Rightarrow> bool" where
  "always_scalable api obj \<longleftrightarrow>
     so_type obj = StatefulSet \<or> so_type obj = Deployment \<and> (\<forall>v v'. IsScalable api obj v \<noteq> Some (Inr False, v'))"

lemma scale_spec_scaled:
  assumes "stores_replicas api" "always_scalable api obj" "scale_spec api app m obj w = Some (Inr (), w')"
  shows "scaled api m (so_type obj) (so_Name obj) (so_Namespace obj) w'"
proof -
  consider "so_type obj = StatefulSet" | "so_type obj = Deployment" "\<And>v v'. IsScalable api obj v \<noteq> Some (Inr False, v')"
    using assms(2) by (auto simp: always_scalable_def)
  then show ?thesis
  proof cases
    case 1
    then have "rescale api StatefulSet (so_Name obj) (so_Namespace obj) (factor m StatefulSet (so_Name obj)) w = Some (Inr (), w')"
      using assms(3) by (simp add: scale_spec_def IsScalable_def bind_failing_Inr scale_statefulset_rescale)
    with 1 show ?thesis
      using rescaled [OF assms(1)] by simp
  next
    case 2
    then obtain w1 where "io_poll (clock api)
        (rescale api Deployment (so_Name obj) (so_Namespace obj) (factor m Deployment (so_Name obj))) (2 * minute_ns) second_ns w1
          = Some (Inr (), w')"
      using assms(3) by (auto simp: scale_spec_def io_bind_Inr scale_deployment_rescale failing_with_def io_catch_Inr split: if_splits)
    from io_poll_Inr [OF second_pos this] obtain v where
        "rescale api Deployment (so_Name obj) (so_Namespace obj) (factor m Deployment (so_Name obj)) v = Some (Inr (), w')" by blast
    with 2 show ?thesis
      using rescaled [OF assms(1)] by simp
  qed
qed

lemma scale_all:
  assumes "stores_replicas api"
    and "io_foreach (\<lambda>p. io_bind (deref p) (scale_spec api app m)) ps w = Some (Inr (), w')"
    and "p \<in> set ps" "always_scalable api (wd_heap w p)"
  shows "scaled api m (so_type (wd_heap w p)) (so_Name (wd_heap w p)) (so_Namespace (wd_heap w p)) w'"
  using assms(2-4)
proof (induction ps arbitrary: w)
  case (Cons q ps)
  let ?f = "\<lambda>p. io_bind (deref p) (scale_spec api app m)"
  obtain w1 where "?f q w = Some (Inr (), w1)" and "io_foreach ?f ps w1 = Some (Inr (), w')"
    using Cons.prems(1) unfolding io_foreach.simps io_bind_Inr [of "?f q"] by auto
  then have w1: "scale_spec api app m (wd_heap w q) w = Some (Inr (), w1)" "io_foreach ?f ps w1 = Some (Inr (), w')"
    by simp_all
  have heap: "wd_heap w1 = wd_heap w"
    using keepsD [OF frozen_scale w1(1) frozen_refl] by (simp add: frozenD)
  show ?case
  proof (cases "p = q")
    case True
    let ?I = "scaled api m (so_type (wd_heap w q)) (so_Name (wd_heap w q)) (so_Namespace (wd_heap w q))"
    have "keeps ?I (deref x)" for x :: ptr
      by (simp add: deref_def keeps_simple)
    then have "keeps ?I (?f x)" for x
      by (intro keeps_bind scaled_spec assms(1))
    then have k: "keeps ?I (io_foreach ?f ps)"
      by (rule keeps_foreach)
    have "?I w1"
      using scale_spec_scaled [OF assms(1) _ w1(1)] Cons.prems(3) True by simp
    then show ?thesis
      using keepsD [OF k w1(2)] True by simp
  next
    case False
    then show ?thesis
      using Cons.IH [OF w1(2)] Cons.prems(2,3) heap by simp
  qed
qed simp

lemma read_back:
  assumes "stores_replicas api"
    and "\<forall>p\<in>set ps. so_type (wd_heap w p) \<in> {Deployment, StatefulSet} \<longrightarrow>
      scaled api m (so_type (wd_heap w p)) (so_Name (wd_heap w p)) (so_Namespace (wd_heap w p)) w"
    and "\<forall>key\<in>dom (map_of m0). map_of m0 key = Some (gm_index 0 m key)"
  shows "\<exists>m'. scale_factors api ps m0 w = Some (Inr (m', None), w) \<and> dom (map_of m0) \<subseteq> dom (map_of m') \<and>
    (\<forall>key\<in>dom (map_of m'). map_of m' key = Some (gm_index 0 m key)) \<and>
    (\<forall>p\<in>set ps. so_type (wd_heap w p) \<in> {Deployment, StatefulSet} \<longrightarrow> scale_key (wd_heap w p) \<in> dom (map_of m'))"
  using assms(2,3)
proof (induction ps arbitrary: m0)
  case (Cons p ps)
  let ?o = "wd_heap w p"
  show ?case
  proof (cases "so_type ?o \<in> {Deployment, StatefulSet}")
    case True
    have s: "replicas_at api (so_type ?o) (so_Name ?o) (so_Namespace ?o) (wd_ext w) = Some (gm_index 0 m (scale_key ?o))"
      using Cons.prems(1) True by (auto simp: scaled_def factor_def scale_key_def)
    then obtain o1 x where "api_Get api (so_type ?o) (so_Name ?o) (so_Namespace ?o) (wd_ext w) = ((Some o1, None), x)"
        "so_Replicas o1 = gm_index 0 m (scale_key ?o)"
      by (cases "api_Get api (so_type ?o) (so_Name ?o) (so_Namespace ?o) (wd_ext w)")
         (auto simp: replicas_at_def split: option.splits prod.splits)
    moreover from this have "x = wd_ext w"
      using stores_get [OF assms(1)] by blast
    ultimately have step: "scale_factors api (p # ps) m0 w =
        scale_factors api ps (gm_put (scale_key ?o) (gm_index 0 m (scale_key ?o)) m0) w"
      using True unfolding scale_factors.simps io_bind_deref by (simp add: io_bind_def io_try_def obj_call_def)
    have "\<forall>key\<in>dom (map_of (gm_put (scale_key ?o) (gm_index 0 m (scale_key ?o)) m0)).
        map_of (gm_put (scale_key ?o) (gm_index 0 m (scale_key ?o)) m0) key = Some (gm_index 0 m key)"
      using Cons.prems(2) by auto
    from Cons.IH [OF _ this] Cons.prems(1) show ?thesis
      unfolding step by fastforce
  next
    case False
    then show ?thesis
      using Cons.IH [OF _ Cons.prems(2)] Cons.prems(1) by auto
  qed
qed (simp add: io_return_def)


lemma mem_stores_replicas: "stores_replicas mem_api"
proof -
  have find: "fst (mem_Get t name namespace x) = (case find (same_object t name namespace) x of
      None \<Rightarrow> (None, Some not_found) | Some o1 \<Rightarrow> (Some o1, None))" for t name namespace x
    by (induction x) (auto simp: mem_Get_def split: list.splits)
  have rep: "replicas_at mem_api t name namespace x = map_option so_Replicas (find (same_object t name namespace) x)" for t name namespace x
    by (simp add: replicas_at_def find split: option.split)
  have upd: "find (same_object t' name namespace) (map (\<lambda>o2. if same_object t (so_Name o1) (so_Namespace o1) o2 then o1 else o2) x) =
      (if t' = t \<and> name = so_Name o1 \<and> namespace = so_Namespace o1
       then (if list_ex (same_object t (so_Name o1) (so_Namespace o1)) x then Some o1 else None)
       else find (same_object t' name namespace) x)" if "so_type o1 = t" for t t' name namespace o1 x
    using that by (induction x) (auto simp: same_object_def)
  show ?thesis
    by (auto simp: stores_replicas_def rep upd mem_Update_def mem_Get_def split: if_splits list.splits)
       (auto simp: same_object_def dest: filter_eq_ConsD)
qed

definition stateful_world :: "(spec_obj list) k8s_world" where
  "stateful_world = (world_of [new_obj StatefulSet ''db'' ''ns''])\<lparr>wd_ext := [new_obj StatefulSet ''db'' ''ns'']\<rparr>"


section \<open>Labels of a namespace\<close>

text \<open>\<open>AddNamespaceLabel\<close> reports no failed update: it fails exactly when the namespace cannot be read.\<close>

theorem add_label_error:
  "case AddNamespaceLabel api namespace labelMap w of
     Some (Inl err, w') \<Rightarrow> (\<exists>p. fst (api_Get api Namespace namespace [] (wd_ext w)) = (p, Some err))
   | Some (Inr _, w') \<Rightarrow> (\<exists>p. fst (api_Get api Namespace namespace [] (wd_ext w)) = (Some p, None))
   | None \<Rightarrow> fst (api_Get api Namespace namespace [] (wd_ext w)) = (None, None)"
  by (cases "api_Get api Namespace namespace [] (wd_ext w)")
     (auto simp: AddNamespaceLabel_def io_bind_def obj_call_def io_try_def err_call_def raw_call_def io_return_def io_error_def
      split: option.splits prod.splits sum.splits)

end
