(* ===== verification/K8sDestroy.thy ===== *)
theory K8sDestroy
  imports K8sSchedule K8sRunning
begin

text \<open>
  Taking an application down, \<open>Destroy\<close> and the functions it calls, the waits for its objects and pods to be
  gone, and \<open>DeleteTasks\<close>.
\<close>

definition OptionsWaitForDestroy :: string where "OptionsWaitForDestroy = ''WAIT_FOR_DESTROY''"

definition OptionsWaitForResourceLeakCleanup :: string where
  "OptionsWaitForResourceLeakCleanup = ''WAIT_FOR_RESOURCE_LEAK_CLEANUP''"

definition option_set :: "(string, bool) gomap \<Rightarrow> string \<Rightarrow> bool" where
  "option_set opts key \<longleftrightarrow> map_of opts key = Some True"

section \<open>One object\<close>

text \<open>The types that each function deletes, with the words of its error and whether the call has a namespace.\<close>

type_synonym deletions = "(spec_type \<times> string \<times> bool) list"

definition rbac_deletions :: deletions where
  "rbac_deletions = [(ClusterRole, ''Failed to destroy ClusterRole: '', False),
     (ClusterRoleBinding, ''Failed to destroy ClusterRoleBinding: '', False),
     (ServiceAccount, ''Failed to destroy ServiceAccount: '', True)]"

definition migration_deletions :: deletions where
  "migration_deletions = [(ClusterPair, ''Failed to delete ClusterPair: '', True), (Migration, ''Failed to delete Migration: '', True),
     (MigrationSchedule, ''Failed to delete MigrationSchedule: '', True),
     (SchedulePolicy, ''Failed to delete SchedulePolicy: '', False),
     (ResourceTransformation, ''Failed to delete ResourceTransformation: '', True)]"

definition snapshot_restore_deletions :: deletions where
  "snapshot_restore_deletions = [(VolumeSnapshotRestore, ''Failed to delete VolumeSnapshotRestore: '', True)]"

definition backup_deletions :: deletions where
  "backup_deletions = [(BackupLocation, ''Failed to delete BackupLocation: '', True),
     (ApplicationBackup, ''Failed to delete ApplicationBackup: '', True),
     (ApplicationRestore, ''Failed to delete ApplicationRestore: '', True),
     (ApplicationClone, ''Failed to delete ApplicationClone: '', True)]"

definition monitor_deletions :: deletions where
  "monitor_deletions = [(ServiceMonitor, ''Failed to destroy ServiceMonitor: '', True)]"

definition budget_deletions :: deletions where
  "budget_deletions = [(PodDisruptionBudget, ''Failed to destroy PodDisruptionBudget: '', True)]"

definition vm_deletions :: deletions where
  "vm_deletions = [(VirtualMachine, ''Failed to destroy VirtualMachine: '', True)]"

definition crd_deletions :: deletions where
  "crd_deletions = [(CustomResourceDefinition, ''Failed to destroy CRD: '', False),
     (CustomResourceDefinitionV1beta1, ''Failed to destroy CRDV1beta1: '', False)]"

text \<open>The second branch of \<open>destroyAdmissionRegistrationObjects\<close> asks for a value and not for a pointer, so
  that no spec reaches it.\<close>

definition admission_deletions :: deletions where
  "admission_deletions = [(ValidatingWebhookConfiguration, ''Failed to destroy ValidatingWebhookConfiguration: '', False)]"

definition destroy_in :: "deletions \<Rightarrow> 'x k8s_api \<Rightarrow> app_spec \<Rightarrow> spec_obj \<Rightarrow> ('x k8s_world, unit) io" where
  "destroy_in table api app obj = (case map_of table (so_type obj) of
     None \<Rightarrow> io_return ()
   | Some (what, namespaced) \<Rightarrow>
       failing_with (ext_call (api_Delete api (so_type obj) (so_Name obj) (if namespaced then so_Namespace obj else [])))
         (\<lambda>err. app_error app ErrFailedToDestroyApp (what @ so_Name obj @ ''. Err: '' @ err)))"

definition destroyRbacObjects :: "'x k8s_api \<Rightarrow> app_spec \<Rightarrow> spec_obj \<Rightarrow> ('x k8s_world, unit) io" where
  "destroyRbacObjects = destroy_in rbac_deletions"

definition destroyMigrationObject :: "'x k8s_api \<Rightarrow> app_spec \<Rightarrow> spec_obj \<Rightarrow> ('x k8s_world, unit) io" where
  "destroyMigrationObject = destroy_in migration_deletions"

definition destroyVolumeSnapshotRestoreObject :: "'x k8s_api \<Rightarrow> app_spec \<Rightarrow> spec_obj \<Rightarrow> ('x k8s_world, unit) io" where
  "destroyVolumeSnapshotRestoreObject = destroy_in snapshot_restore_deletions"

definition destroyBackupObjects :: "'x k8s_api \<Rightarrow> app_spec \<Rightarrow> spec_obj \<Rightarrow> ('x k8s_world, unit) io" where
  "destroyBackupObjects = destroy_in backup_deletions"

definition destroyServiceMonitorObjects :: "'x k8s_api \<Rightarrow> app_spec \<Rightarrow> spec_obj \<Rightarrow> ('x k8s_world, unit) io" where
  "destroyServiceMonitorObjects = destroy_in monitor_deletions"

definition destroyPodDisruptionBudgetObjects :: "'x k8s_api \<Rightarrow> app_spec \<Rightarrow> spec_obj \<Rightarrow> ('x k8s_world, unit) io" where
  "destroyPodDisruptionBudgetObjects = destroy_in budget_deletions"

definition destroyVirtualMachineObjects :: "'x k8s_api \<Rightarrow> app_spec \<Rightarrow> spec_obj \<Rightarrow> ('x k8s_world, unit) io" where
  "destroyVirtualMachineObjects = destroy_in vm_deletions"

definition destroyCRDObjects :: "'x k8s_api \<Rightarrow> app_spec \<Rightarrow> spec_obj \<Rightarrow> ('x k8s_world, unit) io" where
  "destroyCRDObjects = destroy_in crd_deletions"

definition destroyAdmissionRegistrationObjects :: "'x k8s_api \<Rightarrow> app_spec \<Rightarrow> spec_obj \<Rightarrow> ('x k8s_world, unit) io" where
  "destroyAdmissionRegistrationObjects = destroy_in admission_deletions"

definition destroyCustomResourceObjects :: "'x k8s_api \<Rightarrow> app_spec \<Rightarrow> spec_obj \<Rightarrow> ('x k8s_world, unit) io" where
  "destroyCustomResourceObjects api app obj =
     (if so_type obj = CustomResourceObjectYAML then
        io_bind (io_gets (\<lambda>w. api_NotExist api (so_Path obj) (wd_ext w))) (\<lambda>missing.
          if missing then
            io_error (app_error app ErrFailedToDestroyApp (''Failed to destroy Custom Resource Object: '' @ so_Name obj @
              ''. Err: Cannot find yaml in path: '' @ so_Path obj))
          else
            failing_with (ext_call (api_Kubectl api [''delete'', ''-f'', so_Path obj, ''-n'', so_Namespace obj]))
              (\<lambda>err. app_error app ErrFailedToDestroyApp (''Failed to destroy Custom Resource Object: '' @ so_Name obj @
                 ''. Err: '' @ err)))
      else io_return ())"

text \<open>\<open>destroyCoreObject\<close> returns the pods it saw together with the error: none, the slice that the listing
  gave, or a slice of one pointer, which is nil if the read failed.\<close>

datatype destroyed_pods = NoPods | PodValues "kube_pod list" | PodPointers "spec_obj option list"

definition core_delete ::
  "'x k8s_api \<Rightarrow> app_spec \<Rightarrow> sched_app \<Rightarrow> string \<Rightarrow> spec_obj \<Rightarrow> string \<Rightarrow> destroyed_pods
     \<Rightarrow> ('x k8s_world, destroyed_pods \<times> go_error option) io" where
  "core_delete api app e what obj namespace pods =
     io_bind (io_try (ext_call (api_Delete api (so_type obj) (so_Name obj) namespace))) (\<lambda>r.
       io_return (pods, (case r of
         Inl err \<Rightarrow> Some (app_error app e (what @ so_Name obj @ ''. Err: '' @ Error_str err))
       | Inr _ \<Rightarrow> None)))"

definition pods_seen :: "'x k8s_api \<Rightarrow> bool \<Rightarrow> spec_obj \<Rightarrow> ('x k8s_world, destroyed_pods) io" where
  "pods_seen api leak obj =
     (if leak then io_bind (io_try (ext_call (api_PodsOf api obj))) (\<lambda>r.
        io_return (PodValues (case r of Inl _ \<Rightarrow> [] | Inr pods \<Rightarrow> pods)))
      else io_return NoPods)"

definition destroyCoreObject ::
  "'x k8s_api \<Rightarrow> (string, bool) gomap \<Rightarrow> app_spec \<Rightarrow> spec_obj \<Rightarrow> ('x k8s_world, destroyed_pods \<times> go_error option) io" where
  "destroyCoreObject api opts app obj =
     (let leak = option_set opts OptionsWaitForResourceLeakCleanup; t = so_type obj; namespace = so_Namespace obj in
      if t = Deployment then
        io_bind (pods_seen api leak obj) (core_delete api app ErrFailedToDestroyApp ''Failed to destroy Deployment: '' obj namespace)
      else if t = StatefulSet then
        io_bind (pods_seen api leak obj) (core_delete api app ErrFailedToDestroyApp ''Failed to destroy stateful set: '' obj namespace)
      else if t = Service then core_delete api app ErrFailedToDestroyApp ''Failed to destroy Service: '' obj namespace NoPods
      else if t = Rule then core_delete api app ErrFailedToDestroyApp ''Failed to destroy Rule: '' obj namespace NoPods
      else if t = Pod then
        io_bind (if leak then io_bind (raw_call Pod (api_Get api Pod (so_Name obj) namespace)) (\<lambda>(p, _). io_return (PodPointers [p]))
                 else io_return NoPods)
          (core_delete api app ErrFailedToDestroyPod ''Failed to destroy Pod: '' obj namespace)
      else if t = ConfigMap then
        io_bind (if leak then io_bind (raw_call ConfigMap (api_Get api ConfigMap (so_Name obj) namespace)) (\<lambda>_. io_return ())
                 else io_return ())
          (\<lambda>_. core_delete api app ErrFailedToDestroyApp ''Failed to destroy config map: '' obj namespace NoPods)
      else if t = AutopilotRuleSpec then core_delete api app ErrFailedToDestroyApp ''Failed to destroy AutopilotRule: '' obj [] NoPods
      else io_return (NoPods, None))"

section \<open>Waiting for the end\<close>

definition WaitForDestroy_spec :: "'x k8s_api \<Rightarrow> 'x app_api \<Rightarrow> app_spec \<Rightarrow> int \<Rightarrow> spec_obj \<Rightarrow> ('x k8s_world, unit) io" where
  "WaitForDestroy_spec api aa app timeout obj =
     (let t = so_type obj; name = so_Name obj; namespace = so_Namespace obj in
      if t = Deployment then
        failing_with (ext_call (api_ValidateTerminated api Deployment obj timeout k8s_DefaultRetryInterval))
          (\<lambda>err. app_error app ErrFailedToValidateAppDestroy
             (''Failed to validate destroy of deployment: '' @ name @ '', namespace: '' @ namespace @ ''. Err: '' @ err))
      else if t = StatefulSet then
        failing_with (ext_call (api_ValidateTerminated api StatefulSet obj timeout k8s_DefaultRetryInterval))
          (\<lambda>err. app_error app ErrFailedToValidateAppDestroy
             (''Failed to validate destroy of statefulset: '' @ name @ '', namespace: '' @ namespace @ '' Err: '' @ err))
      else if t = Service then
        failing_with (ext_call (api_ValidateTerminated api Service obj 0 0))
          (\<lambda>err. app_error app ErrFailedToValidateAppDestroy
             (''Failed to validate destroy of service: '' @ name @ '', namespace: '' @ namespace @ ''. Err: '' @ err))
      else if t = Pod then
        failing_with (ext_call (aa_WaitForPodDeletion aa (so_UID obj) namespace deleteTasksWaitTimeout))
          (\<lambda>err. app_error app ErrFailedToValidatePodDestroy
             (''Failed to validate destroy of pod: '' @ name @ '',namespace:'' @ namespace @ ''. Err: '' @ err))
      else io_return ())"

definition WaitForDestroy :: "'x k8s_api \<Rightarrow> 'x app_api \<Rightarrow> sched_ctx \<Rightarrow> int \<Rightarrow> ('x k8s_world, unit) io" where
  "WaitForDestroy api aa ctx timeout =
     io_foreach (\<lambda>p. io_bind (deref p) (WaitForDestroy_spec api aa (ctx_App ctx) timeout)) (SpecList (ctx_App ctx))"

text \<open>\<open>filepath.Join\<close> of a path that starts with a slash: the elements without the empty ones and \<open>.\<close>, each
  \<open>..\<close> taking back the one before it.\<close>

definition clean_rooted :: "string \<Rightarrow> string" where
  "clean_rooted path = ''/'' @ Join
     (fold (\<lambda>s acc. if s = [] \<or> s = ''.'' then acc else if s = ''..'' then butlast acc else acc @ [s]) (Split path (CHR ''/'')) []) ''/''"

definition k8sPodsRootDir :: string where "k8sPodsRootDir = ''/var/lib/kubelet/pods''"

definition getVolumeDirPath :: "string \<Rightarrow> string" where
  "getVolumeDirPath podUID = clean_rooted (k8sPodsRootDir @ ''/'' @ podUID @ ''/volumes'')"

fun find_leftovers :: "K8s \<Rightarrow> 'x app_api \<Rightarrow> string \<Rightarrow> app_spec \<Rightarrow> Node list \<Rightarrow> ('x k8s_world, unit) io" where
  "find_leftovers k aa podUID app [] = io_return ()"
| "find_leftovers k aa podUID app (n # ns) =
     with_node_driver k aa (\<lambda>d.
       io_bind (ext_call (nd_FindFiles d (getVolumeDirPath podUID) n FindFilesOnWorkerTimeout k8s_DefaultRetryInterval)) (\<lambda>volDir.
         if TrimSpace volDir \<noteq> [] then
           io_error (app_error app ErrFailedToDeleteVolumeDirForPod
             (''Volume directory for pod '' @ podUID @ '' still exists in node: '' @ node_Name n))
         else find_leftovers k aa podUID app ns))"

definition validateVolumeDirCleanup :: "K8s \<Rightarrow> 'x app_api \<Rightarrow> string \<Rightarrow> app_spec \<Rightarrow> ('x k8s_world, unit) io" where
  "validateVolumeDirCleanup k aa podUID app =
     io_bind (io_gets (\<lambda>w. GetWorkerNodes (wd_registry w))) (find_leftovers k aa podUID app)"

definition waitForCleanup :: "K8s \<Rightarrow> 'x k8s_api \<Rightarrow> 'x app_api \<Rightarrow> app_spec \<Rightarrow> kube_pod list \<Rightarrow> ('x k8s_world, unit) io" where
  "waitForCleanup k api aa app podList =
     io_foreach (\<lambda>pod. io_poll (clock api) (validateVolumeDirCleanup k aa (pod_UID pod) app)
       volDirCleanupTimeout k8s_DefaultRetryInterval) podList"

section \<open>Destroying an application\<close>

definition destroy_phase :: "'x k8s_api \<Rightarrow> (spec_obj \<Rightarrow> ('x k8s_world, unit) io) \<Rightarrow> ptr list \<Rightarrow> ('x k8s_world, unit) io" where
  "destroy_phase api destroy specs =
     io_foreach (\<lambda>p. io_poll (clock api) (io_bind (deref p) destroy) k8sDestroyTimeout k8s_DefaultRetryInterval) specs"

text \<open>An error that says \<open>not found\<close> counts as success.\<close>

definition core_attempt :: "'x k8s_api \<Rightarrow> (string, bool) gomap \<Rightarrow> app_spec \<Rightarrow> spec_obj \<Rightarrow> ('x k8s_world, destroyed_pods) io" where
  "core_attempt api opts app obj =
     io_bind (destroyCoreObject api opts app obj) (\<lambda>(currPods, err). (case err of
       None \<Rightarrow> io_return currPods
     | Some e \<Rightarrow> (if Contains_str (Error_str e) ''not found'' then io_return currPods else io_error e)))"

text \<open>With the leak option an error is logged and the pods are kept for the check at the end, but the value of a
  retry loop that failed is nil: there are none to keep.\<close>

fun destroy_core ::
  "'x k8s_api \<Rightarrow> (string, bool) gomap \<Rightarrow> app_spec \<Rightarrow> ptr list \<Rightarrow> kube_pod list \<Rightarrow> ('x k8s_world, kube_pod list) io" where
  "destroy_core api opts app [] podList = io_return podList"
| "destroy_core api opts app (p # specs) podList =
     io_bind (io_try (io_poll (clock api) (io_bind (deref p) (core_attempt api opts app)) k8sDestroyTimeout k8s_DefaultRetryInterval))
       (\<lambda>r. (case r of
          Inl err \<Rightarrow> (if \<not> option_set opts OptionsWaitForResourceLeakCleanup then io_error err else destroy_core api opts app specs podList)
        | Inr _ \<Rightarrow> destroy_core api opts app specs podList))"

text \<open>The deletion of the autopilot rule; \<open>True\<close> means that \<open>Destroy\<close> returns here.\<close>

definition delete_rule :: "'x k8s_api \<Rightarrow> sched_ctx \<Rightarrow> ('x k8s_world, bool) io" where
  "delete_rule api ctx =
     (let name = rule_Name (opt_AutopilotRule (ctx_ScheduleOptions ctx)) in
      if name = [] then io_return False
      else io_bind (io_try (ext_call (api_Delete api AutopilotRuleSpec name []))) (\<lambda>r. (case r of
        Inr _ \<Rightarrow> io_return False
      | Inl err \<Rightarrow> (if Contains_str (Error_str err) ''not found'' then io_return True else io_error err))))"

definition later_destroys :: "'x k8s_api \<Rightarrow> app_spec \<Rightarrow> (spec_obj \<Rightarrow> ('x k8s_world, unit) io) list" where
  "later_destroys api app = [destroyVolumeSnapshotRestoreObject api app, destroyMigrationObject api app,
     destroyBackupObjects api app, destroyServiceMonitorObjects api app, destroyPodDisruptionBudgetObjects api app,
     destroyVirtualMachineObjects api app, destroyCRDObjects api app]"

definition destroy_objects ::
  "K8s \<Rightarrow> 'x k8s_api \<Rightarrow> 'x app_api \<Rightarrow> sched_ctx \<Rightarrow> (string, bool) gomap \<Rightarrow> ('x k8s_world, unit) io" where
  "destroy_objects k api aa ctx opts =
     (let app = ctx_App ctx; specs = SpecList app in
      io_bind (destroy_phase api (destroyAdmissionRegistrationObjects api app) specs) (\<lambda>_.
      io_bind (destroy_phase api (destroyRbacObjects api app) specs) (\<lambda>_.
      io_bind (destroy_core api opts app specs []) (\<lambda>podList.
      io_bind (io_foreach (\<lambda>destroy. destroy_phase api destroy specs) (later_destroys api app)) (\<lambda>_.
      if option_set opts OptionsWaitForResourceLeakCleanup then
        io_bind (WaitForDestroy api aa ctx k8sDestroyTimeout) (\<lambda>_. waitForCleanup k api aa app podList)
      else if option_set opts OptionsWaitForDestroy then WaitForDestroy api aa ctx k8sDestroyTimeout
      else io_return ())))))"

text \<open>\<open>Destroy\<close> removes the specs of uninstalled charts from the context, which it returns here.\<close>

definition Destroy ::
  "K8s \<Rightarrow> 'x k8s_api \<Rightarrow> 'x app_api \<Rightarrow> sched_ctx \<Rightarrow> (string, bool) gomap \<Rightarrow> ('x k8s_world, sched_ctx) io" where
  "Destroy k api aa ctx opts =
     io_bind (destroy_phase api (destroyCustomResourceObjects api (ctx_App ctx)) (SpecList (ctx_App ctx))) (\<lambda>_.
     io_bind (uninstall_charts api (SpecList (ctx_App ctx)) []) (\<lambda>removeSpecs.
     io_bind (RemoveAppSpecsByName ctx removeSpecs) (\<lambda>ctx1.
     io_bind (delete_rule api ctx1) (\<lambda>finished.
       if finished then io_return ctx1
       else io_bind (destroy_objects k api aa ctx1 opts) (\<lambda>_. io_return ctx1)))))"

section \<open>Pods that should be gone\<close>

text \<open>The pods of an application by their UID. A missing pod is no error; a read that fails otherwise is.\<close>

definition pods_of_spec :: "'x k8s_api \<Rightarrow> 'x app_api \<Rightarrow> app_spec \<Rightarrow> spec_obj \<Rightarrow> ('x k8s_world, kube_pod list) io" where
  "pods_of_spec api aa app obj =
     (if so_type obj = Deployment \<or> so_type obj = StatefulSet then
        io_catch (ext_call (api_PodsOf api obj)) (\<lambda>err.
          if err = api_ErrPodsNotFound api then io_return []
          else io_error (app_error app ErrFailedToGetAppStatus
            ((if so_type obj = Deployment then ''Failed to get deployment: '' else ''Failed to get statefulset: '') @
             so_Name obj @ ''. Err: '' @ Error_str err)))
      else if so_type obj = Pod then
        (\<lambda>w. (case aa_PodByUID aa (so_UID obj) (so_Namespace obj) (wd_ext w) of ((pod, err), x) \<Rightarrow>
           (if err \<noteq> None \<and> err \<noteq> Some (api_ErrPodsNotFound api) then
              Some (Inl (app_error app ErrFailedToGetAppStatus
                (''Failed to get pod: '' @ so_Name obj @ ''. Err: '' @ Error_str (the err))), w\<lparr>wd_ext := x\<rparr>)
            else Some (Inr (case pod of None \<Rightarrow> [] | Some p \<Rightarrow> [p]), w\<lparr>wd_ext := x\<rparr>))))
      else io_return [])"

fun pods_by_uid ::
  "'x k8s_api \<Rightarrow> 'x app_api \<Rightarrow> app_spec \<Rightarrow> ptr list \<Rightarrow> (string, kube_pod) gomap \<Rightarrow> ('x k8s_world, (string, kube_pod) gomap) io" where
  "pods_by_uid api aa app [] allPods = io_return allPods"
| "pods_by_uid api aa app (p # specs) allPods =
     io_bind (deref p) (\<lambda>obj. io_bind (pods_of_spec api aa app obj) (\<lambda>pods.
       pods_by_uid api aa app specs (fold (\<lambda>pod. gm_put (pod_UID pod) pod) pods allPods)))"

definition pod_info :: "kube_pod \<Rightarrow> string" where
  "pod_info pod = pod_Namespace pod @ ''/'' @ pod_Name pod @ '' ('' @ pod_NodeName pod @ '')''"

definition filterPodsByNodes :: "'x k8s_api \<Rightarrow> 'x app_api \<Rightarrow> sched_ctx \<Rightarrow> Node list \<Rightarrow> ('x k8s_world, string list) io" where
  "filterPodsByNodes api aa ctx excludeList =
     io_bind (pods_by_uid api aa (ctx_App ctx) (SpecList (ctx_App ctx)) []) (\<lambda>allPods.
       io_return (map pod_info (filter (\<lambda>pod. \<not> list_ex (\<lambda>n. pod_NodeName pod = node_Name n) excludeList) (gm_values allPods))))"

definition termination_attempt :: "'x k8s_api \<Rightarrow> 'x app_api \<Rightarrow> sched_ctx \<Rightarrow> Node list \<Rightarrow> ('x k8s_world, unit) io" where
  "termination_attempt api aa ctx excludeList =
     io_bind (filterPodsByNodes api aa ctx excludeList) (\<lambda>podNames.
       if length podNames > 0 then io_error (Errorf (''pods '' @ Sprint_strings podNames @ '' still present in the system''))
       else io_return ())"

definition SelectiveWaitForTermination ::
  "'x k8s_api \<Rightarrow> 'x app_api \<Rightarrow> sched_ctx \<Rightarrow> int \<Rightarrow> Node list \<Rightarrow> ('x k8s_world, unit) io" where
  "SelectiveWaitForTermination api aa ctx timeout excludeList =
     io_poll (clock api) (termination_attempt api aa ctx excludeList) timeout k8s_DefaultRetryInterval"

section \<open>Deleting the pods\<close>

definition deleteStrategyAnnotationKey :: string where "deleteStrategyAnnotationKey = ''torpedo.io/delete-strategy''"

definition isRollingDeleteStrategyEnabled :: "('x k8s_world \<Rightarrow> spec_obj list) \<Rightarrow> 'x k8s_world \<Rightarrow> bool" where
  "isRollingDeleteStrategyEnabled specs w \<longleftrightarrow>
     list_ex (\<lambda>obj. so_type obj = StatefulSet \<and> map_of (so_Annotations obj) deleteStrategyAnnotationKey = Some ''rolling'') (specs w)"

definition deletion_wait :: "'x app_api \<Rightarrow> kube_pod \<Rightarrow> ('x k8s_world, unit) io" where
  "deletion_wait aa pod =
     failing_with (ext_call (aa_WaitForPodDeletion aa (pod_UID pod) (pod_Namespace pod) deleteTasksWaitTimeout))
       (\<lambda>err. Errorf (''k8s DeleteTasks failed to wait for pod: ['' @ pod_Namespace pod @ ''] '' @ pod_Name pod @
          '' to terminate. err: '' @ err))"

definition delete_failed :: "sched_ctx \<Rightarrow> string \<Rightarrow> string \<Rightarrow> go_error" where
  "delete_failed ctx what err = app_error (ctx_App ctx) ErrFailedToDeleteTasks (what @ err)"

text \<open>One pod of a rolling deletion: it must be gone and the application run again before the next. The text of
  the pod's status is a parameter.\<close>

definition delete_one :: "'x k8s_api \<Rightarrow> 'x app_api \<Rightarrow> (kube_pod \<Rightarrow> string) \<Rightarrow> sched_ctx \<Rightarrow> kube_pod \<Rightarrow> ('x k8s_world, unit) io" where
  "delete_one api aa status ctx pod =
     io_bind (failing_with (ext_call (api_Delete api Pod (pod_Name pod) (pod_Namespace pod)))
       (delete_failed ctx ''failed to delete pods due to: '')) (\<lambda>_.
     io_bind (deletion_wait aa pod) (\<lambda>_.
     failing_with (WaitForRunning api aa ctx k8s_DefaultTimeout k8s_DefaultRetryInterval)
       (\<lambda>_. app_error (ctx_App ctx) ErrFailedToValidatePod (''Failed to validate Pod: ['' @ pod_Namespace pod @ ''] '' @
          pod_Name pod @ ''. Err: Pod is not ready '' @ status pod))))"

definition deleteTasks :: "'x k8s_api \<Rightarrow> 'x app_api \<Rightarrow> (kube_pod \<Rightarrow> string) \<Rightarrow> sched_ctx \<Rightarrow> ('x k8s_world, unit) io" where
  "deleteTasks api aa status ctx =
     io_bind (failing_with (getPodsForApp api ctx) (delete_failed ctx ''failed to get pods due to: '')) (\<lambda>pods.
     io_bind (io_gets (isRollingDeleteStrategyEnabled (\<lambda>w. map (wd_heap w) (SpecList (ctx_App ctx))))) (\<lambda>rolling.
       if rolling then io_foreach (delete_one api aa status ctx) pods
       else io_bind (failing_with (ext_call (aa_DeletePods aa pods)) (delete_failed ctx ''failed to delete pods due to: ''))
         (\<lambda>_. io_foreach (deletion_wait aa) pods)))"

text \<open>With options the closure runs as a triggered task. A world that is \<open>None\<close> is one whose program panicked.\<close>

definition io_option_task :: "('w \<Rightarrow> nat) \<Rightarrow> ('w, unit) io \<Rightarrow> 'w option \<Rightarrow> go_error option \<times> nat \<times> 'w option" where
  "io_option_task clk m s = (case Option.bind s m of
     None \<Rightarrow> (None, 0, None)
   | Some (Inl err, w') \<Rightarrow> (Some err, clk w' - clk (the s), Some w')
   | Some (Inr _, w') \<Rightarrow> (None, clk w' - clk (the s), Some w'))"

definition DeleteTasks ::
  "((TriggerOptions \<Rightarrow> 'x k8s_world option \<Rightarrow> (go_error option \<times> TriggerOptions \<times> 'x k8s_world option) option)
      \<Rightarrow> TriggerOptions \<Rightarrow> 'x k8s_world option \<Rightarrow> (go_error option \<times> TriggerOptions \<times> 'x k8s_world option) option)
   \<Rightarrow> ('x k8s_world option \<Rightarrow> (bool \<times> go_error option) \<times> nat \<times> 'x k8s_world option)
   \<Rightarrow> 'x k8s_api \<Rightarrow> 'x app_api \<Rightarrow> (kube_pod \<Rightarrow> string) \<Rightarrow> sched_ctx \<Rightarrow> TriggerOptions option \<Rightarrow> ('x k8s_world, unit) io" where
  "DeleteTasks schedule TriggerCb api aa status ctx opts w = (case opts of
     None \<Rightarrow> deleteTasks api aa status ctx w
   | Some triggerOptions \<Rightarrow>
       (case PerformTask schedule TriggerCb (io_option_task (clock api) (deleteTasks api aa status ctx)) (Some triggerOptions) (Some w) of
          Some (None, _, Some w') \<Rightarrow> Some (Inr (), w')
        | Some (Some err, _, Some w') \<Rightarrow> Some (Inl err, w')
        | _ \<Rightarrow> None))"

section \<open>What a successful destruction leaves\<close>

text \<open>The functions of \<open>Destroy\<close> that take their types from a table, and the types that
  \<open>destroyCoreObject\<close> deletes.\<close>

definition all_deletions :: "deletions list" where
  "all_deletions = [admission_deletions, rbac_deletions, snapshot_restore_deletions, migration_deletions, backup_deletions,
     monitor_deletions, budget_deletions, vm_deletions, crd_deletions]"

definition core_deletions :: "(spec_type \<times> sched_app \<times> string \<times> bool) list" where
  "core_deletions = [(Deployment, ErrFailedToDestroyApp, ''Failed to destroy Deployment: '', True),
     (StatefulSet, ErrFailedToDestroyApp, ''Failed to destroy stateful set: '', True),
     (Service, ErrFailedToDestroyApp, ''Failed to destroy Service: '', True),
     (Rule, ErrFailedToDestroyApp, ''Failed to destroy Rule: '', True),
     (Pod, ErrFailedToDestroyPod, ''Failed to destroy Pod: '', True),
     (ConfigMap, ErrFailedToDestroyApp, ''Failed to destroy config map: '', True),
     (AutopilotRuleSpec, ErrFailedToDestroyApp, ''Failed to destroy AutopilotRule: '', False)]"

lemmas destroy_functions = destroyRbacObjects_def destroyMigrationObject_def destroyVolumeSnapshotRestoreObject_def
  destroyBackupObjects_def destroyServiceMonitorObjects_def destroyPodDisruptionBudgetObjects_def
  destroyVirtualMachineObjects_def destroyCRDObjects_def destroyAdmissionRegistrationObjects_def

lemma destroy_gap [simp]: "0 < k8s_DefaultRetryInterval"
  by (rule k8s_gaps)

lemma destroy_timeout: "0 < k8sDestroyTimeout"
  by (simp add: k8s_times)

lemma frozen_destroy [keeps_intros]: "keeps (frozen w0) (destroy_in table api app obj)"
  unfolding destroy_in_def by (intro keeps_intros keeps_shapes)

lemma frozen_phase [keeps_intros]: "(\<And>obj. keeps (frozen w0) (f obj)) \<Longrightarrow> keeps (frozen w0) (destroy_phase api f specs)"
  unfolding destroy_phase_def by (intro keeps_intros keeps_shapes destroy_gap)

lemma frozen_core_object [keeps_intros]: "keeps (frozen w0) (destroyCoreObject api opts app obj)"
  unfolding destroyCoreObject_def core_delete_def pods_seen_def Let_def
  by (intro keeps_intros keeps_shapes)

lemma frozen_core [keeps_intros]:
  "keeps (frozen w0) (core_attempt api opts app obj)" "keeps (frozen w0) (destroy_core api opts app specs podList)"
proof -
  show attempt: "keeps (frozen w0) (core_attempt api opts app obj)" for obj
    unfolding core_attempt_def by (intro keeps_intros keeps_shapes)
  show "keeps (frozen w0) (destroy_core api opts app specs podList)"
    by (induction specs) (simp_all, (assumption | intro keeps_intros keeps_shapes destroy_gap attempt)+)
qed

lemma frozen_wait_destroy [keeps_intros]: "keeps (frozen w0) (WaitForDestroy api aa ctx timeout)"
  unfolding WaitForDestroy_def WaitForDestroy_spec_def Let_def by (intro keeps_intros keeps_shapes)

lemma frozen_cleanup [keeps_intros]: "keeps (frozen w0) (waitForCleanup k api aa app podList)"
proof -
  have "keeps (frozen w0) (find_leftovers k aa podUID app ns)" for podUID ns
    by (induction ns) (simp_all add: with_node_driver_def, (intro keeps_intros keeps_shapes)+)
  then show ?thesis
    unfolding waitForCleanup_def validateVolumeDirCleanup_def by (intro keeps_intros keeps_shapes destroy_gap)
qed

text \<open>Every phase that succeeded ran its function once with success on each object.\<close>

lemma phase_ran:
  assumes run: "destroy_phase api f specs v = Some (Inr u, v')" and frozen: "frozen w0 v" and f: "\<And>obj. keeps (frozen w0) (f obj)"
    and p: "p \<in> set specs"
  shows "\<exists>x x'. f (wd_heap w0 p) x = Some (Inr (), x')"
proof -
  have k: "keeps (frozen w0) (io_bind (deref p) f)" for p
    by (intro keeps_intros f)
  have "\<forall>p\<in>set specs. \<exists>x x'. frozen w0 x \<and>
      io_poll (clock api) (io_bind (deref p) f) k8sDestroyTimeout k8s_DefaultRetryInterval x = Some (Inr (), x')"
    using io_foreach_Inr [OF keeps_poll [OF k destroy_gap] frozen run [unfolded destroy_phase_def]] by blast
  then obtain x x' where x: "frozen w0 x"
      "io_poll (clock api) (io_bind (deref p) f) k8sDestroyTimeout k8s_DefaultRetryInterval x = Some (Inr (), x')"
    using p by blast
  then obtain y where y: "frozen w0 y" "io_bind (deref p) f y = Some (Inr (), x')"
    using io_poll_Inr_inv [OF destroy_gap k x] by blast
  then show ?thesis
    by (auto simp: io_bind_Inr deref_def frozenD)
qed

lemma destroyed_in:
  assumes "destroy_in table api app obj x = Some (Inr (), x')" "map_of table (so_type obj) = Some (what, namespaced)"
  shows "fst (api_Delete api (so_type obj) (so_Name obj) (if namespaced then so_Namespace obj else []) (wd_ext x)) = Inr ()"
  using assms by (auto simp: destroy_in_def failing_with_def io_catch_Inr ext_call_def split: prod.splits)

lemma ext_call_result: "ext_call f w = Some (r, w') \<Longrightarrow> fst (f (wd_ext w)) = r"
  by (simp add: ext_call_def split: prod.splits)

lemma core_deleted:
  assumes run: "core_attempt api opts app obj x = Some (Inr pods, x')"
    and t: "map_of core_deletions (so_type obj) = Some (e, what, namespaced)"
  shows "\<exists>y. case fst (api_Delete api (so_type obj) (so_Name obj) (if namespaced then so_Namespace obj else []) y) of
      Inr _ \<Rightarrow> True
    | Inl err \<Rightarrow> Contains_str (Error_str (app_error app e (what @ so_Name obj @ ''. Err: '' @ Error_str err))) ''not found''"
proof -
  obtain err y where y: "destroyCoreObject api opts app obj x = Some (Inr (pods, err), y)"
      "err = None \<or> Contains_str (Error_str (the err)) ''not found''"
  proof -
    obtain r y where r: "destroyCoreObject api opts app obj x = Some (Inr r, y)"
        "(case r of (currPods, err) \<Rightarrow> (case err of None \<Rightarrow> io_return currPods
          | Some e \<Rightarrow> (if Contains_str (Error_str e) ''not found'' then io_return currPods else io_error e))) y = Some (Inr pods, x')"
      using run unfolding core_attempt_def io_bind_Inr by blast
    then show thesis
      using that by (cases r; cases "snd r") (auto split: if_splits)
  qed
  have "\<exists>z pods0 z'. core_delete api app e what obj (if namespaced then so_Namespace obj else []) pods0 z = Some (Inr (pods, err), z')"
    using y(1) t unfolding destroyCoreObject_def core_deletions_def Let_def
    by (simp split: if_splits) ((elim conjE)?, (drule io_bind_Inr [THEN iffD1])?, blast)+
  then obtain z r w1 where call: "ext_call (api_Delete api (so_type obj) (so_Name obj) (if namespaced then so_Namespace obj else [])) z = Some (r, w1)"
      and err: "err = (case r of Inl err \<Rightarrow> Some (app_error app e (what @ so_Name obj @ ''. Err: '' @ Error_str err)) | Inr _ \<Rightarrow> None)"
    unfolding core_delete_def io_bind_Inr io_try_Inr io_return_Inr prod.inject by blast
  show ?thesis
    using ext_call_result [OF call] err y(2) by (intro exI [of _ "wd_ext z"]) (cases r; simp)
qed

lemma io_try_case:
  "io_bind (io_try m) (\<lambda>r. case r of Inl err \<Rightarrow> f err | Inr x \<Rightarrow> g x) w = Some (Inr y, w') \<longleftrightarrow>
     (\<exists>err w1. m w = Some (Inl err, w1) \<and> f err w1 = Some (Inr y, w')) \<or>
     (\<exists>x w1. m w = Some (Inr x, w1) \<and> g x w1 = Some (Inr y, w'))"
  by (auto simp: io_bind_def io_try_def split: option.splits sum.splits)

lemma core_ran:
  assumes "destroy_core api opts app specs podList v = Some (Inr u, v')" "frozen w0 v"
    "\<not> option_set opts OptionsWaitForResourceLeakCleanup" "p \<in> set specs"
  shows "\<exists>x pods x'. core_attempt api opts app (wd_heap w0 p) x = Some (Inr pods, x')"
  using assms
proof (induction specs arbitrary: v)
  case (Cons q specs)
  let ?m = "io_bind (deref q) (core_attempt api opts app)"
  have k: "keeps (frozen w0) ?m"
    by (intro keeps_intros)
  obtain pods v1 where step: "io_poll (clock api) ?m k8sDestroyTimeout k8s_DefaultRetryInterval v = Some (Inr pods, v1)"
      and rest: "destroy_core api opts app specs podList v1 = Some (Inr u, v')"
    using Cons.prems(1,3) unfolding destroy_core.simps io_try_case by auto
  have "frozen w0 v1"
    using keepsD [OF keeps_poll [OF k destroy_gap] step Cons.prems(2)] .
  moreover obtain y where y: "frozen w0 y" "?m y = Some (Inr pods, v1)"
    using io_poll_Inr_inv [OF destroy_gap k Cons.prems(2) step] by blast
  moreover have "core_attempt api opts app (wd_heap w0 q) y = Some (Inr pods, v1)"
    using y by (simp add: io_bind_Inr deref_def frozenD)
  ultimately show ?case
    using Cons.IH [OF rest _ Cons.prems(3)] Cons.prems(4) by auto
qed simp

lemma io_foreach_map: "io_foreach f (map g xs) = io_foreach (\<lambda>x. f (g x)) xs"
  by (induction xs) simp_all

lemma objects_destroyed:
  assumes run: "destroy_objects k api aa ctx opts w = Some (Inr u, w')"
  shows "frozen w w'"
    and "table \<in> set all_deletions \<Longrightarrow> p \<in> set (SpecList (ctx_App ctx)) \<Longrightarrow>
      \<exists>x x'. destroy_in table api (ctx_App ctx) (wd_heap w p) x = Some (Inr (), x')"
    and "\<not> option_set opts OptionsWaitForResourceLeakCleanup \<Longrightarrow> p \<in> set (SpecList (ctx_App ctx)) \<Longrightarrow>
      \<exists>x pods x'. core_attempt api opts (ctx_App ctx) (wd_heap w p) x = Some (Inr pods, x')"
proof -
  let ?app = "ctx_App ctx" and ?specs = "SpecList (ctx_App ctx)"
  have late: "later_destroys api ?app = map (\<lambda>table. destroy_in table api ?app) (drop 2 all_deletions)"
    by (simp add: later_destroys_def all_deletions_def destroy_functions)
  let ?phase = "\<lambda>table. destroy_phase api (destroy_in table api ?app) ?specs"
  have phase: "keeps (frozen w) (?phase table)" for table
    by (intro keeps_intros)
  obtain w1 w2 w3 w4 l where
      w1: "?phase admission_deletions w = Some (Inr (), w1)" and w2: "?phase rbac_deletions w1 = Some (Inr (), w2)"
      and w3: "destroy_core api opts ?app ?specs [] w2 = Some (Inr l, w3)"
      and w4: "io_foreach (\<lambda>destroy. destroy_phase api destroy ?specs) (later_destroys api ?app) w3 = Some (Inr (), w4)"
    using run unfolding destroy_objects_def Let_def io_bind_Inr destroyAdmissionRegistrationObjects_def destroyRbacObjects_def
    by (auto simp: old.unit.exhaust)
  have w4': "io_foreach ?phase (drop 2 all_deletions) w3 = Some (Inr (), w4)"
    using w4 by (simp add: late io_foreach_map)
  note f1 = keepsD [OF phase w1 frozen_refl]
  note f2 = keepsD [OF phase w2 f1]
  note f3 = keepsD [OF frozen_core(2) w3 f2]
  have "keeps (frozen w) (destroy_objects k api aa ctx opts)"
    unfolding destroy_objects_def Let_def destroyAdmissionRegistrationObjects_def destroyRbacObjects_def late io_foreach_map
    by (intro keeps_intros keeps_shapes)
  from keepsD [OF this run frozen_refl] show "frozen w w'" .
  show "\<exists>x x'. destroy_in table api ?app (wd_heap w p) x = Some (Inr (), x')" if t: "table \<in> set all_deletions" and p: "p \<in> set ?specs"
  proof -
    have "\<exists>v v'. frozen w v \<and> ?phase table v = Some (Inr (), v')"
    proof (cases "table \<in> set (drop 2 all_deletions)")
      case True
      then show ?thesis
        using io_foreach_Inr [OF phase f3 w4'] by blast
    next
      case False
      then have "table = admission_deletions \<or> table = rbac_deletions"
        using t by (auto simp: all_deletions_def)
      then show ?thesis
        using w1 w2 f1 frozen_refl by blast
    qed
    then show ?thesis
      using phase_ran [where f = "destroy_in table api ?app", OF _ _ frozen_destroy p] by blast
  qed
  show "\<exists>x pods x'. core_attempt api opts ?app (wd_heap w p) x = Some (Inr pods, x')"
    if "\<not> option_set opts OptionsWaitForResourceLeakCleanup" "p \<in> set ?specs"
    using core_ran [OF w3 f2 that] .
qed

text \<open>What is known of an object after the functions with tables, and after the core function, were done with it.\<close>

definition delete_of :: "'x k8s_api \<Rightarrow> spec_obj \<Rightarrow> bool \<Rightarrow> 'x \<Rightarrow> unit result" where
  "delete_of api obj namespaced x = fst (api_Delete api (so_type obj) (so_Name obj) (if namespaced then so_Namespace obj else []) x)"

definition table_done :: "'x k8s_api \<Rightarrow> spec_obj \<Rightarrow> bool" where
  "table_done api obj \<longleftrightarrow> list_all (\<lambda>table. case map_of table (so_type obj) of
       None \<Rightarrow> True
     | Some (what, namespaced) \<Rightarrow> (\<exists>x. delete_of api obj namespaced x = Inr ())) all_deletions"

definition core_done :: "'x k8s_api \<Rightarrow> app_spec \<Rightarrow> spec_obj \<Rightarrow> bool" where
  "core_done api app obj \<longleftrightarrow> (case map_of core_deletions (so_type obj) of
       None \<Rightarrow> True
     | Some (e, what, namespaced) \<Rightarrow> (\<exists>x. case delete_of api obj namespaced x of
         Inr _ \<Rightarrow> True
       | Inl err \<Rightarrow> Contains_str (Error_str (app_error app e (what @ so_Name obj @ ''. Err: '' @ Error_str err))) ''not found''))"

lemma objects_done:
  assumes run: "destroy_objects k api aa ctx opts w = Some (Inr u, w')" and p: "p \<in> set (SpecList (ctx_App ctx))"
  shows "table_done api (wd_heap w p)"
    and "\<not> option_set opts OptionsWaitForResourceLeakCleanup \<Longrightarrow> core_done api (ctx_App ctx) (wd_heap w p)"
proof -
  show "table_done api (wd_heap w p)"
    unfolding table_done_def delete_of_def list_all_iff
  proof
    fix table
    assume t: "table \<in> set all_deletions"
    obtain x x' where "destroy_in table api (ctx_App ctx) (wd_heap w p) x = Some (Inr (), x')"
      using objects_destroyed(2) [OF run t p] by blast
    note deleted = destroyed_in [OF this]
    show "case map_of table (so_type (wd_heap w p)) of None \<Rightarrow> True | Some (what, namespaced) \<Rightarrow>
        (\<exists>x. fst (api_Delete api (so_type (wd_heap w p)) (so_Name (wd_heap w p))
          (if namespaced then so_Namespace (wd_heap w p) else []) x) = Inr ())"
      by (cases "map_of table (so_type (wd_heap w p))") (auto dest: deleted intro!: exI [of _ "wd_ext x"])
  qed
  show "core_done api (ctx_App ctx) (wd_heap w p)" if leak: "\<not> option_set opts OptionsWaitForResourceLeakCleanup"
  proof (cases "map_of core_deletions (so_type (wd_heap w p))")
    case (Some t)
    obtain e what namespaced where t: "t = (e, what, namespaced)"
      by (cases t)
    obtain x pods x' where "core_attempt api opts (ctx_App ctx) (wd_heap w p) x = Some (Inr pods, x')"
      using objects_destroyed(3) [OF run leak p] by blast
    from core_deleted [OF this Some [unfolded t]] show ?thesis
      unfolding core_done_def delete_of_def Some t by simp
  qed (simp add: core_done_def)
qed

lemma Destroy_steps:
  assumes run: "Destroy k api aa ctx opts w = Some (Inr ctx', w')"
    and rule: "rule_Name (opt_AutopilotRule (ctx_ScheduleOptions ctx)) = []"
  obtains w1 w2 removeSpecs where
    "destroy_phase api (destroyCustomResourceObjects api (ctx_App ctx)) (SpecList (ctx_App ctx)) w = Some (Inr (), w1)"
    "uninstall_charts api (SpecList (ctx_App ctx)) [] w1 = Some (Inr removeSpecs, w2)"
    "RemoveAppSpecsByName ctx removeSpecs w2 = Some (Inr ctx', w2)"
    "destroy_objects k api aa ctx' opts w2 = Some (Inr (), w')"
proof -
  obtain u w1 w2 w3 removeSpecs ctx1 where
      1: "destroy_phase api (destroyCustomResourceObjects api (ctx_App ctx)) (SpecList (ctx_App ctx)) w = Some (Inr u, w1)"
        "uninstall_charts api (SpecList (ctx_App ctx)) [] w1 = Some (Inr removeSpecs, w2)"
      and ctx1: "RemoveAppSpecsByName ctx removeSpecs w2 = Some (Inr ctx1, w3)"
      and rest: "io_bind (delete_rule api ctx1) (\<lambda>finished. if finished then io_return ctx1
         else io_bind (destroy_objects k api aa ctx1 opts) (\<lambda>_. io_return ctx1)) w3 = Some (Inr ctx', w')"
    using run unfolding Destroy_def io_bind_Inr [where m = "destroy_phase _ _ _"] io_bind_Inr [where m = "uninstall_charts _ _ _"]
      io_bind_Inr [where m = "RemoveAppSpecsByName _ _"] by blast
  have 3: "w3 = w2" "rule_Name (opt_AutopilotRule (ctx_ScheduleOptions ctx1)) = []"
    using ctx1 rule by (auto simp: RemoveAppSpecsByName_def)
  then have "ctx' = ctx1" "destroy_objects k api aa ctx1 opts w2 = Some (Inr (), w')"
    using rest by (auto simp: delete_rule_def Let_def io_bind_Inr)
  then show thesis
    using that [of w1 removeSpecs w2] 1 ctx1 3(1) by simp
qed

text \<open>C5: After a successful \<open>Destroy\<close> of a context without an autopilot rule, every object that is left in the context and whose type one of the destroying functions handles was deleted: a delete call for its name and namespace succeeded. For the core objects, without the leak option, the call succeeded or failed with an error whose text says that the object is not found.\<close>

theorem destroy_complete:
  "case Destroy k api aa ctx opts w of
     Some (Inr ctx', w') \<Rightarrow>
       (if rule_Name (opt_AutopilotRule (ctx_ScheduleOptions ctx)) = [] then
          list_all (\<lambda>p. table_done api (wd_heap w' p) \<and>
            (option_set opts OptionsWaitForResourceLeakCleanup \<or> core_done api (ctx_App ctx') (wd_heap w' p)))
            (SpecList (ctx_App ctx'))
        else True)
   | _ \<Rightarrow> True"
proof (rule on_success, goal_cases)
  case (1 ctx' w')
  show ?case
  proof (cases "rule_Name (opt_AutopilotRule (ctx_ScheduleOptions ctx)) = []")
    case True
    obtain w2 where w2: "destroy_objects k api aa ctx' opts w2 = Some (Inr (), w')"
      by (rule Destroy_steps [OF 1 True])
    show ?thesis
      using True objects_done [OF w2] unfolding list_all_iff frozenD [OF objects_destroyed(1) [OF w2]] by auto
  qed simp
qed

text \<open>A phase that has nothing to do.\<close>

lemma idle_phase:
  assumes "list_all (\<lambda>p. f (wd_heap w p) w = Some (Inr (), w)) specs"
  shows "destroy_phase api f specs w = Some (Inr (), w)"
  using assms
proof (induction specs)
  case (Cons p specs)
  have "io_poll (clock api) (io_bind (deref p) f) k8sDestroyTimeout k8s_DefaultRetryInterval w = Some (Inr (), w)"
    using Cons.prems by (intro io_poll_first) (simp_all add: destroy_timeout io_bind_Inr deref_def)
  then show ?case
    using Cons by (simp add: destroy_phase_def io_bind_Inr)
qed (simp add: destroy_phase_def)

lemma no_charts:
  assumes "list_all (\<lambda>p. so_type (wd_heap w p) \<noteq> HelmRepoSpec) specs"
  shows "uninstall_charts api specs removeSpecs w = Some (Inr removeSpecs, w)"
  using assms by (induction specs) (simp_all add: io_bind_Inr deref_def)


definition rule_ctx :: sched_ctx where
  "rule_ctx = (sample_ctx 1)\<lparr>ctx_ScheduleOptions := sample_options\<lparr>opt_AutopilotRule := no_rule\<lparr>rule_Name := ''r''\<rparr>\<rparr>\<rparr>"

definition rule_world :: "(spec_obj list) k8s_world" where
  "rule_world = (world_of [new_obj Deployment ''d'' ''ns''])\<lparr>wd_ext := [new_obj Deployment ''d'' ''ns'']\<rparr>"


section \<open>The leak check\<close>

text \<open>The core phase adds no pod to the list that the check at the end reads.\<close>

lemma core_podList: "destroy_core api opts app specs podList v = Some (Inr l, v') \<Longrightarrow> l = podList"
  by (induction specs arbitrary: v) (simp_all only: destroy_core.simps io_try_case io_return_Inr, auto split: if_splits)

lemma io_bind_cong: "(\<And>w x w'. m w = Some (Inr x, w') \<Longrightarrow> f x = g x) \<Longrightarrow> io_bind m f = io_bind m g"
  by (auto simp: io_bind_def fun_eq_iff split: option.split sum.split)

text \<open>C32: The check for leftover volume directories never looks at a node: whatever the node drivers answer, and whether there are any, \<open>Destroy\<close> does the same and gives the same result, also with the leak option.\<close>

theorem leak_check_reads_no_node:
  "Destroy k api (aa\<lparr>aa_nodeDrivers := drivers\<rparr>) ctx opts = Destroy k api aa ctx opts"
proof -
  have wait: "WaitForDestroy api (aa\<lparr>aa_nodeDrivers := drivers\<rparr>) c t = WaitForDestroy api aa c t" for c t
    by (simp add: WaitForDestroy_def WaitForDestroy_spec_def [abs_def] Let_def cong: if_cong)
  have none: "waitForCleanup k api aa app [] = io_return ()" for aa app
    by (simp add: waitForCleanup_def)
  have "destroy_objects k api (aa\<lparr>aa_nodeDrivers := drivers\<rparr>) c opts = destroy_objects k api aa c opts" for c
    unfolding destroy_objects_def Let_def wait
    by (intro io_bind_cong) (drule core_podList, simp add: none)
  then show ?thesis
    by (simp add: Destroy_def cong: if_cong)
qed

section \<open>The selective wait\<close>

lemma frozen_pods_of_spec [keeps_intros]: "keeps (frozen w0) (pods_of_spec api aa app obj)"
  unfolding pods_of_spec_def
  by (intro keeps_intros keeps_shapes) (auto simp: keeps_def frozen_def split: prod.splits if_splits)

lemma frozen_by_uid [keeps_intros]: "keeps (frozen w0) (pods_by_uid api aa app specs m)"
  by (induction specs arbitrary: m) (simp_all, (assumption | intro keeps_intros)+)

lemma frozen_termination: "keeps (frozen w0) (termination_attempt api aa ctx exclude)"
  unfolding termination_attempt_def filterPodsByNodes_def by (intro keeps_intros keeps_shapes)

definition by_uid :: "(string, kube_pod) gomap \<Rightarrow> bool" where
  "by_uid m \<longleftrightarrow> (\<forall>(uid, pod)\<in>set m. uid = pod_UID pod)"

lemma put_pods:
  assumes "by_uid m"
  shows "by_uid (fold (\<lambda>pod. gm_put (pod_UID pod) pod) pods m)"
    and "pod_UID ` set (gm_values (fold (\<lambda>pod. gm_put (pod_UID pod) pod) pods m)) =
      pod_UID ` set (gm_values m) \<union> pod_UID ` set pods"
proof -
  have put: "by_uid (gm_put (pod_UID pod) pod m)"
    "pod_UID ` set (gm_values (gm_put (pod_UID pod) pod m)) = insert (pod_UID pod) (pod_UID ` set (gm_values m))"
    if "by_uid m" for pod m
    using that by (induction m) (auto simp: by_uid_def gm_put_def gm_values_def)
  from assms show "by_uid (fold (\<lambda>pod. gm_put (pod_UID pod) pod) pods m)"
    and "pod_UID ` set (gm_values (fold (\<lambda>pod. gm_put (pod_UID pod) pod) pods m)) =
      pod_UID ` set (gm_values m) \<union> pod_UID ` set pods"
    by (induction pods arbitrary: m) (auto simp: put)
qed

lemma pods_by_uid_all:
  assumes "pods_by_uid api aa app specs m w = Some (Inr all, w')" "by_uid m" "frozen w0 w"
  shows "pod_UID ` set (gm_values m) \<subseteq> pod_UID ` set (gm_values all)"
    and "p \<in> set specs \<Longrightarrow> \<exists>x pods x'. pods_of_spec api aa app (wd_heap w0 p) x = Some (Inr pods, x') \<and>
      pod_UID ` set pods \<subseteq> pod_UID ` set (gm_values all)"
proof -
  have "pod_UID ` set (gm_values m) \<subseteq> pod_UID ` set (gm_values all) \<and> (\<forall>p\<in>set specs.
      \<exists>x pods x'. pods_of_spec api aa app (wd_heap w0 p) x = Some (Inr pods, x') \<and> pod_UID ` set pods \<subseteq> pod_UID ` set (gm_values all))"
    using assms
  proof (induction specs arbitrary: m w)
    case (Cons q specs)
    obtain pods w1 where q: "pods_of_spec api aa app (wd_heap w0 q) w = Some (Inr pods, w1)"
        and rest: "pods_by_uid api aa app specs (fold (\<lambda>pod. gm_put (pod_UID pod) pod) pods m) w1 = Some (Inr all, w')"
      using Cons.prems(1,3) by (auto simp: io_bind_Inr deref_def frozenD)
    show ?case
      using Cons.IH [OF rest put_pods(1) [OF Cons.prems(2)] keepsD [OF frozen_pods_of_spec q Cons.prems(3)]] q
      unfolding put_pods(2) [OF Cons.prems(2)] by auto
  qed simp
  then show "pod_UID ` set (gm_values m) \<subseteq> pod_UID ` set (gm_values all)"
    "p \<in> set specs \<Longrightarrow> \<exists>x pods x'. pods_of_spec api aa app (wd_heap w0 p) x = Some (Inr pods, x') \<and>
      pod_UID ` set pods \<subseteq> pod_UID ` set (gm_values all)"
    by blast+
qed

lemma returns_by_uid: "returns (pods_by_uid api aa app specs m)"
proof (induction specs arbitrary: m)
  case (Cons p specs)
  have pods: "returns (pods_of_spec api aa app obj)" for obj
    unfolding pods_of_spec_def
    by (intro returns_intros returns_cases) (auto simp: returns_def split: prod.splits)
  show ?case
    unfolding pods_by_uid.simps by (intro returns_intros pods Cons.IH)
qed (simp add: returns_simple)


section \<open>Objects that stay\<close>

text \<open>The types that the phases of \<open>CreateSpecObjects\<close> create and that no destroying function knows. The storage
  objects among them are left to \<open>DeleteVolumes\<close>.\<close>

definition undestroyed_types :: "spec_type list" where
  "undestroyed_types = filter (\<lambda>t. t \<notin> fst ` set (concat all_deletions) \<and> t \<notin> fst ` set core_deletions \<and>
     t \<noteq> CustomResourceObjectYAML) (concat phase_types)"

lemmas deletion_tables = all_deletions_def core_deletions_def admission_deletions_def rbac_deletions_def
  snapshot_restore_deletions_def migration_deletions_def backup_deletions_def monitor_deletions_def budget_deletions_def
  vm_deletions_def crd_deletions_def

lemma undestroyed_types_are:
  "undestroyed_types = [StorageClass, PersistentVolumeClaim, VolumeSnapshot, GroupVolumeSnapshot, PersistentVolume, Task,
     Pipeline, Role, RoleBinding, Secret, Endpoints, NetworkPolicy, Ingress, CronJob, Job, ValidatingWebhookConfigurationV1beta1]"
  by code_simp

lemma undestroyed:
  assumes "t \<in> set undestroyed_types"
  shows "list_all (\<lambda>table. map_of table t = None) all_deletions" "map_of core_deletions t = None"
    "t \<noteq> CustomResourceObjectYAML" "t \<noteq> HelmRepoSpec"
  using assms unfolding undestroyed_types_are by (auto simp: deletion_tables)

lemma idle_core:
  assumes "list_all (\<lambda>p. map_of core_deletions (so_type (wd_heap w p)) = None) specs"
  shows "destroy_core api opts app specs podList w = Some (Inr podList, w)"
  using assms
proof (induction specs)
  case (Cons p specs)
  have "io_poll (clock api) (io_bind (deref p) (core_attempt api opts app)) k8sDestroyTimeout k8s_DefaultRetryInterval w
      = Some (Inr NoPods, w)"
    using Cons.prems by (intro io_poll_first)
      (simp_all add: destroy_timeout io_bind_Inr deref_def core_attempt_def destroyCoreObject_def core_deletions_def Let_def split: if_splits)
  then show ?case
    using Cons by (simp add: io_bind_def io_try_def)
qed simp



text \<open>An application whose specs are all of types that the phases create: after \<open>Destroy\<close> each of them is of a
  type that stays, of the custom resources, or was deleted.\<close>

definition taken_down :: "'x k8s_api \<Rightarrow> app_spec \<Rightarrow> spec_obj \<Rightarrow> bool" where
  "taken_down api app obj \<longleftrightarrow>
     (if so_type obj \<in> set undestroyed_types \<or> so_type obj = CustomResourceObjectYAML then True
      else if so_type obj \<in> fst ` set core_deletions then core_done api app obj
      else so_type obj \<in> fst ` set (concat all_deletions) \<and> table_done api obj)"

lemma created_destroyed:
  assumes run: "Destroy k api aa ctx opts w = Some (Inr ctx', w')"
    and rule: "rule_Name (opt_AutopilotRule (ctx_ScheduleOptions ctx)) = []"
    and leak: "\<not> option_set opts OptionsWaitForResourceLeakCleanup"
    and types: "\<forall>p\<in>set (SpecList (ctx_App ctx)). so_type (wd_heap w p) \<in> set (concat phase_types)"
    and p: "p \<in> set (SpecList (ctx_App ctx))"
  shows "taken_down api (ctx_App ctx) (wd_heap w p)"
proof -
  let ?specs = "SpecList (ctx_App ctx)"
  obtain w1 w2 removeSpecs where
      w1: "destroy_phase api (destroyCustomResourceObjects api (ctx_App ctx)) ?specs w = Some (Inr (), w1)"
      and w2: "uninstall_charts api ?specs [] w1 = Some (Inr removeSpecs, w2)"
      and ctx': "RemoveAppSpecsByName ctx removeSpecs w2 = Some (Inr ctx', w2)"
      and objects: "destroy_objects k api aa ctx' opts w2 = Some (Inr (), w')"
    by (rule Destroy_steps [OF run rule])
  have custom: "keeps (frozen w) (destroyCustomResourceObjects api app obj)" for app obj
    unfolding destroyCustomResourceObjects_def by (intro keeps_intros keeps_shapes)
  have heap: "wd_heap w1 = wd_heap w"
    by (rule frozenD(1) [OF keepsD [OF frozen_phase [OF custom] w1 frozen_refl]])
  have "HelmRepoSpec \<notin> set (concat phase_types)"
    by code_simp
  then have "list_all (\<lambda>p. so_type (wd_heap w1 p) \<noteq> HelmRepoSpec) ?specs"
    using types by (auto simp: list_all_iff heap)
  then have same: "w2 = w1" "ctx' = ctx"
    using no_charts [of w1 ?specs api "[]"] w2 ctx' by (auto simp: RemoveAppSpecsByName_def)
  have "table_done api (wd_heap w p)" "core_done api (ctx_App ctx) (wd_heap w p)"
    using objects_done [OF objects, unfolded same heap, OF p] leak by blast+
  moreover have "so_type (wd_heap w p) \<in> set (concat phase_types)"
    using types p by blast
  ultimately show ?thesis
    by (auto simp: taken_down_def undestroyed_types_def)
qed

end
