(* ===== verification/K8sVolumes.thy ===== *)
theory K8sVolumes
  imports K8sDestroy
begin

text \<open>
  The volumes and snapshots of an application: their parameters and sizes, their validation, listing, resizing
  and deletion. A claim is an object of the cluster; the driver sees the copies that the client returns.
\<close>

section \<open>Calls\<close>

text \<open>
  The volume driver that the scheduler gets from the registry of volume drivers, and the calls that only this
  part makes. A volume as the driver inspects it is Pure or not, and has a proxy protocol and, for a block
  volume, a serial number behind a pointer. \<open>va_SnapshotClaim\<close> and \<open>va_NodeCount\<close> read a field of a
  snapshot and of a data service, \<open>va_FieldText\<close> are the texts of the pointers to the name and the namespace of
  a data service. Rules are listed with their cool down period.
\<close>

datatype proxy_protocol = ProxyBlock | ProxyFile | ProxyOther string

record inspected =
  iv_IsPure :: bool
  iv_Protocol :: proxy_protocol
  iv_Serial :: "string option"

record 'x volume_driver =
  vd_InspectVolume :: "string \<Rightarrow> ('x, inspected) ext_call"
  vd_EstimateVolumeExpand :: "AutopilotRule \<Rightarrow> u64 \<Rightarrow> u64 \<Rightarrow> ('x, u64 \<times> int) ext_call"

record snap_data =
  sd_Namespace :: string
  sd_SnapshotID :: "string option"

record 'x vol_api =
  va_ClaimParams :: "spec_obj \<Rightarrow> ('x, labels) ext_call"
  va_GetSnapshotData :: "string \<Rightarrow> 'x \<Rightarrow> (snap_data option \<times> go_error option) \<times> 'x"
  va_ClassForPVC :: "spec_obj option \<Rightarrow> ('x, spec_obj) ext_call"
  va_ValidateClaims :: "spec_obj \<Rightarrow> int \<Rightarrow> int \<Rightarrow> ('x, unit) ext_call"
  va_ValidateClaimSize :: "spec_obj \<Rightarrow> int \<Rightarrow> int \<Rightarrow> int \<Rightarrow> ('x, unit) ext_call"
  va_ListRules :: "('x, (AutopilotRule \<times> int) list) ext_call"
  va_ListClaims :: "string \<Rightarrow> ('x, spec_obj list) ext_call"
  va_DataVolume :: "string \<Rightarrow> string \<Rightarrow> 'x \<Rightarrow> ((string \<times> string) list option \<times> go_error option) \<times> 'x"
  va_ListCsiSnapshots :: "string \<Rightarrow> ('x, string list) ext_call"
  va_DeleteCsiSnapshot :: "string \<Rightarrow> string \<Rightarrow> ('x, unit) ext_call"
  va_GroupSnapshots :: "string \<Rightarrow> string \<Rightarrow> ('x, (string \<times> string \<times> string) list) ext_call"
  va_SnapshotClaim :: "spec_obj \<Rightarrow> string"
  va_NodeCount :: "spec_obj \<Rightarrow> int"
  va_FieldText :: "spec_obj \<Rightarrow> string \<times> string"
  va_volDrivers :: "'x volume_driver vol_globals"

text \<open>The structs \<open>Volume\<close> and \<open>Snapshot\<close> of package \<open>volume\<close>.\<close>

record Volume =
  vol_ID :: string
  vol_Name :: string
  vol_Namespace :: string
  vol_Annotations :: labels
  vol_Labels :: labels
  vol_Size :: u64
  vol_RequestedSize :: u64
  vol_Shared :: bool
  vol_Raw :: bool

record Snapshot =
  snap_ID :: string
  snap_Name :: string
  snap_Namespace :: string

definition zero_Volume :: Volume where
  "zero_Volume = \<lparr>vol_ID = [], vol_Name = [], vol_Namespace = [], vol_Annotations = [], vol_Labels = [], vol_Size = 0,
     vol_RequestedSize = 0, vol_Shared = False, vol_Raw = False\<rparr>"

text \<open>The text of an error that may be nil, and the value of \<open>AsInt64\<close> when its second result is dropped.\<close>

definition Sprint_err :: "go_error option \<Rightarrow> string" where
  "Sprint_err err = (case err of None \<Rightarrow> ''<nil>'' | Some e \<Rightarrow> Error_str e)"

definition AsInt64 :: "int \<Rightarrow> int" where
  "AsInt64 q = (if - (2 ^ 63) \<le> q \<and> q < 2 ^ 63 then q else 0)"

definition ParseBool_io :: "string \<Rightarrow> ('w, bool) io" where
  "ParseBool_io s = (case ParseBool s of
     Some b \<Rightarrow> io_return b
   | None \<Rightarrow> io_error (Errorf (''strconv.ParseBool: parsing '' @ Quote s @ '': invalid syntax'')))"

section \<open>Filters\<close>

definition PureFile :: string where "PureFile = ''pure_file''"

definition PureBlock :: string where "PureBlock = ''pure_block''"

definition filterPureTypeVolumeIfEnabled ::
  "K8s \<Rightarrow> 'x vol_api \<Rightarrow> spec_obj option \<Rightarrow> string list \<Rightarrow> ('x k8s_world, bool) io" where
  "filterPureTypeVolumeIfEnabled k va claim volTypes =
     (if \<not> k_PureVolumes k then io_return True
      else io_bind (ext_call (va_ClassForPVC va claim)) (\<lambda>sc.
        io_return (case map_of (sc_Parameters (so_Class sc)) ''backend'' of
          None \<Rightarrow> False
        | Some backend \<Rightarrow> list_ex (\<lambda>voltype. backend = voltype) volTypes)))"

definition filterPureVolumesIfEnabled :: "K8s \<Rightarrow> 'x vol_api \<Rightarrow> spec_obj option \<Rightarrow> ('x k8s_world, bool) io" where
  "filterPureVolumesIfEnabled k va claim = filterPureTypeVolumeIfEnabled k va claim [PureFile, PureBlock]"

definition filterPureVolumesIfEnabledByPureVolBackend ::
  "K8s \<Rightarrow> 'x vol_api \<Rightarrow> spec_obj option \<Rightarrow> string \<Rightarrow> ('x k8s_world, bool) io" where
  "filterPureVolumesIfEnabledByPureVolBackend k va claim pureVolBackend =
     filterPureTypeVolumeIfEnabled k va claim [pureVolBackend]"

definition isPVCShared :: "spec_obj \<Rightarrow> bool" where
  "isPVCShared pvc \<longleftrightarrow> list_ex (\<lambda>mode. mode = ''ReadOnlyMany'' \<or> mode = ''ReadWriteMany'') (cl_AccessModes (so_Claim pvc))"

section \<open>Names and parameters\<close>

definition GetVolumeDriverVolumeName :: "'x k8s_api \<Rightarrow> string \<Rightarrow> string \<Rightarrow> ('x k8s_world, string) io" where
  "GetVolumeDriverVolumeName api name namespace =
     io_bind (failing_with (obj_call PersistentVolumeClaim (api_Get api PersistentVolumeClaim name namespace))
       (\<lambda>err. Errorf (''failed to get PVC: '' @ name @ '' in namespace '' @ namespace @ ''. Err: '' @ err)))
       (\<lambda>pvc. io_return (cl_VolumeName (so_Claim pvc)))"

definition SnapshotParent :: string where "SnapshotParent = ''snapshot_parent''"

definition PvcNameKey :: string where "PvcNameKey = ''pvc_name''"

definition PvcNamespaceKey :: string where "PvcNamespaceKey = ''pvc_namespace''"

text \<open>The claims of a stateful set; an error, or a list that is nil, is reported with the given text.\<close>

definition claims_of :: "'x k8s_api \<Rightarrow> spec_obj \<Rightarrow> (string \<Rightarrow> go_error) \<Rightarrow> ('x k8s_world, spec_obj list) io" where
  "claims_of api ss e =
     io_bind (io_try (ext_call (api_ClaimsOf api ss))) (\<lambda>r. (case r of
       Inl err \<Rightarrow> io_error (e (Error_str err))
     | Inr None \<Rightarrow> io_error (e (Sprint_err None))
     | Inr (Some pvcs) \<Rightarrow> io_return pvcs))"

definition claim_params :: "spec_obj \<Rightarrow> labels \<Rightarrow> labels" where
  "claim_params pvc params = gm_put PvcNamespaceKey (so_Namespace pvc) (gm_put PvcNameKey (so_Name pvc)
     (MergeMaps params (so_Annotations pvc)))"

definition params_error :: "app_spec \<Rightarrow> string \<Rightarrow> string \<Rightarrow> string \<Rightarrow> string \<Rightarrow> string \<Rightarrow> go_error" where
  "params_error app what name middle namespace err =
     app_error app ErrFailedToGetVolumeParameters (what @ name @ middle @ namespace @ ''. Err: '' @ err)"

type_synonym volume_params = "(string, labels) gomap"

definition params_of_claim ::
  "'x k8s_api \<Rightarrow> 'x vol_api \<Rightarrow> app_spec \<Rightarrow> spec_obj \<Rightarrow> volume_params \<Rightarrow> ('x k8s_world, volume_params) io" where
  "params_of_claim api va app obj result =
     io_bind (failing_with (ext_call (va_ClaimParams va obj))
       (params_error app ''failed to get params for volume: '' (so_Name obj) '',Namespace: '' (so_Namespace obj))) (\<lambda>params.
     io_bind (failing_with (obj_call PersistentVolumeClaim (api_Get api PersistentVolumeClaim (so_Name obj) (so_Namespace obj)))
       (params_error app ''failed to get PVC: '' (so_Name obj) '',Namespace: '' (so_Namespace obj))) (\<lambda>pvc.
     io_return (gm_put (cl_VolumeName (so_Claim pvc)) (claim_params pvc params) result)))"

text \<open>The error of the second read prints the namespace of the object that was not read.\<close>

definition params_of_snapshot ::
  "'x k8s_api \<Rightarrow> 'x vol_api \<Rightarrow> app_spec \<Rightarrow> spec_obj \<Rightarrow> volume_params \<Rightarrow> ('x k8s_world, volume_params) io" where
  "params_of_snapshot api va app obj result =
     io_bind (failing_with (obj_call VolumeSnapshot (api_Get api VolumeSnapshot (so_Name obj) (so_Namespace obj)))
       (params_error app ''failed to get Snapshot: '' (so_Name obj) '',Namespace: '' (so_Namespace obj))) (\<lambda>snap.
     (let snapDataName = so_Extra snap in
      if snapDataName = [] then
        io_error (app_error app ErrFailedToGetVolumeParameters
          (''snapshot: ['' @ so_Namespace snap @ ''] '' @ so_Name snap @ '' does not have snapshotdata set''))
      else (\<lambda>w. (case va_GetSnapshotData va snapDataName (wd_ext w) of
        ((None, _), x) \<Rightarrow> None
      | ((Some d, Some err), x) \<Rightarrow> Some (Inl (app_error app ErrFailedToGetVolumeParameters
          (''failed to get volumesnapshotdata: ['' @ sd_Namespace d @ ''] '' @ snapDataName @ '' due to: '' @ Error_str err)),
          w\<lparr>wd_ext := x\<rparr>)
      | ((Some d, None), x) \<Rightarrow> Some ((case sd_SnapshotID d of
          Some (c # cs) \<Rightarrow> Inr (gm_put (c # cs) [(SnapshotParent, va_SnapshotClaim va snap)] result)
        | _ \<Rightarrow> Inl (app_error app ErrFailedToGetVolumeParameters
            (''volumesnapshotdata: ['' @ sd_Namespace d @ ''] '' @ snapDataName @ '' does not have portworx volume source set''))),
          w\<lparr>wd_ext := x\<rparr>)))))"

text \<open>The labels of the affinity of a stateful set, if topology labels were asked for; the read goes through two
  pointers.\<close>

definition topology_labels :: "sched_ctx \<Rightarrow> spec_obj \<Rightarrow> ('w, labels) io" where
  "topology_labels ctx ss =
     (if opt_TopologyLabels (ctx_ScheduleOptions ctx) = [] then io_return []
      else (case ps_Affinity (so_Pod ss) of
        None \<Rightarrow> io_panic
      | Some a \<Rightarrow> (case aff_NodeAffinity a of
          None \<Rightarrow> io_panic
        | Some n \<Rightarrow> io_lift (map_option Inr (getLabelsFromNodeAffinity n)))))"

fun params_of_claims ::
  "'x vol_api \<Rightarrow> sched_ctx \<Rightarrow> labels \<Rightarrow> spec_obj list \<Rightarrow> volume_params \<Rightarrow> ('x k8s_world, volume_params) io" where
  "params_of_claims va ctx topology [] result = io_return result"
| "params_of_claims va ctx topology (pvc # pvcs) result =
     io_bind (failing_with (ext_call (va_ClaimParams va pvc))
       (params_error (ctx_App ctx) ''Failed to get params for volume: '' (so_Name pvc) '', namespace: '' (so_Namespace pvc))) (\<lambda>params.
     params_of_claims va ctx topology pvcs (gm_put (cl_VolumeName (so_Claim pvc))
       (if cl_VolumeName (so_Claim pvc) \<noteq> [] \<and> opt_TopologyLabels (ctx_ScheduleOptions ctx) \<noteq> []
        then MergeMaps (claim_params pvc params) topology else claim_params pvc params) result))"

definition params_of_statefulset ::
  "'x k8s_api \<Rightarrow> 'x vol_api \<Rightarrow> sched_ctx \<Rightarrow> string \<Rightarrow> string \<Rightarrow> volume_params \<Rightarrow> ('x k8s_world, volume_params) io" where
  "params_of_statefulset api va ctx name namespace result =
     io_bind (failing_with (obj_call StatefulSet (api_Get api StatefulSet name namespace))
       (params_error (ctx_App ctx) ''Failed to get StatefulSet: '' name '', Namespace : '' namespace)) (\<lambda>ss.
     io_bind (claims_of api ss
       (params_error (ctx_App ctx) ''Failed to get PVCs for StatefulSet: '' (so_Name ss) '', Namespace: '' (so_Namespace ss))) (\<lambda>pvcs.
     io_bind (topology_labels ctx ss) (\<lambda>topology. params_of_claims va ctx topology pvcs result)))"

fun volume_parameters ::
  "'x k8s_api \<Rightarrow> 'x vol_api \<Rightarrow> sched_ctx \<Rightarrow> ptr list \<Rightarrow> volume_params \<Rightarrow> ('x k8s_world, volume_params) io" where
  "volume_parameters api va ctx [] result = io_return result"
| "volume_parameters api va ctx (p # specs) result =
     io_bind (deref p) (\<lambda>obj. io_bind
       (if so_type obj = PersistentVolumeClaim then params_of_claim api va (ctx_App ctx) obj result
        else if so_type obj = VolumeSnapshot then params_of_snapshot api va (ctx_App ctx) obj result
        else if so_type obj = ModelsDeployment then params_of_statefulset api va ctx (so_Extra obj) (so_Namespace obj) result
        else if so_type obj = StatefulSet then params_of_statefulset api va ctx (so_Name obj) (so_Namespace obj) result
        else io_return result)
       (volume_parameters api va ctx specs))"

definition GetVolumeParameters :: "'x k8s_api \<Rightarrow> 'x vol_api \<Rightarrow> sched_ctx \<Rightarrow> ('x k8s_world, volume_params) io" where
  "GetVolumeParameters api va ctx = volume_parameters api va ctx (SpecList (ctx_App ctx)) []"

section \<open>Workload and size\<close>

definition specObjAppWorkloadSizeEnvVar :: string where "specObjAppWorkloadSizeEnvVar = ''SIZE''"

definition env_of :: "string \<Rightarrow> spec_obj \<Rightarrow> string list" where
  "env_of key obj = (if so_type obj = Deployment
     then map snd (filter (\<lambda>(name, v). name = key) (concat (map ctr_Env (ps_Containers (so_Pod obj))))) else [])"

definition getSpecAppEnvVar :: "spec_obj list \<Rightarrow> string \<Rightarrow> string" where
  "getSpecAppEnvVar specs key = (case concat (map (env_of key) specs) of [] \<Rightarrow> [] | v # _ \<Rightarrow> v)"

definition k8s_GiB :: u64 where "k8s_GiB = 2 ^ 30"

definition GetWorkloadSizeFromAppSpec :: "spec_obj list \<Rightarrow> u64 result" where
  "GetWorkloadSizeFromAppSpec specs =
     (let appEnvVar = getSpecAppEnvVar specs specObjAppWorkloadSizeEnvVar in
      if appEnvVar \<noteq> [] then (case ParseUint appEnvVar of
          None \<Rightarrow> Inl (Errorf (''can't parse value '' @ appEnvVar @ '' of environment variable. Err: '' @ Error_str (ParseUint_error appEnvVar)))
        | Some wSize \<Rightarrow> (if wSize < 1024 then Inr (wSize * k8s_GiB) else Inr 0))
      else Inr 0)"

definition specs_of :: "sched_ctx \<Rightarrow> ('x k8s_world, spec_obj list) io" where
  "specs_of ctx = io_gets (\<lambda>w. map (wd_heap w) (SpecList (ctx_App ctx)))"

definition workload_size :: "sched_ctx \<Rightarrow> ('x k8s_world, u64) io" where
  "workload_size ctx = io_bind (specs_of ctx) (\<lambda>specs. io_lift (Some (GetWorkloadSizeFromAppSpec specs)))"

definition isAutopilotMatchPvcLabels :: "AutopilotRule \<Rightarrow> spec_obj \<Rightarrow> bool" where
  "isAutopilotMatchPvcLabels apRule pvc \<longleftrightarrow> list_ex (\<lambda>(k, v). map_of (so_Labels pvc) k = Some v) (rule_MatchLabels apRule)"

text \<open>The size of a claim grows from its request, an unsigned number of bytes.\<close>

definition EstimatePVCExpansion ::
  "K8s \<Rightarrow> 'x vol_api \<Rightarrow> spec_obj \<Rightarrow> AutopilotRule \<Rightarrow> u64 \<Rightarrow> ('x k8s_world, u64 \<times> int) io" where
  "EstimatePVCExpansion k va pvc apRule wSize =
     (let initialPVCSize = word_of_int (AsInt64 (cl_Request (so_Claim pvc))) in
      (case volume_Get (k_VolDriverName k) (va_volDrivers va) of
         Inl err \<Rightarrow> io_error err
       | Inr volDriver \<Rightarrow>
           (if isAutopilotMatchPvcLabels apRule pvc then ext_call (vd_EstimateVolumeExpand volDriver apRule initialPVCSize wSize)
            else io_return (initialPVCSize, 0))))"

text \<open>\<open>int64\<close> of an unsigned size is its signed reading.\<close>

definition validatePVCSize ::
  "K8s \<Rightarrow> 'x vol_api \<Rightarrow> sched_ctx \<Rightarrow> spec_obj \<Rightarrow> AutopilotRule \<Rightarrow> int \<Rightarrow> int \<Rightarrow> ('x k8s_world, unit) io" where
  "validatePVCSize k va ctx obj rule timeout retryInterval =
     io_bind (workload_size ctx) (\<lambda>wSize.
     io_bind (EstimatePVCExpansion k va obj rule wSize) (\<lambda>(expectedPVCSize, _).
       failing_with (ext_call (va_ValidateClaimSize va obj (sint expectedPVCSize) timeout retryInterval))
         (\<lambda>err. app_error (ctx_App ctx) ErrFailedToValidateStorage (''Failed to validate size: '' @ show_u64 expectedPVCSize @
            '' of PVC: '' @ so_Name obj @ '', Namespace: '' @ so_Namespace obj @ ''. Err: '' @ err))))"

section \<open>Validation\<close>

definition storage_error :: "app_spec \<Rightarrow> string \<Rightarrow> string \<Rightarrow> string \<Rightarrow> string \<Rightarrow> string \<Rightarrow> go_error" where
  "storage_error app what name middle namespace err =
     app_error app ErrFailedToValidateStorage (what @ name @ middle @ namespace @ ''. Err: '' @ err)"

text \<open>The claim is validated once for every action that resizes volumes of every rule that matches.\<close>

definition validate_sizes ::
  "K8s \<Rightarrow> 'x k8s_api \<Rightarrow> 'x vol_api \<Rightarrow> sched_ctx \<Rightarrow> spec_obj \<Rightarrow> int \<Rightarrow> int \<Rightarrow> ('x k8s_world, unit) io" where
  "validate_sizes k api va ctx obj timeout retryInterval =
     io_bind (case map_of (so_Annotations obj) autopilotEnabledAnnotationKey of
         None \<Rightarrow> io_return False
       | Some v \<Rightarrow> ParseBool_io v) (\<lambda>autopilotEnabledOnPvc.
     if autopilotEnabledOnPvc then
       io_bind (IsAutopilotEnabled api) (\<lambda>isAutopilotPodAvailable.
       if \<not> isAutopilotPodAvailable then io_error (Errorf ''Autopilot is not enabled'')
       else io_bind (ext_call (va_ListRules va)) (\<lambda>rules.
         io_foreach (\<lambda>(rule, _). io_foreach (\<lambda>a.
             if act_Name a = VolumeSpecAction \<and> isAutopilotMatchPvcLabels rule obj
             then validatePVCSize k va ctx obj rule (5 * timeout) retryInterval else io_return ())
           (rule_Actions rule)) rules))
     else io_return ())"

definition validate_claim ::
  "K8s \<Rightarrow> 'x k8s_api \<Rightarrow> 'x vol_api \<Rightarrow> sched_ctx \<Rightarrow> VolumeOptions option \<Rightarrow> spec_obj \<Rightarrow> int \<Rightarrow> int \<Rightarrow> ('x k8s_world, unit) io" where
  "validate_claim k api va ctx options obj timeout retryInterval =
     io_bind (io_catch (ext_call (api_Validate api PersistentVolumeClaim obj timeout retryInterval)) (\<lambda>err.
         if map_option vo_ExpectError options = Some True then io_return ()
         else io_error (storage_error (ctx_App ctx) ''Failed to validate PVC: '' (so_Name obj) '', Namespace: '' (so_Namespace obj) (Error_str err))))
       (\<lambda>_. validate_sizes k api va ctx obj timeout retryInterval)"

text \<open>The timeout grows with the number of replicas to wait for. For a data service that has more replicas than
  asked for, the code subtracts the number of replicas from itself.\<close>

definition data_service_factor :: "int \<Rightarrow> int \<Rightarrow> int" where
  "data_service_factor replicas nodeCount = (if replicas > nodeCount then replicas - replicas else replicas)"

definition statefulset_factor :: "int \<Rightarrow> int \<Rightarrow> int" where
  "statefulset_factor current wanted = (if current > wanted then current - wanted else wanted)"

definition validate_claims ::
  "'x vol_api \<Rightarrow> app_spec \<Rightarrow> spec_obj \<Rightarrow> int \<Rightarrow> int \<Rightarrow> ('x k8s_world, unit) io" where
  "validate_claims va app ss timeout retryInterval =
     failing_with (ext_call (va_ValidateClaims va ss timeout retryInterval))
       (storage_error app ''Failed to validate PVCs for statefulset: '' (so_Name ss) '',Namespace: '' (so_Namespace ss))"

definition validate_volume ::
  "K8s \<Rightarrow> 'x k8s_api \<Rightarrow> 'x vol_api \<Rightarrow> sched_ctx \<Rightarrow> VolumeOptions option \<Rightarrow> int \<Rightarrow> int \<Rightarrow> spec_obj \<Rightarrow> ('x k8s_world, unit) io" where
  "validate_volume k api va ctx options timeout retryInterval obj =
     (let t = so_type obj; app = ctx_App ctx; name = so_Name obj; namespace = so_Namespace obj in
      if t = StorageClass then
        (if ctx_SkipClusterScopedObject ctx then io_return ()
         else io_catch (err_call StorageClass (api_Get api StorageClass name [])) (\<lambda>err.
           if map_option vo_SkipClusterScopedObjects options = Some True then io_return ()
           else io_error (app_error app ErrFailedToValidateStorage
             (''Failed to validate StorageClass: '' @ name @ ''. Err: '' @ Error_str err))))
      else if t = PersistentVolumeClaim then validate_claim k api va ctx options obj timeout retryInterval
      else if t = VolumeSnapshot then
        failing_with (ext_call (api_Validate api VolumeSnapshot obj timeout retryInterval))
          (storage_error app ''Failed to validate snapshot: '' name '', Namespace: '' namespace)
      else if t = GroupVolumeSnapshot then
        failing_with (ext_call (api_Validate api GroupVolumeSnapshot obj timeout retryInterval))
          (storage_error app ''Failed to validate group snapshot: '' name '', Namespace: '' namespace)
      else if t = ModelsDeployment then
        io_bind (failing_with (obj_call StatefulSet (api_Get api StatefulSet (so_Extra obj) namespace))
          (storage_error app ''Failed to get StatefulSet: '' (fst (va_FieldText va obj)) '' , Namespace: '' (snd (va_FieldText va obj)))) (\<lambda>ss.
        validate_claims va app ss (timeout * data_service_factor (so_Replicas ss) (va_NodeCount va obj)) retryInterval)
      else if t = StatefulSet then
        io_bind (failing_with (obj_call StatefulSet (api_Get api StatefulSet name namespace))
          (storage_error app ''Failed to get StatefulSet: '' name '', Namespace: '' namespace)) (\<lambda>ss.
        validate_claims va app ss (timeout * statefulset_factor (so_Replicas ss) (so_Replicas obj)) retryInterval)
      else io_return ())"

definition ValidateVolumes ::
  "K8s \<Rightarrow> 'x k8s_api \<Rightarrow> 'x vol_api \<Rightarrow> sched_ctx \<Rightarrow> int \<Rightarrow> int \<Rightarrow> VolumeOptions option \<Rightarrow> ('x k8s_world, unit) io" where
  "ValidateVolumes k api va ctx timeout retryInterval options =
     io_foreach (\<lambda>p. io_bind (deref p) (validate_volume k api va ctx options timeout retryInterval)) (SpecList (ctx_App ctx))"

section \<open>Snapshots\<close>

definition GetSnapShotData ::
  "'x k8s_api \<Rightarrow> 'x vol_api \<Rightarrow> sched_ctx \<Rightarrow> string \<Rightarrow> string \<Rightarrow> ('x k8s_world, snap_data option) io" where
  "GetSnapShotData api va ctx snapshotName snapshotNameSpace =
     io_bind (failing_with (obj_call VolumeSnapshot (api_Get api VolumeSnapshot snapshotName snapshotNameSpace))
       (\<lambda>err. app_error (ctx_App ctx) ErrFailedToGetSnapShot (''failed to get Snapshot: '' @ snapshotName @ ''. Err: '' @ err))) (\<lambda>snap.
     (let snapDataName = so_Extra snap in
      if snapDataName = [] then
        io_error (app_error (ctx_App ctx) ErrFailedToGetSnapShotDataName
          (''snapshot: ['' @ so_Namespace snap @ ''] '' @ so_Name snap @ '' does not have snapshotdata set''))
      else (\<lambda>w. (case va_GetSnapshotData va snapDataName (wd_ext w) of
        ((_, Some err), x) \<Rightarrow> Some (Inl (app_error (ctx_App ctx) ErrFailedToGetSnapShotData
          (''failed to get volumesnapshotdata: '' @ snapDataName @ '' due to: '' @ Error_str err)), w\<lparr>wd_ext := x\<rparr>)
      | ((d, None), x) \<Rightarrow> Some (Inr d, w\<lparr>wd_ext := x\<rparr>)))))"

fun snapshots_of :: "'x vol_api \<Rightarrow> ptr list \<Rightarrow> Snapshot list \<Rightarrow> ('x k8s_world, Snapshot list) io" where
  "snapshots_of va [] snaps = io_return snaps"
| "snapshots_of va (p # specs) snaps =
     io_bind (deref p) (\<lambda>obj.
       if so_type obj = VolumeSnapshot then
         snapshots_of va specs (snaps @ [\<lparr>snap_ID = so_UID obj, snap_Name = so_Name obj, snap_Namespace = so_Namespace obj\<rparr>])
       else if so_type obj = GroupVolumeSnapshot then
         io_bind (ext_call (va_GroupSnapshots va (so_Name obj) (so_Namespace obj))) (\<lambda>group.
           snapshots_of va specs (snaps @ map (\<lambda>(uid, name, namespace). \<lparr>snap_ID = uid, snap_Name = name, snap_Namespace = namespace\<rparr>) group))
       else snapshots_of va specs snaps)"

definition GetSnapshots :: "'x vol_api \<Rightarrow> sched_ctx \<Rightarrow> ('x k8s_world, Snapshot list) io" where
  "GetSnapshots va ctx = snapshots_of va (SpecList (ctx_App ctx)) []"

definition DeleteSnapShot :: "'x k8s_api \<Rightarrow> sched_ctx \<Rightarrow> string \<Rightarrow> string \<Rightarrow> ('x k8s_world, unit) io" where
  "DeleteSnapShot api ctx snapshotName snapshotNameSpace =
     failing_with (ext_call (api_Delete api VolumeSnapshot snapshotName snapshotNameSpace))
       (\<lambda>err. app_error (ctx_App ctx) ErrFailedToDestroyStorage (''Failed to destroy snapshot: '' @ snapshotName @ ''. Err: '' @ err))"

definition DeleteCsiSnapshot :: "'x vol_api \<Rightarrow> sched_ctx \<Rightarrow> string \<Rightarrow> string \<Rightarrow> ('x k8s_world, unit) io" where
  "DeleteCsiSnapshot va ctx snapshotName snapshotNameSpace =
     failing_with (ext_call (va_DeleteCsiSnapshot va snapshotName snapshotNameSpace))
       (\<lambda>err. app_error (ctx_App ctx) ErrFailedToDestroyStorage (''Failed to delete snapshot: '' @ snapshotName @ ''. Err: '' @ err))"

definition GetSnapshotsInNameSpace :: "'x k8s_api \<Rightarrow> 'x vol_api \<Rightarrow> string \<Rightarrow> ('x k8s_world, string list) io" where
  "GetSnapshotsInNameSpace api va snapshotNameSpace =
     io_bind (io_modify (\<lambda>w. w\<lparr>wd_ext := api_Sleep api (10 * second_ns) (wd_ext w)\<rparr>)) (\<lambda>_.
       ext_call (va_ListCsiSnapshots va snapshotNameSpace))"

definition IsCsiSnapshotExists :: "'x k8s_api \<Rightarrow> 'x vol_api \<Rightarrow> string \<Rightarrow> string \<Rightarrow> ('x k8s_world, bool) io" where
  "IsCsiSnapshotExists api va snapshotName namespace =
     io_bind (GetSnapshotsInNameSpace api va namespace) (\<lambda>snaps.
       io_return (list_ex (\<lambda>name. name = snapshotName) snaps))"

definition DeleteCsiSnapshotsFromNamespace :: "'x k8s_api \<Rightarrow> 'x vol_api \<Rightarrow> sched_ctx \<Rightarrow> string \<Rightarrow> ('x k8s_world, unit) io" where
  "DeleteCsiSnapshotsFromNamespace api va ctx namespace =
     io_bind (GetSnapshotsInNameSpace api va namespace) (io_foreach (\<lambda>snap. DeleteCsiSnapshot va ctx snap namespace))"

section \<open>Deletion\<close>

text \<open>A step of the deletion: an error that means not found ends the step (the \<open>continue\<close> of the loop), any
  other the call, with the text given.\<close>

definition storage_gone :: "app_spec \<Rightarrow> string \<Rightarrow> string \<Rightarrow> string \<Rightarrow> go_error" where
  "storage_gone app what name err = app_error app ErrFailedToDestroyStorage (what @ name @ ''. Err: '' @ err)"

definition found_or_skip ::
  "'x k8s_api \<Rightarrow> ('x k8s_world, 'a) io \<Rightarrow> (string \<Rightarrow> go_error) \<Rightarrow> 'b \<Rightarrow> ('a \<Rightarrow> ('x k8s_world, 'b) io) \<Rightarrow> ('x k8s_world, 'b) io" where
  "found_or_skip api m e skip f =
     io_bind (io_try m) (\<lambda>r. (case r of
       Inl err \<Rightarrow> (if api_IsNotFound api err then io_return skip else io_error (e (Error_str err)))
     | Inr x \<Rightarrow> f x))"

definition delete_or_skip ::
  "'x k8s_api \<Rightarrow> spec_type \<Rightarrow> string \<Rightarrow> string \<Rightarrow> (string \<Rightarrow> go_error) \<Rightarrow> ('x k8s_world, unit) io" where
  "delete_or_skip api t name namespace e =
     found_or_skip api (ext_call (api_Delete api t name namespace)) e () io_return"

definition claim_volume :: "string \<Rightarrow> spec_obj \<Rightarrow> Volume" where
  "claim_volume volumeName obj = zero_Volume\<lparr>vol_ID := volumeName, vol_Name := so_Name obj, vol_Namespace := so_Namespace obj,
     vol_Shared := isPVCShared obj\<rparr>"

text \<open>A claim that is found is listed, and its deletion may then find it gone.\<close>

definition delete_claim ::
  "'x k8s_api \<Rightarrow> app_spec \<Rightarrow> string \<Rightarrow> spec_obj \<Rightarrow> ('x k8s_world, Volume list) io" where
  "delete_claim api app pre obj =
     found_or_skip api (obj_call PersistentVolumeClaim (api_Get api PersistentVolumeClaim (so_Name obj) (so_Namespace obj)))
       (storage_gone app (pre @ ''Failed to get PVC: '') (so_Name obj)) [] (\<lambda>pvcObj.
     io_bind (delete_or_skip api PersistentVolumeClaim (so_Name obj) (so_Namespace obj)
         (storage_gone app (pre @ ''Failed to destroy PVC: '') (so_Name obj)))
       (\<lambda>_. io_return [claim_volume (cl_VolumeName (so_Claim pvcObj)) obj]))"

fun delete_claims :: "'x k8s_api \<Rightarrow> app_spec \<Rightarrow> spec_obj list \<Rightarrow> Volume list \<Rightarrow> ('x k8s_world, Volume list) io" where
  "delete_claims api app [] vols = io_return vols"
| "delete_claims api app (pvc # pvcs) vols =
     io_bind (delete_claim api app [] pvc) (\<lambda>new. delete_claims api app pvcs (vols @ new))"

definition delete_storage ::
  "'x k8s_api \<Rightarrow> sched_ctx \<Rightarrow> VolumeOptions option \<Rightarrow> spec_obj \<Rightarrow> ('x k8s_world, Volume list) io" where
  "delete_storage api ctx options obj =
     (let t = so_type obj; app = ctx_App ctx; name = so_Name obj; namespace = so_Namespace obj; pre = ''['' @ app_Key app @ ''] '' in
      if t = StorageClass then
        (if map_option vo_SkipClusterScopedObjects options = Some False then
           io_bind (delete_or_skip api StorageClass name [] (storage_gone app ''Failed to destroy storage class: '' name)) (\<lambda>_. io_return [])
         else io_return [])
      else if t = PersistentVolumeClaim then delete_claim api app pre obj
      else if t = VolumeSnapshot then
        io_bind (delete_or_skip api VolumeSnapshot name namespace (storage_gone app ''Failed to destroy snapshot: '' name)) (\<lambda>_. io_return [])
      else if t = GroupVolumeSnapshot then
        io_bind (delete_or_skip api GroupVolumeSnapshot name namespace (storage_gone app ''Failed to destroy group snapshot: '' name))
          (\<lambda>_. io_return [])
      else if t = StatefulSet then
        found_or_skip api (ext_call (api_ClaimsOf api obj)) (storage_gone app ''Failed to get PVCs for StatefulSet: '' name) [] (\<lambda>pvcList.
          (case pvcList of
             None \<Rightarrow> io_error (storage_gone app ''Failed to get PVCs for StatefulSet: '' name (Sprint_err None))
           | Some pvcs \<Rightarrow> delete_claims api app pvcs []))
      else if t = PersistentVolume then
        found_or_skip api (obj_call PersistentVolume (api_Get api PersistentVolume name [])) (storage_gone app (pre @ ''Failed to get PV: '') name) []
          (\<lambda>pv. io_bind (delete_or_skip api PersistentVolume (so_Name pv) [] (storage_gone app (pre @ ''Failed to destroy PV: '') name))
            (\<lambda>_. io_return []))
      else io_return [])"

fun delete_volumes ::
  "'x k8s_api \<Rightarrow> sched_ctx \<Rightarrow> VolumeOptions option \<Rightarrow> ptr list \<Rightarrow> Volume list \<Rightarrow> ('x k8s_world, Volume list) io" where
  "delete_volumes api ctx options [] vols = io_return vols"
| "delete_volumes api ctx options (p # specs) vols =
     io_bind (deref p) (\<lambda>obj. io_bind (delete_storage api ctx options obj) (\<lambda>new. delete_volumes api ctx options specs (vols @ new)))"

definition DeleteVolumes :: "'x k8s_api \<Rightarrow> sched_ctx \<Rightarrow> VolumeOptions option \<Rightarrow> ('x k8s_world, Volume list) io" where
  "DeleteVolumes api ctx options = delete_volumes api ctx options (SpecList (ctx_App ctx)) []"

section \<open>Listing\<close>

definition PureDAVolumeLabel :: string where "PureDAVolumeLabel = ''pure_direct_access''"

definition PureDAVolumeLabelValueFA :: string where "PureDAVolumeLabelValueFA = ''fada''"

definition PureDAVolumeLabelValueFB :: string where "PureDAVolumeLabelValueFB = ''fbda''"

definition FADAVolumeSerialLabel :: string where "FADAVolumeSerialLabel = ''fada_volume_serial''"

text \<open>The labels of a Pure volume. A block volume without a block spec panics.\<close>

definition pure_labels :: "inspected \<Rightarrow> labels \<Rightarrow> ('w, labels) io" where
  "pure_labels v labels =
     (if \<not> iv_IsPure v then io_return labels
      else (case iv_Protocol v of
        ProxyBlock \<Rightarrow> (case iv_Serial v of
            None \<Rightarrow> io_panic
          | Some serial \<Rightarrow> io_return (gm_put FADAVolumeSerialLabel serial (gm_put PureDAVolumeLabel PureDAVolumeLabelValueFA labels)))
      | ProxyFile \<Rightarrow> io_return (gm_put PureDAVolumeLabel PureDAVolumeLabelValueFB labels)
      | ProxyOther s \<Rightarrow> io_error (Errorf (''unknown proxy type '' @ s @ '' for Pure volume''))))"

fun is_not_supported :: "go_error \<Rightarrow> bool" where
  "is_not_supported (ErrNotSupported _ _) = True"
| "is_not_supported _ = False"

definition volume_labels :: "K8s \<Rightarrow> 'x vol_api \<Rightarrow> spec_obj \<Rightarrow> ('x k8s_world, labels) io" where
  "volume_labels k va pvc =
     (let volumeName = cl_VolumeName (so_Claim pvc) in
      if volumeName = [] then io_return (so_Labels pvc)
      else (case volume_Get (k_VolDriverName k) (va_volDrivers va) of
        Inl err \<Rightarrow> io_error err
      | Inr driver \<Rightarrow> io_bind (io_try (ext_call (vd_InspectVolume driver volumeName))) (\<lambda>r. (case r of
          Inl err \<Rightarrow> (if is_not_supported err then io_return (so_Labels pvc)
            else io_error (Errorf (''failed to inspect volume '' @ so_Name pvc @ '': '' @ Error_str err)))
        | Inr v \<Rightarrow> pure_labels v (so_Labels pvc)))))"

definition listed_volume :: "spec_obj \<Rightarrow> labels \<Rightarrow> Volume" where
  "listed_volume pvc labels = (claim_volume (cl_VolumeName (so_Claim pvc)) pvc)\<lparr>vol_Annotations := so_Annotations pvc,
     vol_Labels := labels, vol_Size := word_of_int (AsInt64 (cl_Request (so_Claim pvc))),
     vol_Raw := cl_VolumeMode (so_Claim pvc) = Some ''Block''\<rparr>"

definition appendVolForPVC :: "K8s \<Rightarrow> 'x vol_api \<Rightarrow> Volume list \<Rightarrow> spec_obj \<Rightarrow> ('x k8s_world, Volume list) io" where
  "appendVolForPVC k va vols pvc =
     io_bind (filterPureVolumesIfEnabled k va (Some pvc)) (\<lambda>shouldAdd.
     if \<not> shouldAdd then io_return vols
     else io_bind (volume_labels k va pvc) (\<lambda>labels. io_return (vols @ [listed_volume pvc labels])))"

fun append_vols :: "K8s \<Rightarrow> 'x vol_api \<Rightarrow> spec_obj list \<Rightarrow> Volume list \<Rightarrow> ('x k8s_world, Volume list) io" where
  "append_vols k va [] vols = io_return vols"
| "append_vols k va (pvc # pvcs) vols = io_bind (appendVolForPVC k va vols pvc) (append_vols k va pvcs)"

definition get_storage_error :: "app_spec \<Rightarrow> string \<Rightarrow> string \<Rightarrow> string \<Rightarrow> string \<Rightarrow> string \<Rightarrow> go_error" where
  "get_storage_error app what name middle namespace err =
     app_error app ErrFailedToGetStorage (what @ name @ middle @ namespace @ ''. Err: '' @ err)"

definition volumes_of_set ::
  "K8s \<Rightarrow> 'x k8s_api \<Rightarrow> 'x vol_api \<Rightarrow> app_spec \<Rightarrow> string \<Rightarrow> string \<Rightarrow> Volume list \<Rightarrow> ('x k8s_world, Volume list) io" where
  "volumes_of_set k api va app name namespace vols =
     io_bind (failing_with (obj_call StatefulSet (api_Get api StatefulSet name namespace))
       (get_storage_error app ''Failed to get StatefulSet: '' name '' , Namespace: '' namespace)) (\<lambda>ss.
     io_bind (claims_of api ss (get_storage_error app ''Failed to get PVC from StatefulSet: '' (so_Name ss) '', Namespace: '' (so_Namespace ss)))
       (\<lambda>pvcs. append_vols k va pvcs vols))"

text \<open>Whether a claim belongs to a virtual machine: by one of its owner references, by a data volume of the machine,
  which is asked for only while no owner has matched, or by the launcher pod of the machine.\<close>

fun owned_by_vm :: "'x k8s_api \<Rightarrow> 'x vol_api \<Rightarrow> spec_obj \<Rightarrow> (string \<times> string) list \<Rightarrow> bool \<Rightarrow> ('x k8s_world, bool) io" where
  "owned_by_vm api va vm [] want = io_return want"
| "owned_by_vm api va vm ((kind, name) # owners) want =
     (let want = want \<or> (kind = so_Kind vm \<and> name = so_Name vm) in
      if \<not> want \<and> kind = ''DataVolume'' then
        (\<lambda>w. (case va_DataVolume va (so_Namespace vm) name (wd_ext w) of ((dataVol, err), x) \<Rightarrow>
           (if err \<noteq> None \<and> \<not> api_IsNotFound api (the err) then
              Some (Inl (Errorf (''error getting datavolume for vm: '' @ so_Name vm @ '' in namespace: '' @ so_Namespace vm @
                ''. error: '' @ Error_str (the err))), w\<lparr>wd_ext := x\<rparr>)
            else owned_by_vm api va vm owners
              (case dataVol of None \<Rightarrow> False | Some refs \<Rightarrow> list_ex (\<lambda>(_, n). n = so_Name vm) refs) (w\<lparr>wd_ext := x\<rparr>))))
      else owned_by_vm api va vm owners want)"

definition launched :: "spec_obj \<Rightarrow> kube_pod list \<Rightarrow> bool" where
  "launched vm pods \<longleftrightarrow> list_ex (\<lambda>pod. list_ex (\<lambda>(kind, name). kind = ''VirtualMachineInstance'' \<and> name = so_Name vm) (pod_Owners pod)) pods"

definition wanted_by_vm :: "'x k8s_api \<Rightarrow> 'x vol_api \<Rightarrow> spec_obj \<Rightarrow> spec_obj \<Rightarrow> ('x k8s_world, bool) io" where
  "wanted_by_vm api va vm pvc =
     io_bind (owned_by_vm api va vm (so_Owners pvc) False) (\<lambda>want.
     if want then io_return True
     else io_bind (io_catch (ext_call (api_ListPods api (so_Namespace vm) []))
         (\<lambda>err. io_error (Errorf (''failed to get pods in namespace: '' @ so_Namespace vm @ '': '' @ Error_str err))))
       (\<lambda>pods. io_return (launched vm pods)))"

fun volumes_of_vm ::
  "K8s \<Rightarrow> 'x k8s_api \<Rightarrow> 'x vol_api \<Rightarrow> spec_obj \<Rightarrow> spec_obj list \<Rightarrow> Volume list \<Rightarrow> ('x k8s_world, Volume list) io" where
  "volumes_of_vm k api va vm [] vols = io_return vols"
| "volumes_of_vm k api va vm (pvc # pvcs) vols =
     (if map_of (so_Annotations pvc) ''stork.libopenstorage.org/skip-resource'' \<noteq> None then volumes_of_vm k api va vm pvcs vols
      else io_bind (wanted_by_vm api va vm pvc) (\<lambda>want.
        if want then io_bind (appendVolForPVC k va vols pvc) (volumes_of_vm k api va vm pvcs)
        else volumes_of_vm k api va vm pvcs vols))"

definition claims_in :: "'x vol_api \<Rightarrow> string \<Rightarrow> ('x k8s_world, spec_obj list) io" where
  "claims_in va namespace = failing_with (ext_call (va_ListClaims va namespace))
     (\<lambda>err. Errorf (''failed to get PVCs in namespace '' @ namespace @ '': '' @ err))"

text \<open>The claim that the cluster returns is printed before the error is looked at: a read that returns no claim
  panics.\<close>

definition volume_of_claim ::
  "K8s \<Rightarrow> 'x k8s_api \<Rightarrow> 'x vol_api \<Rightarrow> spec_obj \<Rightarrow> Volume list \<Rightarrow> ('x k8s_world, Volume list) io" where
  "volume_of_claim k api va obj vols =
     (if map_of (so_Labels obj) ''portworx.io/kubevirt'' = Some ''true'' then io_return vols
      else if map_of (so_Labels obj) ''app'' = Some ''containerized-data-importer'' then io_return vols
      else io_bind (raw_call PersistentVolumeClaim (api_Get api PersistentVolumeClaim (so_Name obj) (so_Namespace obj))) (\<lambda>(p, err).
        through p (\<lambda>pvcObj. (case err of
          Some e \<Rightarrow> io_error (Errorf (''error getting pvc: '' @ so_Name obj @ '', namespace: '' @ so_Namespace obj @ ''. Err: '' @ Error_str e))
        | None \<Rightarrow> appendVolForPVC k va vols pvcObj))))"

definition volumes_of_spec ::
  "K8s \<Rightarrow> 'x k8s_api \<Rightarrow> 'x vol_api \<Rightarrow> app_spec \<Rightarrow> spec_obj \<Rightarrow> Volume list \<Rightarrow> ('x k8s_world, Volume list) io" where
  "volumes_of_spec k api va app obj vols =
     (let t = so_type obj in
      if t = PersistentVolumeClaim then volume_of_claim k api va obj vols
      else if t = ModelsDeployment then volumes_of_set k api va app (so_Extra obj) (so_Namespace obj) vols
      else if t = StatefulSet then volumes_of_set k api va app (so_Name obj) (so_Namespace obj) vols
      else if t = VirtualMachine then
        io_bind (claims_in va (so_Namespace obj)) (\<lambda>pvcs. volumes_of_vm k api va obj pvcs vols)
      else if t = PipelineRun then
        io_bind (claims_in va (so_Namespace obj)) (\<lambda>pvcs.
          append_vols k va (filter (\<lambda>pvc. list_ex (\<lambda>(kind, name). kind = so_Kind obj \<and> name = so_Name obj) (so_Owners pvc)) pvcs) vols)
      else io_return vols)"

fun get_volumes :: "K8s \<Rightarrow> 'x k8s_api \<Rightarrow> 'x vol_api \<Rightarrow> app_spec \<Rightarrow> ptr list \<Rightarrow> Volume list \<Rightarrow> ('x k8s_world, Volume list) io" where
  "get_volumes k api va app [] vols = io_return vols"
| "get_volumes k api va app (p # specs) vols =
     io_bind (deref p) (\<lambda>obj. io_bind (volumes_of_spec k api va app obj vols) (get_volumes k api va app specs))"

definition GetVolumes :: "K8s \<Rightarrow> 'x k8s_api \<Rightarrow> 'x vol_api \<Rightarrow> sched_ctx \<Rightarrow> ('x k8s_world, Volume list) io" where
  "GetVolumes k api va ctx = get_volumes k api va (ctx_App ctx) (SpecList (ctx_App ctx)) []"

text \<open>A claim without a volume mode panics here. The claims of a stateful set are not filtered.\<close>

definition pure_volumes_of ::
  "K8s \<Rightarrow> 'x k8s_api \<Rightarrow> 'x vol_api \<Rightarrow> app_spec \<Rightarrow> string \<Rightarrow> spec_obj \<Rightarrow> ('x k8s_world, Volume list) io" where
  "pure_volumes_of k api va app pureVolType obj =
     (if so_type obj = PersistentVolumeClaim then
        io_bind (obj_call PersistentVolumeClaim (api_Get api PersistentVolumeClaim (so_Name obj) (so_Namespace obj))) (\<lambda>pvcObj.
        io_bind (filterPureVolumesIfEnabledByPureVolBackend k va (Some pvcObj) pureVolType) (\<lambda>shouldAdd.
        if \<not> shouldAdd then io_return []
        else (case cl_VolumeMode (so_Claim pvcObj) of
          None \<Rightarrow> io_panic
        | Some mode \<Rightarrow> io_return [(claim_volume (cl_VolumeName (so_Claim pvcObj)) obj)\<lparr>vol_Annotations := so_Annotations obj,
            vol_Labels := so_Labels pvcObj, vol_Size := word_of_int (AsInt64 (cl_Request (so_Claim pvcObj))),
            vol_Raw := mode = ''Block''\<rparr>])))
      else if so_type obj = StatefulSet then
        io_bind (failing_with (obj_call StatefulSet (api_Get api StatefulSet (so_Name obj) (so_Namespace obj)))
          (\<lambda>err. app_error app ErrFailedToGetStorage (''Failed to get StatefulSet: '' @ so_Name obj @ ''. Err: '' @ err))) (\<lambda>ss.
        io_bind (claims_of api ss
          (\<lambda>err. app_error app ErrFailedToGetStorage (''Failed to get PVC from StatefulSet: '' @ so_Name ss @ ''. Err: '' @ err))) (\<lambda>pvcs.
        io_return (map (\<lambda>pvc. claim_volume (cl_VolumeName (so_Claim pvc)) pvc) pvcs)))
      else io_return [])"

fun get_pure_volumes ::
  "K8s \<Rightarrow> 'x k8s_api \<Rightarrow> 'x vol_api \<Rightarrow> app_spec \<Rightarrow> string \<Rightarrow> ptr list \<Rightarrow> Volume list \<Rightarrow> ('x k8s_world, Volume list) io" where
  "get_pure_volumes k api va app pureVolType [] vols = io_return vols"
| "get_pure_volumes k api va app pureVolType (p # specs) vols =
     io_bind (deref p) (\<lambda>obj. io_bind (pure_volumes_of k api va app pureVolType obj) (\<lambda>new.
       get_pure_volumes k api va app pureVolType specs (vols @ new)))"

definition GetPureVolumes :: "K8s \<Rightarrow> 'x k8s_api \<Rightarrow> 'x vol_api \<Rightarrow> sched_ctx \<Rightarrow> string \<Rightarrow> ('x k8s_world, Volume list) io" where
  "GetPureVolumes k api va ctx pureVolType =
     get_pure_volumes k api va (ctx_App ctx) pureVolType (SpecList (ctx_App ctx)) []"

section \<open>Resizing\<close>

definition resizeSupportedAnnotationKey :: string where "resizeSupportedAnnotationKey = ''torpedo.io/resize-supported''"

definition resize_supported :: "spec_obj \<Rightarrow> bool" where
  "resize_supported pvc = (case map_of (so_Annotations pvc) resizeSupportedAnnotationKey of
     None \<Rightarrow> True | Some v \<Rightarrow> ParseBool_value v)"

definition resized_volume :: "spec_obj \<Rightarrow> int \<Rightarrow> Volume" where
  "resized_volume pvc bytes = (claim_volume (cl_VolumeName (so_Claim pvc)) pvc)\<lparr>vol_RequestedSize := word_of_int (AsInt64 bytes)\<rparr>"

text \<open>\<open>resource.ParseQuantity\<close> of a number of GiB caps the quantity at the largest \<open>int64\<close>. The volume is nil for a
  claim that is filtered out; a nil claim that is not panics.\<close>

definition quantity_Gi :: "u64 \<Rightarrow> int" where
  "quantity_Gi sizeInGb = min (2 ^ 63 - 1) (2 ^ 30 * uint sizeInGb)"

definition ResizePVC ::
  "K8s \<Rightarrow> 'x k8s_api \<Rightarrow> 'x vol_api \<Rightarrow> sched_ctx \<Rightarrow> spec_obj option \<Rightarrow> u64 \<Rightarrow> ('x k8s_world, Volume option) io" where
  "ResizePVC k api va ctx claim sizeInGb =
     io_bind (filterPureVolumesIfEnabled k va claim) (\<lambda>shouldResize.
     if \<not> shouldResize then io_return None
     else through claim (\<lambda>pvc.
       (let storageSize = cl_Request (so_Claim pvc) in
        if resize_supported pvc then
          (let storageSize = storageSize + quantity_Gi sizeInGb;
               pvc = pvc\<lparr>so_Claim := (so_Claim pvc)\<lparr>cl_Request := storageSize\<rparr>\<rparr> in
           io_bind (failing_with (err_call PersistentVolumeClaim (api_Update api PersistentVolumeClaim pvc))
             (app_error (ctx_App ctx) ErrFailedToResizeStorage)) (\<lambda>_.
           io_return (Some (resized_volume pvc storageSize))))
        else io_return (Some (resized_volume pvc storageSize)))))"

definition resize_if_wanted ::
  "K8s \<Rightarrow> 'x k8s_api \<Rightarrow> 'x vol_api \<Rightarrow> sched_ctx \<Rightarrow> spec_obj option \<Rightarrow> ('x k8s_world, Volume option list) io" where
  "resize_if_wanted k api va ctx claim =
     io_bind (filterPureVolumesIfEnabled k va claim) (\<lambda>shouldResize.
     if shouldResize then io_bind (ResizePVC k api va ctx claim 1) (\<lambda>vol. io_return [vol]) else io_return [])"

fun resize_claims ::
  "K8s \<Rightarrow> 'x k8s_api \<Rightarrow> 'x vol_api \<Rightarrow> sched_ctx \<Rightarrow> spec_obj list \<Rightarrow> Volume option list \<Rightarrow> ('x k8s_world, Volume option list) io" where
  "resize_claims k api va ctx [] vols = io_return vols"
| "resize_claims k api va ctx (pvc # pvcs) vols =
     io_bind (resize_if_wanted k api va ctx (Some pvc)) (\<lambda>new. resize_claims k api va ctx pvcs (vols @ new))"

definition resize_set ::
  "K8s \<Rightarrow> 'x k8s_api \<Rightarrow> 'x vol_api \<Rightarrow> sched_ctx \<Rightarrow> string \<Rightarrow> string \<Rightarrow> (string \<Rightarrow> go_error) \<Rightarrow> ('x k8s_world, Volume option list) io" where
  "resize_set k api va ctx name namespace e =
     io_bind (failing_with (obj_call StatefulSet (api_Get api StatefulSet name namespace)) e) (\<lambda>ss.
     io_bind (claims_of api ss (\<lambda>err. app_error (ctx_App ctx) ErrFailedToResizeStorage
         (''Failed to get PVC from StatefulSet: '' @ so_Name ss @ ''. Err: '' @ err)))
       (\<lambda>pvcs. resize_claims k api va ctx pvcs []))"

text \<open>With a config map every spec gets its security annotations first, in place.\<close>

definition annotate_for_resize :: "K8s \<Rightarrow> 'x k8s_api \<Rightarrow> string \<Rightarrow> app_spec \<Rightarrow> ptr \<Rightarrow> ('x k8s_world, unit) io" where
  "annotate_for_resize k api configMapName app p =
     (if configMapName = [] then io_return ()
      else io_bind (failing_with (obj_call ConfigMap (api_Get api ConfigMap configMapName ''default''))
          (\<lambda>err. SchedErr (ErrFailedToGetConfigMap configMapName (''Failed to get config map: Err: '' @ err))))
        (\<lambda>configMap. mutate p (addSecurityAnnotation k (api_StorageProvisioner api) (so_Data configMap) app)))"

definition resize_spec ::
  "K8s \<Rightarrow> 'x k8s_api \<Rightarrow> 'x vol_api \<Rightarrow> sched_ctx \<Rightarrow> spec_obj \<Rightarrow> ('x k8s_world, Volume option list) io" where
  "resize_spec k api va ctx obj =
     (if so_type obj = PersistentVolumeClaim then
        io_bind (raw_call PersistentVolumeClaim (api_Get api PersistentVolumeClaim (so_Name obj) (so_Namespace obj)))
          (\<lambda>(updatedPVC, _). resize_if_wanted k api va ctx updatedPVC)
      else if so_type obj = StatefulSet then
        resize_set k api va ctx (so_Name obj) (so_Namespace obj)
          (\<lambda>err. app_error (ctx_App ctx) ErrFailedToResizeStorage (''Failed to get StatefulSet: '' @ so_Name obj @ ''. Err: '' @ err))
      else if so_type obj = ModelsDeployment then
        resize_set k api va ctx (so_Extra obj) (so_Namespace obj)
          (\<lambda>err. app_error (ctx_App ctx) ErrFailedToResizeStorage
             (''Failed to get StatefulSet: '' @ so_Extra obj @ '' , Namespace: '' @ so_Namespace obj @ ''. Err: '' @ err))
      else io_return [])"

fun resize_volumes ::
  "K8s \<Rightarrow> 'x k8s_api \<Rightarrow> 'x vol_api \<Rightarrow> sched_ctx \<Rightarrow> string \<Rightarrow> ptr list \<Rightarrow> Volume option list \<Rightarrow> ('x k8s_world, Volume option list) io" where
  "resize_volumes k api va ctx configMapName [] vols = io_return vols"
| "resize_volumes k api va ctx configMapName (p # specs) vols =
     io_bind (annotate_for_resize k api configMapName (ctx_App ctx) p) (\<lambda>_.
     io_bind (deref p) (\<lambda>obj. io_bind (resize_spec k api va ctx obj) (\<lambda>new.
       resize_volumes k api va ctx configMapName specs (vols @ new))))"

definition ResizeVolume ::
  "K8s \<Rightarrow> 'x k8s_api \<Rightarrow> 'x vol_api \<Rightarrow> sched_ctx \<Rightarrow> string \<Rightarrow> ('x k8s_world, Volume option list) io" where
  "ResizeVolume k api va ctx configMapName = resize_volumes k api va ctx configMapName (SpecList (ctx_App ctx)) []"

section \<open>What the deletion leaves\<close>

text \<open>A deletion that succeeded, or found nothing to delete.\<close>

definition gone :: "'x k8s_api \<Rightarrow> spec_type \<Rightarrow> string \<Rightarrow> string \<Rightarrow> bool" where
  "gone api t name namespace \<longleftrightarrow> (\<exists>x. case fst (api_Delete api t name namespace x) of
     Inr _ \<Rightarrow> True | Inl err \<Rightarrow> api_IsNotFound api err)"

definition missing :: "'x k8s_api \<Rightarrow> spec_type \<Rightarrow> string \<Rightarrow> string \<Rightarrow> bool" where
  "missing api t name namespace \<longleftrightarrow> (\<exists>x. case snd (fst (api_Get api t name namespace x)) of
     None \<Rightarrow> False | Some err \<Rightarrow> api_IsNotFound api err)"

definition claim_gone :: "'x k8s_api \<Rightarrow> spec_obj \<Rightarrow> bool" where
  "claim_gone api pvc \<longleftrightarrow> missing api PersistentVolumeClaim (so_Name pvc) (so_Namespace pvc) \<or>
     gone api PersistentVolumeClaim (so_Name pvc) (so_Namespace pvc)"

definition storage_deleted :: "'x k8s_api \<Rightarrow> VolumeOptions option \<Rightarrow> spec_obj \<Rightarrow> bool" where
  "storage_deleted api options obj =
     (let t = so_type obj; name = so_Name obj; namespace = so_Namespace obj in
      if t = StorageClass then (if map_option vo_SkipClusterScopedObjects options = Some False then gone api StorageClass name [] else True)
      else if t = PersistentVolumeClaim then claim_gone api obj
      else if t = VolumeSnapshot \<or> t = GroupVolumeSnapshot then gone api t name namespace
      else if t = StatefulSet then (\<exists>x. case fst (api_ClaimsOf api obj x) of
          Inl err \<Rightarrow> api_IsNotFound api err
        | Inr None \<Rightarrow> False
        | Inr (Some pvcs) \<Rightarrow> list_all (claim_gone api) pvcs)
      else if t = PersistentVolume then missing api PersistentVolume name [] \<or> (\<exists>x pv. fst (api_Get api PersistentVolume name [] x) = (Some pv, None) \<and>
          gone api PersistentVolume (so_Name pv) [])
      else True)"

lemma found_or_skip_Inr:
  "found_or_skip api m e skip f w = Some (Inr y, w') \<longleftrightarrow>
     (\<exists>err. m w = Some (Inl err, w') \<and> api_IsNotFound api err \<and> y = skip) \<or>
     (\<exists>x w1. m w = Some (Inr x, w1) \<and> f x w1 = Some (Inr y, w'))"
  by (auto simp: found_or_skip_def io_bind_def io_try_def split: option.splits sum.splits if_splits)

lemma delete_or_skip_gone: "delete_or_skip api t name namespace e w = Some (Inr u, w') \<Longrightarrow> gone api t name namespace"
  unfolding delete_or_skip_def found_or_skip_Inr gone_def ext_call_def
  by (elim disjE exE conjE; intro exI [of _ "wd_ext w"]) (auto split: prod.splits)

lemma missingI: "api_Get api t name namespace x = ((p, Some err), x') \<Longrightarrow> api_IsNotFound api err \<Longrightarrow> missing api t name namespace"
  unfolding missing_def by (intro exI [of _ x]) simp

lemma not_found_missing:
  "obj_call t (api_Get api t name namespace) w = Some (Inl err, w') \<Longrightarrow> api_IsNotFound api err \<Longrightarrow> missing api t name namespace"
  by (auto simp: obj_call_def intro: missingI split: prod.splits option.splits)

lemma delete_claim_gone:
  assumes "delete_claim api app pre obj w = Some (Inr vols, w')"
  shows "claim_gone api obj" "\<forall>v\<in>set vols. gone api PersistentVolumeClaim (vol_Name v) (vol_Namespace v)"
proof -
  consider err where "obj_call PersistentVolumeClaim (api_Get api PersistentVolumeClaim (so_Name obj) (so_Namespace obj)) w = Some (Inl err, w')"
      "api_IsNotFound api err" "vols = []"
    | u w1 and pvcObj :: spec_obj where "delete_or_skip api PersistentVolumeClaim (so_Name obj) (so_Namespace obj)
          (storage_gone app (pre @ ''Failed to destroy PVC: '') (so_Name obj)) w1 = Some (Inr u, w')"
      "vols = [claim_volume (cl_VolumeName (so_Claim pvcObj)) obj]"
    using assms unfolding delete_claim_def found_or_skip_Inr io_bind_Inr io_return_Inr by blast
  then have "claim_gone api obj \<and> (\<forall>v\<in>set vols. gone api PersistentVolumeClaim (vol_Name v) (vol_Namespace v))"
  proof cases
    case 1
    then show ?thesis
      using not_found_missing by (auto simp: claim_gone_def)
  next
    case 2
    from delete_or_skip_gone [OF 2(1)] show ?thesis
      by (simp add: claim_gone_def 2(2) claim_volume_def)
  qed
  then show "claim_gone api obj" "\<forall>v\<in>set vols. gone api PersistentVolumeClaim (vol_Name v) (vol_Namespace v)"
    by blast+
qed

lemma delete_claims_gone:
  assumes "delete_claims api app pvcs vols w = Some (Inr res, w')"
    and "\<forall>v\<in>set vols. gone api PersistentVolumeClaim (vol_Name v) (vol_Namespace v)"
  shows "list_all (claim_gone api) pvcs \<and> (\<forall>v\<in>set res. gone api PersistentVolumeClaim (vol_Name v) (vol_Namespace v))"
  using assms
proof (induction pvcs arbitrary: vols w)
  case (Cons pvc pvcs)
  obtain new w1 where new: "delete_claim api app [] pvc w = Some (Inr new, w1)"
      and rest: "delete_claims api app pvcs (vols @ new) w1 = Some (Inr res, w')"
    using Cons.prems(1) unfolding delete_claims.simps io_bind_Inr by blast
  show ?case
    using Cons.IH [OF rest] Cons.prems(2) delete_claim_gone [OF new] by auto
qed simp

lemma frozen_steps [keeps_intros]:
  "keeps (frozen w0) m \<Longrightarrow> (\<And>x. keeps (frozen w0) (f x)) \<Longrightarrow> keeps (frozen w0) (found_or_skip api m e skip f)"
  "keeps (frozen w0) (delete_or_skip api t name namespace e)" "keeps (frozen w0) (delete_claim api app pre obj)"
  unfolding delete_claim_def delete_or_skip_def found_or_skip_def by (intro keeps_intros keeps_shapes; assumption)+

lemma frozen_delete_claims [keeps_intros]: "keeps (frozen w0) (delete_claims api app pvcs vols)"
  by (induction pvcs arbitrary: vols) (simp_all, (assumption | intro keeps_intros)+)

lemma frozen_delete_storage [keeps_intros]: "keeps (frozen w0) (delete_storage api ctx options obj)"
  unfolding delete_storage_def Let_def by (intro keeps_intros keeps_shapes)

lemma delete_storage_deleted:
  assumes "delete_storage api ctx options obj w = Some (Inr vols, w')"
  shows "storage_deleted api options obj \<and> (\<forall>v\<in>set vols. gone api PersistentVolumeClaim (vol_Name v) (vol_Namespace v))"
proof -
  let ?app = "ctx_App ctx"
  consider (claim) "so_type obj = PersistentVolumeClaim" | (set) "so_type obj = StatefulSet" | (pv) "so_type obj = PersistentVolume"
    | (other) "so_type obj \<noteq> PersistentVolumeClaim" "so_type obj \<noteq> StatefulSet" "so_type obj \<noteq> PersistentVolume"
    by blast
  then show ?thesis
  proof cases
    case claim
    have "delete_claim api ?app (''['' @ app_Key ?app @ ''] '') obj w = Some (Inr vols, w')"
      using assms claim by (simp add: delete_storage_def Let_def)
    from delete_claim_gone [OF this] claim show ?thesis
      by (simp add: storage_deleted_def Let_def)
  next
    case set
    obtain r w1 where call: "ext_call (api_ClaimsOf api obj) w = Some (r, w1)"
      by (cases "api_ClaimsOf api obj (wd_ext w)") (simp add: ext_call_def)
    have r: "fst (api_ClaimsOf api obj (wd_ext w)) = r"
      using call by (auto simp: ext_call_def split: prod.splits)
    have "(\<exists>err. r = Inl err \<and> api_IsNotFound api err \<and> vols = []) \<or>
        (\<exists>pvcs. r = Inr (Some pvcs) \<and> delete_claims api ?app pvcs [] w1 = Some (Inr vols, w'))"
      using assms unfolding delete_storage_def Let_def found_or_skip_Inr
      by (simp add: set found_or_skip_Inr call) (auto split: option.splits)
    then show ?thesis
      using delete_claims_gone [of api ?app _ "[]" w1 vols w'] r
      by (auto simp: storage_deleted_def Let_def set intro!: exI [of _ "wd_ext w"])
  next
    case pv
    then show ?thesis
      using assms unfolding delete_storage_def storage_deleted_def Let_def
      by (auto simp: found_or_skip_Inr io_bind_Inr obj_call_def intro: missingI
          dest!: delete_or_skip_gone split: prod.splits option.splits) (metis fst_conv)
  next
    case other
    then show ?thesis
      using assms unfolding delete_storage_def storage_deleted_def Let_def
      by (auto simp: io_bind_Inr dest!: delete_or_skip_gone split: if_splits)
  qed
qed

lemma delete_volumes_done:
  assumes "delete_volumes api ctx options specs vols w = Some (Inr res, w')" "frozen w0 w"
    and "\<forall>v\<in>set vols. gone api PersistentVolumeClaim (vol_Name v) (vol_Namespace v)"
  shows "list_all (\<lambda>p. storage_deleted api options (wd_heap w0 p)) specs \<and>
    (\<forall>v\<in>set res. gone api PersistentVolumeClaim (vol_Name v) (vol_Namespace v))"
  using assms
proof (induction specs arbitrary: vols w)
  case (Cons p specs)
  obtain new w1 where new: "delete_storage api ctx options (wd_heap w0 p) w = Some (Inr new, w1)"
      and rest: "delete_volumes api ctx options specs (vols @ new) w1 = Some (Inr res, w')"
    using Cons.prems(1,2) by (auto simp: io_bind_Inr deref_def frozenD)
  show ?case
    using Cons.IH [OF rest keepsD [OF frozen_delete_storage new Cons.prems(2)]] Cons.prems(3) delete_storage_deleted [OF new] by auto
qed simp

text \<open>C6: After a successful \<open>DeleteVolumes\<close> the storage of the application is gone: every claim, snapshot, group snapshot, persistent volume and, if cluster scoped objects are not skipped, storage class of the context was deleted or not found, and so was every claim in the listing of every stateful set. Each volume that is returned names a claim that was deleted or not found.\<close>

theorem delete_volumes_complete:
  "case DeleteVolumes api ctx options w of
     Some (Inr vols, w') \<Rightarrow>
       list_all (\<lambda>p. storage_deleted api options (wd_heap w p)) (SpecList (ctx_App ctx)) \<and>
       list_all (\<lambda>v. gone api PersistentVolumeClaim (vol_Name v) (vol_Namespace v)) vols
   | _ \<Rightarrow> True"
proof (rule on_success, goal_cases)
  case (1 vols w')
  show ?case
    using delete_volumes_done [OF 1 [unfolded DeleteVolumes_def] frozen_refl] by (simp add: list_all_iff)
qed

section \<open>What a validation has seen\<close>

text \<open>A claim was found bound, or an error was expected; if autopilot is enabled for it, every rule in a listing that
  resizes volumes and matches the claim had its size validated.\<close>

definition size_seen :: "K8s \<Rightarrow> 'x vol_api \<Rightarrow> spec_obj list \<Rightarrow> spec_obj \<Rightarrow> int \<Rightarrow> int \<Rightarrow> AutopilotRule \<Rightarrow> bool" where
  "size_seen k va specs obj timeout gap rule \<longleftrightarrow> (\<exists>wSize bytes count v v' x. GetWorkloadSizeFromAppSpec specs = Inr wSize \<and>
     EstimatePVCExpansion k va obj rule wSize v = Some (Inr (bytes, count), v') \<and>
     fst (va_ValidateClaimSize va obj (sint bytes) (5 * timeout) gap x) = Inr ())"

definition resizes :: "AutopilotRule \<Rightarrow> spec_obj \<Rightarrow> bool" where
  "resizes rule obj \<longleftrightarrow> list_ex (\<lambda>a. act_Name a = VolumeSpecAction) (rule_Actions rule) \<and> isAutopilotMatchPvcLabels rule obj"

definition claim_validated ::
  "K8s \<Rightarrow> 'x k8s_api \<Rightarrow> 'x vol_api \<Rightarrow> VolumeOptions option \<Rightarrow> spec_obj list \<Rightarrow> int \<Rightarrow> int \<Rightarrow> spec_obj \<Rightarrow> bool" where
  "claim_validated k api va options specs timeout gap obj \<longleftrightarrow>
     (map_option vo_ExpectError options = Some True \<or> (\<exists>x. fst (api_Validate api PersistentVolumeClaim obj timeout gap x) = Inr ())) \<and>
     (if Option.bind (map_of (so_Annotations obj) autopilotEnabledAnnotationKey) ParseBool = Some True
      then \<exists>x rules. fst (va_ListRules va x) = Inr rules \<and>
        list_all (\<lambda>rule. if resizes rule obj then size_seen k va specs obj timeout gap rule else True) (map fst rules)
      else True)"

definition volume_validated ::
  "K8s \<Rightarrow> 'x k8s_api \<Rightarrow> 'x vol_api \<Rightarrow> sched_ctx \<Rightarrow> VolumeOptions option \<Rightarrow> spec_obj list \<Rightarrow> int \<Rightarrow> int \<Rightarrow> spec_obj \<Rightarrow> bool" where
  "volume_validated k api va ctx options specs timeout gap obj =
     (let t = so_type obj; name = so_Name obj; namespace = so_Namespace obj in
      if t = StorageClass then ctx_SkipClusterScopedObject ctx \<or> map_option vo_SkipClusterScopedObjects options = Some True \<or>
        (\<exists>x. snd (fst (api_Get api StorageClass name [] x)) = None)
      else if t = PersistentVolumeClaim then claim_validated k api va options specs timeout gap obj
      else if t = VolumeSnapshot \<or> t = GroupVolumeSnapshot then \<exists>x. fst (api_Validate api t obj timeout gap x) = Inr ()
      else if t = ModelsDeployment then \<exists>ss x. fst (va_ValidateClaims va ss
        (if so_Replicas ss > va_NodeCount va obj then 0 else timeout * so_Replicas ss) gap x) = Inr ()
      else if t = StatefulSet then \<exists>ss x. fst (va_ValidateClaims va ss (timeout *
        (if so_Replicas ss > so_Replicas obj then so_Replicas ss - so_Replicas obj else so_Replicas obj)) gap x) = Inr ()
      else True)"

lemma frozen_estimate [keeps_intros]: "keeps (frozen w0) (EstimatePVCExpansion k va pvc rule wSize)"
  unfolding EstimatePVCExpansion_def Let_def by (intro keeps_intros keeps_shapes)

lemma frozen_size [keeps_intros]: "keeps (frozen w0) (validatePVCSize k va ctx obj rule timeout gap)"
  unfolding validatePVCSize_def workload_size_def specs_of_def by (intro keeps_intros keeps_shapes)

lemma frozen_sizes [keeps_intros]: "keeps (frozen w0) (validate_sizes k api va ctx obj timeout gap)"
  unfolding validate_sizes_def ParseBool_io_def IsAutopilotEnabled_def by (intro keeps_intros keeps_shapes)

lemma frozen_validate [keeps_intros]: "keeps (frozen w0) (validate_volume k api va ctx options timeout gap obj)"
  unfolding validate_volume_def validate_claim_def validate_claims_def Let_def by (intro keeps_intros keeps_shapes)

lemma size_validated:
  assumes "validatePVCSize k va ctx obj rule (5 * timeout) gap v = Some (Inr u, v')" "frozen w v"
  shows "size_seen k va (map (wd_heap w) (SpecList (ctx_App ctx))) obj timeout gap rule"
proof -
  obtain wSize bytes count v1 v2 where
      "GetWorkloadSizeFromAppSpec (map (wd_heap w) (SpecList (ctx_App ctx))) = Inr wSize"
      "EstimatePVCExpansion k va obj rule wSize v = Some (Inr (bytes, count), v1)"
      "ext_call (va_ValidateClaimSize va obj (sint bytes) (5 * timeout) gap) v1 = Some (Inr (), v2)"
    using assms by (auto simp: validatePVCSize_def workload_size_def specs_of_def io_bind_Inr frozenD failing_with_def io_catch_Inr)
  then show ?thesis
    unfolding size_seen_def using ext_call_result by blast
qed

lemma err_call_Inr: "err_call t f w = Some (Inr u, w') \<Longrightarrow> snd (fst (f (wd_ext w))) = None"
  by (auto simp: err_call_def io_bind_Inr raw_call_def split: prod.splits option.splits)

lemma sizes_validated:
  assumes run: "validate_sizes k api va ctx obj timeout gap v = Some (Inr u, v')" and frozen: "frozen w v"
    and enabled: "Option.bind (map_of (so_Annotations obj) autopilotEnabledAnnotationKey) ParseBool = Some True"
  shows "\<exists>x rules. fst (va_ListRules va x) = Inr rules \<and> list_all (\<lambda>rule. if resizes rule obj
    then size_seen k va (map (wd_heap w) (SpecList (ctx_App ctx))) obj timeout gap rule else True) (map fst rules)"
proof -
  let ?check = "\<lambda>(rule, _ :: int). io_foreach (\<lambda>a. if act_Name a = VolumeSpecAction \<and> isAutopilotMatchPvcLabels rule obj
      then validatePVCSize k va ctx obj rule (5 * timeout) gap else io_return ()) (rule_Actions rule)"
  have on: "(case map_of (so_Annotations obj) autopilotEnabledAnnotationKey of None \<Rightarrow> io_return False | Some s \<Rightarrow> ParseBool_io s) = io_return True"
    using enabled by (auto simp: ParseBool_io_def split: option.splits Option.bind_splits)
  obtain b v1 rules v2 where v1: "IsAutopilotEnabled api v = Some (Inr b, v1)"
      and v2: "ext_call (va_ListRules va) v1 = Some (Inr rules, v2)" and each: "io_foreach ?check rules v2 = Some (Inr u, v')"
    using run unfolding validate_sizes_def on io_bind_return if_True by (auto simp: io_bind_Inr split: if_splits)
  have "keeps (frozen w) (IsAutopilotEnabled api)"
    unfolding IsAutopilotEnabled_def by (intro keeps_intros keeps_shapes)
  from keepsD [OF this v1 frozen] have "frozen w v2"
    using keepsD [OF frozen_calls(1) v2] by blast
  moreover have check: "keeps (frozen w) (?check r)" for r
    by (cases r) (simp, intro keeps_intros keeps_shapes)
  ultimately have rule: "\<exists>x x'. frozen w x \<and> ?check r x = Some (Inr (), x')" if "r \<in> set rules" for r
    using io_foreach_Inr [OF check _ each] that by blast
  have "size_seen k va (map (wd_heap w) (SpecList (ctx_App ctx))) obj timeout gap rule" if r: "(rule, n) \<in> set rules" and m: "resizes rule obj" for rule n
  proof -
    obtain x x' where x: "frozen w x" "?check (rule, n) x = Some (Inr (), x')"
      using rule [OF r] by blast
    obtain a where a: "a \<in> set (rule_Actions rule)" "act_Name a = VolumeSpecAction"
      using m by (auto simp: resizes_def list_ex_iff)
    have "keeps (frozen w) (if act_Name a = VolumeSpecAction \<and> isAutopilotMatchPvcLabels rule obj
        then validatePVCSize k va ctx obj rule (5 * timeout) gap else io_return ())" for a
      by (intro keeps_intros keeps_shapes)
    from io_foreach_Inr [OF this x(1) x(2) [unfolded prod.case]] a m
    obtain y y' where "frozen w y" "validatePVCSize k va ctx obj rule (5 * timeout) gap y = Some (Inr (), y')"
      by (fastforce simp: resizes_def)
    then show ?thesis
      using size_validated by blast
  qed
  then show ?thesis
    using ext_call_result [OF v2] by (auto simp: list_all_iff intro!: exI [of _ "wd_ext v1"])
qed

lemma volume_is_validated:
  assumes run: "validate_volume k api va ctx options timeout gap obj v = Some (Inr u, v')" and frozen: "frozen w v"
  shows "volume_validated k api va ctx options (map (wd_heap w) (SpecList (ctx_App ctx))) timeout gap obj"
proof (cases "so_type obj = PersistentVolumeClaim")
  case True
  let ?bound = "io_catch (ext_call (api_Validate api PersistentVolumeClaim obj timeout gap)) (\<lambda>err.
      if map_option vo_ExpectError options = Some True then io_return ()
      else io_error (storage_error (ctx_App ctx) ''Failed to validate PVC: '' (so_Name obj) '', Namespace: '' (so_Namespace obj) (Error_str err)))"
  obtain u1 v1 where v1: "?bound v = Some (Inr u1, v1)" and sizes: "validate_sizes k api va ctx obj timeout gap v1 = Some (Inr u, v')"
    using run True unfolding validate_volume_def validate_claim_def Let_def by (auto simp: io_bind_Inr)
  have "keeps (frozen w) ?bound"
    by (intro keeps_intros keeps_shapes)
  from keepsD [OF this v1 frozen] have f1: "frozen w v1" .
  have "map_option vo_ExpectError options = Some True \<or> (\<exists>x. fst (api_Validate api PersistentVolumeClaim obj timeout gap x) = Inr ())"
    using v1 unfolding io_catch_Inr by (auto dest: ext_call_result split: if_splits)
  then show ?thesis
    using sizes_validated [OF sizes f1] True by (simp add: volume_validated_def claim_validated_def)
next
  case False
  have call: "\<exists>x. fst (f x) = Inr ()" if "ext_call f v = Some (Inr u, v')" for f v and u :: unit and v'
    using ext_call_result [OF that] by (intro exI) simp
  show ?thesis
    using run False
    unfolding validate_volume_def volume_validated_def Let_def failing_with_def validate_claims_def data_service_factor_def statefulset_factor_def
    by (auto simp: io_bind_Inr io_catch_Inr split: if_splits dest!: call err_call_Inr)
qed


section \<open>What resizing asks for\<close>

lemma resized_volume_fields:
  "vol_ID (resized_volume p n) = cl_VolumeName (so_Claim p)" "vol_Name (resized_volume p n) = so_Name p"
  "vol_Namespace (resized_volume p n) = so_Namespace p"
  "0 \<le> n \<Longrightarrow> n < 2 ^ 63 \<Longrightarrow> uint (vol_RequestedSize (resized_volume p n)) = n"
  by (simp_all add: resized_volume_def claim_volume_def AsInt64_def uint_word_of_int take_bit_int_eq_self_iff)

lemma resized:
  assumes run: "ResizePVC k api va ctx (Some pvc) gb w = Some (Inr (Some v), w')"
  defines "request \<equiv> cl_Request (so_Claim pvc) + (if resize_supported pvc then quantity_Gi gb else 0)"
  defines "asked \<equiv> pvc\<lparr>so_Claim := (so_Claim pvc)\<lparr>cl_Request := request\<rparr>\<rparr>"
  shows "v = resized_volume asked request"
    and "resize_supported pvc \<Longrightarrow> \<exists>x. snd (fst (api_Update api PersistentVolumeClaim asked x)) = None"
proof -
  obtain w1 where w1: "(let storageSize = cl_Request (so_Claim pvc) in
        if resize_supported pvc then
          (let storageSize = storageSize + quantity_Gi gb;
               pvc = pvc\<lparr>so_Claim := (so_Claim pvc)\<lparr>cl_Request := storageSize\<rparr>\<rparr> in
           io_bind (failing_with (err_call PersistentVolumeClaim (api_Update api PersistentVolumeClaim pvc))
             (app_error (ctx_App ctx) ErrFailedToResizeStorage)) (\<lambda>_. io_return (Some (resized_volume pvc storageSize))))
        else io_return (Some (resized_volume pvc storageSize))) w1 = Some (Inr (Some v), w')"
    using run unfolding ResizePVC_def through_def option.case io_bind_Inr [where m = "filterPureVolumesIfEnabled _ _ _"]
    by (auto split: if_splits)
  have "v = resized_volume asked request \<and> (if resize_supported pvc then \<exists>x. snd (fst (api_Update api PersistentVolumeClaim asked x)) = None else True)"
  proof (cases "resize_supported pvc")
    case True
    obtain u w2 where "err_call PersistentVolumeClaim (api_Update api PersistentVolumeClaim asked) w1 = Some (Inr u, w2)"
        "v = resized_volume asked request"
      using w1 unfolding Let_def if_P [OF True] io_bind_Inr failing_with_def io_catch_Inr io_return_Inr io_error_Inr
      by (auto simp: asked_def request_def True)
    with err_call_Inr [OF this(1)] show ?thesis
      by auto
  next
    case False
    then show ?thesis
      using w1 by (simp add: asked_def request_def)
  qed
  then show "v = resized_volume asked request"
    and "resize_supported pvc \<Longrightarrow> \<exists>x. snd (fst (api_Update api PersistentVolumeClaim asked x)) = None"
    by (auto split: if_splits)
qed


section \<open>The size of the workload\<close>

lemma shown_size: "show_u64 n \<noteq> []"
  by (simp add: show_u64_def)

text \<open>C34: The workload size of an application whose first deployment variable \<open>SIZE\<close> is a number: below 1024 it is that many GiB, exactly, and from 1024 on, where the number is meant to be in bytes, it is 0.\<close>

theorem workload_size_in_bytes_lost:
  assumes "getSpecAppEnvVar specs ''SIZE'' = show_u64 n"
  shows "case GetWorkloadSizeFromAppSpec specs of
     Inr bytes \<Rightarrow> uint bytes = (if n < 1024 then uint n * 2 ^ 30 else 0)
   | Inl _ \<Rightarrow> False"
proof (cases "n < 1024")
  case True
  then have "uint n < 1024"
    by (simp add: word_less_def)
  then have "uint (n * 2 ^ 30) = uint n * 2 ^ 30"
    by (simp add: uint_word_ariths)
  then show ?thesis
    using assms True shown_size [of n] by (simp add: GetWorkloadSizeFromAppSpec_def specObjAppWorkloadSizeEnvVar_def Let_def k8s_GiB_def)
next
  case False
  then show ?thesis
    using assms by (auto simp: GetWorkloadSizeFromAppSpec_def specObjAppWorkloadSizeEnvVar_def Let_def)
qed

definition sized_deployment :: "u64 \<Rightarrow> spec_obj" where
  "sized_deployment n = (new_obj Deployment ''d'' ''ns'')\<lparr>so_Pod := zero_PodSpec\<lparr>ps_Containers :=
     [\<lparr>ctr_Args = [], ctr_Env = [(''SIZE'', show_u64 n)], ctr_Image = []\<rparr>]\<rparr>\<rparr>"

theorem workload_size_in_bytes_lost_witness:
  "case GetWorkloadSizeFromAppSpec [sized_deployment 1073741824] of Inr bytes \<Rightarrow> uint bytes = 0 | Inl _ \<Rightarrow> False"
proof -
  have "getSpecAppEnvVar [sized_deployment 1073741824] ''SIZE'' = show_u64 1073741824"
    by (simp add: getSpecAppEnvVar_def env_of_def sized_deployment_def new_obj_def)
  from workload_size_in_bytes_lost [OF this] show ?thesis
    by (simp split: sum.splits)
qed

section \<open>A claim that cannot be read\<close>

text \<open>\<open>GetVolumes\<close> of an application whose first spec is a claim that the client cannot read, reporting an error and no claim, panics instead of returning the error.\<close>

theorem get_volumes_panics:
  assumes "SpecList (ctx_App ctx) = p # specs" "so_type (wd_heap w p) = PersistentVolumeClaim"
    and "so_Labels (wd_heap w p) = []"
    and "api_Get api PersistentVolumeClaim (so_Name (wd_heap w p)) (so_Namespace (wd_heap w p)) (wd_ext w) = ((None, Some err), x)"
  shows "GetVolumes k api va ctx w = None"
  using assms
  by (simp add: GetVolumes_def volumes_of_spec_def volume_of_claim_def) (simp add: io_bind_def raw_call_def through_def io_panic_def)

definition mem_vol :: "(spec_obj list) vol_api" where
  "mem_vol = \<lparr>va_ClaimParams = (\<lambda>_ x. (Inr [], x)), va_GetSnapshotData = (\<lambda>_ x. ((None, Some not_found), x)),
     va_ClassForPVC = (\<lambda>_ x. (Inl not_found, x)), va_ValidateClaims = (\<lambda>_ _ _ x. (Inr (), x)),
     va_ValidateClaimSize = (\<lambda>_ _ _ _ x. (Inr (), x)), va_ListRules = (\<lambda>x. (Inr [], x)),
     va_ListClaims = (\<lambda>namespace x. (Inr (filter (\<lambda>o1. so_type o1 = PersistentVolumeClaim \<and> so_Namespace o1 = namespace) x), x)),
     va_DataVolume = (\<lambda>_ _ x. ((None, Some not_found), x)), va_ListCsiSnapshots = (\<lambda>_ x. (Inr [], x)),
     va_DeleteCsiSnapshot = (\<lambda>_ _ x. (Inl not_found, x)), va_GroupSnapshots = (\<lambda>_ _ x. (Inr [], x)),
     va_SnapshotClaim = (\<lambda>_. []), va_NodeCount = (\<lambda>_. 1), va_FieldText = (\<lambda>_. ([], [])),
     va_volDrivers = \<lparr>volDrivers = [], provisioners = [], StorageDriver = [], StorageProvisioner = []\<rparr>\<rparr>"

theorem get_volumes_panics_witness:
  "GetVolumes sample_k8s mem_api mem_vol (sample_ctx 1) (world_of [new_obj PersistentVolumeClaim ''c'' ''ns'']) = None"
  by (rule get_volumes_panics [of _ 0 "[]"]) (simp_all add: world_of_def new_obj_def mem_Get_def)

end
