(* ===== verification/K8sAutopilot.thy ===== *)
theory K8sAutopilot
  imports K8sVolumes
begin

text \<open>
  What the scheduler checks of autopilot: the events and the rule objects that the operator leaves, the wait for
  a rebalance, and the speed that a load generator prints. The states of a rule are those of the package
  \<open>autopilot/v1alpha1\<close>.
\<close>

definition RuleStateInit :: string where "RuleStateInit = ''Initializing''"

definition RuleStateNormal :: string where "RuleStateNormal = ''Normal''"

definition RuleStateTriggered :: string where "RuleStateTriggered = ''Triggered''"

definition RuleStateActiveActionsPending :: string where "RuleStateActiveActionsPending = ''ActiveActionsPending''"

definition RuleStateActiveActionsInProgress :: string where "RuleStateActiveActionsInProgress = ''ActiveActionsInProgress''"

definition RuleStateActiveActionsTaken :: string where "RuleStateActiveActionsTaken = ''ActiveActionsTaken''"

lemmas rule_states = RuleStateInit_def RuleStateNormal_def RuleStateTriggered_def RuleStateActiveActionsPending_def
  RuleStateActiveActionsInProgress_def RuleStateActiveActionsTaken_def

text \<open>An item of the status of a rule object: its state, message and time in seconds. The text of a rule is a
  parameter.\<close>

record aro_item =
  ai_State :: string
  ai_Message :: string
  ai_Time :: int

record rule_object =
  aro_Name :: string
  aro_Items :: "aro_item list"

record 'x aut_api =
  au_ListRuleObjects :: "string \<Rightarrow> ('x, rule_object list) ext_call"
  au_SprintRule :: "AutopilotRule \<Rightarrow> string"
  au_PodByName :: "string \<Rightarrow> string \<Rightarrow> ('x, kube_pod) ext_call"
  au_PodLog :: "string \<Rightarrow> string \<Rightarrow> ('x, string) ext_call"

section \<open>Events\<close>

definition int32_of :: "int \<Rightarrow> int" where
  "int32_of n = sint (word_of_int n :: 32 word)"

definition transition :: "string \<Rightarrow> string \<Rightarrow> string" where
  "transition from to = from @ '' => '' @ to"

definition event_message :: "string \<Rightarrow> string \<Rightarrow> string" where
  "event_message objName step = ''rule: '' @ objName @ '' transition from '' @ step"

definition first_step :: string where "first_step = transition RuleStateInit RuleStateNormal"

definition exact_steps :: "string list" where
  "exact_steps = [transition RuleStateActiveActionsInProgress RuleStateActiveActionsTaken,
     transition RuleStateActiveActionsTaken RuleStateNormal]"

definition loose_steps :: "string list" where
  "loose_steps = [transition RuleStateNormal RuleStateTriggered, transition RuleStateTriggered RuleStateActiveActionsPending,
     transition RuleStateActiveActionsPending RuleStateActiveActionsInProgress]"

definition expected_events :: "string \<Rightarrow> int \<Rightarrow> (string, int) gomap" where
  "expected_events objName n = (event_message objName first_step, 1) #
     map (\<lambda>step. (event_message objName step, n)) (loose_steps @ exact_steps)"

text \<open>Whether an event must have exactly the expected count is read off the message.\<close>

definition must_be_exact :: "string \<Rightarrow> bool" where
  "must_be_exact message \<longleftrightarrow> list_ex (Contains_str message) (first_step # exact_steps)"

fun check_events :: "(string, int) gomap \<Rightarrow> (string, int) gomap \<Rightarrow> go_error option" where
  "check_events events [] = None"
| "check_events events ((message, expectedCount) # expected) =
     (case map_of events message of
        None \<Rightarrow> Some (Errorf (''expected event with message '' @ [CHR 0x27] @ message @ [CHR 0x27]))
      | Some occurrences \<Rightarrow>
          (if must_be_exact message then
             (if occurrences \<noteq> expectedCount then
                Some (Errorf (''expected number of occurances '' @ show_int expectedCount @ '' for event message '' @ [CHR 0x27] @
                  message @ [CHR 0x27] @ ''. Got: '' @ show_int occurrences))
              else check_events events expected)
           else if \<not> occurrences \<ge> expectedCount then
             Some (Errorf (''expected number of occurances >= '' @ show_int expectedCount @ '' for event message '' @ [CHR 0x27] @
               message @ [CHR 0x27] @ ''. Got: '' @ show_int occurrences))
           else check_events events expected))"

text \<open>The loop ranges over a map; \<open>order\<close> is the order in which it visits the expected events.\<close>

definition validateEvents ::
  "((string, int) gomap \<Rightarrow> (string, int) gomap) \<Rightarrow> string \<Rightarrow> (string, int) gomap \<Rightarrow> int \<Rightarrow> go_error option" where
  "validateEvents order objName events n =
     (if n = 0 then None else check_events events (order (expected_events objName n)))"

definition event_map :: "(string \<times> int) list \<Rightarrow> (string, int) gomap" where
  "event_map events = fold (\<lambda>(message, n). gm_put message n) events []"

definition sleep_ext :: "'x k8s_api \<Rightarrow> int \<Rightarrow> ('x k8s_world, unit) io" where
  "sleep_ext api d = io_modify (\<lambda>w. w\<lparr>wd_ext := api_Sleep api d (wd_ext w)\<rparr>)"

definition validate_rule_events ::
  "((string, int) gomap \<Rightarrow> (string, int) gomap) \<Rightarrow> K8s \<Rightarrow> 'x k8s_api \<Rightarrow> 'x vol_api \<Rightarrow> (string, int) gomap \<Rightarrow> spec_obj \<Rightarrow> u64
     \<Rightarrow> AutopilotRule \<times> int \<Rightarrow> ('x k8s_world, unit) io" where
  "validate_rule_events order k api va eventMap obj wSize = (\<lambda>(rule, period).
     io_bind (EstimatePVCExpansion k va obj rule wSize) (\<lambda>(_, resizeCount).
     io_bind (sleep_ext api (second_ns * ((if period = 0 then 5 else period) + 10))) (\<lambda>_.
       (case validateEvents order (rule_Name rule @ '':pvc-'' @ so_UID obj) eventMap (int32_of resizeCount) of
          None \<Rightarrow> io_return () | Some err \<Rightarrow> io_error err))))"

definition claim_events ::
  "((string, int) gomap \<Rightarrow> (string, int) gomap) \<Rightarrow> K8s \<Rightarrow> 'x k8s_api \<Rightarrow> 'x vol_api \<Rightarrow> sched_ctx \<Rightarrow> (string, int) gomap \<Rightarrow> spec_obj
     \<Rightarrow> ('x k8s_world, unit) io" where
  "claim_events order k api va ctx eventMap obj =
     (if so_type obj = PersistentVolumeClaim then
        io_bind (case map_of (so_Annotations obj) autopilotEnabledAnnotationKey of
            None \<Rightarrow> io_return False | Some v \<Rightarrow> ParseBool_io v) (\<lambda>autopilotEnabled.
        if autopilotEnabled then
          io_bind (ext_call (va_ListRules va)) (\<lambda>rules.
          io_bind (workload_size ctx) (\<lambda>wSize. io_foreach (validate_rule_events order k api va eventMap obj wSize) rules))
        else io_return ())
      else io_return ())"

definition ValidateAutopilotEvents ::
  "((string, int) gomap \<Rightarrow> (string, int) gomap) \<Rightarrow> K8s \<Rightarrow> 'x k8s_api \<Rightarrow> 'x vol_api \<Rightarrow> (string \<times> int) list \<Rightarrow> sched_ctx
     \<Rightarrow> ('x k8s_world, unit) io" where
  "ValidateAutopilotEvents order k api va events ctx =
     io_foreach (\<lambda>p. io_bind (deref p) (claim_events order k api va ctx (event_map events))) (SpecList (ctx_App ctx))"

section \<open>Rule objects\<close>

definition states_of :: "rule_object \<Rightarrow> string list" where
  "states_of aro = filter (\<lambda>s. s \<noteq> []) (map ai_State (aro_Items aro))"

definition resize_states :: "string list" where
  "resize_states = [RuleStateTriggered, RuleStateActiveActionsPending, RuleStateActiveActionsInProgress, RuleStateActiveActionsTaken]"

definition missing_states :: "rule_object \<Rightarrow> go_error" where
  "missing_states aro = Errorf (''autopilot rule object: '' @ aro_Name aro @ '' doesn't have all expected states'')"

fun check_rule_objects :: "rule_object list \<Rightarrow> go_error option" where
  "check_rule_objects [] = None"
| "check_rule_objects (aro # aros) =
     (if states_of aro = resize_states @ [RuleStateNormal] then check_rule_objects aros else Some (missing_states aro))"

definition ValidateAutopilotRuleObjects :: "'x k8s_api \<Rightarrow> 'x app_api \<Rightarrow> 'x aut_api \<Rightarrow> ('x k8s_world, unit) io" where
  "ValidateAutopilotRuleObjects api aa au =
     io_bind (GetAutopilotNamespace api aa) (\<lambda>namespace.
     io_bind (ext_call (au_ListRuleObjects au namespace)) (\<lambda>aros.
       (case check_rule_objects aros of None \<Rightarrow> io_return () | Some err \<Rightarrow> io_error err)))"

text \<open>The states of a rule object without repetitions, in the order of their first occurrence, and the counter of
  expected states that are not among them.\<close>

fun collect_states :: "string list \<Rightarrow> string list \<Rightarrow> string list" where
  "collect_states [] aroStates = aroStates"
| "collect_states (s # states) aroStates = collect_states states (if list_ex (\<lambda>s'. s = s') aroStates then aroStates else aroStates @ [s])"

definition state_counter :: "string list \<Rightarrow> int" where
  "state_counter aroStates = int (length resize_states) -
     int (length (concat (map (\<lambda>expect. filter (\<lambda>actual. expect = actual) aroStates) resize_states)))"

fun pool_resize_loop :: "string \<Rightarrow> rule_object list \<Rightarrow> bool \<Rightarrow> bool result" where
  "pool_resize_loop rule [] ruleTriggered = Inr ruleTriggered"
| "pool_resize_loop rule (aro # aros) ruleTriggered =
     (if Contains_str (aro_Name aro) rule then
        (if state_counter (collect_states (states_of aro) []) = 0 then pool_resize_loop rule aros True else Inl (missing_states aro))
      else pool_resize_loop rule aros ruleTriggered)"

definition empty_aros :: go_error where
  "empty_aros = Errorf ''The list of autopilot rule objects is empty, please make sure that you have an appropriate autopilot rule''"

definition VerifyPoolResizeARO :: "'x k8s_api \<Rightarrow> 'x app_api \<Rightarrow> 'x aut_api \<Rightarrow> AutopilotRule \<Rightarrow> ('x k8s_world, bool) io" where
  "VerifyPoolResizeARO api aa au rule =
     io_bind (failing_with (GetAutopilotNamespace api aa) (\<lambda>_. Errorf ''No Namespace'')) (\<lambda>namespace.
     io_bind (failing_with (ext_call (au_ListRuleObjects au namespace)) (\<lambda>_. Errorf ''No ARO available'')) (\<lambda>aros.
       if aros = [] then io_error empty_aros
       else (case pool_resize_loop (rule_Name rule) aros False of
         Inl err \<Rightarrow> io_error err
       | Inr True \<Rightarrow> io_return True
       | Inr False \<Rightarrow> io_error (Errorf (''No ARO found for rule: '' @ au_SprintRule au rule @ '' '')))))"

section \<open>The rebalance\<close>

fun rebalanced :: "aro_item list \<Rightarrow> bool \<Rightarrow> int \<Rightarrow> bool" where
  "rebalanced [] started startedAt = False"
| "rebalanced (item # items) started startedAt =
     (if ai_State item = [] then rebalanced items started startedAt
      else
        (let summary = Contains_str (ai_Message item) ''Rebalance summary:'';
             started = (started \<or> summary);
             startedAt = (if summary then ai_Time item else startedAt);
             later = (ai_Time item > startedAt \<and> started) in
         if ai_State item = RuleStateActiveActionsTaken \<and> later then True
         else if ai_State item = RuleStateNormal \<and> Contains_str (ai_Message item) ''ActiveActionsPending => Normal'' \<and> later then True
         else rebalanced items started startedAt))"

definition rebalance_attempt :: "'x k8s_api \<Rightarrow> 'x app_api \<Rightarrow> 'x aut_api \<Rightarrow> ('x k8s_world, unit result) io" where
  "rebalance_attempt api aa au =
     io_bind (GetAutopilotNamespace api aa) (\<lambda>namespace.
     io_bind (io_try (ext_call (au_ListRuleObjects au namespace))) (\<lambda>r. (case r of
       Inl err \<Rightarrow> io_return (Inl err)
     | Inr aros \<Rightarrow>
         (if aros = [] then io_return (Inl empty_aros)
          else if list_ex (\<lambda>aro. rebalanced (aro_Items aro) False 0) aros then io_return (Inr ())
          else io_return (Inl (Errorf ''Rebalance ARO not completed or did not start yet''))))))"

definition WaitForRebalanceAROToComplete :: "'x k8s_api \<Rightarrow> 'x app_api \<Rightarrow> 'x aut_api \<Rightarrow> ('x k8s_world, unit) io" where
  "WaitForRebalanceAROToComplete api aa au =
     io_retry (clock api) (rebalance_attempt api aa au) (30 * minute_ns) (60 * second_ns)"

section \<open>Bandwidth and annotations\<close>

text \<open>The first run of digits of a line; a line without one panics. \<open>Atoi\<close> fails beyond 63 bits.\<close>

definition is_digit :: "char \<Rightarrow> bool" where
  "is_digit c \<longleftrightarrow> digit_val c \<noteq> None"

definition first_number :: "string \<Rightarrow> string" where
  "first_number line = takeWhile is_digit (dropWhile (\<lambda>c. \<not> is_digit c) line)"

fun io_speed :: "string \<Rightarrow> string list \<Rightarrow> int result option" where
  "io_speed podName [] = Some (Inl (Errorf (''pod '' @ podName @ '' does not have bandwidth in logs'')))"
| "io_speed podName (line # lines) =
     (if Contains_str line ''iops'' then
        (if first_number line = [] then None
         else (case digits_val 0 (first_number line) of
           None \<Rightarrow> Some (Inl (Errorf ''Error in getting the speed''))
         | Some n \<Rightarrow>
             (if n \<ge> 2 ^ 63 then Some (Inl (Errorf ''Error in getting the speed''))
              else if n = 0 then io_speed podName lines else Some (Inr (int n)))))
      else io_speed podName lines)"

definition GetIOBandwidth :: "'x aut_api \<Rightarrow> string \<Rightarrow> string \<Rightarrow> ('x k8s_world, int) io" where
  "GetIOBandwidth au podName namespace =
     io_bind (failing_with (ext_call (au_PodByName au podName namespace)) (\<lambda>_. Errorf ''error in getting FIO PODS'')) (\<lambda>pod.
     io_bind (ext_call (au_PodLog au (pod_Name pod) (pod_Namespace pod))) (\<lambda>log.
       io_lift (io_speed podName (Split log (CHR 0x0A)))))"

definition IsAutopilotEnabledForVolume :: "Volume \<Rightarrow> bool" where
  "IsAutopilotEnabledForVolume vol = (case map_of (vol_Annotations vol) autopilotEnabledAnnotationKey of
     None \<Rightarrow> False | Some v \<Rightarrow> ParseBool_value v)"

section \<open>The expected events\<close>

text \<open>A message has one arrow if the name of the object has none, and then contains a step only if it is the message
  of that step.\<close>

lemma split_at_unique:
  assumes "a @ c # b = a' @ c # b'" "c \<notin> set a" "c \<notin> set a'"
  shows "a = a' \<and> b = b'"
  using assms by (induction a arbitrary: a') (auto simp: Cons_eq_append_conv)

lemma message_contains:
  assumes obj: "CHR ''>'' \<notin> set objName" and states: "CHR ''>'' \<notin> set from" "CHR ''>'' \<notin> set to" "CHR ''>'' \<notin> set from'" "CHR ''>'' \<notin> set to'"
    and has: "Contains_str (event_message objName (transition from to)) (transition from' to')"
  shows "\<exists>u v. ''rule: '' @ objName @ '' transition from '' @ from = u @ from' \<and> to = to' @ v"
proof -
  let ?pre = "''rule: '' @ objName @ '' transition from '' @ from @ '' =''"
  obtain u v where "event_message objName (transition from to) = u @ transition from' to' @ v"
    using has unfolding Contains_str_iff by blast
  then have eq: "?pre @ CHR ''>'' # '' '' @ to = (u @ from' @ '' ='') @ CHR ''>'' # '' '' @ to' @ v"
    by (simp add: event_message_def transition_def)
  have no: "CHR ''>'' \<notin> set ?pre" "CHR ''>'' \<notin> set ('' '' @ to)"
    using obj states by auto
  have "count_list (?pre @ CHR ''>'' # '' '' @ to) (CHR ''>'') = 1"
    using no by (simp add: count_notin)
  then have "count_list ((u @ from' @ '' ='') @ CHR ''>'' # '' '' @ to' @ v) (CHR ''>'') = 1"
    unfolding eq .
  then have "CHR ''>'' \<notin> set (u @ from' @ '' ='')"
    by (auto simp: count_list_0_iff)
  from split_at_unique [OF eq no(1) this] show ?thesis
    by auto
qed

lemma contains_own_step: "Contains_str (event_message objName step) step"
  unfolding Contains_str_iff event_message_def
  by (intro exI [of _ "''rule: '' @ objName @ '' transition from ''"] exI [of _ "[]"]) simp

lemma must_be_exact_steps:
  assumes "CHR ''>'' \<notin> set objName"
  shows "step \<in> set (first_step # exact_steps) \<Longrightarrow> must_be_exact (event_message objName step)"
    and "step \<in> set loose_steps \<Longrightarrow> \<not> must_be_exact (event_message objName step)"
proof -
  show "step \<in> set (first_step # exact_steps) \<Longrightarrow> must_be_exact (event_message objName step)"
    using contains_own_step [of objName step] by (auto simp: must_be_exact_def list_ex_iff)
  have "\<not> Contains_str (event_message objName (transition f t)) (transition f' t')"
    if "(f, t) \<in> {(RuleStateNormal, RuleStateTriggered), (RuleStateTriggered, RuleStateActiveActionsPending),
        (RuleStateActiveActionsPending, RuleStateActiveActionsInProgress)}"
      "(f', t') \<in> {(RuleStateInit, RuleStateNormal), (RuleStateActiveActionsInProgress, RuleStateActiveActionsTaken),
        (RuleStateActiveActionsTaken, RuleStateNormal)}" for f t f' t'
  proof
    assume has: "Contains_str (event_message objName (transition f t)) (transition f' t')"
    have "CHR ''>'' \<notin> set f" "CHR ''>'' \<notin> set t" "CHR ''>'' \<notin> set f'" "CHR ''>'' \<notin> set t'"
      using that by (auto simp: rule_states)
    from message_contains [OF assms this has] obtain v where "t = t' @ v"
      by blast
    then show False
      using that by (auto simp: rule_states)
  qed
  then show "step \<in> set loose_steps \<Longrightarrow> \<not> must_be_exact (event_message objName step)"
    by (auto simp: must_be_exact_def loose_steps_def first_step_def exact_steps_def)
qed

lemma check_events_None:
  "check_events events xs = None \<longleftrightarrow> (\<forall>(message, expectedCount)\<in>set xs. \<exists>k. map_of events message = Some k \<and>
     (if must_be_exact message then k = expectedCount else k \<ge> expectedCount))"
  by (induction events xs rule: check_events.induct) (auto split: option.splits)

text \<open>C17: The events of an object with no arrow in its name validate exactly when no resize is expected or the map has an event for each of the six transitions of a rule: one for the first, exactly the expected number for the two that end an action, and at least that number for the three that lead to one. The order in which the map is visited does not matter.\<close>

theorem validate_events_iff:
  assumes order: "set (order (expected_events objName n)) = set (expected_events objName n)" and name: "CHR ''>'' \<notin> set objName"
  shows "validateEvents order objName events n = None \<longleftrightarrow>
    n = 0 \<or> map_of events (event_message objName first_step) = Some 1 \<and>
      list_all (\<lambda>step. map_of events (event_message objName step) = Some n) exact_steps \<and>
      list_all (\<lambda>step. case map_of events (event_message objName step) of None \<Rightarrow> False | Some k \<Rightarrow> k \<ge> n) loose_steps"
proof -
  have "check_events events (order (expected_events objName n)) = None \<longleftrightarrow>
      (\<forall>(message, expectedCount)\<in>set (expected_events objName n). \<exists>k. map_of events message = Some k \<and>
        (if must_be_exact message then k = expectedCount else k \<ge> expectedCount))"
    unfolding check_events_None order ..
  also have "\<dots> \<longleftrightarrow> map_of events (event_message objName first_step) = Some 1 \<and>
      (\<forall>step\<in>set exact_steps. map_of events (event_message objName step) = Some n) \<and>
      (\<forall>step\<in>set loose_steps. \<exists>k. map_of events (event_message objName step) = Some k \<and> k \<ge> n)"
    using must_be_exact_steps [OF name] by (auto simp: expected_events_def ball_Un)
  moreover have "(case m of None \<Rightarrow> False | Some k \<Rightarrow> k \<ge> n) \<longleftrightarrow> (\<exists>k. m = Some k \<and> k \<ge> n)" for m
    by (cases m) auto
  ultimately show ?thesis
    by (simp add: validateEvents_def list_all_iff)
qed

definition sample_events :: "(string, int) gomap" where
  "sample_events = (event_message ''r:pvc-1'' first_step, 1) #
     map (\<lambda>step. (event_message ''r:pvc-1'' step, 2)) (loose_steps @ exact_steps)"

theorem validate_events_iff_witness: "validateEvents rev ''r:pvc-1'' sample_events 2 = None"
proof -
  have "map_of sample_events (event_message ''r:pvc-1'' first_step) = Some 1"
    "list_all (\<lambda>step. map_of sample_events (event_message ''r:pvc-1'' step) = Some 2) exact_steps"
    "list_all (\<lambda>step. case map_of sample_events (event_message ''r:pvc-1'' step) of None \<Rightarrow> False | Some k \<Rightarrow> k \<ge> 2) loose_steps"
    by (code_simp)+
  then show ?thesis
    using validate_events_iff [of rev "''r:pvc-1''" 2 sample_events] by simp
qed

section \<open>The states of a pool resize\<close>

lemma collect_states_set: "set (collect_states states acc) = set acc \<union> set states"
  by (induction states acc rule: collect_states.induct) (auto simp: list_ex_iff)

lemma collect_states_distinct: "distinct acc \<Longrightarrow> distinct (collect_states states acc)"
  by (induction states acc rule: collect_states.induct) (auto simp: list_ex_iff)

lemma filter_eq_distinct: "distinct xs \<Longrightarrow> length (filter (\<lambda>y. x = y) xs) = (if x \<in> set xs then 1 else 0)"
  by (induction xs) auto

lemma state_counter_zero: "distinct states \<Longrightarrow> state_counter states = 0 \<longleftrightarrow> set resize_states \<subseteq> set states"
  by (auto simp: state_counter_def resize_states_def filter_eq_distinct split: if_splits)

text \<open>C18: The loop of \<open>VerifyPoolResizeARO\<close> finds the rule triggered exactly when some rule object has the name of the rule in its own, and every such object has been in all four states of a resize, in any order and any number of times.\<close>

theorem pool_resize_triggered:
  "pool_resize_loop rule aros False = Inr True \<longleftrightarrow>
     list_ex (\<lambda>aro. Contains_str (aro_Name aro) rule) aros \<and>
     list_all (\<lambda>aro. if Contains_str (aro_Name aro) rule then set resize_states \<subseteq> set (states_of aro) else True) aros"
proof -
  have state: "state_counter (collect_states (states_of aro) []) = 0 \<longleftrightarrow> set resize_states \<subseteq> set (states_of aro)" for aro
    using state_counter_zero [OF collect_states_distinct [of "[]"]] by (simp add: collect_states_set)
  have "pool_resize_loop rule aros b = Inr True \<longleftrightarrow> (b \<or> list_ex (\<lambda>aro. Contains_str (aro_Name aro) rule) aros) \<and>
      list_all (\<lambda>aro. if Contains_str (aro_Name aro) rule then set resize_states \<subseteq> set (states_of aro) else True) aros" for b
    by (induction aros arbitrary: b) (auto simp: state)
  then show ?thesis
    by simp
qed

section \<open>The wait for a rebalance\<close>

definition is_summary :: "aro_item \<Rightarrow> bool" where
  "is_summary item \<longleftrightarrow> ai_State item \<noteq> [] \<and> Contains_str (ai_Message item) ''Rebalance summary:''"

definition is_done :: "aro_item \<Rightarrow> bool" where
  "is_done item \<longleftrightarrow> ai_State item = RuleStateActiveActionsTaken \<or>
     ai_State item = RuleStateNormal \<and> Contains_str (ai_Message item) ''ActiveActionsPending => Normal''"

text \<open>A rebalance that is complete: after the last summary before it, an item is later and says that the actions were
  taken or are no longer pending.\<close>

definition complete :: "aro_item list \<Rightarrow> bool" where
  "complete items \<longleftrightarrow> (\<exists>pre item post. items = pre @ item # post \<and> is_done item \<and> \<not> is_summary item \<and>
     filter is_summary pre \<noteq> [] \<and> ai_Time item > ai_Time (last (filter is_summary pre)))"

lemma ex_split_Cons:
  "(\<exists>pre y post. x # xs = pre @ y # post \<and> P pre y) \<longleftrightarrow> P [] x \<or> (\<exists>pre y post. xs = pre @ y # post \<and> P (x # pre) y)"
proof
  assume "\<exists>pre y post. x # xs = pre @ y # post \<and> P pre y"
  then obtain pre y post where "x # xs = pre @ y # post" "P pre y"
    by blast
  then show "P [] x \<or> (\<exists>pre y post. xs = pre @ y # post \<and> P (x # pre) y)"
    by (cases pre) auto
next
  assume "P [] x \<or> (\<exists>pre y post. xs = pre @ y # post \<and> P (x # pre) y)"
  then show "\<exists>pre y post. x # xs = pre @ y # post \<and> P pre y"
    by (metis append_Cons append_Nil)
qed

lemma rebalanced_iff:
  "rebalanced items started t \<longleftrightarrow> (\<exists>pre item post. items = pre @ item # post \<and> is_done item \<and> \<not> is_summary item \<and>
     (if filter is_summary pre = [] then started \<and> ai_Time item > t else ai_Time item > ai_Time (last (filter is_summary pre))))"
proof (induction items arbitrary: started t)
  case (Cons x items)
  have nonempty: "is_done item \<Longrightarrow> ai_State item \<noteq> []" for item
    by (auto simp: is_done_def rule_states)
  let ?ok = "\<lambda>started t pre item. is_done item \<and> \<not> is_summary item \<and>
     (if filter is_summary pre = [] then started \<and> ai_Time item > t else ai_Time item > ai_Time (last (filter is_summary pre)))"
  have "(\<exists>pre item post. x # items = pre @ item # post \<and> ?ok started t pre item) \<longleftrightarrow>
      ?ok started t [] x \<or> (\<exists>pre item post. items = pre @ item # post \<and> ?ok started t (x # pre) item)"
    by (rule ex_split_Cons)
  also have "(\<exists>pre item post. items = pre @ item # post \<and> ?ok started t (x # pre) item) \<longleftrightarrow>
      rebalanced items (started \<or> is_summary x) (if is_summary x then ai_Time x else t)"
    unfolding Cons.IH by (intro ex_cong1) auto
  also have "?ok started t [] x \<or> rebalanced items (started \<or> is_summary x) (if is_summary x then ai_Time x else t) \<longleftrightarrow>
      rebalanced (x # items) started t"
    using nonempty [of x] by (auto simp: Let_def is_summary_def is_done_def)
  finally show ?case
    by simp
qed simp

lemma returns_lift: "returns (io_lift (Some r))"
  by (rule returnsI) (simp add: io_lift_def)

lemma returns_list_case: "returns m \<Longrightarrow> (\<And>x xs. returns (f x xs)) \<Longrightarrow> returns (case ys of [] \<Rightarrow> m | x # xs \<Rightarrow> f x xs)"
  by (cases ys) simp_all

lemma rebalance_returns: "returns (rebalance_attempt api aa au)"
  unfolding rebalance_attempt_def GetAutopilotNamespace_def GetPortworxNamespace_def
  by (intro returns_intros returns_cases returns_lift returns_list_case)

lemma returns_stop: "returns m \<Longrightarrow> returns (io_stop m)"
  by (rule returnsI) (auto simp: io_stop_def dest: returnsD split: option.splits sum.splits)

lemma returns_retry: "returns m \<Longrightarrow> 0 < gap \<Longrightarrow> returns (io_retry clk m timeout gap)"
  unfolding io_retry_def by (intro returns_intros returns_cases returns_stop)

text \<open>C19: The wait for a rebalance always returns. When it succeeds, a listing of rule objects contained one whose rebalance is complete: some item that is later than the last summary before it says that the actions were taken or are no longer pending.\<close>

theorem rebalance_aro_awaited:
  "case WaitForRebalanceAROToComplete api aa au w of
     None \<Rightarrow> False
   | Some (Inl _, _) \<Rightarrow> True
   | Some (Inr _, _) \<Rightarrow> (\<exists>namespace x aros. fst (au_ListRuleObjects au namespace x) = Inr aros \<and>
       list_ex (\<lambda>aro. complete (aro_Items aro)) aros)"
proof -
  have "returns (WaitForRebalanceAROToComplete api aa au)"
    unfolding WaitForRebalanceAROToComplete_def by (intro returns_retry rebalance_returns) (simp add: second_ns_def)
  from returnsD [OF this] obtain r w' where r: "WaitForRebalanceAROToComplete api aa au w = Some (r, w')"
    by blast
  show ?thesis
  proof (cases r)
    case (Inr u)
    have "0 < 60 * second_ns" "keeps (\<lambda>_. True) (rebalance_attempt api aa au)"
      by (simp_all add: second_ns_def keeps_def)
    from io_retry_Inr [OF this TrueI r [unfolded Inr WaitForRebalanceAROToComplete_def]]
    obtain v where v: "rebalance_attempt api aa au v = Some (Inr (Inr u), w')"
      by blast
    obtain namespace v1 aros where list: "ext_call (au_ListRuleObjects au namespace) v1 = Some (Inr aros, w')"
        and found: "list_ex (\<lambda>aro. rebalanced (aro_Items aro) False 0) aros"
      using v unfolding rebalance_attempt_def io_bind_Inr [where m = "GetAutopilotNamespace _ _"] io_try_case by (auto split: if_splits)
    have "rebalanced items False 0 \<Longrightarrow> complete items" for items
      unfolding rebalanced_iff complete_def by (auto split: if_splits)
    then have "list_ex (\<lambda>aro. complete (aro_Items aro)) aros"
      using found by (auto simp: list_ex_iff)
    then show ?thesis
      unfolding r Inr option.case prod.case sum.case using ext_call_result [OF list] by blast
  qed (simp add: r)
qed

end
