(* ===== verification/K8sCsi.thy ===== *)
theory K8sCsi
  imports K8sAutopilot
begin

text \<open>
  CSI snapshots and clones: creating, listing, validating, restoring and deleting the snapshots of the claims
  of an application, and the tests that write data to a volume and look for them in a restored or cloned
  one. A snapshot is what the client of the snapshot API returns; claims and pods are created from the specs
  that this code builds.
\<close>

section \<open>Calls\<close>

text \<open>
  A snapshot has the name of its claim and its class behind pointers, and a status that is nil until the
  controller has seen it: whether it is ready, and the size of a restore, both behind pointers.
\<close>

record csi_snapshot =
  cs_Name :: string
  cs_Namespace :: string
  cs_Claim :: "string option"
  cs_Class :: "string option"
  cs_Status :: "(bool option \<times> int option) option"

record snapshot_class =
  sk_Name :: string
  sk_Annotations :: labels
  sk_Driver :: string
  sk_DeletionPolicy :: string
  sk_Parameters :: labels

text \<open>The spec of a claim that is to be made from a data source: API group, kind and name.\<close>

record claim_spec =
  cp_Name :: string
  cp_Namespace :: string
  cp_AccessModes :: "string list"
  cp_Request :: int
  cp_StorageClassName :: string
  cp_VolumeMode :: "string option"
  cp_DataSource :: "(string option \<times> string \<times> string) option"

text \<open>The pod that mounts claims: mounts and devices have a name and a path, volumes a name and a claim.\<close>

record test_pod =
  tp_Kind :: string
  tp_APIVersion :: string
  tp_GenerateName :: string
  tp_Namespace :: string
  tp_Container :: string
  tp_Image :: string
  tp_Command :: "string list"
  tp_Args :: "string list"
  tp_Privileged :: bool
  tp_RestartPolicy :: string
  tp_VolumeMounts :: "(string \<times> string) list"
  tp_VolumeDevices :: "(string \<times> string) list"
  tp_Volumes :: "(string \<times> string) list"

type_synonym ('x, 'a) ptr_call = "'x \<Rightarrow> ('a option \<times> go_error option) \<times> 'x"

type_synonym 'x out_call = "'x \<Rightarrow> (string \<times> go_error option) \<times> 'x"

text \<open>
  The phases of claims and pods are read through the client set of \<open>getKubeClient\<close>, which is built from a
  configuration. A command that is run in a pod returns its output also if it fails. The volumes of a restore are
  those of its status, a volume and a snapshot each; snapshot data are known by their name.
\<close>

record 'x csi_api =
  cx_CreateSnapshot :: "csi_snapshot \<Rightarrow> ('x, csi_snapshot) ptr_call"
  cx_GetSnapshot :: "string \<Rightarrow> string \<Rightarrow> ('x, csi_snapshot) ptr_call"
  cx_CreateSnapshotClass :: "snapshot_class \<Rightarrow> ('x, snapshot_class) ext_call"
  cx_DeleteSnapshotClass :: "string \<Rightarrow> ('x, unit) ext_call"
  cx_ListSnapshotClasses :: "('x, snapshot_class list) ext_call"
  cx_CreateClaim :: "claim_spec \<Rightarrow> 'x obj_call"
  cx_CoreClaimPhase :: "string \<Rightarrow> string \<Rightarrow> ('x, string) ext_call"
  cx_BuildConfig :: "string \<Rightarrow> ('x, unit) ext_call"
  cx_InClusterConfig :: "('x, unit) ext_call"
  cx_NewForConfig :: "('x, unit) ext_call"
  cx_ClaimPhase :: "string \<Rightarrow> string \<Rightarrow> ('x, string) ext_call"
  cx_PodPhase :: "string \<Rightarrow> string \<Rightarrow> ('x, string) ext_call"
  cx_CreatePod :: "string \<Rightarrow> test_pod \<Rightarrow> ('x, kube_pod) ext_call"
  cx_DeletePod :: "string \<Rightarrow> string \<Rightarrow> ('x, unit) ext_call"
  cx_Pods :: "string \<Rightarrow> ('x, kube_pod list) ext_call"
  cx_PodsUsingPVC :: "string \<Rightarrow> string \<Rightarrow> ('x, kube_pod list) ext_call"
  cx_RunCommandInPod :: "string list \<Rightarrow> string \<Rightarrow> string \<Rightarrow> 'x out_call"
  cx_kubectl :: "string list \<Rightarrow> 'x out_call"
  cx_PodLog :: "string \<Rightarrow> string \<Rightarrow> int option \<Rightarrow> string \<Rightarrow> ('x, string) ext_call"
  cx_RestoreVolumes :: "spec_obj \<Rightarrow> (string \<times> string) list"
  cx_ValidateSnapshotRestore :: "string \<Rightarrow> string \<Rightarrow> int \<Rightarrow> int \<Rightarrow> ('x, unit) ext_call"
  cx_GetSnapshotData :: "string \<Rightarrow> ('x, string) ptr_call"
  cx_ValidateSnapshotData :: "string \<Rightarrow> bool \<Rightarrow> int \<Rightarrow> int \<Rightarrow> ('x, unit) ext_call"
  cx_DriverValidateRestore :: "'x volume_driver \<Rightarrow> string \<Rightarrow> string \<Rightarrow> int \<Rightarrow> ('x, unit) ext_call"
  cx_Intn :: "nat \<Rightarrow> 'x \<Rightarrow> nat \<times> 'x"
  cx_Unix :: "'x \<Rightarrow> int"

definition ptr_call :: "('x, 'a) ptr_call \<Rightarrow> ('x k8s_world, 'a) io" where
  "ptr_call f w = (case f (wd_ext w) of
     ((_, Some err), x) \<Rightarrow> Some (Inl err, w\<lparr>wd_ext := x\<rparr>)
   | ((Some y, None), x) \<Rightarrow> Some (Inr y, w\<lparr>wd_ext := x\<rparr>)
   | ((None, None), x) \<Rightarrow> None)"

definition out_call :: "'x out_call \<Rightarrow> ('x k8s_world, string \<times> go_error option) io" where
  "out_call f w = (case f (wd_ext w) of (r, x) \<Rightarrow> Some (Inr r, w\<lparr>wd_ext := x\<rparr>))"

text \<open>A pointer that is read: nil panics.\<close>

definition load :: "'a option \<Rightarrow> ('w, 'a) io" where
  "load p = (case p of None \<Rightarrow> io_panic | Some x \<Rightarrow> io_return x)"

text \<open>\<open>rand.Intn\<close> panics for 0; an index that is out of range panics.\<close>

definition Intn :: "'x csi_api \<Rightarrow> nat \<Rightarrow> ('x k8s_world, nat) io" where
  "Intn cx n w = (if n = 0 then None else (case cx_Intn cx n (wd_ext w) of (i, x) \<Rightarrow> Some (Inr i, w\<lparr>wd_ext := x\<rparr>)))"

definition list_index :: "'a list \<Rightarrow> nat \<Rightarrow> ('w, 'a) io" where
  "list_index xs i = (if i < length xs then io_return (xs ! i) else io_panic)"

definition unix_text :: "'x csi_api \<Rightarrow> ('x k8s_world, string) io" where
  "unix_text cx = io_gets (\<lambda>w. show_int (cx_Unix cx (wd_ext w)))"

definition int64_of :: "int \<Rightarrow> int" where
  "int64_of n = sint (word_of_int n :: 64 word)"

section \<open>Clients and directories\<close>

definition getKubeClient :: "'x k8s_api \<Rightarrow> 'x csi_api \<Rightarrow> string \<Rightarrow> ('x k8s_world, unit) io" where
  "getKubeClient api cx kubeconfig =
     (let kubeconfig = (if kubeconfig = [] then api_Getenv api ''KUBECONFIG'' else kubeconfig) in
      io_bind (if kubeconfig \<noteq> [] then ext_call (cx_BuildConfig cx kubeconfig) else ext_call (cx_InClusterConfig cx))
        (\<lambda>_. ext_call (cx_NewForConfig cx)))"

definition GetAppDataDir :: "string \<Rightarrow> string \<times> int" where
  "GetAppDataDir namespace =
     (if HasPrefix namespace ''nginx-without-enc'' then (''/usr/share/nginx/html'', 2 ^ 30 div 2)
      else if HasPrefix namespace ''wordpress'' then (''/var/www/html'', 2 ^ 30 div 2)
      else if HasPrefix namespace ''elasticsearch'' then (''/usr/share/elasticsearch/data'', 2 ^ 30 * 2)
      else if HasPrefix namespace ''mysql-without-enc'' then (''/var/lib/mysql'', 2 ^ 30)
      else if HasPrefix namespace ''nginx-fa-davol'' then (''/data'', 2 ^ 30)
      else if HasPrefix namespace ''fio-fa-davol'' then (''/scratch'', 2 ^ 30)
      else if HasPrefix namespace ''nginx-fa-darawvol'' then (''/dev/xvda'', 2 ^ 30)
      else ([], 0))"

section \<open>Waits\<close>

definition SnapshotReadyTimeout :: int where "SnapshotReadyTimeout = 5 * minute_ns"

definition k8sPodCreateTimeout :: int where "k8sPodCreateTimeout = 4 * minute_ns"

definition snap_ready_attempt :: "'x csi_api \<Rightarrow> string \<Rightarrow> string \<Rightarrow> ('x k8s_world, csi_snapshot) io" where
  "snap_ready_attempt cx snapName namespace =
     io_bind (ptr_call (cx_GetSnapshot cx snapName namespace)) (\<lambda>snap.
     (let not_ready = io_error (SchedWrap ErrFailedToValidateSnapshot snapName (Errorf (''snapshot ['' @ snapName @ ''] is not ready''))) in
      case cs_Status snap of
        None \<Rightarrow> not_ready
      | Some (ready, _) \<Rightarrow> io_bind (load ready) (\<lambda>b. if \<not> b then not_ready else io_return snap)))"

definition waitForCsiSnapToBeReady :: "'x k8s_api \<Rightarrow> 'x csi_api \<Rightarrow> string \<Rightarrow> string \<Rightarrow> ('x k8s_world, unit) io" where
  "waitForCsiSnapToBeReady api cx snapName namespace =
     io_bind (io_poll (clock api) (snap_ready_attempt cx snapName namespace) SnapshotReadyTimeout k8s_DefaultRetryInterval)
       (\<lambda>_. io_return ())"

definition pod_ready_attempt :: "'x csi_api \<Rightarrow> string \<Rightarrow> string \<Rightarrow> ('x k8s_world, unit) io" where
  "pod_ready_attempt cx podname namespace =
     io_bind (ext_call (cx_PodPhase cx podname namespace)) (\<lambda>phase.
       if phase \<noteq> ''Running'' then io_error (Errorf (''Pod '' @ podname @ '' not up yet'')) else io_return ())"

definition waitForPodToBeReady :: "'x k8s_api \<Rightarrow> 'x csi_api \<Rightarrow> string \<Rightarrow> string \<Rightarrow> ('x k8s_world, unit) io" where
  "waitForPodToBeReady api cx podname namespace =
     io_bind (getKubeClient api cx []) (\<lambda>_.
       io_poll (clock api) (pod_ready_attempt cx podname namespace) k8sPodCreateTimeout k8s_DefaultRetryInterval)"

definition claim_bound :: "'x csi_api \<Rightarrow> string \<Rightarrow> string \<Rightarrow> string \<Rightarrow> ('x k8s_world, unit) io" where
  "claim_bound cx pvcName namespace shown =
     io_bind (ext_call (cx_ClaimPhase cx pvcName namespace)) (\<lambda>phase.
       if phase \<noteq> ''Bound'' then io_error (Errorf (''PVC '' @ shown @ '' not bound yet'')) else io_return ())"

definition bound_limit :: "int \<Rightarrow> int" where
  "bound_limit timeout = (if timeout \<noteq> 0 \<and> timeout < 60 then timeout else 30)"

definition WaitForSinglePVCToBound :: "'x k8s_api \<Rightarrow> 'x csi_api \<Rightarrow> string \<Rightarrow> string \<Rightarrow> int \<Rightarrow> ('x k8s_world, unit) io" where
  "WaitForSinglePVCToBound api cx pvcName namespace timeout =
     io_bind (getKubeClient api cx []) (\<lambda>_.
       io_poll (clock api) (claim_bound cx pvcName namespace pvcName) (int64_of (bound_limit timeout * minute_ns)) (30 * second_ns))"

definition waitForRestoredPVCsToBound :: "'x k8s_api \<Rightarrow> 'x csi_api \<Rightarrow> string \<Rightarrow> string \<Rightarrow> nat \<Rightarrow> ('x k8s_world, unit) io" where
  "waitForRestoredPVCsToBound api cx pvcNamePrefix namespace numPVCs =
     io_bind (getKubeClient api cx []) (\<lambda>_.
       io_poll (clock api) (io_foreach (\<lambda>j. claim_bound cx (pvcNamePrefix @ show_nat j) namespace pvcNamePrefix) [0..<numPVCs])
         (30 * minute_ns) (30 * second_ns))"

definition csi_restore_attempt :: "'x csi_api \<Rightarrow> string \<Rightarrow> string \<Rightarrow> ('x k8s_world, unit) io" where
  "csi_restore_attempt cx pvcName namespace =
     io_bind (io_catch (ext_call (cx_CoreClaimPhase cx pvcName namespace))
       (\<lambda>err. io_error (SchedWrap ErrFailedToValidatePvc pvcName
          (Errorf (''failed to get persistent volume claim.Err: '' @ Error_str err))))) (\<lambda>phase.
       if phase = ''Pending'' then
         io_error (SchedWrap ErrFailedToValidatePvc pvcName (Errorf (''PVC ['' @ pvcName @ ''] is not bound'')))
       else io_return ())"

definition ValidateCsiRestore :: "'x k8s_api \<Rightarrow> 'x csi_api \<Rightarrow> string \<Rightarrow> string \<Rightarrow> int \<Rightarrow> ('x k8s_world, unit) io" where
  "ValidateCsiRestore api cx pvcName namespace timeout =
     io_poll (clock api) (csi_restore_attempt cx pvcName namespace) timeout k8s_DefaultRetryInterval"

section \<open>Snapshots\<close>

definition CreateCsiSnapshot ::
  "'x k8s_api \<Rightarrow> 'x csi_api \<Rightarrow> string \<Rightarrow> string \<Rightarrow> string \<Rightarrow> string \<Rightarrow> ('x k8s_world, csi_snapshot) io" where
  "CreateCsiSnapshot api cx name namespace class pvc =
     io_bind (io_catch (ptr_call (cx_CreateSnapshot cx \<lparr>cs_Name = name, cs_Namespace = namespace, cs_Claim = Some pvc,
         cs_Class = Some class, cs_Status = None\<rparr>))
       (\<lambda>err. io_error (SchedWrap ErrFailedToCreateSnapshot pvc err))) (\<lambda>snapshot.
     io_bind (io_catch (waitForCsiSnapToBeReady api cx (cs_Name snapshot) namespace)
       (\<lambda>err. io_error (SchedWrap ErrFailedToCreateSnapshot pvc (Errorf (''snapshot is not ready. Error: '' @ Error_str err))))) (\<lambda>_.
       io_return snapshot))"

text \<open>A snapshot of the list that cannot be read is skipped, since it may be in deletion.\<close>

fun snapshots_of_claim :: "'x csi_api \<Rightarrow> string \<Rightarrow> string \<Rightarrow> string list \<Rightarrow> csi_snapshot list \<Rightarrow> ('x k8s_world, csi_snapshot list) io" where
  "snapshots_of_claim cx namespace pvcName [] snapshots = io_return snapshots"
| "snapshots_of_claim cx namespace pvcName (name # names) snapshots =
     io_bind (io_try (ptr_call (cx_GetSnapshot cx name namespace))) (\<lambda>r. (case r of
       Inl _ \<Rightarrow> snapshots_of_claim cx namespace pvcName names snapshots
     | Inr snap \<Rightarrow> io_bind (load (cs_Claim snap)) (\<lambda>claim.
         snapshots_of_claim cx namespace pvcName names (if claim = pvcName then snapshots @ [snap] else snapshots))))"

definition GetCsiSnapshots ::
  "'x vol_api \<Rightarrow> 'x csi_api \<Rightarrow> string \<Rightarrow> string \<Rightarrow> ('x k8s_world, csi_snapshot list) io" where
  "GetCsiSnapshots va cx namespace pvcName =
     io_bind (io_catch (ext_call (va_ListCsiSnapshots va namespace)) (\<lambda>err. io_error (SchedWrap ErrFailedToGetSnapshotList namespace err)))
       (\<lambda>names. snapshots_of_claim cx namespace pvcName names [])"

section \<open>The claims of an application\<close>

text \<open>
  The loop that the four operations on the snapshots of an application share. The claims of the specs are those
  of the context, whose read may fail and leave a nil pointer, and those of its stateful sets. For each claim
  \<open>filterPureTypeVolumeIfEnabled\<close> says whether it is a block volume; \<open>step\<close> is what the operation does then,
  with its loop variables \<open>acc\<close>. \<open>enter\<close> initialises the variables that the body of the loop declares.
\<close>

type_synonym ('x, 'a) claim_step = "bool \<Rightarrow> spec_obj option \<Rightarrow> string \<Rightarrow> 'a \<Rightarrow> ('x k8s_world, 'a) io"

definition block_claim ::
  "K8s \<Rightarrow> 'x vol_api \<Rightarrow> ('x, 'a) claim_step \<Rightarrow> string \<Rightarrow> spec_obj option \<Rightarrow> 'a \<Rightarrow> ('x k8s_world, 'a) io" where
  "block_claim k va step namespace pvc acc =
     io_bind (filterPureTypeVolumeIfEnabled k va pvc [PureBlock]) (\<lambda>okay. step okay pvc namespace acc)"

fun block_claims ::
  "K8s \<Rightarrow> 'x vol_api \<Rightarrow> ('x, 'a) claim_step \<Rightarrow> string \<Rightarrow> spec_obj list \<Rightarrow> 'a \<Rightarrow> ('x k8s_world, 'a) io" where
  "block_claims k va step namespace [] acc = io_return acc"
| "block_claims k va step namespace (pvc # pvcs) acc =
     io_bind (block_claim k va step namespace (Some pvc) acc) (block_claims k va step namespace pvcs)"

record claim_errors =
  ce_set :: "spec_obj \<Rightarrow> string \<Rightarrow> go_error"
  ce_claims :: "spec_obj \<Rightarrow> spec_obj \<Rightarrow> string \<Rightarrow> go_error"

definition spec_claims ::
  "K8s \<Rightarrow> 'x k8s_api \<Rightarrow> 'x vol_api \<Rightarrow> claim_errors \<Rightarrow> ('x, 'a) claim_step \<Rightarrow> spec_obj \<Rightarrow> 'a \<Rightarrow> ('x k8s_world, 'a) io" where
  "spec_claims k api va e step obj acc =
     (if so_type obj = PersistentVolumeClaim then
        io_bind (raw_call PersistentVolumeClaim (api_Get api PersistentVolumeClaim (so_Name obj) (so_Namespace obj)))
          (\<lambda>(pvc, _). block_claim k va step (so_Namespace obj) pvc acc)
      else if so_type obj = StatefulSet then
        io_bind (failing_with (obj_call StatefulSet (api_Get api StatefulSet (so_Name obj) (so_Namespace obj))) (ce_set e obj)) (\<lambda>ss.
        io_bind (claims_of api ss (ce_claims e obj ss)) (\<lambda>pvcs. block_claims k va step (so_Namespace obj) pvcs acc))
      else io_return acc)"

fun app_claims ::
  "K8s \<Rightarrow> 'x k8s_api \<Rightarrow> 'x vol_api \<Rightarrow> claim_errors \<Rightarrow> ('a \<Rightarrow> 'a) \<Rightarrow> ('x, 'a) claim_step \<Rightarrow> ptr list \<Rightarrow> 'a \<Rightarrow>
     ('x k8s_world, 'a) io" where
  "app_claims k api va e enter step [] acc = io_return acc"
| "app_claims k api va e enter step (p # specs) acc =
     io_bind (deref p) (\<lambda>obj. io_bind (spec_claims k api va e step obj (enter acc)) (app_claims k api va e enter step specs))"

definition app_errors :: "sched_ctx \<Rightarrow> sched_app \<Rightarrow> claim_errors" where
  "app_errors ctx t =
     \<lparr>ce_set = (\<lambda>obj err. app_error (ctx_App ctx) t (''Failed to get StatefulSet: '' @ so_Name obj @ ''. Err: '' @ err)),
      ce_claims = (\<lambda>_ ss err. app_error (ctx_App ctx) t (''Failed to get PVC from StatefulSet: '' @ so_Name ss @ ''. Err: '' @ err))\<rparr>"

definition delete_errors :: claim_errors where
  "delete_errors =
     \<lparr>ce_set = (\<lambda>obj err. SchedWrap ErrFailedToDeleteSnapshot (so_Namespace obj)
        (Errorf (''failed to get StatefulSet: '' @ so_Name obj @ ''. Err: '' @ err))),
      ce_claims = (\<lambda>obj ss err. SchedWrap ErrFailedToDeleteSnapshot (so_Namespace obj)
        (Errorf (''failed to get PVC from StatefulSet: '' @ so_Name ss @ ''. Err: '' @ err)))\<rparr>"

section \<open>Creating and validating\<close>

type_synonym vol_snaps = "(string, csi_snapshot option) gomap"

definition create_snap_step :: "'x k8s_api \<Rightarrow> 'x csi_api \<Rightarrow> string \<Rightarrow> ('x, vol_snaps) claim_step" where
  "create_snap_step api cx snapClass okay claim namespace volSnapMap =
     (if okay then io_bind (load claim) (\<lambda>pvc. io_bind (unix_text cx) (\<lambda>now.
        io_bind (CreateCsiSnapshot api cx (''snap-'' @ so_Name pvc @ ''-'' @ now) namespace snapClass (so_Name pvc)) (\<lambda>volSnapshot.
          io_return (gm_put (cl_VolumeName (so_Claim pvc)) (Some volSnapshot) volSnapMap))))
      else io_return volSnapMap)"

definition CreateCsiSnapsForVolumes ::
  "K8s \<Rightarrow> 'x k8s_api \<Rightarrow> 'x vol_api \<Rightarrow> 'x csi_api \<Rightarrow> sched_ctx \<Rightarrow> string \<Rightarrow> ('x k8s_world, vol_snaps) io" where
  "CreateCsiSnapsForVolumes k api va cx ctx snapClass =
     app_claims k api va (app_errors ctx ErrFailedToCreateCsiSnapshots) id (create_snap_step api cx snapClass) (SpecList (ctx_App ctx)) []"

definition invalid_snap :: "string \<Rightarrow> string \<Rightarrow> go_error" where
  "invalid_snap pvcName text = SchedWrap ErrFailedToValidateSnapshot pvcName (Errorf text)"

definition validateCsiSnap :: "'x csi_api \<Rightarrow> string \<Rightarrow> string \<Rightarrow> csi_snapshot \<Rightarrow> ('x k8s_world, unit) io" where
  "validateCsiSnap cx pvcName namespace csiSnapshot =
     (if cs_Name csiSnapshot = [] then
        io_error (invalid_snap pvcName (''failed to validate snaps.Valid snapshot not provided for volume: '' @ pvcName))
      else
        io_bind (io_catch (ptr_call (cx_GetSnapshot cx (cs_Name csiSnapshot) namespace))
          (\<lambda>_. io_error (invalid_snap pvcName (''failed to get snapshot: '' @ cs_Name csiSnapshot)))) (\<lambda>snap.
        io_bind (load (cs_Class snap)) (\<lambda>class. io_bind (load (cs_Class csiSnapshot)) (\<lambda>class'.
        if class \<noteq> class' then
          io_error (invalid_snap pvcName (''failed to validate snap: ['' @ cs_Name snap @ ''].Snapshot class is not maching''))
        else io_bind (load (cs_Claim snap)) (\<lambda>claim.
          if claim \<noteq> pvcName then
            io_error (invalid_snap pvcName (''failed to validate source pvc name in snapshot: '' @ cs_Name snap))
          else io_return ())))))"

definition validate_snap_step :: "'x csi_api \<Rightarrow> sched_ctx \<Rightarrow> vol_snaps \<Rightarrow> ('x, unit) claim_step" where
  "validate_snap_step cx ctx volSnapMap okay claim namespace _ =
     (if okay then io_bind (load claim) (\<lambda>pvc. (case map_of volSnapMap (cl_VolumeName (so_Claim pvc)) of
        None \<Rightarrow> io_error (app_error (ctx_App ctx) ErrFailedToValidateCsiSnapshots (''Snapshot is empty for a pvc: '' @ so_Name pvc))
      | Some snap \<Rightarrow> io_bind (load snap) (validateCsiSnap cx (so_Name pvc) namespace)))
      else io_return ())"

definition ValidateCsiSnapshots ::
  "K8s \<Rightarrow> 'x k8s_api \<Rightarrow> 'x vol_api \<Rightarrow> 'x csi_api \<Rightarrow> sched_ctx \<Rightarrow> vol_snaps \<Rightarrow> ('x k8s_world, unit) io" where
  "ValidateCsiSnapshots k api va cx ctx volSnapMap =
     app_claims k api va (app_errors ctx ErrFailedToValidateCsiSnapshots) id (validate_snap_step cx ctx volSnapMap)
       (SpecList (ctx_App ctx)) ()"

section \<open>Deleting and restoring\<close>

definition delete_snap_step :: "'x vol_api \<Rightarrow> 'x csi_api \<Rightarrow> sched_ctx \<Rightarrow> int \<Rightarrow> ('x, unit) claim_step" where
  "delete_snap_step va cx ctx retainCount okay claim namespace _ =
     (if okay then io_bind (load claim) (\<lambda>pvc.
        io_bind (failing_with (GetCsiSnapshots va cx namespace (so_Name pvc))
          (\<lambda>err. SchedWrap ErrFailedToGetSnapshotList namespace
             (Errorf (''failed to list csi snapshot in namespace: '' @ namespace @ ''. Err: '' @ err)))) (\<lambda>snaplist.
        if int (length snaplist) > retainCount then
          io_bind (Intn cx (length snaplist)) (\<lambda>resVolIndex. io_bind (list_index snaplist resVolIndex) (\<lambda>snap.
            DeleteCsiSnapshot va ctx (cs_Name snap) namespace))
        else io_return ()))
      else io_return ())"

definition DeleteCsiSnapsForVolumes ::
  "K8s \<Rightarrow> 'x k8s_api \<Rightarrow> 'x vol_api \<Rightarrow> 'x csi_api \<Rightarrow> sched_ctx \<Rightarrow> int \<Rightarrow> ('x k8s_world, unit) io" where
  "DeleteCsiSnapsForVolumes k api va cx ctx retainCount =
     app_claims k api va delete_errors id (delete_snap_step va cx ctx retainCount) (SpecList (ctx_App ctx)) ()"

definition VolumeSnapshotKind :: string where "VolumeSnapshotKind = ''VolumeSnapshot''"

definition SnapshotAPIGroup :: string where "SnapshotAPIGroup = ''snapshot.storage.k8s.io''"

definition restoreCsiSnapshot ::
  "'x csi_api \<Rightarrow> string \<Rightarrow> spec_obj \<Rightarrow> csi_snapshot \<Rightarrow> spec_obj option \<Rightarrow> ('x k8s_world, spec_obj) io" where
  "restoreCsiSnapshot cx restorePvcName pvc snap sc =
     io_bind (load (cs_Status snap)) (\<lambda>status. io_bind (load (snd status)) (\<lambda>restoreSize. through sc (\<lambda>class.
       obj_call PersistentVolumeClaim (cx_CreateClaim cx \<lparr>cp_Name = restorePvcName, cp_Namespace = so_Namespace pvc,
         cp_AccessModes = cl_AccessModes (so_Claim pvc), cp_Request = restoreSize, cp_StorageClassName = so_Name class,
         cp_VolumeMode = None, cp_DataSource = Some (Some SnapshotAPIGroup, VolumeSnapshotKind, cs_Name snap)\<rparr>))))"

definition restoreAndValidate ::
  "'x k8s_api \<Rightarrow> 'x vol_api \<Rightarrow> 'x csi_api \<Rightarrow> sched_ctx \<Rightarrow> spec_obj \<Rightarrow> string \<Rightarrow> spec_obj option \<Rightarrow> ('x k8s_world, spec_obj) io" where
  "restoreAndValidate api va cx ctx pvc namespace sc =
     io_bind (GetCsiSnapshots va cx namespace (so_Name pvc)) (\<lambda>snaplist.
     if snaplist = [] then io_error (Errorf (''no snapshot found for a PVC: ['' @ so_Name pvc @ '']''))
     else io_bind (Intn cx (length snaplist)) (\<lambda>resVolIndex. io_bind (list_index snaplist resVolIndex) (\<lambda>snap.
       io_bind (failing_with (restoreCsiSnapshot cx (so_Name pvc @ ''-restore'') pvc snap sc)
         (\<lambda>_. app_error (ctx_App ctx) ErrFailedToRestore (''Failed to restore snapshot: ['' @ cs_Name snap @ '']''))) (\<lambda>resPvc.
       io_bind (failing_with (ValidateCsiRestore api cx (so_Name resPvc) namespace k8s_DefaultTimeout)
         (\<lambda>_. app_error (ctx_App ctx) ErrFailedToValidatePvcAfterRestore
            (''Failed to validate after snapshot: ['' @ cs_Name snap @ ''] restore''))) (\<lambda>_.
         io_return resPvc)))))"

text \<open>
  The variable \<open>resPvc\<close> is declared once per spec, so that it is nil for the claim of a spec and keeps its value
  between the claims of a stateful set; it is read for a claim that is not restored too.
\<close>

type_synonym restored = "spec_obj option \<times> (string, spec_obj) gomap"

definition restore_step ::
  "'x k8s_api \<Rightarrow> 'x vol_api \<Rightarrow> 'x csi_api \<Rightarrow> sched_ctx \<Rightarrow> (string, spec_obj option) gomap \<Rightarrow> ('x, restored) claim_step" where
  "restore_step api va cx ctx scMap okay claim namespace acc = (case acc of (resPvc, pvcToRestorePVCMap) \<Rightarrow>
     io_bind (if okay then through claim (\<lambda>pvc.
         io_bind (restoreAndValidate api va cx ctx pvc namespace (gm_index None scMap PureBlock)) (\<lambda>r. io_return (Some r)))
       else io_return resPvc) (\<lambda>resPvc.
     io_bind (load claim) (\<lambda>pvc. io_bind (load resPvc) (\<lambda>r.
       io_return (resPvc, gm_put (so_Name pvc) r pvcToRestorePVCMap)))))"

definition RestoreCsiSnapAndValidate ::
  "K8s \<Rightarrow> 'x k8s_api \<Rightarrow> 'x vol_api \<Rightarrow> 'x csi_api \<Rightarrow> sched_ctx \<Rightarrow> (string, spec_obj option) gomap \<Rightarrow>
     ('x k8s_world, (string, spec_obj) gomap) io" where
  "RestoreCsiSnapAndValidate k api va cx ctx scMap =
     io_bind (app_claims k api va (app_errors ctx ErrFailedToRestore) (\<lambda>(_, m). (None, m)) (restore_step api va cx ctx scMap)
       (SpecList (ctx_App ctx)) (None, [])) (\<lambda>(_, m). io_return m)"

section \<open>Snapshot classes\<close>

definition default_class_annotation :: labels where
  "default_class_annotation = [(''snapshot.storage.kubernetes.io/is-default-class'', ''true'')]"

definition make_class :: "'x csi_api \<Rightarrow> snapshot_class \<Rightarrow> ('x k8s_world, snapshot_class) io" where
  "make_class cx class = io_catch (ext_call (cx_CreateSnapshotClass cx class))
     (\<lambda>err. io_error (SchedWrap ErrFailedToCreateSnapshotClass (sk_Name class) err))"

definition CreateCsiSnapshotClass :: "'x csi_api \<Rightarrow> string \<Rightarrow> string \<Rightarrow> ('x k8s_world, snapshot_class) io" where
  "CreateCsiSnapshotClass cx snapClassName deleionPolicy =
     make_class cx \<lparr>sk_Name = snapClassName, sk_Annotations = default_class_annotation, sk_Driver = CsiProvisioner,
       sk_DeletionPolicy = deleionPolicy, sk_Parameters = []\<rparr>"

definition CreateVolumeSnapshotClassesWithParameters ::
  "'x csi_api \<Rightarrow> string \<Rightarrow> string \<Rightarrow> bool \<Rightarrow> string \<Rightarrow> labels \<Rightarrow> ('x k8s_world, snapshot_class) io" where
  "CreateVolumeSnapshotClassesWithParameters cx snapClassName provisioner isDefault deletePolicy parameters =
     make_class cx \<lparr>sk_Name = snapClassName, sk_Annotations = (if isDefault then default_class_annotation else []),
       sk_Driver = provisioner, sk_DeletionPolicy = (if deletePolicy = [] then ''Delete'' else deletePolicy),
       sk_Parameters = parameters\<rparr>"

definition CreateVolumeSnapshotClasses ::
  "'x csi_api \<Rightarrow> string \<Rightarrow> string \<Rightarrow> bool \<Rightarrow> string \<Rightarrow> ('x k8s_world, snapshot_class) io" where
  "CreateVolumeSnapshotClasses cx snapClassName provisioner isDefault deletePolicy =
     make_class cx \<lparr>sk_Name = snapClassName, sk_Annotations = (if isDefault then default_class_annotation else []),
       sk_Driver = provisioner, sk_DeletionPolicy = (if deletePolicy = [] then ''Delete'' else deletePolicy), sk_Parameters = []\<rparr>"

definition DeleteCsiSnapshotClass :: "'x csi_api \<Rightarrow> string \<Rightarrow> ('x k8s_world, unit) io" where
  "DeleteCsiSnapshotClass cx snapClassName = ext_call (cx_DeleteSnapshotClass cx snapClassName)"

definition GetAllSnapshotClasses :: "'x csi_api \<Rightarrow> ('x k8s_world, snapshot_class list) io" where
  "GetAllSnapshotClasses cx = ext_call (cx_ListSnapshotClasses cx)"

section \<open>Specs\<close>

definition MakePVC :: "int \<Rightarrow> string \<Rightarrow> string \<Rightarrow> string \<Rightarrow> claim_spec" where
  "MakePVC bytes ns name storageClass = \<lparr>cp_Name = name, cp_Namespace = ns, cp_AccessModes = [''ReadWriteOnce''], cp_Request = bytes,
     cp_StorageClassName = storageClass, cp_VolumeMode = None, cp_DataSource = None\<rparr>"

definition GeneratePVCRestoreSpec :: "int \<Rightarrow> string \<Rightarrow> string \<Rightarrow> string \<Rightarrow> string \<Rightarrow> claim_spec result" where
  "GeneratePVCRestoreSpec bytes ns name sourceSnapshotName storageClass =
     (if sourceSnapshotName = [] then Inl (Errorf ''source snapshot name is empty for PVC restoring request'')
      else Inr ((MakePVC bytes ns name storageClass)\<lparr>cp_DataSource := Some (Some ''snapshot.storage.k8s.io'', ''VolumeSnapshot'', sourceSnapshotName)\<rparr>))"

definition GeneratePVCCloneSpec ::
  "'x k8s_api \<Rightarrow> int \<Rightarrow> string \<Rightarrow> string \<Rightarrow> string \<Rightarrow> string \<Rightarrow> ('x k8s_world, claim_spec) io" where
  "GeneratePVCCloneSpec api bytes ns name sourcePVCName storageClass =
     io_bind (failing_with (obj_call PersistentVolumeClaim (api_Get api PersistentVolumeClaim sourcePVCName ns))
       (\<lambda>_. Errorf (''error getting PVC: '' @ name))) (\<lambda>pvcObj.
     if sourcePVCName = [] then io_error (Errorf ''source PVC name is empty for PVC cloning request'')
     else io_return ((MakePVC bytes ns name storageClass)\<lparr>cp_VolumeMode := cl_VolumeMode (so_Claim pvcObj),
       cp_DataSource := Some (None, ''PersistentVolumeClaim'', sourcePVCName)\<rparr>))"

fun pod_claims :: "nat \<Rightarrow> spec_obj list \<Rightarrow> test_pod \<Rightarrow> test_pod" where
  "pod_claims index [] pod = pod"
| "pod_claims index (pvclaim # pvclaims) pod =
     (let volumename = ''volume'' @ show_nat (index + 1); mode = cl_VolumeMode (so_Claim pvclaim);
          pod = pod\<lparr>tp_Volumes := tp_Volumes pod @ [(volumename, so_Name pvclaim)]\<rparr> in
      pod_claims (index + 1) pvclaims
        (if mode = None \<or> mode = Some ''Filesystem''
         then pod\<lparr>tp_VolumeMounts := tp_VolumeMounts pod @ [(volumename, ''/mnt/'' @ volumename)]\<rparr>
         else pod\<lparr>tp_VolumeDevices := tp_VolumeDevices pod @ [(volumename, ''/dev/xvda'')]\<rparr>))"

definition MakePod :: "string \<Rightarrow> spec_obj list \<Rightarrow> string \<Rightarrow> bool \<Rightarrow> test_pod" where
  "MakePod ns pvclaims command privileged =
     (let cmd = ''while true; do sleep 1; done''; cmd = (if 0 < length command then command @ '' && '' @ cmd else cmd) in
      pod_claims 0 pvclaims \<lparr>tp_Kind = ''Pod'', tp_APIVersion = ''testMountSnapshotToPod'', tp_GenerateName = ''testpod-'', tp_Namespace = ns,
        tp_Container = ''test-pod'', tp_Image = ''alpine:3.10'', tp_Command = [''/bin/sh'', ''-c''], tp_Args = [cmd], tp_Privileged = privileged,
        tp_RestartPolicy = ''OnFailure'', tp_VolumeMounts = [], tp_VolumeDevices = [], tp_Volumes = []\<rparr>)"

section \<open>Data in pods\<close>

definition out_error :: "(string \<times> go_error option) \<Rightarrow> (string \<Rightarrow> string \<Rightarrow> go_error) \<Rightarrow> ('w, string) io" where
  "out_error r e = (case r of (out, None) \<Rightarrow> io_return out | (out, Some err) \<Rightarrow> io_error (e (Error_str err) out))"

definition readRawBlockDataFromPod :: "'x csi_api \<Rightarrow> string \<Rightarrow> string \<Rightarrow> string \<Rightarrow> ('x k8s_world, string \<times> go_error option) io" where
  "readRawBlockDataFromPod cx podName podNamespace devicePath =
     out_call (cx_RunCommandInPod cx [''/bin/sh'', ''-c'', ''dd if='' @ devicePath @ '' status=none bs=38 count=1 skip=0''] podName podNamespace)"

definition readDataFromPod :: "'x csi_api \<Rightarrow> string \<Rightarrow> string \<Rightarrow> string \<Rightarrow> ('x k8s_world, string \<times> go_error option) io" where
  "readDataFromPod cx podName podNamespace mountFilePath =
     out_call (cx_kubectl cx [''exec'', ''-it'', podName, ''-n'', podNamespace, ''--'', ''bin/cat'', mountFilePath])"

definition sync_pod :: "'x k8s_api \<Rightarrow> 'x csi_api \<Rightarrow> string \<Rightarrow> string \<Rightarrow> ('x k8s_world, unit) io" where
  "sync_pod api cx podName podNamespace =
     io_bind (out_call (cx_kubectl cx [''exec'', ''-it'', podName, ''-n'', podNamespace, ''--'', ''/bin/sync''])) (\<lambda>r.
     io_bind (out_error r (\<lambda>err out. Errorf (''failed to run '' @ [CHR 0x27] @ ''sync'' @ [CHR 0x27] @ '' in pod: '' @ err @ ''. Output: '' @ out))) (\<lambda>_.
       sleep_ext api (20 * second_ns)))"

definition run_in_pod :: "'x csi_api \<Rightarrow> string \<Rightarrow> string \<Rightarrow> string \<Rightarrow> ('x k8s_world, string) io" where
  "run_in_pod cx podCmd podName podNamespace =
     io_bind (out_call (cx_RunCommandInPod cx [''/bin/bash'', ''-c'', podCmd] podName podNamespace)) (\<lambda>r.
       out_error r (\<lambda>err _. Errorf (''failed to execute command to Pod: '' @ err)))"

definition writeRawBlockDataToPod :: "'x k8s_api \<Rightarrow> 'x csi_api \<Rightarrow> string \<Rightarrow> string \<Rightarrow> string \<Rightarrow> string \<Rightarrow> ('x k8s_world, unit) io" where
  "writeRawBlockDataToPod api cx data podName podNamespace devicePath =
     io_bind (run_in_pod cx (''echo -n '' @ [CHR 0x22] @ data @ [CHR 0x22] @ '' >> /tmp/test.txt'') podName podNamespace) (\<lambda>_.
     io_bind (run_in_pod cx (''dd if=/tmp/test.txt of='' @ devicePath @ '' bs=38 count=1 seek=0'') podName podNamespace) (\<lambda>_.
       sync_pod api cx podName podNamespace))"

definition writeDataToPod :: "'x k8s_api \<Rightarrow> 'x csi_api \<Rightarrow> string \<Rightarrow> string \<Rightarrow> string \<Rightarrow> string \<Rightarrow> ('x k8s_world, unit) io" where
  "writeDataToPod api cx data podName podNamespace mountPath =
     io_bind (out_call (cx_kubectl cx [''exec'', ''-it'', podName, ''-n'', podNamespace, ''--'', ''/bin/sh'', ''-c'',
       ''echo -n '' @ data @ '' >>  '' @ mountPath @ ''/aaaa.txt''])) (\<lambda>r.
     io_bind (out_error r (\<lambda>err out. Errorf (''failed to write data to pod: '' @ err @ ''. Output: '' @ out))) (\<lambda>_.
       sync_pod api cx podName podNamespace))"

section \<open>Restored and cloned volumes\<close>

text \<open>
  The error for a pod that is not ready has no application, and its text reads the key of the application: the
  callers print it through \<open>fmt\<close>, which recovers from the panic and prints this text.
\<close>

definition no_app_error :: go_error where
  "no_app_error = Errorf ''%!s(PANIC=Error method: runtime error: invalid memory address or nil pointer dereference)''"

text \<open>What both tests do with a new claim: bind it, mount it in a pod, compare the data and delete the pod.\<close>

definition check_content :: "'x csi_api \<Rightarrow> string \<Rightarrow> string \<Rightarrow> spec_obj \<Rightarrow> kube_pod \<Rightarrow> string \<Rightarrow> ('x k8s_world, unit) io" where
  "check_content cx what data claim pod namespace =
     (let mountPath = fst (GetAppDataDir (pod_Namespace pod)) in
      io_bind (load (cl_VolumeMode (so_Claim claim))) (\<lambda>mode.
      if mode = ''Block'' then
        io_bind (readRawBlockDataFromPod cx (pod_Name pod) (pod_Namespace pod) mountPath) (\<lambda>r.
        io_bind (out_error r (\<lambda>err out. Errorf (''error checking content of cloned PVC: '' @ err @ ''. Output: '' @ out))) (\<lambda>fileContent.
          if data \<noteq> fileContent then io_error (Errorf ''compared data of text file & data copied to device path is not same'')
          else io_return ()))
      else
        io_bind (readDataFromPod cx (pod_Name pod) namespace ''/mnt/volume1/aaaa.txt'') (\<lambda>r.
        io_bind (out_error r (\<lambda>err out. Errorf (''error checking content of '' @ what @ '' PVC: '' @ err @ ''. Output: '' @ out))) (\<lambda>fileContent.
          if \<not> Contains_str fileContent data then
            io_error (Errorf (what @ '' volume does NOT contain data from original volume: expected to contain '' @ [CHR 0x27] @ data @
              [CHR 0x27] @ '', got '' @ [CHR 0x27] @ fileContent @ [CHR 0x27]))
          else io_return ()))))"

definition delete_pod :: "'x k8s_api \<Rightarrow> 'x csi_api \<Rightarrow> string \<Rightarrow> kube_pod \<Rightarrow> ('x k8s_world, unit) io" where
  "delete_pod api cx namespace pod =
     io_bind (io_try (ext_call (cx_DeletePod cx namespace (pod_Name pod)))) (\<lambda>r. (case r of
       Inl err \<Rightarrow> if api_IsNotFound api err then io_return () else io_error (Errorf (''error deleting restored pod: '' @ Error_str err))
     | Inr _ \<Rightarrow> io_return ()))"

definition uid_gone :: "'x csi_api \<Rightarrow> string \<Rightarrow> kube_pod \<Rightarrow> ('x k8s_world, unit) io" where
  "uid_gone cx namespace pod =
     io_bind (failing_with (ext_call (cx_Pods cx namespace)) (\<lambda>err. Errorf (''failed to list pods in ns '' @ namespace @ ''. Error: '' @ err)))
       (\<lambda>existingPods. if list_ex (\<lambda>p. pod_UID p = pod_UID pod) existingPods
          then io_error (Errorf (''pod '' @ pod_Name pod @ '' in ns '' @ pod_Namespace pod @ '' still exists'')) else io_return ())"

definition name_gone :: "'x k8s_api \<Rightarrow> 'x csi_api \<Rightarrow> string \<Rightarrow> kube_pod \<Rightarrow> ('x k8s_world, unit) io" where
  "name_gone api cx namespace pod =
     io_bind (io_try (ext_call (cx_PodPhase cx (pod_Name pod) namespace))) (\<lambda>r. (case r of
       Inl err \<Rightarrow> if api_IsNotFound api err then io_return ()
         else io_error (Errorf (''failed to check that pod '' @ pod_Name pod @ '' in ns '' @ pod_Namespace pod @ '' is gone. Err: '' @ Error_str err))
     | Inr _ \<Rightarrow> io_error (Errorf (''pod '' @ pod_Name pod @ '' in ns '' @ pod_Namespace pod @ '' still exists''))))"

definition mount_and_check ::
  "'x k8s_api \<Rightarrow> 'x csi_api \<Rightarrow> (kube_pod \<Rightarrow> ('x k8s_world, unit) io) \<Rightarrow> string \<Rightarrow> string \<Rightarrow> string \<Rightarrow> string \<Rightarrow> spec_obj \<Rightarrow>
     ('x k8s_world, unit) io" where
  "mount_and_check api cx ended what data namespace name claim =
     io_bind (failing_with (WaitForSinglePVCToBound api cx name (so_Namespace claim) 0)
       (\<lambda>err. Errorf (''failed to wait for cloned PVC '' @ name @ '' to bind: '' @ err))) (\<lambda>_.
     io_bind (failing_with (ext_call (cx_CreatePod cx namespace (MakePod namespace [claim] ''ls'' False)))
       (\<lambda>err. Errorf (''error creating restored pod: '' @ err))) (\<lambda>pod.
     io_bind (failing_with (waitForPodToBeReady api cx (pod_Name pod) namespace) (\<lambda>_. no_app_error)) (\<lambda>_.
     io_bind (check_content cx what data claim pod namespace) (\<lambda>_.
     io_bind (delete_pod api cx namespace pod) (\<lambda>_.
       io_poll (clock api) (ended pod) (2 * minute_ns) k8s_DefaultRetryInterval)))))"

definition snapshotAndVerify ::
  "'x k8s_api \<Rightarrow> 'x csi_api \<Rightarrow> int \<Rightarrow> string \<Rightarrow> string \<Rightarrow> string \<Rightarrow> string \<Rightarrow> string \<Rightarrow> string \<Rightarrow> string \<Rightarrow> ('x k8s_world, unit) io" where
  "snapshotAndVerify api cx bytes data snapName namespace storageClass snapClass restoredPVCName originalPVC =
     io_bind (failing_with (getKubeClient api cx []) (\<lambda>err. Errorf (''failed to get kube client: '' @ err))) (\<lambda>_.
     io_bind (failing_with (obj_call PersistentVolumeClaim (api_Get api PersistentVolumeClaim originalPVC namespace))
       (\<lambda>_. Errorf (''error getting original PVC: '' @ originalPVC))) (\<lambda>originalPVCObj.
     io_bind (failing_with (CreateCsiSnapshot api cx snapName namespace snapClass originalPVC)
       (\<lambda>_. Errorf (''failed to create snapshot '' @ snapName @ '' for volume '' @ originalPVC))) (\<lambda>volSnapshot.
     io_bind (load (cl_VolumeMode (so_Claim originalPVCObj))) (\<lambda>mode.
     io_bind (case GeneratePVCRestoreSpec bytes namespace restoredPVCName (cs_Name volSnapshot) storageClass of
         Inl err \<Rightarrow> if mode = ''Block'' then io_panic else io_error (Errorf (''failed to build restored PVC Spec: '' @ Error_str err))
       | Inr spec \<Rightarrow> io_return (if mode = ''Block'' then spec\<lparr>cp_VolumeMode := Some mode\<rparr> else spec)) (\<lambda>restoredPVCSpec.
     io_bind (failing_with (obj_call PersistentVolumeClaim (cx_CreateClaim cx restoredPVCSpec))
       (\<lambda>err. Errorf (''failed to restore PVC from snapshot '' @ cs_Name volSnapshot @ '': '' @ err))) (\<lambda>restoredPVC.
       mount_and_check api cx (uid_gone cx namespace) ''restored'' data namespace restoredPVCName restoredPVC))))))"

definition cloneAndVerify ::
  "'x k8s_api \<Rightarrow> 'x csi_api \<Rightarrow> int \<Rightarrow> string \<Rightarrow> string \<Rightarrow> string \<Rightarrow> string \<Rightarrow> string \<Rightarrow> ('x k8s_world, unit) io" where
  "cloneAndVerify api cx bytes data namespace storageClass clonedPVCName originalPVC =
     io_bind (failing_with (getKubeClient api cx []) (\<lambda>err. Errorf (''failed to get kube client: '' @ err))) (\<lambda>_.
     io_bind (failing_with (GeneratePVCCloneSpec api bytes namespace clonedPVCName originalPVC storageClass)
       (\<lambda>err. Errorf (''failed to build cloned PVC Spec: '' @ err))) (\<lambda>clonedPVCSpec.
     io_bind (failing_with (obj_call PersistentVolumeClaim (cx_CreateClaim cx clonedPVCSpec))
       (\<lambda>err. Errorf (''failed to clone PVC from source PVC '' @ originalPVC @ '': '' @ err))) (\<lambda>clonedPVC.
       mount_and_check api cx (name_gone api cx namespace) ''cloned'' data namespace clonedPVCName clonedPVC)))"

section \<open>The tests\<close>

definition clone_exists :: "'x k8s_api \<Rightarrow> string \<Rightarrow> ('x k8s_world, bool) io" where
  "clone_exists api clonedSCName =
     io_bind (io_try (err_call StorageClass (api_Get api StorageClass clonedSCName []))) (\<lambda>r. (case r of
       Inl err \<Rightarrow> if api_IsNotFound api err then io_return False else io_error err
     | Inr _ \<Rightarrow> io_return True))"

definition createClonedStorageClassIfRequired :: "'x k8s_api \<Rightarrow> spec_obj \<Rightarrow> ('x k8s_world, string) io" where
  "createClonedStorageClassIfRequired api originalStorageClass =
     (let clonedSCName = so_Name originalStorageClass @ ''-clone'' in
      io_bind (io_poll (clock api) (clone_exists api clonedSCName) (2 * minute_ns) (10 * second_ns)) (\<lambda>found.
        if found then io_return clonedSCName
        else io_bind (obj_call StorageClass (api_Create api StorageClass (originalStorageClass\<lparr>so_Name := clonedSCName,
            so_Class := (so_Class originalStorageClass)\<lparr>sc_VolumeBindingMode := Some ''Immediate''\<rparr>, so_UID := []\<rparr>)))
          (\<lambda>clonedSCobj. io_return (so_Name clonedSCobj))))"

definition claim_not_read :: "string \<Rightarrow> string \<Rightarrow> string \<Rightarrow> string \<Rightarrow> go_error" where
  "claim_not_read what name namespace err =
     Errorf (''failed to retrieve '' @ what @ ''PVC '' @ name @ '' in namespace: '' @ namespace @ '' : '' @ err)"

text \<open>The read of a claim whose size is used before the error is looked at.\<close>

definition claim_unchecked :: "'x k8s_api \<Rightarrow> string \<Rightarrow> string \<Rightarrow> ('x k8s_world, spec_obj) io" where
  "claim_unchecked api name namespace =
     io_bind (raw_call PersistentVolumeClaim (api_Get api PersistentVolumeClaim name namespace)) (\<lambda>(p, err).
       through p (\<lambda>pvcObj. (case err of None \<Rightarrow> io_return pvcObj | Some e \<Rightarrow> io_error (claim_not_read [] name namespace (Error_str e)))))"

text \<open>The class for the new claims and the first pod that uses the claim.\<close>

definition prepare_test :: "'x k8s_api \<Rightarrow> 'x vol_api \<Rightarrow> 'x csi_api \<Rightarrow> string \<Rightarrow> string \<Rightarrow> spec_obj \<Rightarrow> ('x k8s_world, string \<times> kube_pod) io" where
  "prepare_test api va cx name namespace pvcObj =
     io_bind (failing_with (ext_call (va_ClassForPVC va (Some pvcObj))) (claim_not_read ''storage class for '' name namespace)) (\<lambda>originalStorageClass.
     io_bind (failing_with (createClonedStorageClassIfRequired api originalStorageClass)
       (\<lambda>err. Errorf (''failed to create cloned storage class with the name '' @ so_Name originalStorageClass @ ''-clone : '' @ err))) (\<lambda>storageClassName.
     io_bind (failing_with (ext_call (cx_PodsUsingPVC cx (so_Name pvcObj) (so_Namespace pvcObj)))
       (\<lambda>_. Errorf (''failed to retrieve pods using PVC '' @ so_Name pvcObj @ ''/'' @ so_Namespace pvcObj))) (\<lambda>podsUsingPVC.
     io_bind (list_index podsUsingPVC 0) (\<lambda>pod. io_return (storageClassName, pod)))))"

definition raw_data :: string where "raw_data = ''this is pure volume rawblock test data''"

definition fresh_data :: "'x csi_api \<Rightarrow> ('x k8s_world, string) io" where
  "fresh_data cx = io_bind (unix_text cx) (\<lambda>now. io_return (''thisIsJustSomeRandomText'' @ now))"

record CSISnapshotRequest =
  csr_Namespace :: string
  csr_Timestamp :: string
  csr_OriginalPVCName :: string
  csr_SnapName :: string
  csr_RestoredPVCName :: string
  csr_SnapshotclassName :: string

record CSICloneRequest =
  ccr_Namespace :: string
  ccr_Timestamp :: string
  ccr_OriginalPVCName :: string
  ccr_RestoredPVCName :: string

definition snapshot_round ::
  "'x k8s_api \<Rightarrow> 'x csi_api \<Rightarrow> CSISnapshotRequest \<Rightarrow> spec_obj \<Rightarrow> string \<Rightarrow> kube_pod \<Rightarrow> nat \<Rightarrow> ('x k8s_world, unit) io" where
  "snapshot_round api cx request pvcObj storageClassName pod i =
     (let mountPath = fst (GetAppDataDir (pod_Namespace pod));
          verify = (\<lambda>data. failing_with (snapshotAndVerify api cx (cl_Request (so_Claim pvcObj)) data (csr_SnapName request @ show_nat i)
            (pod_Namespace pod) storageClassName (csr_SnapshotclassName request) (csr_RestoredPVCName request @ show_nat i) (csr_OriginalPVCName request))
            (\<lambda>err. Errorf (''failed to validate restored PVC content: '' @ err @ '' '')));
          unwritten = (\<lambda>err. Errorf (''failed to write data to restored PVC: '' @ err)) in
      io_bind (load (cl_VolumeMode (so_Claim pvcObj))) (\<lambda>mode.
      if mode = ''Block'' then
        io_bind (failing_with (writeRawBlockDataToPod api cx raw_data (pod_Name pod) (pod_Namespace pod) mountPath) unwritten) (\<lambda>_. verify raw_data)
      else io_bind (fresh_data cx) (\<lambda>data.
        io_bind (failing_with (writeDataToPod api cx data (pod_Name pod) (pod_Namespace pod) mountPath) unwritten) (\<lambda>_. verify data))))"

definition CSISnapshotTest ::
  "'x k8s_api \<Rightarrow> 'x vol_api \<Rightarrow> 'x csi_api \<Rightarrow> CSISnapshotRequest \<Rightarrow> ('x k8s_world, unit) io" where
  "CSISnapshotTest api va cx request =
     io_bind (claim_unchecked api (csr_OriginalPVCName request) (csr_Namespace request)) (\<lambda>pvcObj.
     io_bind (prepare_test api va cx (csr_OriginalPVCName request) (csr_Namespace request) pvcObj) (\<lambda>(storageClassName, pod).
       io_foreach (snapshot_round api cx request pvcObj storageClassName pod) [0, 1, 2]))"

definition clone_round ::
  "'x k8s_api \<Rightarrow> 'x csi_api \<Rightarrow> CSICloneRequest \<Rightarrow> spec_obj \<Rightarrow> string \<Rightarrow> kube_pod \<Rightarrow> nat \<Rightarrow> ('x k8s_world, unit) io" where
  "clone_round api cx request pvcObj storageClassName pod i =
     (let mountPath = fst (GetAppDataDir (pod_Namespace pod));
          verify = (\<lambda>data. failing_with (cloneAndVerify api cx (cl_Request (so_Claim pvcObj)) data (pod_Namespace pod) storageClassName
            (ccr_RestoredPVCName request @ show_nat i) (ccr_OriginalPVCName request))
            (\<lambda>err. Errorf (''failed to validate cloned PVC content: '' @ err @ '' '')));
          unwritten = (\<lambda>err. Errorf (''failed to write data to cloned PVC: '' @ err)) in
      io_bind (load (cl_VolumeMode (so_Claim pvcObj))) (\<lambda>mode.
      if mode = ''Block'' then
        io_bind (failing_with (writeRawBlockDataToPod api cx raw_data (pod_Name pod) (pod_Namespace pod) mountPath) unwritten) (\<lambda>_. verify raw_data)
      else io_bind (fresh_data cx) (\<lambda>data.
        io_bind (run_in_pod cx (''touch '' @ mountPath @ ''/aaaa.txt'') (pod_Name pod) (pod_Namespace pod)) (\<lambda>_.
        io_bind (failing_with (writeDataToPod api cx data (pod_Name pod) (pod_Namespace pod) mountPath) unwritten) (\<lambda>_. verify data)))))"

definition CSICloneTest ::
  "'x k8s_api \<Rightarrow> 'x vol_api \<Rightarrow> 'x csi_api \<Rightarrow> CSICloneRequest \<Rightarrow> ('x k8s_world, unit) io" where
  "CSICloneTest api va cx request =
     io_bind (failing_with (obj_call PersistentVolumeClaim (api_Get api PersistentVolumeClaim (ccr_OriginalPVCName request) (ccr_Namespace request)))
       (claim_not_read [] (ccr_OriginalPVCName request) (ccr_Namespace request))) (\<lambda>pvcObj.
     io_bind (prepare_test api va cx (ccr_OriginalPVCName request) (ccr_Namespace request) pvcObj) (\<lambda>(storageClassName, pod).
       io_foreach (clone_round api cx request pvcObj storageClassName pod) [0, 1, 2]))"

definition numOfRestoredPVCForCloneManyTest :: nat where "numOfRestoredPVCForCloneManyTest = 500"

definition restore_one :: "'x csi_api \<Rightarrow> CSISnapshotRequest \<Rightarrow> spec_obj \<Rightarrow> string \<Rightarrow> string \<Rightarrow> nat \<Rightarrow> ('x k8s_world, unit) io" where
  "restore_one cx request pvcObj snapName storageClassName i =
     (case GeneratePVCRestoreSpec (cl_Request (so_Claim pvcObj)) (so_Namespace pvcObj) (csr_RestoredPVCName request @ show_nat i) snapName storageClassName of
        Inl err \<Rightarrow> io_error (Errorf (''failed to build restored PVC Spec: '' @ Error_str err))
      | Inr spec \<Rightarrow> failing_with (err_call PersistentVolumeClaim (cx_CreateClaim cx spec))
          (\<lambda>err. Errorf (''failed to restore PVC from snapshot '' @ snapName @ '': '' @ err)))"

definition CSISnapshotAndRestoreMany ::
  "K8s \<Rightarrow> 'x k8s_api \<Rightarrow> 'x vol_api \<Rightarrow> 'x csi_api \<Rightarrow> CSISnapshotRequest \<Rightarrow> ('x k8s_world, unit) io" where
  "CSISnapshotAndRestoreMany k api va cx request =
     (if \<not> k_RunCSISnapshotAndRestoreManyTest k then io_return ()
      else
        io_bind (claim_unchecked api (csr_OriginalPVCName request) (csr_Namespace request)) (\<lambda>pvcObj.
        io_bind (failing_with (ext_call (va_ClassForPVC va (Some pvcObj)))
          (claim_not_read ''storage class for '' (csr_OriginalPVCName request) (csr_Namespace request))) (\<lambda>originalStorageClass.
        io_bind (failing_with (CreateCsiSnapshot api cx (csr_SnapName request) (so_Namespace pvcObj) (csr_SnapshotclassName request) (so_Name pvcObj))
          (\<lambda>_. Errorf (''failed to create snapshot '' @ csr_SnapName request @ '' for volume '' @ so_Name pvcObj))) (\<lambda>volSnapshot.
        io_bind (io_foreach (restore_one cx request pvcObj (cs_Name volSnapshot) (so_Name originalStorageClass))
          [0..<numOfRestoredPVCForCloneManyTest]) (\<lambda>_.
          failing_with (waitForRestoredPVCsToBound api cx (csr_RestoredPVCName request) (so_Namespace pvcObj) numOfRestoredPVCForCloneManyTest)
            (\<lambda>err. Errorf (show_nat numOfRestoredPVCForCloneManyTest @ '' PVCs did not go into bound after 30 mins: '' @ err)))))))"

section \<open>Restores of legacy snapshots and logs\<close>

fun find_restore ::
  "'x k8s_api \<Rightarrow> 'x csi_api \<Rightarrow> ptr list \<Rightarrow> spec_obj option \<Rightarrow> ('x k8s_world, spec_obj option) io" where
  "find_restore api cx [] snapRestore = io_return snapRestore"
| "find_restore api cx (p # specs) snapRestore =
     io_bind (deref p) (\<lambda>obj.
     if so_type obj = VolumeSnapshotRestore then
       io_bind (failing_with (obj_call VolumeSnapshotRestore (api_Get api VolumeSnapshotRestore (so_Name obj) (so_Namespace obj)))
         (\<lambda>err. Errorf (''unable to restore volumesnapshotrestore details '' @ err))) (\<lambda>restore.
       io_bind (ext_call (cx_ValidateSnapshotRestore cx (so_Name restore) (so_Namespace restore) k8s_DefaultTimeout k8s_DefaultRetryInterval)) (\<lambda>_.
         find_restore api cx specs (Some restore)))
     else find_restore api cx specs snapRestore)"

definition restored_volume :: "'x csi_api \<Rightarrow> 'x volume_driver \<Rightarrow> int \<Rightarrow> string \<times> string \<Rightarrow> ('x k8s_world, unit) io" where
  "restored_volume cx driver timeStart vol =
     io_bind (failing_with (ptr_call (cx_GetSnapshotData cx (snd vol)))
       (\<lambda>err. Errorf (''failed to retrieve VolumeSnapshotData '' @ snd vol @ '': '' @ err))) (\<lambda>snapshotData.
     io_bind (failing_with (ext_call (cx_ValidateSnapshotData cx snapshotData False k8s_DefaultTimeout k8s_DefaultRetryInterval))
       (\<lambda>err. Errorf (''snapshot: '' @ snapshotData @ '' is not complete. '' @ err))) (\<lambda>_.
       ext_call (cx_DriverValidateRestore cx driver (fst vol) snapshotData timeStart)))"

definition ValidateVolumeSnapshotRestore ::
  "K8s \<Rightarrow> 'x k8s_api \<Rightarrow> 'x vol_api \<Rightarrow> 'x csi_api \<Rightarrow> sched_ctx option \<Rightarrow> int \<Rightarrow> ('x k8s_world, unit) io" where
  "ValidateVolumeSnapshotRestore k api va cx context timeStart = (case context of
     None \<Rightarrow> io_error (Errorf ''no context provided'')
   | Some ctx \<Rightarrow> (case volume_Get (k_VolDriverName k) (va_volDrivers va) of
       Inl err \<Rightarrow> io_error err
     | Inr driver \<Rightarrow> io_bind (find_restore api cx (SpecList (ctx_App ctx)) None) (\<lambda>snapRestore. (case snapRestore of
         None \<Rightarrow> io_error (Errorf ''no valid volumesnapshotrestore specs found'')
       | Some restore \<Rightarrow> io_foreach (restored_volume cx driver timeStart) (cx_RestoreVolumes cx restore)))))"

fun pod_logs :: "'x csi_api \<Rightarrow> int option \<Rightarrow> string \<Rightarrow> kube_pod list \<Rightarrow> labels \<Rightarrow> ('x k8s_world, labels) io" where
  "pod_logs cx since containerName [] logsByPodName = io_return logsByPodName"
| "pod_logs cx since containerName (pod # pods) logsByPodName =
     io_bind (failing_with (ext_call (cx_PodLog cx (pod_Name pod) (pod_Namespace pod) since containerName))
       (\<lambda>err. Errorf (''failed to get logs for the pod '' @ pod_Namespace pod @ ''/'' @ pod_Name pod @ '': '' @ err))) (\<lambda>output.
       pod_logs cx since containerName pods (gm_put (pod_Name pod) output logsByPodName))"

definition GetPodLog :: "'x k8s_api \<Rightarrow> 'x csi_api \<Rightarrow> sched_ctx \<Rightarrow> int \<Rightarrow> string \<Rightarrow> ('x k8s_world, labels) io" where
  "GetPodLog api cx ctx sinceSeconds containerName =
     (let since = (if sinceSeconds > 0 then Some sinceSeconds else None) in
      io_bind (getPodsForApp api ctx) (\<lambda>pods. pod_logs cx since containerName pods []))"

section \<open>Results of calls\<close>

named_theorems call_results

lemma ptr_call_Inr [call_results]: "ptr_call f w = Some (Inr y, w') \<longleftrightarrow> f (wd_ext w) = ((Some y, None), wd_ext w') \<and> w' = w\<lparr>wd_ext := wd_ext w'\<rparr>"
  by (cases w) (auto simp: ptr_call_def split: prod.splits option.splits)

lemma ext_call_Inr [call_results]: "ext_call g w = Some (Inr y, w') \<longleftrightarrow> g (wd_ext w) = (Inr y, wd_ext w') \<and> w' = w\<lparr>wd_ext := wd_ext w'\<rparr>"
  by (cases w) (auto simp: ext_call_def split: prod.splits)

lemma out_call_Inr [call_results]: "out_call h w = Some (Inr r, w') \<longleftrightarrow> h (wd_ext w) = (r, wd_ext w') \<and> w' = w\<lparr>wd_ext := wd_ext w'\<rparr>"
  by (cases w) (auto simp: out_call_def split: prod.splits)

lemma load_Inr [call_results]: "load p w = Some (Inr y, w') \<longleftrightarrow> p = Some y \<and> w' = w"
  by (auto simp: load_def split: option.splits)

lemma list_index_Inr [call_results]: "list_index xs i w = Some (Inr y, w') \<longleftrightarrow> i < length xs \<and> y = xs ! i \<and> w' = w"
  by (auto simp: list_index_def)

lemma failing_with_Inr [call_results]: "failing_with m e w = Some (Inr y, w') \<longleftrightarrow> m w = Some (Inr y, w')"
  by (simp add: failing_with_def io_catch_Inr)

lemma out_error_Inr [call_results]: "out_error r e w = Some (Inr y, w') \<longleftrightarrow> r = (y, None) \<and> w' = w"
  by (auto simp: out_error_def split: prod.splits option.splits)

lemma obj_call_Inr:
  assumes "obj_call t c w = Some (Inr y, w')"
  shows "\<exists>y0. c (wd_ext w) = ((Some y0, None), wd_ext w') \<and> y = y0\<lparr>so_type := t\<rparr>"
  using assms by (cases w) (auto simp: obj_call_def split: prod.splits option.splits)

lemma frozen_csi_calls [keeps_intros]:
  "keeps (frozen w0) (ptr_call f)" "keeps (frozen w0) (out_call h)" "keeps (frozen w0) (load p)" "keeps (frozen w0) (Intn cx n)"
  "keeps (frozen w0) (list_index xs i)" "keeps (frozen w0) (unix_text cx)"
  by (auto simp: keeps_def frozen_def ptr_call_def out_call_def load_def Intn_def list_index_def unix_text_def io_gets_def io_return_def io_panic_def
      split: prod.splits option.splits if_splits)

lemma csi_gaps [simp, keeps_intros, returns_intros]: "(0::int) < 30 * second_ns" "(0::int) < 10 * second_ns"
  by (simp_all add: second_ns_def)

section \<open>Snapshots are ready\<close>

definition ready_seen :: "'x csi_api \<Rightarrow> string \<Rightarrow> string \<Rightarrow> bool" where
  "ready_seen cx name namespace \<longleftrightarrow>
     (\<exists>x snap restoreSize. fst (cx_GetSnapshot cx name namespace x) = (Some snap, None) \<and> cs_Status snap = Some (Some True, restoreSize))"

definition taken :: "'x csi_api \<Rightarrow> string \<Rightarrow> string \<Rightarrow> string \<Rightarrow> csi_snapshot \<Rightarrow> bool" where
  "taken cx namespace class pvc snap \<longleftrightarrow>
     (\<exists>name x. fst (cx_CreateSnapshot cx \<lparr>cs_Name = name, cs_Namespace = namespace, cs_Claim = Some pvc, cs_Class = Some class,
        cs_Status = None\<rparr> x) = (Some snap, None)) \<and>
     ready_seen cx (cs_Name snap) namespace"

lemma wait_ready: "waitForCsiSnapToBeReady api cx name namespace w = Some (Inr u, w') \<Longrightarrow> ready_seen cx name namespace"
proof -
  assume "waitForCsiSnapToBeReady api cx name namespace w = Some (Inr u, w')"
  then obtain snap w1 w0 where "snap_ready_attempt cx name namespace w0 = Some (Inr snap, w1)"
    unfolding waitForCsiSnapToBeReady_def io_bind_Inr by (auto dest: io_poll_Inr [OF k8s_gaps(1)])
  then show ?thesis
    by (auto simp: snap_ready_attempt_def ready_seen_def Let_def io_bind_Inr call_results split: option.splits if_splits) (metis fst_conv)
qed

lemma snapshot_taken: "CreateCsiSnapshot api cx name namespace class pvc w = Some (Inr snap, w') \<Longrightarrow> taken cx namespace class pvc snap"
  by (auto simp: CreateCsiSnapshot_def taken_def io_bind_Inr io_catch_Inr call_results intro: wait_ready) (metis fst_conv)

lemma snapshots_match:
  assumes "snapshots_of_claim cx namespace pvcName names acc w = Some (Inr snaps, w')"
  shows "\<exists>new. snaps = acc @ new \<and> (\<forall>snap\<in>set new. cs_Claim snap = Some pvcName \<and>
    (\<exists>name\<in>set names. \<exists>x. fst (cx_GetSnapshot cx name namespace x) = (Some snap, None)))"
  using assms
proof (induction names arbitrary: acc w)
  case (Cons name names)
  from Cons.prems obtain r w1 where r: "ptr_call (cx_GetSnapshot cx name namespace) w = Some (r, w1)"
    "(case r of Inl _ \<Rightarrow> snapshots_of_claim cx namespace pvcName names acc
      | Inr snap \<Rightarrow> io_bind (load (cs_Claim snap)) (\<lambda>claim. snapshots_of_claim cx namespace pvcName names
          (if claim = pvcName then acc @ [snap] else acc))) w1 = Some (Inr snaps, w')"
    by (auto simp: io_bind_Inr)
  show ?case
  proof (cases r)
    case (Inl err)
    with Cons.IH [of acc w1] r(2) show ?thesis
      by auto
  next
    case (Inr snap)
    with r obtain claim where claim: "cs_Claim snap = Some claim"
      "snapshots_of_claim cx namespace pvcName names (if claim = pvcName then acc @ [snap] else acc) w1 = Some (Inr snaps, w')"
      by (auto simp: io_bind_Inr call_results)
    have "fst (cx_GetSnapshot cx name namespace (wd_ext w)) = (Some snap, None)"
      using r(1) Inr by (simp add: call_results)
    with claim Cons.IH [OF claim(2)] show ?thesis
      by (cases "claim = pvcName") auto
  qed
qed simp

definition snapshot_of :: "'x csi_api \<Rightarrow> string \<Rightarrow> string \<Rightarrow> csi_snapshot \<Rightarrow> bool" where
  "snapshot_of cx namespace pvcName snap \<longleftrightarrow>
     cs_Claim snap = Some pvcName \<and> (\<exists>name x. fst (cx_GetSnapshot cx name namespace x) = (Some snap, None))"

lemma listed_snapshots:
  "GetCsiSnapshots va cx namespace pvcName w = Some (Inr snaps, w') \<Longrightarrow> \<forall>snap\<in>set snaps. snapshot_of cx namespace pvcName snap"
  by (auto simp: GetCsiSnapshots_def snapshot_of_def io_bind_Inr io_catch_Inr dest!: snapshots_match) blast

section \<open>The claims that an operation visits\<close>

text \<open>
  What a successful loop over the claims has done, without the worlds in between: which claims were read for an
  object, and in which order the steps ran on them.
\<close>

definition filtered_out :: "K8s \<Rightarrow> 'x vol_api \<Rightarrow> spec_obj option \<Rightarrow> bool" where
  "filtered_out k va claim \<longleftrightarrow> k_PureVolumes k \<and> (\<exists>x sc. fst (va_ClassForPVC va claim x) = Inr sc \<and>
     map_of (sc_Parameters (so_Class sc)) ''backend'' \<noteq> Some PureBlock)"

definition claims_read :: "'x k8s_api \<Rightarrow> spec_obj \<Rightarrow> spec_obj option list \<Rightarrow> bool" where
  "claims_read api obj claims \<longleftrightarrow>
     (if so_type obj = PersistentVolumeClaim then
        (\<exists>x. claims = [map_option (so_type_update (\<lambda>_. PersistentVolumeClaim)) (fst (fst (api_Get api PersistentVolumeClaim (so_Name obj) (so_Namespace obj) x)))])
      else if so_type obj = StatefulSet then
        (\<exists>ss x y pvcs. fst (api_Get api StatefulSet (so_Name obj) (so_Namespace obj) x) = (Some ss, None) \<and>
           fst (api_ClaimsOf api (ss\<lparr>so_type := StatefulSet\<rparr>) y) = Inr (Some pvcs) \<and> claims = map Some pvcs)
      else claims = [])"

lemma claims_read_set:
  assumes "so_type obj = StatefulSet" "fst (api_Get api StatefulSet (so_Name obj) (so_Namespace obj) x) = (Some ss, None)"
    and "fst (api_ClaimsOf api (ss\<lparr>so_type := StatefulSet\<rparr>) y) = Inr (Some pvcs)"
  shows "claims_read api obj (map Some pvcs)"
proof -
  have "so_type obj \<noteq> PersistentVolumeClaim"
    using assms(1) by simp
  then show ?thesis
    unfolding claims_read_def if_not_P [OF \<open>so_type obj \<noteq> PersistentVolumeClaim\<close>] if_P [OF assms(1)]
    using assms(2,3) by (intro exI conjI) (assumption | rule refl)+
qed

fun visits :: "K8s \<Rightarrow> 'x vol_api \<Rightarrow> ('x, 'a) claim_step \<Rightarrow> string \<Rightarrow> spec_obj option list \<Rightarrow> 'a \<Rightarrow> 'a \<Rightarrow> bool" where
  "visits k va step namespace [] acc acc' \<longleftrightarrow> acc' = acc"
| "visits k va step namespace (c # cs) acc acc' \<longleftrightarrow>
     (\<exists>okay acc1 w w1. (okay \<or> filtered_out k va c) \<and> step okay c namespace acc w = Some (Inr acc1, w1) \<and>
        visits k va step namespace cs acc1 acc')"

fun app_visits ::
  "K8s \<Rightarrow> 'x k8s_api \<Rightarrow> 'x vol_api \<Rightarrow> ('a \<Rightarrow> 'a) \<Rightarrow> ('x, 'a) claim_step \<Rightarrow> spec_obj list \<Rightarrow> 'a \<Rightarrow> 'a \<Rightarrow> bool" where
  "app_visits k api va enter step [] acc acc' \<longleftrightarrow> acc' = acc"
| "app_visits k api va enter step (obj # objs) acc acc' \<longleftrightarrow>
     (\<exists>cs acc1. claims_read api obj cs \<and> visits k va step (so_Namespace obj) cs (enter acc) acc1 \<and>
        app_visits k api va enter step objs acc1 acc')"

lemma block_backend: "(case b of None \<Rightarrow> False | Some backend \<Rightarrow> list_ex (\<lambda>voltype. backend = voltype) [PureBlock]) \<longleftrightarrow> b = Some PureBlock"
  by (cases b) auto

lemma block_claim_visits:
  assumes "block_claim k va step namespace c acc w = Some (Inr acc1, w1)" "visits k va step namespace cs acc1 acc'"
  shows "visits k va step namespace (c # cs) acc acc'"
proof -
  from assms(1) obtain okay w0 where okay: "filterPureTypeVolumeIfEnabled k va c [PureBlock] w = Some (Inr okay, w0)"
      "step okay c namespace acc w0 = Some (Inr acc1, w1)"
    by (auto simp: block_claim_def io_bind_Inr)
  have "filtered_out k va c" if "\<not> okay"
  proof -
    from okay(1) that obtain sc where "k_PureVolumes k" "fst (va_ClassForPVC va c (wd_ext w)) = Inr sc"
        "map_of (sc_Parameters (so_Class sc)) ''backend'' \<noteq> Some PureBlock"
      by (auto simp: filterPureTypeVolumeIfEnabled_def io_bind_Inr call_results block_backend split: if_splits)
    then show ?thesis
      unfolding filtered_out_def by blast
  qed
  with okay(2) assms(2) show ?thesis
    by auto
qed

lemma block_claims_visits:
  "block_claims k va step namespace pvcs acc w = Some (Inr acc', w') \<Longrightarrow> visits k va step namespace (map Some pvcs) acc acc'"
proof (induction pvcs arbitrary: acc w)
  case (Cons pvc pvcs)
  then obtain acc1 w1 where "block_claim k va step namespace (Some pvc) acc w = Some (Inr acc1, w1)"
      "block_claims k va step namespace pvcs acc1 w1 = Some (Inr acc', w')"
    by (auto simp: io_bind_Inr)
  with Cons.IH [OF this(2)] show ?case
    unfolding list.map by (intro block_claim_visits)
qed simp

lemma call_case:
  assumes "m w = Some (r, w1)"
  obtains (error) err where "r = Inl err" "m w = Some (Inl err, w1)" | (result) y where "r = Inr y" "m w = Some (Inr y, w1)"
  using assms by (cases r) auto

lemma claims_of_Inr: "claims_of api ss e w = Some (Inr pvcs, w') \<Longrightarrow> fst (api_ClaimsOf api ss (wd_ext w)) = Inr (Some pvcs)"
  unfolding claims_of_def io_bind_Inr io_try_Inr
  by (elim exE conjE, erule call_case) (auto simp: call_results split: option.split_asm)

lemma spec_claims_visits:
  assumes "spec_claims k api va e step obj acc w = Some (Inr acc', w')"
  shows "\<exists>cs. claims_read api obj cs \<and> visits k va step (so_Namespace obj) cs acc acc'"
proof -
  consider (claim) "so_type obj = PersistentVolumeClaim" | (set) "so_type obj = StatefulSet"
    | (other) "so_type obj \<noteq> PersistentVolumeClaim" "so_type obj \<noteq> StatefulSet"
    by blast
  then show ?thesis
  proof cases
    case claim
    with assms obtain p err w1 where p: "raw_call PersistentVolumeClaim (api_Get api PersistentVolumeClaim (so_Name obj) (so_Namespace obj)) w = Some (Inr (p, err), w1)"
        "block_claim k va step (so_Namespace obj) p acc w1 = Some (Inr acc', w')"
      by (auto simp: spec_claims_def io_bind_Inr)
    have "claims_read api obj [p]"
      using p(1) claim by (auto simp: claims_read_def raw_call_def split: prod.splits) (metis fst_conv)
    with block_claim_visits [OF p(2), of "[]"] show ?thesis
      by (intro exI [of _ "[p]"]) simp
  next
    case set
    with assms obtain ss w1 pvcs w2 where ss: "obj_call StatefulSet (api_Get api StatefulSet (so_Name obj) (so_Namespace obj)) w = Some (Inr ss, w1)"
        "claims_of api ss (ce_claims e obj ss) w1 = Some (Inr pvcs, w2)"
        "block_claims k va step (so_Namespace obj) pvcs acc w2 = Some (Inr acc', w')"
      by (auto simp: spec_claims_def io_bind_Inr call_results)
    obtain s0 where s0: "fst (api_Get api StatefulSet (so_Name obj) (so_Namespace obj) (wd_ext w)) = (Some s0, None)" "ss = s0\<lparr>so_type := StatefulSet\<rparr>"
      using obj_call_Inr [OF ss(1)] by auto
    have "claims_read api obj (map Some pvcs)"
      by (rule claims_read_set [OF set s0(1)]) (use claims_of_Inr [OF ss(2)] s0(2) in simp)
    then show ?thesis
      using block_claims_visits [OF ss(3)] by (intro exI conjI)
  next
    case other
    with assms have "claims_read api obj []" "visits k va step (so_Namespace obj) [] acc acc'"
      by (simp_all add: spec_claims_def claims_read_def)
    then show ?thesis
      by (intro exI conjI)
  qed
qed

lemma frozen_filter [keeps_intros]: "keeps (frozen w0) (filterPureTypeVolumeIfEnabled k va c types)"
  unfolding filterPureTypeVolumeIfEnabled_def by (intro keeps_intros keeps_shapes)

lemma frozen_spec_claims [keeps_intros]:
  assumes "\<And>okay c namespace acc. keeps (frozen w0) (step okay c namespace acc)"
  shows "keeps (frozen w0) (spec_claims k api va e step obj acc)"
proof -
  have one: "keeps (frozen w0) (block_claim k va step namespace c acc)" for namespace c acc
    unfolding block_claim_def by (intro keeps_intros assms)
  have "keeps (frozen w0) (block_claims k va step namespace pvcs acc)" for namespace pvcs acc
    by (induction pvcs arbitrary: acc) (simp, intro keeps_intros, simp, intro keeps_intros one, simp)
  then show ?thesis
    unfolding spec_claims_def claims_of_def by (intro keeps_intros keeps_shapes one)
qed

lemma app_claims_visits:
  assumes keeps: "\<And>okay c namespace acc. keeps (frozen w0) (step okay c namespace acc)"
    and "frozen w0 w" "app_claims k api va e enter step ps acc w = Some (Inr acc', w')"
  shows "app_visits k api va enter step (map (wd_heap w0) ps) acc acc'"
  using assms(2,3)
proof (induction ps arbitrary: acc w)
  case (Cons p ps)
  then obtain acc1 w1 where s: "spec_claims k api va e step (wd_heap w0 p) (enter acc) w = Some (Inr acc1, w1)"
      "app_claims k api va e enter step ps acc1 w1 = Some (Inr acc', w')"
    by (auto simp: io_bind_Inr frozenD)
  have "frozen w0 w1"
    by (rule keepsD [OF frozen_spec_claims [OF keeps] s(1) Cons.prems(1)])
  with Cons.IH [OF _ s(2)] spec_claims_visits [OF s(1)] show ?case
    by auto
qed simp

section \<open>What the operations do\<close>

text \<open>An entry of the map of snapshots: it was taken of a claim of that volume, with the class that was asked for.\<close>

definition snap_entry :: "'x csi_api \<Rightarrow> string \<Rightarrow> string \<times> csi_snapshot option \<Rightarrow> bool" where
  "snap_entry cx snapClass entry \<longleftrightarrow> (case entry of (volumeName, snap) \<Rightarrow>
     \<exists>(pvc :: spec_obj) namespace s. snap = Some s \<and> cl_VolumeName (so_Claim pvc) = volumeName \<and> taken cx namespace snapClass (so_Name pvc) s)"

text \<open>A claim that was read has its volume in the map, or the filter left it out.\<close>

definition claim_snapped :: "K8s \<Rightarrow> 'x vol_api \<Rightarrow> vol_snaps \<Rightarrow> spec_obj option \<Rightarrow> bool" where
  "claim_snapped k va volSnapMap claim \<longleftrightarrow> filtered_out k va claim \<or>
     (\<exists>pvc. claim = Some pvc \<and> gm_has volSnapMap (cl_VolumeName (so_Claim pvc)))"

lemma create_step:
  assumes "create_snap_step api cx snapClass okay c namespace m w = Some (Inr m', w')"
  shows "(\<not> okay \<and> m' = m) \<or> (\<exists>pvc s. c = Some pvc \<and> m' = gm_put (cl_VolumeName (so_Claim pvc)) (Some s) m \<and>
    taken cx namespace snapClass (so_Name pvc) s)"
  using assms by (auto simp: create_snap_step_def io_bind_Inr call_results dest: snapshot_taken split: if_splits)

lemma create_visits:
  assumes "visits k va (create_snap_step api cx snapClass) namespace cs m m'"
  shows "(list_all (snap_entry cx snapClass) m \<longrightarrow> list_all (snap_entry cx snapClass) m') \<and> (\<forall>key. gm_has m key \<longrightarrow> gm_has m' key) \<and>
    list_all (claim_snapped k va m') cs"
  using assms
proof (induction cs arbitrary: m)
  case (Cons c cs)
  then obtain okay m1 w w1 where step: "okay \<or> filtered_out k va c" "create_snap_step api cx snapClass okay c namespace m w = Some (Inr m1, w1)"
      "visits k va (create_snap_step api cx snapClass) namespace cs m1 m'"
    by auto
  note rest = Cons.IH [OF step(3)]
  from create_step [OF step(2)] show ?case
  proof (elim disjE conjE exE, goal_cases)
    case 1
    with rest step(1) show ?case
      by (simp add: claim_snapped_def)
  next
    case (2 pvc s)
    have "list_all (snap_entry cx snapClass) m1" if "list_all (snap_entry cx snapClass) m"
      unfolding 2(2) by (rule list_all_put [OF that]) (use 2(3) in \<open>auto simp: snap_entry_def\<close>)
    moreover have "gm_has m1 (cl_VolumeName (so_Claim pvc))" "gm_has m key \<Longrightarrow> gm_has m1 key" for key
      by (auto simp: 2(2) gm_has_def)
    ultimately show ?case
      using rest 2(1) by (simp add: claim_snapped_def)
  qed
qed simp

lemma create_app_visits:
  assumes "app_visits k api va id (create_snap_step api cx snapClass) objs m m'"
  shows "(list_all (snap_entry cx snapClass) m \<longrightarrow> list_all (snap_entry cx snapClass) m') \<and> (\<forall>key. gm_has m key \<longrightarrow> gm_has m' key) \<and>
    list_all (\<lambda>obj. \<exists>cs. claims_read api obj cs \<and> list_all (claim_snapped k va m') cs) objs"
  using assms
proof (induction objs arbitrary: m)
  case (Cons obj objs)
  obtain cs m1 where read: "claims_read api obj cs" "visits k va (create_snap_step api cx snapClass) (so_Namespace obj) cs m m1"
      "app_visits k api va id (create_snap_step api cx snapClass) objs m1 m'"
    using Cons.prems unfolding app_visits.simps id_apply by blast
  note one = create_visits [OF read(2)] and rest = Cons.IH [OF read(3)]
  have "claim_snapped k va m' c" if "c \<in> set cs" for c
    using one rest that unfolding claim_snapped_def list_all_iff by blast
  with read(1) have "\<exists>cs. claims_read api obj cs \<and> list_all (claim_snapped k va m') cs"
    by (intro exI [of _ cs]) (simp add: list_all_iff)
  with one rest show ?case
    unfolding list.pred_inject(2) by blast
qed simp

lemma frozen_waits [keeps_intros]:
  "keeps (frozen w0) (waitForCsiSnapToBeReady api cx name namespace)" "keeps (frozen w0) (ValidateCsiRestore api cx name namespace timeout)"
  unfolding waitForCsiSnapToBeReady_def snap_ready_attempt_def ValidateCsiRestore_def csi_restore_attempt_def
  by (intro keeps_intros keeps_shapes; simp)+

lemma frozen_snapshots [keeps_intros]:
  "keeps (frozen w0) (CreateCsiSnapshot api cx name namespace class pvc)" "keeps (frozen w0) (GetCsiSnapshots va cx namespace pvc)"
proof -
  have "keeps (frozen w0) (snapshots_of_claim cx namespace pvc names acc)" for names acc
    by (induction names arbitrary: acc) (simp, intro keeps_intros, simp, intro keeps_intros keeps_shapes, auto)
  then show "keeps (frozen w0) (CreateCsiSnapshot api cx name namespace class pvc)" "keeps (frozen w0) (GetCsiSnapshots va cx namespace pvc)"
    unfolding CreateCsiSnapshot_def GetCsiSnapshots_def by (intro keeps_intros)+
qed

lemma frozen_snap_steps [keeps_intros]:
  "keeps (frozen w0) (create_snap_step api cx snapClass okay c namespace m)"
  "keeps (frozen w0) (restore_step api va cx ctx scMap okay c namespace acc)"
  unfolding create_snap_step_def restore_step_def restoreAndValidate_def restoreCsiSnapshot_def
  by (intro keeps_intros keeps_shapes)+


text \<open>A claim that was restored: it was created from a snapshot of the claim with the given name, with the size of
  the snapshot, and was seen in a phase other than pending.\<close>

definition restored_from :: "'x csi_api \<Rightarrow> string \<Rightarrow> spec_obj \<Rightarrow> bool" where
  "restored_from cx name r \<longleftrightarrow> (\<exists>namespace snap ready spec x r0 y phase.
     snapshot_of cx namespace name snap \<and> cs_Status snap = Some (ready, Some (cp_Request spec)) \<and>
     cp_DataSource spec = Some (Some SnapshotAPIGroup, VolumeSnapshotKind, cs_Name snap) \<and>
     fst (cx_CreateClaim cx spec x) = (Some r0, None) \<and> r = r0\<lparr>so_type := PersistentVolumeClaim\<rparr> \<and>
     fst (cx_CoreClaimPhase cx (so_Name r) namespace y) = Inr phase \<and> phase \<noteq> ''Pending'')"

lemma restore_validated:
  assumes "ValidateCsiRestore api cx name namespace timeout w = Some (Inr u, w')"
  shows "\<exists>y phase. fst (cx_CoreClaimPhase cx name namespace y) = Inr phase \<and> phase \<noteq> ''Pending''"
proof -
  obtain w0 where "csi_restore_attempt cx name namespace w0 = Some (Inr u, w')"
    using io_poll_Inr [OF k8s_gaps(1) assms [unfolded ValidateCsiRestore_def]] by blast
  then obtain phase w1 where "cx_CoreClaimPhase cx name namespace (wd_ext w0) = (Inr phase, w1)" "phase \<noteq> ''Pending''"
    by (auto simp: csi_restore_attempt_def io_bind_Inr io_catch_Inr call_results split: if_splits)
  then have "fst (cx_CoreClaimPhase cx name namespace (wd_ext w0)) = Inr phase" "phase \<noteq> ''Pending''"
    by simp_all
  then show ?thesis
    by blast
qed

lemma restore_request:
  assumes "restoreCsiSnapshot cx name pvc snap sc w = Some (Inr r, w')"
  obtains ready spec where "cs_Status snap = Some (ready, Some (cp_Request spec))"
    "cp_DataSource spec = Some (Some SnapshotAPIGroup, VolumeSnapshotKind, cs_Name snap)"
    "obj_call PersistentVolumeClaim (cx_CreateClaim cx spec) w = Some (Inr r, w')"
proof -
  from assms obtain ready n and sc1 :: spec_obj where st: "cs_Status snap = Some (ready, Some n)"
    and call: "obj_call PersistentVolumeClaim (cx_CreateClaim cx \<lparr>cp_Name = name, cp_Namespace = so_Namespace pvc,
         cp_AccessModes = cl_AccessModes (so_Claim pvc), cp_Request = n, cp_StorageClassName = so_Name sc1,
         cp_VolumeMode = None, cp_DataSource = Some (Some SnapshotAPIGroup, VolumeSnapshotKind, cs_Name snap)\<rparr>) w = Some (Inr r, w')"
    by (auto simp: restoreCsiSnapshot_def io_bind_Inr call_results through_def split: option.splits)
  show ?thesis
    by (rule that [OF _ _ call]) (simp_all add: st)
qed

lemma restored:
  assumes "restoreAndValidate api va cx ctx pvc namespace sc w = Some (Inr r, w')"
  shows "restored_from cx (so_Name pvc) r"
proof -
  from assms obtain snaps w1 i w2 w3 where snaps: "GetCsiSnapshots va cx namespace (so_Name pvc) w = Some (Inr snaps, w1)" "i < length snaps"
      "restoreCsiSnapshot cx (so_Name pvc @ ''-restore'') pvc (snaps ! i) sc w2 = Some (Inr r, w3)"
      "\<exists>u. ValidateCsiRestore api cx (so_Name r) namespace k8s_DefaultTimeout w3 = Some (Inr u, w')"
    by (auto simp: restoreAndValidate_def io_bind_Inr call_results split: if_splits)
  have snap: "snapshot_of cx namespace (so_Name pvc) (snaps ! i)"
    using listed_snapshots [OF snaps(1)] snaps(2) by simp
  obtain ready spec where "cs_Status (snaps ! i) = Some (ready, Some (cp_Request spec))"
      "cp_DataSource spec = Some (Some SnapshotAPIGroup, VolumeSnapshotKind, cs_Name (snaps ! i))"
      "obj_call PersistentVolumeClaim (cx_CreateClaim cx spec) w2 = Some (Inr r, w3)"
    by (rule restore_request [OF snaps(3)])
  moreover from obj_call_Inr [OF this(3)] obtain r0 where "fst (cx_CreateClaim cx spec (wd_ext w2)) = (Some r0, None)"
      "r = r0\<lparr>so_type := PersistentVolumeClaim\<rparr>"
    by auto
  moreover obtain y phase where "fst (cx_CoreClaimPhase cx (so_Name r) namespace y) = Inr phase" "phase \<noteq> ''Pending''"
    using snaps(4) restore_validated by blast
  ultimately show ?thesis
    unfolding restored_from_def using snap by (intro exI conjI)
qed

definition restore_entry :: "K8s \<Rightarrow> 'x vol_api \<Rightarrow> 'x csi_api \<Rightarrow> string \<times> spec_obj \<Rightarrow> bool" where
  "restore_entry k va cx entry \<longleftrightarrow> (case entry of (name, r) \<Rightarrow>
     restored_from cx name r \<or> (\<exists>pvc. so_Name pvc = name \<and> filtered_out k va (Some pvc)))"

definition claim_listed :: "(string, spec_obj) gomap \<Rightarrow> spec_obj option \<Rightarrow> bool" where
  "claim_listed m claim \<longleftrightarrow> (\<exists>pvc. claim = Some pvc \<and> gm_has m (so_Name pvc))"

lemma restore_step_entry:
  assumes "okay \<or> filtered_out k va c" "restore_step api va cx ctx scMap okay c namespace (old, m) w = Some (Inr acc', w')"
  shows "\<exists>pvc r. c = Some pvc \<and> acc' = (Some r, gm_put (so_Name pvc) r m) \<and> restore_entry k va cx (so_Name pvc, r)"
proof (cases okay)
  case True
  with assms(2) obtain pvc r w1 where "c = Some pvc" "restoreAndValidate api va cx ctx pvc namespace (gm_index None scMap PureBlock) w = Some (Inr r, w1)"
      "acc' = (Some r, gm_put (so_Name pvc) r m)"
    by (auto simp: restore_step_def io_bind_Inr call_results through_def split: option.splits)
  with restored [OF this(2)] show ?thesis
    by (simp add: restore_entry_def)
next
  case False
  with assms obtain pvc r where "c = Some pvc" "filtered_out k va (Some pvc)" "acc' = (Some r, gm_put (so_Name pvc) r m)"
    by (auto simp: restore_step_def io_bind_Inr call_results)
  then show ?thesis
    by (auto simp: restore_entry_def)
qed

lemma restore_visits:
  assumes "visits k va (restore_step api va cx ctx scMap) namespace cs acc acc'"
  shows "(list_all (restore_entry k va cx) (snd acc) \<longrightarrow> list_all (restore_entry k va cx) (snd acc')) \<and>
    (\<forall>key. gm_has (snd acc) key \<longrightarrow> gm_has (snd acc') key) \<and> list_all (claim_listed (snd acc')) cs"
  using assms
proof (induction cs arbitrary: acc)
  case (Cons c cs)
  obtain old m where acc: "acc = (old, m)"
    by (cases acc)
  from Cons.prems obtain okay acc1 w w1 where step: "okay \<or> filtered_out k va c"
      "restore_step api va cx ctx scMap okay c namespace (old, m) w = Some (Inr acc1, w1)"
      "visits k va (restore_step api va cx ctx scMap) namespace cs acc1 acc'"
    unfolding acc visits.simps by blast
  note rest = Cons.IH [OF step(3)]
  obtain pvc r where one: "c = Some pvc" "acc1 = (Some r, gm_put (so_Name pvc) r m)" "restore_entry k va cx (so_Name pvc, r)"
    using restore_step_entry [OF step(1,2)] by blast
  have "list_all (restore_entry k va cx) (snd acc1)" if "list_all (restore_entry k va cx) m"
    unfolding one(2) snd_conv by (rule list_all_put [OF that one(3)])
  moreover have "gm_has (snd acc1) (so_Name pvc)" "gm_has m key \<Longrightarrow> gm_has (snd acc1) key" for key
    by (auto simp: one(2) gm_has_def)
  ultimately show ?case
    using rest one(1) by (simp add: acc claim_listed_def)
qed simp

lemma restore_app_visits:
  assumes "app_visits k api va (\<lambda>(_, m). (None, m)) (restore_step api va cx ctx scMap) objs acc acc'"
  shows "(list_all (restore_entry k va cx) (snd acc) \<longrightarrow> list_all (restore_entry k va cx) (snd acc')) \<and>
    (\<forall>key. gm_has (snd acc) key \<longrightarrow> gm_has (snd acc') key) \<and>
    list_all (\<lambda>obj. \<exists>cs. claims_read api obj cs \<and> list_all (claim_listed (snd acc')) cs) objs"
  using assms
proof (induction objs arbitrary: acc)
  case (Cons obj objs)
  obtain cs acc1 where read: "claims_read api obj cs"
      "visits k va (restore_step api va cx ctx scMap) (so_Namespace obj) cs (case acc of (_, m) \<Rightarrow> (None, m)) acc1"
      "app_visits k api va (\<lambda>(_, m). (None, m)) (restore_step api va cx ctx scMap) objs acc1 acc'"
    using Cons.prems unfolding app_visits.simps by blast
  have "snd (case acc of (_, m) \<Rightarrow> (None, m)) = snd acc"
    by (simp split: prod.split)
  note one = restore_visits [OF read(2), unfolded this] and rest = Cons.IH [OF read(3)]
  have "claim_listed (snd acc') c" if "c \<in> set cs" for c
    using one rest that unfolding claim_listed_def list_all_iff by blast
  with read(1) have "\<exists>cs. claims_read api obj cs \<and> list_all (claim_listed (snd acc')) cs"
    by (intro exI [of _ cs]) (simp add: list_all_iff)
  with one rest show ?case
    unfolding list.pred_inject(2) by blast
qed simp

text \<open>C11: After a successful \<open>RestoreCsiSnapAndValidate\<close> every claim that was read for the application has an entry in the map, and every entry is a claim that was created from a snapshot of the claim it is listed under, with the size of the snapshot, and that was then seen in a phase other than pending. The exception is a claim that the filter for block volumes left out: its entry is some other claim.\<close>

theorem claims_restored:
  "case RestoreCsiSnapAndValidate k api va cx ctx scMap w of
     Some (Inr m, _) \<Rightarrow> list_all (restore_entry k va cx) m \<and>
       list_all (\<lambda>p. \<exists>claims. claims_read api (wd_heap w p) claims \<and> list_all (claim_listed m) claims) (SpecList (ctx_App ctx))
   | _ \<Rightarrow> True"
proof (rule on_success, goal_cases)
  case (1 m w')
  then obtain resPvc where run: "app_claims k api va (app_errors ctx ErrFailedToRestore) (\<lambda>(_, m). (None, m)) (restore_step api va cx ctx scMap)
       (SpecList (ctx_App ctx)) (None, []) w = Some (Inr (resPvc, m), w')"
    by (auto simp: RestoreCsiSnapAndValidate_def io_bind_Inr)
  have "app_visits k api va (\<lambda>(_, m). (None, m)) (restore_step api va cx ctx scMap) (map (wd_heap w) (SpecList (ctx_App ctx))) (None, []) (resPvc, m)"
    by (rule app_claims_visits [OF frozen_snap_steps(2) frozen_refl run])
  from restore_app_visits [OF this] show ?case
    by (simp add: list_all_iff)
qed

text \<open>The claim of a spec that the filter leaves out makes the call panic: its restored claim is nil.\<close>

lemma restore_panics:
  assumes "SpecList (ctx_App ctx) = p # ps" "so_type (wd_heap w p) = PersistentVolumeClaim" "k_PureVolumes k"
    and "api_Get api PersistentVolumeClaim (so_Name (wd_heap w p)) (so_Namespace (wd_heap w p)) (wd_ext w) = ((Some pvc, err), x)"
    and "va_ClassForPVC va (Some (pvc\<lparr>so_type := PersistentVolumeClaim\<rparr>)) x = (Inr sc, y)"
    and "map_of (sc_Parameters (so_Class sc)) ''backend'' = None"
  shows "RestoreCsiSnapAndValidate k api va cx ctx scMap w = None"
  using assms by (simp add: RestoreCsiSnapAndValidate_def spec_claims_def io_bind_assoc)
    (simp add: io_bind_def raw_call_def block_claim_def filterPureTypeVolumeIfEnabled_def ext_call_def restore_step_def load_def io_return_def io_panic_def)

section \<open>Data survive\<close>

text \<open>The data were read in the pod: exactly from a block device, or as a part of the file on a file system.\<close>

definition content_seen :: "'x csi_api \<Rightarrow> string \<Rightarrow> string \<Rightarrow> spec_obj \<Rightarrow> kube_pod \<Rightarrow> bool" where
  "content_seen cx data namespace claim pod \<longleftrightarrow>
     (if cl_VolumeMode (so_Claim claim) = Some ''Block'' then
        (\<exists>x. fst (cx_RunCommandInPod cx [''/bin/sh'', ''-c'', ''dd if='' @ fst (GetAppDataDir (pod_Namespace pod)) @ '' status=none bs=38 count=1 skip=0'']
           (pod_Name pod) (pod_Namespace pod) x) = (data, None))
      else (\<exists>x content. fst (cx_kubectl cx [''exec'', ''-it'', pod_Name pod, ''-n'', namespace, ''--'', ''bin/cat'', ''/mnt/volume1/aaaa.txt''] x) =
           (content, None) \<and> Contains_str content data))"

text \<open>A claim that was bound and mounted in a pod that ran and had the data.\<close>

definition mounted :: "'x csi_api \<Rightarrow> string \<Rightarrow> string \<Rightarrow> string \<Rightarrow> spec_obj \<Rightarrow> kube_pod \<Rightarrow> bool" where
  "mounted cx data namespace name claim pod \<longleftrightarrow>
     (\<exists>x. fst (cx_ClaimPhase cx name (so_Namespace claim) x) = Inr ''Bound'') \<and>
     (\<exists>x. fst (cx_CreatePod cx namespace (MakePod namespace [claim] ''ls'' False) x) = Inr pod) \<and>
     (\<exists>x. fst (cx_PodPhase cx (pod_Name pod) namespace x) = Inr ''Running'') \<and>
     content_seen cx data namespace claim pod"

lemma bound_seen:
  assumes "WaitForSinglePVCToBound api cx name namespace timeout w = Some (Inr u, w')"
  shows "\<exists>x. fst (cx_ClaimPhase cx name namespace x) = Inr ''Bound''"
proof -
  obtain w1 where poll: "io_poll (clock api) (claim_bound cx name namespace name) (int64_of (bound_limit timeout * minute_ns)) (30 * second_ns) w1 = Some (Inr u, w')"
    using assms by (auto simp: WaitForSinglePVCToBound_def io_bind_Inr)
  obtain w0 where "claim_bound cx name namespace name w0 = Some (Inr u, w')"
    using io_poll_Inr [OF csi_gaps(1) poll] by blast
  then have "fst (cx_ClaimPhase cx name namespace (wd_ext w0)) = Inr ''Bound''"
    by (auto simp: claim_bound_def io_bind_Inr call_results split: if_splits)
  then show ?thesis
    by (intro exI [of _ "wd_ext w0"])
qed

lemma running_seen:
  assumes "waitForPodToBeReady api cx name namespace w = Some (Inr u, w')"
  shows "\<exists>x. fst (cx_PodPhase cx name namespace x) = Inr ''Running''"
proof -
  obtain w1 where poll: "io_poll (clock api) (pod_ready_attempt cx name namespace) k8sPodCreateTimeout k8s_DefaultRetryInterval w1 = Some (Inr u, w')"
    using assms by (auto simp: waitForPodToBeReady_def io_bind_Inr)
  obtain w0 where "pod_ready_attempt cx name namespace w0 = Some (Inr u, w')"
    using io_poll_Inr [OF k8s_gaps(1) poll] by blast
  then have "fst (cx_PodPhase cx name namespace (wd_ext w0)) = Inr ''Running''"
    by (auto simp: pod_ready_attempt_def io_bind_Inr call_results split: if_splits)
  then show ?thesis
    by (intro exI [of _ "wd_ext w0"])
qed

lemma content_checked:
  assumes "check_content cx what data claim pod namespace w = Some (Inr u, w')"
  shows "content_seen cx data namespace claim pod"
proof (cases "cl_VolumeMode (so_Claim claim) = Some ''Block''")
  case True
  with assms have "fst (cx_RunCommandInPod cx [''/bin/sh'', ''-c'', ''dd if='' @ fst (GetAppDataDir (pod_Namespace pod)) @ '' status=none bs=38 count=1 skip=0'']
       (pod_Name pod) (pod_Namespace pod) (wd_ext w)) = (data, None)"
    by (auto simp: check_content_def readRawBlockDataFromPod_def io_bind_Inr call_results Let_def split: if_splits)
  with True show ?thesis
    unfolding content_seen_def by auto
next
  case False
  with assms obtain content where "fst (cx_kubectl cx [''exec'', ''-it'', pod_Name pod, ''-n'', namespace, ''--'', ''bin/cat'', ''/mnt/volume1/aaaa.txt''] (wd_ext w)) =
      (content, None)" "Contains_str content data"
    by (auto simp: check_content_def readDataFromPod_def io_bind_Inr call_results Let_def split: if_splits)
  with False show ?thesis
    unfolding content_seen_def by auto
qed

lemma mounted_and_checked:
  assumes "mount_and_check api cx ended what data namespace name claim w = Some (Inr u, w')"
  shows "\<exists>pod w0. mounted cx data namespace name claim pod \<and> ended pod w0 = Some (Inr u, w')"
proof -
  from assms obtain u1 w1 pod w2 u2 w3 u3 w4 w5 where run:
      "WaitForSinglePVCToBound api cx name (so_Namespace claim) 0 w = Some (Inr u1, w1)"
      "ext_call (cx_CreatePod cx namespace (MakePod namespace [claim] ''ls'' False)) w1 = Some (Inr pod, w2)"
      "waitForPodToBeReady api cx (pod_Name pod) namespace w2 = Some (Inr u2, w3)"
      "check_content cx what data claim pod namespace w3 = Some (Inr u3, w4)"
      "io_poll (clock api) (ended pod) (2 * minute_ns) k8s_DefaultRetryInterval w5 = Some (Inr u, w')"
    unfolding mount_and_check_def io_bind_Inr failing_with_Inr by (elim exE conjE) (rule that)
  have "\<exists>x. fst (cx_CreatePod cx namespace (MakePod namespace [claim] ''ls'' False) x) = Inr pod"
    using run(2) by (intro exI [of _ "wd_ext w1"]) (simp add: call_results)
  then have "mounted cx data namespace name claim pod"
    unfolding mounted_def using bound_seen [OF run(1)] running_seen [OF run(3)] content_checked [OF run(4)] by (intro conjI)
  with io_poll_Inr [OF k8s_gaps(1) run(5)] show ?thesis
    by blast
qed

text \<open>The data were written to the volume that the pod uses, and later found in a claim made from a ready snapshot of
  that volume; the pod that looked for them is gone.\<close>

definition data_written :: "'x csi_api \<Rightarrow> string \<Rightarrow> spec_obj \<Rightarrow> kube_pod \<Rightarrow> bool" where
  "data_written cx data pvc pod \<longleftrightarrow> (let mountPath = fst (GetAppDataDir (pod_Namespace pod)) in
     if cl_VolumeMode (so_Claim pvc) = Some ''Block'' then
       (\<exists>x. snd (fst (cx_RunCommandInPod cx [''/bin/bash'', ''-c'', ''echo -n '' @ [CHR 0x22] @ data @ [CHR 0x22] @ '' >> /tmp/test.txt'']
          (pod_Name pod) (pod_Namespace pod) x)) = None) \<and>
       (\<exists>x. snd (fst (cx_RunCommandInPod cx [''/bin/bash'', ''-c'', ''dd if=/tmp/test.txt of='' @ mountPath @ '' bs=38 count=1 seek=0'']
          (pod_Name pod) (pod_Namespace pod) x)) = None)
     else (\<exists>x. snd (fst (cx_kubectl cx [''exec'', ''-it'', pod_Name pod, ''-n'', pod_Namespace pod, ''--'', ''/bin/sh'', ''-c'',
          ''echo -n '' @ data @ '' >>  '' @ mountPath @ ''/aaaa.txt''] x)) = None))"

definition restore_verified :: "'x csi_api \<Rightarrow> int \<Rightarrow> string \<Rightarrow> string \<Rightarrow> string \<Rightarrow> string \<Rightarrow> string \<Rightarrow> bool" where
  "restore_verified cx bytes data namespace snapClass name original \<longleftrightarrow> (\<exists>snap spec x claim pod y pods.
     taken cx namespace snapClass original snap \<and>
     cp_Request spec = bytes \<and> cp_DataSource spec = Some (Some ''snapshot.storage.k8s.io'', ''VolumeSnapshot'', cs_Name snap) \<and>
     fst (cx_CreateClaim cx spec x) = (Some claim, None) \<and>
     mounted cx data namespace name (claim\<lparr>so_type := PersistentVolumeClaim\<rparr>) pod \<and>
     fst (cx_Pods cx namespace y) = Inr pods \<and> list_all (\<lambda>p. pod_UID p \<noteq> pod_UID pod) pods)"

lemma data_written_type: "data_written cx data (pvc\<lparr>so_type := t\<rparr>) pod \<longleftrightarrow> data_written cx data pvc pod"
  "so_Claim (pvc\<lparr>so_type := t\<rparr>) = so_Claim pvc"
  by (simp_all add: data_written_def)

lemma pod_gone:
  assumes "uid_gone cx namespace pod w = Some (Inr u, w')"
  shows "\<exists>pods. fst (cx_Pods cx namespace (wd_ext w)) = Inr pods \<and> list_all (\<lambda>p. pod_UID p \<noteq> pod_UID pod) pods"
  using assms by (auto simp: uid_gone_def io_bind_Inr call_results list_ex_iff list_all_iff split: if_splits)

lemma snapshot_verified:
  assumes "snapshotAndVerify api cx bytes data snapName namespace storageClass snapClass name original w = Some (Inr u, w')"
  shows "restore_verified cx bytes data namespace snapClass name original"
proof -
  from assms obtain w1 snap w2 w3 mode spec w4 claim w5 where run:
      "CreateCsiSnapshot api cx snapName namespace snapClass original w1 = Some (Inr snap, w2)"
      "(case GeneratePVCRestoreSpec bytes namespace name (cs_Name snap) storageClass of
         Inl err \<Rightarrow> if mode = ''Block'' then io_panic else io_error (Errorf (''failed to build restored PVC Spec: '' @ Error_str err))
       | Inr spec \<Rightarrow> io_return (if mode = ''Block'' then spec\<lparr>cp_VolumeMode := Some mode\<rparr> else spec)) w3 = Some (Inr spec, w4)"
      "obj_call PersistentVolumeClaim (cx_CreateClaim cx spec) w4 = Some (Inr claim, w5)"
      "mount_and_check api cx (uid_gone cx namespace) ''restored'' data namespace name claim w5 = Some (Inr u, w')"
    unfolding snapshotAndVerify_def io_bind_Inr failing_with_Inr by (elim exE conjE) (rule that)
  have spec: "cp_Request spec = bytes" "cp_DataSource spec = Some (Some ''snapshot.storage.k8s.io'', ''VolumeSnapshot'', cs_Name snap)"
    using run(2) by (auto simp: GeneratePVCRestoreSpec_def MakePVC_def split: if_splits)
  obtain claim0 where claim: "fst (cx_CreateClaim cx spec (wd_ext w4)) = (Some claim0, None)" "claim = claim0\<lparr>so_type := PersistentVolumeClaim\<rparr>"
    using obj_call_Inr [OF run(3)] by auto
  obtain pod w0 where pod: "mounted cx data namespace name claim pod" "uid_gone cx namespace pod w0 = Some (Inr u, w')"
    using mounted_and_checked [OF run(4)] by blast
  obtain pods :: "kube_pod list" where "fst (cx_Pods cx namespace (wd_ext w0)) = Inr pods" "list_all (\<lambda>p. pod_UID p \<noteq> pod_UID pod) pods"
    using pod_gone [OF pod(2)] by blast
  with snapshot_taken [OF run(1)] spec claim(1) pod(1) show ?thesis
    unfolding restore_verified_def claim(2) by (intro exI conjI)
qed

lemma ran_in_pod:
  "run_in_pod cx cmd name namespace w = Some (Inr out, w') \<Longrightarrow>
     \<exists>x. snd (fst (cx_RunCommandInPod cx [''/bin/bash'', ''-c'', cmd] name namespace x)) = None"
  by (intro exI [of _ "wd_ext w"]) (auto simp: run_in_pod_def io_bind_Inr call_results)

lemma raw_written:
  assumes "writeRawBlockDataToPod api cx data (pod_Name pod) (pod_Namespace pod) (fst (GetAppDataDir (pod_Namespace pod))) w = Some (Inr u, w')"
    and "cl_VolumeMode (so_Claim pvc) = Some ''Block''"
  shows "data_written cx data pvc pod"
proof -
  from assms(1) obtain o1 w1 o2 w2 where
      "run_in_pod cx (''echo -n '' @ [CHR 0x22] @ data @ [CHR 0x22] @ '' >> /tmp/test.txt'') (pod_Name pod) (pod_Namespace pod) w = Some (Inr o1, w1)"
      "run_in_pod cx (''dd if=/tmp/test.txt of='' @ fst (GetAppDataDir (pod_Namespace pod)) @ '' bs=38 count=1 seek=0'') (pod_Name pod) (pod_Namespace pod) w1 = Some (Inr o2, w2)"
    unfolding writeRawBlockDataToPod_def io_bind_Inr by (elim exE conjE) (rule that)
  from ran_in_pod [OF this(1)] ran_in_pod [OF this(2)] show ?thesis
    unfolding data_written_def Let_def if_P [OF assms(2)] by (rule conjI)
qed

lemma file_written:
  assumes "writeDataToPod api cx data (pod_Name pod) (pod_Namespace pod) (fst (GetAppDataDir (pod_Namespace pod))) w = Some (Inr u, w')"
    and "cl_VolumeMode (so_Claim pvc) \<noteq> Some ''Block''"
  shows "data_written cx data pvc pod"
  unfolding data_written_def Let_def if_not_P [OF assms(2)]
  by (intro exI [of _ "wd_ext w"]) (use assms(1) in \<open>auto simp: writeDataToPod_def io_bind_Inr call_results\<close>)

lemma snapshot_round_verified:
  assumes "snapshot_round api cx request pvc storageClass pod i w = Some (Inr u, w')"
  shows "\<exists>data. data_written cx data pvc pod \<and> restore_verified cx (cl_Request (so_Claim pvc)) data (pod_Namespace pod)
    (csr_SnapshotclassName request) (csr_RestoredPVCName request @ show_nat i) (csr_OriginalPVCName request)"
proof (cases "cl_VolumeMode (so_Claim pvc) = Some ''Block''")
  case True
  with assms obtain w1 where "writeRawBlockDataToPod api cx raw_data (pod_Name pod) (pod_Namespace pod) (fst (GetAppDataDir (pod_Namespace pod))) w = Some (Inr (), w1)"
      "snapshotAndVerify api cx (cl_Request (so_Claim pvc)) raw_data (csr_SnapName request @ show_nat i) (pod_Namespace pod) storageClass
        (csr_SnapshotclassName request) (csr_RestoredPVCName request @ show_nat i) (csr_OriginalPVCName request) w1 = Some (Inr u, w')"
    by (auto simp: snapshot_round_def Let_def io_bind_Inr call_results)
  with raw_written [OF this(1) True] snapshot_verified [OF this(2)] show ?thesis
    by blast
next
  case False
  with assms obtain data w0 w1 where "writeDataToPod api cx data (pod_Name pod) (pod_Namespace pod) (fst (GetAppDataDir (pod_Namespace pod))) w0 = Some (Inr (), w1)"
      "snapshotAndVerify api cx (cl_Request (so_Claim pvc)) data (csr_SnapName request @ show_nat i) (pod_Namespace pod) storageClass
        (csr_SnapshotclassName request) (csr_RestoredPVCName request @ show_nat i) (csr_OriginalPVCName request) w1 = Some (Inr u, w')"
    by (auto simp: snapshot_round_def Let_def io_bind_Inr call_results)
  with file_written [OF this(1) False] snapshot_verified [OF this(2)] show ?thesis
    by blast
qed

text \<open>C9: A snapshot test that succeeds has shown that snapshots keep data, three times: data were written to the volume in a pod that uses the claim, a snapshot of the claim was created and seen ready, a claim of the same size was created from it, became bound and was mounted in a new pod that ran, the data were found there (exactly, for a block volume, and within the file otherwise), and that pod was afterwards gone.\<close>

theorem snapshot_test_verified:
  "case CSISnapshotTest api va cx request w of
     Some (Inr _, _) \<Rightarrow> \<exists>pvc pod x.
       fst (api_Get api PersistentVolumeClaim (csr_OriginalPVCName request) (csr_Namespace request) x) = (Some pvc, None) \<and>
       list_all (\<lambda>i. \<exists>data. data_written cx data pvc pod \<and> restore_verified cx (cl_Request (so_Claim pvc)) data (pod_Namespace pod)
         (csr_SnapshotclassName request) (csr_RestoredPVCName request @ show_nat i) (csr_OriginalPVCName request)) [0, 1, 2]
   | _ \<Rightarrow> True"
proof (rule on_success, goal_cases)
  case (1 u w')
  then obtain pvc w1 storageClass pod w2 where run: "claim_unchecked api (csr_OriginalPVCName request) (csr_Namespace request) w = Some (Inr pvc, w1)"
      "io_foreach (snapshot_round api cx request pvc storageClass pod) [0, 1, 2] w2 = Some (Inr u, w')"
    unfolding CSISnapshotTest_def io_bind_Inr split_paired_Ex prod.case by (elim exE conjE) (rule that)
  obtain pvc0 where pvc0: "fst (api_Get api PersistentVolumeClaim (csr_OriginalPVCName request) (csr_Namespace request) (wd_ext w)) = (Some pvc0, None)"
      "pvc = pvc0\<lparr>so_type := PersistentVolumeClaim\<rparr>"
    using run(1) by (auto simp: claim_unchecked_def io_bind_Inr raw_call_def through_def split: prod.splits option.splits)
  have "\<exists>v v'. snapshot_round api cx request pvc storageClass pod i v = Some (Inr (), v')" if "i \<in> set [0, 1, 2]" for i
    using io_foreach_Inr [where I = "\<lambda>_. True", OF _ TrueI run(2)] that by (auto simp: keeps_def)
  then have "list_all (\<lambda>i. \<exists>data. data_written cx data pvc pod \<and> restore_verified cx (cl_Request (so_Claim pvc)) data (pod_Namespace pod)
         (csr_SnapshotclassName request) (csr_RestoredPVCName request @ show_nat i) (csr_OriginalPVCName request)) [0, 1, 2]"
    unfolding list_all_iff using snapshot_round_verified by blast
  with pvc0(1) show ?case
    unfolding pvc0(2) data_written_type by (intro exI conjI)
qed

end
