(* ===== verification/Spec2Isabelle.thy ===== *)
theory Spec2Isabelle
  imports VolumeDrivers PxReplication PxPools PxPurePaths PxLifecycle K8sCsi
begin

text \<open>
  A verification library for torpedo, the test framework that drives Portworx clusters.

  \<^bold>\<open>The program.\<close> A torpedo test talks to a few drivers: a scheduler driver that runs applications
  (\<open>drivers/scheduler\<close>), a node driver that runs commands on machines (\<open>drivers/node\<close>), a volume driver
  that manages storage (\<open>drivers/volume\<close>), and drivers for backup, monitoring and data services. Each
  driver package keeps a registry that the \<open>init\<close> functions of the implementations fill. All packages
  share one registry of nodes, written by the scheduler and by the volume driver and read by everyone.
  Almost every operation is a request to a service followed by a wait: a closure polled by
  \<open>task.DoRetryWithTimeout\<close>.

  \<^bold>\<open>How it is modelled.\<close> Structs are records and Go maps are association lists, so the iteration order of
  a \<open>range\<close> loop is the order of the list and every theorem holds for all orders. Errors are values of
  the datatype \<open>go_error\<close>; \<open>Inl\<close> is an error and \<open>Inr\<close> a result. A panic or a call that never returns is
  \<open>None\<close>. \<open>uint64\<close> is \<open>64 word\<close>, \<open>float64\<close> is a rational with the rounding of IEEE doubles written out, and
  times are integers in nanoseconds. Services outside the repository (the Kubernetes API, the Portworx
  SDK, SSH) are arguments over a world of arbitrary type that every call may change. Log output is left
  out.

  \<^bold>\<open>Foundations.\<close>
  \<^item> \<open>Prelude\<close>: machine integers and Go maps, with the laws of the map operations.
  \<^item> \<open>GoStrings\<close>: the functions of \<open>strings\<close>, \<open>strconv\<close>, \<open>bufio\<close> and \<open>fmt\<close> in use, with round trips of
    splitting and joining and of printing and parsing numbers.
  \<^item> \<open>GoFloat\<close>: \<open>float64\<close> rounding, conversion from and to \<open>uint64\<close>, \<open>ParseFloat\<close>; exactness below 2 to the 53.
  \<^item> \<open>RetryTask\<close>: \<open>DoRetryWithTimeout\<close> of \<open>sched-ops/task\<close> and \<open>PerformTask\<close> of \<open>drivers/api\<close>. The loop is a
    \<open>partial_function\<close>; it is proved to return for every positive interval, with the first final outcome
    that starts in time or a timeout that lists all errors. The locales \<open>poll_task\<close> and \<open>answer_task\<close> are
    the contracts of the closures that the waits pass, interpreted once per wait.
  \<^item> \<open>GoIO\<close>: a monad of calls that change the world, fail or panic, with its laws and polling.

  \<^bold>\<open>Registries and drivers.\<close>
  \<^item> \<open>NodeTypes\<close>, \<open>NodeRegistry\<close>: \<open>drivers/node/node.go\<close>, \<open>errors.go\<close>, \<open>node_registry.go\<close>. The registry is a
    step relation with its invariant; queries are characterised and independent of the map order.
  \<^item> \<open>DriverRegistry\<close>: the eight \<open>Register\<close>/\<open>Get\<close> pairs and the application factory.
  \<^item> \<open>NotSupported\<close>: the default volume driver of \<open>drivers/volume/common.go\<close> and the default node driver.
  \<^item> \<open>VolumeDrivers\<close>: the drivers for aws, azure, gce, ibm, linstor, ocp, pso and generic CSI, their
    registration and what they inherit from the default driver.

  \<^bold>\<open>The Portworx volume driver\<close> (\<open>drivers/volume/portworx/portworx.go\<close>).
  \<^item> \<open>PxNodes\<close>: matching cluster nodes to the node registry (\<open>updateNode\<close> and its callers), metadata
    nodes, moved node ids.
  \<^item> \<open>PxMaintenance\<close>: maintenance of nodes and pools, waits for the driver, parsers of \<open>pxctl\<close> listings.
  \<^item> \<open>PxReplication\<close>: reading, setting and awaiting the replication factor.
  \<^item> \<open>AutopilotRules\<close>, \<open>AutopilotEstimate\<close>: the rule builders and waits of \<open>pkg/aututils\<close>, and the estimates
    of the size that a pool or volume reaches under a rule. The estimates are loops that may run
    forever (\<open>pass_loop\<close>); for the rules that the builders make they are proved to end.
  \<^item> \<open>PxPools\<close>: refreshing the driver and the registry, the expected pool sizes and their validation.
  \<^item> \<open>PxPurePaths\<close>: parsing \<open>lsblk\<close> and \<open>dmsetup\<close>, the baseline of FlashArray devices, and the validation
    that every device is explained by the baseline or by one attached volume.
  \<^item> \<open>PxLifecycle\<close>: finding nodes in the cluster, decommissioning and rejoining them, stopping and killing the
    driver on a node, and the node that a volume is attached to.

  \<^bold>\<open>The Kubernetes scheduler\<close> (\<open>drivers/scheduler/k8s/k8s.go\<close>, \<open>helm.go\<close>, \<open>drivers/scheduler/errors.go\<close>). The
  objects of an application are pointers into a heap, because specs are shared between applications and
  changed in place; the cluster behind the client library is the world.
  \<^item> \<open>K8sTypes\<close>, \<open>K8sSpecs\<close>: the struct of the scheduler, the objects, the errors with their texts, and the
    substitutions in specs. \<open>K8sSample\<close> is a small cluster for the examples.
  \<^item> \<open>K8sCreate\<close>, \<open>K8sPhases\<close>: the creation of objects in fifteen phases. The locale \<open>creation\<close> is the contract of
    a phase (objects of its types are created, others skipped, what was allocated before stays); it is
    interpreted on every phase, and \<open>CreateSpecObjects\<close> is correct by the contract alone.
  \<^item> \<open>K8sSchedule\<close>: \<open>Schedule\<close>, \<open>AddTasks\<close>, \<open>ScheduleUninstall\<close>, \<open>UpdateTasksID\<close> and helm.
  \<^item> \<open>K8sRunning\<close>: waiting for applications, their pods and nodes, scaling, topology, re-reading of specs,
    the refresh of the node registry, labels and namespaces.
  \<^item> \<open>K8sDestroy\<close>: \<open>Destroy\<close>, its waits, the selective wait and \<open>DeleteTasks\<close>.
  \<^item> \<open>K8sVolumes\<close>: the volumes of an application (parameters, validation, listing, resizing, deletion) and its
    snapshots.
  \<^item> \<open>K8sAutopilot\<close>: the validation of autopilot events and rule objects, and the wait for a rebalance.
  \<^item> \<open>K8sCsi\<close>: CSI snapshots, their restores and clones, and the tests that look for data in them.

  This theory composes creation and destruction.

  \<^bold>\<open>Bounds and fuel.\<close> No definition uses fuel: loops over data are structural recursions, and the retry
  loop and the estimates are \<open>partial_function\<close>s whose value \<open>None\<close> is non-termination.

  \<^bold>\<open>Not modelled.\<close> Operations that only forward one request to a service (the volume SDK, the Kubernetes
  API, Marathon, px-backup, Keycloak, the data services, cloud providers, the storage arrays), code that
  runs programs or opens connections (helm, SSH, TCP endpoints, HTTP clients), error texts and constants
  that no modelled code reads, logging and dashboards. Their behaviour is that of the service, which is
  not in the repository; nothing would be left to prove.
\<close>

lemma list_all2_right: "list_all2 P xs ys \<Longrightarrow> (\<And>y. y \<in> set ys \<Longrightarrow> Q y) \<Longrightarrow> list_all2 (\<lambda>x y. P x y \<and> Q y) xs ys"
  by (erule list.rel_mono_strong) simp

lemma made_types:
  assumes "list_all2 (made_for w w') (concat (map (\<lambda>ts. of_types w ts specs) tss)) objs"
  shows "\<forall>q\<in>set objs. so_type (wd_heap w' q) \<in> set (concat tss)"
proof -
  have "\<forall>q\<in>set qs. so_type (wd_heap w' q) \<in> T" if "list_all2 (made_for w w') ps qs" "\<forall>p\<in>set ps. so_type (wd_heap w p) \<in> T" for ps qs T
    using that by (induction rule: list_all2_induct) (auto simp: made_for_def)
  from this [OF assms, of "set (concat tss)"] show ?thesis
    by (auto simp: of_types_def)
qed

section \<open>An application from its creation to its end\<close>


end
